(* ===== verification/SDL_Prelude.thy ===== *)
theory SDL_Prelude
  imports Main "HOL-Library.AList" "HOL-Library.Word" "HOL-Library.Sublist"
    "HOL-Library.Char_ord" "HOL-Library.List_Lexorder" "HOL-Library.Product_Lexorder"
    "HOL-Library.Multiset"
begin

text \<open>
  Shared vocabulary of the development: the parts of the Go language and of its standard
  library that the control plane uses, and the generic lemmas the component theories rely on.

  \<^item> Go maps are association lists (\<open>gomap\<close>). The list order stands for the order in which
    \<^verbatim>\<open>range\<close> visits the map. Go leaves that order open; every theorem of the development is
    stated for an arbitrary list, hence for every order. \<open>gwf\<close> says that no key occurs twice.
  \<^item> Go strings are byte sequences, here \<^typ>\<open>string\<close>. \<open>TrimSpace\<close> strips exactly the byte
    sequences that encode a Unicode white-space character. \<open>ToLower\<close> and \<open>EqualFold\<close>
    act on ASCII letters; other bytes are compared as they are.
  \<^item> Go times are nanoseconds since the Unix epoch, as \<^typ>\<open>int\<close>. Every function that calls
    \<^verbatim>\<open>time.Now()\<close> takes the instant as an argument.
  \<^item> Errors are \<open>string + 'a\<close>, with the message of \<^verbatim>\<open>fmt.Errorf\<close> on the left.
\<close>

named_theorems gomap_simps \<open>lookup laws of Go maps\<close>
named_theorems gwf_intros \<open>operations that keep the keys of a Go map distinct\<close>

section \<open>Machine integers and results\<close>

type_synonym u8 = "8 word"
type_synonym u16 = "16 word"
type_synonym u32 = "32 word"
type_synonym u64 = "64 word"
type_synonym bytes = "u8 list"
type_synonym 'a result = "string + 'a"
type_synonym gtime = int

section \<open>Go maps\<close>

type_synonym ('k, 'v) gomap = "('k \<times> 'v) list"

abbreviation gget :: "('k, 'v) gomap \<Rightarrow> 'k \<Rightarrow> 'v option" where
  "gget m k \<equiv> map_of m k"

abbreviation gput :: "'k \<Rightarrow> 'v \<Rightarrow> ('k, 'v) gomap \<Rightarrow> ('k, 'v) gomap" where
  "gput k v m \<equiv> AList.update k v m"

abbreviation gdel :: "'k \<Rightarrow> ('k, 'v) gomap \<Rightarrow> ('k, 'v) gomap" where
  "gdel k m \<equiv> AList.delete k m"

text \<open>A \<^verbatim>\<open>range\<close> loop that deletes the entries failing \<open>P\<close>.\<close>

definition gfilter :: "('k \<Rightarrow> 'v \<Rightarrow> bool) \<Rightarrow> ('k, 'v) gomap \<Rightarrow> ('k, 'v) gomap" where
  "gfilter P m = filter (\<lambda>(k, v). P k v) m"

text \<open>A \<^verbatim>\<open>range\<close> loop that rewrites each value in place.\<close>

definition gmapv :: "('k \<Rightarrow> 'v \<Rightarrow> 'v) \<Rightarrow> ('k, 'v) gomap \<Rightarrow> ('k, 'v) gomap" where
  "gmapv f m = map (\<lambda>(k, v). (k, f k v)) m"

definition gwf :: "('k, 'v) gomap \<Rightarrow> bool" where
  "gwf m \<longleftrightarrow> distinct (map fst m)"

lemma gget_put [gomap_simps, simp]:
  "gget (gput k v m) k' = (if k' = k then Some v else gget m k')"
  by (simp add: update_conv)

lemma gget_del [gomap_simps, simp]:
  "gget (gdel k m) k' = (if k' = k then None else gget m k')"
  by (simp add: delete_conv)

lemma gget_gmapv [gomap_simps, simp]:
  "gget (gmapv f m) k = map_option (f k) (gget m k)"
  by (induction m) (auto simp: gmapv_def)

lemma gwf_Nil [gwf_intros, simp]: "gwf []"
  by (simp add: gwf_def)

lemma gwf_put [gwf_intros]: "gwf m \<Longrightarrow> gwf (gput k v m)"
  by (simp add: gwf_def distinct_update)

lemma gwf_del [gwf_intros]: "gwf m \<Longrightarrow> gwf (gdel k m)"
  by (simp add: gwf_def distinct_delete)

lemma gwf_gfilter [gwf_intros]: "gwf m \<Longrightarrow> gwf (gfilter P m)"
  by (simp add: gwf_def gfilter_def distinct_map_filter)

lemma map_fst_gmapv [simp]: "map fst (gmapv f m) = map fst m"
  by (induction m) (auto simp: gmapv_def)

lemma gwf_gmapv [gwf_intros]: "gwf m \<Longrightarrow> gwf (gmapv f m)"
  by (simp add: gwf_def)

lemma gget_gfilter [gomap_simps]:
  "gwf m \<Longrightarrow> gget (gfilter P m) k =
     (case gget m k of None \<Rightarrow> None | Some v \<Rightarrow> if P k v then Some v else None)"
proof (induction m)
  case Nil
  then show ?case by (simp add: gfilter_def)
next
  case (Cons kv m)
  obtain k' v' where kv: "kv = (k', v')" by (cases kv)
  from Cons.prems kv have wf: "gwf m" and fresh: "k' \<notin> fst ` set m"
    by (auto simp: gwf_def)
  have none: "gget m k' = None"
    using fresh by (simp add: map_of_eq_None_iff)
  show ?case
    using Cons.IH [OF wf] none kv by (auto simp: gfilter_def split: option.splits)
qed

lemma gget_gfilter_Some:
  assumes "gwf m" and "gget (gfilter P m) k = Some v"
  shows "gget m k = Some v \<and> P k v"
  using assms by (auto simp: gget_gfilter split: option.splits if_splits)

lemma gget_Some_in: "gget m k = Some v \<Longrightarrow> (k, v) \<in> set m"
  by (rule map_of_SomeD)

lemma gget_iff: "gwf m \<Longrightarrow> gget m k = Some v \<longleftrightarrow> (k, v) \<in> set m"
  by (auto simp: gwf_def intro: map_of_is_SomeI dest: map_of_SomeD)

lemma gget_None_iff: "gget m k = None \<longleftrightarrow> k \<notin> fst ` set m"
  by (rule map_of_eq_None_iff)

lemma gget_del_idle: "gget m k = None \<Longrightarrow> gget (gdel k m) = gget m"
  by (auto simp: fun_eq_iff)

text \<open>Two well-formed maps with the same lookups hold the same entries, in some order.\<close>

lemma gget_list_all2:
  assumes "map fst ys = map fst xs" and "list_all2 (\<lambda>(_, a) (_, b). R a b) xs ys" and "gget xs k = Some a"
  shows "\<exists>b. gget ys k = Some b \<and> R a b"
  using assms(2,1,3) by (induction rule: list_all2_induct) (auto split: if_splits)

lemma gwf_same_lookup_set:
  assumes "gwf m" and "gwf m'" and "gget m = gget m'"
  shows "set m = set m'"
  using assms gget_iff by (metis (no_types, lifting) subsetI subset_antisym surj_pair)

lemma gwf_same_lookup_mset:
  assumes "gwf m" and "gwf m'" and "gget m = gget m'"
  shows "mset m = mset m'"
proof -
  have "distinct m" and "distinct m'"
    using assms(1,2) by (auto simp: gwf_def distinct_map)
  then show ?thesis
    using gwf_same_lookup_set [OF assms] by (simp add: set_eq_iff_mset_eq_distinct)
qed

section \<open>Go strings\<close>

definition HasPrefix :: "string \<Rightarrow> string \<Rightarrow> bool" where
  "HasPrefix s p = prefix p s"

definition HasSuffix :: "string \<Rightarrow> string \<Rightarrow> bool" where
  "HasSuffix s p = suffix p s"

definition TrimPrefix :: "string \<Rightarrow> string \<Rightarrow> string" where
  "TrimPrefix s p = (if prefix p s then drop (length p) s else s)"

definition TrimSuffix :: "string \<Rightarrow> string \<Rightarrow> string" where
  "TrimSuffix s p = (if suffix p s then take (length s - length p) s else s)"

fun Contains :: "string \<Rightarrow> string \<Rightarrow> bool" where
  "Contains [] sub = (sub = [])"
| "Contains (c # s) sub = (prefix sub (c # s) \<or> Contains s sub)"

text \<open>\<^verbatim>\<open>strings.Cut\<close> at a one-byte separator.\<close>

fun Cut :: "string \<Rightarrow> char \<Rightarrow> (string \<times> string) option" where
  "Cut [] sep = None"
| "Cut (c # s) sep =
     (if c = sep then Some ([], s)
      else map_option (\<lambda>(a, b). (c # a, b)) (Cut s sep))"

fun JoinStrings :: "string list \<Rightarrow> string \<Rightarrow> string" where
  "JoinStrings [] sep = []"
| "JoinStrings [x] sep = x"
| "JoinStrings (x # y # xs) sep = x @ sep @ JoinStrings (y # xs) sep"

text \<open>
  The UTF-8 encodings of the characters for which \<^verbatim>\<open>unicode.IsSpace\<close> holds.
\<close>

definition space_seqs :: "string list" where
  "space_seqs =
     [[CHR 0x20], [CHR 0x09], [CHR 0x0A], [CHR 0x0B], [CHR 0x0C], [CHR 0x0D],
      [CHR 0xC2, CHR 0x85], [CHR 0xC2, CHR 0xA0], [CHR 0xE1, CHR 0x9A, CHR 0x80],
      [CHR 0xE2, CHR 0x80, CHR 0x80], [CHR 0xE2, CHR 0x80, CHR 0x81],
      [CHR 0xE2, CHR 0x80, CHR 0x82], [CHR 0xE2, CHR 0x80, CHR 0x83],
      [CHR 0xE2, CHR 0x80, CHR 0x84], [CHR 0xE2, CHR 0x80, CHR 0x85],
      [CHR 0xE2, CHR 0x80, CHR 0x86], [CHR 0xE2, CHR 0x80, CHR 0x87],
      [CHR 0xE2, CHR 0x80, CHR 0x88], [CHR 0xE2, CHR 0x80, CHR 0x89],
      [CHR 0xE2, CHR 0x80, CHR 0x8A], [CHR 0xE2, CHR 0x80, CHR 0xA8],
      [CHR 0xE2, CHR 0x80, CHR 0xA9], [CHR 0xE2, CHR 0x80, CHR 0xAF],
      [CHR 0xE2, CHR 0x81, CHR 0x9F], [CHR 0xE3, CHR 0x80, CHR 0x80]]"

function strip_tokens :: "string list \<Rightarrow> string \<Rightarrow> string" where
  "strip_tokens toks s =
     (case find (\<lambda>t. t \<noteq> [] \<and> prefix t s) toks of
        None \<Rightarrow> s
      | Some t \<Rightarrow> strip_tokens toks (drop (length t) s))"
  by pat_completeness auto
termination
  by (relation "measure (\<lambda>(toks, s). length s)") (auto simp: find_Some_iff prefix_def)

declare strip_tokens.simps [simp del]

definition TrimSpace :: "string \<Rightarrow> string" where
  "TrimSpace s =
     rev (strip_tokens (map rev space_seqs) (rev (strip_tokens space_seqs s)))"

definition ascii_lower :: "char \<Rightarrow> char" where
  "ascii_lower c = (if CHR ''A'' \<le> c \<and> c \<le> CHR ''Z'' then char_of (of_char c + 32 :: nat) else c)"

definition ToLower :: "string \<Rightarrow> string" where
  "ToLower s = map ascii_lower s"

definition EqualFold :: "string \<Rightarrow> string \<Rightarrow> bool" where
  "EqualFold a b \<longleftrightarrow> ToLower a = ToLower b"

subsection \<open>Trimming\<close>

lemma strip_tokens_suffix: "suffix (strip_tokens toks s) s"
proof (induction toks s rule: strip_tokens.induct)
  case (1 toks s)
  show ?case
  proof (cases "find (\<lambda>t. t \<noteq> [] \<and> prefix t s) toks")
    case None
    then show ?thesis by (subst strip_tokens.simps) simp
  next
    case (Some t)
    have "suffix (strip_tokens toks (drop (length t) s)) (drop (length t) s)"
      by (rule "1.IH" [OF Some])
    then have "suffix (strip_tokens toks (drop (length t) s)) s"
      using suffix_drop suffix_order.trans by blast
    with Some show ?thesis by (subst strip_tokens.simps) simp
  qed
qed

lemma strip_tokens_done: "find (\<lambda>t. t \<noteq> [] \<and> prefix t (strip_tokens toks s)) toks = None"
proof (induction toks s rule: strip_tokens.induct)
  case (1 toks s)
  show ?case
  proof (cases "find (\<lambda>t. t \<noteq> [] \<and> prefix t s) toks")
    case None
    then show ?thesis by (simp add: strip_tokens.simps [of toks s])
  next
    case (Some t)
    then show ?thesis using "1.IH" [OF Some] by (simp add: strip_tokens.simps [of toks s])
  qed
qed

lemma strip_tokens_fix: "find (\<lambda>t. t \<noteq> [] \<and> prefix t s) toks = None \<Longrightarrow> strip_tokens toks s = s"
  by (subst strip_tokens.simps) simp

lemma strip_tokens_prefix_closed:
  assumes "find (\<lambda>t. t \<noteq> [] \<and> prefix t s) toks = None" and "prefix r s"
  shows "find (\<lambda>t. t \<noteq> [] \<and> prefix t r) toks = None"
  using assms prefix_order.trans by (fastforce simp: find_None_iff)

lemma strip_tokens_in:
  assumes "x \<in> set s" and "\<forall>t \<in> set toks. x \<notin> set t"
  shows "x \<in> set (strip_tokens toks s)"
  using assms
proof (induction toks s rule: strip_tokens.induct)
  case (1 toks s)
  show ?case
  proof (cases "find (\<lambda>t. t \<noteq> [] \<and> prefix t s) toks")
    case None
    then show ?thesis using 1 by (simp add: strip_tokens_fix)
  next
    case (Some t)
    then have t: "t \<in> set toks" "prefix t s" by (auto simp: find_Some_iff)
    then have "x \<in> set (drop (length t) s)" using 1 by (auto simp: prefix_def)
    then show ?thesis using 1(1) [OF Some] 1(3) Some by (simp add: strip_tokens.simps [of toks s])
  qed
qed

lemma TrimSpace_idem [simp]: "TrimSpace (TrimSpace s) = TrimSpace s"
proof -
  let ?l = "strip_tokens space_seqs s"
  let ?r = "strip_tokens (map rev space_seqs) (rev ?l)"
  have "suffix ?r (rev ?l)" by (rule strip_tokens_suffix)
  then have pre: "prefix (rev ?r) ?l" by (simp add: suffix_to_prefix)
  have "find (\<lambda>t. t \<noteq> [] \<and> prefix t (rev ?r)) space_seqs = None"
    by (rule strip_tokens_prefix_closed [OF strip_tokens_done pre])
  then have left: "strip_tokens space_seqs (rev ?r) = rev ?r" by (rule strip_tokens_fix)
  have "strip_tokens (map rev space_seqs) ?r = ?r"
    by (rule strip_tokens_fix [OF strip_tokens_done])
  with left show ?thesis by (simp add: TrimSpace_def)
qed

text \<open>A character that is part of no white space stays.\<close>

lemma TrimSpace_keeps:
  assumes "x \<in> set s" and "\<forall>t \<in> set space_seqs. x \<notin> set t"
  shows "x \<in> set (TrimSpace s)"
  using assms by (simp add: TrimSpace_def strip_tokens_in)

lemma TrimSpace_Nil [simp]: "TrimSpace [] = []"
proof -
  have "strip_tokens toks [] = []" for toks
    using strip_tokens_suffix [of toks "[]"] by simp
  then show ?thesis by (simp add: TrimSpace_def)
qed

text \<open>Trimming never lengthens a string.\<close>

lemma length_TrimSpace_le: "length (TrimSpace s) \<le> length s"
proof -
  have "length (strip_tokens toks x) \<le> length x" for toks x
    by (rule suffix_length_le [OF strip_tokens_suffix])
  then show ?thesis
    unfolding TrimSpace_def by (metis length_rev order_trans)
qed

lemma EqualFold_refl [simp]: "EqualFold a a"
  by (simp add: EqualFold_def)

lemma EqualFold_sym: "EqualFold a b \<Longrightarrow> EqualFold b a"
  by (simp add: EqualFold_def)

lemma EqualFold_trans: "EqualFold a b \<Longrightarrow> EqualFold b c \<Longrightarrow> EqualFold a c"
  by (simp add: EqualFold_def)

section \<open>Numbers in text\<close>

text \<open>\<^verbatim>\<open>%d\<close> of an unsigned value, \<^verbatim>\<open>strconv.FormatUint\<close> in base 10.\<close>

definition digit_char :: "nat \<Rightarrow> char" where
  "digit_char d = char_of (48 + d)"

fun show_nat :: "nat \<Rightarrow> string" where
  "show_nat n = (if n < 10 then [digit_char n]
                 else show_nat (n div 10) @ [digit_char (n mod 10)])"

declare show_nat.simps [simp del]

definition show_word :: "'a::len word \<Rightarrow> string" where
  "show_word w = show_nat (unat w)"

text \<open>Evaluation of \<^const>\<open>show_word\<close> works on binary integers.\<close>

function show_digits :: "int \<Rightarrow> string" where
  "show_digits i = (if i < 10 then [digit_char (nat i)] else show_digits (i div 10) @ [digit_char (nat (i mod 10))])"
  by pat_completeness auto
termination by (relation "measure nat") auto

declare show_digits.simps [simp del]

lemma show_digits_nat: "show_digits (int n) = show_nat n"
proof (induction n rule: show_nat.induct)
  case (1 n)
  then show ?case
    by (subst show_digits.simps, subst show_nat.simps) (simp add: zdiv_int nat_mod_distrib)
qed

lemma show_word_code [code]: "show_word w = show_digits (uint w)"
  by (simp add: show_word_def show_digits_nat [symmetric])

definition show_int :: "int \<Rightarrow> string" where
  "show_int i = (if i < 0 then CHR ''-'' # show_nat (nat (- i)) else show_nat (nat i))"

definition digit_val :: "char \<Rightarrow> nat" where
  "digit_val c = of_char c - 48"

definition is_digit :: "char \<Rightarrow> bool" where
  "is_digit c \<longleftrightarrow> CHR ''0'' \<le> c \<and> c \<le> CHR ''9''"

definition read_nat :: "string \<Rightarrow> nat" where
  "read_nat s = foldl (\<lambda>acc c. acc * 10 + digit_val c) 0 s"

text \<open>\<^verbatim>\<open>strconv.ParseUint(s, 10, bits)\<close>: \<^term>\<open>None\<close> for a syntax or a range error.\<close>

definition ParseUint :: "string \<Rightarrow> nat \<Rightarrow> nat option" where
  "ParseUint s bits =
     (if s = [] \<or> \<not> list_all is_digit s then None
      else if read_nat s < 2 ^ bits then Some (read_nat s) else None)"

lemma digit_val_char: "d < 10 \<Longrightarrow> digit_val (digit_char d) = d"
  by (simp add: digit_val_def digit_char_def of_char_of)

lemma is_digit_char: "d < 10 \<Longrightarrow> is_digit (digit_char d)"
  by (simp add: is_digit_def digit_char_def less_eq_char_def of_char_of)

lemma read_nat_snoc: "read_nat (s @ [c]) = read_nat s * 10 + digit_val c"
  by (simp add: read_nat_def)

lemma read_show_nat [simp]: "read_nat (show_nat n) = n"
proof (induction n rule: show_nat.induct)
  case (1 n)
  show ?case
  proof (cases "n < 10")
    case True
    then show ?thesis
      by (simp add: show_nat.simps [of n] read_nat_def digit_val_char)
  next
    case False
    then have "read_nat (show_nat (n div 10)) = n div 10" by (rule "1.IH")
    with False show ?thesis
      by (simp add: show_nat.simps [of n] read_nat_snoc digit_val_char)
  qed
qed

lemma show_nat_inj [simp]: "show_nat m = show_nat n \<longleftrightarrow> m = n"
  using read_show_nat by metis

lemma show_word_inj [simp]: "show_word v = show_word w \<longleftrightarrow> v = w"
  by (simp add: show_word_def word_unat_eq_iff)

lemma show_nat_digits: "c \<in> set (show_nat n) \<Longrightarrow> is_digit c"
proof (induction n rule: show_nat.induct)
  case (1 n)
  then show ?case
    by (cases "n < 10") (auto simp: show_nat.simps [of n] is_digit_char)
qed

lemma show_word_digits: "c \<in> set (show_word w) \<Longrightarrow> is_digit c"
  by (auto simp: show_word_def dest: show_nat_digits)

lemma show_nat_not_Nil [simp]: "show_nat n \<noteq> []"
  by (simp add: show_nat.simps [of n])

lemma not_digit_chars [simp]:
  "\<not> is_digit (CHR ''|'')" "\<not> is_digit (CHR '':'')" "\<not> is_digit (CHR ''-'')"
  "\<not> is_digit (CHR ''.'')" "\<not> is_digit (CHR ''@'')"
  by (simp_all add: is_digit_def less_eq_char_def)

lemma ParseUint_show_word: "LENGTH('a) \<le> bits \<Longrightarrow>
    ParseUint (show_word (w :: 'a::len word)) bits = Some (unat w)"
proof -
  assume le: "LENGTH('a) \<le> bits"
  have "unat w < 2 ^ LENGTH('a)" by (rule unsigned_less)
  also have "\<dots> \<le> 2 ^ bits" using le by (simp add: power_increasing)
  finally have "unat w < 2 ^ bits" .
  moreover have "list_all is_digit (show_word w)"
    by (simp add: list_all_iff show_word_digits)
  ultimately show ?thesis by (simp add: ParseUint_def show_word_def)
qed

text \<open>
  Keys glued from parts: a part free of the separator can be read back, so the gluing is
  injective on such parts.
\<close>

lemma sep_append_inj:
  assumes "c \<notin> set a" and "c \<notin> set a'"
  shows "a @ c # b = a' @ c # b' \<longleftrightarrow> a = a' \<and> b = b'"
  using assms
proof (induction a arbitrary: a')
  case Nil
  then show ?case by (cases a') auto
next
  case (Cons x a)
  then show ?case by (cases a') auto
qed

lemma sep_append_inj_right:
  assumes "c \<notin> set b" and "c \<notin> set b'"
  shows "a @ c # b = a' @ c # b' \<longleftrightarrow> a = a' \<and> b = b'"
proof -
  have "a @ c # b = a' @ c # b' \<longleftrightarrow> rev (a @ c # b) = rev (a' @ c # b')"
    by (simp only: rev_is_rev_conv)
  also have "\<dots> \<longleftrightarrow> rev b @ c # rev a = rev b' @ c # rev a'"
    by simp
  also have "\<dots> \<longleftrightarrow> a = a' \<and> b = b'"
    using assms sep_append_inj [of c "rev b" "rev b'" "rev a" "rev a'"] by auto
  finally show ?thesis .
qed

lemma Cut_append: "sep \<notin> set a \<Longrightarrow> Cut (a @ sep # b) sep = Some (a, b)"
  by (induction a) auto

section \<open>Hexadecimal text\<close>

definition hex_digit :: "nat \<Rightarrow> char" where
  "hex_digit d = (if d < 10 then char_of (48 + d) else char_of (87 + d))"

definition hex_byte :: "u8 \<Rightarrow> string" where
  "hex_byte b = [hex_digit (unat b div 16), hex_digit (unat b mod 16)]"

text \<open>\<^verbatim>\<open>hex.EncodeToString\<close>, also \<^verbatim>\<open>%x\<close> of a byte slice.\<close>

definition hex_encode :: "bytes \<Rightarrow> string" where
  "hex_encode bs = concat (map hex_byte bs)"

lemma of_char_hex_digit:
  "d < 16 \<Longrightarrow> (of_char (hex_digit d) :: nat) = (if d < 10 then 48 + d else 87 + d)"
  by (simp add: hex_digit_def of_char_of)

lemma hex_digit_inj:
  assumes "a < 16" and "b < 16"
  shows "hex_digit a = hex_digit b \<longleftrightarrow> a = b"
proof
  assume "hex_digit a = hex_digit b"
  then have "(of_char (hex_digit a) :: nat) = of_char (hex_digit b)" by simp
  then show "a = b"
    using assms by (simp add: of_char_hex_digit split: if_splits)
qed simp

lemma hex_byte_inj [simp]: "hex_byte a = hex_byte b \<longleftrightarrow> a = b"
proof
  assume eq: "hex_byte a = hex_byte b"
  have lt: "unat x < 256" for x :: u8
    using unsigned_less [of x, where 'a = nat] by simp
  have d: "unat x div 16 < 16" for x :: u8
    using lt [of x] by simp
  from eq have "unat a div 16 = unat b div 16" and "unat a mod 16 = unat b mod 16"
    using d by (simp_all add: hex_byte_def hex_digit_inj)
  then have "unat a = unat b"
    by (metis div_mult_mod_eq)
  then show "a = b" by (simp add: word_unat_eq_iff)
qed simp

lemma hex_encode_inj [simp]: "hex_encode a = hex_encode b \<longleftrightarrow> a = b"
proof
  assume "hex_encode a = hex_encode b"
  then show "a = b"
  proof (induction a arbitrary: b)
    case Nil
    then show ?case by (cases b) (auto simp: hex_encode_def hex_byte_def)
  next
    case (Cons x a)
    then obtain y b' where b: "b = y # b'"
      by (cases b) (auto simp: hex_encode_def hex_byte_def)
    from Cons.prems b have "hex_byte x = hex_byte y" and "hex_encode a = hex_encode b'"
      by (auto simp: hex_encode_def hex_byte_def)
    with Cons.IH b show ?case by simp
  qed
qed simp

section \<open>Go time\<close>

text \<open>
  \<^verbatim>\<open>time.Time\<close> as nanoseconds since the epoch; \<^verbatim>\<open>Unix\<close> and \<^verbatim>\<open>UnixMilli\<close> round down;
  \<^verbatim>\<open>Sub\<close> saturates at the bounds of \<^verbatim>\<open>time.Duration\<close>, an int64 of nanoseconds.
\<close>

definition Second :: int where "Second = 1000000000"

definition Millisecond :: int where "Millisecond = 1000000"

definition Unix :: "gtime \<Rightarrow> int" where "Unix t = t div Second"

definition UnixMilli :: "gtime \<Rightarrow> int" where "UnixMilli t = t div Millisecond"

definition time_of_UnixMilli :: "int \<Rightarrow> gtime" where "time_of_UnixMilli ms = ms * Millisecond"

definition time_Sub :: "gtime \<Rightarrow> gtime \<Rightarrow> int" where
  "time_Sub a b = max (- (2 ^ 63)) (min (2 ^ 63 - 1) (a - b))"

text \<open>The zero \<^verbatim>\<open>time.Time\<close> is January 1 of year 1.\<close>

definition zero_time :: gtime where "zero_time = - 62135596800 * Second"

definition IsZero_time :: "gtime \<Rightarrow> bool" where "IsZero_time t \<longleftrightarrow> t = zero_time"

lemmas time_defs = Second_def Millisecond_def Unix_def UnixMilli_def time_of_UnixMilli_def
  zero_time_def IsZero_time_def

lemma UnixMilli_of [simp]: "UnixMilli (time_of_UnixMilli ms) = ms"
  by (simp add: time_defs)

lemma UnixMilli_mono: "a \<le> b \<Longrightarrow> UnixMilli a \<le> UnixMilli b"
  by (simp add: time_defs zdiv_mono1)

lemma Unix_mono: "a \<le> b \<Longrightarrow> Unix a \<le> Unix b"
  by (simp add: time_defs zdiv_mono1)

lemma time_Sub_gt_iff: "- (2 ^ 63) \<le> d \<Longrightarrow> d < 2 ^ 63 - 1 \<Longrightarrow> time_Sub a b > d \<longleftrightarrow> a - b > d"
  by (auto simp: time_Sub_def)

section \<open>Trimming and numbers\<close>

lemma TrimSpace_no_space_prefix:
  assumes "t \<in> set space_seqs"
  shows "\<not> prefix t (TrimSpace s)"
proof
  assume p: "prefix t (TrimSpace s)"
  have ne: "t \<noteq> []" using assms by (auto simp: space_seqs_def)
  let ?l = "strip_tokens space_seqs s"
  have "prefix (TrimSpace s) ?l"
    using strip_tokens_suffix [of "map rev space_seqs" "rev ?l"] by (simp add: TrimSpace_def suffix_to_prefix)
  then have "prefix t ?l" using p prefix_order.trans by blast
  then show False using strip_tokens_done [of space_seqs s] assms ne by (auto simp: find_None_iff)
qed

lemma space_seqs_chars:
  assumes "t \<in> set space_seqs" and "c \<in> set t"
  shows "\<not> is_digit c" and "c \<noteq> CHR ''-''" and "c \<noteq> CHR ''.''"
  using assms by (auto simp: space_seqs_def is_digit_def less_eq_char_def)

lemma TrimSpace_suffix_number:
  assumes "TrimSpace s \<noteq> []"
  shows "TrimSpace (TrimSpace s @ ''-'' @ show_nat i) = TrimSpace s @ ''-'' @ show_nat i"
proof -
  let ?w = "TrimSpace s @ ''-'' @ show_nat i"
  have "\<not> prefix t ?w" if t: "t \<in> set space_seqs" for t
  proof
    assume "prefix t ?w"
    then consider "prefix t (TrimSpace s)" | u where "t = TrimSpace s @ u" "prefix u (''-'' @ show_nat i)" "u \<noteq> []"
      by (metis append_Nil2 prefix_append prefix_order.refl)
    then show False
    proof cases
      case 1
      then show ?thesis using TrimSpace_no_space_prefix [OF t] by blast
    next
      case 2
      then have "CHR ''-'' \<in> set t" by (cases u) auto
      then show ?thesis using space_seqs_chars [OF t] by blast
    qed
  qed
  then have l: "strip_tokens space_seqs ?w = ?w"
    by (intro strip_tokens_fix) (auto simp: find_None_iff)
  have "\<not> prefix t (rev ?w)" if t: "t \<in> set (map rev space_seqs)" "t \<noteq> []" for t
  proof
    assume "prefix t (rev ?w)"
    then obtain zs where "rev ?w = t @ zs" by (auto simp: prefix_def)
    then have "hd t = hd (rev ?w)" using t(2) by (metis hd_append2)
    also have "\<dots> = last (show_nat i)" by (simp add: hd_rev hd_append)
    finally have "hd t = last (show_nat i)" .
    then have "is_digit (hd t)" using show_nat_digits [of "last (show_nat i)" i] by simp
    moreover have "hd t \<in> set (rev t)" using t(2) by simp
    moreover have "rev t \<in> set space_seqs" using t(1) by auto
    ultimately show False using space_seqs_chars by blast
  qed
  then have "strip_tokens (map rev space_seqs) (rev ?w) = rev ?w"
    by (intro strip_tokens_fix) (auto simp: find_None_iff)
  then show ?thesis unfolding TrimSpace_def [of ?w] l by simp
qed

lemma ToLower_digits: "ToLower (show_nat i) = show_nat i"
proof -
  have "ascii_lower c = c" if "is_digit c" for c
    using that by (auto simp: ascii_lower_def is_digit_def less_eq_char_def)
  then show ?thesis using show_nat_digits by (auto simp: ToLower_def intro: map_idI)
qed

lemma ToLower_append [simp]: "ToLower (a @ b) = ToLower a @ ToLower b"
  by (simp add: ToLower_def)

section \<open>Big-endian words\<close>

definition be16 :: "u16 \<Rightarrow> bytes" where
  "be16 w = [ucast (drop_bit 8 w), ucast w]"

definition be32 :: "u32 \<Rightarrow> bytes" where
  "be32 w = [ucast (drop_bit 24 w), ucast (drop_bit 16 w), ucast (drop_bit 8 w), ucast w]"

definition of_be16 :: "u8 \<Rightarrow> u8 \<Rightarrow> u16" where
  "of_be16 a b = word_cat a b"

definition of_be32 :: "u8 \<Rightarrow> u8 \<Rightarrow> u8 \<Rightarrow> u8 \<Rightarrow> u32" where
  "of_be32 a b c d = word_cat (word_cat a b :: u16) (word_cat c d :: u16)"

lemma of_be16_be16 [simp]: "of_be16 (ucast (drop_bit 8 w)) (ucast w) = w"
  unfolding of_be16_def
  by (rule bit_word_eqI) (auto simp: bit_simps)

lemma of_be32_be32 [simp]:
  "of_be32 (ucast (drop_bit 24 w)) (ucast (drop_bit 16 w)) (ucast (drop_bit 8 w)) (ucast w) = w"
  unfolding of_be32_def
  by (rule bit_word_eqI) (auto simp: bit_simps)

lemma be16_of_be16 [simp]: "be16 (of_be16 a b) = [a, b]"
  unfolding of_be16_def be16_def
  by (auto intro!: bit_word_eqI simp: bit_simps)

lemma be32_of_be32 [simp]: "be32 (of_be32 a b c d) = [a, b, c, d]"
  unfolding of_be32_def be32_def
  by (auto intro!: bit_word_eqI simp: bit_simps)

lemma length_be [simp]: "length (be16 v) = 2" "length (be32 w) = 4"
  by (simp_all add: be16_def be32_def)

end
