(* ===== verification/Net_Addr.thy ===== *)
theory Net_Addr
  imports SDL_Prelude
begin

unbundle bit_operations_syntax

text \<open>
  Addresses. \<^verbatim>\<open>net.IP\<close> and \<^verbatim>\<open>net.IPMask\<close> are byte lists, with the empty list for a nil slice.
  The first section is the part of package \<^verbatim>\<open>net\<close> that the repository uses; the second is
  \<^verbatim>\<open>util/utils.go\<close> and the address arithmetic that \<^verbatim>\<open>control/controller.go\<close>,
  \<^verbatim>\<open>control/network.go\<close> and \<^verbatim>\<open>config/config.go\<close> share.
\<close>

section \<open>Package net\<close>

type_synonym netIP = bytes
type_synonym netMask = bytes

definition v4InV6Prefix :: bytes where
  "v4InV6Prefix = replicate 10 0 @ [0xFF, 0xFF]"

definition net_IPv4 :: "u8 \<Rightarrow> u8 \<Rightarrow> u8 \<Rightarrow> u8 \<Rightarrow> netIP" where
  "net_IPv4 a b c d = v4InV6Prefix @ [a, b, c, d]"

text \<open>\<^verbatim>\<open>IP.To4\<close>: \<^term>\<open>None\<close> is the nil result.\<close>

definition To4 :: "netIP \<Rightarrow> netIP option" where
  "To4 ip = (if length ip = 4 then Some ip
             else if length ip = 16 \<and> take 12 ip = v4InV6Prefix then Some (drop 12 ip)
             else None)"

definition To16 :: "netIP \<Rightarrow> netIP option" where
  "To16 ip = (if length ip = 4 then Some (v4InV6Prefix @ ip)
              else if length ip = 16 then Some ip else None)"

definition IP_Equal :: "netIP \<Rightarrow> netIP \<Rightarrow> bool" where
  "IP_Equal ip x =
     (if length ip = length x then ip = x
      else if length ip = 4 \<and> length x = 16 then take 12 x = v4InV6Prefix \<and> ip = drop 12 x
      else if length ip = 16 \<and> length x = 4 then take 12 ip = v4InV6Prefix \<and> drop 12 ip = x
      else False)"

text \<open>Dotted-decimal text of four octets.\<close>

definition dotted :: "u8 \<Rightarrow> u8 \<Rightarrow> u8 \<Rightarrow> u8 \<Rightarrow> string" where
  "dotted a b c d =
     show_word a @ CHR ''.'' # show_word b @ CHR ''.'' # show_word c @ CHR ''.'' # show_word d"

fun split_char :: "char \<Rightarrow> string \<Rightarrow> string list" where
  "split_char sep [] = [[]]"
| "split_char sep (c # s) =
     (if c = sep then [] # split_char sep s
      else (case split_char sep s of [] \<Rightarrow> [[c]] | w # ws \<Rightarrow> (c # w) # ws))"

definition parse_octet :: "string \<Rightarrow> u8 option" where
  "parse_octet s =
     (if s = [] \<or> \<not> list_all is_digit s \<or> (hd s = CHR ''0'' \<and> length s > 1) \<or> read_nat s > 255
      then None else Some (of_nat (read_nat s)))"

definition parseIPv4 :: "string \<Rightarrow> netIP option" where
  "parseIPv4 s =
     (case map parse_octet (split_char (CHR ''.'') s) of
        [Some a, Some b, Some c, Some d] \<Rightarrow> Some (net_IPv4 a b c d)
      | _ \<Rightarrow> None)"

lemma To4_net_IPv4 [simp]: "To4 (net_IPv4 a b c d) = Some [a, b, c, d]"
  by (simp add: To4_def net_IPv4_def v4InV6Prefix_def)

lemma To4_length: "To4 ip = Some b \<Longrightarrow> length b = 4"
  by (auto simp: To4_def split: if_splits)

lemma To4_four [simp]: "To4 [a, b, c, d] = Some [a, b, c, d]"
  by (simp add: To4_def)

lemma To4_cases:
  assumes "To4 ip = Some v"
  obtains a b c d where "v = [a, b, c, d]"
  using To4_length [OF assms] by (auto simp: length_Suc_conv eval_nat_numeral)

text \<open>Two addresses are \<^verbatim>\<open>Equal\<close> to an IPv4 address exactly when their four-byte forms agree.\<close>

lemma IP_Equal_four:
  "IP_Equal ip [a, b, c, d] \<longleftrightarrow> To4 ip = Some [a, b, c, d]"
  by (auto simp: IP_Equal_def To4_def)

lemma split_char_no_sep: "sep \<notin> set s \<Longrightarrow> split_char sep s = [s]"
  by (induction s) auto

lemma split_char_append: "sep \<notin> set a \<Longrightarrow> split_char sep (a @ sep # b) = a # split_char sep b"
  by (induction a) auto

lemma show_word_no_dot: "CHR ''.'' \<notin> set (show_word w)"
  using show_word_digits not_digit_chars(4) by blast

lemma show_nat_no_leading_zero: "hd (show_nat n) = CHR ''0'' \<Longrightarrow> length (show_nat n) = 1"
proof (induction n rule: show_nat.induct)
  case (1 n)
  show ?case
  proof (cases "n < 10")
    case True
    then show ?thesis by (simp add: show_nat.simps [of n])
  next
    case False
    with "1.prems" have hd0: "hd (show_nat (n div 10)) = CHR ''0''"
      by (simp add: show_nat.simps [of n])
    with "1.IH" [OF False] have one: "length (show_nat (n div 10)) = 1" by simp
    then obtain c where c: "show_nat (n div 10) = [c]" by (auto simp: length_Suc_conv)
    with hd0 have "read_nat (show_nat (n div 10)) = 0"
      by (simp add: read_nat_def digit_val_def)
    with False show ?thesis by simp
  qed
qed

lemma parse_octet_show [simp]: "parse_octet (show_word (b :: u8)) = Some b"
proof -
  have "list_all is_digit (show_word b)" by (simp add: list_all_iff show_word_digits)
  moreover have "hd (show_word b) = CHR ''0'' \<longrightarrow> length (show_word b) = 1"
    using show_nat_no_leading_zero by (simp add: show_word_def)
  moreover have "unat b \<le> 255"
    using unsigned_less [of b, where 'a = nat] by simp
  ultimately show ?thesis by (auto simp: parse_octet_def show_word_def)
qed

lemma parseIPv4_dotted: "parseIPv4 (dotted a b c d) = Some (net_IPv4 a b c d)"
  by (simp add: parseIPv4_def dotted_def split_char_append split_char_no_sep show_word_no_dot)

lemma dotted_inj [simp]:
  "dotted a b c d = dotted a' b' c' d' \<longleftrightarrow> a = a' \<and> b = b' \<and> c = c' \<and> d = d'"
proof
  assume "dotted a b c d = dotted a' b' c' d'"
  then have "parseIPv4 (dotted a b c d) = parseIPv4 (dotted a' b' c' d')" by simp
  then show "a = a' \<and> b = b' \<and> c = c' \<and> d = d'"
    by (simp add: parseIPv4_dotted net_IPv4_def)
qed simp

section \<open>Addresses as 32-bit words\<close>

definition IpToUint32 :: "netIP \<Rightarrow> u32" where
  "IpToUint32 ip =
     (case To4 ip of Some [a, b, c, d] \<Rightarrow> of_be32 a b c d | _ \<Rightarrow> 0)"

definition Uint32ToIP :: "u32 \<Rightarrow> netIP" where
  "Uint32ToIP v = be32 v"

definition MaskToUint32 :: "netMask \<Rightarrow> u32" where
  "MaskToUint32 msk =
     (if length msk \<ge> 4
      then (case drop (length msk - 4) msk of [a, b, c, d] \<Rightarrow> of_be32 a b c d | _ \<Rightarrow> 0)
      else 0)"

text \<open>\<^verbatim>\<open>util.Uint32ToIP(v).String()\<close>, the text under which an address is reserved.\<close>

definition Uint32ToIP_String :: "u32 \<Rightarrow> string" where
  "Uint32ToIP_String v =
     dotted (ucast (drop_bit 24 v)) (ucast (drop_bit 16 v)) (ucast (drop_bit 8 v)) (ucast v)"

lemma IpToUint32_Uint32ToIP [simp]: "IpToUint32 (Uint32ToIP v) = v"
  by (simp add: IpToUint32_def Uint32ToIP_def be32_def)

lemma Uint32ToIP_IpToUint32:
  assumes "To4 ip = Some b"
  shows "Uint32ToIP (IpToUint32 ip) = b"
proof -
  from assms obtain w x y z where "b = [w, x, y, z]" by (rule To4_cases)
  with assms show ?thesis by (simp add: IpToUint32_def Uint32ToIP_def)
qed

lemma IpToUint32_net_IPv4 [simp]: "IpToUint32 (net_IPv4 a b c d) = of_be32 a b c d"
  by (simp add: IpToUint32_def)

lemma IpToUint32_four [simp]: "IpToUint32 [a, b, c, d] = of_be32 a b c d"
  by (simp add: IpToUint32_def)

lemma MaskToUint32_four [simp]: "MaskToUint32 [a, b, c, d] = of_be32 a b c d"
  by (simp add: MaskToUint32_def)

lemma Uint32ToIP_inj [simp]: "Uint32ToIP v = Uint32ToIP w \<longleftrightarrow> v = w"
  by (metis IpToUint32_Uint32ToIP)

lemma Uint32ToIP_String_inj [simp]: "Uint32ToIP_String v = Uint32ToIP_String w \<longleftrightarrow> v = w"
proof
  assume "Uint32ToIP_String v = Uint32ToIP_String w"
  then have "Uint32ToIP v = Uint32ToIP w"
    by (simp add: Uint32ToIP_String_def Uint32ToIP_def be32_def)
  then show "v = w" by simp
qed simp

lemma IP_Equal_Uint32ToIP: "To4 ip = Some b \<Longrightarrow> IP_Equal ip (Uint32ToIP v) \<longleftrightarrow> IpToUint32 ip = v"
proof -
  assume b: "To4 ip = Some b"
  have "IP_Equal ip (Uint32ToIP v) \<longleftrightarrow> To4 ip = Some (Uint32ToIP v)"
    by (simp add: Uint32ToIP_def be32_def IP_Equal_four)
  also have "\<dots> \<longleftrightarrow> b = Uint32ToIP v" using b by simp
  also have "\<dots> \<longleftrightarrow> Uint32ToIP (IpToUint32 ip) = Uint32ToIP v"
    using Uint32ToIP_IpToUint32 [OF b] by simp
  finally show ?thesis by simp
qed

section \<open>The usable addresses of a network\<close>

text \<open>
  The bounds that \<^verbatim>\<open>validateRequestedIP\<close>, \<^verbatim>\<open>generateIP\<close> and \<^verbatim>\<open>validateServiceIP\<close> compute from a
  gateway and a mask.
\<close>

definition networkIP :: "u32 \<Rightarrow> u32 \<Rightarrow> u32" where
  "networkIP gw msk = gw AND msk"

definition broadcastIP :: "u32 \<Rightarrow> u32 \<Rightarrow> u32" where
  "broadcastIP gw msk = networkIP gw msk OR NOT msk"

definition firstIP :: "u32 \<Rightarrow> u32 \<Rightarrow> u32" where
  "firstIP gw msk = networkIP gw msk + 1"

definition lastIP :: "u32 \<Rightarrow> u32 \<Rightarrow> u32" where
  "lastIP gw msk = broadcastIP gw msk - 1"

definition validateRequestedIP :: "u32 \<Rightarrow> netIP \<Rightarrow> netMask \<Rightarrow> string option" where
  "validateRequestedIP virtualIP gateway netmask =
     (let requested = Uint32ToIP virtualIP;
          gw = IpToUint32 gateway; msk = MaskToUint32 netmask
      in if IP_Equal gateway requested then Some ''client requested virtual ip is gateway ip''
         else if virtualIP < firstIP gw msk \<or> virtualIP > lastIP gw msk
         then Some (''virtual ip '' @ Uint32ToIP_String virtualIP @ '' out of network range'')
         else None)"

lemma networkIP_le_broadcast: "networkIP gw msk \<le> broadcastIP gw msk"
proof -
  have "networkIP gw msk AND broadcastIP gw msk = networkIP gw msk"
    unfolding broadcastIP_def by (rule bit_word_eqI) (auto simp: bit_simps)
  then show ?thesis by (metis word_and_le1)
qed

text \<open>An address between the bounds is neither the network nor the broadcast address.\<close>

lemma usable_range:
  assumes "NOT msk \<noteq> 0" and "firstIP gw msk \<le> ip" and "ip \<le> lastIP gw msk"
  shows "networkIP gw msk < ip \<and> ip < broadcastIP gw msk"
proof -
  let ?n = "networkIP gw msk" and ?b = "broadcastIP gw msk"
  have "NOT msk \<le> ?b"
  proof -
    have "NOT msk AND ?b = NOT msk"
      unfolding broadcastIP_def by (rule bit_word_eqI) (auto simp: bit_simps)
    then show ?thesis by (metis word_and_le1)
  qed
  then have b: "?b \<noteq> 0" using assms(1) by (metis word_le_0_iff)
  have n: "?n \<noteq> - 1"
  proof
    assume "?n = - 1"
    then have "msk = - 1" unfolding networkIP_def
      by (metis and.commute and.right_neutral and_eq_minus_1_iff)
    then show False using assms(1) by simp
  qed
  from n assms(2) have "?n < ip"
    by (simp add: firstIP_def inc_less_eq_iff)
  moreover from b assms(3) have "ip < ?b"
    by (simp add: lastIP_def less_eq_dec_iff)
  ultimately show ?thesis by simp
qed

end
