(* ===== verification/Expire_Map.thy ===== *)
theory Expire_Map
  imports SDL_Prelude
begin

text \<open>
  The expiring map of \<^verbatim>\<open>control/expire_map.go\<close>, which holds the virtual networks, the address
  reservations, the punch sessions and the punch cooldowns. The abstract view is the partial map
  \<open>em_live now\<close> of the entries that have not expired. The locale \<open>expiring_map\<close> states what the
  clients of the map rely on; it is interpreted on the definitions of this theory.
\<close>

section \<open>Interface\<close>

locale expiring_map =
  fixes view :: "gtime \<Rightarrow> 'm \<Rightarrow> 'k \<Rightarrow> 'v option"
    and ttl :: "'m \<Rightarrow> int"
    and get :: "gtime \<Rightarrow> 'k \<Rightarrow> 'm \<Rightarrow> 'v option \<times> 'm"
    and put :: "gtime \<Rightarrow> 'k \<Rightarrow> 'v \<Rightarrow> 'm \<Rightarrow> 'm"
    and try_put :: "gtime \<Rightarrow> 'k \<Rightarrow> 'v \<Rightarrow> 'm \<Rightarrow> bool \<times> 'm"
    and del :: "'k \<Rightarrow> 'm \<Rightarrow> 'm"
    and sweep :: "gtime \<Rightarrow> 'm \<Rightarrow> 'm"
    and inv :: "'m \<Rightarrow> bool"
  assumes get_result: "fst (get now k m) = view now m k"
    and get_view: "now \<le> t \<Longrightarrow> view t (snd (get now k m)) k' = view t m k'"
    and put_view: "0 < now \<Longrightarrow> view t (put now k v m) k' =
      (if k' = k then (if 0 < ttl m \<and> now + ttl m < t then None else Some v) else view t m k')"
    and try_put_result: "fst (try_put now k v m) \<longleftrightarrow> view now m k = None"
    and try_put_view: "0 < now \<Longrightarrow> now \<le> t \<Longrightarrow> view t (snd (try_put now k v m)) k' =
      (if k' = k \<and> view now m k = None
       then (if 0 < ttl m \<and> now + ttl m < t then None else Some v) else view t m k')"
    and del_view: "view t (del k m) k' = (if k' = k then None else view t m k')"
    and sweep_view: "inv m \<Longrightarrow> now \<le> t \<Longrightarrow> view t (sweep now m) k' = view t m k'"
    and ttl_get: "ttl (snd (get now k m)) = ttl m"
    and ttl_put: "ttl (put now k v m) = ttl m"
    and ttl_try_put: "ttl (snd (try_put now k v m)) = ttl m"
    and ttl_del: "ttl (del k m) = ttl m"
    and ttl_sweep: "ttl (sweep now m) = ttl m"
    and expiry_final: "view now m k = None \<Longrightarrow> now \<le> t \<Longrightarrow> view t m k = None"
    and inv_put: "inv m \<Longrightarrow> inv (put now k v m)"
    and inv_try_put: "inv m \<Longrightarrow> inv (snd (try_put now k v m))"
    and inv_get: "inv m \<Longrightarrow> inv (snd (get now k m))"
    and inv_del: "inv m \<Longrightarrow> inv (del k m)"
    and inv_sweep: "inv m \<Longrightarrow> inv (sweep now m)"
begin

lemma get_after_put:
  assumes "0 < now" and "ttl m \<le> 0 \<or> t \<le> now + ttl m"
  shows "fst (get t k (put now k v m)) = Some v"
  using assms by (auto simp: get_result put_view)

lemma get_after_expiry:
  assumes "0 < now" and "0 < ttl m" and "now + ttl m < t"
  shows "fst (get t k (put now k v m)) = None"
  using assms by (simp add: get_result put_view)

lemma claim_once:
  assumes "0 < now" and "fst (try_put now k v m)"
    and "now \<le> t" and "ttl m \<le> 0 \<or> t \<le> now + ttl m"
  shows "\<not> fst (try_put t k v' (snd (try_put now k v m)))"
proof -
  have "view now m k = None" using assms(2) by (simp add: try_put_result)
  then have "view t (snd (try_put now k v m)) k = Some v"
    using assms by (auto simp: try_put_view)
  then show ?thesis by (simp add: try_put_result)
qed

lemma claim_again:
  assumes "0 < now" and "0 < ttl m" and "now + ttl m < t" and "fst (try_put now k v m)"
  shows "fst (try_put t k v' (snd (try_put now k v m)))"
proof -
  have "view now m k = None" using assms(4) by (simp add: try_put_result)
  then have "view t (snd (try_put now k v m)) k = None"
    using assms by (simp add: try_put_view)
  then show ?thesis by (simp add: try_put_result)
qed

lemma get_put_other:
  assumes "k' \<noteq> k" and "0 < now"
  shows "fst (get t k' (put now k v m)) = fst (get t k' m)"
  using assms by (simp add: get_result put_view)

end

section \<open>The map of the code\<close>

record ('k, 'v) ExpireMap =
  em_data :: "('k, 'v) gomap"
  em_expiration :: "('k, int) gomap"
  em_ttl :: int
  em_stopped :: bool

definition NewExpireMap :: "int \<Rightarrow> ('k, 'v) ExpireMap" where
  "NewExpireMap defaultTTL =
     \<lparr>em_data = [], em_expiration = [], em_ttl = defaultTTL, em_stopped = False\<rparr>"

definition em_Set :: "gtime \<Rightarrow> 'k \<Rightarrow> 'v \<Rightarrow> ('k, 'v) ExpireMap \<Rightarrow> ('k, 'v) ExpireMap" where
  "em_Set now key value e =
     (let deadline = (if em_ttl e > 0 then now + em_ttl e else 0)
      in e\<lparr>em_data := gput key value (em_data e),
           em_expiration := (if deadline = 0 then gdel key (em_expiration e)
                             else gput key deadline (em_expiration e))\<rparr>)"

text \<open>Dropping a key from both maps, as \<^verbatim>\<open>Delete\<close> and every eviction do.\<close>

definition em_Delete :: "'k \<Rightarrow> ('k, 'v) ExpireMap \<Rightarrow> ('k, 'v) ExpireMap" where
  "em_Delete key e =
     e\<lparr>em_data := gdel key (em_data e), em_expiration := gdel key (em_expiration e)\<rparr>"

definition em_expired :: "gtime \<Rightarrow> 'k \<Rightarrow> ('k, 'v) ExpireMap \<Rightarrow> bool" where
  "em_expired now key e =
     (case gget (em_expiration e) key of
        Some deadline \<Rightarrow> deadline > 0 \<and> now > deadline
      | None \<Rightarrow> False)"

definition em_TrySetIfAbsent ::
    "gtime \<Rightarrow> 'k \<Rightarrow> 'v \<Rightarrow> ('k, 'v) ExpireMap \<Rightarrow> bool \<times> ('k, 'v) ExpireMap" where
  "em_TrySetIfAbsent now key value e =
     (let e1 = (if em_expired now key e then em_Delete key e else e)
      in if gget (em_data e1) key \<noteq> None then (False, e1)
         else (True, e1\<lparr>em_data := gput key value (em_data e1),
                em_expiration := (if em_ttl e1 > 0
                                  then gput key (now + em_ttl e1) (em_expiration e1)
                                  else gdel key (em_expiration e1))\<rparr>))"

text \<open>
  \<^verbatim>\<open>Get\<close> runs two critical sections: it reads the entry under the read lock, and evicts an
  expired one under the write lock without looking at it again.
\<close>

datatype 'v em_read = Absent | Stale | Fresh 'v

definition em_Get_read :: "gtime \<Rightarrow> 'k \<Rightarrow> ('k, 'v) ExpireMap \<Rightarrow> 'v em_read" where
  "em_Get_read now key e =
     (case gget (em_data e) key of
        None \<Rightarrow> Absent
      | Some val \<Rightarrow> if em_expired now key e then Stale else Fresh val)"

definition em_Get :: "gtime \<Rightarrow> 'k \<Rightarrow> ('k, 'v) ExpireMap \<Rightarrow> 'v option \<times> ('k, 'v) ExpireMap" where
  "em_Get now key e =
     (case em_Get_read now key e of
        Absent \<Rightarrow> (None, e)
      | Stale \<Rightarrow> (None, em_Delete key e)
      | Fresh val \<Rightarrow> (Some val, e))"

text \<open>\<^verbatim>\<open>Get\<close> when \<open>other\<close> runs between the two critical sections.\<close>

definition em_Get_racing ::
    "gtime \<Rightarrow> 'k \<Rightarrow> (('k, 'v) ExpireMap \<Rightarrow> ('k, 'v) ExpireMap) \<Rightarrow> ('k, 'v) ExpireMap
     \<Rightarrow> 'v option \<times> ('k, 'v) ExpireMap" where
  "em_Get_racing now key other e =
     (case em_Get_read now key e of
        Absent \<Rightarrow> (None, other e)
      | Stale \<Rightarrow> (None, em_Delete key (other e))
      | Fresh val \<Rightarrow> (Some val, other e))"

definition em_Stop :: "('k, 'v) ExpireMap \<Rightarrow> ('k, 'v) ExpireMap" where
  "em_Stop e = e\<lparr>em_stopped := True\<rparr>"

definition janitor_interval :: "int \<Rightarrow> int" where
  "janitor_interval ttl =
     (let d = ttl div 4 in if ttl > 0 \<and> d > 0 \<and> d < Second then d else Second)"

text \<open>One tick of the janitor: expired entries are dropped; after \<^verbatim>\<open>Stop\<close> nothing happens.\<close>

definition janitor_tick :: "gtime \<Rightarrow> ('k, 'v) ExpireMap \<Rightarrow> ('k, 'v) ExpireMap" where
  "janitor_tick now e =
     (if em_stopped e then e
      else e\<lparr>em_data := gfilter (\<lambda>k _. \<not> em_expired now k e) (em_data e),
             em_expiration := gfilter (\<lambda>_ dl. \<not> (dl > 0 \<and> now > dl)) (em_expiration e)\<rparr>)"

section \<open>Abstract view and invariant\<close>

definition em_live :: "gtime \<Rightarrow> ('k, 'v) ExpireMap \<Rightarrow> 'k \<Rightarrow> 'v option" where
  "em_live now e key = (if em_expired now key e then None else gget (em_data e) key)"

definition em_wf :: "('k, 'v) ExpireMap \<Rightarrow> bool" where
  "em_wf e \<longleftrightarrow> gwf (em_data e) \<and> gwf (em_expiration e) \<and>
     fst ` set (em_expiration e) \<subseteq> fst ` set (em_data e)"

lemma em_wf_alt: "em_wf e \<longleftrightarrow> gwf (em_data e) \<and> gwf (em_expiration e) \<and>
    (\<forall>k. gget (em_data e) k = None \<longrightarrow> gget (em_expiration e) k = None)"
  by (auto simp: em_wf_def gget_None_iff)

lemma em_expired_Set: "0 < now \<Longrightarrow> em_expired t k' (em_Set now k v e) =
    (if k' = k then 0 < em_ttl e \<and> now + em_ttl e < t else em_expired t k' e)"
  by (auto simp: em_expired_def em_Set_def Let_def)

lemma em_expired_Delete: "em_expired t k' (em_Delete k e) = (k' \<noteq> k \<and> em_expired t k' e)"
  by (simp add: em_expired_def em_Delete_def)

lemma em_expired_mono: "em_expired now k e \<Longrightarrow> now \<le> t \<Longrightarrow> em_expired t k e"
  by (auto simp: em_expired_def split: option.splits)

lemma em_live_Set: "0 < now \<Longrightarrow> em_live t (em_Set now k v e) k' =
    (if k' = k then (if 0 < em_ttl e \<and> now + em_ttl e < t then None else Some v)
     else em_live t e k')"
  by (simp add: em_live_def em_expired_Set) (simp add: em_Set_def Let_def)

lemma em_live_Delete [simp]:
  "em_live t (em_Delete k e) k' = (if k' = k then None else em_live t e k')"
  by (simp add: em_live_def em_expired_Delete) (simp add: em_Delete_def)

lemma em_Get_eq: "em_Get now k e =
    (em_live now e k, if em_expired now k e \<and> gget (em_data e) k \<noteq> None then em_Delete k e else e)"
  by (auto simp: em_Get_def em_Get_read_def em_live_def split: option.splits)

lemma em_live_Get_state:
  assumes "now \<le> t"
  shows "em_live t (snd (em_Get now k e)) k' = em_live t e k'"
proof -
  have "em_live t e k = None" if "em_expired now k e"
    using em_expired_mono [OF that assms] by (simp add: em_live_def)
  then show ?thesis by (simp add: em_Get_eq)
qed

lemma em_TrySet_eq: "em_TrySetIfAbsent now k v e =
    (let e1 = (if em_expired now k e then em_Delete k e else e)
     in if em_live now e k = None
        then (True, e1\<lparr>em_data := gput k v (em_data e1),
               em_expiration := (if em_ttl e > 0 then gput k (now + em_ttl e) (em_expiration e1)
                                 else gdel k (em_expiration e1))\<rparr>)
        else (False, e1))"
  by (auto simp: em_TrySetIfAbsent_def em_live_def Let_def em_Delete_def)

lemma em_live_TrySet:
  assumes "0 < now" and "now \<le> t"
  shows "em_live t (snd (em_TrySetIfAbsent now k v e)) k' =
    (if k' = k \<and> em_live now e k = None
     then (if 0 < em_ttl e \<and> now + em_ttl e < t then None else Some v) else em_live t e k')"
  using assms
  by (auto simp: em_TrySet_eq em_live_def em_expired_def em_Delete_def Let_def
      split: option.splits)

lemma em_live_tick:
  assumes wf: "em_wf e" and le: "now \<le> t"
  shows "em_live t (janitor_tick now e) k = em_live t e k"
proof (cases "em_stopped e")
  case True
  then show ?thesis by (simp add: janitor_tick_def)
next
  case False
  have wfs: "gwf (em_data e)" "gwf (em_expiration e)" using wf by (auto simp: em_wf_def)
  show ?thesis
    using False le
    by (auto simp: janitor_tick_def em_live_def em_expired_def gget_gfilter wfs
        split: option.splits)
qed

lemma em_wf_tick: "em_wf e \<Longrightarrow> em_wf (janitor_tick now e)"
  by (auto simp: em_wf_alt janitor_tick_def gget_gfilter gwf_gfilter em_expired_def
      split: option.splits if_splits)

lemma em_wf_Set: "em_wf e \<Longrightarrow> em_wf (em_Set now k v e)"
  by (auto simp: em_wf_alt em_Set_def Let_def gwf_put gwf_del)

lemma em_wf_Delete: "em_wf e \<Longrightarrow> em_wf (em_Delete k e)"
  by (auto simp: em_wf_alt em_Delete_def gwf_del)

lemma em_wf_Get: "em_wf e \<Longrightarrow> em_wf (snd (em_Get now k e))"
  by (simp add: em_Get_eq em_wf_Delete)

lemma em_wf_TrySet: "em_wf e \<Longrightarrow> em_wf (snd (em_TrySetIfAbsent now k v e))"
  by (auto simp: em_wf_alt em_TrySetIfAbsent_def em_Delete_def Let_def gwf_put gwf_del)

lemma em_live_final: "em_live now e k = None \<Longrightarrow> now \<le> t \<Longrightarrow> em_live t e k = None"
  using em_expired_mono by (fastforce simp: em_live_def split: if_splits)

lemma em_ttl_ops [simp]:
  "em_ttl (em_Set now k v e) = em_ttl e" "em_ttl (em_Delete k e) = em_ttl e"
  "em_ttl (snd (em_Get now k e)) = em_ttl e" "em_ttl (janitor_tick now e) = em_ttl e"
  "em_ttl (snd (em_TrySetIfAbsent now k v e)) = em_ttl e"
  by (simp_all add: em_Set_def em_Delete_def em_Get_eq em_TrySetIfAbsent_def janitor_tick_def Let_def)

lemma em_results:
  "fst (em_Get now k e) = em_live now e k"
  "fst (em_TrySetIfAbsent now k v e) \<longleftrightarrow> em_live now e k = None"
  by (simp_all add: em_Get_eq em_TrySet_eq Let_def)

interpretation em: expiring_map em_live em_ttl em_Get em_Set em_TrySetIfAbsent em_Delete
  janitor_tick em_wf
  by unfold_locales
    (simp_all add: em_results em_live_Get_state em_live_Set em_live_TrySet em_live_tick
      em_live_final em_wf_Set em_wf_TrySet em_wf_Get em_wf_Delete em_wf_tick)

section \<open>Specification: a table of values with deadlines\<close>

text \<open>
  What the map promises: a partial function to values with a deadline, 0 for none. Reading past the
  deadline finds nothing; a sweep and the eviction inside a read do not exist at this level.
\<close>

datatype ('k, 'v) em_op = OpSet 'k 'v | OpTrySet 'k 'v | OpGet 'k | OpDelete 'k | OpTick

datatype 'v em_out = OutUnit | OutBool bool | OutVal "'v option"

type_synonym ('k, 'v) em_spec = "'k \<Rightarrow> ('v \<times> int) option"

definition spec_live :: "gtime \<Rightarrow> ('k, 'v) em_spec \<Rightarrow> 'k \<Rightarrow> 'v option" where
  "spec_live now m k =
     (case m k of None \<Rightarrow> None | Some (v, dl) \<Rightarrow> if dl > 0 \<and> now > dl then None else Some v)"

definition spec_deadline :: "int \<Rightarrow> gtime \<Rightarrow> int" where
  "spec_deadline ttl now = (if ttl > 0 then now + ttl else 0)"

fun spec_step :: "int \<Rightarrow> gtime \<Rightarrow> ('k, 'v) em_op \<Rightarrow> ('k, 'v) em_spec \<Rightarrow> 'v em_out \<times> ('k, 'v) em_spec"
  where
  "spec_step ttl now (OpSet k v) m = (OutUnit, m(k \<mapsto> (v, spec_deadline ttl now)))"
| "spec_step ttl now (OpTrySet k v) m =
     (if spec_live now m k = None then (OutBool True, m(k \<mapsto> (v, spec_deadline ttl now)))
      else (OutBool False, m))"
| "spec_step ttl now (OpGet k) m = (OutVal (spec_live now m k), m)"
| "spec_step ttl now (OpDelete k) m = (OutUnit, m(k := None))"
| "spec_step ttl now OpTick m = (OutUnit, m)"

fun em_step :: "gtime \<Rightarrow> ('k, 'v) em_op \<Rightarrow> ('k, 'v) ExpireMap \<Rightarrow> 'v em_out \<times> ('k, 'v) ExpireMap" where
  "em_step now (OpSet k v) e = (OutUnit, em_Set now k v e)"
| "em_step now (OpTrySet k v) e = map_prod OutBool id (em_TrySetIfAbsent now k v e)"
| "em_step now (OpGet k) e = map_prod OutVal id (em_Get now k e)"
| "em_step now (OpDelete k) e = (OutUnit, em_Delete k e)"
| "em_step now OpTick e = (OutUnit, janitor_tick now e)"

text \<open>The outputs of a history, a list of operations with the times at which they run.\<close>

fun outputs :: "(gtime \<Rightarrow> 'op \<Rightarrow> 's \<Rightarrow> 'o \<times> 's) \<Rightarrow> (gtime \<times> 'op) list \<Rightarrow> 's \<Rightarrow> 'o list" where
  "outputs f [] s = []"
| "outputs f ((now, op) # h) s = (case f now op s of (o1, s') \<Rightarrow> o1 # outputs f h s')"

fun history :: "gtime \<Rightarrow> (gtime \<times> 'op) list \<Rightarrow> bool" where
  "history t [] \<longleftrightarrow> True"
| "history t ((now, op) # h) \<longleftrightarrow> t \<le> now \<and> history now h"

definition em_sim :: "gtime \<Rightarrow> ('k, 'v) ExpireMap \<Rightarrow> ('k, 'v) em_spec \<Rightarrow> bool" where
  "em_sim now e m \<longleftrightarrow> em_wf e \<and> (\<forall>t k. now \<le> t \<longrightarrow> em_live t e k = spec_live t m k)"

lemma spec_live_upd: "0 < now \<Longrightarrow> spec_live t (m(k \<mapsto> (v, spec_deadline d now))) k' =
    (if k' = k then (if 0 < d \<and> now + d < t then None else Some v) else spec_live t m k')"
  by (auto simp: spec_live_def spec_deadline_def)

lemma spec_live_del: "spec_live t (m(k := None)) k' = (if k' = k then None else spec_live t m k')"
  by (simp add: spec_live_def)

lemma em_sim_step:
  assumes "em_sim t e m" and "t \<le> now" and "0 < now"
  shows "fst (em_step now op e) = fst (spec_step (em_ttl e) now op m)"
    and "em_sim now (snd (em_step now op e)) (snd (spec_step (em_ttl e) now op m))"
    and "em_ttl (snd (em_step now op e)) = em_ttl e"
proof -
  have wf: "em_wf e" and lv: "\<And>t' k. now \<le> t' \<Longrightarrow> em_live t' e k = spec_live t' m k"
    using assms(1,2) by (auto simp: em_sim_def)
  show "fst (em_step now op e) = fst (spec_step (em_ttl e) now op m)"
    by (cases op) (simp_all add: em_results lv)
  show "em_sim now (snd (em_step now op e)) (snd (spec_step (em_ttl e) now op m))"
    using assms(3) wf
    by (cases op) (auto simp: em_sim_def em_wf_Set em_wf_TrySet em_wf_Get em_wf_Delete em_wf_tick
        em_live_Set em_live_TrySet em_live_Get_state em_live_tick spec_live_upd spec_live_del lv)
  show "em_ttl (snd (em_step now op e)) = em_ttl e" by (cases op) simp_all
qed

lemma em_sim_outputs:
  assumes "em_sim t e m" and "history t h" and "0 < t"
  shows "outputs em_step h e = outputs (spec_step (em_ttl e)) h m"
  using assms
proof (induction h arbitrary: t e m)
  case (Cons x h)
  obtain now op where x: "x = (now, op)" by (cases x)
  have le: "t \<le> now" "0 < now" and h: "history now h" using Cons.prems x by auto
  note step = em_sim_step [OF Cons.prems(1) le, of op]
  show ?case
    using step Cons.IH [OF step(2) h le(2)] x
    by (cases "em_step now op e"; cases "spec_step (em_ttl e) now op m") simp
qed simp

section \<open>Properties\<close>

text \<open>
  C22: the expiring map refines its specification. Every history of \<^verbatim>\<open>Set\<close>, \<^verbatim>\<open>TrySetIfAbsent\<close>,
  \<^verbatim>\<open>Get\<close>, \<^verbatim>\<open>Delete\<close> and janitor ticks with times that do not go back returns what the table of
  values with deadlines returns: lazy eviction and the janitor cannot be observed.
\<close>

theorem expire_map_refines:
  assumes "history 1 h"
  shows "outputs em_step h (NewExpireMap d) = outputs (spec_step d) h (\<lambda>_. None)"
proof -
  have "em_sim 1 (NewExpireMap d) (\<lambda>_. None)"
    by (simp add: em_sim_def NewExpireMap_def em_wf_def em_live_def em_expired_def spec_live_def)
  from em_sim_outputs [OF this assms] show ?thesis by (simp add: NewExpireMap_def)
qed

theorem expire_map_refines_witness:
  "outputs em_step [(1, OpTrySet ''k'' True), (5, OpTrySet ''k'' False), (12, OpTick), (12, OpGet ''k'')]
     (NewExpireMap 10) = [OutBool True, OutBool False, OutUnit, OutVal None]"
  using expire_map_refines [of "[(1, OpTrySet ''k'' True), (5, OpTrySet ''k'' False), (12, OpTick),
      (12, OpGet ''k'')]" 10]
  by (simp add: spec_live_def spec_deadline_def)

text \<open>
  A key claimed with \<^verbatim>\<open>TrySetIfAbsent\<close> cannot be claimed again until its time to live has run
  out, and can be afterwards. The punch cooldown and the manual dedup window rest on it.
\<close>

theorem try_set_exclusive:
  assumes "0 < now" and "0 < em_ttl e" and "fst (em_TrySetIfAbsent now k v e)" and "now \<le> t"
  shows "fst (em_TrySetIfAbsent t k v' (snd (em_TrySetIfAbsent now k v e))) \<longleftrightarrow> now + em_ttl e < t"
  using em.claim_once [OF assms(1,3,4)] em.claim_again [OF assms(1,2) _ assms(3)]
  by (cases "now + em_ttl e < t") auto

theorem try_set_exclusive_witness:
  "\<not> fst (em_TrySetIfAbsent 11 ''k'' () (snd (em_TrySetIfAbsent 1 ''k'' () (NewExpireMap 10))))"
  using try_set_exclusive [of 1 "NewExpireMap 10 :: (string, unit) ExpireMap" "''k''" "()" 11 "()"]
  by (simp add: NewExpireMap_def em_results em_live_def em_expired_def)

text \<open>
  \<^verbatim>\<open>Get\<close> is not atomic. When it reads an expired entry and a \<^verbatim>\<open>Set\<close> of the same key runs before
  its eviction, the fresh value is lost, although it would survive both orders of the two calls.
\<close>

theorem get_race_loses_update:
  assumes "em_Get_read now k e = Stale" and "0 < now"
  shows "em_live now (snd (em_Get_racing now k (em_Set now k v) e)) k = None \<and>
    em_live now (em_Set now k v (snd (em_Get now k e))) k = Some v \<and>
    em_live now (snd (em_Get now k (em_Set now k v e))) k = Some v"
  using assms by (simp add: em_Get_racing_def em_live_Set em_live_Get_state)

theorem get_race_loses_update_witness:
  "em_live 20 (snd (em_Get_racing 20 ''k'' (em_Set 20 ''k'' 2)
     (em_Set 1 ''k'' (1 :: nat) (NewExpireMap 10)))) ''k'' = None"
  using get_race_loses_update [of 20 "''k''" "em_Set 1 ''k'' (1 :: nat) (NewExpireMap 10)" 2]
  by (simp add: em_Get_read_def em_expired_def em_Set_def NewExpireMap_def)

text \<open>A map made by \<^verbatim>\<open>NewExpireMap\<close> is empty at every instant and well formed.\<close>

lemma NewExpireMap_empty: "em_wf (NewExpireMap d) \<and> em_live t (NewExpireMap d) k = None"
  by (simp add: NewExpireMap_def em_wf_def em_live_def em_expired_def)

text \<open>The ticker of the janitor has a positive period of at most one second.\<close>

lemma janitor_interval_bounds: "0 < janitor_interval ttl \<and> janitor_interval ttl \<le> Second"
  by (simp add: janitor_interval_def Let_def Second_def)

end
