(* ===== verification/Control_Types.thy ===== *)
theory Control_Types
  imports Net_Addr Expire_Map
begin

text \<open>
  The data of the control plane: the client and network records of \<^verbatim>\<open>control/ip.go\<close>, the punch
  session records of \<^verbatim>\<open>control/punch.go\<close>, the container \<^verbatim>\<open>NetworkControl\<close> of
  \<^verbatim>\<open>control/network.go\<close>, and the message enumerations they use (\<^verbatim>\<open>proto/message.proto\<close>).
  Enumerations of the wire are open in proto3, so each has a constructor for other numbers.
  A \<^verbatim>\<open>net.Addr\<close> is its \<^verbatim>\<open>String()\<close>, \<^term>\<open>None\<close> when nil.
\<close>

section \<open>Enumerations\<close>

datatype ChannelMode =
  CHANNEL_MODE_AUTO | CHANNEL_MODE_DIRECT | CHANNEL_MODE_RELAY | CHANNEL_MODE_other int

datatype PunchTriggerReason =
  PunchTriggerUnknown | PunchTriggerStatusUpdate | PunchTriggerRouteTimeout
| PunchTriggerReconnectRecovery | PunchTriggerManualRequest | StatusReportOnly
| PunchTrigger_other int

datatype PunchSessionPhase =
  PunchPhaseUnknown | PunchPhaseScheduled | PunchPhaseSending | PunchPhaseWaiting
| PunchPhaseSuccess | PunchPhaseTimeout | PunchPhaseFailed | PunchPhase_other int

datatype PunchResultCode =
  PunchResultUnknown | PunchResultSuccess | PunchResultFailed | PunchResultTimeout
| PunchResultCanceled | PunchResultRejected | PunchResultNoResponse | PunchResultSuperseded
| PunchResult_other int

datatype PunchEndpointSelectionPolicy =
  PunchEndpointSelectionDefault | PunchEndpointSelectionAll | PunchEndpointSelectionPreferPublic
| PunchEndpointSelection_other int

text \<open>The generated \<^verbatim>\<open>String()\<close> methods and the \<^verbatim>\<open>_value\<close> table.\<close>

fun PunchTriggerReason_String :: "PunchTriggerReason \<Rightarrow> string" where
  "PunchTriggerReason_String PunchTriggerUnknown = ''PunchTriggerUnknown''"
| "PunchTriggerReason_String PunchTriggerStatusUpdate = ''PunchTriggerStatusUpdate''"
| "PunchTriggerReason_String PunchTriggerRouteTimeout = ''PunchTriggerRouteTimeout''"
| "PunchTriggerReason_String PunchTriggerReconnectRecovery = ''PunchTriggerReconnectRecovery''"
| "PunchTriggerReason_String PunchTriggerManualRequest = ''PunchTriggerManualRequest''"
| "PunchTriggerReason_String StatusReportOnly = ''StatusReportOnly''"
| "PunchTriggerReason_String (PunchTrigger_other n) = show_int n"

definition PunchTriggerReason_value :: "(string, PunchTriggerReason) gomap" where
  "PunchTriggerReason_value =
     map (\<lambda>r. (PunchTriggerReason_String r, r))
       [PunchTriggerUnknown, PunchTriggerStatusUpdate, PunchTriggerRouteTimeout,
        PunchTriggerReconnectRecovery, PunchTriggerManualRequest, StatusReportOnly]"

fun PunchEndpointSelectionPolicy_String :: "PunchEndpointSelectionPolicy \<Rightarrow> string" where
  "PunchEndpointSelectionPolicy_String PunchEndpointSelectionDefault =
     ''PunchEndpointSelectionDefault''"
| "PunchEndpointSelectionPolicy_String PunchEndpointSelectionAll = ''PunchEndpointSelectionAll''"
| "PunchEndpointSelectionPolicy_String PunchEndpointSelectionPreferPublic =
     ''PunchEndpointSelectionPreferPublic''"
| "PunchEndpointSelectionPolicy_String (PunchEndpointSelection_other n) = show_int n"

section \<open>Clients and networks\<close>

type_synonym netAddr = "string option"

record UDPAddr =
  ua_IP :: netIP
  ua_Port :: int

record ClientStatusInfo =
  cs_P2PList :: "netIP list"
  cs_PublicUDPEndpoints :: "UDPAddr list"
  cs_LocalUDPEndpoints :: "UDPAddr list"
  cs_UpStream :: u64
  cs_DownStream :: u64
  cs_IsCone :: bool
  cs_PunchTriggerReason :: string
  cs_RecoveryPunchTarget :: u32
  cs_UpdateTime :: int
  cs_ExitNodeAdvertised :: bool
  cs_ExitNodeLocalReady :: bool

record ClientInfo =
  cl_DeviceId :: string
  cl_Name :: string
  cl_UserID :: string
  cl_NetworkKey :: string
  cl_AuthGroup :: string
  cl_NetworkScope :: string
  cl_ControlOnline :: bool
  cl_ControlLastSeen :: int
  cl_DataPlaneReachable :: bool
  cl_DataPlaneLastSeen :: int
  cl_Version :: string
  cl_Capabilities :: "string list"
  cl_VirtualIp :: u32
  cl_Address :: netAddr
  cl_DevicePubKey :: bytes
  cl_OnlineKxPub :: bytes
  cl_LastJoin :: int
  cl_ClientStatus :: "ClientStatusInfo option"
  cl_PreferredChannelMode :: ChannelMode

text \<open>The zero value \<^verbatim>\<open>ClientInfo{}\<close>, which a lookup of an absent key yields.\<close>

definition zero_ClientInfo :: ClientInfo where
  "zero_ClientInfo = \<lparr>cl_DeviceId = [], cl_Name = [], cl_UserID = [], cl_NetworkKey = [],
     cl_AuthGroup = [], cl_NetworkScope = [], cl_ControlOnline = False, cl_ControlLastSeen = 0,
     cl_DataPlaneReachable = False, cl_DataPlaneLastSeen = 0, cl_Version = [],
     cl_Capabilities = [], cl_VirtualIp = 0, cl_Address = None, cl_DevicePubKey = [],
     cl_OnlineKxPub = [], cl_LastJoin = 0, cl_ClientStatus = None,
     cl_PreferredChannelMode = CHANNEL_MODE_AUTO\<rparr>"

record NetworkInfo =
  ni_Group :: string
  ni_Netmask :: netMask
  ni_Gateway :: netIP
  ni_Epoch :: u64
  ni_Clients :: "(u32, ClientInfo) gomap"
  ni_ClientIPsByDeviceID :: "(string, u32) gomap"
  ni_ReservedIPs :: "(u32, string) gomap"

section \<open>Punch sessions\<close>

datatype PunchSessionState =
  PunchSessionScheduled | PunchSessionSending | PunchSessionWaiting
| PunchSessionSuccess | PunchSessionFailed | PunchSessionTimeout

record PunchEndpoint =
  pe_Ip :: u32
  pe_Port :: u32
  pe_Ipv6 :: bytes
  pe_Tcp :: bool

record PunchResultMsg =
  pr_SessionId :: u64
  pr_Source :: u32
  pr_Target :: u32
  pr_Attempt :: u32
  pr_Code :: PunchResultCode
  pr_Reason :: string
  pr_SelectedEndpoint :: "PunchEndpoint option"
  pr_Phase :: PunchSessionPhase

record PunchSession =
  ps_SessionID :: u64
  ps_Source :: u32
  ps_Target :: u32
  ps_Attempt :: u32
  ps_AttemptBudget :: u32
  ps_DeadlineUnixMs :: int
  ps_TriggerReason :: string
  ps_SelectionPolicy :: string
  ps_State :: PunchSessionState
  ps_RequestedAt :: int
  ps_LastReason :: string
  ps_RelayFallback :: bool
  ps_Ack :: "(u32, bool) gomap"
  ps_Results :: "(u32, PunchResultMsg) gomap"

record PunchRetryState =
  rt_Attempt :: u32
  rt_NextAllowedUnixMs :: int

section \<open>NetworkControl\<close>

record IpSessionKey =
  sk_ID :: string
  sk_IP :: string

record NetworkControl =
  nc_VirtualNetwork :: "(string, NetworkInfo) ExpireMap"
  nc_IPSessions :: "(IpSessionKey, netAddr) ExpireMap"
  nc_CipherSessions :: "(string, unit) ExpireMap"
  nc_PunchSessions :: "(string, PunchSession) ExpireMap"
  nc_PunchPairCooldown :: "(string, unit) ExpireMap"
  nc_ManualPunchPairDedup :: "(string, unit) ExpireMap"
  nc_PunchPairRetry :: "(string, PunchRetryState) ExpireMap"

text \<open>The maps as \<^verbatim>\<open>NewController\<close> makes them, with their times to live.\<close>

definition manualPunchPairDedupWindow :: int where
  "manualPunchPairDedupWindow = 3 * Second"

definition NewNetworkControl :: NetworkControl where
  "NewNetworkControl = \<lparr>nc_VirtualNetwork = NewExpireMap (7 * 24 * 3600 * Second),
     nc_IPSessions = NewExpireMap (24 * 3600 * Second),
     nc_CipherSessions = NewExpireMap (24 * 3600 * Second),
     nc_PunchSessions = NewExpireMap (600 * Second),
     nc_PunchPairCooldown = NewExpireMap (20 * Second),
     nc_ManualPunchPairDedup = NewExpireMap manualPunchPairDedupWindow,
     nc_PunchPairRetry = NewExpireMap (1800 * Second)\<rparr>"

definition NewIpSessionKey :: "string \<Rightarrow> u32 \<Rightarrow> IpSessionKey" where
  "NewIpSessionKey ident ip = \<lparr>sk_ID = ident, sk_IP = Uint32ToIP_String ip\<rparr>"

lemma NewIpSessionKey_inj [simp]:
  "NewIpSessionKey a v = NewIpSessionKey b w \<longleftrightarrow> a = b \<and> v = w"
  by (simp add: NewIpSessionKey_def)

end
