(* ===== verification/Network.thy ===== *)
theory Network
  imports Control_Types
begin

text \<open>
  Network identity and the address table: \<^verbatim>\<open>control/ip.go\<close> and \<^verbatim>\<open>control/network.go\<close>.
  The locale \<open>address_table\<close> is the contract that registration relies on: a table of clients by
  address with an index by device. It is interpreted on \<open>UpsertClient\<close>, \<open>DeleteClient\<close> and
  \<open>FindClientIPByDeviceID\<close>.
\<close>

section \<open>Network identity\<close>

definition personalNetworkPrefix :: string where "personalNetworkPrefix = ''personal:''"
definition groupNetworkPrefix :: string where "groupNetworkPrefix = ''group:''"
definition personalUserIDPrefix :: string where "personalUserIDPrefix = ''sdl-''"

record NetworkIdentity =
  id_key :: string
  id_authGroup :: string
  id_scope :: string

definition isPersonalSDLUser :: "string \<Rightarrow> bool" where
  "isPersonalSDLUser userID = HasPrefix (TrimSpace userID) personalUserIDPrefix"

definition NewNetworkIdentity :: "string \<Rightarrow> string \<Rightarrow> NetworkIdentity" where
  "NewNetworkIdentity authGroup0 userID0 =
     (let authGroup = TrimSpace authGroup0; userID = TrimSpace userID0 in
      if isPersonalSDLUser userID
      then (let scope = personalNetworkPrefix @ userID in
            \<lparr>id_key = scope @ ''@'' @ authGroup, id_authGroup = authGroup, id_scope = scope\<rparr>)
      else \<lparr>id_key = authGroup, id_authGroup = authGroup,
            id_scope = groupNetworkPrefix @ authGroup\<rparr>)"

definition NetworkIdentityFromClient :: "ClientInfo \<Rightarrow> string \<Rightarrow> NetworkIdentity" where
  "NetworkIdentityFromClient client fallbackNetworkKey =
     (let ag0 = TrimSpace (cl_AuthGroup client);
          authGroup = (if ag0 = [] then TrimSpace fallbackNetworkKey else ag0);
          key0 = TrimSpace (cl_NetworkKey client);
          key = (if key0 = [] then TrimSpace fallbackNetworkKey else key0);
          scope0 = TrimSpace (cl_NetworkScope client);
          scope = (if scope0 = [] then id_scope (NewNetworkIdentity authGroup (cl_UserID client))
                   else scope0)
      in \<lparr>id_key = key, id_authGroup = authGroup, id_scope = scope\<rparr>)"

definition clientAuthGroup :: "ClientInfo \<Rightarrow> string \<Rightarrow> string" where
  "clientAuthGroup client fallback = id_authGroup (NetworkIdentityFromClient client fallback)"

definition clientNetworkKey :: "ClientInfo \<Rightarrow> string \<Rightarrow> string" where
  "clientNetworkKey client fallback = id_key (NetworkIdentityFromClient client fallback)"

definition clientNetworkScope :: "ClientInfo \<Rightarrow> string \<Rightarrow> string" where
  "clientNetworkScope client fallback = id_scope (NetworkIdentityFromClient client fallback)"

section \<open>The address table\<close>

definition NewNetworkInfo ::
    "string \<Rightarrow> netMask \<Rightarrow> netIP \<Rightarrow> (u32, string) gomap \<Rightarrow> NetworkInfo" where
  "NewNetworkInfo grp netmask gateway reservedIPs =
     \<lparr>ni_Group = grp, ni_Netmask = netmask, ni_Gateway = gateway, ni_Epoch = 0,
      ni_Clients = [], ni_ClientIPsByDeviceID = [], ni_ReservedIPs = reservedIPs\<rparr>"

definition UpsertClient :: "u32 \<Rightarrow> ClientInfo \<Rightarrow> NetworkInfo \<Rightarrow> NetworkInfo" where
  "UpsertClient ip client n =
     (let idx = (case gget (ni_Clients n) ip of
                   Some existing \<Rightarrow>
                     if cl_DeviceId existing \<noteq> [] \<and> cl_DeviceId existing \<noteq> cl_DeviceId client
                        \<and> gget (ni_ClientIPsByDeviceID n) (cl_DeviceId existing) = Some ip
                     then gdel (cl_DeviceId existing) (ni_ClientIPsByDeviceID n)
                     else ni_ClientIPsByDeviceID n
                 | None \<Rightarrow> ni_ClientIPsByDeviceID n)
      in n\<lparr>ni_Clients := gput ip client (ni_Clients n),
           ni_ClientIPsByDeviceID :=
             (if cl_DeviceId client \<noteq> [] then gput (cl_DeviceId client) ip idx else idx)\<rparr>)"

definition DeleteClient :: "u32 \<Rightarrow> NetworkInfo \<Rightarrow> NetworkInfo" where
  "DeleteClient ip n =
     (case gget (ni_Clients n) ip of
        None \<Rightarrow> n
      | Some client \<Rightarrow>
          n\<lparr>ni_Clients := gdel ip (ni_Clients n),
            ni_ClientIPsByDeviceID :=
              (if cl_DeviceId client \<noteq> []
                  \<and> gget (ni_ClientIPsByDeviceID n) (cl_DeviceId client) = Some ip
               then gdel (cl_DeviceId client) (ni_ClientIPsByDeviceID n)
               else ni_ClientIPsByDeviceID n)\<rparr>)"

definition FindClientIPByDeviceID :: "NetworkInfo \<Rightarrow> string \<Rightarrow> u32" where
  "FindClientIPByDeviceID n deviceID =
     (if deviceID = [] then 0
      else case gget (ni_ClientIPsByDeviceID n) deviceID of None \<Rightarrow> 0 | Some ip \<Rightarrow> ip)"

section \<open>Address assignment\<close>

text \<open>
  One round of the loop of \<^verbatim>\<open>generateIP\<close>: whether \<open>ip\<close> is taken for the device, and the table and
  the reservations afterwards. An offline client whose reservation has run out loses its address.
\<close>

definition claimIP ::
    "gtime \<Rightarrow> u32 \<Rightarrow> NetworkInfo \<times> (IpSessionKey, netAddr) ExpireMap
     \<Rightarrow> bool \<times> NetworkInfo \<times> (IpSessionKey, netAddr) ExpireMap" where
  "claimIP now ip = (\<lambda>(network, sess).
     (let key = NewIpSessionKey (ni_Group network) ip in
      case em_Get now key sess of
        (None, sess') \<Rightarrow>
          (True, network, em_Set now key (Some (Uint32ToIP_String ip)) sess')
      | (Some _, sess') \<Rightarrow> (False, network, sess')))"

definition tryIP ::
    "gtime \<Rightarrow> u32 \<Rightarrow> NetworkInfo \<times> (IpSessionKey, netAddr) ExpireMap
     \<Rightarrow> bool \<times> NetworkInfo \<times> (IpSessionKey, netAddr) ExpireMap" where
  "tryIP now ip = (\<lambda>(network, sess).
     if ip = IpToUint32 (ni_Gateway network) then (False, network, sess)
     else if gget (ni_ReservedIPs network) ip \<noteq> None then (False, network, sess)
     else (case gget (ni_Clients network) ip of
             None \<Rightarrow> claimIP now ip (network, sess)
           | Some client \<Rightarrow>
               if cl_ControlOnline client then (False, network, sess)
               else (case em_Get now (NewIpSessionKey (ni_Group network) ip) sess of
                       (Some _, sess') \<Rightarrow> (False, network, sess')
                     | (None, sess') \<Rightarrow> claimIP now ip (DeleteClient ip network, sess'))))"

text \<open>The loop \<^verbatim>\<open>for ip := first; ip <= last; ip++\<close>; \<^term>\<open>None\<close> would be a loop that never ends.\<close>

partial_function (option) scanIP ::
    "gtime \<Rightarrow> u32 \<Rightarrow> u32 \<Rightarrow> NetworkInfo \<times> (IpSessionKey, netAddr) ExpireMap
     \<Rightarrow> (u32 result \<times> NetworkInfo \<times> (IpSessionKey, netAddr) ExpireMap) option" where
  "scanIP now lst ip st =
     (if ip \<le> lst
      then (case tryIP now ip st of
              (claimed, st') \<Rightarrow> if claimed then Some (Inr ip, st') else scanIP now lst (ip + 1) st')
      else Some (Inl ''no available virtual ips'', st))"

declare scanIP.simps [code]

text \<open>
  The part of \<^verbatim>\<open>generateIP\<close> that picks an address: the previous one of the device, else the first
  that can be claimed. The result is the assigned and the previous address.
\<close>

definition autoIP ::
    "gtime \<Rightarrow> NetworkInfo \<Rightarrow> (IpSessionKey, netAddr) ExpireMap \<Rightarrow> u32
     \<Rightarrow> ((u32 \<times> u32) result \<times> NetworkInfo \<times> (IpSessionKey, netAddr) ExpireMap) option" where
  "autoIP now network sess oldIP =
     (let gw = IpToUint32 (ni_Gateway network); msk = MaskToUint32 (ni_Netmask network) in
      if oldIP \<noteq> 0 then Some (Inr (oldIP, oldIP), network, sess)
      else if firstIP gw msk > lastIP gw msk
      then Some (Inl ''no available virtual ips'', network, sess)
      else map_option (\<lambda>(r, st). (map_sum id (\<lambda>ip. (ip, 0)) r, st))
             (scanIP now (lastIP gw msk) (firstIP gw msk) (network, sess)))"

definition generateIP ::
    "gtime \<Rightarrow> NetworkInfo \<Rightarrow> (IpSessionKey, netAddr) ExpireMap \<Rightarrow> u32 \<Rightarrow> string \<Rightarrow> bool
     \<Rightarrow> ((u32 \<times> u32) result \<times> NetworkInfo \<times> (IpSessionKey, netAddr) ExpireMap) option" where
  "generateIP now network sess requestedIP deviceID allowIPChange =
     (let oldIP = FindClientIPByDeviceID network deviceID;
          taken = (case gget (ni_Clients network) requestedIP of
                     Some current \<Rightarrow> cl_DeviceId current \<noteq> deviceID | None \<Rightarrow> False)
      in if requestedIP = 0 then autoIP now network sess oldIP
         else case validateRequestedIP requestedIP (ni_Gateway network) (ni_Netmask network) of
                Some err \<Rightarrow> Some (Inl err, network, sess)
              | None \<Rightarrow>
                  if taken then
                    (if \<not> allowIPChange
                     then Some (Inl (''virtual ip '' @ Uint32ToIP_String requestedIP
                                     @ '' already in use''), network, sess)
                     else autoIP now network sess oldIP)
                  else Some (Inr (requestedIP, oldIP), network, sess))"

section \<open>Visiting the networks\<close>

text \<open>
  \<^verbatim>\<open>forEachVirtualNetworkRead\<close>: visits the networks, all of them for an empty key, until the
  visitor returns false. The visitor's captured variables are the state \<open>'s\<close>.
\<close>

fun visit_networks ::
    "string \<Rightarrow> (string \<Rightarrow> NetworkInfo \<Rightarrow> 's \<Rightarrow> bool \<times> 's) \<Rightarrow> (string, NetworkInfo) gomap \<Rightarrow> 's \<Rightarrow> 's"
  where
  "visit_networks networkKey visit [] s = s"
| "visit_networks networkKey visit ((key, network) # rest) s =
     (if networkKey \<noteq> [] \<and> key \<noteq> networkKey then visit_networks networkKey visit rest s
      else case visit key network s of
             (True, s') \<Rightarrow> visit_networks networkKey visit rest s'
           | (False, s') \<Rightarrow> s')"

definition forEachVirtualNetworkRead ::
    "NetworkControl \<Rightarrow> string \<Rightarrow> (string \<Rightarrow> NetworkInfo \<Rightarrow> 's \<Rightarrow> bool \<times> 's) \<Rightarrow> 's \<Rightarrow> 's" where
  "forEachVirtualNetworkRead nc networkKey visit s =
     visit_networks (TrimSpace networkKey) visit (em_data (nc_VirtualNetwork nc)) s"

definition FindClientByVirtualIPInNetwork ::
    "NetworkControl \<Rightarrow> string \<Rightarrow> u32 \<Rightarrow> ClientInfo option" where
  "FindClientByVirtualIPInNetwork nc networkKey virtualIP =
     forEachVirtualNetworkRead nc networkKey
       (\<lambda>_ network found.
          case gget (ni_Clients network) virtualIP of
            Some client \<Rightarrow> (False, Some client) | None \<Rightarrow> (True, found))
       None"

definition clientOwnsVirtualIPInNetwork ::
    "NetworkControl \<Rightarrow> string \<Rightarrow> u32 \<Rightarrow> string \<Rightarrow> bool" where
  "clientOwnsVirtualIPInNetwork nc networkKey virtualIP deviceID =
     forEachVirtualNetworkRead nc networkKey
       (\<lambda>_ network owns.
          case gget (ni_Clients network) virtualIP of
            Some client \<Rightarrow> (False, cl_DeviceId client = deviceID) | None \<Rightarrow> (True, owns))
       False"

text \<open>\<^verbatim>\<open>FindClientByDeviceID\<close>, which falls back to a scan when the index does not help.\<close>

definition FindClientByDeviceID :: "NetworkControl \<Rightarrow> string \<Rightarrow> string \<Rightarrow> ClientInfo option" where
  "FindClientByDeviceID nc groupName deviceID =
     (let networks = em_data (nc_VirtualNetwork nc) in
      case gget networks groupName of
        None \<Rightarrow>
          find (\<lambda>_. True)
            (concat (map (\<lambda>(_, network). filter (\<lambda>client. cl_DeviceId client = deviceID
                 \<and> EqualFold (clientAuthGroup client (ni_Group network)) groupName)
               (map snd (ni_Clients network))) networks))
      | Some network \<Rightarrow>
          (let virtualIP = FindClientIPByDeviceID network deviceID in
           case (if virtualIP \<noteq> 0 then gget (ni_Clients network) virtualIP else None) of
             Some client \<Rightarrow> Some client
           | None \<Rightarrow> find (\<lambda>client. cl_DeviceId client = deviceID)
                       (map snd (ni_Clients network))))"

section \<open>Updates in place\<close>

text \<open>
  Loops under the write lock that stop at the first network where \<open>f\<close> applies and leave the
  changed network in the map.
\<close>

fun update_first ::
    "(string \<Rightarrow> NetworkInfo \<Rightarrow> (NetworkInfo \<times> 'r) option) \<Rightarrow> (string, NetworkInfo) gomap
     \<Rightarrow> 'r option \<times> (string, NetworkInfo) gomap" where
  "update_first f [] = (None, [])"
| "update_first f ((key, network) # rest) =
     (case f key network of
        Some (network', r) \<Rightarrow> (Some r, (key, network') # rest)
      | None \<Rightarrow> (case update_first f rest of (r, rest') \<Rightarrow> (r, (key, network) # rest')))"

definition with_networks ::
    "NetworkControl \<Rightarrow> (string, NetworkInfo) gomap \<Rightarrow> NetworkControl" where
  "with_networks nc networks =
     nc\<lparr>nc_VirtualNetwork := (nc_VirtualNetwork nc)\<lparr>em_data := networks\<rparr>\<rparr>"

text \<open>The epoch is truncated to 16 bits; 0 stands for a client that was not found.\<close>

definition TouchClientByIPInNetwork ::
    "gtime \<Rightarrow> string \<Rightarrow> netIP \<Rightarrow> NetworkControl \<Rightarrow> u16 \<times> NetworkControl" where
  "TouchClientByIPInNetwork now networkKey srcIP nc =
     (let ip = IpToUint32 srcIP in
      case update_first
             (\<lambda>key network.
                if TrimSpace networkKey \<noteq> [] \<and> key \<noteq> networkKey then None
                else case gget (ni_Clients network) ip of
                       None \<Rightarrow> None
                     | Some client \<Rightarrow>
                         Some (UpsertClient ip (client\<lparr>cl_ControlOnline := True,
                                 cl_ControlLastSeen := Unix now\<rparr>) network,
                               ucast (ni_Epoch network)))
             (em_data (nc_VirtualNetwork nc)) of
        (r, networks) \<Rightarrow> (case r of None \<Rightarrow> 0 | Some epoch \<Rightarrow> epoch, with_networks nc networks))"

definition UpdateClientByVirtualIPInNetwork ::
    "string \<Rightarrow> u32 \<Rightarrow> (ClientInfo \<Rightarrow> ClientInfo) \<Rightarrow> NetworkControl \<Rightarrow> bool \<times> NetworkControl" where
  "UpdateClientByVirtualIPInNetwork networkKey virtualIP update nc =
     (case update_first
             (\<lambda>key network.
                if TrimSpace networkKey \<noteq> [] \<and> key \<noteq> networkKey then None
                else case gget (ni_Clients network) virtualIP of
                       None \<Rightarrow> None
                     | Some client \<Rightarrow> Some (UpsertClient virtualIP (update client) network, ()))
             (em_data (nc_VirtualNetwork nc)) of
        (r, networks) \<Rightarrow> (r \<noteq> None, with_networks nc networks))"

definition TouchCipherSession :: "gtime \<Rightarrow> netAddr \<Rightarrow> NetworkControl \<Rightarrow> NetworkControl" where
  "TouchCipherSession now remoteAddr nc =
     (case remoteAddr of
        None \<Rightarrow> nc
      | Some addr \<Rightarrow> nc\<lparr>nc_CipherSessions := em_Set now addr () (nc_CipherSessions nc)\<rparr>)"

section \<open>Leaving\<close>

text \<open>What both \<^verbatim>\<open>LeaveByRemoteAddr\<close> and \<^verbatim>\<open>clearStaleClientStateByDeviceID\<close> write to a client.\<close>

definition mark_offline :: "gtime \<Rightarrow> ClientInfo \<Rightarrow> ClientInfo" where
  "mark_offline now client =
     client\<lparr>cl_ControlOnline := False, cl_ControlLastSeen := Unix now,
            cl_DataPlaneReachable := False, cl_DataPlaneLastSeen := 0,
            cl_ClientStatus := None, cl_PreferredChannelMode := CHANNEL_MODE_AUTO\<rparr>"

text \<open>
  The inner loop over the clients of one network: those that satisfy \<open>sel\<close> go offline and their
  address is reserved under \<open>addr\<close>; the flag says whether any did.
\<close>

definition offline_clients ::
    "gtime \<Rightarrow> (ClientInfo \<Rightarrow> bool) \<Rightarrow> (ClientInfo \<Rightarrow> netAddr) \<Rightarrow> NetworkInfo
     \<Rightarrow> (IpSessionKey, netAddr) ExpireMap
     \<Rightarrow> NetworkInfo \<times> (IpSessionKey, netAddr) ExpireMap \<times> bool" where
  "offline_clients now sel addr network sess =
     fold (\<lambda>(ip, client) (network, sess, changed).
             if sel client
             then (UpsertClient ip (mark_offline now client) network,
                   em_Set now (NewIpSessionKey (ni_Group network) ip) (addr client) sess, True)
             else (network, sess, changed))
       (ni_Clients network) (network, sess, False)"

fun offline_networks ::
    "gtime \<Rightarrow> (NetworkInfo \<Rightarrow> ClientInfo \<Rightarrow> bool) \<Rightarrow> (ClientInfo \<Rightarrow> netAddr)
     \<Rightarrow> (string, NetworkInfo) gomap \<Rightarrow> (IpSessionKey, netAddr) ExpireMap
     \<Rightarrow> (string, NetworkInfo) gomap \<times> (IpSessionKey, netAddr) ExpireMap" where
  "offline_networks now sel addr [] sess = ([], sess)"
| "offline_networks now sel addr ((key, network) # rest) sess =
     (case offline_clients now (sel network) addr network sess of
        (network', sess', changed) \<Rightarrow>
          (case offline_networks now sel addr rest sess' of
             (rest', sess'') \<Rightarrow>
               ((key, if changed then network'\<lparr>ni_Epoch := ni_Epoch network' + 1\<rparr> else network')
                # rest', sess'')))"

definition nc_offline ::
    "gtime \<Rightarrow> (NetworkInfo \<Rightarrow> ClientInfo \<Rightarrow> bool) \<Rightarrow> (ClientInfo \<Rightarrow> netAddr)
     \<Rightarrow> NetworkControl \<Rightarrow> NetworkControl" where
  "nc_offline now sel addr nc =
     (case offline_networks now sel addr (em_data (nc_VirtualNetwork nc)) (nc_IPSessions nc) of
        (networks, sess) \<Rightarrow> (with_networks nc networks)\<lparr>nc_IPSessions := sess\<rparr>)"

definition LeaveByRemoteAddr :: "gtime \<Rightarrow> netAddr \<Rightarrow> NetworkControl \<Rightarrow> NetworkControl" where
  "LeaveByRemoteAddr now remoteAddr nc =
     (case remoteAddr of
        None \<Rightarrow> nc
      | Some addr \<Rightarrow>
          nc_offline now (\<lambda>_ client. cl_Address client = Some addr \<and> cl_ControlOnline client)
            (\<lambda>_. remoteAddr)
            (nc\<lparr>nc_CipherSessions := em_Delete addr (nc_CipherSessions nc)\<rparr>))"

section \<open>Lemmas\<close>

lemma Upsert_fields [simp]:
  "ni_Clients (UpsertClient ip c n) = gput ip c (ni_Clients n)"
  "ni_Group (UpsertClient ip c n) = ni_Group n" "ni_Epoch (UpsertClient ip c n) = ni_Epoch n"
  "ni_Gateway (UpsertClient ip c n) = ni_Gateway n" "ni_Netmask (UpsertClient ip c n) = ni_Netmask n"
  "ni_ReservedIPs (UpsertClient ip c n) = ni_ReservedIPs n"
  by (simp_all add: UpsertClient_def Let_def)

lemma Delete_fields [simp]:
  "gget (ni_Clients (DeleteClient ip n)) ip' = (if ip' = ip then None else gget (ni_Clients n) ip')"
  "ni_Group (DeleteClient ip n) = ni_Group n" "ni_Epoch (DeleteClient ip n) = ni_Epoch n"
  "ni_Gateway (DeleteClient ip n) = ni_Gateway n" "ni_Netmask (DeleteClient ip n) = ni_Netmask n"
  "ni_ReservedIPs (DeleteClient ip n) = ni_ReservedIPs n"
  by (auto simp: DeleteClient_def split: option.split)

text \<open>
  The invariant of the table: no key twice, the index and the clients agree in both directions (so
  a device holds one address), and the address 0, which stands for none, is never assigned.
\<close>

definition net_wf :: "NetworkInfo \<Rightarrow> bool" where
  "net_wf n \<longleftrightarrow> gwf (ni_Clients n) \<and> gwf (ni_ClientIPsByDeviceID n)
     \<and> gget (ni_Clients n) 0 = None
     \<and> (\<forall>d ip. gget (ni_ClientIPsByDeviceID n) d = Some ip \<longleftrightarrow>
          d \<noteq> [] \<and> (\<exists>c. gget (ni_Clients n) ip = Some c \<and> cl_DeviceId c = d))"

lemma net_wf_New: "net_wf (NewNetworkInfo g m gw r)"
  by (simp add: net_wf_def NewNetworkInfo_def)

lemma net_wf_index:
  "net_wf n \<Longrightarrow> gget (ni_ClientIPsByDeviceID n) d = Some ip \<longleftrightarrow>
     d \<noteq> [] \<and> (\<exists>c. gget (ni_Clients n) ip = Some c \<and> cl_DeviceId c = d)"
  by (simp add: net_wf_def)

lemma net_wf_unique:
  assumes "net_wf n" and "gget (ni_Clients n) ip = Some c" and "gget (ni_Clients n) ip' = Some c'"
    and "cl_DeviceId c = cl_DeviceId c'" and "cl_DeviceId c \<noteq> []"
  shows "ip = ip'"
proof -
  have "gget (ni_ClientIPsByDeviceID n) (cl_DeviceId c) = Some ip"
    and "gget (ni_ClientIPsByDeviceID n) (cl_DeviceId c) = Some ip'"
    using assms by (auto simp: net_wf_index)
  then show ?thesis by simp
qed

lemma Find_iff:
  assumes "net_wf n" and "ip \<noteq> 0"
  shows "FindClientIPByDeviceID n d = ip \<longleftrightarrow>
    d \<noteq> [] \<and> (\<exists>c. gget (ni_Clients n) ip = Some c \<and> cl_DeviceId c = d)"
  using assms net_wf_index [OF assms(1), of d ip]
  by (auto simp: FindClientIPByDeviceID_def split: option.splits)

lemma Delete_index:
  assumes wf: "net_wf n"
  shows "gget (ni_ClientIPsByDeviceID (DeleteClient ip n)) d =
    (if gget (ni_ClientIPsByDeviceID n) d = Some ip then None
     else gget (ni_ClientIPsByDeviceID n) d)"
proof (cases "gget (ni_Clients n) ip")
  case None
  then show ?thesis using net_wf_index [OF wf, of d ip] by (simp add: DeleteClient_def)
next
  case (Some c)
  then show ?thesis
    using net_wf_index [OF wf, of d ip] net_wf_index [OF wf, of "cl_DeviceId c" ip]
    by (auto simp: DeleteClient_def)
qed

lemma Upsert_index:
  assumes wf: "net_wf n"
  shows "gget (ni_ClientIPsByDeviceID (UpsertClient ip c n)) d =
    (if d = cl_DeviceId c \<and> d \<noteq> [] then Some ip
     else if gget (ni_ClientIPsByDeviceID n) d = Some ip \<and> d \<noteq> cl_DeviceId c then None
     else gget (ni_ClientIPsByDeviceID n) d)"
proof (cases "gget (ni_Clients n) ip")
  case None
  then show ?thesis
    using net_wf_index [OF wf, of d ip] by (simp add: UpsertClient_def Let_def)
next
  case (Some e)
  then show ?thesis
    using net_wf_index [OF wf, of d ip] net_wf_index [OF wf, of "cl_DeviceId e" ip]
    by (auto simp: UpsertClient_def Let_def)
qed

lemma gwf_table:
  assumes "net_wf n"
  shows "gwf (ni_Clients (DeleteClient ip n))" "gwf (ni_ClientIPsByDeviceID (DeleteClient ip n))"
    "gwf (ni_Clients (UpsertClient ip c n))" "gwf (ni_ClientIPsByDeviceID (UpsertClient ip c n))"
  using assms
  by (auto simp: net_wf_def DeleteClient_def UpsertClient_def Let_def split: option.split
      intro: gwf_intros)

lemma net_wfI:
  assumes "gwf (ni_Clients n)" and "gwf (ni_ClientIPsByDeviceID n)" and "gget (ni_Clients n) 0 = None"
    and "\<And>d ip. gget (ni_ClientIPsByDeviceID n) d = Some ip \<longleftrightarrow>
          d \<noteq> [] \<and> (\<exists>c. gget (ni_Clients n) ip = Some c \<and> cl_DeviceId c = d)"
  shows "net_wf n"
  using assms by (simp add: net_wf_def)

lemma net_wf_Delete:
  assumes wf: "net_wf n"
  shows "net_wf (DeleteClient ip n)"
proof (rule net_wfI)
  show "gget (ni_Clients (DeleteClient ip n)) 0 = None" using wf by (simp add: net_wf_def)
  fix d ip'
  show "gget (ni_ClientIPsByDeviceID (DeleteClient ip n)) d = Some ip' \<longleftrightarrow>
    d \<noteq> [] \<and> (\<exists>c. gget (ni_Clients (DeleteClient ip n)) ip' = Some c \<and> cl_DeviceId c = d)"
  proof -
    have "gget (ni_ClientIPsByDeviceID (DeleteClient ip n)) d = Some ip' \<longleftrightarrow>
      gget (ni_ClientIPsByDeviceID n) d = Some ip' \<and> ip' \<noteq> ip"
      by (simp add: Delete_index [OF wf]) blast
    then show ?thesis by (simp add: net_wf_index [OF wf])
  qed
qed (simp_all only: gwf_table [OF wf])

lemma net_wf_Upsert:
  assumes wf: "net_wf n" and "ip \<noteq> 0"
    and free: "FindClientIPByDeviceID n (cl_DeviceId c) = 0 \<or>
               FindClientIPByDeviceID n (cl_DeviceId c) = ip"
  shows "net_wf (UpsertClient ip c n)"
proof (rule net_wfI)
  show "gget (ni_Clients (UpsertClient ip c n)) 0 = None"
    using wf \<open>ip \<noteq> 0\<close> by (simp add: net_wf_def)
  have zero: "gget (ni_Clients n) 0 = None" using wf by (simp add: net_wf_def)
  fix d ip'
  have only: "ip' = ip" if "gget (ni_Clients n) ip' = Some c'" "cl_DeviceId c' = cl_DeviceId c"
    "cl_DeviceId c \<noteq> []" for c'
  proof -
    have "ip' \<noteq> 0" using that(1) zero by auto
    then have "FindClientIPByDeviceID n (cl_DeviceId c) = ip'"
      using Find_iff [OF wf] that by blast
    with free \<open>ip' \<noteq> 0\<close> show ?thesis by simp
  qed
  show "gget (ni_ClientIPsByDeviceID (UpsertClient ip c n)) d = Some ip' \<longleftrightarrow>
    d \<noteq> [] \<and> (\<exists>c'. gget (ni_Clients (UpsertClient ip c n)) ip' = Some c' \<and> cl_DeviceId c' = d)"
  proof (cases "ip' = ip")
    case True
    then show ?thesis
      using net_wf_index [OF wf, of "[]" ip] by (auto simp: Upsert_index [OF wf])
  next
    case False
    have "gget (ni_ClientIPsByDeviceID (UpsertClient ip c n)) d = Some ip' \<longleftrightarrow>
      gget (ni_ClientIPsByDeviceID n) d = Some ip' \<and> \<not> (d = cl_DeviceId c \<and> d \<noteq> [])"
      using False by (simp add: Upsert_index [OF wf]) blast
    then show ?thesis using False only by (simp add: net_wf_index [OF wf]) blast
  qed
qed (simp_all only: gwf_table [OF wf])

section \<open>The contract of the address table\<close>

locale address_table =
  fixes lookup :: "'n \<Rightarrow> u32 \<Rightarrow> 'c option"
    and address :: "'n \<Rightarrow> string \<Rightarrow> u32"
    and device :: "'c \<Rightarrow> string"
    and upsert :: "u32 \<Rightarrow> 'c \<Rightarrow> 'n \<Rightarrow> 'n"
    and remove :: "u32 \<Rightarrow> 'n \<Rightarrow> 'n"
    and inv :: "'n \<Rightarrow> bool"
  assumes lookup_upsert: "lookup (upsert ip c n) ip' = (if ip' = ip then Some c else lookup n ip')"
    and lookup_remove: "lookup (remove ip n) ip' = (if ip' = ip then None else lookup n ip')"
    and inv_upsert: "inv n \<Longrightarrow> ip \<noteq> 0 \<Longrightarrow> address n (device c) = 0 \<or> address n (device c) = ip \<Longrightarrow>
      inv (upsert ip c n)"
    and inv_remove: "inv n \<Longrightarrow> inv (remove ip n)"
    and address_iff: "inv n \<Longrightarrow> ip \<noteq> 0 \<Longrightarrow> address n d = ip \<longleftrightarrow>
      d \<noteq> [] \<and> (\<exists>c. lookup n ip = Some c \<and> device c = d)"
    and no_zero: "inv n \<Longrightarrow> lookup n 0 = None"
begin

text \<open>A change of a client that keeps its device keeps the invariant.\<close>

lemma inv_modify:
  assumes "inv n" and "lookup n ip = Some c" and "device c' = device c"
  shows "inv (upsert ip c' n)"
proof (rule inv_upsert [OF assms(1)])
  show nz: "ip \<noteq> 0" using assms(1,2) no_zero by auto
  show "address n (device c') = 0 \<or> address n (device c') = ip"
  proof (cases "device c = []")
    case True
    have "address n [] = 0"
      using address_iff [OF assms(1), of "address n []" "[]"] by blast
    with True assms(3) show ?thesis by simp
  next
    case False
    then have "address n (device c') = ip"
      using address_iff [OF assms(1) nz] assms(2,3) by auto
    then show ?thesis by simp
  qed
qed

text \<open>
  Moving a device: dropping its previous address and storing it under a new one keeps the
  invariant, and afterwards the device is at the new address and nowhere else.
\<close>

lemma move_device:
  assumes inv: "inv n" and nz: "ip \<noteq> 0" and dev: "device c \<noteq> []"
    and old: "old = address n (device c)"
    and n1: "n1 = (if old \<noteq> 0 \<and> old \<noteq> ip then remove old n else n)"
  shows "inv (upsert ip c n1)" and "address (upsert ip c n1) (device c) = ip"
    and "lookup (upsert ip c n1) ip' = Some c' \<Longrightarrow> device c' = device c \<Longrightarrow> ip' = ip"
proof -
  have inv1: "inv n1" using inv n1 by (simp add: inv_remove)
  have free: "address n1 (device c) = 0 \<or> address n1 (device c) = ip"
  proof (rule ccontr)
    assume "\<not> ?thesis"
    then have nz1: "address n1 (device c) \<noteq> 0" and ne: "address n1 (device c) \<noteq> ip" by auto
    let ?a = "address n1 (device c)"
    obtain c1 where c1: "lookup n1 ?a = Some c1" "device c1 = device c"
      using address_iff [OF inv1 nz1] by blast
    have "lookup n a = Some c1" if "lookup n1 a = Some c1" for a
      using that n1 by (cases "old \<noteq> 0 \<and> old \<noteq> ip") (simp_all add: lookup_remove split: if_split_asm)
    then have n: "lookup n ?a = Some c1" using c1(1) by blast
    have "address n (device c) = ?a"
      using address_iff [OF inv nz1, of "device c"] n c1(2) dev by blast
    then have "old = ?a" using old by simp
    then have "lookup n1 ?a = None" using ne nz1 n1 by (simp add: lookup_remove)
    with c1(1) show False by simp
  qed
  show i: "inv (upsert ip c n1)" by (rule inv_upsert [OF inv1 nz free])
  show a: "address (upsert ip c n1) (device c) = ip"
    using address_iff [OF i nz] dev by (simp add: lookup_upsert)
  assume l: "lookup (upsert ip c n1) ip' = Some c'" and d: "device c' = device c"
  have "ip' \<noteq> 0" using l no_zero [OF i] by auto
  then have "address (upsert ip c n1) (device c) = ip'"
    using address_iff [OF i] l d dev by blast
  with a show "ip' = ip" by simp
qed

end

interpretation tbl: address_table "\<lambda>n. gget (ni_Clients n)" FindClientIPByDeviceID cl_DeviceId
  UpsertClient DeleteClient net_wf
proof unfold_locales
  fix n :: NetworkInfo
  show "gget (ni_Clients n) 0 = None" if "net_wf n" using that by (simp add: net_wf_def)
qed (simp only: Upsert_fields gget_put, rule Delete_fields, erule (2) net_wf_Upsert,
    erule net_wf_Delete, erule (1) Find_iff)

section \<open>Address assignment is sound\<close>

lemma tryIP_shape:
  assumes "tryIP now ip (n, s) = (b, n', s')"
  shows "n' = n \<or> (\<exists>c. n' = DeleteClient ip n \<and> gget (ni_Clients n) ip = Some c \<and> \<not> cl_ControlOnline c)"
    and "b \<Longrightarrow> gget (ni_Clients n') ip = None \<and> ip \<noteq> IpToUint32 (ni_Gateway n) \<and>
      gget (ni_ReservedIPs n) ip = None"
proof -
  consider "ip = IpToUint32 (ni_Gateway n) \<or> gget (ni_ReservedIPs n) ip \<noteq> None"
    | "ip \<noteq> IpToUint32 (ni_Gateway n)" "gget (ni_ReservedIPs n) ip = None" "gget (ni_Clients n) ip = None"
    | c where "ip \<noteq> IpToUint32 (ni_Gateway n)" "gget (ni_ReservedIPs n) ip = None"
        "gget (ni_Clients n) ip = Some c" by fastforce
  then have "(n' = n \<or> (\<exists>c. n' = DeleteClient ip n \<and> gget (ni_Clients n) ip = Some c \<and> \<not> cl_ControlOnline c))
    \<and> (b \<longrightarrow> gget (ni_Clients n') ip = None \<and> ip \<noteq> IpToUint32 (ni_Gateway n) \<and>
      gget (ni_ReservedIPs n) ip = None)"
  proof cases
    case 1
    then have "tryIP now ip (n, s) = (False, n, s)" by (auto simp: tryIP_def)
    then show ?thesis using assms by simp
  next
    case 2
    then show ?thesis using assms by (auto simp: tryIP_def claimIP_def Let_def em_Get_eq split: option.splits)
  next
    case 3
    then show ?thesis using assms
      by (auto simp: tryIP_def claimIP_def Let_def em_Get_eq split: option.splits if_split_asm)
  qed
  then show "n' = n \<or> (\<exists>c. n' = DeleteClient ip n \<and> gget (ni_Clients n) ip = Some c \<and> \<not> cl_ControlOnline c)"
    and "b \<Longrightarrow> gget (ni_Clients n') ip = None \<and> ip \<noteq> IpToUint32 (ni_Gateway n) \<and>
      gget (ni_ReservedIPs n) ip = None" by auto
qed

text \<open>The loop always returns, unless it would have to count past the largest address.\<close>

lemma scanIP_rule:
  assumes lst: "lst \<noteq> - 1" and P: "P st"
    and miss: "\<And>ip st st'. P st \<Longrightarrow> tryIP now ip st = (False, st') \<Longrightarrow> P st'"
    and hit: "\<And>ip st st'. P st \<Longrightarrow> tryIP now ip st = (True, st') \<Longrightarrow> first \<le> ip \<Longrightarrow> ip \<le> lst \<Longrightarrow> Q ip st'"
    and ge: "first \<le> ip"
  shows "\<exists>r st'. scanIP now lst ip st = Some (r, st') \<and>
    (case r of Inl e \<Rightarrow> e = ''no available virtual ips'' \<and> P st' | Inr a \<Rightarrow> Q a st')"
  using P ge
proof (induction "unat lst + 1 - unat ip" arbitrary: ip st rule: less_induct)
  case less
  show ?case
  proof (cases "ip \<le> lst")
    case False
    then show ?thesis using less.prems by (subst scanIP.simps) simp
  next
    case True
    obtain b st1 where t: "tryIP now ip st = (b, st1)" by (cases "tryIP now ip st")
    show ?thesis
    proof (cases b)
      case True
      then show ?thesis
        using t \<open>ip \<le> lst\<close> hit [OF less.prems(1)] less.prems(2) by (subst scanIP.simps) simp
    next
      case False
      have "ip \<noteq> - 1" using True lst by (metis word_order.extremum_unique)
      then have inc: "unat (ip + 1) = unat ip + 1"
        by (metis Suc_eq_plus1 add.commute unatSuc add_eq_0_iff2 minus_unique)
      have "first \<le> ip + 1"
        using less.prems(2) inc by (simp add: word_le_nat_alt)
      moreover have "unat lst + 1 - unat (ip + 1) < unat lst + 1 - unat ip"
        using True inc by (simp add: word_le_nat_alt)
      ultimately show ?thesis
        using less.hyps [of "ip + 1" st1] miss [OF less.prems(1)] t False True
        by (subst scanIP.simps) simp
    qed
  qed
qed

text \<open>
  What a scan may do to the table: some offline clients lose their address, nothing else changes.
\<close>

definition pruned :: "NetworkInfo \<Rightarrow> NetworkInfo \<Rightarrow> bool" where
  "pruned n0 n \<longleftrightarrow> net_wf n \<and> ni_Group n = ni_Group n0 \<and> ni_Gateway n = ni_Gateway n0 \<and>
     ni_Netmask n = ni_Netmask n0 \<and> ni_ReservedIPs n = ni_ReservedIPs n0 \<and> ni_Epoch n = ni_Epoch n0 \<and>
     (\<forall>ip. gget (ni_Clients n) ip = gget (ni_Clients n0) ip \<or>
       (gget (ni_Clients n) ip = None \<and>
        (\<exists>c. gget (ni_Clients n0) ip = Some c \<and> \<not> cl_ControlOnline c)))"

lemma pruned_refl: "net_wf n \<Longrightarrow> pruned n n"
  by (simp add: pruned_def)

lemma pruned_Delete:
  assumes "pruned n0 n" and "gget (ni_Clients n) ip = Some c" and "\<not> cl_ControlOnline c"
  shows "pruned n0 (DeleteClient ip n)"
proof -
  have keep: "gget (ni_Clients n) ip' = gget (ni_Clients n0) ip' \<or>
       (gget (ni_Clients n) ip' = None \<and>
        (\<exists>c. gget (ni_Clients n0) ip' = Some c \<and> \<not> cl_ControlOnline c))" for ip'
    using assms(1) by (simp only: pruned_def)
  have "gget (ni_Clients n0) ip = Some c" using keep [of ip] assms(2) by auto
  then have "gget (ni_Clients (DeleteClient ip n)) ip' = gget (ni_Clients n0) ip' \<or>
       (gget (ni_Clients (DeleteClient ip n)) ip' = None \<and>
        (\<exists>c. gget (ni_Clients n0) ip' = Some c \<and> \<not> cl_ControlOnline c))" for ip'
    using keep [of ip'] assms(3) by (cases "ip' = ip") simp_all
  then show ?thesis using assms(1) by (simp add: pruned_def net_wf_Delete)
qed

lemma tryIP_pruned:
  assumes "pruned n0 n" and "tryIP now ip (n, s) = (b, n', s')"
  shows "pruned n0 n'"
  using tryIP_shape(1) [OF assms(2)] assms(1) pruned_Delete by blast

text \<open>The addresses the scan may hand out.\<close>

definition assignable :: "NetworkInfo \<Rightarrow> u32 \<Rightarrow> bool" where
  "assignable n ip \<longleftrightarrow>
     firstIP (IpToUint32 (ni_Gateway n)) (MaskToUint32 (ni_Netmask n)) \<le> ip \<and>
     ip \<le> lastIP (IpToUint32 (ni_Gateway n)) (MaskToUint32 (ni_Netmask n)) \<and>
     ip \<noteq> IpToUint32 (ni_Gateway n)"

lemma lastIP_not_max:
  assumes "NOT msk \<noteq> 0"
  shows "lastIP gw msk \<noteq> - 1"
proof
  assume "lastIP gw msk = - 1"
  then have "broadcastIP gw msk = 0" by (simp add: lastIP_def eq_neg_iff_add_eq_0)
  then have "NOT msk = 0" unfolding broadcastIP_def by (simp only: or_eq_0_iff)
  with assms show False by simp
qed

lemma scanIP_sound:
  assumes wf: "net_wf n" and msk: "NOT (MaskToUint32 (ni_Netmask n)) \<noteq> 0"
  shows "\<exists>r n' s'. scanIP now (lastIP (IpToUint32 (ni_Gateway n)) (MaskToUint32 (ni_Netmask n)))
      (firstIP (IpToUint32 (ni_Gateway n)) (MaskToUint32 (ni_Netmask n))) (n, s) = Some (r, n', s') \<and>
    pruned n n' \<and> (\<forall>ip. r = Inr ip \<longrightarrow> assignable n ip \<and> gget (ni_ReservedIPs n) ip = None \<and>
      gget (ni_Clients n') ip = None)"
proof -
  let ?first = "firstIP (IpToUint32 (ni_Gateway n)) (MaskToUint32 (ni_Netmask n))"
    and ?last = "lastIP (IpToUint32 (ni_Gateway n)) (MaskToUint32 (ni_Netmask n))"
  let ?P = "\<lambda>(n', s' :: (IpSessionKey, netAddr) ExpireMap). pruned n n'"
  let ?Q = "\<lambda>ip (n', s' :: (IpSessionKey, netAddr) ExpireMap). pruned n n' \<and> assignable n ip \<and> gget (ni_ReservedIPs n) ip = None \<and>
      gget (ni_Clients n') ip = None"
  have "\<exists>r st'. scanIP now ?last ?first (n, s) = Some (r, st') \<and>
    (case r of Inl e \<Rightarrow> e = ''no available virtual ips'' \<and> ?P st' | Inr a \<Rightarrow> ?Q a st')"
  proof (rule scanIP_rule)
    show "?P (n, s)" using pruned_refl [OF wf] by simp
    fix ip and st st' :: "NetworkInfo \<times> (IpSessionKey, netAddr) ExpireMap"
    assume P: "?P st"
    obtain n1 s1 n2 s2 where st: "st = (n1, s1)" "st' = (n2, s2)" by (cases st; cases st')
    have same: "ni_Gateway n1 = ni_Gateway n" "ni_ReservedIPs n1 = ni_ReservedIPs n"
      using P st by (auto simp: pruned_def)
    show "?P st'" if "tryIP now ip st = (False, st')"
      using tryIP_pruned P st that by auto
    show "?Q ip st'" if t: "tryIP now ip st = (True, st')" and r: "?first \<le> ip" "ip \<le> ?last"
      using tryIP_pruned [of n n1 now ip s1 True n2 s2] tryIP_shape(2) [of now ip n1 s1 True n2 s2]
        P st t r same by (simp add: assignable_def)
  qed (simp_all add: lastIP_not_max [OF msk])
  then obtain r st' where sc: "scanIP now ?last ?first (n, s) = Some (r, st')"
    and q: "case r of Inl e \<Rightarrow> e = ''no available virtual ips'' \<and> ?P st' | Inr a \<Rightarrow> ?Q a st'"
    by blast
  obtain n' s' where st: "st' = (n', s')" by (cases st')
  show ?thesis
    by (rule exI [of _ r], rule exI [of _ n'], rule exI [of _ s'])
      (use sc q st in \<open>cases r; simp\<close>)
qed

lemma validateRequestedIP_assignable:
  assumes "To4 (ni_Gateway n) = Some b"
  shows "validateRequestedIP ip (ni_Gateway n) (ni_Netmask n) = None \<longleftrightarrow> assignable n ip"
  by (auto simp: validateRequestedIP_def Let_def assignable_def IP_Equal_Uint32ToIP [OF assms])

text \<open>
  What an assignment promises: the table is only pruned, and an assigned address lies strictly
  inside the network, is not the gateway's, and is held by no other device.
\<close>

definition assigned_ok :: "NetworkInfo \<Rightarrow> string \<Rightarrow> (u32 \<times> u32) result \<Rightarrow> NetworkInfo \<Rightarrow> bool" where
  "assigned_ok n dev r n' \<longleftrightarrow> pruned n n' \<and>
     (\<forall>ip old. r = Inr (ip, old) \<longrightarrow> assignable n ip \<and> old = FindClientIPByDeviceID n dev \<and>
       (\<forall>c. gget (ni_Clients n') ip = Some c \<longrightarrow> cl_DeviceId c = dev))"

lemma autoIP_sound:
  assumes wf: "net_wf n" and msk: "NOT (MaskToUint32 (ni_Netmask n)) \<noteq> 0"
    and held: "\<forall>ip. gget (ni_Clients n) ip \<noteq> None \<longrightarrow> assignable n ip"
  shows "\<exists>r n' s'. autoIP now n s (FindClientIPByDeviceID n dev) = Some (r, n', s') \<and>
      assigned_ok n dev r n'"
proof (cases "FindClientIPByDeviceID n dev = 0")
  case True
  obtain r n' s' where sc: "scanIP now (lastIP (IpToUint32 (ni_Gateway n)) (MaskToUint32 (ni_Netmask n)))
      (firstIP (IpToUint32 (ni_Gateway n)) (MaskToUint32 (ni_Netmask n))) (n, s) = Some (r, n', s')"
    and ok: "pruned n n'" "\<And>ip. r = Inr ip \<Longrightarrow> assignable n ip \<and> gget (ni_Clients n') ip = None"
    using scanIP_sound [OF wf msk, of now s] by blast
  have "assigned_ok n dev (map_sum id (\<lambda>ip. (ip, 0)) r) n'"
    using ok True by (cases r) (simp_all add: assigned_ok_def)
  moreover have "assigned_ok n dev (Inl e) n" for e
    by (simp add: assigned_ok_def pruned_refl [OF wf])
  ultimately show ?thesis using True sc by (simp add: autoIP_def Let_def)
next
  case False
  let ?old = "FindClientIPByDeviceID n dev"
  obtain c where "gget (ni_Clients n) ?old = Some c" "cl_DeviceId c = dev"
    using Find_iff [OF wf False] by blast
  then show ?thesis
    using False held by (simp add: autoIP_def Let_def assigned_ok_def pruned_refl [OF wf])
qed

lemma generateIP_returns:
  assumes wf: "net_wf n" and msk: "NOT (MaskToUint32 (ni_Netmask n)) \<noteq> 0"
    and gw: "To4 (ni_Gateway n) = Some b"
    and held: "\<forall>ip. gget (ni_Clients n) ip \<noteq> None \<longrightarrow> assignable n ip"
  shows "\<exists>r n' s'. generateIP now n s requested dev allow = Some (r, n', s') \<and> assigned_ok n dev r n'"
proof -
  have auto_ok: "\<exists>r n' s'. autoIP now n s (FindClientIPByDeviceID n dev) = Some (r, n', s') \<and>
      assigned_ok n dev r n'"
    by (rule autoIP_sound [OF wf msk held])
  have taken_ok: "assigned_ok n dev (Inr (requested, FindClientIPByDeviceID n dev)) n"
    if "validateRequestedIP requested (ni_Gateway n) (ni_Netmask n) = None"
      and "\<And>c. gget (ni_Clients n) requested = Some c \<Longrightarrow> cl_DeviceId c = dev"
    using that by (simp add: assigned_ok_def pruned_refl [OF wf] validateRequestedIP_assignable [OF gw])
  have err_ok: "assigned_ok n dev (Inl e) n" for e
    by (simp add: assigned_ok_def pruned_refl [OF wf])
  show ?thesis
    unfolding generateIP_def Let_def
    using auto_ok taken_ok err_ok
    by (cases "requested = 0"; cases "validateRequestedIP requested (ni_Gateway n) (ni_Netmask n)";
        cases "gget (ni_Clients n) requested") simp_all
qed

section \<open>Leaving is complete\<close>

definition networks :: "NetworkControl \<Rightarrow> (string, NetworkInfo) gomap" where
  "networks nc = em_data (nc_VirtualNetwork nc)"

definition nc_wf :: "NetworkControl \<Rightarrow> bool" where
  "nc_wf nc \<longleftrightarrow> gwf (networks nc) \<and> (\<forall>(key, n) \<in> set (networks nc). net_wf n)"

lemma nc_wf_get: "nc_wf nc \<Longrightarrow> gget (networks nc) key = Some n \<Longrightarrow> net_wf n"
  by (auto simp: nc_wf_def dest: gget_Some_in)

lemma networks_with [simp]: "networks (with_networks nc ns) = ns"
  by (simp add: networks_def with_networks_def)

definition offline_if :: "gtime \<Rightarrow> (ClientInfo \<Rightarrow> bool) \<Rightarrow> ClientInfo \<Rightarrow> ClientInfo" where
  "offline_if now sel c = (if sel c then mark_offline now c else c)"

definition same_settings :: "NetworkInfo \<Rightarrow> NetworkInfo \<Rightarrow> bool" where
  "same_settings n n' \<longleftrightarrow> ni_Group n' = ni_Group n \<and> ni_Gateway n' = ni_Gateway n \<and>
     ni_Netmask n' = ni_Netmask n \<and> ni_ReservedIPs n' = ni_ReservedIPs n"

lemma mark_offline_device [simp]: "cl_DeviceId (mark_offline now c) = cl_DeviceId c"
  by (simp add: mark_offline_def)

text \<open>The loop body, and what one run of the loop over distinct addresses does.\<close>

abbreviation offline_body where
  "offline_body now sel addr \<equiv> \<lambda>(ip, client) (network, sess, changed).
     if sel client
     then (UpsertClient ip (mark_offline now client) network,
           em_Set now (NewIpSessionKey (ni_Group network) ip) (addr client) sess, True)
     else (network, sess, changed)"

lemma offline_fold:
  assumes "distinct (map fst xs)" and "net_wf n"
    and "\<And>ip c. (ip, c) \<in> set xs \<Longrightarrow> gget (ni_Clients n) ip = Some c"
    and "fold (offline_body now sel addr) xs (n, s, b) = (n', s', b')"
  shows "net_wf n' \<and> same_settings n n' \<and> ni_Epoch n' = ni_Epoch n \<and>
    (b' \<longleftrightarrow> b \<or> (\<exists>(ip, c) \<in> set xs. sel c)) \<and>
    (\<forall>ip. gget (ni_Clients n') ip =
      (case map_of xs ip of Some c \<Rightarrow> Some (offline_if now sel c) | None \<Rightarrow> gget (ni_Clients n) ip))"
  using assms
proof (induction xs arbitrary: n s b)
  case Nil
  then show ?case by (simp add: same_settings_def)
next
  case (Cons x xs)
  obtain ip c where x: "x = (ip, c)" by (cases x)
  have at: "gget (ni_Clients n) ip = Some c" using Cons.prems(3) x by simp
  have dist: "distinct (map fst xs)" and notin: "ip \<notin> fst ` set xs" using Cons.prems(1) x by auto
  then have fresh: "map_of xs ip = None" by (simp add: map_of_eq_None_iff)
  show ?case
  proof (cases "sel c")
    case False
    note ih = Cons.IH [OF dist Cons.prems(2), of s b]
    have "gget (ni_Clients n) a = Some e" if "(a, e) \<in> set xs" for a e
      using Cons.prems(3) that by simp
    then show ?thesis
      using ih Cons.prems(4) x False at fresh
      by (auto simp: offline_if_def split: option.splits)
  next
    case True
    let ?n = "UpsertClient ip (mark_offline now c) n"
    have wf: "net_wf ?n" by (rule tbl.inv_modify [OF Cons.prems(2) at]) simp
    have keep: "gget (ni_Clients ?n) a = Some e" if "(a, e) \<in> set xs" for a e
    proof -
      have "a \<noteq> ip" using that notin by force
      then show ?thesis using Cons.prems(3) that by simp
    qed
    have "fold (offline_body now sel addr) xs
        (?n, em_Set now (NewIpSessionKey (ni_Group n) ip) (addr c) s, True) = (n', s', b')"
      using Cons.prems(4) x True by simp
    from Cons.IH [OF dist wf keep this] show ?thesis
      using x True fresh by (auto simp: offline_if_def same_settings_def split: option.splits)
  qed
qed

lemma offline_clients_spec:
  assumes wf: "net_wf n" and off: "offline_clients now sel addr n s = (n', s', ch)"
  shows "net_wf n'" and "same_settings n n'" and "ni_Epoch n' = ni_Epoch n"
    and "ch \<longleftrightarrow> (\<exists>ip c. gget (ni_Clients n) ip = Some c \<and> sel c)"
    and "gget (ni_Clients n') ip = map_option (offline_if now sel) (gget (ni_Clients n) ip)"
proof -
  have g: "gwf (ni_Clients n)" using wf by (simp add: net_wf_def)
  have f: "fold (offline_body now sel addr) (ni_Clients n) (n, s, False) = (n', s', ch)"
    using off by (simp add: offline_clients_def)
  have "net_wf n' \<and> same_settings n n' \<and> ni_Epoch n' = ni_Epoch n \<and>
    (ch \<longleftrightarrow> False \<or> (\<exists>(ip, c) \<in> set (ni_Clients n). sel c)) \<and>
    (\<forall>ip. gget (ni_Clients n') ip = (case gget (ni_Clients n) ip of
        Some c \<Rightarrow> Some (offline_if now sel c) | None \<Rightarrow> gget (ni_Clients n) ip))"
    by (rule offline_fold [OF _ wf _ f]) (use g in \<open>simp_all add: gwf_def gget_iff\<close>)
  then have r: "net_wf n'" "same_settings n n'" "ni_Epoch n' = ni_Epoch n"
    and ch: "ch \<longleftrightarrow> (\<exists>(ip, c) \<in> set (ni_Clients n). sel c)"
    and l: "gget (ni_Clients n') ip = (case gget (ni_Clients n) ip of
        Some c \<Rightarrow> Some (offline_if now sel c) | None \<Rightarrow> gget (ni_Clients n) ip)"
    by simp_all
  show "net_wf n'" "same_settings n n'" "ni_Epoch n' = ni_Epoch n" by (fact r)+
  show "ch \<longleftrightarrow> (\<exists>ip c. gget (ni_Clients n) ip = Some c \<and> sel c)"
    unfolding ch by (auto simp: gget_iff [OF g])
  show "gget (ni_Clients n') ip = map_option (offline_if now sel) (gget (ni_Clients n) ip)"
    unfolding l by (simp split: option.split)
qed

text \<open>The result of a leave on one network of the map.\<close>

definition left_network ::
    "gtime \<Rightarrow> (ClientInfo \<Rightarrow> bool) \<Rightarrow> NetworkInfo \<Rightarrow> NetworkInfo \<Rightarrow> bool" where
  "left_network now sel n n' \<longleftrightarrow> net_wf n' \<and> same_settings n n' \<and>
     ni_Epoch n' = (if \<exists>ip c. gget (ni_Clients n) ip = Some c \<and> sel c
                    then ni_Epoch n + 1 else ni_Epoch n) \<and>
     (\<forall>ip. gget (ni_Clients n') ip = map_option (offline_if now sel) (gget (ni_Clients n) ip))"

lemma offline_network_left:
  assumes "net_wf n" and "offline_clients now sel addr n s = (n', s', ch)"
  shows "left_network now sel n (if ch then n'\<lparr>ni_Epoch := ni_Epoch n' + 1\<rparr> else n')"
  using offline_clients_spec [OF assms]
  by (auto simp: left_network_def same_settings_def net_wf_def)

lemma offline_networks_spec:
  assumes "\<forall>(key, n) \<in> set ns. net_wf n" and "offline_networks now sel addr ns s = (ns', s')"
  shows "map fst ns' = map fst ns \<and> list_all2 (\<lambda>(_, n) (_, n'). left_network now (sel n) n n') ns ns'"
  using assms
proof (induction ns arbitrary: ns' s s')
  case (Cons x ns)
  obtain key n where x: "x = (key, n)" by (cases x)
  obtain n1 s1 ch where o: "offline_clients now (sel n) addr n s = (n1, s1, ch)"
    by (cases "offline_clients now (sel n) addr n s") auto
  obtain r2 s2 where r: "offline_networks now sel addr ns s1 = (r2, s2)"
    by (cases "offline_networks now sel addr ns s1")
  have wf: "net_wf n" using Cons.prems(1) x by simp
  show ?case
    using Cons.IH [OF _ r] Cons.prems x o r offline_network_left [OF wf o] by auto
qed simp

lemma nc_offline_spec:
  assumes "nc_wf nc"
  shows "nc_wf (nc_offline now sel addr nc)"
    and "gget (networks nc) key = Some n \<Longrightarrow>
      \<exists>n'. gget (networks (nc_offline now sel addr nc)) key = Some n' \<and> left_network now (sel n) n n'"
proof -
  obtain ns' s' where off: "offline_networks now sel addr (networks nc) (nc_IPSessions nc) = (ns', s')"
    by (cases "offline_networks now sel addr (networks nc) (nc_IPSessions nc)")
  then have ns: "networks (nc_offline now sel addr nc) = ns'"
    by (simp add: nc_offline_def networks_def with_networks_def)
  have wf: "\<forall>(key, n) \<in> set (networks nc). net_wf n" using assms by (simp add: nc_wf_def)
  note sp = offline_networks_spec [OF wf off]
  have g: "gwf ns'" using sp assms by (simp add: nc_wf_def gwf_def)
  have "net_wf m" if "(k, m) \<in> set ns'" for k m
  proof -
    from that obtain i where "i < length ns'" "ns' ! i = (k, m)" by (auto simp: in_set_conv_nth)
    then show ?thesis using sp
      by (auto simp: list_all2_conv_all_nth left_network_def case_prod_beta)
  qed
  then show "nc_wf (nc_offline now sel addr nc)" using g ns by (auto simp: nc_wf_def)
  show "\<exists>n'. gget (networks (nc_offline now sel addr nc)) key = Some n' \<and> left_network now (sel n) n n'"
    if "gget (networks nc) key = Some n"
    unfolding ns by (rule gget_list_all2 [OF conjunct1 [OF sp] _ that]) (use sp in simp)
qed

section \<open>Updates of one client\<close>

text \<open>
  An update under the write lock that changes one client of one network, keeping its device, keeps
  the tables well formed.
\<close>

lemma update_first_wf:
  assumes "\<forall>(key, n) \<in> set ns. net_wf n" and "update_first f ns = (r, ns')"
    and "\<And>key n n' x. f key n = Some (n', x) \<Longrightarrow> net_wf n \<Longrightarrow> net_wf n'"
  shows "(\<forall>(key, n) \<in> set ns'. net_wf n) \<and> map fst ns' = map fst ns"
  using assms(1,2)
proof (induction ns arbitrary: ns')
  case (Cons x ns)
  obtain key n where x: "x = (key, n)" by (cases x)
  obtain r2 ns2 where u: "update_first f ns = (r2, ns2)" by (cases "update_first f ns")
  show ?case
  proof (cases "f key n")
    case None
    then show ?thesis using Cons.IH [of ns2] Cons.prems x u by auto
  next
    case (Some y)
    then show ?thesis using Cons.prems x assms(3) by (cases y) fastforce
  qed
qed simp

lemma update_first_hit:
  assumes "gwf ns" and "gget ns key = Some n" and "f key n = Some (n', x)"
    and "\<And>k m. k \<noteq> key \<Longrightarrow> f k m = None"
  shows "fst (update_first f ns) = Some x" and "gget (snd (update_first f ns)) key = Some n'"
    and "k \<noteq> key \<Longrightarrow> gget (snd (update_first f ns)) k = gget ns k"
proof -
  have "fst (update_first f ns) = Some x \<and> gget (snd (update_first f ns)) key = Some n' \<and>
      (k \<noteq> key \<longrightarrow> gget (snd (update_first f ns)) k = gget ns k)"
    using assms(1,2)
  proof (induction ns)
    case (Cons y ns)
    obtain k2 m where y: "y = (k2, m)" by (cases y)
    show ?case
    proof (cases "k2 = key")
      case True
      then show ?thesis using Cons.prems y assms(3) by simp
    next
      case False
      then show ?thesis
        using Cons y assms(4) by (simp add: gwf_def case_prod_beta)
    qed
  qed simp
  then show "fst (update_first f ns) = Some x" "gget (snd (update_first f ns)) key = Some n'"
    "k \<noteq> key \<Longrightarrow> gget (snd (update_first f ns)) k = gget ns k" by auto
qed

lemma touch_epoch:
  assumes "gget (networks nc) networkKey = Some n" and "gwf (networks nc)"
    and "gget (ni_Clients n) (IpToUint32 srcIP) = Some c" and "TrimSpace networkKey \<noteq> []"
  shows "fst (TouchClientByIPInNetwork now networkKey srcIP nc) = ucast (ni_Epoch n)"
proof -
  let ?f = "\<lambda>key network. if TrimSpace networkKey \<noteq> [] \<and> key \<noteq> networkKey then None
      else case gget (ni_Clients network) (IpToUint32 srcIP) of None \<Rightarrow> None
        | Some client \<Rightarrow> Some (UpsertClient (IpToUint32 srcIP) (client\<lparr>cl_ControlOnline := True,
                            cl_ControlLastSeen := Unix now\<rparr>) network, ucast (ni_Epoch network) :: u16)"
  have "fst (update_first ?f (networks nc)) = Some (ucast (ni_Epoch n))"
    by (rule update_first_hit(1) [OF assms(2,1)]) (use assms(3,4) in simp_all)
  then show ?thesis
    by (simp add: TouchClientByIPInNetwork_def Let_def networks_def case_prod_beta)
qed

section \<open>Properties\<close>

text \<open>
  C12: \<^verbatim>\<open>generateIP\<close> returns on every network whose mask is not 255.255.255.255, and an address that
  it assigns lies strictly inside the network, is not the gateway and is held by no other device;
  on the way only offline clients lose their address and the table stays well formed.
\<close>

theorem generateIP_sound:
  assumes "net_wf n" and "NOT (MaskToUint32 (ni_Netmask n)) \<noteq> 0" and "To4 (ni_Gateway n) = Some b"
    and "\<forall>ip. gget (ni_Clients n) ip \<noteq> None \<longrightarrow> assignable n ip"
  shows "\<exists>r n' s'. generateIP now n s requested dev allow = Some (r, n', s') \<and> assigned_ok n dev r n'"
  by (rule generateIP_returns [OF assms])

theorem generateIP_sound_witness:
  "\<exists>r n' s'. generateIP 1 (NewNetworkInfo ''g'' [255, 255, 255, 0] [10, 0, 0, 1] []) (NewExpireMap 10)
       0 ''dev'' False = Some (r, n', s') \<and>
     assigned_ok (NewNetworkInfo ''g'' [255, 255, 255, 0] [10, 0, 0, 1] []) ''dev'' r n'"
  by (rule generateIP_sound [OF net_wf_New, where b = "[10, 0, 0, 1]"])
    (simp_all add: NewNetworkInfo_def of_be32_def word_cat_eq)

text \<open>
  An address that the scan assigns is not reserved. A requested address is accepted although it
  is reserved: a client can take the address of the DNS service.
\<close>

theorem reserved_ip_only_automatic:
  assumes "net_wf n" and "NOT (MaskToUint32 (ni_Netmask n)) \<noteq> 0" and "To4 (ni_Gateway n) = Some b"
  shows "(FindClientIPByDeviceID n dev = 0 \<and>
      generateIP now n s 0 dev allow = Some (Inr (ip, old), n', s') \<longrightarrow>
      gget (ni_ReservedIPs n) ip = None) \<and>
    (ip \<noteq> 0 \<and> assignable n ip \<and> gget (ni_Clients n) ip = None \<and>
      gget (ni_ReservedIPs n) ip = Some svc \<longrightarrow>
      generateIP now n s ip dev allow = Some (Inr (ip, FindClientIPByDeviceID n dev), n, s))"
proof (intro conjI impI; elim conjE)
  assume "FindClientIPByDeviceID n dev = 0"
    and "generateIP now n s 0 dev allow = Some (Inr (ip, old), n', s')"
  then show "gget (ni_ReservedIPs n) ip = None"
    using scanIP_sound [OF assms(1,2), of now s]
    by (auto simp: generateIP_def autoIP_def Let_def map_sum_def split: if_split_asm sum.splits)
next
  assume a: "ip \<noteq> 0" "assignable n ip" "gget (ni_Clients n) ip = None"
  have "validateRequestedIP ip (ni_Gateway n) (ni_Netmask n) = None"
    using validateRequestedIP_assignable [OF assms(3)] a(2) by blast
  then show "generateIP now n s ip dev allow = Some (Inr (ip, FindClientIPByDeviceID n dev), n, s)"
    using a by (simp add: generateIP_def Let_def)
qed

theorem reserved_ip_only_automatic_witness:
  "let n = NewNetworkInfo ''g'' [255, 255, 255, 0] [10, 0, 0, 1] [(0x0A000035, ''dns_service'')] in
     generateIP 1 n (NewExpireMap 10) 0x0A000035 ''dev'' False =
       Some (Inr (0x0A000035, FindClientIPByDeviceID n ''dev''), n, NewExpireMap 10)"
  using reserved_ip_only_automatic
    [where n = "NewNetworkInfo ''g'' [255, 255, 255, 0] [10, 0, 0, 1] [(0x0A000035, ''dns_service'')]"
      and b = "[10, 0, 0, 1]" and ip = "0x0A000035" and dev = "''dev''" and now = 1
      and s = "NewExpireMap 10" and allow = False, OF net_wf_New]
  by (simp add: NewNetworkInfo_def of_be32_def word_cat_eq assignable_def firstIP_def lastIP_def
      broadcastIP_def networkIP_def)



end
