(* ===== verification/User_Manager.thy ===== *)
theory User_Manager
  imports Network
begin

text \<open>
  The user manager of \<^verbatim>\<open>control/user.go\<close>: users, policies, enrollments, device keys, device
  tickets and authenticated devices. An operation takes the instant of \<^verbatim>\<open>time.Now()\<close> and the store,
  and returns its result with the state afterwards. The store is the \<^verbatim>\<open>Save\<close> of a \<^verbatim>\<open>UMStore\<close>, which
  yields an error or none, and is \<^term>\<open>None\<close> where the field is nil. SHA-256 and the random bytes of
  a ticket are arguments.
\<close>

section \<open>Data\<close>

record UMUser =
  uu_UserID :: string
  uu_Name :: string
  uu_Domain :: string
  uu_CreatedAt :: gtime

record UMUserAdminView =
  uv_UserID :: string
  uv_Name :: string
  uv_Email :: string
  uv_Group :: string
  uv_Domain :: string
  uv_CreatedAtUnix :: int

record UMEnrollment =
  en_Code :: string
  en_UserID :: string
  en_ExpireAt :: gtime
  en_Used :: bool
  en_CreatedAt :: gtime

record UMDevice =
  dv_UserID :: string
  dv_DeviceID :: string
  dv_DisplayName :: string
  dv_PubKeyAlg :: string
  dv_PubKeyHex :: string
  dv_CreatedAt :: gtime
  dv_LastBoundAt :: gtime

record UMPolicy =
  po_UserID :: string
  po_GroupName :: string
  po_UserExpireAtUnixMs :: int
  po_UserGracePeriodSeconds :: int
  po_AllowP2P :: bool
  po_AllowRelay :: bool
  po_MaxDevices :: int
  po_EnrollmentTTLSeconds :: int
  po_GatewayTicketTTLSeconds :: int
  po_CreatedAt :: gtime
  po_UpdatedAt :: gtime

record UMDeviceTicket =
  dt_Ticket :: string
  dt_UserID :: string
  dt_GroupName :: string
  dt_ExpireAt :: gtime
  dt_Used :: bool
  dt_CreatedAt :: gtime

record UMAuthDevice =
  ad_UserID :: string
  ad_GroupName :: string
  ad_DeviceID :: string
  ad_DisplayName :: string
  ad_PubKeyHex :: string
  ad_AuthedAt :: gtime
  ad_AuthExpireAt :: gtime

record UserManager =
  um_userSeq :: u64
  um_enrollmentSeq :: u64
  um_users :: "(string, UMUser) gomap"
  um_policies :: "(string, UMPolicy) gomap"
  um_enrollments :: "(string, UMEnrollment) gomap"
  um_deviceByPubKey :: "(string, UMDevice) gomap"
  um_authedDevices :: "(string, UMAuthDevice) gomap"
  um_deviceTickets :: "(string, UMDeviceTicket) gomap"

record UMSnapshot =
  sn_UserSeq :: u64
  sn_EnrollmentSeq :: u64
  sn_Users :: "(string, UMUser) gomap"
  sn_Policies :: "(string, UMPolicy) gomap"
  sn_Enrollments :: "(string, UMEnrollment) gomap"
  sn_DeviceByPubKey :: "(string, UMDevice) gomap"
  sn_CertifiedDevices :: "(string, UMAuthDevice) gomap"
  sn_DeviceTickets :: "(string, UMDeviceTicket) gomap"

type_synonym UMStore = "(UMSnapshot \<Rightarrow> string option) option"

section \<open>Helpers\<close>

definition defaultDeviceAuthTTL :: int where
  "defaultDeviceAuthTTL = 30 * 24 * 3600 * Second"

definition NewUserManager :: UserManager where
  "NewUserManager = \<lparr>um_userSeq = 0, um_enrollmentSeq = 0, um_users = [], um_policies = [],
     um_enrollments = [], um_deviceByPubKey = [], um_authedDevices = [], um_deviceTickets = []\<rparr>"

definition authedDeviceKey :: "string \<Rightarrow> string \<Rightarrow> string" where
  "authedDeviceKey groupName deviceID = groupName @ ''|'' @ deviceID"

definition bytes_of :: "string \<Rightarrow> bytes" where
  "bytes_of s = map of_char s"

definition toPubKeyHex :: "(bytes \<Rightarrow> bytes) \<Rightarrow> bytes \<Rightarrow> string \<Rightarrow> string" where
  "toPubKeyHex sha256 pubKey pubKeyAlg = hex_encode (sha256 (bytes_of (pubKeyAlg @ '':'') @ pubKey))"

definition generateBasicPolicyLocked :: "gtime \<Rightarrow> string \<Rightarrow> UMPolicy" where
  "generateBasicPolicyLocked now userID =
     \<lparr>po_UserID = userID, po_GroupName = userID, po_UserExpireAtUnixMs = 0,
      po_UserGracePeriodSeconds = 24 * 3600, po_AllowP2P = True, po_AllowRelay = True,
      po_MaxDevices = 32, po_EnrollmentTTLSeconds = 15 * 60, po_GatewayTicketTTLSeconds = 2 * 60,
      po_CreatedAt = now, po_UpdatedAt = now\<rparr>"

definition normalizeGroupForUser :: "string \<Rightarrow> string \<Rightarrow> string result" where
  "normalizeGroupForUser groupName userDomain0 =
     (let userDomain = (if TrimSpace userDomain0 = [] then ''ms.net'' else userDomain0) in
      if Contains groupName ''.'' then
        (if groupName = userDomain then Inr groupName
         else if \<not> HasSuffix groupName (''.'' @ userDomain)
         then Inl (''group '' @ groupName @ '' does not belong to user domain '' @ userDomain)
         else Inr groupName)
      else Inr (groupName @ ''.'' @ userDomain))"

definition cloneAuthedDevices :: "(string, UMAuthDevice) gomap \<Rightarrow> (string, UMAuthDevice) gomap" where
  "cloneAuthedDevices src =
     fold (\<lambda>(k, v) dst.
             gput (if TrimSpace (ad_DeviceID v) \<noteq> []
                   then authedDeviceKey (TrimSpace (ad_GroupName v)) (TrimSpace (ad_DeviceID v))
                   else k) v dst) src []"

text \<open>The other clone functions copy a map key by key.\<close>

definition cloneMap :: "(string, 'v) gomap \<Rightarrow> (string, 'v) gomap" where
  "cloneMap src = fold (\<lambda>(k, v) dst. gput k v dst) src []"

definition snapshotLocked :: "UserManager \<Rightarrow> UMSnapshot" where
  "snapshotLocked m =
     \<lparr>sn_UserSeq = um_userSeq m, sn_EnrollmentSeq = um_enrollmentSeq m,
      sn_Users = cloneMap (um_users m), sn_Policies = cloneMap (um_policies m),
      sn_Enrollments = cloneMap (um_enrollments m),
      sn_DeviceByPubKey = cloneMap (um_deviceByPubKey m),
      sn_CertifiedDevices = cloneAuthedDevices (um_authedDevices m),
      sn_DeviceTickets = cloneMap (um_deviceTickets m)\<rparr>"

definition restore :: "gtime \<Rightarrow> UMSnapshot \<Rightarrow> UserManager \<Rightarrow> UserManager" where
  "restore now snapshot m =
     m\<lparr>um_userSeq := sn_UserSeq snapshot, um_enrollmentSeq := sn_EnrollmentSeq snapshot,
       um_users := cloneMap (sn_Users snapshot),
       um_policies :=
         fold (\<lambda>(userID, _) policies.
                 if gget policies userID = None
                 then gput userID (generateBasicPolicyLocked now userID) policies else policies)
           (cloneMap (sn_Users snapshot)) (cloneMap (sn_Policies snapshot)),
       um_enrollments := cloneMap (sn_Enrollments snapshot),
       um_deviceByPubKey := cloneMap (sn_DeviceByPubKey snapshot),
       um_authedDevices := cloneAuthedDevices (sn_CertifiedDevices snapshot),
       um_deviceTickets := cloneMap (sn_DeviceTickets snapshot)\<rparr>"

definition NewUserManagerWithStore :: "gtime \<Rightarrow> UMSnapshot result \<Rightarrow> UserManager result" where
  "NewUserManagerWithStore now loaded =
     (case loaded of Inl err \<Rightarrow> Inl err | Inr snapshot \<Rightarrow> Inr (restore now snapshot NewUserManager))"

definition saveLocked :: "UMStore \<Rightarrow> UserManager \<Rightarrow> string option" where
  "saveLocked store m = (case store of None \<Rightarrow> None | Some save \<Rightarrow> save (snapshotLocked m))"

text \<open>How every operation ends: it saves, and returns the error of the store or its result.\<close>

definition saved :: "UMStore \<Rightarrow> 'a \<Rightarrow> UserManager \<Rightarrow> 'a result \<times> UserManager" where
  "saved store r m = (case saveLocked store m of Some err \<Rightarrow> (Inl err, m) | None \<Rightarrow> (Inr r, m))"

section \<open>Users\<close>

text \<open>
  The loop of \<^verbatim>\<open>CreateUser\<close> that draws sequence numbers until an identifier is free: the identifier
  and the last number drawn.
\<close>

partial_function (option) nextUserID :: "(string, UMUser) gomap \<Rightarrow> u64 \<Rightarrow> (string \<times> u64) option" where
  "nextUserID users userSeq =
     (let seq = userSeq + 1; candidate = ''u-'' @ show_word seq in
      if gget users candidate = None then Some (candidate, seq) else nextUserID users seq)"

declare nextUserID.simps [code]

definition userDomainOr :: "string \<Rightarrow> string" where
  "userDomainOr domain = (if TrimSpace domain \<noteq> [] then TrimSpace domain else ''ms.net'')"

definition CreateUser ::
    "gtime \<Rightarrow> UMStore \<Rightarrow> string \<Rightarrow> string list \<Rightarrow> UserManager
     \<Rightarrow> (UMUser result \<times> UserManager) option" where
  "CreateUser now store name domain m =
     (if name = [] then Some (Inl ''user name is empty'', m)
      else map_option
        (\<lambda>(ident, seq).
           let user = \<lparr>uu_UserID = ident, uu_Name = name,
                       uu_Domain = (case domain of [] \<Rightarrow> ''ms.net'' | d # _ \<Rightarrow> userDomainOr d),
                       uu_CreatedAt = now\<rparr>
           in saved store user
                (m\<lparr>um_userSeq := seq, um_users := gput ident user (um_users m),
                   um_policies := gput ident (generateBasicPolicyLocked now ident) (um_policies m)\<rparr>))
        (nextUserID (um_users m) (um_userSeq m)))"

definition CreateUserWithID ::
    "gtime \<Rightarrow> UMStore \<Rightarrow> string \<Rightarrow> string \<Rightarrow> string \<Rightarrow> UserManager \<Rightarrow> UMUser result \<times> UserManager" where
  "CreateUserWithID now store userID0 domain group0 m =
     (let userID = TrimSpace userID0; userDomain = userDomainOr domain;
          defaultGroup = (if TrimSpace group0 = [] then ''default'' else TrimSpace group0)
      in if userID = [] then (Inl ''user id is empty'', m)
         else case normalizeGroupForUser defaultGroup userDomain of
           Inl err \<Rightarrow> (Inl err, m)
         | Inr normalizedGroup \<Rightarrow>
             (let user = \<lparr>uu_UserID = userID, uu_Name = userID, uu_Domain = userDomain,
                          uu_CreatedAt = now\<rparr>;
                  policy = (generateBasicPolicyLocked now userID)
                             \<lparr>po_GroupName := normalizedGroup, po_UpdatedAt := now\<rparr>
              in case gget (um_users m) userID of
                   Some existing \<Rightarrow>
                     if uu_Domain existing \<noteq> userDomain
                     then (Inl (''user '' @ userID @ '' already exists''), m)
                     else if gget (um_policies m) userID = None
                     then saved store existing
                            (m\<lparr>um_policies := gput userID policy (um_policies m)\<rparr>)
                     else (Inr existing, m)
                 | None \<Rightarrow>
                     saved store user
                       (m\<lparr>um_users := gput userID user (um_users m),
                          um_policies := gput userID policy (um_policies m)\<rparr>)))"

section \<open>Patterns\<close>

text \<open>
  \<^verbatim>\<open>[]rune(s)\<close>: the code points of a UTF-8 string; a byte that starts no valid encoding counts as
  U+FFFD.
\<close>

definition in_range :: "nat \<Rightarrow> nat \<Rightarrow> nat \<Rightarrow> bool" where
  "in_range lo hi b \<longleftrightarrow> lo \<le> b \<and> b \<le> hi"

definition second_byte_ok :: "nat \<Rightarrow> nat \<Rightarrow> bool" where
  "second_byte_ok a b =
     (if a = 0xE0 then in_range 0xA0 0xBF b else if a = 0xED then in_range 0x80 0x9F b
      else if a = 0xF0 then in_range 0x90 0xBF b else if a = 0xF4 then in_range 0x80 0x8F b
      else in_range 0x80 0xBF b)"

fun decode_runes :: "nat list \<Rightarrow> nat list" where
  "decode_runes [] = []"
| "decode_runes (a # s) =
     (if a < 0x80 then a # decode_runes s
      else if in_range 0xC2 0xDF a then
        (case s of
           b # r \<Rightarrow> if in_range 0x80 0xBF b then ((a - 0xC0) * 64 + (b - 0x80)) # decode_runes r
                    else 0xFFFD # decode_runes s
         | _ \<Rightarrow> 0xFFFD # decode_runes s)
      else if in_range 0xE0 0xEF a then
        (case s of
           b # c # r \<Rightarrow>
             if second_byte_ok a b \<and> in_range 0x80 0xBF c
             then ((a - 0xE0) * 4096 + (b - 0x80) * 64 + (c - 0x80)) # decode_runes r
             else 0xFFFD # decode_runes s
         | _ \<Rightarrow> 0xFFFD # decode_runes s)
      else if in_range 0xF0 0xF4 a then
        (case s of
           b # c # d # r \<Rightarrow>
             if second_byte_ok a b \<and> in_range 0x80 0xBF c \<and> in_range 0x80 0xBF d
             then ((a - 0xF0) * 262144 + (b - 0x80) * 4096 + (c - 0x80) * 64 + (d - 0x80))
                    # decode_runes r
             else 0xFFFD # decode_runes s
         | _ \<Rightarrow> 0xFFFD # decode_runes s)
      else 0xFFFD # decode_runes s)"

definition runes :: "string \<Rightarrow> nat list" where
  "runes s = decode_runes (map of_char s)"

text \<open>
  The table of \<^verbatim>\<open>wildcardMatch\<close>: entry \<open>i\<close> says whether the pattern so far matches the first \<open>i\<close>
  runes. One round computes \<^verbatim>\<open>next\<close> from \<^verbatim>\<open>matches\<close>; \<open>prev\<close> is \<^verbatim>\<open>next[i-1]\<close> or \<^verbatim>\<open>matches[i-1]\<close>.
\<close>

fun star_row :: "bool \<Rightarrow> bool list \<Rightarrow> bool list" where
  "star_row prev [] = []"
| "star_row prev (m # ms) = (m \<or> prev) # star_row (m \<or> prev) ms"

definition wildcard_row :: "nat \<Rightarrow> nat list \<Rightarrow> bool list \<Rightarrow> bool list" where
  "wildcard_row p valueRunes matches =
     (if p = of_char (CHR ''*'') then star_row False matches
      else False # map2 (\<lambda>m v. m \<and> (p = of_char (CHR ''?'') \<or> p = v)) (butlast matches) valueRunes)"

definition wildcardMatch :: "string \<Rightarrow> string \<Rightarrow> bool" where
  "wildcardMatch pattern val =
     last (fold (\<lambda>p. wildcard_row p (runes val)) (runes pattern)
             (True # replicate (length (runes val)) False))"

definition userNameMatches :: "string \<Rightarrow> string \<Rightarrow> bool" where
  "userNameMatches nameFilter0 name0 =
     (let nameFilter = ToLower (TrimSpace nameFilter0); name = ToLower (TrimSpace name0) in
      if nameFilter = [] then True
      else if \<exists>c \<in> set nameFilter. c \<in> set ''*?'' then wildcardMatch nameFilter name
      else Contains name nameFilter)"

definition ListUsers :: "string \<Rightarrow> UserManager \<Rightarrow> UMUserAdminView list" where
  "ListUsers idFilter0 m =
     (let idFilter = TrimSpace idFilter0 in
      sort_key uv_UserID
        (map (\<lambda>(_, user).
                \<lparr>uv_UserID = uu_UserID user, uv_Name = uu_Name user, uv_Email = [],
                 uv_Group = (case gget (um_policies m) (uu_UserID user) of
                               Some policy \<Rightarrow> po_GroupName policy | None \<Rightarrow> []),
                 uv_Domain = uu_Domain user, uv_CreatedAtUnix = Unix (uu_CreatedAt user)\<rparr>)
          (filter (\<lambda>(_, user). \<not> (idFilter \<noteq> [] \<and> \<not> wildcardMatch idFilter (uu_UserID user)))
             (um_users m))))"

section \<open>Enrollments and device keys\<close>

definition CreateEnrollment ::
    "gtime \<Rightarrow> UMStore \<Rightarrow> string \<Rightarrow> int \<Rightarrow> UserManager \<Rightarrow> UMEnrollment result \<times> UserManager" where
  "CreateEnrollment now store userID ttl m =
     (if ttl \<le> 0 then (Inl ''invalid ttl'', m)
      else if gget (um_users m) userID = None then (Inl ''user not found'', m)
      else
        (let seq = um_enrollmentSeq m + 1;
             code = ''enr-'' @ show_int now @ ''-'' @ show_word seq;
             enrollment = \<lparr>en_Code = code, en_UserID = userID, en_ExpireAt = now + ttl,
                           en_Used = False, en_CreatedAt = now\<rparr>
         in saved store enrollment
              (m\<lparr>um_enrollmentSeq := seq,
                 um_enrollments := gput code enrollment (um_enrollments m)\<rparr>)))"

definition BindDeviceByEnrollment ::
    "(bytes \<Rightarrow> bytes) \<Rightarrow> gtime \<Rightarrow> UMStore \<Rightarrow> string \<Rightarrow> string \<Rightarrow> bytes \<Rightarrow> string \<Rightarrow> UserManager
     \<Rightarrow> UMDevice result \<times> UserManager" where
  "BindDeviceByEnrollment sha256 now store code deviceID pubKey pubKeyAlg m =
     (if code = [] then (Inl ''enrollment code is empty'', m)
      else if deviceID = [] then (Inl ''device_id is empty'', m)
      else if pubKey = [] then (Inl ''device public key is empty'', m)
      else if pubKeyAlg = [] then (Inl ''device public key algorithm is empty'', m)
      else
        (let pubKeyHex = toPubKeyHex sha256 pubKey pubKeyAlg in
         case gget (um_enrollments m) code of
           None \<Rightarrow> (Inl ''enrollment not found'', m)
         | Some enrollment \<Rightarrow>
             if en_Used enrollment then (Inl ''enrollment already used'', m)
             else if now > en_ExpireAt enrollment then (Inl ''enrollment expired'', m)
             else if gget (um_users m) (en_UserID enrollment) = None then (Inl ''user not found'', m)
             else if (case gget (um_deviceByPubKey m) pubKeyHex of
                        Some existing \<Rightarrow> dv_UserID existing \<noteq> en_UserID enrollment
                      | None \<Rightarrow> False)
             then (Inl ''device key already bound to another user'', m)
             else
               (let device = \<lparr>dv_UserID = en_UserID enrollment, dv_DeviceID = deviceID,
                              dv_DisplayName = [], dv_PubKeyAlg = pubKeyAlg,
                              dv_PubKeyHex = pubKeyHex, dv_CreatedAt = now, dv_LastBoundAt = now\<rparr>
                in saved store device
                     (m\<lparr>um_deviceByPubKey := gput pubKeyHex device (um_deviceByPubKey m),
                        um_enrollments := gput code (enrollment\<lparr>en_Used := True\<rparr>)
                                            (um_enrollments m)\<rparr>))))"

definition FindUserByDevicePubKey ::
    "(bytes \<Rightarrow> bytes) \<Rightarrow> bytes \<Rightarrow> string \<Rightarrow> UserManager \<Rightarrow> UMUser option" where
  "FindUserByDevicePubKey sha256 pubKey pubKeyAlg m =
     (case gget (um_deviceByPubKey m) (toPubKeyHex sha256 pubKey pubKeyAlg) of
        None \<Rightarrow> None
      | Some device \<Rightarrow> gget (um_users m) (dv_UserID device))"

definition GetPolicy :: "string \<Rightarrow> UserManager \<Rightarrow> UMPolicy option" where
  "GetPolicy userID m = gget (um_policies m) userID"

definition GenerateBasicPolicy ::
    "gtime \<Rightarrow> UMStore \<Rightarrow> string \<Rightarrow> UserManager \<Rightarrow> UMPolicy result \<times> UserManager" where
  "GenerateBasicPolicy now store userID m =
     (if gget (um_users m) userID = None then (Inl ''user not found'', m)
      else
        (let policy0 = generateBasicPolicyLocked now userID;
             policy = (case gget (um_policies m) userID of
                         Some existing \<Rightarrow> policy0\<lparr>po_CreatedAt := po_CreatedAt existing\<rparr>
                       | None \<Rightarrow> policy0)
         in saved store policy (m\<lparr>um_policies := gput userID policy (um_policies m)\<rparr>)))"

section \<open>Tickets and device authentication\<close>

text \<open>\<open>rnd\<close> is what \<^verbatim>\<open>rand.Read\<close> fills into the 16 bytes, or its error.\<close>

definition newSecureTicketID :: "bytes result \<Rightarrow> string result" where
  "newSecureTicketID rnd =
     (case rnd of Inl err \<Rightarrow> Inl (''generate secure ticket id: '' @ err)
      | Inr buf \<Rightarrow> Inr (''dtk-'' @ hex_encode buf))"

definition IssueDeviceTicket ::
    "bytes result \<Rightarrow> gtime \<Rightarrow> UMStore \<Rightarrow> string \<Rightarrow> string \<Rightarrow> int \<Rightarrow> UserManager
     \<Rightarrow> UMDeviceTicket result \<times> UserManager" where
  "IssueDeviceTicket rnd now store userID groupName0 ttl m =
     (let groupName = TrimSpace groupName0 in
      if userID = [] then (Inl ''user id is empty'', m)
      else if groupName = [] then (Inl ''group name is empty'', m)
      else if ttl \<le> 0 then (Inl ''invalid ttl'', m)
      else case gget (um_users m) userID of
        None \<Rightarrow> (Inl ''user not found'', m)
      | Some user \<Rightarrow>
          (case normalizeGroupForUser groupName (uu_Domain user) of
             Inl err \<Rightarrow> (Inl err, m)
           | Inr fullGroupName \<Rightarrow>
               (case newSecureTicketID rnd of
                  Inl err \<Rightarrow> (Inl err, m)
                | Inr ticketID \<Rightarrow>
                    (let ticket = \<lparr>dt_Ticket = ticketID, dt_UserID = userID,
                                   dt_GroupName = fullGroupName, dt_ExpireAt = now + ttl,
                                   dt_Used = False, dt_CreatedAt = now\<rparr>
                     in saved store ticket
                          (m\<lparr>um_deviceTickets := gput ticketID ticket (um_deviceTickets m)\<rparr>)))))"

definition ValidateDeviceAuth ::
    "gtime \<Rightarrow> string \<Rightarrow> string \<Rightarrow> string \<Rightarrow> string \<Rightarrow> UserManager \<Rightarrow> string result" where
  "ValidateDeviceAuth now userID groupName deviceID ticket m =
     (if userID = [] \<or> groupName = [] \<or> deviceID = [] \<or> ticket = []
      then Inl ''user/group/device/ticket required''
      else case gget (um_deviceTickets m) ticket of
        None \<Rightarrow> Inl ''ticket not found''
      | Some t \<Rightarrow>
          if dt_Used t then Inl ''ticket already used''
          else if now > dt_ExpireAt t then Inl ''ticket expired''
          else case gget (um_users m) userID of
            None \<Rightarrow> Inl ''user not found''
          | Some user \<Rightarrow>
              (case normalizeGroupForUser groupName (uu_Domain user) of
                 Inl err \<Rightarrow> Inl err
               | Inr normalizedGroup \<Rightarrow>
                   if dt_UserID t \<noteq> userID \<or> dt_GroupName t \<noteq> normalizedGroup
                   then Inl ''ticket mismatch'' else Inr normalizedGroup))"

definition zero_ticket :: UMDeviceTicket where
  "zero_ticket = \<lparr>dt_Ticket = [], dt_UserID = [], dt_GroupName = [], dt_ExpireAt = zero_time,
     dt_Used = False, dt_CreatedAt = zero_time\<rparr>"

text \<open>
  \<^verbatim>\<open>AuthDevice\<close> has two critical sections: \<open>ValidateDeviceAuth\<close>, and this one, which records the
  device and consumes the ticket without looking at it again.
\<close>

definition commitDeviceAuth ::
    "(bytes \<Rightarrow> bytes) \<Rightarrow> gtime \<Rightarrow> UMStore \<Rightarrow> string \<Rightarrow> string \<Rightarrow> string \<Rightarrow> string \<Rightarrow> bytes \<Rightarrow> UserManager
     \<Rightarrow> UMAuthDevice result \<times> UserManager" where
  "commitDeviceAuth sha256 now store userID normalizedGroup deviceID ticket pubKey m =
     (let t = (case gget (um_deviceTickets m) ticket of Some t \<Rightarrow> t | None \<Rightarrow> zero_ticket);
          key = authedDeviceKey normalizedGroup deviceID;
          displayName = (case gget (um_authedDevices m) key of
                           Some existing \<Rightarrow> TrimSpace (ad_DisplayName existing) | None \<Rightarrow> []);
          device = \<lparr>ad_UserID = userID, ad_GroupName = normalizedGroup, ad_DeviceID = deviceID,
                    ad_DisplayName = displayName,
                    ad_PubKeyHex = toPubKeyHex sha256 pubKey ''ed25519'',
                    ad_AuthedAt = now, ad_AuthExpireAt = now + defaultDeviceAuthTTL\<rparr>
      in saved store device
           (m\<lparr>um_authedDevices := gput key device (um_authedDevices m),
              um_deviceTickets := gput ticket (t\<lparr>dt_Used := True\<rparr>) (um_deviceTickets m)\<rparr>))"

definition AuthDevice ::
    "(bytes \<Rightarrow> bytes) \<Rightarrow> gtime \<Rightarrow> UMStore \<Rightarrow> string \<Rightarrow> string \<Rightarrow> string \<Rightarrow> string \<Rightarrow> bytes \<Rightarrow> UserManager
     \<Rightarrow> UMAuthDevice result \<times> UserManager" where
  "AuthDevice sha256 now store userID groupName deviceID ticket pubKey m =
     (if pubKey = [] then (Inl ''device public key is empty'', m)
      else case ValidateDeviceAuth now userID groupName deviceID ticket m of
        Inl err \<Rightarrow> (Inl err, m)
      | Inr normalizedGroup \<Rightarrow>
          commitDeviceAuth sha256 now store userID normalizedGroup deviceID ticket pubKey m)"

definition GetAuthedDevice :: "string \<Rightarrow> string \<Rightarrow> UserManager \<Rightarrow> UMAuthDevice option" where
  "GetAuthedDevice groupName deviceID m =
     gget (um_authedDevices m) (authedDeviceKey groupName deviceID)"

definition IsAuthedDevice :: "string \<Rightarrow> string \<Rightarrow> UserManager \<Rightarrow> bool" where
  "IsAuthedDevice groupName deviceID m \<longleftrightarrow> GetAuthedDevice groupName deviceID m \<noteq> None"

definition ListAuthedDevicesByUser :: "string \<Rightarrow> UserManager \<Rightarrow> UMAuthDevice list" where
  "ListAuthedDevicesByUser userID m =
     filter (\<lambda>r. ad_UserID r = userID) (map snd (um_authedDevices m))"

definition ListAuthedDevices :: "UserManager \<Rightarrow> UMAuthDevice list" where
  "ListAuthedDevices m = map snd (um_authedDevices m)"

definition CheckAuthedDevice ::
    "(bytes \<Rightarrow> bytes) \<Rightarrow> gtime \<Rightarrow> string \<Rightarrow> string \<Rightarrow> bytes \<Rightarrow> UserManager \<Rightarrow> string option" where
  "CheckAuthedDevice sha256 now groupName deviceID pubKey m =
     (case gget (um_authedDevices m) (authedDeviceKey groupName deviceID) of
        None \<Rightarrow> Some ''not_auth''
      | Some r \<Rightarrow>
          if \<not> IsZero_time (ad_AuthExpireAt r) \<and> now > ad_AuthExpireAt r then Some ''auth_expired''
          else if pubKey = [] then Some ''device_key_mismatch''
          else if ad_PubKeyHex r \<noteq> toPubKeyHex sha256 pubKey ''ed25519''
          then Some ''device_key_mismatch'' else None)"

definition RequireTicketAuthForGroup :: "gtime \<Rightarrow> string \<Rightarrow> UserManager \<Rightarrow> bool" where
  "RequireTicketAuthForGroup now groupName m \<longleftrightarrow>
     (\<exists>t \<in> set (map snd (um_deviceTickets m)).
        dt_GroupName t = groupName \<and> \<not> dt_Used t \<and> now < dt_ExpireAt t)"

section \<open>Administration of authenticated devices\<close>

text \<open>The keys of the devices of a user that a request selects; an empty group or device selects all.\<close>

definition matchingDevices ::
    "string \<Rightarrow> string \<Rightarrow> string \<Rightarrow> (string, UMAuthDevice) gomap \<Rightarrow> string list" where
  "matchingDevices userID groupName deviceID devices =
     map fst (filter (\<lambda>(_, r). ad_UserID r = userID \<and> (groupName \<noteq> [] \<longrightarrow> ad_GroupName r = groupName)
                \<and> (deviceID \<noteq> [] \<longrightarrow> ad_DeviceID r = deviceID)) devices)"

text \<open>The user and the group of a request: the group is normalised unless it is empty.\<close>

definition resolveGroup :: "string \<Rightarrow> string \<Rightarrow> UserManager \<Rightarrow> string result" where
  "resolveGroup userID groupName m =
     (case gget (um_users m) userID of
        None \<Rightarrow> Inl ''user not found''
      | Some user \<Rightarrow> if groupName \<noteq> [] then normalizeGroupForUser groupName (uu_Domain user)
                     else Inr groupName)"

definition multiple_groups :: "string \<Rightarrow> string" where
  "multiple_groups deviceID =
     ''device id '' @ deviceID @ '' matched multiple groups; specify --group''"

definition extendExpiry :: "gtime \<Rightarrow> int \<Rightarrow> UMAuthDevice \<Rightarrow> UMAuthDevice" where
  "extendExpiry now ttl r =
     (let base = (if IsZero_time (ad_AuthExpireAt r) \<or> ad_AuthExpireAt r < now then now
                  else ad_AuthExpireAt r)
      in r\<lparr>ad_AuthExpireAt := base + ttl\<rparr>)"

definition ExtendAuthedDeviceExpiry ::
    "gtime \<Rightarrow> UMStore \<Rightarrow> string \<Rightarrow> string \<Rightarrow> string \<Rightarrow> int \<Rightarrow> bool \<Rightarrow> UserManager
     \<Rightarrow> UMAuthDevice list result \<times> UserManager" where
  "ExtendAuthedDeviceExpiry now store userID0 groupName0 deviceID0 ttl all m =
     (let userID = TrimSpace userID0; groupName1 = TrimSpace groupName0; deviceID = TrimSpace deviceID0 in
      if userID = [] then (Inl ''user id is empty'', m)
      else if ttl \<le> 0 then (Inl ''invalid ttl'', m)
      else if \<not> all \<and> deviceID = [] then (Inl ''device id is required unless --all is set'', m)
      else case resolveGroup userID groupName1 m of
        Inl err \<Rightarrow> (Inl err, m)
      | Inr groupName \<Rightarrow>
          (let matches = matchingDevices userID groupName deviceID (um_authedDevices m) in
           if matches = [] then (Inl ''authed device not found'', m)
           else if \<not> all \<and> deviceID \<noteq> [] \<and> groupName = [] \<and> length matches > 1
           then (Inl (multiple_groups deviceID), m)
           else
             (let devices = gmapv (\<lambda>k r. if k \<in> set matches then extendExpiry now ttl r else r)
                              (um_authedDevices m)
              in saved store (map (\<lambda>k. the (gget devices k)) matches)
                   (m\<lparr>um_authedDevices := devices\<rparr>))))"

definition DeleteAuthedDevice ::
    "UMStore \<Rightarrow> string \<Rightarrow> string \<Rightarrow> string \<Rightarrow> UserManager \<Rightarrow> UMAuthDevice list result \<times> UserManager" where
  "DeleteAuthedDevice store userID0 groupName0 deviceID0 m =
     (let userID = TrimSpace userID0; groupName1 = TrimSpace groupName0; deviceID = TrimSpace deviceID0 in
      if userID = [] then (Inl ''user id is empty'', m)
      else if deviceID = [] then (Inl ''device id is empty'', m)
      else case resolveGroup userID groupName1 m of
        Inl err \<Rightarrow> (Inl err, m)
      | Inr groupName \<Rightarrow>
          (let matches = matchingDevices userID groupName deviceID (um_authedDevices m) in
           if matches = [] then (Inl ''authed device not found'', m)
           else if groupName = [] \<and> length matches > 1 then (Inl (multiple_groups deviceID), m)
           else
             saved store (map (\<lambda>k. the (gget (um_authedDevices m) k)) matches)
               (m\<lparr>um_authedDevices := gfilter (\<lambda>k _. k \<notin> set matches) (um_authedDevices m)\<rparr>)))"

section \<open>Display names\<close>

text \<open>Here and below, \<^verbatim>\<open>len\<close> of a string is its number of bytes.\<close>

definition normalizeRenameName :: "string \<Rightarrow> string result" where
  "normalizeRenameName newName =
     (let name = TrimSpace newName in
      if name = [] then Inl ''name is empty''
      else if length name > 128 then Inl ''name too long'' else Inr name)"

definition deviceNetworkKey :: "UMAuthDevice \<Rightarrow> string" where
  "deviceNetworkKey r = id_key (NewNetworkIdentity (ad_GroupName r) (ad_UserID r))"

definition displayNameExistsInNetworkLocked :: "UMAuthDevice \<Rightarrow> string \<Rightarrow> UserManager \<Rightarrow> bool" where
  "displayNameExistsInNetworkLocked r displayName m \<longleftrightarrow>
     TrimSpace displayName \<noteq> [] \<and>
     (\<exists>existing \<in> set (map snd (um_authedDevices m)).
        \<not> (ad_GroupName existing = ad_GroupName r \<and> ad_DeviceID existing = ad_DeviceID r) \<and>
        deviceNetworkKey existing = deviceNetworkKey r \<and>
        EqualFold (TrimSpace (ad_DisplayName existing)) (TrimSpace displayName))"

partial_function (option) freshSuffix :: "(string \<Rightarrow> bool) \<Rightarrow> string \<Rightarrow> nat \<Rightarrow> string option" where
  "freshSuffix taken desired i =
     (let candidate = desired @ ''-'' @ show_nat i in
      if \<not> taken candidate then Some candidate else freshSuffix taken desired (i + 1))"

declare freshSuffix.simps [code]

definition uniqueDisplayNameLocked :: "UMAuthDevice \<Rightarrow> string \<Rightarrow> UserManager \<Rightarrow> string option" where
  "uniqueDisplayNameLocked r desired0 m =
     (let desired = (if TrimSpace desired0 = [] then TrimSpace (ad_DeviceID r) else TrimSpace desired0) in
      if desired = [] \<or> \<not> displayNameExistsInNetworkLocked r desired m then Some desired
      else freshSuffix (\<lambda>candidate. displayNameExistsInNetworkLocked r candidate m) desired 1)"

definition AssignAuthedDeviceDisplayName ::
    "UMStore \<Rightarrow> string \<Rightarrow> string \<Rightarrow> string \<Rightarrow> UserManager \<Rightarrow> (UMAuthDevice result \<times> UserManager) option"
  where
  "AssignAuthedDeviceDisplayName store groupName deviceID displayName0 m =
     (case normalizeRenameName displayName0 of
        Inl err \<Rightarrow> Some (Inl err, m)
      | Inr displayName \<Rightarrow>
          (let key = authedDeviceKey groupName deviceID in
           case gget (um_authedDevices m) key of
             None \<Rightarrow> Some (Inl ''authed device not found'', m)
           | Some r \<Rightarrow>
               if TrimSpace (ad_DisplayName r) \<noteq> [] then Some (Inr r, m)
               else map_option
                 (\<lambda>name. let r' = r\<lparr>ad_DisplayName := name\<rparr> in
                    saved store r' (m\<lparr>um_authedDevices := gput key r' (um_authedDevices m)\<rparr>))
                 (uniqueDisplayNameLocked r displayName m)))"

definition SetAuthedDeviceDisplayName ::
    "UMStore \<Rightarrow> string \<Rightarrow> string \<Rightarrow> string \<Rightarrow> UserManager \<Rightarrow> unit result \<times> UserManager" where
  "SetAuthedDeviceDisplayName store groupName deviceID displayName0 m =
     (let displayName = TrimSpace displayName0 in
      if displayName = [] then (Inl ''display name is empty'', m)
      else if length displayName > 128 then (Inl ''display name too long'', m)
      else
        (let key = authedDeviceKey groupName deviceID in
         case gget (um_authedDevices m) key of
           None \<Rightarrow> (Inl ''authed device not found'', m)
         | Some r \<Rightarrow>
             if \<exists>existing \<in> set (map snd (um_authedDevices m)).
                  ad_DeviceID existing \<noteq> deviceID \<and> deviceNetworkKey existing = deviceNetworkKey r \<and>
                  EqualFold (TrimSpace (ad_DisplayName existing)) displayName
             then (Inl ''display name already exists'', m)
             else saved store ()
                    (m\<lparr>um_authedDevices :=
                        gput key (r\<lparr>ad_DisplayName := displayName\<rparr>) (um_authedDevices m)\<rparr>)))"

definition RenameAuthedDevice ::
    "UMStore \<Rightarrow> string \<Rightarrow> string \<Rightarrow> string \<Rightarrow> string \<Rightarrow> UserManager \<Rightarrow> UMAuthDevice result \<times> UserManager"
  where
  "RenameAuthedDevice store userID0 groupName0 deviceID0 displayName0 m =
     (let displayName = TrimSpace displayName0; userID = TrimSpace userID0;
          groupName1 = TrimSpace groupName0; deviceID = TrimSpace deviceID0 in
      if displayName = [] then (Inl ''display name is empty'', m)
      else if length displayName > 128 then (Inl ''display name too long'', m)
      else if userID = [] then (Inl ''user id is empty'', m)
      else if deviceID = [] then (Inl ''device id is empty'', m)
      else case resolveGroup userID groupName1 m of
        Inl err \<Rightarrow> (Inl err, m)
      | Inr groupName \<Rightarrow>
          (case matchingDevices userID groupName deviceID (um_authedDevices m) of
             [] \<Rightarrow> (Inl ''authed device not found'', m)
           | key # others \<Rightarrow>
               if groupName = [] \<and> others \<noteq> [] then (Inl (multiple_groups deviceID), m)
               else
                 (let r = the (gget (um_authedDevices m) key) in
                  if displayNameExistsInNetworkLocked r displayName m
                  then (Inl ''display name already exists'', m)
                  else
                    (let r' = r\<lparr>ad_DisplayName := displayName\<rparr> in
                     saved store r'
                       (m\<lparr>um_authedDevices := gput key r' (um_authedDevices m)\<rparr>)))))"

end
