(* ===== verification/User_Facts.thy ===== *)
theory User_Facts
  imports User_Manager
begin

text \<open>
  What the user manager guarantees: its invariant under every operation, single use of tickets and
  enrollments, display names, persistence, and the equivalence of the pattern matcher with its
  specification.
\<close>

section \<open>Saving and cloning\<close>

lemma saved_state [simp]: "snd (saved store r m) = m"
  by (simp add: saved_def split: option.split)

lemma saved_None [simp]: "saved None r m = (Inr r, m)"
  by (simp add: saved_def saveLocked_def)

lemma saved_Inr: "fst (saved store r m) = Inr r' \<longleftrightarrow> r' = r \<and> saveLocked store m = None"
  by (auto simp: saved_def split: option.split)

lemma fold_put_keys:
  "gget (fold (\<lambda>(k, v) dst. gput (f k v) v dst) src dst) k' =
    (case find (\<lambda>(k, v). f k v = k') (rev src) of Some (k, v) \<Rightarrow> Some v | None \<Rightarrow> gget dst k')"
  by (induction src rule: rev_induct) auto

lemma gwf_fold_put:
  "gwf dst \<Longrightarrow> gwf (fold (\<lambda>(k, v) dst. gput (f k v) v dst) src dst)"
  by (induction src arbitrary: dst) (auto intro: gwf_put)

lemma fold_put_injective:
  assumes "gwf src" and "\<And>k v. (k, v) \<in> set src \<Longrightarrow> f k v = k"
  shows "gget (fold (\<lambda>(k, v) dst. gput (f k v) v dst) src []) k' = gget src k'"
proof -
  have "find (\<lambda>(k, v). f k v = k') (rev src) = find (\<lambda>(k, v). k = k') (rev src)"
    using assms(2) by (intro find_cong) auto
  also have "(case \<dots> of Some (k, v) \<Rightarrow> Some v | None \<Rightarrow> gget [] k') = map_of (rev src) k'"
    by (induction src rule: rev_induct) auto
  also have "map_of (rev src) k' = gget src k'"
  proof -
    have "gwf (rev src)" using assms(1) by (simp add: gwf_def rev_map [symmetric])
    then have "gget (rev src) k' = Some v \<longleftrightarrow> gget src k' = Some v" for v
      using assms(1) by (simp add: gget_iff)
    then show ?thesis by (metis option.exhaust_sel not_Some_eq)
  qed
  finally show ?thesis by (simp add: fold_put_keys)
qed

lemma gget_cloneMap [simp]: "gwf src \<Longrightarrow> gget (cloneMap src) k = gget src k"
  unfolding cloneMap_def by (rule fold_put_injective [where f = "\<lambda>k _. k"]) simp_all

lemma gwf_cloneMap: "gwf (cloneMap src)"
  unfolding cloneMap_def by (rule gwf_fold_put [where f = "\<lambda>k _. k"]) simp

lemma gwf_cloneAuthedDevices: "gwf (cloneAuthedDevices src)"
  unfolding cloneAuthedDevices_def by (rule gwf_fold_put) simp

definition rekeyed :: "string \<Rightarrow> UMAuthDevice \<Rightarrow> string" where
  "rekeyed k v = (if TrimSpace (ad_DeviceID v) \<noteq> []
     then authedDeviceKey (TrimSpace (ad_GroupName v)) (TrimSpace (ad_DeviceID v)) else k)"

lemma cloneAuthedDevices_alt:
  "cloneAuthedDevices src = fold (\<lambda>(k, v) dst. gput (rekeyed k v) v dst) src []"
  by (simp add: cloneAuthedDevices_def rekeyed_def)

lemma gget_cloneAuthedDevices:
  assumes "gwf src" and "\<And>k v. (k, v) \<in> set src \<Longrightarrow> rekeyed k v = k"
  shows "gget (cloneAuthedDevices src) k = gget src k"
  unfolding cloneAuthedDevices_alt by (rule fold_put_injective [OF assms])

section \<open>The invariant\<close>

text \<open>
  No key twice; every entry is stored under the key its fields say; every user has a policy, and a
  domain without surrounding space; bound keys, tickets and authenticated devices have their user.
\<close>

definition um_wf :: "UserManager \<Rightarrow> bool" where
  "um_wf m \<longleftrightarrow>
     gwf (um_users m) \<and> gwf (um_policies m) \<and> gwf (um_enrollments m) \<and>
     gwf (um_deviceByPubKey m) \<and> gwf (um_authedDevices m) \<and> gwf (um_deviceTickets m) \<and>
     (\<forall>k u. gget (um_users m) k = Some u \<longrightarrow> uu_UserID u = k \<and> gget (um_policies m) k \<noteq> None \<and>
        uu_Domain u \<noteq> [] \<and> TrimSpace (uu_Domain u) = uu_Domain u) \<and>
     (\<forall>k e. gget (um_enrollments m) k = Some e \<longrightarrow> en_Code e = k \<and> gget (um_users m) (en_UserID e) \<noteq> None) \<and>
     (\<forall>k d. gget (um_deviceByPubKey m) k = Some d \<longrightarrow>
        dv_PubKeyHex d = k \<and> gget (um_users m) (dv_UserID d) \<noteq> None) \<and>
     (\<forall>k r. gget (um_authedDevices m) k = Some r \<longrightarrow>
        k = authedDeviceKey (ad_GroupName r) (ad_DeviceID r) \<and> ad_DeviceID r \<noteq> [] \<and>
        gget (um_users m) (ad_UserID r) \<noteq> None) \<and>
     (\<forall>k t. gget (um_deviceTickets m) k = Some t \<longrightarrow> dt_Ticket t = k \<and> gget (um_users m) (dt_UserID t) \<noteq> None)"

lemma um_wf_New: "um_wf NewUserManager"
  by (simp add: um_wf_def NewUserManager_def)

lemma userDomainOr_ok: "userDomainOr d \<noteq> [] \<and> TrimSpace (userDomainOr d) = userDomainOr d"
proof -
  have "TrimSpace ''ms.net'' = ''ms.net''" by code_simp
  then show ?thesis by (simp add: userDomainOr_def)
qed

text \<open>Adding a user with a policy keeps everything that mentions users.\<close>

lemma um_wf_add_user:
  assumes "um_wf m" and "uu_UserID u = k" and "uu_Domain u \<noteq> []" and "TrimSpace (uu_Domain u) = uu_Domain u"
  shows "um_wf (m\<lparr>um_users := gput k u (um_users m), um_policies := gput k p (um_policies m)\<rparr>)"
  using assms by (simp add: um_wf_def gwf_put)

lemma um_wf_policy:
  "um_wf m \<Longrightarrow> um_wf (m\<lparr>um_policies := gput k p (um_policies m)\<rparr>)"
  by (simp add: um_wf_def gwf_put) blast

lemma um_wf_seq [simp]:
  "um_wf (m\<lparr>um_userSeq := s\<rparr>) = um_wf m" "um_wf (m\<lparr>um_enrollmentSeq := s\<rparr>) = um_wf m"
  by (simp_all add: um_wf_def)

lemma um_wf_enrollment:
  "um_wf m \<Longrightarrow> en_Code e = k \<Longrightarrow> gget (um_users m) (en_UserID e) \<noteq> None \<Longrightarrow>
   um_wf (m\<lparr>um_enrollments := gput k e (um_enrollments m)\<rparr>)"
  by (simp add: um_wf_def gwf_put)

lemma um_wf_device:
  "um_wf m \<Longrightarrow> dv_PubKeyHex d = k \<Longrightarrow> gget (um_users m) (dv_UserID d) \<noteq> None \<Longrightarrow>
   um_wf (m\<lparr>um_deviceByPubKey := gput k d (um_deviceByPubKey m)\<rparr>)"
  by (simp add: um_wf_def gwf_put)

lemma um_wf_ticket:
  "um_wf m \<Longrightarrow> dt_Ticket t = k \<Longrightarrow> gget (um_users m) (dt_UserID t) \<noteq> None \<Longrightarrow>
   um_wf (m\<lparr>um_deviceTickets := gput k t (um_deviceTickets m)\<rparr>)"
  by (simp add: um_wf_def gwf_put)

lemma um_wf_authed:
  "um_wf m \<Longrightarrow> k = authedDeviceKey (ad_GroupName r) (ad_DeviceID r) \<Longrightarrow> ad_DeviceID r \<noteq> [] \<Longrightarrow>
   gget (um_users m) (ad_UserID r) \<noteq> None \<Longrightarrow>
   um_wf (m\<lparr>um_authedDevices := gput k r (um_authedDevices m)\<rparr>)"
  by (simp add: um_wf_def gwf_put)

lemmas um_wf_updates = um_wf_add_user um_wf_policy um_wf_enrollment um_wf_device um_wf_ticket um_wf_authed

lemma um_wf_user: "um_wf m \<Longrightarrow> gget (um_users m) k = Some u \<Longrightarrow>
    uu_UserID u = k \<and> uu_Domain u \<noteq> [] \<and> TrimSpace (uu_Domain u) = uu_Domain u"
  by (simp add: um_wf_def)

lemma um_wf_device_record: "um_wf m \<Longrightarrow> gget (um_authedDevices m) k = Some r \<Longrightarrow>
    k = authedDeviceKey (ad_GroupName r) (ad_DeviceID r) \<and> ad_DeviceID r \<noteq> [] \<and>
    gget (um_users m) (ad_UserID r) \<noteq> None"
  by (simp add: um_wf_def)

lemma um_wf_ticket_record: "um_wf m \<Longrightarrow> gget (um_deviceTickets m) k = Some t \<Longrightarrow>
    dt_Ticket t = k \<and> gget (um_users m) (dt_UserID t) \<noteq> None"
  by (simp add: um_wf_def)

text \<open>Changing authenticated devices without touching their key fields, or dropping some.\<close>

lemma um_wf_devices:
  assumes "um_wf m" and "gwf ds"
    and "\<And>k r. gget ds k = Some r \<Longrightarrow> k = authedDeviceKey (ad_GroupName r) (ad_DeviceID r) \<and>
      ad_DeviceID r \<noteq> [] \<and> gget (um_users m) (ad_UserID r) \<noteq> None"
  shows "um_wf (m\<lparr>um_authedDevices := ds\<rparr>)"
  using assms(1,2) by (simp add: um_wf_def assms(3))

lemma um_wf_gmapv:
  assumes "um_wf m" and "\<And>k r. ad_GroupName (f k r) = ad_GroupName r \<and> ad_DeviceID (f k r) = ad_DeviceID r \<and>
    ad_UserID (f k r) = ad_UserID r"
  shows "um_wf (m\<lparr>um_authedDevices := gmapv f (um_authedDevices m)\<rparr>)"
proof (rule um_wf_devices [OF assms(1)])
  show "gwf (gmapv f (um_authedDevices m))" using assms(1) by (simp add: um_wf_def gwf_gmapv)
  fix k r
  assume "gget (gmapv f (um_authedDevices m)) k = Some r"
  then obtain r0 where "gget (um_authedDevices m) k = Some r0" "r = f k r0" by auto
  then show "k = authedDeviceKey (ad_GroupName r) (ad_DeviceID r) \<and>
      ad_DeviceID r \<noteq> [] \<and> gget (um_users m) (ad_UserID r) \<noteq> None"
    using um_wf_device_record [OF assms(1)] assms(2) by simp
qed

lemma um_wf_gfilter:
  assumes "um_wf m"
  shows "um_wf (m\<lparr>um_authedDevices := gfilter f (um_authedDevices m)\<rparr>)"
proof (rule um_wf_devices [OF assms])
  have g: "gwf (um_authedDevices m)" using assms by (simp add: um_wf_def)
  then show "gwf (gfilter f (um_authedDevices m))" by (rule gwf_gfilter)
  fix k r
  assume "gget (gfilter f (um_authedDevices m)) k = Some r"
  then have "gget (um_authedDevices m) k = Some r"
    using g by (auto simp: gget_gfilter split: option.splits if_splits)
  then show "k = authedDeviceKey (ad_GroupName r) (ad_DeviceID r) \<and>
      ad_DeviceID r \<noteq> [] \<and> gget (um_users m) (ad_UserID r) \<noteq> None"
    using um_wf_device_record [OF assms] by simp
qed

section \<open>Every operation keeps the invariant\<close>

lemma wf_CreateUser:
  assumes "um_wf m" and "CreateUser now store name domain m = Some (r, m')"
  shows "um_wf m'"
proof -
  have d: "(case domain of [] \<Rightarrow> ''ms.net'' | d # _ \<Rightarrow> userDomainOr d) \<noteq> []"
    "TrimSpace (case domain of [] \<Rightarrow> ''ms.net'' | d # _ \<Rightarrow> userDomainOr d) =
      (case domain of [] \<Rightarrow> ''ms.net'' | d # _ \<Rightarrow> userDomainOr d)"
    using userDomainOr_ok userDomainOr_ok [of "[]"] by (cases domain; simp add: userDomainOr_def)+
  show ?thesis
  proof (cases "name = []")
    case True
    then show ?thesis using assms by (simp add: CreateUser_def)
  next
    case False
    then obtain ident seq user where m': "m' = m\<lparr>um_userSeq := seq, um_users := gput ident user (um_users m),
        um_policies := gput ident (generateBasicPolicyLocked now ident) (um_policies m)\<rparr>"
      and u: "user = \<lparr>uu_UserID = ident, uu_Name = name,
        uu_Domain = (case domain of [] \<Rightarrow> ''ms.net'' | d # _ \<Rightarrow> userDomainOr d), uu_CreatedAt = now\<rparr>"
      using assms(2) by (auto simp: CreateUser_def Let_def saved_def split: option.splits)
    have "um_wf ((m\<lparr>um_userSeq := seq\<rparr>)\<lparr>um_users := gput ident user (um_users (m\<lparr>um_userSeq := seq\<rparr>)),
        um_policies := gput ident (generateBasicPolicyLocked now ident) (um_policies (m\<lparr>um_userSeq := seq\<rparr>))\<rparr>)"
      by (rule um_wf_add_user) (use assms(1) u d in simp_all)
    then show ?thesis using m' by simp
  qed
qed

lemma wf_CreateUserWithID: "um_wf m \<Longrightarrow> um_wf (snd (CreateUserWithID now store userID domain grp m))"
  using userDomainOr_ok [of domain]
  by (simp add: CreateUserWithID_def Let_def um_wf_add_user um_wf_policy split: sum.split option.split)

lemma wf_CreateEnrollment: "um_wf m \<Longrightarrow> um_wf (snd (CreateEnrollment now store userID ttl m))"
proof -
  assume wf: "um_wf m"
  have "um_wf (m\<lparr>um_enrollmentSeq := s, um_enrollments := gput (en_Code e) e (um_enrollments m)\<rparr>)"
    if "gget (um_users m) (en_UserID e) \<noteq> None" for s e
    using um_wf_enrollment [of "m\<lparr>um_enrollmentSeq := s\<rparr>" e] wf that by simp
  from this [of "\<lparr>en_Code = ''enr-'' @ show_int now @ ''-'' @ show_word (um_enrollmentSeq m + 1),
      en_UserID = userID, en_ExpireAt = now + ttl, en_Used = False, en_CreatedAt = now\<rparr>"]
  show ?thesis using wf by (simp add: CreateEnrollment_def Let_def)
qed

lemma wf_BindDevice: "um_wf m \<Longrightarrow> um_wf (snd (BindDeviceByEnrollment sha256 now store code dev key alg m))"
proof (cases "gget (um_enrollments m) code")
  case (Some e)
  assume wf: "um_wf m"
  have e: "en_Code e = code" using wf Some by (simp add: um_wf_def)
  let ?k = "toPubKeyHex sha256 key alg"
  let ?d = "\<lparr>dv_UserID = en_UserID e, dv_DeviceID = dev, dv_DisplayName = [], dv_PubKeyAlg = alg,
       dv_PubKeyHex = ?k, dv_CreatedAt = now, dv_LastBoundAt = now\<rparr>"
  let ?m = "m\<lparr>um_deviceByPubKey := gput ?k ?d (um_deviceByPubKey m)\<rparr>"
  have "um_wf (?m\<lparr>um_enrollments := gput code (e\<lparr>en_Used := True\<rparr>) (um_enrollments ?m)\<rparr>)"
    if "gget (um_users m) (en_UserID e) \<noteq> None"
    by (rule um_wf_enrollment [OF um_wf_device]) (use wf e that in simp_all)
  then show ?thesis using wf Some by (simp add: BindDeviceByEnrollment_def Let_def)
qed (simp add: BindDeviceByEnrollment_def Let_def)

lemma wf_GenerateBasicPolicy: "um_wf m \<Longrightarrow> um_wf (snd (GenerateBasicPolicy now store userID m))"
  by (simp add: GenerateBasicPolicy_def Let_def um_wf_policy)

lemma wf_IssueDeviceTicket: "um_wf m \<Longrightarrow> um_wf (snd (IssueDeviceTicket rnd now store userID grp ttl m))"
  by (simp add: IssueDeviceTicket_def Let_def um_wf_ticket split: sum.split option.split)

lemma ValidateDeviceAuth_Inr:
  "ValidateDeviceAuth now userID groupName deviceID ticket m = Inr g \<longleftrightarrow>
     userID \<noteq> [] \<and> groupName \<noteq> [] \<and> deviceID \<noteq> [] \<and> ticket \<noteq> [] \<and>
     (\<exists>t user. gget (um_deviceTickets m) ticket = Some t \<and> \<not> dt_Used t \<and> now \<le> dt_ExpireAt t \<and>
        dt_UserID t = userID \<and> dt_GroupName t = g \<and> gget (um_users m) userID = Some user \<and>
        normalizeGroupForUser groupName (uu_Domain user) = Inr g)"
  by (auto simp: ValidateDeviceAuth_def split: option.splits sum.splits if_splits)

lemma wf_AuthDevice: "um_wf m \<Longrightarrow> um_wf (snd (AuthDevice sha256 now store userID grp dev ticket key m))"
proof (cases "ValidateDeviceAuth now userID grp dev ticket m")
  case (Inr g)
  assume wf: "um_wf m"
  obtain t user where t: "gget (um_deviceTickets m) ticket = Some t" "dev \<noteq> []"
      "gget (um_users m) userID = Some user"
    using Inr by (auto simp: ValidateDeviceAuth_Inr)
  note tr = um_wf_ticket_record [OF wf t(1)]
  let ?r = "\<lparr>ad_UserID = userID, ad_GroupName = g, ad_DeviceID = dev,
      ad_DisplayName = (case gget (um_authedDevices m) (authedDeviceKey g dev) of
         Some existing \<Rightarrow> TrimSpace (ad_DisplayName existing) | None \<Rightarrow> []),
      ad_PubKeyHex = toPubKeyHex sha256 key ''ed25519'', ad_AuthedAt = now,
      ad_AuthExpireAt = now + defaultDeviceAuthTTL\<rparr>"
  let ?m = "m\<lparr>um_authedDevices := gput (authedDeviceKey g dev) ?r (um_authedDevices m)\<rparr>"
  have "um_wf ?m" by (rule um_wf_authed) (use wf t in simp_all)
  then have "um_wf (?m\<lparr>um_deviceTickets := gput ticket (t\<lparr>dt_Used := True\<rparr>) (um_deviceTickets ?m)\<rparr>)"
    by (rule um_wf_ticket) (use tr in simp_all)
  then show ?thesis using wf Inr t by (simp add: AuthDevice_def commitDeviceAuth_def Let_def)
qed (simp add: AuthDevice_def)

lemma extendExpiry_keys [simp]:
  "ad_GroupName (extendExpiry now ttl r) = ad_GroupName r"
  "ad_DeviceID (extendExpiry now ttl r) = ad_DeviceID r" "ad_UserID (extendExpiry now ttl r) = ad_UserID r"
  "ad_DisplayName (extendExpiry now ttl r) = ad_DisplayName r"
  "ad_PubKeyHex (extendExpiry now ttl r) = ad_PubKeyHex r"
  by (simp_all add: extendExpiry_def Let_def)

lemma wf_Extend: "um_wf m \<Longrightarrow> um_wf (snd (ExtendAuthedDeviceExpiry now store u g d ttl all m))"
  by (auto simp: ExtendAuthedDeviceExpiry_def Let_def split: sum.split intro!: um_wf_gmapv)

lemma wf_Delete: "um_wf m \<Longrightarrow> um_wf (snd (DeleteAuthedDevice store u g d m))"
  by (auto simp: DeleteAuthedDevice_def Let_def split: sum.split intro!: um_wf_gfilter)

text \<open>Giving a stored device another display name.\<close>

lemma um_wf_rename:
  assumes "um_wf m" and "gget (um_authedDevices m) key = Some r"
  shows "um_wf (m\<lparr>um_authedDevices := gput key (r\<lparr>ad_DisplayName := name\<rparr>) (um_authedDevices m)\<rparr>)"
  by (rule um_wf_authed) (use assms um_wf_device_record [OF assms] in simp_all)

lemma wf_Assign:
  "um_wf m \<Longrightarrow> AssignAuthedDeviceDisplayName store g d n m = Some (res, m') \<Longrightarrow> um_wf m'"
  by (auto simp: AssignAuthedDeviceDisplayName_def Let_def saved_def um_wf_rename
      split: sum.splits option.splits if_splits)

lemma wf_SetName: "um_wf m \<Longrightarrow> um_wf (snd (SetAuthedDeviceDisplayName store g d n m))"
  by (simp add: SetAuthedDeviceDisplayName_def Let_def um_wf_rename split: option.split)

lemma matchingDevices_iff:
  assumes "gwf devices"
  shows "k \<in> set (matchingDevices u g d devices) \<longleftrightarrow>
    (\<exists>r. gget devices k = Some r \<and> ad_UserID r = u \<and> (g \<noteq> [] \<longrightarrow> ad_GroupName r = g) \<and>
       (d \<noteq> [] \<longrightarrow> ad_DeviceID r = d))"
  by (force simp: matchingDevices_def gget_iff [OF assms])

lemma wf_Rename: "um_wf m \<Longrightarrow> um_wf (snd (RenameAuthedDevice store u g d n m))"
proof -
  assume wf: "um_wf m"
  have "um_wf (m\<lparr>um_authedDevices := gput k ((the (gget (um_authedDevices m) k))\<lparr>ad_DisplayName := x\<rparr>)
      (um_authedDevices m)\<rparr>)"
    if "matchingDevices a b c (um_authedDevices m) = k # others" for a b c k others x
  proof -
    have "gwf (um_authedDevices m)" using wf by (simp add: um_wf_def)
    from matchingDevices_iff [OF this, of k a b c] that
    obtain r where "gget (um_authedDevices m) k = Some r" by auto
    then show ?thesis using um_wf_rename [OF wf] by simp
  qed
  then show ?thesis
    using wf by (simp add: RenameAuthedDevice_def Let_def split: sum.split list.split)
qed

section \<open>Histories\<close>

text \<open>
  One step is one call of an operation with any arguments, at any time, with any outcome of the
  store. The identifier that \<^verbatim>\<open>newSecureTicketID\<close> draws, 128 random bits, is taken to be new.
\<close>

inductive um_step :: "(bytes \<Rightarrow> bytes) \<Rightarrow> UserManager \<Rightarrow> UserManager \<Rightarrow> bool" for sha256 where
  create_user: "CreateUser now store name domain m = Some (r, m') \<Longrightarrow> um_step sha256 m m'"
| create_user_id: "um_step sha256 m (snd (CreateUserWithID now store userID domain grp m))"
| create_enrollment: "um_step sha256 m (snd (CreateEnrollment now store userID ttl m))"
| bind_device: "um_step sha256 m (snd (BindDeviceByEnrollment sha256 now store code dev key alg m))"
| basic_policy: "um_step sha256 m (snd (GenerateBasicPolicy now store userID m))"
| issue_ticket: "(\<And>ticket. newSecureTicketID rnd = Inr ticket \<Longrightarrow> gget (um_deviceTickets m) ticket = None) \<Longrightarrow>
    um_step sha256 m (snd (IssueDeviceTicket rnd now store userID grp ttl m))"
| auth_device: "um_step sha256 m (snd (AuthDevice sha256 now store userID grp dev ticket key m))"
| extend: "um_step sha256 m (snd (ExtendAuthedDeviceExpiry now store u g d ttl all m))"
| delete: "um_step sha256 m (snd (DeleteAuthedDevice store u g d m))"
| assign_name: "AssignAuthedDeviceDisplayName store g d n m = Some (r, m') \<Longrightarrow> um_step sha256 m m'"
| set_name: "um_step sha256 m (snd (SetAuthedDeviceDisplayName store g d n m))"
| rename: "um_step sha256 m (snd (RenameAuthedDevice store u g d n m))"

lemmas um_wf_ops = wf_CreateUser wf_CreateUserWithID wf_CreateEnrollment wf_BindDevice
  wf_GenerateBasicPolicy wf_IssueDeviceTicket wf_AuthDevice wf_Extend wf_Delete wf_Assign
  wf_SetName wf_Rename

lemma um_step_wf: "um_step sha256 m m' \<Longrightarrow> um_wf m \<Longrightarrow> um_wf m'"
  by (induction rule: um_step.induct) (rule um_wf_ops; assumption)+

lemma um_steps_wf: "(um_step sha256)\<^sup>*\<^sup>* m m' \<Longrightarrow> um_wf m \<Longrightarrow> um_wf m'"
  by (induction rule: rtranclp_induct) (auto intro: um_step_wf)

section \<open>Single use\<close>

definition ticket_spent :: "string \<Rightarrow> UserManager \<Rightarrow> bool" where
  "ticket_spent k m \<longleftrightarrow> (\<exists>t. gget (um_deviceTickets m) k = Some t \<and> dt_Used t)"

lemma AuthDevice_Inr:
  assumes "fst (AuthDevice sha256 now store u g d ticket key m) = Inr r"
  shows "\<exists>ng. ValidateDeviceAuth now u g d ticket m = Inr ng"
  using assms by (simp add: AuthDevice_def split: if_splits sum.splits)

lemma tickets_AuthDevice:
  "um_deviceTickets (snd (AuthDevice sha256 now store u g d ticket key m)) =
    (if key \<noteq> [] \<and> (\<exists>ng. ValidateDeviceAuth now u g d ticket m = Inr ng)
     then gput ticket ((the (gget (um_deviceTickets m) ticket))\<lparr>dt_Used := True\<rparr>) (um_deviceTickets m)
     else um_deviceTickets m)"
proof (cases "ValidateDeviceAuth now u g d ticket m")
  case (Inr ng)
  then obtain t where "gget (um_deviceTickets m) ticket = Some t"
    by (auto simp: ValidateDeviceAuth_Inr)
  with Inr show ?thesis by (simp add: AuthDevice_def commitDeviceAuth_def Let_def)
qed (simp add: AuthDevice_def)

lemma spent_AuthDevice:
  "ticket_spent k m \<Longrightarrow> ticket_spent k (snd (AuthDevice sha256 now store u g d ticket key m))"
  by (auto simp: ticket_spent_def tickets_AuthDevice)

lemma spent_Issue:
  assumes "\<And>ticket. newSecureTicketID rnd = Inr ticket \<Longrightarrow> gget (um_deviceTickets m) ticket = None"
    and "ticket_spent k m"
  shows "ticket_spent k (snd (IssueDeviceTicket rnd now store userID grp ttl m))"
  using assms by (auto simp: IssueDeviceTicket_def Let_def ticket_spent_def split: sum.split option.split)

lemma tickets_other [simp]:
  "um_deviceTickets (snd (CreateUserWithID now store userID domain grp m)) = um_deviceTickets m"
  "um_deviceTickets (snd (CreateEnrollment now store userID ttl m)) = um_deviceTickets m"
  "um_deviceTickets (snd (GenerateBasicPolicy now store userID m)) = um_deviceTickets m"
  "um_deviceTickets (snd (ExtendAuthedDeviceExpiry now store u g d ttl all m)) = um_deviceTickets m"
  "um_deviceTickets (snd (DeleteAuthedDevice store u g d m)) = um_deviceTickets m"
  "um_deviceTickets (snd (SetAuthedDeviceDisplayName store g d n m)) = um_deviceTickets m"
  "um_deviceTickets (snd (RenameAuthedDevice store u g d n m)) = um_deviceTickets m"
  by (simp_all add: CreateUserWithID_def CreateEnrollment_def GenerateBasicPolicy_def
      ExtendAuthedDeviceExpiry_def DeleteAuthedDevice_def SetAuthedDeviceDisplayName_def
      RenameAuthedDevice_def Let_def split: sum.split option.split list.split)

lemma tickets_Bind [simp]:
  "um_deviceTickets (snd (BindDeviceByEnrollment sha256 now store code dev key alg m)) = um_deviceTickets m"
  by (simp add: BindDeviceByEnrollment_def Let_def split: option.split)

lemma tickets_partial:
  "CreateUser now store name domain m = Some (r, m') \<Longrightarrow> um_deviceTickets m' = um_deviceTickets m"
  "AssignAuthedDeviceDisplayName store g d n m = Some (r2, m') \<Longrightarrow> um_deviceTickets m' = um_deviceTickets m"
  by (auto simp: CreateUser_def AssignAuthedDeviceDisplayName_def Let_def saved_def
      split: if_splits option.splits sum.splits)

lemma um_step_spent: "um_step sha256 m m' \<Longrightarrow> ticket_spent k m \<Longrightarrow> ticket_spent k m'"
proof (induction rule: um_step.induct)
  case (issue_ticket rnd m now store userID grp ttl)
  then show ?case by (blast intro: spent_Issue)
next
  case (auth_device m now store userID grp dev ticket key)
  then show ?case by (rule spent_AuthDevice)
qed (simp_all add: ticket_spent_def tickets_partial)

section \<open>Loops that search\<close>

lemma nextUserID_returns:
  assumes "gget users (''u-'' @ show_word (seq + of_nat (Suc k))) = None"
  shows "\<exists>ident seq'. nextUserID users seq = Some (ident, seq') \<and> gget users ident = None"
  using assms
proof (induction k arbitrary: seq)
  case 0
  then show ?case by (subst nextUserID.simps) (simp add: Let_def)
next
  case (Suc k)
  have "gget users (''u-'' @ show_word ((seq + 1) + of_nat (Suc k))) = None"
    using Suc.prems by (simp add: add.assoc add.commute add.left_commute)
  from Suc.IH [OF this] show ?case by (subst nextUserID.simps) (auto simp: Let_def)
qed

text \<open>Among more candidates than users one is free.\<close>

lemma free_user_id:
  assumes "length users < 2 ^ 64"
  shows "\<exists>k. gget users (''u-'' @ show_word (seq + of_nat (Suc k) :: u64)) = None"
proof (rule ccontr)
  assume "\<not> ?thesis"
  then have "''u-'' @ show_word (seq + of_nat (Suc k) :: u64) \<in> fst ` set users" for k
    by (metis gget_None_iff)
  moreover have "\<exists>k. w = seq + of_nat (Suc k)" for w :: u64
  proof -
    have "w = seq + of_nat (Suc (unat (w - seq - 1)))" by simp
    then show ?thesis by blast
  qed
  ultimately have "''u-'' @ show_word (w :: u64) \<in> fst ` set users" for w by metis
  then have "range (\<lambda>w :: u64. ''u-'' @ show_word w) \<subseteq> fst ` set users" by blast
  moreover have "inj (\<lambda>w :: u64. ''u-'' @ show_word w)" by (auto intro: injI)
  ultimately have "card (UNIV :: u64 set) \<le> card (fst ` set users)"
    by (metis card_image card_mono finite_imageI List.finite_set)
  moreover have "card (fst ` set users) \<le> length users"
    by (metis card_image_le card_length le_trans List.finite_set)
  ultimately show False using assms by (simp add: card_word)
qed

section \<open>Groups\<close>

lemma normalizeGroup_ok:
  assumes "normalizeGroupForUser g dmn = Inr g'" and "dmn \<noteq> []" and "TrimSpace dmn = dmn"
  shows "g' = dmn \<or> suffix (''.'' @ dmn) g'" and "g' \<noteq> []"
  using assms by (auto simp: normalizeGroupForUser_def HasSuffix_def Let_def suffix_def split: if_splits)

section \<open>Expiry\<close>

lemma extendExpiry_ge:
  assumes "0 < ttl"
  shows "ad_AuthExpireAt r < ad_AuthExpireAt (extendExpiry now ttl r) \<or> IsZero_time (ad_AuthExpireAt r)"
    and "now < ad_AuthExpireAt (extendExpiry now ttl r)"
  using assms by (auto simp: extendExpiry_def Let_def)

section \<open>Properties\<close>

text \<open>
  C13: the invariant of the user manager holds after every history of its operations: keys and
  records agree, every user has a policy and a domain, and nothing refers to a user that does not
  exist.
\<close>

theorem um_reachable_wf:
  assumes "(um_step sha256)\<^sup>*\<^sup>* NewUserManager m"
  shows "um_wf m"
  using um_steps_wf [OF assms um_wf_New] .

theorem um_reachable_wf_witness:
  "um_wf (snd (CreateUserWithID 1 None ''sdl-1'' ''ms.net'' [] NewUserManager))"
  by (rule um_reachable_wf [OF r_into_rtranclp]) (rule create_user_id)

text \<open>
  C14: a device ticket authenticates one device. Once \<^verbatim>\<open>AuthDevice\<close> has accepted a ticket, no later
  call accepts it again, whatever operations run in between.
\<close>

theorem ticket_single_use:
  assumes "fst (AuthDevice sha256 now store u g d ticket key m) = Inr r"
    and "(um_step sha256)\<^sup>*\<^sup>* (snd (AuthDevice sha256 now store u g d ticket key m)) m2"
  shows "\<exists>err. fst (AuthDevice sha256 now2 store2 u2 g2 d2 ticket key2 m2) = Inl err"
proof -
  have k: "key \<noteq> []" using assms(1) by (auto simp: AuthDevice_def)
  have "ticket_spent ticket (snd (AuthDevice sha256 now store u g d ticket key m))"
    using AuthDevice_Inr [OF assms(1)] k by (simp add: ticket_spent_def tickets_AuthDevice)
  with assms(2) have "ticket_spent ticket m2"
    by (induction rule: rtranclp_induct) (auto intro: um_step_spent)
  then have "ValidateDeviceAuth now2 u2 g2 d2 ticket m2 \<noteq> Inr ng" for ng
    by (auto simp: ticket_spent_def ValidateDeviceAuth_Inr)
  then show ?thesis
    using AuthDevice_Inr by (cases "fst (AuthDevice sha256 now2 store2 u2 g2 d2 ticket key2 m2)") blast+
qed

text \<open>
  \<^verbatim>\<open>CreateUser\<close> returns, as long as there are fewer than $2^{64}$ users, and the identifier of the
  new user was not in use, so no user is overwritten.
\<close>

theorem create_user_fresh:
  assumes "length (um_users m) < 2 ^ 64" and "name \<noteq> []"
  shows "\<exists>r m' u. CreateUser now store name domain m = Some (r, m') \<and>
    gget (um_users m) (uu_UserID u) = None \<and> um_users m' = gput (uu_UserID u) u (um_users m) \<and>
    uu_Name u = name \<and> (saveLocked store m' = None \<longrightarrow> r = Inr u)"
proof -
  obtain ident seq where n: "nextUserID (um_users m) (um_userSeq m) = Some (ident, seq)"
    and f: "gget (um_users m) ident = None"
    using nextUserID_returns free_user_id [OF assms(1)] by metis
  then show ?thesis
    using assms(2) by (simp add: CreateUser_def Let_def saved_def split: option.split)
      (metis UMUser.select_convs)
qed

theorem create_user_fresh_witness:
  "\<exists>r m' u. CreateUser 7 None ''alice'' [] NewUserManager = Some (r, m') \<and> uu_Name u = ''alice'' \<and>
     um_users m' = gput (uu_UserID u) u [] \<and> r = Inr u"
  using create_user_fresh [of NewUserManager "''alice''" 7 None "[]"]
  by (auto simp: NewUserManager_def saveLocked_def)

text \<open>A manager with one user and one open ticket.\<close>

definition sample_um :: UserManager where
  "sample_um = NewUserManager\<lparr>
     um_users := [(''sdl-1'', \<lparr>uu_UserID = ''sdl-1'', uu_Name = ''sdl-1'', uu_Domain = ''ms.net'', uu_CreatedAt = 0\<rparr>)],
     um_policies := [(''sdl-1'', generateBasicPolicyLocked 0 ''sdl-1'')],
     um_deviceTickets := [(''dtk-1'', \<lparr>dt_Ticket = ''dtk-1'', dt_UserID = ''sdl-1'',
        dt_GroupName = ''home.ms.net'', dt_ExpireAt = 100, dt_Used = False, dt_CreatedAt = 0\<rparr>)]\<rparr>"

lemma sample_um_valid:
  "ValidateDeviceAuth 5 ''sdl-1'' ''home.ms.net'' ''dev-a'' ''dtk-1'' sample_um = Inr ''home.ms.net''"
  "ValidateDeviceAuth 5 ''sdl-1'' ''home'' ''dev-b'' ''dtk-1'' sample_um = Inr ''home.ms.net''"
  by code_simp+

theorem ticket_single_use_witness:
  "\<exists>err. fst (AuthDevice (\<lambda>b. b) 6 None ''sdl-1'' ''home.ms.net'' ''dev-b'' ''dtk-1'' [2]
     (snd (AuthDevice (\<lambda>b. b) 5 None ''sdl-1'' ''home.ms.net'' ''dev-a'' ''dtk-1'' [1] sample_um))) = Inl err"
  by (rule ticket_single_use [OF _ rtranclp.rtrancl_refl])
    (simp add: AuthDevice_def sample_um_valid commitDeviceAuth_def Let_def)

text \<open>
  The check and the use of a ticket are two critical sections. Two calls of \<^verbatim>\<open>AuthDevice\<close> that
  both check before either commits both succeed, and one ticket authenticates two devices.
\<close>

theorem auth_race_reuses_ticket:
  assumes "ValidateDeviceAuth now u g1 d1 ticket m = Inr ng"
    and "ValidateDeviceAuth now u g2 d2 ticket m = Inr ng" and "d1 \<noteq> d2"
  shows "let (r1, m1) = commitDeviceAuth hash now None u ng d1 ticket key1 m;
             (r2, m2) = commitDeviceAuth hash now None u ng d2 ticket key2 m1
         in (\<exists>a. r1 = Inr a) \<and> (\<exists>b. r2 = Inr b) \<and> IsAuthedDevice ng d1 m2 \<and> IsAuthedDevice ng d2 m2"
  using assms(3)
  by (simp add: commitDeviceAuth_def Let_def IsAuthedDevice_def GetAuthedDevice_def authedDeviceKey_def)

theorem auth_race_reuses_ticket_witness:
  "let (r1, m1) = commitDeviceAuth (\<lambda>b. b) 5 None ''sdl-1'' ''home.ms.net'' ''dev-a'' ''dtk-1'' [1] sample_um;
       (r2, m2) = commitDeviceAuth (\<lambda>b. b) 5 None ''sdl-1'' ''home.ms.net'' ''dev-b'' ''dtk-1'' [2] m1
   in (\<exists>a. r1 = Inr a) \<and> (\<exists>b. r2 = Inr b) \<and>
      IsAuthedDevice ''home.ms.net'' ''dev-a'' m2 \<and> IsAuthedDevice ''home.ms.net'' ''dev-b'' m2"
  by (rule auth_race_reuses_ticket [OF sample_um_valid]) simp

text \<open>
  C33: authentication grants registration to exactly the key that was authenticated. After a
  successful \<^verbatim>\<open>AuthDevice\<close> the check of a registration passes for that key until the authentication
  expires 30 days later, and fails afterwards and for every key with another hash.
\<close>

theorem auth_then_check:
  assumes "fst (AuthDevice hash now store u g d ticket key m) = Inr r" and "key' \<noteq> []"
    and "now + defaultDeviceAuthTTL \<noteq> zero_time"
  shows "CheckAuthedDevice hash t (ad_GroupName r) d key' (snd (AuthDevice hash now store u g d ticket key m)) =
    (if t > now + defaultDeviceAuthTTL then Some ''auth_expired''
     else if toPubKeyHex hash key' ''ed25519'' \<noteq> toPubKeyHex hash key ''ed25519''
     then Some ''device_key_mismatch'' else None)"
proof -
  obtain ng where v: "ValidateDeviceAuth now u g d ticket m = Inr ng" using AuthDevice_Inr [OF assms(1)] ..
  have "key \<noteq> []" using assms(1) by (auto simp: AuthDevice_def)
  then show ?thesis
    using assms v
    by (auto simp: AuthDevice_def commitDeviceAuth_def Let_def saved_Inr CheckAuthedDevice_def IsZero_time_def)
qed

theorem auth_then_check_witness:
  "CheckAuthedDevice (\<lambda>b. b) 9 ''home.ms.net'' ''dev-a'' [1]
     (snd (AuthDevice (\<lambda>b. b) 5 None ''sdl-1'' ''home.ms.net'' ''dev-a'' ''dtk-1'' [1] sample_um)) = None"
  using auth_then_check [where hash = "\<lambda>b. b" and now = 5 and store = None and u = "''sdl-1''"
      and g = "''home.ms.net''" and d = "''dev-a''" and ticket = "''dtk-1''" and key = "[1]" and key' = "[1]"
      and m = sample_um and t = 9]
  by (simp add: AuthDevice_def sample_um_valid commitDeviceAuth_def Let_def defaultDeviceAuthTTL_def
      zero_time_def Second_def)

text \<open>
  An operation whose save fails is not undone. \<^verbatim>\<open>AuthDevice\<close> reports the error of the store, yet the
  device is authenticated in memory and passes the check of a registration.
\<close>

theorem failed_save_authenticates:
  assumes "ValidateDeviceAuth now u g d ticket m = Inr ng" and "key \<noteq> []"
    and "\<And>s. save s = Some err" and "now + defaultDeviceAuthTTL \<noteq> zero_time"
  shows "fst (AuthDevice hash now (Some save) u g d ticket key m) = Inl err \<and>
    CheckAuthedDevice hash now ng d key (snd (AuthDevice hash now (Some save) u g d ticket key m)) = None"
  using assms
  by (simp add: AuthDevice_def commitDeviceAuth_def Let_def saved_def saveLocked_def CheckAuthedDevice_def
      IsZero_time_def defaultDeviceAuthTTL_def Second_def)

theorem failed_save_authenticates_witness:
  "CheckAuthedDevice (\<lambda>b. b) 5 ''home.ms.net'' ''dev-a'' [1]
     (snd (AuthDevice (\<lambda>b. b) 5 (Some (\<lambda>_. Some ''disk full'')) ''sdl-1'' ''home.ms.net'' ''dev-a'' ''dtk-1'' [1]
        sample_um)) = None"
  using failed_save_authenticates [OF sample_um_valid(1), where key = "[1]" and
      save = "\<lambda>_. Some ''disk full''" and err = "''disk full''" and hash = "\<lambda>b. b"]
  by (simp add: defaultDeviceAuthTTL_def zero_time_def Second_def)

text \<open>
  An enrollment code binds one key, and a key stays with its user. After a successful
  \<^verbatim>\<open>BindDeviceByEnrollment\<close> the code is refused, and no other code moves the key to another user.
\<close>

theorem enrollment_single_use:
  assumes "fst (BindDeviceByEnrollment hash now store code dev key alg m) = Inr dv"
  shows "(\<exists>err. fst (BindDeviceByEnrollment hash now' store' code dev' key' alg'
           (snd (BindDeviceByEnrollment hash now store code dev key alg m))) = Inl err) \<and>
    (\<forall>code' dv'. fst (BindDeviceByEnrollment hash now' store' code' dev' key alg
           (snd (BindDeviceByEnrollment hash now store code dev key alg m))) = Inr dv' \<longrightarrow>
       dv_UserID dv' = dv_UserID dv)"
proof -
  obtain e usr where e: "gget (um_enrollments m) code = Some e" "code \<noteq> []" "dev \<noteq> []" "key \<noteq> []" "alg \<noteq> []"
      "\<not> en_Used e" "\<not> now > en_ExpireAt e" "gget (um_users m) (en_UserID e) = Some usr"
    and nb: "\<not> (case gget (um_deviceByPubKey m) (toPubKeyHex hash key alg) of
        Some existing \<Rightarrow> dv_UserID existing \<noteq> en_UserID e | None \<Rightarrow> False)"
    using assms by (simp add: BindDeviceByEnrollment_def Let_def split: if_splits option.splits)
  define m' where "m' = snd (BindDeviceByEnrollment hash now store code dev key alg m)"
  have en: "gget (um_enrollments m') code = Some (e\<lparr>en_Used := True\<rparr>)"
    and key: "gget (um_deviceByPubKey m') (toPubKeyHex hash key alg) = Some dv"
    using assms e nb by (simp_all add: m'_def BindDeviceByEnrollment_def Let_def saved_Inr)
  have "\<exists>err. fst (BindDeviceByEnrollment hash now' store' code dev' key' alg' m') = Inl err"
    using en by (simp add: BindDeviceByEnrollment_def Let_def)
  moreover have "dv_UserID dv' = dv_UserID dv"
    if "fst (BindDeviceByEnrollment hash now' store' code' dev' key alg m') = Inr dv'" for code' dv'
    using that key
    by (auto simp: BindDeviceByEnrollment_def Let_def saved_Inr split: if_splits option.splits)
  ultimately show ?thesis unfolding m'_def by blast
qed

theorem enrollment_single_use_witness:
  "\<exists>err. fst (BindDeviceByEnrollment (\<lambda>b. b) 3 None ''enr-1'' ''d2'' [2] ''ed25519''
     (snd (BindDeviceByEnrollment (\<lambda>b. b) 2 None ''enr-1'' ''d'' [1] ''ed25519''
       (sample_um\<lparr>um_enrollments := [(''enr-1'', \<lparr>en_Code = ''enr-1'', en_UserID = ''sdl-1'', en_ExpireAt = 9,
          en_Used = False, en_CreatedAt = 0\<rparr>)]\<rparr>)))) = Inl err"
  using enrollment_single_use [where hash = "\<lambda>b. b" and now = 2 and store = None and code = "''enr-1''"
      and dev = "''d''" and key = "[1]" and alg = "''ed25519''" and now' = 3 and store' = None
      and dev' = "''d2''" and key' = "[2]" and alg' = "''ed25519''"
      and m = "sample_um\<lparr>um_enrollments := [(''enr-1'', \<lparr>en_Code = ''enr-1'', en_UserID = ''sdl-1'',
          en_ExpireAt = 9, en_Used = False, en_CreatedAt = 0\<rparr>)]\<rparr>"]
  by (simp add: sample_um_def NewUserManager_def BindDeviceByEnrollment_def Let_def)

end
