(* ===== verification/User_Names.thy ===== *)
theory User_Names
  imports User_Facts
begin

text \<open>
  Patterns, display names and persistence of the user manager: the pattern matcher of the user list
  against its specification, uniqueness of display names in a network, and what a restart keeps.
\<close>

section \<open>Patterns\<close>

text \<open>
  What a pattern means: the value splits into one part per pattern rune, any part for a star, one
  arbitrary rune for a question mark, and the rune itself otherwise.
\<close>

definition part_ok :: "nat \<Rightarrow> nat list \<Rightarrow> bool" where
  "part_ok p part \<longleftrightarrow> p = of_char (CHR ''*'') \<or> (\<exists>v. part = [v] \<and> (p = of_char (CHR ''?'') \<or> p = v))"

definition wildcard_spec :: "nat list \<Rightarrow> nat list \<Rightarrow> bool" where
  "wildcard_spec ps vs \<longleftrightarrow> (\<exists>parts. list_all2 part_ok ps parts \<and> concat parts = vs)"

lemma spec_Nil: "wildcard_spec [] vs \<longleftrightarrow> vs = []"
  by (auto simp: wildcard_spec_def)

lemma spec_snoc: "wildcard_spec (ps @ [p]) vs \<longleftrightarrow>
    (\<exists>i \<le> length vs. wildcard_spec ps (take i vs) \<and> part_ok p (drop i vs))"
proof
  assume "wildcard_spec (ps @ [p]) vs"
  then obtain parts part where "list_all2 part_ok ps parts" "part_ok p part" "vs = concat parts @ part"
    by (auto simp: wildcard_spec_def list_all2_append1 list_all2_Cons1)
  then show "\<exists>i \<le> length vs. wildcard_spec ps (take i vs) \<and> part_ok p (drop i vs)"
    by (intro exI [of _ "length (concat parts)"]) (auto simp: wildcard_spec_def)
next
  assume "\<exists>i \<le> length vs. wildcard_spec ps (take i vs) \<and> part_ok p (drop i vs)"
  then obtain i parts where "list_all2 part_ok ps parts" "concat parts = take i vs" "part_ok p (drop i vs)"
    by (auto simp: wildcard_spec_def)
  then show "wildcard_spec (ps @ [p]) vs"
    unfolding wildcard_spec_def by (intro exI [of _ "parts @ [drop i vs]"]) (auto intro: list_all2_appendI)
qed

lemma star_row_map:
  "star_row b (map f [k..<n]) = map (\<lambda>i. b \<or> (\<exists>j. k \<le> j \<and> j \<le> i \<and> f j)) [k..<n]"
proof (induction "n - k" arbitrary: k b)
  case (Suc x)
  then have k: "[k..<n] = k # [Suc k..<n]" by (simp add: upt_rec)
  have ih: "star_row (f k \<or> b) (map f [Suc k..<n]) =
      map (\<lambda>i. (f k \<or> b) \<or> (\<exists>j. Suc k \<le> j \<and> j \<le> i \<and> f j)) [Suc k..<n]"
    using Suc by (intro Suc.hyps) simp
  have "(\<exists>j. k \<le> j \<and> j \<le> i \<and> f j) \<longleftrightarrow> (k \<le> i \<and> f k) \<or> (\<exists>j. Suc k \<le> j \<and> j \<le> i \<and> f j)" for i
    by (metis Suc_leD Suc_leI le_antisym le_refl not_less_eq_eq)
  then show ?case unfolding k by (auto simp: ih)
qed simp

lemma wildcard_row_spec:
  assumes "ms = map (\<lambda>i. wildcard_spec ps (take i vs)) [0..<Suc (length vs)]"
  shows "wildcard_row p vs ms = map (\<lambda>i. wildcard_spec (ps @ [p]) (take i vs)) [0..<Suc (length vs)]"
proof (cases "p = of_char (CHR ''*'')")
  case True
  have "wildcard_spec (ps @ [p]) (take i vs) \<longleftrightarrow> (\<exists>j \<le> i. wildcard_spec ps (take j vs))"
    if "i \<le> length vs" for i
    using that True by (force simp: spec_snoc part_ok_def min_def)
  then show ?thesis
    using True star_row_map [of False _ 0] by (simp add: wildcard_row_def assms del: upt_Suc)
next
  case False
  have hd: "\<not> wildcard_spec (ps @ [p]) []" using False by (simp add: spec_snoc part_ok_def)
  have "wildcard_spec (ps @ [p]) (take (Suc i) vs) \<longleftrightarrow>
      wildcard_spec ps (take i vs) \<and> (p = of_char (CHR ''?'') \<or> p = vs ! i)" if "i < length vs" for i
  proof -
    have part: "part_ok p (drop j (take (Suc i) vs)) \<longleftrightarrow> j = i \<and> (p = of_char (CHR ''?'') \<or> p = vs ! i)"
      if "j \<le> Suc i" for j
    proof (cases "j = i")
      case True
      then show ?thesis using False \<open>i < length vs\<close> by (auto simp: part_ok_def take_Suc_conv_app_nth)
    next
      case ne: False
      have "length (drop j (take (Suc i) vs)) = Suc i - j" using \<open>i < length vs\<close> by simp
      moreover have "part_ok p x \<Longrightarrow> length x = 1" for x using False by (auto simp: part_ok_def)
      ultimately show ?thesis using ne that by (metis One_nat_def Suc_diff_le Suc_inject diff_is_0_eq
          le_SucE le_antisym diff_self_eq_0 nat.distinct(1))
    qed
    show ?thesis
      unfolding spec_snoc using that part by (auto simp: min_def)
  qed
  note step = this
  have row: "wildcard_row p vs ms =
      False # map2 (\<lambda>m v. m \<and> (p = of_char (CHR ''?'') \<or> p = v)) (butlast ms) vs"
    using False by (simp add: wildcard_row_def)
  show ?thesis
  proof (rule nth_equalityI)
    show "length (wildcard_row p vs ms) =
        length (map (\<lambda>i. wildcard_spec (ps @ [p]) (take i vs)) [0..<Suc (length vs)])"
      unfolding row by (simp add: assms del: upt_Suc)
    fix i
    assume "i < length (wildcard_row p vs ms)"
    then have i: "i < Suc (length vs)" unfolding row by (simp add: assms del: upt_Suc)
    show "wildcard_row p vs ms ! i =
        map (\<lambda>i. wildcard_spec (ps @ [p]) (take i vs)) [0..<Suc (length vs)] ! i"
    proof (cases i)
      case 0
      then show ?thesis using hd by (simp add: row del: upt_Suc)
    next
      case (Suc k)
      then show ?thesis unfolding row using i step [of k] by (simp add: assms nth_butlast del: upt_Suc)
    qed
  qed
qed

lemma wildcard_table:
  "fold (\<lambda>p. wildcard_row p vs) ps (True # replicate (length vs) False) =
    map (\<lambda>i. wildcard_spec ps (take i vs)) [0..<Suc (length vs)]"
proof (induction ps rule: rev_induct)
  case Nil
  show ?case by (rule nth_equalityI) (auto simp: spec_Nil nth_Cons' simp del: upt_Suc)
next
  case (snoc p ps)
  then show ?case by (simp add: wildcard_row_spec del: upt_Suc)
qed

section \<open>Display names\<close>

lemma freshSuffix_returns:
  assumes "\<not> taken (desired @ ''-'' @ show_nat (i + k))"
  shows "\<exists>name. freshSuffix taken desired i = Some name \<and> \<not> taken name"
  using assms
proof (induction k arbitrary: i)
  case 0
  then show ?case by (subst freshSuffix.simps) (simp add: Let_def)
next
  case (Suc k)
  then have "\<not> taken (desired @ ''-'' @ show_nat ((i + 1) + k))" by simp
  from Suc.IH [OF this] show ?case by (subst freshSuffix.simps) (auto simp: Let_def)
qed

lemma free_display_name:
  assumes "TrimSpace s \<noteq> []"
  shows "\<exists>k. \<not> displayNameExistsInNetworkLocked r (TrimSpace s @ ''-'' @ show_nat (1 + k)) m"
proof (rule ccontr)
  let ?c = "\<lambda>k. TrimSpace s @ ''-'' @ show_nat (1 + k)"
  assume "\<not> ?thesis"
  then have "ToLower (?c k) \<in> ToLower ` TrimSpace ` ad_DisplayName ` set (map snd (um_authedDevices m))" for k
    unfolding displayNameExistsInNetworkLocked_def TrimSpace_suffix_number [OF assms] EqualFold_def
    by (metis (mono_tags, lifting) image_eqI)
  then have "range (\<lambda>k. ToLower (?c k)) \<subseteq> ToLower ` TrimSpace ` ad_DisplayName ` set (map snd (um_authedDevices m))"
    by blast
  then have "finite (range (\<lambda>k. ToLower (?c k)))" by (rule finite_subset) simp
  moreover have "inj (\<lambda>k. ToLower (?c k))"
    by (rule injI) (simp add: ToLower_digits [unfolded ToLower_def] ToLower_def)
  ultimately show False using finite_imageD infinite_UNIV_nat by blast
qed

lemma uniqueDisplayName_returns:
  "\<exists>name. uniqueDisplayNameLocked r desired m = Some name \<and>
     \<not> displayNameExistsInNetworkLocked r name m"
proof -
  define s where "s = (if TrimSpace desired = [] then ad_DeviceID r else desired)"
  have s: "(if TrimSpace desired = [] then TrimSpace (ad_DeviceID r) else TrimSpace desired) = TrimSpace s"
    by (simp add: s_def)
  show ?thesis
  proof (cases "TrimSpace s = [] \<or> \<not> displayNameExistsInNetworkLocked r (TrimSpace s) m")
    case True
    then show ?thesis
      unfolding uniqueDisplayNameLocked_def Let_def s
      by (auto simp: displayNameExistsInNetworkLocked_def)
  next
    case False
    then obtain k where "\<not> displayNameExistsInNetworkLocked r (TrimSpace s @ ''-'' @ show_nat (1 + k)) m"
      using free_display_name by blast
    from freshSuffix_returns [where taken = "\<lambda>c. displayNameExistsInNetworkLocked r c m", OF this]
    show ?thesis using False unfolding uniqueDisplayNameLocked_def Let_def s by simp
  qed
qed

text \<open>No two devices of a network have names that differ only in case and surrounding space.\<close>

definition names_unique :: "UserManager \<Rightarrow> bool" where
  "names_unique m \<longleftrightarrow> (\<forall>k1 r1 k2 r2. gget (um_authedDevices m) k1 = Some r1 \<longrightarrow>
     gget (um_authedDevices m) k2 = Some r2 \<longrightarrow> k1 \<noteq> k2 \<longrightarrow>
     deviceNetworkKey r1 = deviceNetworkKey r2 \<longrightarrow> TrimSpace (ad_DisplayName r1) \<noteq> [] \<longrightarrow>
     \<not> EqualFold (TrimSpace (ad_DisplayName r1)) (TrimSpace (ad_DisplayName r2)))"

lemma names_uniqueD:
  "names_unique m \<Longrightarrow> gget (um_authedDevices m) k1 = Some r1 \<Longrightarrow> gget (um_authedDevices m) k2 = Some r2 \<Longrightarrow>
   k1 \<noteq> k2 \<Longrightarrow> deviceNetworkKey r1 = deviceNetworkKey r2 \<Longrightarrow> TrimSpace (ad_DisplayName r1) \<noteq> [] \<Longrightarrow>
   \<not> EqualFold (TrimSpace (ad_DisplayName r1)) (TrimSpace (ad_DisplayName r2))"
  unfolding names_unique_def by blast

lemma EqualFold_Nil: "EqualFold a [] \<longleftrightarrow> a = []" "EqualFold [] a \<longleftrightarrow> a = []"
  by (auto simp: EqualFold_def ToLower_def)

lemma names_unique_set:
  assumes u: "names_unique m" and r: "gget (um_authedDevices m) key = Some r"
    and free: "\<And>k e. gget (um_authedDevices m) k = Some e \<Longrightarrow> k \<noteq> key \<Longrightarrow>
      deviceNetworkKey e = deviceNetworkKey r \<Longrightarrow> TrimSpace name \<noteq> [] \<Longrightarrow>
      \<not> EqualFold (TrimSpace (ad_DisplayName e)) (TrimSpace name)"
  shows "names_unique (m\<lparr>um_authedDevices := gput key (r\<lparr>ad_DisplayName := name\<rparr>) (um_authedDevices m)\<rparr>)"
proof -
  have same: "deviceNetworkKey (r\<lparr>ad_DisplayName := name\<rparr>) = deviceNetworkKey r"
    by (simp add: deviceNetworkKey_def)
  show ?thesis
    unfolding names_unique_def
  proof (intro allI impI)
    fix k1 r1 k2 r2
    let ?ds = "um_authedDevices (m\<lparr>um_authedDevices := gput key (r\<lparr>ad_DisplayName := name\<rparr>) (um_authedDevices m)\<rparr>)"
    assume a: "gget ?ds k1 = Some r1" "gget ?ds k2 = Some r2" "k1 \<noteq> k2"
      "deviceNetworkKey r1 = deviceNetworkKey r2" "TrimSpace (ad_DisplayName r1) \<noteq> []"
    consider "k1 = key" "k2 \<noteq> key" | "k2 = key" "k1 \<noteq> key" | "k1 \<noteq> key" "k2 \<noteq> key" using a(3) by blast
    then show "\<not> EqualFold (TrimSpace (ad_DisplayName r1)) (TrimSpace (ad_DisplayName r2))"
    proof cases
      case 1
      then have r1: "r1 = r\<lparr>ad_DisplayName := name\<rparr>" and r2: "gget (um_authedDevices m) k2 = Some r2"
        using a by auto
      have "\<not> EqualFold (TrimSpace (ad_DisplayName r2)) (TrimSpace name)"
        by (rule free [OF r2 1(2)]) (use a r1 same in simp_all)
      then show ?thesis using r1 EqualFold_sym by auto
    next
      case 2
      then have r2: "r2 = r\<lparr>ad_DisplayName := name\<rparr>" and r1: "gget (um_authedDevices m) k1 = Some r1"
        using a by auto
      have "TrimSpace name \<noteq> [] \<Longrightarrow> \<not> EqualFold (TrimSpace (ad_DisplayName r1)) (TrimSpace name)"
        by (rule free [OF r1 2(2)]) (use a r2 same in simp_all)
      then show ?thesis using r2 a(5) by (cases "TrimSpace name = []") (simp_all add: EqualFold_Nil)
    next
      case 3
      then show ?thesis using names_uniqueD [OF u] a by auto
    qed
  qed
qed

text \<open>A name that the check of the manager lets pass is free in the sense above.\<close>

lemma name_free:
  assumes wf: "um_wf m" and r: "gget (um_authedDevices m) key = Some r"
    and no: "\<not> displayNameExistsInNetworkLocked r name m"
    and e: "gget (um_authedDevices m) k = Some e" "k \<noteq> key" "deviceNetworkKey e = deviceNetworkKey r"
      "TrimSpace name \<noteq> []"
  shows "\<not> EqualFold (TrimSpace (ad_DisplayName e)) (TrimSpace name)"
proof
  assume eq: "EqualFold (TrimSpace (ad_DisplayName e)) (TrimSpace name)"
  have "e \<in> set (map snd (um_authedDevices m))" using gget_Some_in [OF e(1)] by force
  moreover have "\<not> (ad_GroupName e = ad_GroupName r \<and> ad_DeviceID e = ad_DeviceID r)"
    using um_wf_device_record [OF wf e(1)] um_wf_device_record [OF wf r] e(2) by auto
  ultimately show False using no eq e(3,4) by (auto simp: displayNameExistsInNetworkLocked_def)
qed

lemma names_Rename:
  assumes wf: "um_wf m" and u: "names_unique m"
  shows "names_unique (snd (RenameAuthedDevice store userID g d n m))"
proof -
  have "names_unique (m\<lparr>um_authedDevices := gput k ((the (gget (um_authedDevices m) k))\<lparr>ad_DisplayName := x\<rparr>)
      (um_authedDevices m)\<rparr>)"
    if mt: "matchingDevices a b c (um_authedDevices m) = k # others"
      and no: "\<not> displayNameExistsInNetworkLocked (the (gget (um_authedDevices m) k)) x m" for a b c k others x
  proof -
    have "gwf (um_authedDevices m)" using wf by (simp add: um_wf_def)
    from matchingDevices_iff [OF this, of k a b c] mt
    obtain r where r: "gget (um_authedDevices m) k = Some r" by auto
    have "names_unique (m\<lparr>um_authedDevices := gput k (r\<lparr>ad_DisplayName := x\<rparr>) (um_authedDevices m)\<rparr>)"
      by (rule names_unique_set [OF u r], rule name_free [OF wf r]) (use no r in simp_all)
    then show ?thesis using r by simp
  qed
  then show ?thesis using u by (simp add: RenameAuthedDevice_def Let_def split: sum.split list.split)
qed

lemma names_Assign:
  assumes wf: "um_wf m" and u: "names_unique m"
  shows "\<exists>r m'. AssignAuthedDeviceDisplayName store g d n m = Some (r, m') \<and> names_unique m'"
proof (cases "gget (um_authedDevices m) (authedDeviceKey g d)")
  case None
  then show ?thesis using u by (auto simp: AssignAuthedDeviceDisplayName_def Let_def split: sum.split)
next
  case (Some r)
  have "\<exists>name. uniqueDisplayNameLocked r x m = Some name \<and>
      names_unique (m\<lparr>um_authedDevices :=
        gput (authedDeviceKey g d) (r\<lparr>ad_DisplayName := name\<rparr>) (um_authedDevices m)\<rparr>)" for x
  proof -
    obtain name where n: "uniqueDisplayNameLocked r x m = Some name"
        "\<not> displayNameExistsInNetworkLocked r name m"
      using uniqueDisplayName_returns by blast
    have "names_unique (m\<lparr>um_authedDevices :=
        gput (authedDeviceKey g d) (r\<lparr>ad_DisplayName := name\<rparr>) (um_authedDevices m)\<rparr>)"
      by (rule names_unique_set [OF u Some], rule name_free [OF wf Some]) (use n in simp_all)
    with n show ?thesis by blast
  qed
  note step = this
  show ?thesis
  proof (cases "normalizeRenameName n")
    case (Inl e)
    then show ?thesis using u by (simp add: AssignAuthedDeviceDisplayName_def)
  next
    case (Inr x)
    obtain name where n: "uniqueDisplayNameLocked r x m = Some name"
      "names_unique (m\<lparr>um_authedDevices :=
        gput (authedDeviceKey g d) (r\<lparr>ad_DisplayName := name\<rparr>) (um_authedDevices m)\<rparr>)"
      using step by blast
    let ?s = "saved store (r\<lparr>ad_DisplayName := name\<rparr>) (m\<lparr>um_authedDevices :=
        gput (authedDeviceKey g d) (r\<lparr>ad_DisplayName := name\<rparr>) (um_authedDevices m)\<rparr>)"
    have "names_unique (snd ?s)" using n(2) by simp
    then show ?thesis using Inr u Some n(1)
      by (cases "TrimSpace (ad_DisplayName r) = []"; cases ?s)
        (simp_all add: AssignAuthedDeviceDisplayName_def Let_def)
  qed
qed

lemma names_subset:
  assumes "names_unique m"
    and "\<And>k r. gget ds k = Some r \<Longrightarrow> \<exists>r0. gget (um_authedDevices m) k = Some r0 \<and>
      ad_DisplayName r = ad_DisplayName r0 \<and> deviceNetworkKey r = deviceNetworkKey r0"
  shows "names_unique (m\<lparr>um_authedDevices := ds\<rparr>)"
  unfolding names_unique_def
proof (intro allI impI)
  fix k1 r1 k2 r2
  assume a: "gget (um_authedDevices (m\<lparr>um_authedDevices := ds\<rparr>)) k1 = Some r1"
    "gget (um_authedDevices (m\<lparr>um_authedDevices := ds\<rparr>)) k2 = Some r2" "k1 \<noteq> k2"
    "deviceNetworkKey r1 = deviceNetworkKey r2" "TrimSpace (ad_DisplayName r1) \<noteq> []"
  obtain s1 s2 where "gget (um_authedDevices m) k1 = Some s1" "ad_DisplayName r1 = ad_DisplayName s1"
      "deviceNetworkKey r1 = deviceNetworkKey s1" "gget (um_authedDevices m) k2 = Some s2"
      "ad_DisplayName r2 = ad_DisplayName s2" "deviceNetworkKey r2 = deviceNetworkKey s2"
    using assms(2) [of k1 r1] assms(2) [of k2 r2] a(1,2) by auto
  then show "\<not> EqualFold (TrimSpace (ad_DisplayName r1)) (TrimSpace (ad_DisplayName r2))"
    using names_uniqueD [OF assms(1)] a(3-5) by metis
qed

lemma names_Delete:
  assumes "um_wf m" and u: "names_unique m"
  shows "names_unique (snd (DeleteAuthedDevice store userID g d m))"
proof -
  have g: "gwf (um_authedDevices m)" using assms(1) by (simp add: um_wf_def)
  have "names_unique (m\<lparr>um_authedDevices := gfilter f (um_authedDevices m)\<rparr>)" for f
    by (rule names_subset [OF u]) (use g in \<open>auto simp: gget_gfilter split: option.splits if_splits\<close>)
  then show ?thesis using u by (simp add: DeleteAuthedDevice_def Let_def split: sum.split)
qed

lemma names_Extend:
  assumes u: "names_unique m"
  shows "names_unique (snd (ExtendAuthedDeviceExpiry now store userID g d ttl all m))"
proof -
  have "names_unique (m\<lparr>um_authedDevices :=
      gmapv (\<lambda>k r. if k \<in> A then extendExpiry now ttl r else r) (um_authedDevices m)\<rparr>)" for A
    by (rule names_subset [OF u]) (auto simp: deviceNetworkKey_def)
  then show ?thesis using u by (simp add: ExtendAuthedDeviceExpiry_def Let_def split: sum.split)
qed

section \<open>Persistence\<close>

lemma fold_policies_idle:
  assumes "\<And>k u. (k, u) \<in> set us \<Longrightarrow> gget ps k \<noteq> None"
  shows "fold (\<lambda>(userID, _) policies. if gget policies userID = None
      then gput userID (generateBasicPolicyLocked now userID) policies else policies) us ps = ps"
  using assms
proof (induction us)
  case (Cons x us)
  obtain a b where x: "x = (a, b)" by (cases x)
  have "gget ps a \<noteq> None" by (rule Cons.prems [of a b]) (simp add: x)
  moreover have "(k, u) \<in> set us \<Longrightarrow> gget ps k \<noteq> None" for k u using Cons.prems [of k u] by simp
  ultimately show ?case using Cons.IH x by (simp del: not_None_eq)
qed simp

definition trimmed_devices :: "UserManager \<Rightarrow> bool" where
  "trimmed_devices m \<longleftrightarrow> (\<forall>k r. gget (um_authedDevices m) k = Some r \<longrightarrow>
     TrimSpace (ad_GroupName r) = ad_GroupName r \<and> TrimSpace (ad_DeviceID r) = ad_DeviceID r)"

lemma rekeyed_trimmed:
  assumes "um_wf m" and "trimmed_devices m" and "gget (um_authedDevices m) k = Some r"
  shows "rekeyed k r = k"
  using um_wf_device_record [OF assms(1,3)] assms(2,3) by (simp add: rekeyed_def trimmed_devices_def)

lemma clone_trimmed:
  assumes "um_wf m" and "trimmed_devices m"
  shows "gget (cloneAuthedDevices (um_authedDevices m)) k = gget (um_authedDevices m) k"
proof -
  have g: "gwf (um_authedDevices m)" using assms(1) by (simp add: um_wf_def)
  show ?thesis
    by (rule gget_cloneAuthedDevices [OF g]) (simp add: rekeyed_trimmed [OF assms] gget_iff [OF g])
qed

lemma clone_twice:
  assumes "um_wf m" and "trimmed_devices m"
  shows "gget (cloneAuthedDevices (cloneAuthedDevices (um_authedDevices m))) k = gget (um_authedDevices m) k"
proof -
  note c = clone_trimmed [OF assms]
  have "gget (cloneAuthedDevices (cloneAuthedDevices (um_authedDevices m))) k =
      gget (cloneAuthedDevices (um_authedDevices m)) k"
    by (rule gget_cloneAuthedDevices [OF gwf_cloneAuthedDevices])
      (simp add: rekeyed_trimmed [OF assms] gget_iff [OF gwf_cloneAuthedDevices, symmetric] c)
  then show ?thesis by (simp add: c)
qed

section \<open>Properties\<close>

text \<open>
  C38: the pattern matcher of the user list is exact. The table that \<^verbatim>\<open>wildcardMatch\<close> fills decides
  whether the value splits into parts that fit the runes of the pattern one by one.
\<close>

theorem wildcard_exact: "wildcardMatch pattern val \<longleftrightarrow> wildcard_spec (runes pattern) (runes val)"
  by (simp add: wildcardMatch_def wildcard_table)


text \<open>Two users with one device each, both named alike, in two personal networks of a group.\<close>

definition named_device :: "string \<Rightarrow> string \<Rightarrow> UMAuthDevice" where
  "named_device userID dev = \<lparr>ad_UserID = userID, ad_GroupName = ''home.ms.net'', ad_DeviceID = dev,
     ad_DisplayName = ''laptop'', ad_PubKeyHex = [], ad_AuthedAt = 0, ad_AuthExpireAt = 50\<rparr>"

definition sample_named :: UserManager where
  "sample_named = sample_um\<lparr>um_authedDevices :=
     [(''home.ms.net|dev-a'', named_device ''sdl-2'' ''dev-a''),
      (''home.ms.net|dev-b'', named_device ''sdl-1'' ''dev-b'')],
     um_users := um_users sample_um @ [(''sdl-2'', \<lparr>uu_UserID = ''sdl-2'', uu_Name = ''sdl-2'',
        uu_Domain = ''ms.net'', uu_CreatedAt = 0\<rparr>)],
     um_policies := um_policies sample_um @ [(''sdl-2'', generateBasicPolicyLocked 0 ''sdl-2'')]\<rparr>"

lemma sample_keys:
  "deviceNetworkKey (named_device ''sdl-1'' d) = ''personal:sdl-1@home.ms.net''"
  "deviceNetworkKey (named_device ''sdl-2'' d) = ''personal:sdl-2@home.ms.net''"
proof -
  have "id_key (NewNetworkIdentity ''home.ms.net'' ''sdl-1'') = ''personal:sdl-1@home.ms.net''"
    "id_key (NewNetworkIdentity ''home.ms.net'' ''sdl-2'') = ''personal:sdl-2@home.ms.net''" by code_simp+
  then show "deviceNetworkKey (named_device ''sdl-1'' d) = ''personal:sdl-1@home.ms.net''"
    "deviceNetworkKey (named_device ''sdl-2'' d) = ''personal:sdl-2@home.ms.net''"
    by (simp_all add: deviceNetworkKey_def named_device_def)
qed

lemma sample_named_unique: "names_unique sample_named"
  by (simp add: names_unique_def sample_named_def sample_keys)

lemma sample_named_wf: "um_wf sample_named"
proof -
  have "TrimSpace ''ms.net'' = ''ms.net''" by code_simp
  then show ?thesis
    by (simp add: um_wf_def sample_named_def sample_um_def NewUserManager_def gwf_def
        named_device_def authedDeviceKey_def)
qed


text \<open>
  \<^verbatim>\<open>AuthDevice\<close> does not keep display names distinct. A device that moves to another user takes
  its name along, without a check against the devices of the network it arrives in.
\<close>

theorem auth_can_duplicate_name:
  assumes "ValidateDeviceAuth now u g d ticket m = Inr ng" and "key \<noteq> []"
    and "gget (um_authedDevices m) (authedDeviceKey ng d) = Some r"
    and "gget (um_authedDevices m) k = Some e" and "k \<noteq> authedDeviceKey ng d"
    and "deviceNetworkKey e = id_key (NewNetworkIdentity ng u)" and "TrimSpace (ad_DisplayName r) \<noteq> []"
    and "EqualFold (TrimSpace (ad_DisplayName r)) (TrimSpace (ad_DisplayName e))"
  shows "\<not> names_unique (snd (AuthDevice hash now store u g d ticket key m))"
proof
  assume u: "names_unique (snd (AuthDevice hash now store u g d ticket key m))"
  let ?r = "\<lparr>ad_UserID = u, ad_GroupName = ng, ad_DeviceID = d, ad_DisplayName = TrimSpace (ad_DisplayName r),
      ad_PubKeyHex = toPubKeyHex hash key ''ed25519'', ad_AuthedAt = now, ad_AuthExpireAt = now + defaultDeviceAuthTTL\<rparr>"
  let ?m = "snd (AuthDevice hash now store u g d ticket key m)"
  have ds: "um_authedDevices ?m = gput (authedDeviceKey ng d) ?r (um_authedDevices m)"
    using assms(1-3) by (simp add: AuthDevice_def commitDeviceAuth_def Let_def)
  have "\<not> EqualFold (TrimSpace (ad_DisplayName ?r)) (TrimSpace (ad_DisplayName e))"
    by (rule names_uniqueD [OF u, of "authedDeviceKey ng d" _ k])
      (use ds assms(4-7) in \<open>simp_all add: deviceNetworkKey_def\<close>)
  then show False using assms(8) by simp
qed

theorem auth_can_duplicate_name_witness:
  "names_unique sample_named \<and> \<not> names_unique (snd (AuthDevice (\<lambda>b. b) 5 None ''sdl-1'' ''home.ms.net''
     ''dev-a'' ''dtk-1'' [1] sample_named))"
proof -
  have v: "ValidateDeviceAuth 5 ''sdl-1'' ''home.ms.net'' ''dev-a'' ''dtk-1'' sample_named = Inr ''home.ms.net''"
    and t: "TrimSpace ''laptop'' = ''laptop''" by code_simp+
  have "\<not> names_unique (snd (AuthDevice (\<lambda>b. b) 5 None ''sdl-1'' ''home.ms.net'' ''dev-a'' ''dtk-1'' [1] sample_named))"
    by (rule auth_can_duplicate_name [OF v, where r = "named_device ''sdl-2'' ''dev-a''" and
          e = "named_device ''sdl-1'' ''dev-b''" and k = "''home.ms.net|dev-b''"])
      (simp_all add: sample_named_def authedDeviceKey_def sample_keys t,
        simp_all add: named_device_def t, code_simp)
  then show ?thesis using sample_named_unique by simp
qed

text \<open>
  C40: a restart keeps the state. Restoring a snapshot of the manager gives the same counters and the
  same entries in all six maps, provided that no group or device identifier has surrounding space.
\<close>

theorem restart_keeps_state:
  assumes wf: "um_wf m" and tr: "trimmed_devices m"
  shows "let m' = restore now (snapshotLocked m) NewUserManager in
    um_userSeq m' = um_userSeq m \<and> um_enrollmentSeq m' = um_enrollmentSeq m \<and>
    (\<forall>k. gget (um_users m') k = gget (um_users m) k \<and> gget (um_policies m') k = gget (um_policies m) k \<and>
       gget (um_enrollments m') k = gget (um_enrollments m) k \<and>
       gget (um_deviceByPubKey m') k = gget (um_deviceByPubKey m) k \<and>
       gget (um_authedDevices m') k = gget (um_authedDevices m) k \<and>
       gget (um_deviceTickets m') k = gget (um_deviceTickets m) k)"
proof -
  have g: "gwf (um_users m)" "gwf (um_policies m)" "gwf (um_enrollments m)" "gwf (um_deviceByPubKey m)"
      "gwf (um_deviceTickets m)" using wf by (simp_all add: um_wf_def)
  have "gget (um_policies m) k \<noteq> None" if "gget (um_users m) k = Some u" for k u
    using wf that by (simp add: um_wf_def)
  then have "(k, u) \<in> set (cloneMap (cloneMap (um_users m))) \<Longrightarrow>
      gget (cloneMap (cloneMap (um_policies m))) k \<noteq> None" for k u
    using g by (simp add: gget_iff [symmetric] gwf_cloneMap)
  then show ?thesis
    using g clone_twice [OF assms]
    by (simp add: restore_def snapshotLocked_def Let_def fold_policies_idle gwf_cloneMap)
qed

theorem restart_keeps_state_witness:
  "gget (um_authedDevices (restore 9 (snapshotLocked sample_named) NewUserManager)) ''home.ms.net|dev-a'' =
     Some (named_device ''sdl-2'' ''dev-a'')"
proof -
  have "TrimSpace ''home.ms.net'' = ''home.ms.net''" "TrimSpace ''dev-a'' = ''dev-a''"
    "TrimSpace ''dev-b'' = ''dev-b''" by code_simp+
  then have "trimmed_devices sample_named"
    by (simp add: trimmed_devices_def sample_named_def named_device_def)
  from restart_keeps_state [OF sample_named_wf this, of 9] show ?thesis
    by (simp add: Let_def) (simp add: sample_named_def)
qed

end
