(* ===== verification/Std_Net.thy ===== *)
theory Std_Net
  imports Net_Addr
begin

text \<open>
  What the program uses of the Go packages \<^verbatim>\<open>net\<close> and \<^verbatim>\<open>strconv\<close> to read addresses:
  \<^verbatim>\<open>net.SplitHostPort\<close>, \<^verbatim>\<open>net.ParseIP\<close> for both families, \<^verbatim>\<open>IP.String\<close> and \<^verbatim>\<open>strconv.Atoi\<close>.
\<close>

section \<open>Hosts and ports\<close>

fun LastIndexByte :: "char \<Rightarrow> string \<Rightarrow> nat option" where
  "LastIndexByte c [] = None"
| "LastIndexByte c (x # s) =
     (case LastIndexByte c s of
        Some i \<Rightarrow> Some (Suc i) | None \<Rightarrow> if x = c then Some 0 else None)"

fun IndexByte :: "char \<Rightarrow> string \<Rightarrow> nat option" where
  "IndexByte c [] = None"
| "IndexByte c (x # s) = (if x = c then Some 0 else map_option Suc (IndexByte c s))"

text \<open>
  \<^verbatim>\<open>net.SplitHostPort\<close>: the port is after the last colon; a host in brackets ends just before it.
\<close>

definition SplitHostPort :: "string \<Rightarrow> (string \<times> string) option" where
  "SplitHostPort hostport =
     (case LastIndexByte (CHR '':'') hostport of
        None \<Rightarrow> None
      | Some i \<Rightarrow>
          (let port = drop (Suc i) hostport in
           if take 1 hostport = ''[''
           then (case IndexByte (CHR '']'') hostport of
                   None \<Rightarrow> None
                 | Some e \<Rightarrow>
                     if Suc e \<noteq> i \<or> CHR ''['' \<in> set (drop 1 hostport) \<or> CHR '']'' \<in> set (drop (Suc e) hostport)
                     then None else Some (drop 1 (take e hostport), port))
           else if CHR '':'' \<in> set (take i hostport) \<or> CHR ''['' \<in> set hostport \<or> CHR '']'' \<in> set hostport
           then None else Some (take i hostport, port)))"

text \<open>The error of \<^verbatim>\<open>net.SplitHostPort\<close> for a text that it does not split.\<close>

definition SplitHostPortError :: "string \<Rightarrow> string" where
  "SplitHostPortError hostport =
     ''address '' @ hostport @ '': '' @
     (case LastIndexByte (CHR '':'') hostport of
        None \<Rightarrow> ''missing port in address''
      | Some i \<Rightarrow>
          if take 1 hostport = ''[''
          then (case IndexByte (CHR '']'') hostport of
                  None \<Rightarrow> ''missing ']' in address''
                | Some e \<Rightarrow>
                    if Suc e = i
                    then (if CHR ''['' \<in> set (drop 1 hostport) then ''unexpected '[' in address'' else ''unexpected ']' in address'')
                    else if Suc e < length hostport \<and> hostport ! Suc e = CHR '':'' then ''too many colons in address''
                    else ''missing port in address'')
          else if CHR '':'' \<in> set (take i hostport) then ''too many colons in address''
          else if CHR ''['' \<in> set hostport then ''unexpected '[' in address''
          else ''unexpected ']' in address'')"

definition Atoi :: "string \<Rightarrow> int option" where
  "Atoi s =
     (let (neg, ds) = (case s of c # r \<Rightarrow> if c = CHR ''-'' then (True, r)
                                          else if c = CHR ''+'' then (False, r) else (False, s)
                       | [] \<Rightarrow> (False, []));
          n = int (read_nat ds)
      in if ds = [] \<or> \<not> list_all is_digit ds \<or> n > (if neg then 2 ^ 63 else 2 ^ 63 - 1) then None
         else Some (if neg then - n else n))"

section \<open>Addresses\<close>

definition hex_val :: "char \<Rightarrow> nat option" where
  "hex_val c =
     (if is_digit c then Some (of_char c - 48)
      else if CHR ''a'' \<le> c \<and> c \<le> CHR ''f'' then Some (of_char c - 87)
      else if CHR ''A'' \<le> c \<and> c \<le> CHR ''F'' then Some (of_char c - 55)
      else None)"

definition read_hex :: "string \<Rightarrow> nat" where
  "read_hex s = foldl (\<lambda>acc c. acc * 16 + the (hex_val c)) 0 s"

definition hex16 :: "nat \<Rightarrow> bytes" where
  "hex16 v = [of_nat (v div 256), of_nat (v mod 256)]"

text \<open>
  The loop of \<^verbatim>\<open>parseIPv6\<close>: \<open>n\<close> fields are still to come, \<open>ip\<close> is what is filled and \<open>ell\<close> the place of
  the ellipsis. The result also has what is left of the string.
\<close>

fun parse_fields :: "nat \<Rightarrow> bytes \<Rightarrow> nat option \<Rightarrow> string \<Rightarrow> (bytes \<times> nat option \<times> string) option" where
  "parse_fields 0 ip ell s = Some (ip, ell, s)"
| "parse_fields (Suc n) ip ell s =
     (let ds = takeWhile (\<lambda>c. hex_val c \<noteq> None) s; rest = dropWhile (\<lambda>c. hex_val c \<noteq> None) s in
      if ds = [] \<or> length ds > 4 then None
      else if take 1 rest = ''.''
      then (if (ell = None \<and> length ip \<noteq> 12) \<or> length ip + 4 > 16 then None
            else case parseIPv4 s of None \<Rightarrow> None | Some v4 \<Rightarrow> Some (ip @ drop 12 v4, ell, []))
      else
        (let ip' = ip @ hex16 (read_hex ds) in
         case rest of
           [] \<Rightarrow> Some (ip', ell, [])
         | c # s1 \<Rightarrow>
             if c \<noteq> CHR '':'' \<or> s1 = [] then None
             else if hd s1 = CHR '':''
             then (if ell \<noteq> None then None
                   else if tl s1 = [] then Some (ip', Some (length ip'), [])
                   else parse_fields n ip' (Some (length ip')) (tl s1))
             else parse_fields n ip' ell s1))"

definition parseIPv6 :: "string \<Rightarrow> netIP option" where
  "parseIPv6 s =
     (if s = ''::'' then Some (replicate 16 0)
      else case (if take 2 s = ''::'' then parse_fields 8 [] (Some 0) (drop 2 s) else parse_fields 8 [] None s) of
        None \<Rightarrow> None
      | Some (ip, ell, rest) \<Rightarrow>
          if rest \<noteq> [] then None
          else if length ip < 16
          then map_option (\<lambda>e. take e ip @ replicate (16 - length ip) 0 @ drop e ip) ell
          else if ell \<noteq> None then None else Some ip)"

text \<open>\<^verbatim>\<open>net.ParseIP\<close>: the first of the three characters decides; a zone is never accepted.\<close>

definition ParseIP :: "string \<Rightarrow> netIP option" where
  "ParseIP s =
     (if CHR ''%'' \<in> set s then None
      else case find (\<lambda>c. c = CHR ''.'' \<or> c = CHR '':'') s of
        None \<Rightarrow> None
      | Some c \<Rightarrow> if c = CHR ''.'' then parseIPv4 s else parseIPv6 s)"

definition ParseIP_To4 :: "string \<Rightarrow> netIP option" where
  "ParseIP_To4 s = Option.bind (ParseIP s) To4"

lemma ParseIP_To4_length: "ParseIP_To4 s = Some b \<Longrightarrow> length b = 4"
  by (auto simp: ParseIP_To4_def bind_eq_Some_conv dest: To4_length)

section \<open>Printing\<close>

fun show_hex :: "nat \<Rightarrow> string" where
  "show_hex n = (if n < 16 then [hex_digit n] else show_hex (n div 16) @ [hex_digit (n mod 16)])"

declare show_hex.simps [simp del]

definition groups16 :: "bytes \<Rightarrow> nat list" where
  "groups16 ip = map (\<lambda>i. 256 * unat (ip ! (2 * i)) + unat (ip ! (2 * i + 1))) [0..<8]"

text \<open>The first of the longest runs of at least two zero groups: its start and its length.\<close>

definition zeroRun :: "nat list \<Rightarrow> nat \<times> nat" where
  "zeroRun gs =
     foldl (\<lambda>(s, l) i. let r = length (takeWhile (\<lambda>g. g = 0) (drop i gs)) in
              if r \<ge> 2 \<and> r > l then (i, r) else (s, l)) (255, 0) [0..<8]"

definition show_IPv6 :: "bytes \<Rightarrow> string" where
  "show_IPv6 ip =
     (let gs = groups16 ip; (s, l) = zeroRun gs; join = (\<lambda>xs. JoinStrings (map show_hex xs) '':'') in
      if l = 0 then join gs else join (take s gs) @ ''::'' @ join (drop (s + l) gs))"

definition IP_String :: "netIP \<Rightarrow> string" where
  "IP_String ip =
     (if ip = [] then ''<nil>''
      else if length ip \<noteq> 4 \<and> length ip \<noteq> 16 then CHR ''?'' # hex_encode ip
      else case To4 ip of
        Some b \<Rightarrow> dotted (b ! 0) (b ! 1) (b ! 2) (b ! 3)
      | None \<Rightarrow> show_IPv6 ip)"

end
