(* ===== verification/Packet.thy ===== *)
theory Packet
  imports Std_Net
begin

unbundle bit_operations_syntax

text \<open>
  The wire format: \<^verbatim>\<open>protocol/packet.go\<close> (header, \<^verbatim>\<open>Marshal\<close>, \<^verbatim>\<open>Unmarshal\<close>),
  \<^verbatim>\<open>protocol/control_packet.go\<close> (ping and address payloads), and the length-prefixed framing of
  control sessions in \<^verbatim>\<open>handlers/quic.go\<close>. The enumerations of the source are unsigned bytes,
  and so are they here.
\<close>

section \<open>Header fields\<close>

record Packet =
  pk_Ver :: u8
  pk_Proto :: u8
  pk_AppProto :: u8
  pk_SourceTTL :: u8
  pk_TTL :: u8
  pk_SrcIP :: netIP
  pk_DstIP :: netIP
  pk_Payload :: bytes
  pk_RouteNetworkKey :: string

definition PacketHeaderSize :: nat where "PacketHeaderSize = 12"
definition MAX_TTL :: u8 where "MAX_TTL = 0x0F"

definition V3 :: u8 where "V3 = 3"
definition ProtocolService :: u8 where "ProtocolService = 1"
definition ProtocolError :: u8 where "ProtocolError = 2"
definition ProtocolControl :: u8 where "ProtocolControl = 3"

definition VersionFromUint8 :: "u8 \<Rightarrow> u8" where
  "VersionFromUint8 val = (if val = 2 then 2 else if val = 3 then 3 else 255)"

definition ProtocolFromUint8 :: "u8 \<Rightarrow> u8" where
  "ProtocolFromUint8 val =
     (if val = 1 then 1 else if val = 2 then 2 else if val = 3 then 3
      else if val = 4 then 4 else if val = 5 then 5 else 255)"

definition AppProtoRegistrationRequest :: u8 where "AppProtoRegistrationRequest = 1"
definition AppProtoRegistrationResponse :: u8 where "AppProtoRegistrationResponse = 2"
definition AppProtoPullDeviceList :: u8 where "AppProtoPullDeviceList = 3"
definition AppProtoPushDeviceList :: u8 where "AppProtoPushDeviceList = 4"
definition AppProtoHandshakeRequest :: u8 where "AppProtoHandshakeRequest = 5"
definition AppProtoHandshakeResponse :: u8 where "AppProtoHandshakeResponse = 6"
definition AppProtoClientStatusInfo :: u8 where "AppProtoClientStatusInfo = 9"
definition AppProtoPunchRequest :: u8 where "AppProtoPunchRequest = 10"
definition AppProtoPunchAck :: u8 where "AppProtoPunchAck = 11"
definition AppProtoPunchStart :: u8 where "AppProtoPunchStart = 12"
definition AppProtoPunchResult :: u8 where "AppProtoPunchResult = 13"
definition AppProtoDeviceAuthRequest :: u8 where "AppProtoDeviceAuthRequest = 15"
definition AppProtoDeviceAuthAck :: u8 where "AppProtoDeviceAuthAck = 16"
definition AppProtoGatewayReportRequest :: u8 where "AppProtoGatewayReportRequest = 17"
definition AppProtoGatewayReportAck :: u8 where "AppProtoGatewayReportAck = 18"
definition AppProtoGatewayConnectHello :: u8 where "AppProtoGatewayConnectHello = 19"
definition AppProtoGatewayConnectAck :: u8 where "AppProtoGatewayConnectAck = 20"
definition AppProtoRefreshGatewayGrantRequest :: u8 where "AppProtoRefreshGatewayGrantRequest = 21"
definition AppProtoRefreshGatewayGrantResponse :: u8 where
  "AppProtoRefreshGatewayGrantResponse = 22"
definition AppProtoDeviceAuthChallenge :: u8 where "AppProtoDeviceAuthChallenge = 23"
definition AppProtoDeviceAuthProof :: u8 where "AppProtoDeviceAuthProof = 24"
definition AppProtoDNSQueryRequest :: u8 where "AppProtoDNSQueryRequest = 25"
definition AppProtoDNSQueryResponse :: u8 where "AppProtoDNSQueryResponse = 26"
definition AppProtoDeviceRenameRequest :: u8 where "AppProtoDeviceRenameRequest = 27"
definition AppProtoDeviceRenameResponse :: u8 where "AppProtoDeviceRenameResponse = 28"
definition AppProtoDebugCollectRequest :: u8 where "AppProtoDebugCollectRequest = 29"
definition AppProtoDebugCollectResponse :: u8 where "AppProtoDebugCollectResponse = 30"
definition AppProtoDebugWatchStartRequest :: u8 where "AppProtoDebugWatchStartRequest = 31"
definition AppProtoDebugWatchStartResponse :: u8 where "AppProtoDebugWatchStartResponse = 32"
definition AppProtoDebugWatchStopRequest :: u8 where "AppProtoDebugWatchStopRequest = 33"
definition AppProtoDebugWatchStopResponse :: u8 where "AppProtoDebugWatchStopResponse = 34"
definition AppProtoDebugWatchEvent :: u8 where "AppProtoDebugWatchEvent = 35"
definition AppProtoUnknown :: u8 where "AppProtoUnknown = 255"

text \<open>The values the switch of \<^verbatim>\<open>AppProtocolFromUint8\<close> lists; 7, 8 and 14 are not among them.\<close>

definition app_protocols :: "u8 list" where
  "app_protocols =
     [1, 2, 3, 4, 5, 6, 9, 10, 11, 12, 13, 15, 16, 17, 18, 19, 20, 21, 22, 23, 24, 25, 26, 27,
      28, 29, 30, 31, 32, 33, 34, 35]"

definition AppProtocolFromUint8 :: "u8 \<Rightarrow> u8" where
  "AppProtocolFromUint8 val = (if val \<in> set app_protocols then val else 255)"

definition NewPacket ::
    "u8 \<Rightarrow> u8 \<Rightarrow> u8 \<Rightarrow> u8 \<Rightarrow> u8 \<Rightarrow> netIP \<Rightarrow> netIP \<Rightarrow> bytes \<Rightarrow> Packet" where
  "NewPacket ver proto appProto sourceTTL ttl srcIP dstIP payload =
     \<lparr>pk_Ver = VersionFromUint8 ver, pk_Proto = ProtocolFromUint8 proto,
      pk_AppProto = AppProtocolFromUint8 appProto, pk_SourceTTL = sourceTTL, pk_TTL = ttl,
      pk_SrcIP = (case To4 srcIP of None \<Rightarrow> [] | Some ip \<Rightarrow> ip),
      pk_DstIP = (case To4 dstIP of None \<Rightarrow> [] | Some ip \<Rightarrow> ip),
      pk_Payload = payload, pk_RouteNetworkKey = []\<rparr>"

section \<open>Marshal and Unmarshal\<close>

text \<open>\<^verbatim>\<open>copy(buf[i:i+4], ip.To4())\<close> into a zeroed buffer: a nil address leaves zeros.\<close>

definition ip_field :: "netIP \<Rightarrow> bytes" where
  "ip_field ip = (case To4 ip of None \<Rightarrow> [0, 0, 0, 0] | Some b \<Rightarrow> b)"

definition ttl_byte :: "u8 \<Rightarrow> u8 \<Rightarrow> u8" where
  "ttl_byte sourceTTL ttl = push_bit 4 (sourceTTL AND 0x0F) OR (ttl AND 0x0F)"

definition Marshal :: "Packet \<Rightarrow> bytes" where
  "Marshal p =
     [V3 AND 0x0F, pk_Proto p, pk_AppProto p,
      ttl_byte (pk_SourceTTL p) (pk_TTL p)]
     @ ip_field (pk_SrcIP p) @ ip_field (pk_DstIP p) @ pk_Payload p"

definition Unmarshal :: "bytes \<Rightarrow> Packet option" where
  "Unmarshal data =
     (case data of
        b0 # b1 # b2 # b3 # s0 # s1 # s2 # s3 # d0 # d1 # d2 # d3 # payload \<Rightarrow>
          Some \<lparr>pk_Ver = VersionFromUint8 (b0 AND 0x0F), pk_Proto = ProtocolFromUint8 b1,
                pk_AppProto = AppProtocolFromUint8 b2,
                pk_SourceTTL = drop_bit 4 b3 AND 0x0F, pk_TTL = b3 AND 0x0F,
                pk_SrcIP = net_IPv4 s0 s1 s2 s3, pk_DstIP = net_IPv4 d0 d1 d2 d3,
                pk_Payload = payload, pk_RouteNetworkKey = []\<rparr>
      | _ \<Rightarrow> None)"

text \<open>
  A packet the code itself can have built: known protocol numbers, four-bit TTLs and IPv4
  addresses. \<open>wire_form\<close> is what survives the wire: version 3, the addresses in 16-byte form, and
  no routing key, which is local.
\<close>

definition packet_ok :: "Packet \<Rightarrow> bool" where
  "packet_ok p \<longleftrightarrow> ProtocolFromUint8 (pk_Proto p) = pk_Proto p
     \<and> AppProtocolFromUint8 (pk_AppProto p) = pk_AppProto p
     \<and> pk_SourceTTL p \<le> MAX_TTL \<and> pk_TTL p \<le> MAX_TTL
     \<and> To4 (pk_SrcIP p) \<noteq> None \<and> To4 (pk_DstIP p) \<noteq> None"

definition wire_form :: "Packet \<Rightarrow> Packet" where
  "wire_form p = p\<lparr>pk_Ver := V3,
     pk_SrcIP := v4InV6Prefix @ ip_field (pk_SrcIP p),
     pk_DstIP := v4InV6Prefix @ ip_field (pk_DstIP p), pk_RouteNetworkKey := []\<rparr>"

section \<open>Control payloads\<close>

definition ControlPing :: u8 where "ControlPing = 1"
definition ControlPong :: u8 where "ControlPong = 2"
definition ControlAddrRequest :: u8 where "ControlAddrRequest = 5"
definition ControlAddrResponse :: u8 where "ControlAddrResponse = 6"

definition ParsePingPayload :: "bytes \<Rightarrow> (u16 \<times> u16) result" where
  "ParsePingPayload payload =
     (case payload of
        a # b # c # d # _ \<Rightarrow> Inr (of_be16 a b, of_be16 c d)
      | _ \<Rightarrow> Inl (''invalid ping payload length: '' @ show_nat (length payload)))"

definition BuildPingPayload :: "u16 \<Rightarrow> u16 \<Rightarrow> bytes" where
  "BuildPingPayload time epoch = be16 time @ be16 epoch"

definition ParseAddrPayload :: "bytes \<Rightarrow> (netIP \<times> u16) result" where
  "ParseAddrPayload payload =
     (case payload of
        a # b # c # d # e # f # _ \<Rightarrow> Inr ([a, b, c, d], of_be16 e f)
      | _ \<Rightarrow> Inl (''invalid addr payload length: '' @ show_nat (length payload)))"

text \<open>
  The payload that tells a client its own address: an IPv4 address, or zeros for another one, and the port. \<open>quote\<close> is
  the verb \<^verbatim>\<open>%q\<close> of the errors.
\<close>

definition BuildAddrPayloadByAddr :: "(string \<Rightarrow> string) \<Rightarrow> string \<Rightarrow> bytes result" where
  "BuildAddrPayloadByAddr quote remoteAddr =
     (case SplitHostPort remoteAddr of
        None \<Rightarrow> Inl (''failed to parse remote addr: '' @ SplitHostPortError remoteAddr)
      | Some (host, portStr) \<Rightarrow>
          (case Atoi portStr of
             None \<Rightarrow> Inl (''invalid remote port: '' @ quote portStr)
           | Some port \<Rightarrow>
               if port < 0 \<or> port > 65535 then Inl (''invalid remote port: '' @ quote portStr)
               else (case ParseIP host of
                       None \<Rightarrow> Inl (''invalid remote host: '' @ quote host)
                     | Some ip \<Rightarrow>
                         Inr ((case To4 ip of Some ip4 \<Rightarrow> ip4 | None \<Rightarrow> [0, 0, 0, 0]) @ be16 (word_of_int port)))))"

section \<open>Framing of a control session\<close>

definition writeFramed :: "bytes \<Rightarrow> bytes" where
  "writeFramed payload = be32 (of_nat (length payload)) @ payload"

text \<open>
  The inner loop of \<^verbatim>\<open>serveControlSession\<close> over \<^verbatim>\<open>frameBuf\<close>: the frames it takes out, and the bytes it
  leaves for the next read, or \<^term>\<open>None\<close> when a bad length ends the session.
\<close>

definition max_frame :: nat where "max_frame = 2 ^ 20"

function extract_frames :: "bytes \<Rightarrow> bytes list \<times> bytes option" where
  "extract_frames frameBuf =
     (case frameBuf of
        a # b # c # d # rest \<Rightarrow>
          (let frameLen = unat (of_be32 a b c d) in
           if frameLen = 0 \<or> frameLen > max_frame then ([], None)
           else if length rest < frameLen then ([], Some frameBuf)
           else (case extract_frames (drop frameLen rest) of
                   (fs, r) \<Rightarrow> (take frameLen rest # fs, r)))
      | _ \<Rightarrow> ([], Some frameBuf))"
  by pat_completeness auto
termination
  by (relation "measure length") auto

declare extract_frames.simps [simp del]

text \<open>The outer loop: each read appends to what the previous one left.\<close>

fun feed :: "bytes list \<times> bytes option \<Rightarrow> bytes list \<Rightarrow> bytes list \<times> bytes option" where
  "feed st [] = st"
| "feed (fs, None) (chunk # chunks) = (fs, None)"
| "feed (fs, Some buf) (chunk # chunks) =
     (case extract_frames (buf @ chunk) of (gs, r) \<Rightarrow> feed (fs @ gs, r) chunks)"

section \<open>Lemmas\<close>

lemma ip_field_length [simp]: "length (ip_field ip) = 4"
  by (auto simp: ip_field_def dest: To4_length split: option.split)

lemma ip_field_cases:
  obtains a b c d where "ip_field ip = [a, b, c, d]"
proof (cases "To4 ip")
  case None
  then show thesis using that by (simp add: ip_field_def)
next
  case (Some v)
  then obtain a b c d where "v = [a, b, c, d]" by (rule To4_cases)
  with Some show thesis using that by (simp add: ip_field_def)
qed

lemma length_Marshal: "length (Marshal p) = PacketHeaderSize + length (pk_Payload p)"
  by (simp add: Marshal_def PacketHeaderSize_def)

lemma nibble_small:
  fixes x :: u8
  assumes "x \<le> MAX_TTL"
  shows "x AND 0x0F = x"
proof -
  have "unat x < 16" using assms by (simp add: MAX_TTL_def word_le_nat_alt)
  then have "take_bit 4 (unat x) = unat x" by (simp add: take_bit_nat_eq_self)
  then have "unat (take_bit 4 x) = unat x" by (simp only: unsigned_take_bit_eq)
  then have "take_bit 4 x = x" by (simp add: word_unat_eq_iff)
  then show ?thesis by (simp add: take_bit_eq_mask mask_eq_exp_minus_1)
qed

lemma ttl_byte_roundtrip:
  fixes s t :: u8
  assumes "s \<le> MAX_TTL" and "t \<le> MAX_TTL"
  shows "drop_bit 4 (ttl_byte s t) AND 0x0F = s" and "ttl_byte s t AND 0x0F = t"
proof -
  have mask4: "(0x0F :: u8) = Bit_Operations.mask 4" by (simp add: mask_eq_exp_minus_1)
  have bits: "n < 4" if "x \<le> MAX_TTL" and "bit x n" for x :: u8 and n
    using nibble_small [OF that(1)] that(2) unfolding mask4
    by (metis bit_and_iff bit_mask_iff)
  show "drop_bit 4 (ttl_byte s t) AND 0x0F = s"
    unfolding ttl_byte_def nibble_small [OF assms(1)] nibble_small [OF assms(2)] mask4
    using bits [OF assms(1)] bits [OF assms(2)]
    by (intro bit_word_eqI) (auto simp: bit_simps)
  show "ttl_byte s t AND 0x0F = t"
    unfolding ttl_byte_def nibble_small [OF assms(1)] nibble_small [OF assms(2)] mask4
    using bits [OF assms(1)] bits [OF assms(2)]
    by (intro bit_word_eqI) (auto simp: bit_simps)
qed

lemma V3_nibble [simp]: "VersionFromUint8 (V3 AND 0x0F) = V3"
  by (simp add: V3_def VersionFromUint8_def)

lemma Unmarshal_None_iff: "Unmarshal data = None \<longleftrightarrow> length data < PacketHeaderSize"
  by (auto simp: Unmarshal_def PacketHeaderSize_def split: list.split)

lemma Unmarshal_Marshal_eq:
  assumes "packet_ok p"
  shows "Unmarshal (Marshal p) = Some (wire_form p)"
proof -
  obtain a b c d where src: "ip_field (pk_SrcIP p) = [a, b, c, d]" by (rule ip_field_cases)
  obtain e f g h where dst: "ip_field (pk_DstIP p) = [e, f, g, h]" by (rule ip_field_cases)
  show ?thesis
    using assms
    by (simp add: Unmarshal_def Marshal_def src dst wire_form_def packet_ok_def ttl_byte_roundtrip
        net_IPv4_def)
qed

lemma extract_frames_short: "length buf < 4 \<Longrightarrow> extract_frames buf = ([], Some buf)"
  by (subst extract_frames.simps) (auto split: list.split)

lemma extract_frames_Cons:
  "extract_frames (a # b # c # d # rest) =
     (let n = unat (of_be32 a b c d) in
      if n = 0 \<or> n > max_frame then ([], None)
      else if length rest < n then ([], Some (a # b # c # d # rest))
      else (case extract_frames (drop n rest) of (fs, r) \<Rightarrow> (take n rest # fs, r)))"
  by (subst extract_frames.simps) simp

lemma four_bytes:
  assumes "\<not> length xs < 4"
  obtains a b c d rest where "xs = a # b # c # d # rest"
  using assms by (auto simp: Suc_le_length_iff not_less eval_nat_numeral)

lemma extract_frames_rest:
  "extract_frames xs = (fs, Some r) \<Longrightarrow> extract_frames r = ([], Some r)"
proof (induction xs arbitrary: fs rule: measure_induct_rule [of length])
  case (less xs)
  show ?case
  proof (cases "length xs < 4")
    case True
    with less.prems show ?thesis by (simp add: extract_frames_short)
  next
    case False
    then obtain a b c d rest where xs: "xs = a # b # c # d # rest" by (rule four_bytes)
    show ?thesis
      using less.prems less.IH [of "drop (unat (of_be32 a b c d)) rest"]
      by (auto simp: xs extract_frames_Cons Let_def split: if_splits prod.splits)
  qed
qed

lemma extract_frames_append:
  "extract_frames (xs @ ys) =
     (case extract_frames xs of
        (fs, None) \<Rightarrow> (fs, None)
      | (fs, Some r) \<Rightarrow> (case extract_frames (r @ ys) of (gs, r') \<Rightarrow> (fs @ gs, r')))"
proof (induction xs rule: measure_induct_rule [of length])
  case (less xs)
  show ?case
  proof (cases "length xs < 4")
    case True
    then show ?thesis by (simp add: extract_frames_short)
  next
    case False
    then obtain a b c d rest where xs: "xs = a # b # c # d # rest" by (rule four_bytes)
    let ?n = "unat (of_be32 a b c d)"
    show ?thesis
    proof (cases "?n = 0 \<or> ?n > max_frame \<or> length rest < ?n")
      case True
      then show ?thesis by (auto simp: xs extract_frames_Cons Let_def split: prod.splits)
    next
      case False
      then have n: "\<not> (?n = 0 \<or> ?n > max_frame)" and len: "\<not> length rest < ?n" by auto
      show ?thesis
        using n len less.IH [of "drop ?n rest"]
        by (simp add: xs extract_frames_Cons Let_def split: prod.split option.split)
    qed
  qed
qed

lemma feed_eq_extract:
  assumes "extract_frames buf = ([], Some buf)"
  shows "feed (fs, Some buf) chunks =
     (case extract_frames (buf @ concat chunks) of (gs, r) \<Rightarrow> (fs @ gs, r))"
  using assms
proof (induction chunks arbitrary: fs buf)
  case Nil
  then show ?case by simp
next
  case (Cons chunk chunks)
  obtain gs r where e: "extract_frames (buf @ chunk) = (gs, r)" by fastforce
  note app = extract_frames_append [of "buf @ chunk" "concat chunks"]
  show ?case
  proof (cases r)
    case None
    with e app show ?thesis by (cases chunks) auto
  next
    case (Some rest)
    with e have "extract_frames rest = ([], Some rest)" by (auto intro: extract_frames_rest)
    with Cons.IH [of rest "fs @ gs"] e Some app show ?thesis by (simp split: prod.split)
  qed
qed

lemma extract_writeFramed:
  assumes "0 < length p" and "length p \<le> max_frame"
  shows "extract_frames (writeFramed p @ ys) =
    (case extract_frames ys of (fs, r) \<Rightarrow> (p # fs, r))"
proof -
  have "length p < 2 ^ 32" using assms(2) by (simp add: max_frame_def)
  then have "unat (of_nat (length p) :: u32) = length p"
    by (simp add: unat_of_nat)
  then show ?thesis
    using assms by (simp add: writeFramed_def be32_def extract_frames_Cons Let_def)
qed

lemma extract_written:
  assumes "\<forall>p \<in> set ps. 0 < length p \<and> length p \<le> max_frame"
  shows "extract_frames (concat (map writeFramed ps)) = (ps, Some [])"
  using assms by (induction ps) (auto simp: extract_frames_short extract_writeFramed)

definition sample_packet :: Packet where
  "sample_packet = \<lparr>pk_Ver = 3, pk_Proto = 1, pk_AppProto = 5, pk_SourceTTL = 15, pk_TTL = 15,
     pk_SrcIP = [10, 26, 0, 2], pk_DstIP = [10, 26, 0, 1], pk_Payload = [7, 8],
     pk_RouteNetworkKey = ''default.ms.net''\<rparr>"

section \<open>Properties\<close>

text \<open>The payload with the address of a client is read back.\<close>

lemma addr_payload_read:
  assumes "BuildAddrPayloadByAddr quote remoteAddr = Inr payload"
  shows "\<exists>host portStr ip port. SplitHostPort remoteAddr = Some (host, portStr) \<and> ParseIP host = Some ip \<and>
    Atoi portStr = Some port \<and> 0 \<le> port \<and> port \<le> 65535 \<and>
    ParseAddrPayload payload = Inr (case To4 ip of Some ip4 \<Rightarrow> ip4 | None \<Rightarrow> [0, 0, 0, 0], word_of_int port)"
proof -
  obtain host portStr port ip where h: "SplitHostPort remoteAddr = Some (host, portStr)" "Atoi portStr = Some port"
      "ParseIP host = Some ip" "0 \<le> port" "port \<le> 65535"
      and p: "payload = (case To4 ip of Some ip4 \<Rightarrow> ip4 | None \<Rightarrow> [0, 0, 0, 0]) @ be16 (word_of_int port)"
    using assms by (auto simp: BuildAddrPayloadByAddr_def split: option.splits if_splits)
  have "ParseAddrPayload payload = Inr (case To4 ip of Some ip4 \<Rightarrow> ip4 | None \<Rightarrow> [0, 0, 0, 0], word_of_int port)"
  proof (cases "To4 ip")
    case None
    then show ?thesis by (simp add: p ParseAddrPayload_def be16_def)
  next
    case (Some b)
    then obtain x y z w where "b = [x, y, z, w]" using To4_length [OF Some] by (auto simp: length_Suc_conv eval_nat_numeral)
    then show ?thesis using Some by (simp add: p ParseAddrPayload_def be16_def)
  qed
  with h show ?thesis by blast
qed

text \<open>
  C34: Wire round trip: a packet with known protocol numbers, four-bit TTLs and IPv4 addresses that
  is marshalled and unmarshalled again comes back with the same protocol, application protocol,
  TTLs and payload, version 3, the same IPv4 addresses (in 16-byte form) and an empty local
  routing key.
\<close>

theorem packet_roundtrip:
  assumes "packet_ok p"
  shows "Unmarshal (Marshal p) = Some (wire_form p)"
  using assms by (rule Unmarshal_Marshal_eq)

theorem packet_roundtrip_witness:
  "packet_ok sample_packet \<and> Unmarshal (Marshal sample_packet) = Some (wire_form sample_packet)"
proof -
  have ok: "packet_ok sample_packet" by code_simp
  show ?thesis using packet_roundtrip [OF ok] ok by simp
qed

text \<open>
  C21: Framing does not depend on how the transport splits the byte stream: reading any frames of 1
  byte to 1 MiB, written one after the other and cut into arbitrary chunks, yields exactly those
  frames in order and leaves the buffer empty.
\<close>

theorem framing_roundtrip:
  assumes "\<forall>p \<in> set ps. 0 < length p \<and> length p \<le> max_frame"
    and "concat chunks = concat (map writeFramed ps)"
  shows "feed ([], Some []) chunks = (ps, Some [])"
  using feed_eq_extract [of "[]" "[]" chunks] extract_written [OF assms(1)] assms(2)
  by (simp add: extract_frames_short)

theorem framing_roundtrip_witness:
  "feed ([], Some []) [[0, 0], [0, 2, 5], [6, 0, 0, 0, 1, 9]] = ([[5, 6], [9]], Some [])"
proof -
  have lens: "\<forall>p \<in> set [[5, 6], [9 :: u8]]. 0 < length p \<and> length p \<le> max_frame"
    by (simp add: max_frame_def)
  have "writeFramed [5, 6] = [0, 0, 0, 2, 5, 6]" and "writeFramed [9] = [0, 0, 0, 1, 9]"
    by (simp_all add: writeFramed_def be32_def)
  then show ?thesis
    using framing_roundtrip [OF lens, of "[[0, 0], [0, 2, 5], [6, 0, 0, 0, 1, 9]]"] by simp
qed

text \<open>
  Ping payloads: a built payload parses back to its time and epoch, and a payload is rejected
  exactly when it is shorter than four bytes.
\<close>

theorem ping_roundtrip:
  "ParsePingPayload (BuildPingPayload t e @ rest) = Inr (t, e)
   \<and> (length payload < 4 \<longleftrightarrow> (\<exists>msg. ParsePingPayload payload = Inl msg))"
  by (auto simp: ParsePingPayload_def BuildPingPayload_def be16_def split: list.split)

end
