(* ===== verification/Punch.thy ===== *)
theory Punch
  imports Packet Network
begin

text \<open>
  Hole punching, \<^verbatim>\<open>control/punch.go\<close>: the status reports of clients, the sessions that coordinate two
  clients, their acknowledgements and results, the retry and cooldown bookkeeping per pair, and the
  control packets. A handler takes the decoded message, or the error of \<^verbatim>\<open>proto.Unmarshal\<close>; encoding
  is an argument. A session is stored under one key only, so its pointer is modelled by its value.
\<close>

section \<open>Messages\<close>

record RouteStatus =
  sm_Source :: u32
  sm_P2PList :: "u32 list"
  sm_UpStream :: u64
  sm_DownStream :: u64
  sm_IsCone :: bool
  sm_PublicUdpEndpoints :: "PunchEndpoint list"
  sm_PunchTriggerReason :: PunchTriggerReason
  sm_LocalUdpEndpoints :: "PunchEndpoint list"
  sm_PreferredChannelMode :: ChannelMode
  sm_ExitNodeAdvertised :: bool
  sm_ExitNodeLocalReady :: bool
  sm_RecoveryPunchTarget :: u32

record PunchRequest =
  rq_SessionId :: u64
  rq_Source :: u32
  rq_Target :: u32
  rq_SourceEndpoints :: "PunchEndpoint list"
  rq_TargetEndpoints :: "PunchEndpoint list"
  rq_Attempt :: u32
  rq_TimeoutMs :: u32
  rq_DeadlineUnixMs :: int
  rq_TriggerReason :: PunchTriggerReason
  rq_AttemptBudget :: u32
  rq_EndpointSelectionPolicy :: PunchEndpointSelectionPolicy

record PunchAck =
  ak_SessionId :: u64
  ak_Source :: u32
  ak_Attempt :: u32
  ak_Accepted :: bool
  ak_Reason :: string
  ak_Phase :: PunchSessionPhase

record PunchStart =
  st_SessionId :: u64
  st_Source :: u32
  st_Target :: u32
  st_PeerEndpoints :: "PunchEndpoint list"
  st_Attempt :: u32
  st_TimeoutMs :: u32
  st_DeadlineUnixMs :: int
  st_TriggerReason :: PunchTriggerReason
  st_AttemptBudget :: u32
  st_EndpointSelectionPolicy :: PunchEndpointSelectionPolicy

section \<open>Helpers\<close>

definition maxPunchAttemptsPerPair :: u32 where "maxPunchAttemptsPerPair = 3"

definition punchSessionKey :: "u64 \<Rightarrow> u32 \<Rightarrow> string" where
  "punchSessionKey sessionID attempt = show_word sessionID @ '':'' @ show_word attempt"

definition punchPairKey :: "u32 \<Rightarrow> u32 \<Rightarrow> string" where
  "punchPairKey a b = (if a < b then show_word a @ ''-'' @ show_word b
                       else show_word b @ ''-'' @ show_word a)"

definition retryBackoffDuration :: "u32 \<Rightarrow> int" where
  "retryBackoffDuration attempt =
     (if attempt = 0 then 0
      else let shift = (if attempt > 5 then 5 else unat attempt);
               d = 2 ^ shift * Second
           in if d > 30 * Second then 30 * Second else d)"

fun punchSessionStateFromPhase :: "PunchSessionPhase \<Rightarrow> PunchSessionState" where
  "punchSessionStateFromPhase PunchPhaseScheduled = PunchSessionScheduled"
| "punchSessionStateFromPhase PunchPhaseUnknown = PunchSessionScheduled"
| "punchSessionStateFromPhase PunchPhaseSending = PunchSessionSending"
| "punchSessionStateFromPhase PunchPhaseWaiting = PunchSessionWaiting"
| "punchSessionStateFromPhase PunchPhaseSuccess = PunchSessionSuccess"
| "punchSessionStateFromPhase PunchPhaseTimeout = PunchSessionTimeout"
| "punchSessionStateFromPhase PunchPhaseFailed = PunchSessionFailed"
| "punchSessionStateFromPhase (PunchPhase_other n) = PunchSessionFailed"

definition updatePunchRetryState ::
    "gtime \<Rightarrow> string \<Rightarrow> PunchSessionState \<Rightarrow> NetworkControl \<Rightarrow> NetworkControl" where
  "updatePunchRetryState now pairKey status nc =
     (if status = PunchSessionSuccess
      then nc\<lparr>nc_PunchPairRetry := em_Delete pairKey (nc_PunchPairRetry nc)\<rparr>
      else if status = PunchSessionFailed \<or> status = PunchSessionTimeout
      then (case em_Get now pairKey (nc_PunchPairRetry nc) of
              (found, m) \<Rightarrow>
                (let attempt = (case found of Some s \<Rightarrow> rt_Attempt s | None \<Rightarrow> 0) + 1;
                     state = \<lparr>rt_Attempt = attempt,
                              rt_NextAllowedUnixMs = UnixMilli (now + retryBackoffDuration attempt)\<rparr>
                 in nc\<lparr>nc_PunchPairRetry := em_Set now pairKey state m\<rparr>))
      else nc)"

text \<open>
  The set \<^verbatim>\<open>seen\<close> of the code holds the printed address and port, which determine the endpoint, so
  the endpoints themselves are compared here.
\<close>

definition punchEndpointOf :: "netIP \<Rightarrow> u16 \<Rightarrow> PunchEndpoint option" where
  "punchEndpointOf ip port =
     (if port = 0 then None
      else case To4 ip of
        Some ipv4 \<Rightarrow> Some \<lparr>pe_Ip = IpToUint32 ipv4, pe_Port = ucast port, pe_Ipv6 = [], pe_Tcp = False\<rparr>
      | None \<Rightarrow>
          (case To16 ip of
             Some ipv6 \<Rightarrow> Some \<lparr>pe_Ip = 0, pe_Port = ucast port, pe_Ipv6 = ipv6, pe_Tcp = False\<rparr>
           | None \<Rightarrow> None))"

definition appendEndpoint :: "UDPAddr \<Rightarrow> PunchEndpoint list \<Rightarrow> PunchEndpoint list" where
  "appendEndpoint addr endpoints =
     (case punchEndpointOf (ua_IP addr) (word_of_int (ua_Port addr)) of
        None \<Rightarrow> endpoints
      | Some endpoint \<Rightarrow> if endpoint \<in> set endpoints then endpoints else endpoints @ [endpoint])"

definition buildPunchEndpoints :: "ClientInfo \<Rightarrow> PunchEndpoint list" where
  "buildPunchEndpoints client =
     (case cl_ClientStatus client of
        None \<Rightarrow> []
      | Some status \<Rightarrow>
          fold appendEndpoint (cs_LocalUDPEndpoints status)
            (fold appendEndpoint (cs_PublicUDPEndpoints status) []))"

definition punchPeerIP :: "PunchSession \<Rightarrow> u32 \<Rightarrow> u32" where
  "punchPeerIP session source =
     (if source = ps_Source session then ps_Target session
      else if source = ps_Target session then ps_Source session else 0)"

definition clientReportsDirectPeer :: "ClientInfo \<Rightarrow> u32 \<Rightarrow> bool" where
  "clientReportsDirectPeer client peerIP =
     (case cl_ClientStatus client of
        None \<Rightarrow> False
      | Some status \<Rightarrow> \<exists>ip \<in> set (cs_P2PList status). IP_Equal ip (Uint32ToIP peerIP))"

definition clientsHaveAnyP2PPath :: "ClientInfo \<Rightarrow> u32 \<Rightarrow> ClientInfo \<Rightarrow> u32 \<Rightarrow> bool" where
  "clientsHaveAnyP2PPath srcClient srcIP targetClient targetIP \<longleftrightarrow>
     clientReportsDirectPeer srcClient targetIP \<or> clientReportsDirectPeer targetClient srcIP"

definition clientsHaveMutualP2PPath :: "ClientInfo \<Rightarrow> u32 \<Rightarrow> ClientInfo \<Rightarrow> u32 \<Rightarrow> bool" where
  "clientsHaveMutualP2PPath srcClient srcIP targetClient targetIP \<longleftrightarrow>
     clientReportsDirectPeer srcClient targetIP \<and> clientReportsDirectPeer targetClient srcIP"

definition clientsPreferRelay :: "ClientInfo \<Rightarrow> ClientInfo \<Rightarrow> bool" where
  "clientsPreferRelay srcClient targetClient \<longleftrightarrow>
     cl_PreferredChannelMode srcClient = CHANNEL_MODE_RELAY \<or>
     cl_PreferredChannelMode targetClient = CHANNEL_MODE_RELAY"

definition shouldSuppressPunchStartForStatusUpdate ::
    "ClientInfo \<Rightarrow> u32 \<Rightarrow> ClientInfo \<Rightarrow> u32 \<Rightarrow> bool" where
  "shouldSuppressPunchStartForStatusUpdate srcClient srcIP targetClient targetIP =
     (if clientsPreferRelay srcClient targetClient then True
      else clientsHaveAnyP2PPath srcClient srcIP targetClient targetIP)"

definition shouldSuppressPunchStartForOtherTrigger ::
    "ClientInfo \<Rightarrow> u32 \<Rightarrow> ClientInfo \<Rightarrow> u32 \<Rightarrow> bool" where
  "shouldSuppressPunchStartForOtherTrigger srcClient srcIP targetClient targetIP =
     (if clientsPreferRelay srcClient targetClient then True
      else clientsHaveMutualP2PPath srcClient srcIP targetClient targetIP)"

section \<open>Status reports\<close>

text \<open>\<^verbatim>\<open>request.SrcIP\<close> in a message; \<^verbatim>\<open>Unmarshal\<close> only makes IPv4 addresses.\<close>

definition ip_text :: "netIP \<Rightarrow> string" where
  "ip_text ip = Uint32ToIP_String (IpToUint32 ip)"

definition statusEndpoint :: "PunchEndpoint \<Rightarrow> UDPAddr option" where
  "statusEndpoint endpoint =
     (if pe_Port endpoint = 0 \<or> pe_Port endpoint > 65535 then None
      else if pe_Ip endpoint \<noteq> 0
      then Some \<lparr>ua_IP = Uint32ToIP (pe_Ip endpoint), ua_Port = uint (pe_Port endpoint)\<rparr>
      else if length (pe_Ipv6 endpoint) = 16
      then Some \<lparr>ua_IP = pe_Ipv6 endpoint, ua_Port = uint (pe_Port endpoint)\<rparr>
      else None)"

definition clientStatusOf :: "gtime \<Rightarrow> RouteStatus \<Rightarrow> ClientStatusInfo" where
  "clientStatusOf now status =
     \<lparr>cs_P2PList = map Uint32ToIP (sm_P2PList status),
      cs_PublicUDPEndpoints = List.map_filter statusEndpoint (sm_PublicUdpEndpoints status),
      cs_LocalUDPEndpoints = List.map_filter statusEndpoint (sm_LocalUdpEndpoints status),
      cs_UpStream = sm_UpStream status, cs_DownStream = sm_DownStream status,
      cs_IsCone = sm_IsCone status,
      cs_PunchTriggerReason = PunchTriggerReason_String (sm_PunchTriggerReason status),
      cs_RecoveryPunchTarget = sm_RecoveryPunchTarget status, cs_UpdateTime = Unix now,
      cs_ExitNodeAdvertised = sm_ExitNodeAdvertised status,
      cs_ExitNodeLocalReady = sm_ExitNodeLocalReady status\<rparr>"

definition applyStatus :: "gtime \<Rightarrow> RouteStatus \<Rightarrow> ClientInfo \<Rightarrow> ClientInfo" where
  "applyStatus now status client =
     (let reachable = (sm_P2PList status \<noteq> []) in
      client\<lparr>cl_ControlOnline := True, cl_ControlLastSeen := Unix now,
             cl_DataPlaneReachable := reachable,
             cl_DataPlaneLastSeen := (if reachable then Unix now else cl_DataPlaneLastSeen client),
             cl_ClientStatus := Some (clientStatusOf now status),
             cl_PreferredChannelMode := sm_PreferredChannelMode status\<rparr>)"

definition statusChanges :: "RouteStatus \<Rightarrow> ClientInfo \<Rightarrow> bool" where
  "statusChanges status client \<longleftrightarrow>
     cl_PreferredChannelMode client \<noteq> sm_PreferredChannelMode status \<or>
     (case cl_ClientStatus client of
        None \<Rightarrow> True
      | Some old \<Rightarrow> cs_ExitNodeAdvertised old \<noteq> sm_ExitNodeAdvertised status \<or>
                    cs_ExitNodeLocalReady old \<noteq> sm_ExitNodeLocalReady status)"

definition HandleClientStatusInfoPacketInNetwork ::
    "gtime \<Rightarrow> Packet \<Rightarrow> RouteStatus result \<Rightarrow> string \<Rightarrow> NetworkControl \<Rightarrow> bool result \<times> NetworkControl" where
  "HandleClientStatusInfoPacketInNetwork now request decoded networkKey nc =
     (case decoded of
        Inl err \<Rightarrow> (Inl (''ClientStatusInfo unmarshal error: '' @ err), nc)
      | Inr status \<Rightarrow>
          (let srcIP = IpToUint32 (pk_SrcIP request) in
           if sm_Source status \<noteq> 0 \<and> sm_Source status \<noteq> srcIP
           then (Inl (''client status source mismatch: '' @ show_word (sm_Source status) @ '' != ''
                      @ show_word srcIP), nc)
           else
             case update_first
                    (\<lambda>key network.
                       if TrimSpace networkKey \<noteq> [] \<and> key \<noteq> networkKey then None
                       else case gget (ni_Clients network) srcIP of
                              None \<Rightarrow> None
                            | Some client \<Rightarrow>
                                Some (UpsertClient srcIP (applyStatus now status client) network,
                                      statusChanges status client))
                    (em_data (nc_VirtualNetwork nc)) of
               (Some changed, nets) \<Rightarrow> (Inr changed, with_networks nc nets)
             | (None, _) \<Rightarrow> (Inl (''client '' @ ip_text (pk_SrcIP request) @ '' not registered''), nc)))"

section \<open>Starting sessions from a status report\<close>

definition servicePacket :: "u8 \<Rightarrow> netIP \<Rightarrow> netIP \<Rightarrow> bytes \<Rightarrow> string \<Rightarrow> Packet" where
  "servicePacket appProto src dst payload networkKey =
     \<lparr>pk_Ver = V3, pk_Proto = ProtocolService, pk_AppProto = appProto, pk_SourceTTL = MAX_TTL,
      pk_TTL = MAX_TTL, pk_SrcIP = src, pk_DstIP = dst, pk_Payload = payload,
      pk_RouteNetworkKey = networkKey\<rparr>"

text \<open>The skips of the loop over the targets, up to the cooldown.\<close>

definition punchCandidate ::
    "PunchTriggerReason \<Rightarrow> u32 \<Rightarrow> ClientInfo \<Rightarrow> u32 \<Rightarrow> u32 \<times> ClientInfo \<Rightarrow> bool" where
  "punchCandidate trigger recoveryTarget srcClient srcIP = (\<lambda>(targetIP, targetClient).
     targetIP \<noteq> srcIP \<and> cl_ControlOnline targetClient \<and> cl_ClientStatus targetClient \<noteq> None \<and>
     \<not> (recoveryTarget \<noteq> 0 \<and> targetIP \<noteq> recoveryTarget) \<and>
     trigger \<noteq> StatusReportOnly \<and>
     \<not> (if trigger = PunchTriggerStatusUpdate
        then shouldSuppressPunchStartForStatusUpdate srcClient srcIP targetClient targetIP
        else shouldSuppressPunchStartForOtherTrigger srcClient srcIP targetClient targetIP))"

definition startPackets ::
    "(PunchStart \<Rightarrow> bytes result) \<Rightarrow> netIP \<Rightarrow> string \<Rightarrow> PunchStart \<Rightarrow> PunchStart \<Rightarrow> Packet list result" where
  "startPackets marshal from key sourceStart targetStart =
     (case marshal sourceStart of
        Inl err \<Rightarrow> Inl (''PunchStart source marshal error: '' @ err)
      | Inr sourcePayload \<Rightarrow>
          (case marshal targetStart of
             Inl err \<Rightarrow> Inl (''PunchStart target marshal error: '' @ err)
           | Inr targetPayload \<Rightarrow>
               Inr [servicePacket AppProtoPunchStart from (Uint32ToIP (st_Source sourceStart)) sourcePayload key,
                    servicePacket AppProtoPunchStart from (Uint32ToIP (st_Source targetStart)) targetPayload key]))"

text \<open>
  The bookkeeping of a candidate: skip, with the state after the lookups, or the number of the
  attempt to start.
\<close>

definition punchClaim ::
    "gtime \<Rightarrow> bool \<Rightarrow> string \<Rightarrow> bool \<Rightarrow> NetworkControl \<Rightarrow> u32 option \<times> NetworkControl" where
  "punchClaim now manual pairKey haveEndpoints nc0 =
     (case (if manual then (None, nc_PunchPairCooldown nc0)
            else em_Get now pairKey (nc_PunchPairCooldown nc0)) of
        (cooling, cool) \<Rightarrow>
          (let nc1 = nc0\<lparr>nc_PunchPairCooldown := cool\<rparr> in
           if cooling \<noteq> None then (None, nc1)
           else
             case em_Get now pairKey (nc_PunchPairRetry nc1) of
               (found, retry) \<Rightarrow>
                 (let nc2 = nc1\<lparr>nc_PunchPairRetry := (if manual then em_Delete pairKey retry else retry)\<rparr>;
                      hasRetry = (if manual then None else found)
                  in if (case hasRetry of
                           Some s \<Rightarrow> rt_Attempt s \<ge> maxPunchAttemptsPerPair \<or>
                                     UnixMilli now < rt_NextAllowedUnixMs s
                         | None \<Rightarrow> False)
                     then (None, nc2)
                     else if \<not> haveEndpoints then (None, nc2)
                     else
                       case (if manual then em_TrySetIfAbsent now pairKey () (nc_ManualPunchPairDedup nc2)
                             else (True, nc_ManualPunchPairDedup nc2)) of
                         (ok, dedup) \<Rightarrow>
                           (let nc3 = nc2\<lparr>nc_ManualPunchPairDedup := dedup\<rparr> in
                            if \<not> ok then (None, nc3)
                            else (Some (case hasRetry of Some s \<Rightarrow> rt_Attempt s + 1 | None \<Rightarrow> 1), nc3)))))"

definition newPunchSession ::
    "gtime \<Rightarrow> u64 \<Rightarrow> u32 \<Rightarrow> u32 \<Rightarrow> u32 \<Rightarrow> PunchTriggerReason \<Rightarrow> PunchSession" where
  "newPunchSession now sessionID srcIP targetIP attempt trigger =
     \<lparr>ps_SessionID = sessionID, ps_Source = srcIP, ps_Target = targetIP, ps_Attempt = attempt,
      ps_AttemptBudget = maxPunchAttemptsPerPair,
      ps_DeadlineUnixMs = UnixMilli (now + 5 * Second),
      ps_TriggerReason = PunchTriggerReason_String trigger,
      ps_SelectionPolicy = PunchEndpointSelectionPolicy_String PunchEndpointSelectionAll,
      ps_State = PunchSessionScheduled, ps_RequestedAt = Unix now, ps_LastReason = [],
      ps_RelayFallback = False, ps_Ack = [], ps_Results = []\<rparr>"

definition punchStartOf ::
    "gtime \<Rightarrow> u64 \<Rightarrow> u32 \<Rightarrow> u32 \<Rightarrow> PunchEndpoint list \<Rightarrow> u32 \<Rightarrow> PunchTriggerReason \<Rightarrow> PunchStart" where
  "punchStartOf now sessionID source target peers attempt trigger =
     \<lparr>st_SessionId = sessionID, st_Source = source, st_Target = target, st_PeerEndpoints = peers,
      st_Attempt = attempt, st_TimeoutMs = 3000, st_DeadlineUnixMs = UnixMilli (now + 5 * Second),
      st_TriggerReason = trigger, st_AttemptBudget = maxPunchAttemptsPerPair,
      st_EndpointSelectionPolicy = PunchEndpointSelectionAll\<rparr>"

text \<open>
  The loop over the clients of one network. The result is the error of encoding, or whether to go on
  with the next network and the packets so far. \<open>clock ip\<close> is the instant at which the session with
  \<open>ip\<close> is made, from which its number comes.
\<close>

type_synonym punch_env = "gtime \<times> (u32 \<Rightarrow> gtime) \<times> (PunchStart \<Rightarrow> bytes result) \<times> netIP"

fun punchTargets ::
    "punch_env \<Rightarrow> string \<Rightarrow> PunchTriggerReason \<Rightarrow> u32 \<Rightarrow> ClientInfo \<Rightarrow> u32 \<Rightarrow> (u32, ClientInfo) gomap
     \<Rightarrow> Packet list \<Rightarrow> NetworkControl \<Rightarrow> (bool \<times> Packet list) result \<times> NetworkControl" where
  "punchTargets env key trigger recovery srcClient srcIP [] packets nc = (Inr (True, packets), nc)"
| "punchTargets (now, clock, marshal, from) key trigger recovery srcClient srcIP ((targetIP, targetClient) # rest)
     packets nc =
     (if \<not> punchCandidate trigger recovery srcClient srcIP (targetIP, targetClient)
      then punchTargets (now, clock, marshal, from) key trigger recovery srcClient srcIP rest packets nc
      else
        (let manual = (trigger = PunchTriggerManualRequest); pairKey = punchPairKey srcIP targetIP;
             sourceEndpoints = buildPunchEndpoints srcClient;
             targetEndpoints = buildPunchEndpoints targetClient
         in case punchClaim now manual pairKey (sourceEndpoints \<noteq> [] \<and> targetEndpoints \<noteq> []) nc of
              (None, nc1) \<Rightarrow>
                punchTargets (now, clock, marshal, from) key trigger recovery srcClient srcIP rest packets nc1
            | (Some attempt, nc1) \<Rightarrow>
                (let sessionID = word_of_int (clock targetIP);
                     session = newPunchSession now sessionID srcIP targetIP attempt trigger;
                     nc2 = nc1\<lparr>nc_PunchSessions :=
                                 em_Set now (punchSessionKey sessionID attempt) session (nc_PunchSessions nc1),
                               nc_PunchPairCooldown := em_Set now pairKey () (nc_PunchPairCooldown nc1)\<rparr>
                 in case startPackets marshal from key
                           (punchStartOf now sessionID srcIP targetIP targetEndpoints attempt trigger)
                           (punchStartOf now sessionID targetIP srcIP sourceEndpoints attempt trigger) of
                      Inl err \<Rightarrow> (Inl err, nc2)
                    | Inr new \<Rightarrow>
                        if recovery \<noteq> 0 \<or> \<not> manual then (Inr (False, packets @ new), nc2)
                        else punchTargets (now, clock, marshal, from) key trigger recovery srcClient srcIP rest
                               (packets @ new) nc2)))"

definition triggerOf :: "ClientStatusInfo \<Rightarrow> PunchTriggerReason" where
  "triggerOf status =
     (case gget PunchTriggerReason_value (cs_PunchTriggerReason status) of
        Some parsed \<Rightarrow> parsed | None \<Rightarrow> PunchTriggerStatusUpdate)"

fun punchNetworks ::
    "punch_env \<Rightarrow> string \<Rightarrow> u32 \<Rightarrow> (string, NetworkInfo) gomap \<Rightarrow> Packet list \<Rightarrow> NetworkControl
     \<Rightarrow> Packet list result \<times> NetworkControl" where
  "punchNetworks env networkKey srcIP [] packets nc = (Inr packets, nc)"
| "punchNetworks env networkKey srcIP ((key, network) # rest) packets nc =
     (if networkKey \<noteq> [] \<and> key \<noteq> networkKey then punchNetworks env networkKey srcIP rest packets nc
      else case gget (ni_Clients network) srcIP of
        None \<Rightarrow> punchNetworks env networkKey srcIP rest packets nc
      | Some srcClient \<Rightarrow>
          (case cl_ClientStatus srcClient of
             None \<Rightarrow> punchNetworks env networkKey srcIP rest packets nc
           | Some status \<Rightarrow>
               if \<not> cl_ControlOnline srcClient then punchNetworks env networkKey srcIP rest packets nc
               else
                 (let trigger = triggerOf status;
                      recovery = (if trigger = PunchTriggerManualRequest
                                  then cs_RecoveryPunchTarget status else 0)
                  in case punchTargets env key trigger recovery srcClient srcIP (ni_Clients network) packets nc of
                       (Inl err, nc1) \<Rightarrow> (Inl err, nc1)
                     | (Inr (True, ps), nc1) \<Rightarrow> punchNetworks env networkKey srcIP rest ps nc1
                     | (Inr (False, ps), nc1) \<Rightarrow> (Inr ps, nc1))))"

definition BuildPunchStartPacketsFromStatusInNetwork ::
    "gtime \<Rightarrow> (u32 \<Rightarrow> gtime) \<Rightarrow> (PunchStart \<Rightarrow> bytes result) \<Rightarrow> Packet \<Rightarrow> string \<Rightarrow> NetworkControl
     \<Rightarrow> Packet list result \<times> NetworkControl" where
  "BuildPunchStartPacketsFromStatusInNetwork now clock marshal request networkKey nc =
     punchNetworks (now, clock, marshal, pk_DstIP request) (TrimSpace networkKey)
       (IpToUint32 (pk_SrcIP request)) (em_data (nc_VirtualNetwork nc)) [] nc"

section \<open>Requests, acknowledgements and results\<close>

definition requestError :: "Packet \<Rightarrow> PunchRequest \<Rightarrow> string option" where
  "requestError request req =
     (let sourceIP = IpToUint32 (pk_SrcIP request) in
      if rq_Source req \<noteq> 0 \<and> rq_Source req \<noteq> sourceIP
      then Some (''punch request source mismatch: '' @ show_word (rq_Source req) @ '' != '' @ show_word sourceIP)
      else if rq_SessionId req = 0 \<or> rq_Attempt req = 0
      then Some ''invalid punch request, session_id and attempt must be non-zero''
      else None)"

definition HandlePunchRequestPacketInNetwork ::
    "gtime \<Rightarrow> (PunchAck \<Rightarrow> bytes result) \<Rightarrow> Packet \<Rightarrow> PunchRequest result \<Rightarrow> string \<Rightarrow> NetworkControl
     \<Rightarrow> Packet result \<times> NetworkControl" where
  "HandlePunchRequestPacketInNetwork now marshal request decoded networkKey nc =
     (case decoded of
        Inl err \<Rightarrow> (Inl (''PunchRequest unmarshal error: '' @ err), nc)
      | Inr req \<Rightarrow>
          (case requestError request req of
             Some err \<Rightarrow> (Inl err, nc)
           | None \<Rightarrow>
               if FindClientByVirtualIPInNetwork nc networkKey (rq_Target req) = None
               then (Inl (''punch target '' @ Uint32ToIP_String (rq_Target req) @ '' not registered''), nc)
               else
                 (let sourceIP = IpToUint32 (pk_SrcIP request);
                      session =
                        \<lparr>ps_SessionID = rq_SessionId req, ps_Source = sourceIP, ps_Target = rq_Target req,
                         ps_Attempt = rq_Attempt req,
                         ps_AttemptBudget = (if rq_AttemptBudget req = 0 then maxPunchAttemptsPerPair
                                             else rq_AttemptBudget req),
                         ps_DeadlineUnixMs = (if rq_DeadlineUnixMs req = 0 then UnixMilli (now + 5 * Second)
                                              else rq_DeadlineUnixMs req),
                         ps_TriggerReason = PunchTriggerReason_String (rq_TriggerReason req),
                         ps_SelectionPolicy =
                           PunchEndpointSelectionPolicy_String (rq_EndpointSelectionPolicy req),
                         ps_State = PunchSessionScheduled, ps_RequestedAt = Unix now, ps_LastReason = [],
                         ps_RelayFallback = False, ps_Ack = [(sourceIP, True)], ps_Results = []\<rparr>;
                      nc1 = nc\<lparr>nc_PunchSessions :=
                              em_Set now (punchSessionKey (rq_SessionId req) (rq_Attempt req)) session
                                (nc_PunchSessions nc)\<rparr>;
                      ack = \<lparr>ak_SessionId = rq_SessionId req, ak_Source = sourceIP,
                             ak_Attempt = rq_Attempt req, ak_Accepted = True, ak_Reason = [],
                             ak_Phase = PunchPhaseScheduled\<rparr>
                  in case marshal ack of
                       Inl err \<Rightarrow> (Inl (''PunchAck marshal error: '' @ err), nc1)
                     | Inr payload \<Rightarrow>
                         (Inr (servicePacket AppProtoPunchAck (pk_DstIP request) (pk_SrcIP request) payload []),
                          nc1))))"

definition requestStart :: "PunchRequest \<Rightarrow> u32 \<Rightarrow> u32 \<Rightarrow> PunchEndpoint list \<Rightarrow> PunchStart" where
  "requestStart req source target peers =
     \<lparr>st_SessionId = rq_SessionId req, st_Source = source, st_Target = target, st_PeerEndpoints = peers,
      st_Attempt = rq_Attempt req, st_TimeoutMs = rq_TimeoutMs req,
      st_DeadlineUnixMs = rq_DeadlineUnixMs req, st_TriggerReason = rq_TriggerReason req,
      st_AttemptBudget = rq_AttemptBudget req,
      st_EndpointSelectionPolicy = rq_EndpointSelectionPolicy req\<rparr>"

definition BuildPunchStartPacketsInNetwork ::
    "(PunchStart \<Rightarrow> bytes result) \<Rightarrow> Packet \<Rightarrow> PunchRequest result \<Rightarrow> string \<Rightarrow> NetworkControl
     \<Rightarrow> Packet list result" where
  "BuildPunchStartPacketsInNetwork marshal request decoded networkKey nc =
     (case decoded of
        Inl err \<Rightarrow> Inl (''PunchRequest unmarshal error: '' @ err)
      | Inr req \<Rightarrow>
          (case requestError request req of
             Some err \<Rightarrow> Inl err
           | None \<Rightarrow>
               (let sourceIP = IpToUint32 (pk_SrcIP request) in
                case FindClientByVirtualIPInNetwork nc networkKey sourceIP of
                  None \<Rightarrow> Inl (''punch source '' @ Uint32ToIP_String sourceIP @ '' not registered'')
                | Some sourceClient \<Rightarrow>
                    (case FindClientByVirtualIPInNetwork nc networkKey (rq_Target req) of
                       None \<Rightarrow> Inl (''punch target '' @ Uint32ToIP_String (rq_Target req) @ '' not registered'')
                     | Some targetClient \<Rightarrow>
                         if clientsPreferRelay sourceClient targetClient then Inr []
                         else startPackets marshal (pk_DstIP request) networkKey
                                (requestStart req sourceIP (rq_Target req) (rq_TargetEndpoints req))
                                (requestStart req (rq_Target req) sourceIP (rq_SourceEndpoints req))))))"

text \<open>The session of a message, read from the map; and the check of its claimed source.\<close>

definition findSession ::
    "gtime \<Rightarrow> string \<Rightarrow> NetworkControl \<Rightarrow> PunchSession option \<times> NetworkControl" where
  "findSession now key nc =
     (case em_Get now key (nc_PunchSessions nc) of (found, m) \<Rightarrow> (found, nc\<lparr>nc_PunchSessions := m\<rparr>))"

definition applyAck :: "u32 \<Rightarrow> PunchAck \<Rightarrow> PunchSession \<Rightarrow> PunchSession" where
  "applyAck source ack session =
     (let acks = gput source (ak_Accepted ack) (ps_Ack session) in
      if \<not> ak_Accepted ack
      then session\<lparr>ps_Ack := acks, ps_State := PunchSessionFailed, ps_LastReason := ak_Reason ack,
                   ps_RelayFallback := True\<rparr>
      else if length acks \<ge> 2 then session\<lparr>ps_Ack := acks, ps_State := PunchSessionWaiting\<rparr>
      else session\<lparr>ps_Ack := acks,
             ps_State := (let st = punchSessionStateFromPhase (ak_Phase ack) in
                          if st = PunchSessionScheduled then PunchSessionSending else st)\<rparr>)"

definition HandlePunchAckPacket ::
    "gtime \<Rightarrow> Packet \<Rightarrow> PunchAck result \<Rightarrow> NetworkControl \<Rightarrow> unit result \<times> NetworkControl" where
  "HandlePunchAckPacket now request decoded nc =
     (case decoded of
        Inl err \<Rightarrow> (Inl (''PunchAck unmarshal error: '' @ err), nc)
      | Inr ack \<Rightarrow>
          (let key = punchSessionKey (ak_SessionId ack) (ak_Attempt ack);
               source = IpToUint32 (pk_SrcIP request)
           in case findSession now key nc of
                (None, nc1) \<Rightarrow> (Inl (''punch session not found: '' @ key), nc1)
              | (Some session, nc1) \<Rightarrow>
                  if ak_Source ack \<noteq> 0 \<and> ak_Source ack \<noteq> source
                  then (Inl (''punch ack source mismatch: '' @ show_word (ak_Source ack) @ '' != ''
                             @ show_word source), nc1)
                  else
                    (let session' = applyAck source ack session;
                         pairKey = punchPairKey (ps_Source session) (ps_Target session);
                         nc2 = (if \<not> ak_Accepted ack
                                then updatePunchRetryState now pairKey (ps_State session')
                                       (nc1\<lparr>nc_PunchPairCooldown := em_Delete pairKey (nc_PunchPairCooldown nc1)\<rparr>)
                                else nc1)
                     in (Inr (), nc2\<lparr>nc_PunchSessions := em_Set now key session' (nc_PunchSessions nc2)\<rparr>))))"

definition resultState :: "PunchResultMsg \<Rightarrow> PunchSessionState" where
  "resultState res =
     (if pr_Code res = PunchResultSuccess then PunchSessionSuccess
      else if pr_Code res = PunchResultTimeout \<or> pr_Code res = PunchResultNoResponse
      then PunchSessionTimeout else PunchSessionFailed)"

definition applyResult :: "u32 \<Rightarrow> PunchResultMsg \<Rightarrow> PunchSession \<Rightarrow> PunchSession" where
  "applyResult source res session =
     session\<lparr>ps_Results := gput source res (ps_Results session), ps_State := resultState res,
             ps_RelayFallback := (pr_Code res \<noteq> PunchResultSuccess), ps_LastReason := pr_Reason res\<rparr>"

definition HandlePunchResultPacket ::
    "gtime \<Rightarrow> Packet \<Rightarrow> PunchResultMsg result \<Rightarrow> NetworkControl \<Rightarrow> unit result \<times> NetworkControl" where
  "HandlePunchResultPacket now request decoded nc =
     (case decoded of
        Inl err \<Rightarrow> (Inl (''PunchResult unmarshal error: '' @ err), nc)
      | Inr res \<Rightarrow>
          (let key = punchSessionKey (pr_SessionId res) (pr_Attempt res);
               source = IpToUint32 (pk_SrcIP request)
           in case findSession now key nc of
                (None, nc1) \<Rightarrow> (Inl (''punch session not found: '' @ key), nc1)
              | (Some session, nc1) \<Rightarrow>
                  if pr_Source res \<noteq> 0 \<and> pr_Source res \<noteq> source
                  then (Inl (''punch result source mismatch: '' @ show_word (pr_Source res) @ '' != ''
                             @ show_word source), nc1)
                  else
                    (let session' = applyResult source res session;
                         pairKey = punchPairKey (ps_Source session) (ps_Target session);
                         nc2 = updatePunchRetryState now pairKey (ps_State session')
                                 (nc1\<lparr>nc_PunchPairCooldown := em_Delete pairKey (nc_PunchPairCooldown nc1)\<rparr>)
                     in (Inr (), nc2\<lparr>nc_PunchSessions := em_Set now key session' (nc_PunchSessions nc2)\<rparr>))))"

section \<open>Deadlines\<close>

definition overdue :: "int \<Rightarrow> PunchSession \<Rightarrow> bool" where
  "overdue nowUnixMs session \<longleftrightarrow>
     ps_State session \<in> {PunchSessionScheduled, PunchSessionSending, PunchSessionWaiting} \<and>
     ps_DeadlineUnixMs session > 0 \<and> nowUnixMs > ps_DeadlineUnixMs session"

definition expireSession :: "PunchSession \<Rightarrow> PunchSession" where
  "expireSession session =
     session\<lparr>ps_State := PunchSessionTimeout,
             ps_LastReason := (if ps_LastReason session = [] then ''deadline exceeded''
                               else ps_LastReason session),
             ps_RelayFallback := True\<rparr>"

text \<open>The loop of \<^verbatim>\<open>ReconcilePunchSessions\<close>; \<open>now\<close> is the clock of the retry bookkeeping.\<close>

definition ReconcilePunchSessions :: "gtime \<Rightarrow> int \<Rightarrow> NetworkControl \<Rightarrow> NetworkControl" where
  "ReconcilePunchSessions now nowUnixMs nc =
     fold (\<lambda>(key, session) nc.
             if overdue nowUnixMs session
             then (let pairKey = punchPairKey (ps_Source session) (ps_Target session);
                       sessions = nc_PunchSessions nc
                   in updatePunchRetryState now pairKey PunchSessionTimeout
                        (nc\<lparr>nc_PunchSessions :=
                              sessions\<lparr>em_data := gput key (expireSession session) (em_data sessions)\<rparr>,
                            nc_PunchPairCooldown := em_Delete pairKey (nc_PunchPairCooldown nc)\<rparr>))
             else nc)
       (em_data (nc_PunchSessions nc)) nc"

section \<open>Control packets\<close>

definition buildDisconnectPacket :: "Packet \<Rightarrow> Packet" where
  "buildDisconnectPacket request =
     \<lparr>pk_Ver = V3, pk_Proto = ProtocolError, pk_AppProto = 2, pk_SourceTTL = MAX_TTL, pk_TTL = MAX_TTL,
      pk_SrcIP = pk_DstIP request, pk_DstIP = pk_SrcIP request, pk_Payload = [], pk_RouteNetworkKey = []\<rparr>"

definition controlReply :: "u8 \<Rightarrow> Packet \<Rightarrow> bytes \<Rightarrow> Packet" where
  "controlReply appProto request payload =
     \<lparr>pk_Ver = V3, pk_Proto = ProtocolControl, pk_AppProto = appProto, pk_SourceTTL = MAX_TTL,
      pk_TTL = MAX_TTL, pk_SrcIP = pk_DstIP request, pk_DstIP = pk_SrcIP request,
      pk_Payload = payload, pk_RouteNetworkKey = []\<rparr>"

text \<open>\<open>addrPayload\<close> is \<^verbatim>\<open>BuildAddrPayloadByAddr\<close> of the remote address.\<close>

definition HandleControlPacketInNetwork ::
    "gtime \<Rightarrow> bytes result \<Rightarrow> Packet \<Rightarrow> string \<Rightarrow> NetworkControl \<Rightarrow> Packet result \<times> NetworkControl" where
  "HandleControlPacketInNetwork now addrPayload request networkKey nc =
     (if pk_AppProto request = ControlPing then
        (case ParsePingPayload (pk_Payload request) of
           Inl err \<Rightarrow> (Inl err, nc)
         | Inr (pingTime, _) \<Rightarrow>
             (case TouchClientByIPInNetwork now networkKey (pk_SrcIP request) nc of
                (epoch, nc1) \<Rightarrow>
                  if epoch = 0 then (Inr (buildDisconnectPacket request), nc1)
                  else (Inr (controlReply ControlPong request (BuildPingPayload pingTime epoch)), nc1)))
      else if pk_AppProto request = ControlAddrRequest then
        (case addrPayload of
           Inl err \<Rightarrow> (Inl err, nc)
         | Inr payload \<Rightarrow> (Inr (controlReply ControlAddrResponse request payload), nc))
      else (Inl (''unsupported control protocol: '' @ show_word (pk_AppProto request)), nc))"

end
