(* ===== verification/Punch_Facts.thy ===== *)
theory Punch_Facts
  imports Punch
begin

text \<open>
  What hole punching guarantees: keys of pairs and sessions, bounds of attempts and backoff, the
  cooldown of a pair, that only peers of one network are brought together, deadlines, and how
  acknowledgements and results move a session.
\<close>

section \<open>Keys and bounds\<close>

lemma digits_no_sep:
  "CHR ''-'' \<notin> set (show_word w)" "CHR '':'' \<notin> set (show_word w)"
  using show_word_digits [of _ w] not_digit_chars by blast+

lemma pair_text_inj:
  "show_word a @ CHR ''-'' # show_word b = show_word c @ CHR ''-'' # show_word d \<longleftrightarrow> a = c \<and> b = d"
  using sep_append_inj [of "CHR ''-''" "show_word a" "show_word c" "show_word b" "show_word d"]
  by (auto simp: digits_no_sep)

lemma punchSessionKey_inj [simp]:
  "punchSessionKey s a = punchSessionKey s' a' \<longleftrightarrow> s = s' \<and> a = a'"
  using sep_append_inj [of "CHR '':''" "show_word s" "show_word s'" "show_word a" "show_word a'"]
  by (auto simp: punchSessionKey_def digits_no_sep)

lemma punchPairKey_sym: "punchPairKey a b = punchPairKey b a"
  by (auto simp: punchPairKey_def not_less)

lemma punchPairKey_eq: "punchPairKey a b = punchPairKey c d \<longleftrightarrow> {a, b} = {c, d}"
  unfolding punchPairKey_def by (auto simp: pair_text_inj doubleton_eq_iff split: if_splits)

lemma backoff_bounds:
  "0 < attempt \<Longrightarrow> 2 * Second \<le> retryBackoffDuration attempt" "retryBackoffDuration attempt \<le> 30 * Second"
proof -
  have pow: "(2::int) ^ k \<in> {2, 4, 8, 16, 32}" if "0 < k" "k \<le> 5" for k :: nat
  proof -
    have "k = 1 \<or> k = 2 \<or> k = 3 \<or> k = 4 \<or> k = 5" using that by auto
    then show ?thesis by auto
  qed
  have "0 < unat attempt \<and> unat attempt \<le> 5" if "attempt \<noteq> 0" "\<not> attempt > 5"
    using that by (auto simp: unat_gt_0 not_less word_le_nat_alt)
  then show "0 < attempt \<Longrightarrow> 2 * Second \<le> retryBackoffDuration attempt"
    "retryBackoffDuration attempt \<le> 30 * Second"
    using pow [of "unat attempt"] by (auto simp: retryBackoffDuration_def Let_def Second_def)
qed

section \<open>Claiming a pair\<close>

lemma punchClaim_cooling:
  assumes "em_live now (nc_PunchPairCooldown nc) pairKey \<noteq> None"
  shows "fst (punchClaim now False pairKey he nc) = None"
  using assms by (auto simp: punchClaim_def em_Get_eq)

lemma punchClaim_bounds:
  assumes "fst (punchClaim now manual pairKey he nc) = Some attempt"
  shows "1 \<le> attempt \<and> attempt \<le> maxPunchAttemptsPerPair" and "manual \<Longrightarrow> attempt = 1" and "he"
proof -
  have small: "1 \<le> a + 1 \<and> a + 1 \<le> (3 :: u32)" if "a < 3" for a :: u32
  proof -
    have "unat a < 3" using that by (simp add: word_less_nat_alt)
    then have "a = 0 \<or> a = 1 \<or> a = 2" by (auto simp: word_unat_eq_iff)
    then show ?thesis by auto
  qed
  show "1 \<le> attempt \<and> attempt \<le> maxPunchAttemptsPerPair" "manual \<Longrightarrow> attempt = 1" "he"
    using assms small
    by (auto simp: punchClaim_def Let_def maxPunchAttemptsPerPair_def not_le
        split: prod.splits if_splits option.splits)
qed

section \<open>Who is brought together\<close>

definition introduces :: "u32 \<Rightarrow> string \<times> NetworkInfo \<Rightarrow> Packet \<Rightarrow> bool" where
  "introduces srcIP = (\<lambda>(key, network) p. pk_RouteNetworkKey p = key \<and> pk_AppProto p = AppProtoPunchStart \<and>
     (\<exists>src t c. gget (ni_Clients network) srcIP = Some src \<and> cl_ControlOnline src \<and>
        (t, c) \<in> set (ni_Clients network) \<and> t \<noteq> srcIP \<and> cl_ControlOnline c \<and>
        \<not> clientsPreferRelay src c \<and> (pk_DstIP p = Uint32ToIP srcIP \<or> pk_DstIP p = Uint32ToIP t)))"

lemma candidate_facts:
  "punchCandidate trigger recovery src srcIP (t, c) \<Longrightarrow>
    t \<noteq> srcIP \<and> cl_ControlOnline c \<and> \<not> clientsPreferRelay src c \<and> trigger \<noteq> StatusReportOnly \<and>
    (recovery \<noteq> 0 \<longrightarrow> t = recovery)"
  by (auto simp: punchCandidate_def shouldSuppressPunchStartForStatusUpdate_def
      shouldSuppressPunchStartForOtherTrigger_def split: if_splits)

lemma startPackets_Inr:
  assumes "startPackets marshal frm key a b = Inr ps"
  shows "length ps = 2" and "p \<in> set ps \<Longrightarrow> pk_RouteNetworkKey p = key \<and> pk_AppProto p = AppProtoPunchStart \<and>
    (pk_DstIP p = Uint32ToIP (st_Source a) \<or> pk_DstIP p = Uint32ToIP (st_Source b))"
  using assms by (auto simp: startPackets_def servicePacket_def split: sum.splits)

lemma punchTargets_new:
  assumes "punchTargets env key trigger recovery src srcIP targets packets nc = (Inr (go, ps), nc')"
    and "gget (ni_Clients network) srcIP = Some src" and "cl_ControlOnline src"
    and "set targets \<subseteq> set (ni_Clients network)"
  shows "\<exists>new. ps = packets @ new \<and> (\<forall>p \<in> set new. introduces srcIP (key, network) p) \<and>
    (trigger \<noteq> PunchTriggerManualRequest \<longrightarrow> length new \<le> 2 \<and> (new = [] \<or> \<not> go))"
  using assms(1,4)
proof (induction targets arbitrary: packets nc)
  case Nil
  then show ?case by simp
next
  case (Cons x rest)
  obtain t c where x: "x = (t, c)" by (cases x)
  obtain now clock marshal frm where env: "env = (now, clock, marshal, frm)" by (cases env) auto
  have rest: "set rest \<subseteq> set (ni_Clients network)" and mem: "(t, c) \<in> set (ni_Clients network)"
    using Cons.prems(2) x by auto
  show ?case
  proof (cases "punchCandidate trigger recovery src srcIP (t, c)")
    case False
    then show ?thesis using Cons.IH [OF _ rest] Cons.prems(1) x env by simp
  next
    case True
    let ?he = "buildPunchEndpoints src \<noteq> [] \<and> buildPunchEndpoints c \<noteq> []"
    obtain r nc1 where cl: "punchClaim now (trigger = PunchTriggerManualRequest) (punchPairKey srcIP t) ?he nc = (r, nc1)"
      by (cases "punchClaim now (trigger = PunchTriggerManualRequest) (punchPairKey srcIP t) ?he nc")
    show ?thesis
    proof (cases r)
      case None
      then show ?thesis using Cons.IH [OF _ rest] Cons.prems(1) x env True cl by (simp add: Let_def)
    next
      case (Some attempt)
      let ?id = "word_of_int (clock t) :: u64"
      let ?a = "punchStartOf now ?id srcIP t (buildPunchEndpoints c) attempt trigger"
        and ?b = "punchStartOf now ?id t srcIP (buildPunchEndpoints src) attempt trigger"
      obtain new where new: "startPackets marshal frm key ?a ?b = Inr new"
        using Cons.prems(1) x env True cl Some
        by (cases "startPackets marshal frm key ?a ?b") (simp_all add: Let_def)
      have ok: "\<forall>p \<in> set new. introduces srcIP (key, network) p"
        using startPackets_Inr(2) [OF new] candidate_facts [OF True] mem assms(2,3)
        by (auto simp: introduces_def punchStartOf_def)
      show ?thesis
      proof (cases "recovery \<noteq> 0 \<or> trigger \<noteq> PunchTriggerManualRequest")
        case stop: True
        then have "ps = packets @ new" "\<not> go"
          using Cons.prems(1) x env True cl Some new by (auto simp: Let_def)
        then show ?thesis using ok startPackets_Inr(1) [OF new] by simp
      next
        case False
        let ?nc = "nc1\<lparr>nc_PunchSessions := em_Set now (punchSessionKey ?id attempt)
              (newPunchSession now ?id srcIP t attempt trigger) (nc_PunchSessions nc1),
            nc_PunchPairCooldown := em_Set now (punchPairKey srcIP t) () (nc_PunchPairCooldown nc1)\<rparr>"
        have "punchTargets env key trigger recovery src srcIP rest (packets @ new) ?nc = (Inr (go, ps), nc')"
          using Cons.prems(1) x env True cl Some new False by (simp add: Let_def)
        from Cons.IH [OF this rest] obtain later where "ps = (packets @ new) @ later"
          "\<forall>p \<in> set later. introduces srcIP (key, network) p" by blast
        then show ?thesis using ok False by (intro exI [of _ "new @ later"]) auto
      qed
    qed
  qed
qed

lemma punchNetworks_introduces:
  assumes "punchNetworks env networkKey srcIP nets packets nc = (Inr ps, nc')"
    and "\<forall>p \<in> set packets. \<exists>e \<in> E. introduces srcIP e p"
    and "\<And>key n. (key, n) \<in> set nets \<Longrightarrow> networkKey = [] \<or> key = networkKey \<Longrightarrow> (key, n) \<in> E"
  shows "\<forall>p \<in> set ps. \<exists>e \<in> E. introduces srcIP e p"
  using assms
proof (induction nets arbitrary: packets nc)
  case Nil
  then show ?case by simp
next
  case (Cons x rest)
  obtain key n where x: "x = (key, n)" by (cases x)
  have rest: "(key', n') \<in> set rest \<Longrightarrow> networkKey = [] \<or> key' = networkKey \<Longrightarrow> (key', n') \<in> E" for key' n'
    using Cons.prems(3) by simp
  note skip = Cons.IH [OF _ Cons.prems(2) rest, of nc]
  consider "networkKey \<noteq> [] \<and> key \<noteq> networkKey \<or> gget (ni_Clients n) srcIP = None \<or>
      (\<exists>src. gget (ni_Clients n) srcIP = Some src \<and> (cl_ClientStatus src = None \<or> \<not> cl_ControlOnline src))"
    | src status where "networkKey = [] \<or> key = networkKey" "gget (ni_Clients n) srcIP = Some src"
        "cl_ClientStatus src = Some status" "cl_ControlOnline src"
    by (cases "gget (ni_Clients n) srcIP"; cases "cl_ClientStatus (the (gget (ni_Clients n) srcIP))") auto
  then show ?case
  proof cases
    case 1
    then have "punchNetworks env networkKey srcIP (x # rest) packets nc =
        punchNetworks env networkKey srcIP rest packets nc" using x by (auto split: option.split)
    then show ?thesis using skip Cons.prems(1) by simp
  next
    case 2
    let ?tr = "triggerOf status"
    let ?rec = "if ?tr = PunchTriggerManualRequest then cs_RecoveryPunchTarget status else 0"
    obtain r nc1 where t: "punchTargets env key ?tr ?rec src srcIP (ni_Clients n) packets nc = (r, nc1)"
      by (cases "punchTargets env key ?tr ?rec src srcIP (ni_Clients n) packets nc")
    obtain go qs where r: "r = Inr (go, qs)"
      using Cons.prems(1) x 2 t by (cases r) (auto simp: Let_def)
    have E: "(key, n) \<in> E" using Cons.prems(3) x 2(1) by simp
    have "\<forall>p \<in> set qs. \<exists>e \<in> E. introduces srcIP e p"
    proof
      fix p
      assume p: "p \<in> set qs"
      obtain new where q: "qs = packets @ new"
        and ok: "\<forall>p \<in> set new. introduces srcIP (key, n) p"
        using punchTargets_new [OF t [unfolded r] 2(2,4) order_refl] by blast
      show "\<exists>e \<in> E. introduces srcIP e p" using p q ok Cons.prems(2) E by auto
    qed
    then show ?thesis
      using Cons.IH [OF _ _ rest, of qs nc1] Cons.prems(1) x 2 t r by (cases go) (auto simp: Let_def)
  qed
qed

section \<open>Deadlines\<close>

lemma updateRetry_frame [simp]:
  "nc_PunchSessions (updatePunchRetryState now k st nc) = nc_PunchSessions nc"
  "nc_PunchPairCooldown (updatePunchRetryState now k st nc) = nc_PunchPairCooldown nc"
  "nc_VirtualNetwork (updatePunchRetryState now k st nc) = nc_VirtualNetwork nc"
  by (simp_all add: updatePunchRetryState_def Let_def split: prod.split)

lemma updateRetry_live:
  assumes "0 < now"
  shows "em_live now (nc_PunchPairRetry (updatePunchRetryState now k st nc)) k =
    (if st = PunchSessionSuccess then None
     else if st = PunchSessionFailed \<or> st = PunchSessionTimeout
     then (let a = (case em_live now (nc_PunchPairRetry nc) k of Some s \<Rightarrow> rt_Attempt s | None \<Rightarrow> 0) + 1
           in Some \<lparr>rt_Attempt = a, rt_NextAllowedUnixMs = UnixMilli (now + retryBackoffDuration a)\<rparr>)
     else em_live now (nc_PunchPairRetry nc) k)"
  using assms by (auto simp: updatePunchRetryState_def Let_def em_Get_eq em_live_Set)

abbreviation session_pair :: "PunchSession \<Rightarrow> string" where
  "session_pair s \<equiv> punchPairKey (ps_Source s) (ps_Target s)"

abbreviation reconcile_body where
  "reconcile_body now ms \<equiv> \<lambda>(key, session) nc.
     if overdue ms session
     then (let pairKey = punchPairKey (ps_Source session) (ps_Target session);
               sessions = nc_PunchSessions nc
           in updatePunchRetryState now pairKey PunchSessionTimeout
                (nc\<lparr>nc_PunchSessions := sessions\<lparr>em_data := gput key (expireSession session) (em_data sessions)\<rparr>,
                    nc_PunchPairCooldown := em_Delete pairKey (nc_PunchPairCooldown nc)\<rparr>))
     else nc"

lemma reconcile_fold:
  assumes "distinct (map fst xs)"
  shows "gget (em_data (nc_PunchSessions (fold (reconcile_body now ms) xs nc))) k =
      (case map_of xs k of
         Some s \<Rightarrow> if overdue ms s then Some (expireSession s) else gget (em_data (nc_PunchSessions nc)) k
       | None \<Rightarrow> gget (em_data (nc_PunchSessions nc)) k)"
  using assms
proof (induction xs arbitrary: nc)
  case (Cons x xs)
  obtain key s where x: "x = (key, s)" by (cases x)
  have fresh: "map_of xs key = None" using Cons.prems x by (simp add: map_of_eq_None_iff)
  show ?case
    using Cons.IH Cons.prems x fresh by (cases "overdue ms s") (auto simp: Let_def split: option.split)
qed simp

lemma reconcile_cooldown:
  assumes "em_live t (nc_PunchPairCooldown nc) p = None \<or> (\<exists>(k, s) \<in> set xs. overdue ms s \<and> session_pair s = p)"
  shows "em_live t (nc_PunchPairCooldown (fold (reconcile_body now ms) xs nc)) p = None"
  using assms
proof (induction xs arbitrary: nc)
  case (Cons x xs)
  obtain key s where x: "x = (key, s)" by (cases x)
  show ?case
    using Cons.prems x by (simp add: Let_def) (intro Cons.IH conjI impI; auto)
qed simp

lemma expireSession_done: "\<not> overdue ms (expireSession s)"
  by (simp add: overdue_def expireSession_def)

section \<open>Acknowledgements and results\<close>

lemma findSession_eq:
  "findSession now key nc = (em_live now (nc_PunchSessions nc) key,
     nc\<lparr>nc_PunchSessions := snd (em_Get now key (nc_PunchSessions nc))\<rparr>)"
  by (simp add: findSession_def em_Get_eq)

section \<open>A small network\<close>

text \<open>Two online clients of one network with one public endpoint each, and an open session of theirs.\<close>

definition sample_status :: ClientStatusInfo where
  "sample_status = \<lparr>cs_P2PList = [], cs_PublicUDPEndpoints = [\<lparr>ua_IP = [1, 2, 3, 4], ua_Port = 5000\<rparr>],
     cs_LocalUDPEndpoints = [], cs_UpStream = 0, cs_DownStream = 0, cs_IsCone = True,
     cs_PunchTriggerReason = ''PunchTriggerStatusUpdate'', cs_RecoveryPunchTarget = 0, cs_UpdateTime = 0,
     cs_ExitNodeAdvertised = False, cs_ExitNodeLocalReady = False\<rparr>"

definition sample_client :: "string \<Rightarrow> ClientInfo" where
  "sample_client dev = zero_ClientInfo\<lparr>cl_DeviceId := dev, cl_ControlOnline := True,
     cl_ClientStatus := Some sample_status\<rparr>"

definition sample_network :: NetworkInfo where
  "sample_network = \<lparr>ni_Group = ''g'', ni_Netmask = [255, 255, 255, 0], ni_Gateway = [10, 0, 0, 1],
     ni_Epoch = 65536, ni_Clients = [(2, sample_client ''a''), (3, sample_client ''b'')],
     ni_ClientIPsByDeviceID = [(''a'', 2), (''b'', 3)], ni_ReservedIPs = []\<rparr>"

definition sample_session :: PunchSession where
  "sample_session = (newPunchSession 1 77 2 3 1 PunchTriggerStatusUpdate)
     \<lparr>ps_State := PunchSessionSuccess, ps_Ack := [(2, True)]\<rparr>"

definition sample_nc :: NetworkControl where
  "sample_nc = (with_networks NewNetworkControl [(''g'', sample_network)])
     \<lparr>nc_PunchSessions := em_Set 1 (punchSessionKey 77 1) sample_session (NewExpireMap (600 * Second))\<rparr>"

definition sample_request :: "u8 \<Rightarrow> Packet" where
  "sample_request host = servicePacket 0 [0, 0, 0, host] [10, 0, 0, 1] [0, 1, 0, 0] ''g''"

lemma sample_live: "em_live 10 (nc_PunchSessions sample_nc) (punchSessionKey 77 1) = Some sample_session"
  by (simp add: sample_nc_def em_live_Set NewExpireMap_def Second_def)

lemma sample_ip: "IpToUint32 (pk_SrcIP (sample_request host)) = of_be32 0 0 0 host"
  by (simp add: sample_request_def servicePacket_def)

section \<open>Properties\<close>







text \<open>
  A result settles its session. For a live session the handler stores the outcome, ends the
  cooldown of the pair, and either forgets the retries of the pair, after a success, or counts one
  more with its backoff.
\<close>

theorem punch_result_settles:
  assumes "em_live now (nc_PunchSessions nc) (punchSessionKey (pr_SessionId res) (pr_Attempt res)) = Some s"
    and "pr_Source res = 0 \<or> pr_Source res = IpToUint32 (pk_SrcIP request)" and "0 < now"
  shows "\<exists>nc'. HandlePunchResultPacket now request (Inr res) nc = (Inr (), nc') \<and>
    em_live now (nc_PunchSessions nc') (punchSessionKey (pr_SessionId res) (pr_Attempt res)) =
      Some (applyResult (IpToUint32 (pk_SrcIP request)) res s) \<and>
    em_live now (nc_PunchPairCooldown nc') (session_pair s) = None \<and>
    (if pr_Code res = PunchResultSuccess then em_live now (nc_PunchPairRetry nc') (session_pair s) = None
     else \<exists>r. em_live now (nc_PunchPairRetry nc') (session_pair s) = Some r \<and>
       rt_Attempt r = (case em_live now (nc_PunchPairRetry nc) (session_pair s) of Some s \<Rightarrow> rt_Attempt s | None \<Rightarrow> 0) + 1)"
  using assms
  by (auto simp: HandlePunchResultPacket_def findSession_eq Let_def em_live_Set updateRetry_live
      applyResult_def resultState_def)

theorem punch_result_settles_witness:
  "\<exists>nc'. HandlePunchResultPacket 10 (sample_request 2) (Inr \<lparr>pr_SessionId = 77, pr_Source = 0, pr_Target = 0,
      pr_Attempt = 1, pr_Code = PunchResultTimeout, pr_Reason = ''late'', pr_SelectedEndpoint = None,
      pr_Phase = PunchPhaseTimeout\<rparr>) sample_nc = (Inr (), nc') \<and>
     em_live 10 (nc_PunchPairCooldown nc') (session_pair sample_session) = None"
  using punch_result_settles [where now = 10 and nc = sample_nc and s = sample_session and
      request = "sample_request 2" and res = "\<lparr>pr_SessionId = 77, pr_Source = 0, pr_Target = 0,
      pr_Attempt = 1, pr_Code = PunchResultTimeout, pr_Reason = ''late'', pr_SelectedEndpoint = None,
      pr_Phase = PunchPhaseTimeout\<rparr>"]
  by (auto simp: sample_live)

text \<open>
  An acknowledgement is not checked against the session. A client that takes no part in a session
  can fail it by a refusal, and a late second acknowledgement reopens a session that had succeeded,
  which then times out at its deadline.
\<close>

theorem punch_ack_unguarded:
  assumes "em_live now (nc_PunchSessions nc) (punchSessionKey (ak_SessionId ack) (ak_Attempt ack)) = Some s"
    and "ak_Source ack = 0" and "0 < now" and src: "src = IpToUint32 (pk_SrcIP request)"
  shows "(src \<notin> {ps_Source s, ps_Target s} \<and> \<not> ak_Accepted ack \<longrightarrow>
      (\<exists>s'. em_live now (nc_PunchSessions (snd (HandlePunchAckPacket now request (Inr ack) nc)))
          (punchSessionKey (ak_SessionId ack) (ak_Attempt ack)) = Some s' \<and>
        ps_State s' = PunchSessionFailed \<and> ps_RelayFallback s')) \<and>
    (ps_State s = PunchSessionSuccess \<and> ak_Accepted ack \<and> ps_Ack s = [(ps_Source s, True)] \<and> src \<noteq> ps_Source s \<and>
       0 < ps_DeadlineUnixMs s \<longrightarrow>
      (\<exists>s'. em_live now (nc_PunchSessions (snd (HandlePunchAckPacket now request (Inr ack) nc)))
          (punchSessionKey (ak_SessionId ack) (ak_Attempt ack)) = Some s' \<and>
        ps_State s' = PunchSessionWaiting \<and> overdue (ps_DeadlineUnixMs s + 1) s'))"
  using assms
  by (auto simp: HandlePunchAckPacket_def findSession_eq Let_def em_live_Set applyAck_def overdue_def)

theorem punch_ack_unguarded_witness:
  "\<exists>s'. em_live 10 (nc_PunchSessions (snd (HandlePunchAckPacket 10 (sample_request 3)
      (Inr \<lparr>ak_SessionId = 77, ak_Source = 0, ak_Attempt = 1, ak_Accepted = True, ak_Reason = [],
         ak_Phase = PunchPhaseScheduled\<rparr>) sample_nc))) (punchSessionKey 77 1) = Some s' \<and>
     ps_State s' = PunchSessionWaiting \<and> overdue (ps_DeadlineUnixMs sample_session + 1) s'"
proof -
  have "ps_State sample_session = PunchSessionSuccess" "ps_Ack sample_session = [(ps_Source sample_session, True)]"
    "ps_Source sample_session = 2" "0 < ps_DeadlineUnixMs sample_session"
    by (simp_all add: sample_session_def newPunchSession_def UnixMilli_def Second_def Millisecond_def)
  then show ?thesis
    using punch_ack_unguarded [where now = 10 and nc = sample_nc and s = sample_session and
      request = "sample_request 3" and ack = "\<lparr>ak_SessionId = 77, ak_Source = 0, ak_Attempt = 1,
        ak_Accepted = True, ak_Reason = [], ak_Phase = PunchPhaseScheduled\<rparr>", OF _ _ _ refl]
    by (simp add: sample_live sample_ip of_be32_def word_cat_eq)
qed

text \<open>
  A ping of a registered client is answered with its own time and the epoch of its network, unless
  the low 16 bits of the epoch are zero: then the client is told to disconnect although it is
  registered and was just marked online.
\<close>

theorem ping_reply:
  assumes "gget (networks nc) networkKey = Some n" and "gwf (networks nc)"
    and "gget (ni_Clients n) (IpToUint32 (pk_SrcIP request)) = Some c"
    and "TrimSpace networkKey \<noteq> []" and "pk_AppProto request = ControlPing"
    and "pk_Payload request = BuildPingPayload t e"
  shows "fst (HandleControlPacketInNetwork now addr request networkKey nc) =
    Inr (if (ucast (ni_Epoch n) :: u16) = 0 then buildDisconnectPacket request
         else controlReply ControlPong request (BuildPingPayload t (ucast (ni_Epoch n))))"
proof -
  have touch: "fst (TouchClientByIPInNetwork now networkKey (pk_SrcIP request) nc) = ucast (ni_Epoch n)"
    using touch_epoch [OF assms(1-4)] .
  have parse: "ParsePingPayload (pk_Payload request) = Inr (t, e)"
    using assms(6) by (simp add: ParsePingPayload_def BuildPingPayload_def be16_def)
  show ?thesis
    using assms(5) parse touch
    by (cases "TouchClientByIPInNetwork now networkKey (pk_SrcIP request) nc")
      (simp add: HandleControlPacketInNetwork_def)
qed

theorem ping_reply_witness:
  "fst (HandleControlPacketInNetwork 10 (Inr []) ((sample_request 2)\<lparr>pk_AppProto := ControlPing\<rparr>) ''g'' sample_nc) =
     Inr (buildDisconnectPacket ((sample_request 2)\<lparr>pk_AppProto := ControlPing\<rparr>))"
proof -
  have t: "TrimSpace ''g'' \<noteq> []" by code_simp
  have b: "BuildPingPayload 1 0 = [0, 1, 0, 0]" by code_simp
  show ?thesis
    using ping_reply [where nc = sample_nc and networkKey = "''g''" and n = sample_network and
        request = "(sample_request 2)\<lparr>pk_AppProto := ControlPing\<rparr>" and c = "sample_client ''a''" and t = 1
        and e = 0 and now = 10 and addr = "Inr []", OF _ _ _ t]
    by (simp add: sample_nc_def networks_def with_networks_def gwf_def sample_network_def b
        sample_request_def servicePacket_def of_be32_def word_cat_eq)
qed

end
