(* ===== verification/Config.thy ===== *)
theory Config
  imports Std_Net
begin

text \<open>
  The configuration, \<^verbatim>\<open>config/config.go\<close>: its validation, and how the control plane finds the network of
  a group in it (\<^verbatim>\<open>resolveGroupNetworkConfig\<close>, \<^verbatim>\<open>matchDomainAndGroup\<close>, \<^verbatim>\<open>parseNetmask\<close>,
  \<^verbatim>\<open>resolveDNSServiceIP\<close>, \<^verbatim>\<open>reservedServiceIPs\<close>). The messages of the validation are not in ASCII, so each is
  a constructor of \<open>config_error\<close>. A nil address is the empty list, a map is read in the order in which
  it is listed. \<^verbatim>\<open>LoadConfig\<close> reads a file and is not modelled.
\<close>

unbundle bit_operations_syntax

section \<open>Data\<close>

record GroupConfig =
  gc_Gateway :: netIP
  gc_Netmask :: string
  gc_DNSServiceIP :: string
  gc_DNSServers :: "string list"
  gc_DNSMatchDomains :: "string list"

record DomainConfig =
  dc_Groups :: "(string, GroupConfig) gomap"

record Config =
  cf_Gateway :: netIP
  cf_Domain :: string
  cf_Netmask :: string
  cf_DNSServiceIP :: string
  cf_DNSServers :: "string list"
  cf_DNSMatchDomains :: "string list"
  cf_Groups :: "(string, GroupConfig) gomap"
  cf_DefaultDomain :: string
  cf_Domains :: "(string, DomainConfig) gomap"
  cf_DefaultGatewayID :: string
  cf_GatewayTicketSecret :: string
  cf_DNSServiceAddr :: string
  cf_AutoCertHTTPAddr :: string

text \<open>The other fields are read by the listeners only and are neither checked nor changed here.\<close>

datatype config_error =
  SecretEmpty | ServiceAddrInvalid
| DefaultDomainInvalid | DefaultDomainUnknown | DomainKeyInvalid | DomainGroupsEmpty | GroupKeyInvalid
| GroupsKeyInvalid | DomainInvalid
| GatewayNotIPv4 | GatewayBroadcast | GatewayMulticast | GatewayPublic
| NetmaskNotIPv4 | NetmaskTrivial | NetmaskNotContiguous
| ServersEmptyString | ServersNotIPv4
| MatchDomainsEmptyString | MatchDomainsInvalid
| ServiceIPNotIPv4 string | ServiceIPNeedsNetwork string | ServiceIPNetmaskInvalid string
| ServiceIPIsGateway string | ServiceIPOutOfRange string

definition zero_GroupConfig :: GroupConfig where
  "zero_GroupConfig = \<lparr>gc_Gateway = [], gc_Netmask = [], gc_DNSServiceIP = [], gc_DNSServers = [],
     gc_DNSMatchDomains = []\<rparr>"

definition defaultGatewayID :: string where "defaultGatewayID = ''default''"

section \<open>Names\<close>

definition is_letter :: "char \<Rightarrow> bool" where
  "is_letter c \<longleftrightarrow> (CHR ''a'' \<le> c \<and> c \<le> CHR ''z'') \<or> (CHR ''A'' \<le> c \<and> c \<le> CHR ''Z'')"

definition is_label_char :: "char \<Rightarrow> bool" where
  "is_label_char c \<longleftrightarrow> is_letter c \<or> is_digit c \<or> c = CHR ''-''"

text \<open>\<^verbatim>\<open>^(?:[a-zA-Z0-9-]+\.)+[a-zA-Z]{2,}$\<close>\<close>

definition domainRe :: "string \<Rightarrow> bool" where
  "domainRe s =
     (let parts = split_char (CHR ''.'') s in
      length parts \<ge> 2 \<and> list_all (\<lambda>p. p \<noteq> [] \<and> list_all is_label_char p) (butlast parts) \<and>
      length (last parts) \<ge> 2 \<and> list_all is_letter (last parts))"

text \<open>\<^verbatim>\<open>^[a-zA-Z0-9][a-zA-Z0-9-]{0,62}$\<close>\<close>

definition groupRe :: "string \<Rightarrow> bool" where
  "groupRe s \<longleftrightarrow> s \<noteq> [] \<and> (is_letter (hd s) \<or> is_digit (hd s)) \<and> list_all is_label_char s \<and> length s \<le> 63"

section \<open>Checks\<close>

text \<open>The loop over the bits of the mask, from the highest: no one after a zero.\<close>

fun maskLoop :: "nat \<Rightarrow> u32 \<Rightarrow> bool \<Rightarrow> config_error option" where
  "maskLoop 0 val foundZero = None"
| "maskLoop (Suc i) val foundZero =
     (if val AND push_bit i 1 = 0 then maskLoop i val True
      else if foundZero then Some NetmaskNotContiguous
      else maskLoop i val foundZero)"

definition privateIPv4 :: "bytes \<Rightarrow> bool" where
  "privateIPv4 b \<longleftrightarrow>
     b ! 0 = 10 \<or> (b ! 0 = 172 \<and> b ! 1 \<ge> 16 \<and> b ! 1 \<le> 31) \<or> (b ! 0 = 192 \<and> b ! 1 = 168)"

definition validateGatewayAndNetmask :: "netIP \<Rightarrow> string \<Rightarrow> config_error option" where
  "validateGatewayAndNetmask gateway netmaskStr =
     (case To4 gateway of
        None \<Rightarrow> Some GatewayNotIPv4
      | Some b \<Rightarrow>
          if b ! 3 = 255 then Some GatewayBroadcast
          else if b ! 0 \<ge> 224 \<and> b ! 0 \<le> 239 then Some GatewayMulticast
          else if \<not> privateIPv4 b then Some GatewayPublic
          else case ParseIP_To4 netmaskStr of
            None \<Rightarrow> Some NetmaskNotIPv4
          | Some netmask \<Rightarrow>
              (let val = MaskToUint32 netmask in
               if val = 0 \<or> val = 0xFFFFFFFF then Some NetmaskTrivial else maskLoop 32 val False))"

fun firstError :: "('a \<Rightarrow> config_error option) \<Rightarrow> 'a list \<Rightarrow> config_error option" where
  "firstError f [] = None"
| "firstError f (x # xs) = (case f x of Some e \<Rightarrow> Some e | None \<Rightarrow> firstError f xs)"

definition validateDNSServers :: "string list \<Rightarrow> config_error option" where
  "validateDNSServers servers =
     firstError (\<lambda>server. if TrimSpace server = [] then Some ServersEmptyString
                          else if ParseIP_To4 (TrimSpace server) = None then Some ServersNotIPv4
                          else None) servers"

definition validateDNSMatchDomains :: "string list \<Rightarrow> config_error option" where
  "validateDNSMatchDomains domains =
     firstError (\<lambda>domain. if TrimSpace domain = [] then Some MatchDomainsEmptyString
                          else if \<not> domainRe (TrimSpace domain) then Some MatchDomainsInvalid
                          else None) domains"

definition validateServiceIP :: "string \<Rightarrow> netIP \<Rightarrow> string \<Rightarrow> string \<Rightarrow> config_error option" where
  "validateServiceIP serviceIP0 gateway netmaskStr field =
     (let serviceIP = TrimSpace serviceIP0 in
      if serviceIP = [] then None
      else case ParseIP_To4 serviceIP of
        None \<Rightarrow> Some (ServiceIPNotIPv4 field)
      | Some requested \<Rightarrow>
          if To4 gateway = None \<or> TrimSpace netmaskStr = [] then Some (ServiceIPNeedsNetwork field)
          else case ParseIP_To4 netmaskStr of
            None \<Rightarrow> Some (ServiceIPNetmaskInvalid field)
          | Some msk \<Rightarrow>
              (let gw = IpToUint32 gateway; m = MaskToUint32 msk; service = IpToUint32 requested in
               if Some requested = To4 gateway then Some (ServiceIPIsGateway field)
               else if service < firstIP gw m \<or> service > lastIP gw m then Some (ServiceIPOutOfRange field)
               else None))"

text \<open>A sequence of checks: the first error.\<close>

fun checks :: "config_error option list \<Rightarrow> config_error option" where
  "checks [] = None"
| "checks (r # rs) = (case r of Some e \<Rightarrow> Some e | None \<Rightarrow> checks rs)"

definition validateGroup :: "string \<Rightarrow> GroupConfig \<Rightarrow> config_error option" where
  "validateGroup field gc =
     checks [validateGatewayAndNetmask (gc_Gateway gc) (gc_Netmask gc),
             validateServiceIP (gc_DNSServiceIP gc) (gc_Gateway gc) (gc_Netmask gc) field,
             validateDNSServers (gc_DNSServers gc), validateDNSMatchDomains (gc_DNSMatchDomains gc)]"

definition fail_if :: "bool \<Rightarrow> config_error \<Rightarrow> config_error option" where
  "fail_if b e = (if b then Some e else None)"

section \<open>Validation\<close>

definition orDefault :: "string \<Rightarrow> string \<Rightarrow> string" where
  "orDefault s d = (if TrimSpace s = [] then d else s)"

definition validateDomains :: "Config \<Rightarrow> config_error option" where
  "validateDomains c =
     checks [fail_if (\<not> domainRe (cf_DefaultDomain c)) DefaultDomainInvalid,
             fail_if (gget (cf_Domains c) (cf_DefaultDomain c) = None) DefaultDomainUnknown,
             firstError (\<lambda>(domain, dc).
               checks [fail_if (\<not> domainRe domain) DomainKeyInvalid,
                       fail_if (dc_Groups dc = []) DomainGroupsEmpty,
                       firstError (\<lambda>(grp, gc).
                         checks [fail_if (\<not> groupRe grp) GroupKeyInvalid,
                                 validateGroup ''domains.<domain>.groups.<group>.dns_service_ip'' gc])
                         (dc_Groups dc)])
               (cf_Domains c)]"

definition validateSingle :: "Config \<Rightarrow> config_error option" where
  "validateSingle c =
     checks [validateGatewayAndNetmask (cf_Gateway c) (cf_Netmask c),
             validateServiceIP (cf_DNSServiceIP c) (cf_Gateway c) (cf_Netmask c) ''dns_service_ip'',
             validateDNSServers (cf_DNSServers c), validateDNSMatchDomains (cf_DNSMatchDomains c),
             fail_if (\<not> domainRe (cf_Domain c)) DomainInvalid]"

definition validateGroups :: "Config \<Rightarrow> config_error option" where
  "validateGroups c =
     checks [firstError (\<lambda>(grp, gc).
               checks [fail_if (\<not> domainRe grp) GroupsKeyInvalid,
                       validateGroup ''groups.<group>.dns_service_ip'' gc]) (cf_Groups c),
             (if cf_Domain c = [] then None
              else checks [fail_if (\<not> domainRe (cf_Domain c)) DomainInvalid,
                           validateGatewayAndNetmask (cf_Gateway c) (cf_Netmask c)]),
             validateServiceIP (cf_DNSServiceIP c) (cf_Gateway c) (cf_Netmask c) ''dns_service_ip'',
             validateDNSServers (cf_DNSServers c), validateDNSMatchDomains (cf_DNSMatchDomains c)]"

text \<open>
  \<^verbatim>\<open>Validate\<close> fills in defaults as it goes; the second component is the configuration afterwards.
\<close>

definition Validate :: "Config \<Rightarrow> config_error option \<times> Config" where
  "Validate c0 =
     (let c1 = c0\<lparr>cf_DefaultGatewayID := orDefault (cf_DefaultGatewayID c0) defaultGatewayID\<rparr> in
      if TrimSpace (cf_GatewayTicketSecret c1) = [] then (Some SecretEmpty, c1)
      else
        (let c2 = c1\<lparr>cf_DNSServiceAddr := orDefault (cf_DNSServiceAddr c1) ''127.0.0.1:53''\<rparr> in
         if SplitHostPort (cf_DNSServiceAddr c2) = None then (Some ServiceAddrInvalid, c2)
         else
           (let c3 = c2\<lparr>cf_AutoCertHTTPAddr := orDefault (cf_AutoCertHTTPAddr c2) '':80''\<rparr> in
            if cf_Domains c3 \<noteq> []
            then (case checks [validateDNSServers (cf_DNSServers c3),
                               validateServiceIP (cf_DNSServiceIP c3) (cf_Gateway c3) (cf_Netmask c3) ''dns_service_ip'',
                               validateDNSMatchDomains (cf_DNSMatchDomains c3)] of
                    Some e \<Rightarrow> (Some e, c3)
                  | None \<Rightarrow>
                      (let c4 = c3\<lparr>cf_DefaultDomain := orDefault (cf_DefaultDomain c3) ''ms.net''\<rparr>
                       in (validateDomains c4, c4)))
            else if cf_Groups c3 = [] then (validateSingle c3, c3)
            else (validateGroups c3, c3))))"

definition EffectiveDefaultDomain :: "Config \<Rightarrow> string" where
  "EffectiveDefaultDomain c =
     (if TrimSpace (cf_DefaultDomain c) \<noteq> [] then cf_DefaultDomain c
      else if TrimSpace (cf_Domain c) \<noteq> [] then cf_Domain c
      else case cf_Domains c of (domain, _) # _ \<Rightarrow> domain | [] \<Rightarrow> [])"

section \<open>The network of a group\<close>

definition parseNetmask :: "string \<Rightarrow> netMask result" where
  "parseNetmask netmask =
     (case ParseIP_To4 netmask of
        Some m \<Rightarrow> Inr m | None \<Rightarrow> Inl (''invalid netmask '' @ netmask))"

definition networkOf :: "netIP \<Rightarrow> string \<Rightarrow> (netIP \<times> netMask) result" where
  "networkOf gateway netmask =
     (case parseNetmask netmask of Inl err \<Rightarrow> Inl err | Inr m \<Rightarrow> Inr (gateway, m))"

definition bestDomain :: "string \<Rightarrow> (string, DomainConfig) gomap \<Rightarrow> string" where
  "bestDomain token domains =
     fold (\<lambda>(domain, _) best.
             if HasSuffix token (''.'' @ domain) \<and> length domain > length best then domain else best)
       domains []"

definition matchDomainAndGroup ::
    "string \<Rightarrow> (string, DomainConfig) gomap \<Rightarrow> (string \<times> string) option" where
  "matchDomainAndGroup token domains =
     (let best = bestDomain token domains in
      if best = [] then None
      else (let grp = TrimSpace (TrimSuffix token (''.'' @ best)) in
            if grp = [] then None else Some (best, grp)))"

definition domainGroup :: "Config \<Rightarrow> string \<Rightarrow> string \<Rightarrow> GroupConfig option" where
  "domainGroup c domainName groupName =
     Option.bind (gget (cf_Domains c) domainName) (\<lambda>dc. gget (dc_Groups dc) groupName)"

definition resolveGroupNetworkConfig :: "Config \<Rightarrow> string \<Rightarrow> (netIP \<times> netMask) result" where
  "resolveGroupNetworkConfig c grp =
     (if cf_Domains c \<noteq> []
      then (case matchDomainAndGroup grp (cf_Domains c) of
              None \<Rightarrow> Inl (''group '' @ grp @ '' not configured in domains (expect <group>.<domain>)'')
            | Some (domainName, groupName) \<Rightarrow>
                (case domainGroup c domainName groupName of
                   None \<Rightarrow> Inl (''group '' @ groupName @ '' not configured under domain '' @ domainName)
                 | Some gc \<Rightarrow> networkOf (gc_Gateway gc) (gc_Netmask gc)))
      else if cf_Groups c \<noteq> []
      then (case gget (cf_Groups c) grp of
              None \<Rightarrow> Inl (''group '' @ grp @ '' not configured'')
            | Some gc \<Rightarrow> networkOf (gc_Gateway gc) (gc_Netmask gc))
      else if cf_Domain c \<noteq> [] \<and> grp \<noteq> cf_Domain c
      then Inl (''RegistrationRequest domain '' @ grp @ '' mismatch config domain '' @ cf_Domain c)
      else networkOf (cf_Gateway c) (cf_Netmask c))"

text \<open>A group that is missing reads as the zero value, as in the source.\<close>

definition resolveDNSServiceIP :: "Config \<Rightarrow> string \<Rightarrow> string" where
  "resolveDNSServiceIP c group0 =
     (let grp = ToLower (TrimSpace group0);
          pick = (\<lambda>gc. if TrimSpace (gc_DNSServiceIP gc) \<noteq> [] then TrimSpace (gc_DNSServiceIP gc)
                       else TrimSpace (cf_DNSServiceIP c))
      in if cf_Domains c \<noteq> []
         then (case matchDomainAndGroup grp (cf_Domains c) of
                 None \<Rightarrow> []
               | Some (domainName, groupName) \<Rightarrow>
                   pick (case domainGroup c domainName groupName of Some gc \<Rightarrow> gc | None \<Rightarrow> zero_GroupConfig))
         else if cf_Groups c \<noteq> []
         then (case gget (cf_Groups c) grp of None \<Rightarrow> [] | Some gc \<Rightarrow> pick gc)
         else TrimSpace (cf_DNSServiceIP c))"

definition reservedServiceIPs :: "Config \<Rightarrow> string \<Rightarrow> (u32, string) gomap" where
  "reservedServiceIPs c grp =
     (let ip = TrimSpace (resolveDNSServiceIP c grp) in
      if ip = [] then []
      else case ParseIP_To4 ip of Some b \<Rightarrow> [(IpToUint32 b, ''dns_service_ip'')] | None \<Rightarrow> [])"

section \<open>Lemmas\<close>

lemma networkOf_Inr: "networkOf gw s = Inr (gw', m) \<longleftrightarrow> gw' = gw \<and> parseNetmask s = Inr m"
  by (auto simp: networkOf_def split: sum.split)

lemma checks_None: "checks rs = None \<longleftrightarrow> (\<forall>r \<in> set rs. r = None)"
  by (induction rs) (auto split: option.split)

declare checks.simps [simp del]

lemma firstError_None: "firstError f xs = None \<longleftrightarrow> (\<forall>x \<in> set xs. f x = None)"
  by (induction xs) (auto split: option.split)

lemma fail_if_None [simp]: "fail_if b e = None \<longleftrightarrow> \<not> b"
  by (simp add: fail_if_def)

text \<open>The loop accepts exactly the masks that are ones followed by zeros.\<close>

lemma maskLoop_None:
  "i \<le> 32 \<Longrightarrow> maskLoop i val z = None \<longleftrightarrow>
     (if z then \<forall>j < i. \<not> bit val j else \<exists>k \<le> i. \<forall>j < i. bit val j \<longleftrightarrow> k \<le> j)"
proof (induction i val z rule: maskLoop.induct)
  case (2 i val z)
  have b: "val AND push_bit i 1 = 0 \<longleftrightarrow> \<not> bit val i"
    by (simp add: push_bit_eq_mult and_exp_eq_0_iff_not_bit)
  show ?case
  proof (cases "bit val i")
    case False
    then have "maskLoop (Suc i) val z = None \<longleftrightarrow> (\<forall>j < i. \<not> bit val j)" using 2 b by simp
    also have "\<dots> \<longleftrightarrow> (if z then \<forall>j < Suc i. \<not> bit val j else \<exists>k \<le> Suc i. \<forall>j < Suc i. bit val j \<longleftrightarrow> k \<le> j)"
      using False by (auto simp: less_Suc_eq intro!: exI [of _ "Suc i"])
    finally show ?thesis .
  next
    case True
    then have "maskLoop (Suc i) val z = None \<longleftrightarrow> \<not> z \<and> (\<exists>k \<le> i. \<forall>j < i. bit val j \<longleftrightarrow> k \<le> j)" using 2 b by auto
    also have "\<dots> \<longleftrightarrow> (if z then \<forall>j < Suc i. \<not> bit val j else \<exists>k \<le> Suc i. \<forall>j < Suc i. bit val j \<longleftrightarrow> k \<le> j)"
      using True by (auto simp: less_Suc_eq le_Suc_eq)
    finally show ?thesis .
  qed
qed simp

lemma contiguous_mask:
  assumes "maskLoop 32 val False = None" and "val \<noteq> 0" and "val \<noteq> 0xFFFFFFFF"
  shows "\<exists>k. 1 \<le> k \<and> k \<le> 31 \<and> val = NOT (mask k)"
proof -
  obtain k where k: "k \<le> 32" "\<forall>j < 32. bit val j \<longleftrightarrow> k \<le> j"
    using assms(1) maskLoop_None [of 32 val False] by auto
  have "val = NOT (mask k)"
    by (rule bit_word_eqI) (use k(2) in \<open>auto simp: bit_not_iff bit_mask_iff not_less\<close>)
  moreover have "NOT (mask 0 :: u32) = 0xFFFFFFFF" and "NOT (mask 32 :: u32) = 0" by code_simp+
  then have "k \<noteq> 0" and "k \<noteq> 32" using calculation assms(2,3) by metis+
  ultimately show ?thesis using k(1) by (intro exI [of _ k]) auto
qed

definition proper_network :: "netIP \<Rightarrow> netMask \<Rightarrow> bool" where
  "proper_network gw m \<longleftrightarrow>
     (\<exists>b. To4 gw = Some b \<and> privateIPv4 b \<and> b ! 3 \<noteq> 255) \<and> length m = 4 \<and>
     (\<exists>k. 1 \<le> k \<and> k \<le> 31 \<and> MaskToUint32 m = NOT (mask k))"

lemma validate_network:
  assumes "validateGatewayAndNetmask gw s = None"
  shows "\<exists>m. parseNetmask s = Inr m \<and> proper_network gw m"
proof -
  obtain b where b: "To4 gw = Some b" using assms by (cases "To4 gw") (auto simp: validateGatewayAndNetmask_def)
  obtain m where m: "ParseIP_To4 s = Some m"
    using assms b by (cases "ParseIP_To4 s") (auto simp: validateGatewayAndNetmask_def split: if_splits)
  have "b ! 3 \<noteq> 255 \<and> privateIPv4 b \<and> MaskToUint32 m \<noteq> 0 \<and> MaskToUint32 m \<noteq> 0xFFFFFFFF \<and>
      maskLoop 32 (MaskToUint32 m) False = None"
    using assms b m by (auto simp: validateGatewayAndNetmask_def Let_def split: if_splits)
  with b m contiguous_mask ParseIP_To4_length show ?thesis
    by (auto simp: parseNetmask_def proper_network_def)
qed

lemma TrimSpace_labels:
  assumes "list_all is_label_char s"
  shows "TrimSpace s = s"
proof -
  have sp: "list_all (list_all (\<lambda>c. \<not> is_label_char c)) space_seqs" by code_simp
  have none: "find (\<lambda>t. t \<noteq> [] \<and> prefix t u) toks = None"
    if "set u \<subseteq> set s" and "\<And>t. t \<in> set toks \<Longrightarrow> list_all (\<lambda>c. \<not> is_label_char c) t" for u toks
  proof -
    have "\<not> prefix t u" if t: "t \<in> set toks" "t \<noteq> []" for t
    proof
      assume "prefix t u"
      then have "hd t \<in> set s" using t(2) that(1) \<open>set u \<subseteq> set s\<close> set_mono_prefix hd_in_set by blast
      then show False using assms t that(2) \<open>\<And>t. t \<in> set toks \<Longrightarrow> list_all (\<lambda>c. \<not> is_label_char c) t\<close>
        by (metis hd_in_set list_all_iff)
    qed
    then show ?thesis by (auto simp: find_None_iff)
  qed
  have "strip_tokens space_seqs s = s"
    by (rule strip_tokens_fix) (rule none, use sp in \<open>auto simp: list_all_iff\<close>)
  moreover have "strip_tokens (map rev space_seqs) (rev s) = rev s"
    by (rule strip_tokens_fix) (rule none, use sp in \<open>auto simp: list_all_iff\<close>)
  ultimately show ?thesis by (simp add: TrimSpace_def)
qed

section \<open>Domains\<close>

lemma split_char_not_Nil [simp]: "split_char sep s \<noteq> []"
  by (induction s) (auto split: list.split)

lemma domainRe_not_Nil: "domainRe d \<Longrightarrow> d \<noteq> []"
  by (auto simp: domainRe_def)

lemma groupRe_plain:
  assumes "groupRe g"
  shows "g \<noteq> []" and "TrimSpace g = g" and "CHR ''.'' \<notin> set g"
proof -
  have "\<not> is_label_char (CHR ''.'')" by code_simp
  then show "g \<noteq> []" and "TrimSpace g = g" and "CHR ''.'' \<notin> set g"
    using assms TrimSpace_labels by (auto simp: groupRe_def list_all_iff)
qed

lemma same_length_suffix: "suffix a t \<Longrightarrow> suffix b t \<Longrightarrow> length a = length b \<Longrightarrow> a = b"
  by (auto simp: suffix_def append_eq_append_conv)

text \<open>A group without a dot determines its domain: no longer domain fits.\<close>

lemma suffix_dot_unique:
  assumes "suffix (''.'' @ d') (g @ ''.'' @ d)" and "CHR ''.'' \<notin> set g" and "length d < length d'"
  shows False
proof -
  obtain p where p: "g @ ''.'' @ d = p @ ''.'' @ d'" using assms(1) by (auto simp: suffix_def)
  from arg_cong [OF p, of length] have "length g + length d = length p + length d'" by simp
  then have "length p < length g" using assms(3) by linarith
  then have "(g @ ''.'' @ d) ! length p = g ! length p" by (simp add: nth_append)
  moreover have "(p @ ''.'' @ d') ! length p = CHR ''.''" by (simp add: nth_append)
  ultimately show False using p \<open>length p < length g\<close> assms(2) nth_mem by metis
qed

lemma best_fold:
  assumes "\<And>d' dc. (d', dc) \<in> set ds \<Longrightarrow> HasSuffix t (''.'' @ d') \<Longrightarrow> length d' \<le> length d"
    and "length best \<le> length d" and "HasSuffix t (''.'' @ d)" and "best = d \<or> (d \<in> fst ` set ds \<and> length best < length d)"
  shows "fold (\<lambda>(dm, _) best. if HasSuffix t (''.'' @ dm) \<and> length dm > length best then dm else best) ds best = d"
  using assms
proof (induction ds arbitrary: best)
  case (Cons x ds)
  obtain dm dc where x: "x = (dm, dc)" by fastforce
  let ?b = "if HasSuffix t (''.'' @ dm) \<and> length dm > length best then dm else best"
  have le: "HasSuffix t (''.'' @ dm) \<Longrightarrow> length dm \<le> length d" using Cons.prems(1) [of dm dc] x by simp
  have eq: "HasSuffix t (''.'' @ dm) \<Longrightarrow> length dm = length d \<Longrightarrow> dm = d"
    using Cons.prems(3) same_length_suffix [of "''.'' @ dm" t "''.'' @ d"] by (simp add: HasSuffix_def)
  have "fold (\<lambda>(dm, _) best. if HasSuffix t (''.'' @ dm) \<and> length dm > length best then dm else best) ds ?b = d"
  proof (rule Cons.IH)
    show "length ?b \<le> length d" using le Cons.prems(2) by auto
    show "?b = d \<or> (d \<in> fst ` set ds \<and> length ?b < length d)"
      using Cons.prems(3,4) le eq x by (cases "dm = d") force+
  qed (use Cons.prems x in auto)
  then show ?case using x by simp
qed simp

lemma matchDomain_own:
  assumes "gget domains d = Some dc" and "\<And>d' dc'. (d', dc') \<in> set domains \<Longrightarrow> domainRe d'" and "groupRe g"
  shows "matchDomainAndGroup (g @ ''.'' @ d) domains = Some (d, g)"
proof -
  have d: "(d, dc) \<in> set domains" using assms(1) gget_Some_in by fastforce
  then have ne: "d \<noteq> []" using assms(2) domainRe_not_Nil by blast
  have "HasSuffix (g @ ''.'' @ d) (''.'' @ d') \<Longrightarrow> length d' \<le> length d" for d'
    using suffix_dot_unique groupRe_plain(3) [OF assms(3)] by (metis HasSuffix_def not_less)
  moreover have "HasSuffix (g @ ''.'' @ d) (''.'' @ d)" by (simp add: HasSuffix_def suffix_def)
  ultimately have "bestDomain (g @ ''.'' @ d) domains = d"
    unfolding bestDomain_def by (intro best_fold) (use d ne in force)+
  with ne groupRe_plain(1,2) [OF assms(3)] show ?thesis
    by (simp add: matchDomainAndGroup_def TrimSuffix_def suffix_def Let_def)
qed

lemma matchDomain_Some:
  assumes "matchDomainAndGroup t domains = Some (d, g)"
  shows "g \<noteq> []" and "d \<in> fst ` set domains"
proof -
  have "fold (\<lambda>(dm, _) best. if HasSuffix t (''.'' @ dm) \<and> length dm > length best then dm else best) ds b
      \<in> insert b (fst ` set ds)" for ds :: "(string, DomainConfig) gomap" and b
    by (induction ds arbitrary: b) (auto, (metis (mono_tags, lifting) insertE image_eqI fst_conv)+)
  then show "d \<in> fst ` set domains" and "g \<noteq> []"
    using assms by (auto simp: matchDomainAndGroup_def bestDomain_def Let_def split: if_splits)
qed

section \<open>What a validated configuration has\<close>

lemma validate_group: "validateGroup f gc = None \<Longrightarrow> validateGatewayAndNetmask (gc_Gateway gc) (gc_Netmask gc) = None"
  by (simp add: validateGroup_def checks_None)

lemma Validate_cases:
  assumes "Validate c = (None, c')"
  obtains (domains) "cf_Domains c' \<noteq> []" "validateDomains c' = None"
  | (single) "cf_Domains c' = []" "cf_Groups c' = []" "validateSingle c' = None"
  | (groups) "cf_Domains c' = []" "cf_Groups c' \<noteq> []" "validateGroups c' = None"
  using assms by (auto simp: Validate_def Let_def split: if_splits option.splits)

lemma validated_domain:
  assumes "validateDomains c = None" and "(d, dc) \<in> set (cf_Domains c)"
  shows "domainRe d" and "(g, gc) \<in> set (dc_Groups dc) \<Longrightarrow>
    groupRe g \<and> validateGatewayAndNetmask (gc_Gateway gc) (gc_Netmask gc) = None"
proof -
  have d: "domainRe d \<and> firstError (\<lambda>(grp, gc). checks [fail_if (\<not> groupRe grp) GroupKeyInvalid,
      validateGroup ''domains.<domain>.groups.<group>.dns_service_ip'' gc]) (dc_Groups dc) = None"
    using assms by (auto simp: validateDomains_def checks_None firstError_None [of _ "cf_Domains c"])
  then show "domainRe d" by simp
  show "groupRe g \<and> validateGatewayAndNetmask (gc_Gateway gc) (gc_Netmask gc) = None"
    if "(g, gc) \<in> set (dc_Groups dc)"
    using bspec [OF iffD1 [OF firstError_None conjunct2 [OF d]] that] by (auto simp: checks_None dest: validate_group)
qed

lemma validated_groups:
  assumes "validateGroups c = None" and "(g, gc) \<in> set (cf_Groups c)"
  shows "validateGatewayAndNetmask (gc_Gateway gc) (gc_Netmask gc) = None"
  using assms by (auto simp: validateGroups_def checks_None firstError_None dest!: bspec dest: validate_group)

lemma validated_domain_group:
  assumes "validateDomains c = None" and "gget (cf_Domains c) d = Some dc" and "gget (dc_Groups dc) g = Some gc"
  shows "\<exists>m. parseNetmask (gc_Netmask gc) = Inr m \<and> proper_network (gc_Gateway gc) m"
    and "matchDomainAndGroup (g @ ''.'' @ d) (cf_Domains c) = Some (d, g)"
proof -
  show "\<exists>m. parseNetmask (gc_Netmask gc) = Inr m \<and> proper_network (gc_Gateway gc) m"
    using assms validated_domain(2) [OF assms(1)] validate_network gget_Some_in by metis
  show "matchDomainAndGroup (g @ ''.'' @ d) (cf_Domains c) = Some (d, g)"
    using assms matchDomain_own validated_domain [OF assms(1)] gget_Some_in by metis
qed

lemma validated_group:
  assumes "validateGroups c = None" and "gget (cf_Groups c) g = Some gc"
  shows "\<exists>m. parseNetmask (gc_Netmask gc) = Inr m \<and> proper_network (gc_Gateway gc) m"
  using assms validated_groups [OF assms(1)] validate_network gget_Some_in by metis

lemma validated_single:
  assumes "validateSingle c = None"
  shows "\<exists>m. parseNetmask (cf_Netmask c) = Inr m \<and> proper_network (cf_Gateway c) m"
  by (rule validate_network) (use assms in \<open>simp add: validateSingle_def checks_None\<close>)

lemma validated_proper:
  assumes "Validate c = (None, c')" and r: "resolveGroupNetworkConfig c' grp = Inr (gw, m)"
  shows "proper_network gw m"
  using assms(1)
proof (cases rule: Validate_cases)
  case domains
  obtain d g where dg: "matchDomainAndGroup grp (cf_Domains c') = Some (d, g)"
    using r domains(1) by (cases "matchDomainAndGroup grp (cf_Domains c')") (auto simp: resolveGroupNetworkConfig_def)
  obtain gc where gc: "domainGroup c' d g = Some gc"
    using r domains(1) dg by (cases "domainGroup c' d g") (auto simp: resolveGroupNetworkConfig_def)
  then obtain dc where "gget (cf_Domains c') d = Some dc" "gget (dc_Groups dc) g = Some gc"
    by (auto simp: domainGroup_def bind_eq_Some_conv)
  from validated_domain_group(1) [OF domains(2) this] r domains(1) dg gc show ?thesis
    by (auto simp: resolveGroupNetworkConfig_def networkOf_Inr)
next
  case single
  from validated_single [OF single(3)] r single(1,2) show ?thesis
    by (auto simp: resolveGroupNetworkConfig_def networkOf_Inr split: if_splits)
next
  case groups
  obtain gc where gc: "gget (cf_Groups c') grp = Some gc"
    using r groups(1,2) by (cases "gget (cf_Groups c') grp") (auto simp: resolveGroupNetworkConfig_def)
  from validated_group [OF groups(3) this] r groups(1,2) gc show ?thesis
    by (auto simp: resolveGroupNetworkConfig_def networkOf_Inr)
qed

text \<open>
  C16: a validated configuration only describes proper networks. Whatever group a client names, the lookup
  fails or yields a private IPv4 gateway and a mask of between 1 and 31 ones followed by zeros. Every group of
  the configuration is found under its own name, also when the name of one domain ends in another.
\<close>

theorem validated_networks:
  assumes "Validate c = (None, c')"
  shows "(\<forall>grp gw m. resolveGroupNetworkConfig c' grp = Inr (gw, m) \<longrightarrow> proper_network gw m) \<and>
    (\<forall>d dc g gc. gget (cf_Domains c') d = Some dc \<and> gget (dc_Groups dc) g = Some gc \<longrightarrow>
       (\<exists>m. resolveGroupNetworkConfig c' (g @ ''.'' @ d) = Inr (gc_Gateway gc, m))) \<and>
    (\<forall>g gc. cf_Domains c' = [] \<and> gget (cf_Groups c') g = Some gc \<longrightarrow>
       (\<exists>m. resolveGroupNetworkConfig c' g = Inr (gc_Gateway gc, m))) \<and>
    (cf_Domains c' = [] \<and> cf_Groups c' = [] \<longrightarrow>
       (\<exists>m. resolveGroupNetworkConfig c' (cf_Domain c') = Inr (cf_Gateway c', m)))"
proof -
  have proper: "\<forall>grp gw m. resolveGroupNetworkConfig c' grp = Inr (gw, m) \<longrightarrow> proper_network gw m"
    using validated_proper [OF assms] by blast
  from assms show ?thesis
  proof (cases rule: Validate_cases)
    case domains
    have "\<exists>m. resolveGroupNetworkConfig c' (g @ ''.'' @ d) = Inr (gc_Gateway gc, m)"
      if "gget (cf_Domains c') d = Some dc" "gget (dc_Groups dc) g = Some gc" for d dc g gc
      using validated_domain_group [OF domains(2) that] that domains(1)
      by (auto simp: resolveGroupNetworkConfig_def domainGroup_def networkOf_Inr)
    then show ?thesis using proper domains(1) by blast
  next
    case single
    from validated_single [OF single(3)] single(1,2) proper show ?thesis
      by (auto simp: resolveGroupNetworkConfig_def networkOf_Inr)
  next
    case groups
    have "\<exists>m. resolveGroupNetworkConfig c' g = Inr (gc_Gateway gc, m)" if "gget (cf_Groups c') g = Some gc" for g gc
      using validated_group [OF groups(3) that] that groups(1,2) by (auto simp: resolveGroupNetworkConfig_def networkOf_Inr)
    then show ?thesis using proper groups(1,2) by auto
  qed
qed

definition sample_config :: Config where
  "sample_config = \<lparr>cf_Gateway = [], cf_Domain = [], cf_Netmask = [], cf_DNSServiceIP = [], cf_DNSServers = [],
     cf_DNSMatchDomains = [], cf_Groups = [], cf_DefaultDomain = [],
     cf_Domains =
       [(''ms.net'', \<lparr>dc_Groups = [(''dev'', \<lparr>gc_Gateway = [10, 0, 0, 1], gc_Netmask = ''255.255.255.0'',
            gc_DNSServiceIP = ''10.0.0.53'', gc_DNSServers = [], gc_DNSMatchDomains = []\<rparr>)]\<rparr>),
        (''dev.ms.net'', \<lparr>dc_Groups = [(''qa'', \<lparr>gc_Gateway = [10, 1, 0, 1], gc_Netmask = ''255.255.0.0'',
            gc_DNSServiceIP = [], gc_DNSServers = [], gc_DNSMatchDomains = []\<rparr>)]\<rparr>)],
     cf_DefaultGatewayID = [], cf_GatewayTicketSecret = ''k'', cf_DNSServiceAddr = [], cf_AutoCertHTTPAddr = []\<rparr>"

definition sample_validated :: Config where
  "sample_validated = sample_config\<lparr>cf_DefaultDomain := ''ms.net'', cf_DefaultGatewayID := ''default'',
     cf_DNSServiceAddr := ''127.0.0.1:53'', cf_AutoCertHTTPAddr := '':80''\<rparr>"

lemma sample_validates: "Validate sample_config = (None, sample_validated) \<and> Validate sample_validated = (None, sample_validated)"
  by code_simp

lemmas sample_config_valid = sample_validates [THEN conjunct1]
lemmas sample_validated_valid = sample_validates [THEN conjunct2]

theorem validated_networks_witness:
  "\<exists>m. Validate sample_config = (None, sample_validated) \<and>
     resolveGroupNetworkConfig sample_validated ''dev.ms.net'' = Inr ([10, 0, 0, 1], m) \<and> proper_network [10, 0, 0, 1] m"
proof -
  have "resolveGroupNetworkConfig sample_validated ''dev.ms.net'' = Inr ([10, 0, 0, 1], [255, 255, 255, 0])"
    by code_simp
  with validated_networks [OF sample_config_valid] sample_config_valid show ?thesis by blast
qed

end
