(* ===== verification/Gateway.thy ===== *)
theory Gateway
  imports Punch Config
begin

text \<open>
  Gateways, \<^verbatim>\<open>control/gateway.go\<close>: signed reports and their replay window, approval, and the access
  grants that clients get for the approved gateways that are alive, with their cache. HMAC-SHA256,
  \<^verbatim>\<open>url.Parse\<close>, the protobuf encodings and the random bytes of a ticket are
  fields of \<open>gateway_env\<close>, which every operation that needs them takes as an argument.
\<close>

section \<open>Data\<close>

datatype GatewayChannelKind =
  GATEWAY_CHANNEL_UNKNOWN | GATEWAY_CHANNEL_UDP | GATEWAY_CHANNEL_QUIC | GATEWAY_CHANNEL_HTTPS
| GATEWAY_CHANNEL_other int

fun kind_number :: "GatewayChannelKind \<Rightarrow> int" where
  "kind_number GATEWAY_CHANNEL_UNKNOWN = 0"
| "kind_number GATEWAY_CHANNEL_UDP = 1"
| "kind_number GATEWAY_CHANNEL_QUIC = 2"
| "kind_number GATEWAY_CHANNEL_HTTPS = 3"
| "kind_number (GATEWAY_CHANNEL_other n) = n"

record GatewayChannel =
  gc_Kind :: GatewayChannelKind
  gc_Addr :: string
  gc_ServerName :: string
  gc_UdpPublicKey :: bytes
  gc_UdpKeyId :: string

record GatewayReportRequest =
  gr_GatewayId :: string
  gr_Capabilities :: "string list"
  gr_ReportUnixMs :: int
  gr_Nonce :: bytes
  gr_Signature :: bytes
  gr_GatewayChannel :: "GatewayChannel option"

record GatewayReportProof =
  gp_GatewayId :: string
  gp_Capabilities :: "string list"
  gp_ReportUnixMs :: int
  gp_Nonce :: bytes
  gp_GatewayChannel :: "GatewayChannel option"

record GatewayReportAck =
  ga_Ok :: bool
  ga_Reason :: string
  ga_GatewayId :: string
  ga_ExpireUnixMs :: int

record GatewayNodeInfo =
  gn_GatewayID :: string
  gn_Endpoint :: string
  gn_Capabilities :: "string list"
  gn_Channels :: "GatewayChannel list"
  gn_UpdatedAt :: gtime

record GatewayTicketClaims =
  tc_TicketId :: string
  tc_DeviceId :: string
  tc_VirtualIp :: u32
  tc_SessionId :: u64
  tc_PolicyRevision :: u64
  tc_GatewayIds :: "string list"
  tc_GatewayGroupId :: string
  tc_IssuedAtUnixMs :: int
  tc_NotBeforeUnixMs :: int
  tc_ExpireUnixMs :: int
  tc_LeaseCapSecs :: u32
  tc_GraceCapSecs :: u32

record SignedGatewayTicket =
  sg_Alg :: string
  sg_Claims :: bytes
  sg_Signature :: bytes

record GatewayAccessGrant =
  gg_Ticket :: bytes
  gg_TicketExpireUnixMs :: int
  gg_SessionId :: u64
  gg_PolicyRev :: u64
  gg_GatewayCapabilities :: "string list"
  gg_LeaseSecs :: u32
  gg_GraceSecs :: u32
  gg_GatewayChannel :: "GatewayChannel option"
  gg_GatewayId :: string
  gg_SoftRefreshAfterUnixMs :: int
  gg_HardExpireUnixMs :: int

record cachedGatewayGrant =
  cg_gatewayID :: string
  cg_nodeFingerprint :: string
  cg_expireUnixMs :: int
  cg_grant :: "GatewayAccessGrant option"

record gatewayGrantBuildOptions =
  op_lastSessionID :: u64
  op_lastSessionIDValid :: bool
  op_forceReissue :: bool
  op_refresh :: bool
  op_retainExisting :: bool

record GatewayAdminView =
  av_GatewayID :: string
  av_Endpoint :: string
  av_Approved :: bool
  av_Default :: bool
  av_Reported :: bool
  av_Alive :: bool
  av_Capabilities :: "string list"
  av_UpdatedAtUnix :: int

text \<open>The gateway fields of the \<^verbatim>\<open>Controller\<close>.\<close>

record GatewayState =
  gw_Allow :: "(string, string) gomap"
  gw_Nodes :: "(string, GatewayNodeInfo) gomap"
  gw_Seen :: "(string, GatewayNodeInfo) gomap"
  gw_Nonce :: "(string, (string, int) gomap) gomap"
  gw_GrantCache :: "(string, cachedGatewayGrant) gomap"
  gw_GrantFingerprint :: string
  gw_GrantPolicyRev :: u64

record parsed_url =
  url_Host :: string
  url_EscapedPath :: string
  url_WithGatewayPath :: string

text \<open>
  \<open>url_WithGatewayPath\<close> is \<^verbatim>\<open>uri.String()\<close> once the path is \<^verbatim>\<open>/gateway\<close> and query and fragment are gone;
  \<open>ev_rand id\<close> is what \<^verbatim>\<open>rand.Read\<close> yields for the ticket of gateway \<open>id\<close>.
\<close>

record gateway_env =
  ev_hmac :: "string \<Rightarrow> bytes \<Rightarrow> bytes"
  ev_proof :: "GatewayReportProof \<Rightarrow> bytes result"
  ev_claims :: "GatewayTicketClaims \<Rightarrow> bytes result"
  ev_ticket :: "SignedGatewayTicket \<Rightarrow> bytes result"
  ev_url :: "string \<Rightarrow> parsed_url option"
  ev_rand :: "string \<Rightarrow> bytes result"
  ev_HardTTL :: int
  ev_SoftRefreshLead :: int
  ev_DefaultGatewayID :: string
  ev_Secret :: string

definition gatewayNodeLease :: int where "gatewayNodeLease = 90 * Second"
definition gatewayReportFreshnessWindow :: int where "gatewayReportFreshnessWindow = 120 * Second"
definition gatewayGrantLease :: int where "gatewayGrantLease = 300 * Second"
definition gatewayGrantGrace :: int where "gatewayGrantGrace = 45 * Second"
definition defaultGatewayHost :: string where "defaultGatewayHost = ''gateway.middlescale.net''"

definition NewGatewayState :: "(string, string) gomap \<Rightarrow> GatewayState" where
  "NewGatewayState approved = \<lparr>gw_Allow = approved, gw_Nodes = [], gw_Seen = [], gw_Nonce = [],
     gw_GrantCache = [], gw_GrantFingerprint = [], gw_GrantPolicyRev = 0\<rparr>"

section \<open>Channels\<close>

fun normalizeGatewayChannelKind :: "GatewayChannelKind \<Rightarrow> GatewayChannelKind" where
  "normalizeGatewayChannelKind GATEWAY_CHANNEL_UDP = GATEWAY_CHANNEL_UDP"
| "normalizeGatewayChannelKind GATEWAY_CHANNEL_QUIC = GATEWAY_CHANNEL_QUIC"
| "normalizeGatewayChannelKind GATEWAY_CHANNEL_HTTPS = GATEWAY_CHANNEL_HTTPS"
| "normalizeGatewayChannelKind _ = GATEWAY_CHANNEL_UNKNOWN"

definition normalizeGatewayChannelAddr :: "gateway_env \<Rightarrow> GatewayChannelKind \<Rightarrow> string \<Rightarrow> string" where
  "normalizeGatewayChannelAddr env kind raw =
     (let addr = TrimSpace raw in
      if addr = [] then []
      else if kind \<noteq> GATEWAY_CHANNEL_HTTPS then addr
      else if \<not> HasPrefix addr ''https://'' then []
      else case ev_url env addr of
        None \<Rightarrow> []
      | Some uri \<Rightarrow>
          if TrimSpace (url_Host uri) = [] then []
          else if url_EscapedPath uri \<in> {[], ''/'', ''/gateway''} then url_WithGatewayPath uri
          else [])"

definition cloneChannel :: "gateway_env \<Rightarrow> GatewayChannel \<Rightarrow> GatewayChannel option" where
  "cloneChannel env channel =
     (let kind = normalizeGatewayChannelKind (gc_Kind channel);
          addr = normalizeGatewayChannelAddr env kind (gc_Addr channel)
      in if addr = [] then None
         else Some \<lparr>gc_Kind = kind, gc_Addr = addr, gc_ServerName = TrimSpace (gc_ServerName channel),
                    gc_UdpPublicKey = (if kind = GATEWAY_CHANNEL_UDP then gc_UdpPublicKey channel else []),
                    gc_UdpKeyId = (if kind = GATEWAY_CHANNEL_UDP then TrimSpace (gc_UdpKeyId channel) else [])\<rparr>)"

definition cloneGatewayChannels :: "gateway_env \<Rightarrow> GatewayChannel list \<Rightarrow> GatewayChannel list" where
  "cloneGatewayChannels env channels = List.map_filter (cloneChannel env) channels"

definition cloneGatewayChannel :: "gateway_env \<Rightarrow> GatewayChannel option \<Rightarrow> GatewayChannel option" where
  "cloneGatewayChannel env channel =
     (case channel of None \<Rightarrow> None
      | Some c \<Rightarrow> (case cloneGatewayChannels env [c] of [] \<Rightarrow> None | d # _ \<Rightarrow> Some d))"

definition channelEndpoint :: "gateway_env \<Rightarrow> GatewayChannel \<Rightarrow> string" where
  "channelEndpoint env channel =
     (let kind = normalizeGatewayChannelKind (gc_Kind channel);
          addr = normalizeGatewayChannelAddr env kind (gc_Addr channel)
      in if addr = [] then []
         else if kind = GATEWAY_CHANNEL_UDP
         then (if HasPrefix addr ''udp://'' then TrimPrefix addr ''udp://'' else [])
         else if kind = GATEWAY_CHANNEL_QUIC
         then (if HasPrefix addr ''quic://'' then TrimPrefix addr ''quic://'' else [])
         else if kind = GATEWAY_CHANNEL_HTTPS
         then (if HasPrefix addr ''https://''
               then (case ev_url env addr of Some uri \<Rightarrow> url_Host uri | None \<Rightarrow> []) else [])
         else [])"

definition primaryGatewayEndpoint :: "gateway_env \<Rightarrow> GatewayChannel list \<Rightarrow> string" where
  "primaryGatewayEndpoint env channels =
     (case find (\<lambda>channel. channelEndpoint env channel \<noteq> []) channels of
        Some channel \<Rightarrow> channelEndpoint env channel | None \<Rightarrow> [])"

definition gatewayServerName :: "string \<Rightarrow> string" where
  "gatewayServerName endpoint =
     (let host = TrimSpace (case SplitHostPort endpoint of Some (h, _) \<Rightarrow> h | None \<Rightarrow> endpoint)
      in if host = [] then defaultGatewayHost else host)"

section \<open>Approval\<close>

text \<open>
  \<^verbatim>\<open>persistGatewayApprovalLocked\<close>: what is handed to the store; its errors are only logged.
\<close>

definition approvalSnapshot :: "GatewayState \<Rightarrow> (string, string) gomap" where
  "approvalSnapshot gs =
     fold (\<lambda>(gatewayID, endpoint) approved.
             if TrimSpace gatewayID = [] \<or> TrimSpace endpoint = [] then approved
             else gput (TrimSpace gatewayID) (TrimSpace endpoint) approved)
       (gw_Allow gs) []"

definition ApproveGatewayNode :: "string \<Rightarrow> string \<Rightarrow> GatewayState \<Rightarrow> GatewayState" where
  "ApproveGatewayNode gatewayID endpoint gs = gs\<lparr>gw_Allow := gput gatewayID endpoint (gw_Allow gs)\<rparr>"

definition ApproveGatewayNodeByID ::
    "gateway_env \<Rightarrow> string \<Rightarrow> GatewayState \<Rightarrow> unit result \<times> GatewayState" where
  "ApproveGatewayNodeByID env gatewayID0 gs =
     (let gatewayID = TrimSpace gatewayID0 in
      if gatewayID = [] then (Inl ''gateway_id is required'', gs)
      else if gatewayID = TrimSpace (ev_DefaultGatewayID env) then (Inr (), gs)
      else if (case gget (gw_Allow gs) gatewayID of Some e \<Rightarrow> TrimSpace e \<noteq> [] | None \<Rightarrow> False)
      then (Inr (), gs)
      else case gget (gw_Seen gs) gatewayID of
        None \<Rightarrow> (Inl (''gateway '' @ gatewayID @ '' has no pending report''), gs)
      | Some seen \<Rightarrow>
          if TrimSpace (gn_Endpoint seen) = []
          then (Inl (''gateway '' @ gatewayID @ '' has no pending report''), gs)
          else (Inr (), gs\<lparr>gw_Allow := gput gatewayID (gn_Endpoint seen) (gw_Allow gs),
                           gw_Nodes := gput gatewayID seen (gw_Nodes gs)\<rparr>))"

definition deleteGatewayGrantCacheForGatewayLocked :: "string \<Rightarrow> GatewayState \<Rightarrow> GatewayState" where
  "deleteGatewayGrantCacheForGatewayLocked gatewayID gs =
     gs\<lparr>gw_GrantCache := gfilter (\<lambda>_ cached. cg_gatewayID cached \<noteq> gatewayID) (gw_GrantCache gs)\<rparr>"

definition DelistGatewayNodeByID ::
    "gateway_env \<Rightarrow> string \<Rightarrow> GatewayState \<Rightarrow> unit result \<times> GatewayState" where
  "DelistGatewayNodeByID env gatewayID0 gs =
     (let gatewayID = TrimSpace gatewayID0 in
      if gatewayID = [] then (Inl ''gateway_id is required'', gs)
      else if gatewayID = TrimSpace (ev_DefaultGatewayID env)
      then (Inl (''default gateway '' @ gatewayID @ '' cannot be delisted''), gs)
      else if gget (gw_Allow gs) gatewayID = None \<and> gget (gw_Nodes gs) gatewayID = None \<and>
              gget (gw_Seen gs) gatewayID = None
      then (Inl (''gateway '' @ gatewayID @ '' not found''), gs)
      else
        (let gs1 = (case gget (gw_Nodes gs) gatewayID of
                      Some node \<Rightarrow> gs\<lparr>gw_Seen := gput gatewayID node (gw_Seen gs)\<rparr> | None \<Rightarrow> gs)
         in (Inr (), deleteGatewayGrantCacheForGatewayLocked gatewayID
                       (gs1\<lparr>gw_Allow := gdel gatewayID (gw_Allow gs1),
                            gw_Nodes := gdel gatewayID (gw_Nodes gs1)\<rparr>))))"

definition isGatewayAllowed :: "gateway_env \<Rightarrow> string \<Rightarrow> string \<Rightarrow> GatewayState \<Rightarrow> bool" where
  "isGatewayAllowed env gatewayID endpoint gs =
     (if TrimSpace gatewayID = TrimSpace (ev_DefaultGatewayID env) then True
      else case gget (gw_Allow gs) gatewayID of
        Some allowed \<Rightarrow> TrimSpace allowed = TrimSpace endpoint | None \<Rightarrow> False)"

definition RegisterGatewayNodeWithTransport ::
    "gateway_env \<Rightarrow> gtime \<Rightarrow> string \<Rightarrow> string list \<Rightarrow> GatewayChannel list \<Rightarrow> GatewayState \<Rightarrow> GatewayState" where
  "RegisterGatewayNodeWithTransport env now gatewayID capabilities channels gs =
     (let normalized = cloneGatewayChannels env channels;
          endpoint = primaryGatewayEndpoint env normalized
      in if endpoint = [] \<or> normalized = [] then gs
         else gs\<lparr>gw_Allow := gput gatewayID endpoint (gw_Allow gs),
                 gw_Nodes := gput gatewayID
                   \<lparr>gn_GatewayID = gatewayID, gn_Endpoint = endpoint, gn_Capabilities = capabilities,
                    gn_Channels = normalized, gn_UpdatedAt = now\<rparr> (gw_Nodes gs),
                 gw_Seen := gdel gatewayID (gw_Seen gs)\<rparr>)"

definition RegisterGatewayNode ::
    "gateway_env \<Rightarrow> gtime \<Rightarrow> string \<Rightarrow> string \<Rightarrow> string list \<Rightarrow> GatewayState \<Rightarrow> GatewayState" where
  "RegisterGatewayNode env now gatewayID endpoint capabilities gs =
     RegisterGatewayNodeWithTransport env now gatewayID capabilities
       [\<lparr>gc_Kind = GATEWAY_CHANNEL_QUIC, gc_Addr = ''quic://'' @ TrimSpace endpoint,
         gc_ServerName = gatewayServerName endpoint, gc_UdpPublicKey = [], gc_UdpKeyId = []\<rparr>] gs"

definition recordGatewaySeen :: "GatewayNodeInfo \<Rightarrow> GatewayState \<Rightarrow> GatewayState" where
  "recordGatewaySeen info gs = gs\<lparr>gw_Seen := gput (gn_GatewayID info) info (gw_Seen gs)\<rparr>"

section \<open>Reports\<close>

definition validateGatewayReplayWindow ::
    "string \<Rightarrow> int \<Rightarrow> bytes \<Rightarrow> gtime \<Rightarrow> GatewayState \<Rightarrow> unit result \<times> GatewayState" where
  "validateGatewayReplayWindow gatewayID reportUnixMs nonce now gs =
     (let reportTime = time_of_UnixMilli reportUnixMs in
      if time_Sub now reportTime > gatewayReportFreshnessWindow \<or>
         time_Sub reportTime now > gatewayReportFreshnessWindow
      then (Inl ''stale_report_timestamp'', gs)
      else
        (let nonceKey = hex_encode nonce;
             expireAt0 = UnixMilli (reportTime + gatewayReportFreshnessWindow);
             expireAt = (if expireAt0 < UnixMilli now then UnixMilli (now + gatewayReportFreshnessWindow)
                         else expireAt0);
             cache0 = (case gget (gw_Nonce gs) gatewayID of Some c \<Rightarrow> c | None \<Rightarrow> []);
             cache = gfilter (\<lambda>_ nonceExpireAt. \<not> nonceExpireAt \<le> UnixMilli now) cache0
         in if gget cache nonceKey \<noteq> None
            then (Inl ''replayed_nonce'', gs\<lparr>gw_Nonce := gput gatewayID cache (gw_Nonce gs)\<rparr>)
            else (Inr (), gs\<lparr>gw_Nonce := gput gatewayID (gput nonceKey expireAt cache) (gw_Nonce gs)\<rparr>)))"

definition gatewayReportProof :: "gateway_env \<Rightarrow> GatewayReportRequest \<Rightarrow> GatewayReportProof" where
  "gatewayReportProof env req =
     \<lparr>gp_GatewayId = gr_GatewayId req, gp_Capabilities = gr_Capabilities req,
      gp_ReportUnixMs = gr_ReportUnixMs req, gp_Nonce = gr_Nonce req,
      gp_GatewayChannel = cloneGatewayChannel env (gr_GatewayChannel req)\<rparr>"

definition authenticateGatewayReport ::
    "gateway_env \<Rightarrow> GatewayReportRequest \<Rightarrow> gtime \<Rightarrow> GatewayState \<Rightarrow> unit result \<times> GatewayState" where
  "authenticateGatewayReport env req now gs =
     (if gr_Nonce req = [] then (Inl ''nonce is required'', gs)
      else if gr_Signature req = [] then (Inl ''signature is required'', gs)
      else case ev_proof env (gatewayReportProof env req) of
        Inl err \<Rightarrow> (Inl (''invalid_gateway_report_proof: '' @ err), gs)
      | Inr proofBytes \<Rightarrow>
          if ev_hmac env (ev_Secret env) proofBytes \<noteq> gr_Signature req then (Inl ''invalid_signature'', gs)
          else validateGatewayReplayWindow (TrimSpace (gr_GatewayId req)) (gr_ReportUnixMs req)
                 (gr_Nonce req) now gs)"

definition gatewayAck :: "GatewayReportRequest \<Rightarrow> gtime \<Rightarrow> bool \<Rightarrow> string \<Rightarrow> GatewayReportAck" where
  "gatewayAck req now ok reason =
     \<lparr>ga_Ok = ok, ga_Reason = reason, ga_GatewayId = gr_GatewayId req,
      ga_ExpireUnixMs = UnixMilli (now + 120 * Second)\<rparr>"

text \<open>The guards of the handler, in their order, and the node that a report describes.\<close>

definition reportChannels :: "gateway_env \<Rightarrow> GatewayReportRequest \<Rightarrow> GatewayChannel list" where
  "reportChannels env req =
     (case gr_GatewayChannel req of Some ch \<Rightarrow> cloneGatewayChannels env [ch] | None \<Rightarrow> [])"

definition reportError :: "gateway_env \<Rightarrow> GatewayReportRequest \<Rightarrow> string option" where
  "reportError env req =
     (let channels = reportChannels env req; endpoint = primaryGatewayEndpoint env channels in
      if TrimSpace (gr_GatewayId req) = [] then Some ''gateway_id is required''
      else if gr_GatewayChannel req = None then Some ''gateway_channel is required''
      else if gr_ReportUnixMs req = 0 then Some ''report_unix_ms is required''
      else if endpoint = [] then Some ''gateway_channel must include a valid addr''
      else if gc_Kind (hd channels) = GATEWAY_CHANNEL_UDP \<and>
              (length (gc_UdpPublicKey (hd channels)) \<noteq> 32 \<or> gc_UdpKeyId (hd channels) = [])
      then Some ''UDP gateway_channel requires a 32-byte udp_public_key and udp_key_id''
      else if TrimSpace (gr_GatewayId req) = TrimSpace (ev_DefaultGatewayID env) \<and>
              gatewayServerName endpoint \<noteq> defaultGatewayHost
      then Some (''default gateway host must be '' @ defaultGatewayHost)
      else None)"

definition reportNode :: "gateway_env \<Rightarrow> gtime \<Rightarrow> GatewayReportRequest \<Rightarrow> GatewayNodeInfo" where
  "reportNode env now req =
     \<lparr>gn_GatewayID = gr_GatewayId req,
      gn_Endpoint = primaryGatewayEndpoint env (reportChannels env req),
      gn_Capabilities = gr_Capabilities req, gn_Channels = reportChannels env req, gn_UpdatedAt = now\<rparr>"

text \<open>
  The report without its transport: the acknowledgement to send, or the error of the handler. The
  endpoint is empty when no channel is left, so \<open>hd\<close> is the first of a list that is not empty.
\<close>

definition handleGatewayReport ::
    "gateway_env \<Rightarrow> gtime \<Rightarrow> GatewayReportRequest result \<Rightarrow> GatewayState
     \<Rightarrow> GatewayReportAck result \<times> GatewayState" where
  "handleGatewayReport env now decoded gs =
     (case decoded of
        Inl err \<Rightarrow> (Inl err, gs)
      | Inr req \<Rightarrow>
          (case reportError env req of
             Some err \<Rightarrow> (Inl err, gs)
           | None \<Rightarrow>
               (case authenticateGatewayReport env req now gs of
                  (Inl err, gs1) \<Rightarrow> (Inr (gatewayAck req now False err), gs1)
                | (Inr _, gs1) \<Rightarrow>
                    (let gs2 = recordGatewaySeen (reportNode env now req) gs1 in
                     if \<not> isGatewayAllowed env (gr_GatewayId req) (gn_Endpoint (reportNode env now req)) gs2
                     then (Inr (gatewayAck req now False ''gateway not approved''), gs2)
                     else (Inr (gatewayAck req now True ''ok''),
                           RegisterGatewayNodeWithTransport env now (gr_GatewayId req)
                             (gr_Capabilities req) (reportChannels env req) gs2)))))"

text \<open>\<^verbatim>\<open>buildServicePacket\<close> and the reply of every handler below.\<close>

definition buildServicePacket ::
    "('m \<Rightarrow> bytes result) \<Rightarrow> Packet \<Rightarrow> u8 \<Rightarrow> 'm \<Rightarrow> Packet result" where
  "buildServicePacket marshal request appProto msg =
     (case marshal msg of
        Inl err \<Rightarrow> Inl err
      | Inr payload \<Rightarrow> Inr (servicePacket appProto (pk_DstIP request) (pk_SrcIP request) payload []))"

definition HandleGatewayReportPacket ::
    "gateway_env \<Rightarrow> (GatewayReportAck \<Rightarrow> bytes result) \<Rightarrow> gtime \<Rightarrow> Packet \<Rightarrow> GatewayReportRequest result
     \<Rightarrow> GatewayState \<Rightarrow> Packet result \<times> GatewayState" where
  "HandleGatewayReportPacket env marshal now request decoded gs =
     (case handleGatewayReport env now decoded gs of
        (Inl err, gs1) \<Rightarrow> (Inl err, gs1)
      | (Inr ack, gs1) \<Rightarrow> (buildServicePacket marshal request AppProtoGatewayReportAck ack, gs1))"

section \<open>Alive nodes and the policy revision\<close>

definition gatewayNodeApprovedLocked :: "gateway_env \<Rightarrow> GatewayState \<Rightarrow> GatewayNodeInfo \<Rightarrow> bool" where
  "gatewayNodeApprovedLocked env gs node =
     (if TrimSpace (gn_Endpoint node) = [] then False
      else
        (let approved = gget (gw_Allow gs) (gn_GatewayID node);
             endpoint = (case approved of Some e \<Rightarrow> TrimSpace e | None \<Rightarrow> [])
         in if gn_GatewayID node \<noteq> TrimSpace (ev_DefaultGatewayID env) \<and> approved = None then False
            else endpoint = [] \<or> endpoint = TrimSpace (gn_Endpoint node)))"

definition node_order :: "gateway_env \<Rightarrow> GatewayNodeInfo \<Rightarrow> bool \<times> string \<times> string" where
  "node_order env node =
     (gn_GatewayID node \<noteq> TrimSpace (ev_DefaultGatewayID env), gn_GatewayID node, gn_Endpoint node)"

definition approvedAliveGatewayNodesLocked ::
    "gateway_env \<Rightarrow> gtime \<Rightarrow> GatewayState \<Rightarrow> GatewayNodeInfo list" where
  "approvedAliveGatewayNodesLocked env now gs =
     sort_key (node_order env)
       (filter (\<lambda>node. \<not> time_Sub now (gn_UpdatedAt node) > gatewayNodeLease \<and>
                       gatewayNodeApprovedLocked env gs node)
          (map snd (gw_Nodes gs)))"

definition channelFingerprint :: "GatewayChannel \<Rightarrow> string" where
  "channelFingerprint channel =
     show_int (kind_number (gc_Kind channel)) @ ''|'' @ gc_Addr channel @ ''|'' @ gc_ServerName channel
       @ ''|'' @ gc_UdpKeyId channel @ ''|'' @ hex_encode (gc_UdpPublicKey channel)"

definition gatewayGrantNodeFingerprint :: "GatewayNodeInfo \<Rightarrow> string" where
  "gatewayGrantNodeFingerprint node =
     JoinStrings ([gn_GatewayID node, gn_Endpoint node, JoinStrings (gn_Capabilities node) '','']
                    @ map channelFingerprint (gn_Channels node)) '';''"

definition gatewayGrantFingerprint :: "GatewayNodeInfo list \<Rightarrow> string" where
  "gatewayGrantFingerprint nodes = JoinStrings (map gatewayGrantNodeFingerprint nodes) '',''"

definition syncGatewayGrantPolicyLocked ::
    "GatewayNodeInfo list \<Rightarrow> GatewayState \<Rightarrow> (u64 \<times> bool) \<times> GatewayState" where
  "syncGatewayGrantPolicyLocked nodes gs =
     (let fingerprint = gatewayGrantFingerprint nodes;
          bump = (\<lambda>r :: u64. if r = 0 then 1 else r)
      in if fingerprint = gw_GrantFingerprint gs
         then (let r = bump (gw_GrantPolicyRev gs) in ((r, False), gs\<lparr>gw_GrantPolicyRev := r\<rparr>))
         else (let r = bump (gw_GrantPolicyRev gs + 1)
               in ((r, True), gs\<lparr>gw_GrantFingerprint := fingerprint, gw_GrantPolicyRev := r\<rparr>)))"

section \<open>Access grants\<close>

definition gatewayGrantCachePrefix :: "string \<Rightarrow> u32 \<Rightarrow> string \<Rightarrow> string" where
  "gatewayGrantCachePrefix networkKey virtualIP deviceID =
     TrimSpace networkKey @ ''|'' @ show_word virtualIP @ ''|'' @ deviceID @ ''|''"

definition gatewayGrantCacheKey :: "string \<Rightarrow> u32 \<Rightarrow> string \<Rightarrow> string \<Rightarrow> string" where
  "gatewayGrantCacheKey networkKey virtualIP deviceID gatewayID =
     gatewayGrantCachePrefix networkKey virtualIP deviceID @ gatewayID"

definition newGatewayTicket ::
    "gateway_env \<Rightarrow> gtime \<Rightarrow> string \<Rightarrow> u32 \<Rightarrow> u64 \<Rightarrow> u64 \<Rightarrow> string list \<Rightarrow> string \<Rightarrow> int \<Rightarrow> u32 \<Rightarrow> u32
     \<Rightarrow> bytes result" where
  "newGatewayTicket env now deviceID virtualIP sessionID policyRevision gatewayIDs gatewayGroupID
       expireUnixMs leaseCapSecs graceCapSecs =
     (case ev_rand env (hd (gatewayIDs @ [[]])) of
        Inl err \<Rightarrow> Inl err
      | Inr buf \<Rightarrow>
          (let nowMs = UnixMilli now;
               claims = \<lparr>tc_TicketId = hex_encode buf, tc_DeviceId = deviceID, tc_VirtualIp = virtualIP,
                         tc_SessionId = sessionID, tc_PolicyRevision = policyRevision,
                         tc_GatewayIds = gatewayIDs, tc_GatewayGroupId = gatewayGroupID,
                         tc_IssuedAtUnixMs = nowMs, tc_NotBeforeUnixMs = nowMs - 5000,
                         tc_ExpireUnixMs = expireUnixMs, tc_LeaseCapSecs = leaseCapSecs,
                         tc_GraceCapSecs = graceCapSecs\<rparr>
           in case ev_claims env claims of
                Inl err \<Rightarrow> Inl err
              | Inr claimsBytes \<Rightarrow>
                  if TrimSpace (ev_Secret env) = [] then Inl ''gateway ticket secret is required''
                  else ev_ticket env \<lparr>sg_Alg = ''hmac-sha256'', sg_Claims = claimsBytes,
                                      sg_Signature = ev_hmac env (ev_Secret env) claimsBytes\<rparr>))"

definition buildGatewayAccessGrantForNode ::
    "gateway_env \<Rightarrow> gtime \<Rightarrow> u32 \<Rightarrow> string \<Rightarrow> GatewayNodeInfo \<Rightarrow> u64 \<Rightarrow> int \<Rightarrow> int \<Rightarrow> u32 \<Rightarrow> u32 \<Rightarrow> u64
     \<Rightarrow> GatewayAccessGrant option" where
  "buildGatewayAccessGrantForNode env now virtualIP deviceID node sessionID expireUnixMs
       refreshAfterUnixMs leaseSecs graceSecs policyRev =
     (case newGatewayTicket env now deviceID virtualIP sessionID policyRev [gn_GatewayID node] []
             expireUnixMs leaseSecs graceSecs of
        Inl err \<Rightarrow> None
      | Inr ticket \<Rightarrow>
          (case cloneGatewayChannels env (gn_Channels node) of
             [] \<Rightarrow> None
           | channel # _ \<Rightarrow>
               Some \<lparr>gg_Ticket = ticket, gg_TicketExpireUnixMs = expireUnixMs, gg_SessionId = sessionID,
                     gg_PolicyRev = policyRev, gg_GatewayCapabilities = gn_Capabilities node,
                     gg_LeaseSecs = leaseSecs, gg_GraceSecs = graceSecs,
                     gg_GatewayChannel = cloneGatewayChannel env (Some channel),
                     gg_GatewayId = gn_GatewayID node,
                     gg_SoftRefreshAfterUnixMs = refreshAfterUnixMs,
                     gg_HardExpireUnixMs = expireUnixMs\<rparr>))"

text \<open>A cached grant that may be handed out again: same node, and more than 30 seconds to live.\<close>

definition grantUsable :: "gtime \<Rightarrow> string \<Rightarrow> cachedGatewayGrant \<Rightarrow> bool" where
  "grantUsable now fingerprint cached \<longleftrightarrow>
     cg_nodeFingerprint cached = fingerprint \<and> cg_grant cached \<noteq> None \<and>
     cg_expireUnixMs cached > UnixMilli (now + 30 * Second)"

definition gatewayGrantSessionKnownLocked ::
    "string \<Rightarrow> u32 \<Rightarrow> string \<Rightarrow> u64 \<Rightarrow> GatewayState \<Rightarrow> bool" where
  "gatewayGrantSessionKnownLocked networkKey virtualIP deviceID sessionID gs \<longleftrightarrow>
     (\<exists>(key, item) \<in> set (gw_GrantCache gs).
        HasPrefix key (gatewayGrantCachePrefix networkKey virtualIP deviceID) \<and>
        (case cg_grant item of Some g \<Rightarrow> gg_SessionId g = sessionID | None \<Rightarrow> False))"

definition cacheKept :: "gateway_env \<Rightarrow> gtime \<Rightarrow> GatewayState \<Rightarrow> cachedGatewayGrant \<Rightarrow> bool" where
  "cacheKept env now gs cached =
     (case gget (gw_Nodes gs) (cg_gatewayID cached) of
        None \<Rightarrow> False
      | Some node \<Rightarrow>
          gatewayNodeApprovedLocked env gs node \<and>
          grantUsable now (gatewayGrantNodeFingerprint node) cached)"

definition pruneGatewayGrantCacheLocked :: "gateway_env \<Rightarrow> gtime \<Rightarrow> GatewayState \<Rightarrow> GatewayState" where
  "pruneGatewayGrantCacheLocked env now gs =
     gs\<lparr>gw_GrantCache := gfilter (\<lambda>_ cached. cacheKept env now gs cached) (gw_GrantCache gs)\<rparr>"

definition retainedGatewayAccessGrantsLocked ::
    "gateway_env \<Rightarrow> string \<Rightarrow> u32 \<Rightarrow> string \<Rightarrow> GatewayNodeInfo list \<Rightarrow> u64 \<Rightarrow> gtime \<Rightarrow> GatewayState
     \<Rightarrow> GatewayAccessGrant list" where
  "retainedGatewayAccessGrantsLocked env networkKey virtualIP deviceID aliveNodes policyRev now gs =
     List.map_filter (\<lambda>(key, cached). map_option (\<lambda>g. g\<lparr>gg_PolicyRev := policyRev\<rparr>) (cg_grant cached))
       (filter (\<lambda>(key, cached).
                  HasPrefix key (gatewayGrantCachePrefix networkKey virtualIP deviceID) \<and>
                  cg_gatewayID cached \<notin> set (map gn_GatewayID aliveNodes) \<and> cacheKept env now gs cached)
          (gw_GrantCache gs))"

record grant_context =
  gx_networkKey :: string
  gx_virtualIP :: u32
  gx_deviceID :: string
  gx_policyRev :: u64
  gx_opts :: gatewayGrantBuildOptions
  gx_now :: gtime

text \<open>The cached grant, when it may be handed out again, and the session number of a new one.\<close>

definition reusableGrant ::
    "grant_context \<Rightarrow> GatewayNodeInfo \<Rightarrow> cachedGatewayGrant option \<Rightarrow> GatewayAccessGrant option" where
  "reusableGrant cx node cached =
     (let opts = gx_opts cx in
      case cached of
        None \<Rightarrow> None
      | Some item \<Rightarrow>
          if grantUsable (gx_now cx) (gatewayGrantNodeFingerprint node) item \<and>
             (op_refresh opts \<longrightarrow>
                \<not> op_forceReissue opts \<and> (op_lastSessionID opts = 0 \<or> op_lastSessionIDValid opts))
          then map_option (\<lambda>g. g\<lparr>gg_PolicyRev := gx_policyRev cx\<rparr>) (cg_grant item) else None)"

definition grantSessionID :: "grant_context \<Rightarrow> u64 \<Rightarrow> cachedGatewayGrant option \<Rightarrow> u64" where
  "grantSessionID cx sessionSalt cached =
     (let opts = gx_opts cx in
      if op_refresh opts \<and> \<not> op_forceReissue opts \<and> op_lastSessionID opts \<noteq> 0 \<and>
         (case Option.bind cached cg_grant of
            Some g \<Rightarrow> gg_SessionId g = op_lastSessionID opts | None \<Rightarrow> False)
      then op_lastSessionID opts else word_of_int (gx_now cx) + sessionSalt)"

definition issueGrant ::
    "gateway_env \<Rightarrow> grant_context \<Rightarrow> GatewayNodeInfo \<Rightarrow> u64 \<Rightarrow> GatewayAccessGrant option" where
  "issueGrant env cx node sessionID =
     (let hardExpire = gx_now cx + ev_HardTTL env in
      buildGatewayAccessGrantForNode env (gx_now cx) (gx_virtualIP cx) (gx_deviceID cx) node sessionID
        (UnixMilli hardExpire) (UnixMilli (hardExpire - ev_SoftRefreshLead env))
        (word_of_int (gatewayGrantLease div Second)) (word_of_int (gatewayGrantGrace div Second))
        (gx_policyRev cx))"

definition gatewayAccessGrantForNodeLocked ::
    "gateway_env \<Rightarrow> grant_context \<Rightarrow> GatewayNodeInfo \<Rightarrow> u64 \<Rightarrow> GatewayState
     \<Rightarrow> (GatewayAccessGrant option \<times> bool) \<times> GatewayState" where
  "gatewayAccessGrantForNodeLocked env cx node sessionSalt gs =
     (let cacheKey = gatewayGrantCacheKey (gx_networkKey cx) (gx_virtualIP cx) (gx_deviceID cx) (gn_GatewayID node);
          cached = gget (gw_GrantCache gs) cacheKey
      in case reusableGrant cx node cached of
           Some g \<Rightarrow> ((Some g, False), gs)
         | None \<Rightarrow>
             (case issueGrant env cx node (grantSessionID cx sessionSalt cached) of
                None \<Rightarrow> ((None, False), gs\<lparr>gw_GrantCache := gdel cacheKey (gw_GrantCache gs)\<rparr>)
              | Some g \<Rightarrow>
                  ((Some g, True),
                   gs\<lparr>gw_GrantCache := gput cacheKey
                        \<lparr>cg_gatewayID = gn_GatewayID node,
                         cg_nodeFingerprint = gatewayGrantNodeFingerprint node,
                         cg_expireUnixMs = gg_TicketExpireUnixMs g, cg_grant = Some g\<rparr>
                        (gw_GrantCache gs)\<rparr>)))"

fun grantsForNodes ::
    "gateway_env \<Rightarrow> grant_context \<Rightarrow> u64 \<Rightarrow> GatewayNodeInfo list \<Rightarrow> GatewayState
     \<Rightarrow> (GatewayAccessGrant list \<times> bool) \<times> GatewayState" where
  "grantsForNodes env cx index [] gs = (([], False), gs)"
| "grantsForNodes env cx index (node # nodes) gs =
     (case gatewayAccessGrantForNodeLocked env cx node index gs of
        ((g, ch), gs1) \<Rightarrow>
          (case grantsForNodes env cx (index + 1) nodes gs1 of
             ((grants, changed), gs2) \<Rightarrow>
               (case g of None \<Rightarrow> ((grants, changed), gs2)
                | Some g \<Rightarrow> ((g # grants, ch \<or> changed), gs2))))"

definition sortGatewayAccessGrants :: "string \<Rightarrow> GatewayAccessGrant list \<Rightarrow> GatewayAccessGrant list" where
  "sortGatewayAccessGrants defaultID grants =
     sort_key (\<lambda>g. (gg_GatewayId g \<noteq> defaultID, gg_GatewayId g)) grants"

definition checkLastSession ::
    "string \<Rightarrow> u32 \<Rightarrow> string \<Rightarrow> GatewayState \<Rightarrow> gatewayGrantBuildOptions \<Rightarrow> gatewayGrantBuildOptions" where
  "checkLastSession networkKey virtualIP deviceID gs opts =
     (if op_refresh opts \<and> op_lastSessionID opts \<noteq> 0
      then opts\<lparr>op_lastSessionIDValid :=
             gatewayGrantSessionKnownLocked networkKey virtualIP deviceID (op_lastSessionID opts) gs\<rparr>
      else opts)"

definition buildGatewayAccessGrantsLocked ::
    "gateway_env \<Rightarrow> gtime \<Rightarrow> string \<Rightarrow> u32 \<Rightarrow> string \<Rightarrow> gatewayGrantBuildOptions \<Rightarrow> GatewayState
     \<Rightarrow> (GatewayAccessGrant list \<times> u64 \<times> bool) \<times> GatewayState" where
  "buildGatewayAccessGrantsLocked env now networkKey virtualIP deviceID opts0 gs =
     (let nodes = approvedAliveGatewayNodesLocked env now gs in
      case syncGatewayGrantPolicyLocked nodes gs of
        ((policyRev, _), gs1) \<Rightarrow>
          (let gs2 = pruneGatewayGrantCacheLocked env now gs1 in
           if nodes = [] \<and> \<not> op_retainExisting opts0 then (([], policyRev, False), gs2)
           else
             (let opts = checkLastSession networkKey virtualIP deviceID gs2 opts0;
                  cx = \<lparr>gx_networkKey = networkKey, gx_virtualIP = virtualIP, gx_deviceID = deviceID,
                        gx_policyRev = policyRev, gx_opts = opts, gx_now = now\<rparr>
              in case grantsForNodes env cx 0 nodes gs2 of
                   ((grants, changed), gs3) \<Rightarrow>
                     (let retained = (if op_retainExisting opts
                                      then retainedGatewayAccessGrantsLocked env networkKey virtualIP deviceID
                                             nodes policyRev now gs3
                                      else [])
                      in ((sortGatewayAccessGrants (TrimSpace (ev_DefaultGatewayID env)) (grants @ retained),
                           policyRev, changed), gs3)))))"

definition no_options :: gatewayGrantBuildOptions where
  "no_options = \<lparr>op_lastSessionID = 0, op_lastSessionIDValid = False, op_forceReissue = False,
     op_refresh = False, op_retainExisting = False\<rparr>"

definition buildGatewayAccessGrantsForExistingClient ::
    "gateway_env \<Rightarrow> gtime \<Rightarrow> string \<Rightarrow> u32 \<Rightarrow> string \<Rightarrow> GatewayState
     \<Rightarrow> (GatewayAccessGrant list \<times> u64) \<times> GatewayState" where
  "buildGatewayAccessGrantsForExistingClient env now networkKey virtualIP deviceID gs =
     (case buildGatewayAccessGrantsLocked env now networkKey virtualIP deviceID
             (no_options\<lparr>op_retainExisting := True\<rparr>) gs of
        ((grants, policyRev, _), gs1) \<Rightarrow> ((grants, policyRev), gs1))"

definition buildGatewayAccessGrantsForRefresh ::
    "gateway_env \<Rightarrow> gtime \<Rightarrow> string \<Rightarrow> u32 \<Rightarrow> string \<Rightarrow> u64 \<Rightarrow> bool \<Rightarrow> GatewayState
     \<Rightarrow> (GatewayAccessGrant list \<times> u64 \<times> bool) \<times> GatewayState" where
  "buildGatewayAccessGrantsForRefresh env now networkKey virtualIP deviceID lastSessionID forceReissue gs =
     buildGatewayAccessGrantsLocked env now networkKey virtualIP deviceID
       (no_options\<lparr>op_lastSessionID := lastSessionID, op_forceReissue := forceReissue,
                   op_refresh := True, op_retainExisting := True\<rparr>) gs"

definition selectPrimaryGatewayGrant :: "GatewayAccessGrant list \<Rightarrow> GatewayAccessGrant option" where
  "selectPrimaryGatewayGrant grants = (case grants of [] \<Rightarrow> None | g # _ \<Rightarrow> Some g)"

section \<open>The list of gateways\<close>

definition seen_view :: "gtime \<Rightarrow> GatewayNodeInfo \<Rightarrow> GatewayAdminView \<Rightarrow> GatewayAdminView" where
  "seen_view now node item =
     item\<lparr>av_Reported := True, av_Alive := time_Sub now (gn_UpdatedAt node) \<le> gatewayNodeLease,
          av_Capabilities := gn_Capabilities node, av_UpdatedAtUnix := Unix (gn_UpdatedAt node)\<rparr>"

definition ListGateways :: "gateway_env \<Rightarrow> gtime \<Rightarrow> GatewayState \<Rightarrow> GatewayAdminView list" where
  "ListGateways env now gs =
     (let blank = \<lparr>av_GatewayID = [], av_Endpoint = [], av_Approved = False, av_Default = False,
                   av_Reported = False, av_Alive = False, av_Capabilities = [], av_UpdatedAtUnix = 0\<rparr>;
          allowed = fold (\<lambda>(gatewayID, endpoint) byID.
                            gput gatewayID
                              (blank\<lparr>av_GatewayID := gatewayID, av_Endpoint := endpoint, av_Approved := True,
                                     av_Default := (gatewayID = TrimSpace (ev_DefaultGatewayID env))\<rparr>) byID)
                      (gw_Allow gs) [];
          withSeen = fold (\<lambda>(gatewayID, seen) byID.
                             let item0 = (case gget byID gatewayID of Some item \<Rightarrow> item
                                          | None \<Rightarrow> blank\<lparr>av_GatewayID := gatewayID, av_Endpoint := gn_Endpoint seen\<rparr>);
                                 item = (if TrimSpace (av_Endpoint item0) = []
                                         then item0\<lparr>av_Endpoint := gn_Endpoint seen\<rparr> else item0)
                             in gput gatewayID (seen_view now seen item) byID)
                       (gw_Seen gs) allowed
      in map snd
           (gmapv (\<lambda>gatewayID item.
                     case gget (gw_Nodes gs) gatewayID of
                       Some node \<Rightarrow>
                         if TrimSpace (av_Endpoint item) = [] \<or>
                            TrimSpace (gn_Endpoint node) = TrimSpace (av_Endpoint item)
                         then seen_view now node (item\<lparr>av_Endpoint := gn_Endpoint node\<rparr>) else item
                     | None \<Rightarrow> item) withSeen))"

end
