(* ===== verification/Gateway_Facts.thy ===== *)
theory Gateway_Facts
  imports Gateway
begin

text \<open>
  What the gateway component guarantees. A history is a list of operations with the instants at
  which they run; \<open>gw_wf\<close> is its invariant. The properties: only signed, fresh and new reports
  register a gateway; a client gets tickets that are bound to it, for approved gateways, with time
  left; a delisted gateway stays out; the revision of the policy follows the set of gateways.
\<close>

section \<open>Histories\<close>

datatype gw_op =
  ReportOp "GatewayReportRequest result"
| ApproveOp string
| ApproveEndpointOp string string
| DelistOp string
| RegisterOp string "string list" "GatewayChannel list"
| GrantsOp "string \<Rightarrow> bytes result" string u32 string gatewayGrantBuildOptions

text \<open>The randomness of a ticket comes with the operation, so that it may differ from call to call.\<close>

fun gw_apply :: "gateway_env \<Rightarrow> gtime \<times> gw_op \<Rightarrow> GatewayState \<Rightarrow> GatewayState" where
  "gw_apply env (now, ReportOp decoded) gs = snd (handleGatewayReport env now decoded gs)"
| "gw_apply env (now, ApproveOp i) gs = snd (ApproveGatewayNodeByID env i gs)"
| "gw_apply env (now, ApproveEndpointOp i e) gs = ApproveGatewayNode i e gs"
| "gw_apply env (now, DelistOp i) gs = snd (DelistGatewayNodeByID env i gs)"
| "gw_apply env (now, RegisterOp i caps chans) gs = RegisterGatewayNodeWithTransport env now i caps chans gs"
| "gw_apply env (now, GrantsOp rnd key vip dev opts) gs =
     snd (buildGatewayAccessGrantsLocked (env\<lparr>ev_rand := rnd\<rparr>) now key vip dev opts gs)"

definition gw_history :: "gateway_env \<Rightarrow> (gtime \<times> gw_op) list \<Rightarrow> GatewayState \<Rightarrow> GatewayState" where
  "gw_history env ops gs = fold (gw_apply env) ops gs"

lemma gw_history_simps [simp]:
  "gw_history env [] gs = gs"
  "gw_history env (x # ops) gs = gw_history env ops (gw_apply env x gs)"
  by (simp_all add: gw_history_def)

text \<open>The separator of the cache keys does not occur in identifiers.\<close>

definition plain :: "string \<Rightarrow> bool" where
  "plain s \<longleftrightarrow> CHR ''|'' \<notin> set s"

fun op_plain :: "gw_op \<Rightarrow> bool" where
  "op_plain (ReportOp (Inr req)) = plain (gr_GatewayId req)"
| "op_plain (RegisterOp i _ _) = plain i"
| "op_plain (GrantsOp _ key _ dev _) \<longleftrightarrow> plain (TrimSpace key) \<and> plain dev"
| "op_plain _ = True"

section \<open>The invariant\<close>

text \<open>The ticket of a grant: signed with the secret, for this device, address, gateway and session.\<close>

definition ticket_for :: "gateway_env \<Rightarrow> string \<Rightarrow> u32 \<Rightarrow> GatewayAccessGrant \<Rightarrow> bool" where
  "ticket_for env dev vip g \<longleftrightarrow>
     (\<exists>claims cb. tc_DeviceId claims = dev \<and> tc_VirtualIp claims = vip \<and>
        tc_GatewayIds claims = [gg_GatewayId g] \<and> tc_SessionId claims = gg_SessionId g \<and>
        tc_ExpireUnixMs claims = gg_TicketExpireUnixMs g \<and> ev_claims env claims = Inr cb \<and>
        ev_ticket env \<lparr>sg_Alg = ''hmac-sha256'', sg_Claims = cb, sg_Signature = ev_hmac env (ev_Secret env) cb\<rparr>
          = Inr (gg_Ticket g))"

definition cache_entry_ok :: "gateway_env \<Rightarrow> string \<Rightarrow> cachedGatewayGrant \<Rightarrow> bool" where
  "cache_entry_ok env key c \<longleftrightarrow>
     (\<exists>nk vip dev g. plain (TrimSpace nk) \<and> plain dev \<and> plain (cg_gatewayID c) \<and>
        key = gatewayGrantCacheKey nk vip dev (cg_gatewayID c) \<and> cg_grant c = Some g \<and>
        gg_GatewayId g = cg_gatewayID c \<and> gg_TicketExpireUnixMs g = cg_expireUnixMs c \<and>
        ticket_for env dev vip g)"

definition cache_ok :: "gateway_env \<Rightarrow> (string, cachedGatewayGrant) gomap \<Rightarrow> bool" where
  "cache_ok env cache \<longleftrightarrow> gwf cache \<and> (\<forall>key c. gget cache key = Some c \<longrightarrow> cache_entry_ok env key c)"

definition nodes_ok :: "(string, GatewayNodeInfo) gomap \<Rightarrow> bool" where
  "nodes_ok nodes \<longleftrightarrow> gwf nodes \<and> (\<forall>k n. gget nodes k = Some n \<longrightarrow> gn_GatewayID n = k \<and> plain k)"

definition gw_wf :: "gateway_env \<Rightarrow> GatewayState \<Rightarrow> bool" where
  "gw_wf env gs \<longleftrightarrow>
     nodes_ok (gw_Nodes gs) \<and> nodes_ok (gw_Seen gs) \<and> cache_ok env (gw_GrantCache gs) \<and>
     (\<forall>k. gget (gw_Nodes gs) k \<noteq> None \<longrightarrow> gget (gw_Allow gs) k \<noteq> None) \<and>
     (\<forall>i c. gget (gw_Nonce gs) i = Some c \<longrightarrow> gwf c)"

lemma nodes_ok_put: "nodes_ok m \<Longrightarrow> gn_GatewayID n = k \<Longrightarrow> plain k \<Longrightarrow> nodes_ok (gput k n m)"
  by (auto simp: nodes_ok_def intro: gwf_intros)

lemma nodes_ok_del: "nodes_ok m \<Longrightarrow> nodes_ok (gdel k m)"
  by (auto simp: nodes_ok_def intro: gwf_intros)

lemma nodes_ok_get: "nodes_ok m \<Longrightarrow> gget m k = Some n \<Longrightarrow> gn_GatewayID n = k \<and> plain k"
  by (simp add: nodes_ok_def)

lemma nodes_ok_Nil [simp]: "nodes_ok []"
  by (simp add: nodes_ok_def)

lemma cache_ok_filter: "cache_ok env m \<Longrightarrow> cache_ok env (gfilter P m)"
  by (auto simp: cache_ok_def intro: gwf_intros dest: gget_gfilter_Some)

lemma cache_ok_put: "cache_ok env m \<Longrightarrow> cache_entry_ok env k c \<Longrightarrow> cache_ok env (gput k c m)"
  by (auto simp: cache_ok_def intro: gwf_intros)

lemma cache_ok_del: "cache_ok env m \<Longrightarrow> cache_ok env (gdel k m)"
  by (auto simp: cache_ok_def intro: gwf_intros split: if_splits)

lemma gw_wf_New: "gw_wf env (NewGatewayState approved)"
  by (simp add: gw_wf_def NewGatewayState_def cache_ok_def)

text \<open>The random bytes do not matter to what is approved, nor to the invariant.\<close>

lemma rand_irrelevant [simp]:
  "ticket_for (env\<lparr>ev_rand := r\<rparr>) dev vip g = ticket_for env dev vip g"
  "cache_entry_ok (env\<lparr>ev_rand := r\<rparr>) k c = cache_entry_ok env k c"
  "cache_ok (env\<lparr>ev_rand := r\<rparr>) m = cache_ok env m"
  "gw_wf (env\<lparr>ev_rand := r\<rparr>) gs = gw_wf env gs"
  "gatewayNodeApprovedLocked (env\<lparr>ev_rand := r\<rparr>) gs = gatewayNodeApprovedLocked env gs"
  by (simp_all add: ticket_for_def cache_entry_ok_def cache_ok_def gw_wf_def fun_eq_iff
        gatewayNodeApprovedLocked_def)

section \<open>Cache keys\<close>

lemma plain_digits: "plain (show_word w)"
  by (auto simp: plain_def dest: show_word_digits)

lemma cache_key_gateway:
  assumes "gatewayGrantCacheKey nk vip dev i = gatewayGrantCacheKey nk' vip' dev' i'"
    and "plain i" and "plain i'"
  shows "i = i'"
  using assms sep_append_inj_right [of "CHR ''|''" i i'
      "TrimSpace nk @ ''|'' @ show_word vip @ ''|'' @ dev" "TrimSpace nk' @ ''|'' @ show_word vip' @ ''|'' @ dev'"]
  by (simp add: gatewayGrantCacheKey_def gatewayGrantCachePrefix_def plain_def)

lemma cache_key_prefix:
  assumes "HasPrefix (gatewayGrantCacheKey nk' vip' dev' i) (gatewayGrantCachePrefix nk vip dev)"
    and "plain (TrimSpace nk)" and "plain dev" and "plain (TrimSpace nk')" and "plain dev'"
  shows "vip' = vip \<and> dev' = dev"
proof -
  let ?c = "CHR ''|''"
  obtain z where "TrimSpace nk' @ ?c # (show_word vip' @ ?c # (dev' @ ?c # i))
      = TrimSpace nk @ ?c # (show_word vip @ ?c # (dev @ ?c # z))"
    using assms(1) by (auto simp: HasPrefix_def prefix_def gatewayGrantCacheKey_def gatewayGrantCachePrefix_def)
  then have "show_word vip' @ ?c # (dev' @ ?c # i) = show_word vip @ ?c # (dev @ ?c # z)"
    using assms(2,4) sep_append_inj by (metis plain_def)
  then show ?thesis
    using assms(3,5) plain_digits [of vip] plain_digits [of vip'] sep_append_inj
    by (metis plain_def show_word_inj)
qed

section \<open>Every operation keeps the invariant\<close>

text \<open>A report: what it does before, at and after the authentication.\<close>

lemma replay_window_frame:
  "\<exists>m. snd (validateGatewayReplayWindow i ms nonce now gs) = gs\<lparr>gw_Nonce := m\<rparr> \<and>
     ((\<forall>j c. gget (gw_Nonce gs) j = Some c \<longrightarrow> gwf c) \<longrightarrow> (\<forall>j c. gget m j = Some c \<longrightarrow> gwf c))"
proof -
  have same: "gs = gs\<lparr>gw_Nonce := gw_Nonce gs\<rparr>" by simp
  let ?c = "gfilter (\<lambda>_ e. \<not> e \<le> UnixMilli now) (case gget (gw_Nonce gs) i of Some c \<Rightarrow> c | None \<Rightarrow> [])"
  have c: "(\<forall>j c. gget (gw_Nonce gs) j = Some c \<longrightarrow> gwf c) \<longrightarrow> gwf ?c"
    by (auto intro: gwf_intros split: option.split)
  have "snd (validateGatewayReplayWindow i ms nonce now gs) = gs \<or>
        (\<exists>c'. (c' = ?c \<or> (\<exists>k e. c' = gput k e ?c)) \<and>
           snd (validateGatewayReplayWindow i ms nonce now gs) = gs\<lparr>gw_Nonce := gput i c' (gw_Nonce gs)\<rparr>)"
    unfolding validateGatewayReplayWindow_def Let_def by (auto split del: if_split split: if_split)
  then show ?thesis
  proof (elim disjE exE conjE)
    assume "snd (validateGatewayReplayWindow i ms nonce now gs) = gs"
    with same show ?thesis by metis
  next
    fix c' assume "c' = ?c"
      and "snd (validateGatewayReplayWindow i ms nonce now gs) = gs\<lparr>gw_Nonce := gput i c' (gw_Nonce gs)\<rparr>"
    with c show ?thesis by (auto intro!: exI [where x = "gput i c' (gw_Nonce gs)"] split: if_splits)
  next
    fix c' k e assume "c' = gput k e ?c"
      and "snd (validateGatewayReplayWindow i ms nonce now gs) = gs\<lparr>gw_Nonce := gput i c' (gw_Nonce gs)\<rparr>"
    with c show ?thesis
      by (auto intro!: exI [where x = "gput i c' (gw_Nonce gs)"] gwf_put split: if_splits)
  qed
qed

lemma authenticate_frame:
  "\<exists>m. snd (authenticateGatewayReport env req now gs) = gs\<lparr>gw_Nonce := m\<rparr> \<and>
     ((\<forall>j c. gget (gw_Nonce gs) j = Some c \<longrightarrow> gwf c) \<longrightarrow> (\<forall>j c. gget m j = Some c \<longrightarrow> gwf c))"
proof -
  have "snd (authenticateGatewayReport env req now gs) = gs\<lparr>gw_Nonce := gw_Nonce gs\<rparr> \<or>
        snd (authenticateGatewayReport env req now gs) =
          snd (validateGatewayReplayWindow (TrimSpace (gr_GatewayId req)) (gr_ReportUnixMs req)
                 (gr_Nonce req) now gs)"
    by (simp add: authenticateGatewayReport_def split: sum.split)
  then show ?thesis using replay_window_frame by metis
qed

lemma gw_wf_nonce:
  "gw_wf env gs \<Longrightarrow> (\<forall>j c. gget (gw_Nonce gs) j = Some c \<longrightarrow> gwf c) \<longrightarrow> (\<forall>j c. gget m j = Some c \<longrightarrow> gwf c)
   \<Longrightarrow> gw_wf env (gs\<lparr>gw_Nonce := m\<rparr>)"
  by (simp add: gw_wf_def)

lemma isGatewayAllowed_seen [simp]:
  "isGatewayAllowed env i e (recordGatewaySeen n gs) = isGatewayAllowed env i e gs"
  by (simp add: isGatewayAllowed_def recordGatewaySeen_def)

text \<open>The outcomes of the handler.\<close>

lemma handle_report_cases:
  obtains (error) err where "handleGatewayReport env now decoded gs = (Inl err, gs)"
  | (refused) req err where "decoded = Inr req" and "fst (authenticateGatewayReport env req now gs) = Inl err"
      and "handleGatewayReport env now decoded gs
             = (Inr (gatewayAck req now False err), snd (authenticateGatewayReport env req now gs))"
  | (pending) req gs1 where "decoded = Inr req" and "authenticateGatewayReport env req now gs = (Inr (), gs1)"
      and "\<not> isGatewayAllowed env (gr_GatewayId req) (gn_Endpoint (reportNode env now req)) gs1"
      and "handleGatewayReport env now decoded gs
             = (Inr (gatewayAck req now False ''gateway not approved''),
                recordGatewaySeen (reportNode env now req) gs1)"
  | (accepted) req gs1 where "decoded = Inr req" and "authenticateGatewayReport env req now gs = (Inr (), gs1)"
      and "reportError env req = None"
      and "isGatewayAllowed env (gr_GatewayId req) (gn_Endpoint (reportNode env now req)) gs1"
      and "handleGatewayReport env now decoded gs
             = (Inr (gatewayAck req now True ''ok''),
                RegisterGatewayNodeWithTransport env now (gr_GatewayId req) (gr_Capabilities req)
                  (reportChannels env req) (recordGatewaySeen (reportNode env now req) gs1))"
proof (cases decoded)
  case (Inl err)
  then show ?thesis by (intro error) (simp add: handleGatewayReport_def)
next
  case (Inr req)
  obtain r gs1 where auth: "authenticateGatewayReport env req now gs = (r, gs1)" by fastforce
  note def = handleGatewayReport_def Inr auth
  show ?thesis
  proof (cases "reportError env req")
    case (Some err)
    then show ?thesis by (intro error) (simp add: def)
  next
    case None
    show ?thesis
    proof (cases r)
      case (Inl err)
      with None show ?thesis by (intro refused [of req err]) (simp_all add: def)
    next
      case (Inr u)
      with None show ?thesis
        by (cases "isGatewayAllowed env (gr_GatewayId req) (gn_Endpoint (reportNode env now req)) gs1")
          (rule accepted [of req gs1], simp_all add: def, rule pending [of req gs1], simp_all add: def)
    qed
  qed
qed

lemma gw_wf_seen: "gw_wf env gs \<Longrightarrow> plain (gn_GatewayID n) \<Longrightarrow> gw_wf env (recordGatewaySeen n gs)"
  by (simp add: gw_wf_def recordGatewaySeen_def nodes_ok_put)

lemma gw_wf_register:
  "gw_wf env gs \<Longrightarrow> plain i \<Longrightarrow> gw_wf env (RegisterGatewayNodeWithTransport env now i caps chans gs)"
  by (simp add: gw_wf_def RegisterGatewayNodeWithTransport_def Let_def nodes_ok_put nodes_ok_del)

lemma gw_wf_report:
  assumes "gw_wf env gs" and "op_plain (ReportOp decoded)"
  shows "gw_wf env (snd (handleGatewayReport env now decoded gs))"
proof -
  have wf: "gw_wf env (snd (authenticateGatewayReport env req now gs))" for req
    using authenticate_frame [of env req now gs] gw_wf_nonce [OF assms(1)] by metis
  show ?thesis
  proof (cases rule: handle_report_cases [of env now decoded gs])
    case error then show ?thesis using assms(1) by simp
  next
    case refused then show ?thesis using wf by simp
  next
    case (pending req gs1)
    then have "gw_wf env gs1" using wf [of req] by simp
    with pending assms(2) show ?thesis by (simp add: gw_wf_seen reportNode_def)
  next
    case (accepted req gs1)
    then have "gw_wf env gs1" using wf [of req] by simp
    with accepted assms(2) show ?thesis by (simp add: gw_wf_seen gw_wf_register reportNode_def)
  qed
qed

lemma gw_wf_approve: "gw_wf env gs \<Longrightarrow> gw_wf env (snd (ApproveGatewayNodeByID env i gs))"
  by (auto simp: ApproveGatewayNodeByID_def Let_def gw_wf_def nodes_ok_put dest: nodes_ok_get split: option.split)

lemma gw_wf_approve_endpoint: "gw_wf env gs \<Longrightarrow> gw_wf env (ApproveGatewayNode i e gs)"
  by (simp add: ApproveGatewayNode_def gw_wf_def)

lemma gw_wf_delist:
  assumes "gw_wf env gs"
  shows "gw_wf env (snd (DelistGatewayNodeByID env i gs))"
proof -
  have "gget (gw_Nodes gs) (TrimSpace i) = Some n \<Longrightarrow> nodes_ok (gput (TrimSpace i) n (gw_Seen gs))" for n
    using assms nodes_ok_get [of "gw_Nodes gs" "TrimSpace i" n] by (simp add: gw_wf_def nodes_ok_put)
  with assms show ?thesis
    by (cases "gget (gw_Nodes gs) (TrimSpace i)")
      (simp_all add: DelistGatewayNodeByID_def Let_def gw_wf_def nodes_ok_del cache_ok_filter
         deleteGatewayGrantCacheForGatewayLocked_def)
qed

section \<open>Grants\<close>

definition long_ttl :: "gateway_env \<Rightarrow> bool" where
  "long_ttl env \<longleftrightarrow> 31 * Second \<le> ev_HardTTL env"

definition grant_ok :: "gateway_env \<Rightarrow> grant_context \<Rightarrow> string \<Rightarrow> GatewayAccessGrant \<Rightarrow> bool" where
  "grant_ok env cx i g \<longleftrightarrow>
     gg_GatewayId g = i \<and> gg_PolicyRev g = gx_policyRev cx \<and>
     ticket_for env (gx_deviceID cx) (gx_virtualIP cx) g \<and>
     UnixMilli (gx_now cx + 30 * Second) < gg_TicketExpireUnixMs g"

definition cx_plain :: "grant_context \<Rightarrow> bool" where
  "cx_plain cx \<longleftrightarrow> plain (TrimSpace (gx_networkKey cx)) \<and> plain (gx_deviceID cx)"

lemma ticket_for_policy [simp]: "ticket_for env dev vip (g\<lparr>gg_PolicyRev := r\<rparr>) = ticket_for env dev vip g"
  by (simp add: ticket_for_def)

lemma fresh_expiry: "long_ttl env \<Longrightarrow> UnixMilli (now + 30 * Second) < UnixMilli (now + ev_HardTTL env)"
  by (simp add: long_ttl_def time_defs)

lemma newGatewayTicket_for:
  assumes "newGatewayTicket env now dev vip sid pol [i] grp ex l gr = Inr t"
  shows "\<exists>claims cb. tc_DeviceId claims = dev \<and> tc_VirtualIp claims = vip \<and> tc_GatewayIds claims = [i] \<and>
    tc_SessionId claims = sid \<and> tc_ExpireUnixMs claims = ex \<and> ev_claims env claims = Inr cb \<and>
    ev_ticket env \<lparr>sg_Alg = ''hmac-sha256'', sg_Claims = cb, sg_Signature = ev_hmac env (ev_Secret env) cb\<rparr> = Inr t"
proof -
  obtain buf where buf: "ev_rand env i = Inr buf"
    using assms by (cases "ev_rand env i") (auto simp: newGatewayTicket_def)
  define claims where "claims = \<lparr>tc_TicketId = hex_encode buf, tc_DeviceId = dev, tc_VirtualIp = vip,
     tc_SessionId = sid, tc_PolicyRevision = pol, tc_GatewayIds = [i], tc_GatewayGroupId = grp,
     tc_IssuedAtUnixMs = UnixMilli now, tc_NotBeforeUnixMs = UnixMilli now - 5000, tc_ExpireUnixMs = ex,
     tc_LeaseCapSecs = l, tc_GraceCapSecs = gr\<rparr>"
  obtain cb where cb: "ev_claims env claims = Inr cb"
    using assms buf by (cases "ev_claims env claims") (auto simp: newGatewayTicket_def claims_def)
  have "ev_ticket env \<lparr>sg_Alg = ''hmac-sha256'', sg_Claims = cb,
          sg_Signature = ev_hmac env (ev_Secret env) cb\<rparr> = Inr t"
    using assms buf cb by (simp add: newGatewayTicket_def claims_def split: if_splits)
  with cb show ?thesis by (intro exI [of _ claims] exI [of _ cb]) (simp add: claims_def)
qed

lemma build_grant:
  assumes "buildGatewayAccessGrantForNode env now vip dev node sid ex ref l gr pol = Some g"
  shows "gg_GatewayId g = gn_GatewayID node \<and> gg_PolicyRev g = pol \<and> gg_TicketExpireUnixMs g = ex \<and>
    gg_SessionId g = sid \<and> ticket_for env dev vip g"
proof -
  obtain t where t: "newGatewayTicket env now dev vip sid pol [gn_GatewayID node] [] ex l gr = Inr t"
    using assms by (auto simp: buildGatewayAccessGrantForNode_def split: sum.splits)
  then have "gg_Ticket g = t \<and> gg_GatewayId g = gn_GatewayID node \<and> gg_PolicyRev g = pol \<and>
    gg_TicketExpireUnixMs g = ex \<and> gg_SessionId g = sid"
    using assms by (auto simp: buildGatewayAccessGrantForNode_def split: list.splits)
  with newGatewayTicket_for [OF t] show ?thesis by (auto simp: ticket_for_def)
qed

text \<open>A usable entry under the key of a client and a node holds a grant for just these.\<close>

lemma cached_grant_ok:
  assumes "cache_ok env cache"
    and "gget cache (gatewayGrantCacheKey (gx_networkKey cx) (gx_virtualIP cx) (gx_deviceID cx) i) = Some c"
    and "cg_grant c = Some g" and "grantUsable (gx_now cx) fp c" and "cx_plain cx" and "plain i"
  shows "grant_ok env cx i (g\<lparr>gg_PolicyRev := gx_policyRev cx\<rparr>)"
proof -
  let ?key = "gatewayGrantCacheKey (gx_networkKey cx) (gx_virtualIP cx) (gx_deviceID cx) i"
  obtain nk vip dev where e: "plain (TrimSpace nk)" "plain dev" "plain (cg_gatewayID c)"
      "?key = gatewayGrantCacheKey nk vip dev (cg_gatewayID c)" "gg_GatewayId g = cg_gatewayID c"
      "gg_TicketExpireUnixMs g = cg_expireUnixMs c" "ticket_for env dev vip g"
    using assms(1,2,3) unfolding cache_ok_def cache_entry_ok_def by (metis option.inject)
  have i: "cg_gatewayID c = i" using cache_key_gateway [OF e(4)] assms(6) e(3) by simp
  have "HasPrefix ?key (gatewayGrantCachePrefix nk vip dev)"
    using e(4) by (simp add: HasPrefix_def gatewayGrantCacheKey_def)
  then have "gx_virtualIP cx = vip \<and> gx_deviceID cx = dev"
    using cache_key_prefix e(1,2) assms(5) by (metis cx_plain_def)
  with e i assms(4) show ?thesis by (simp add: grant_ok_def grantUsable_def)
qed

lemma reusable_iff:
  "reusableGrant cx node cached = Some g \<longleftrightarrow>
     (\<exists>c g0. cached = Some c \<and> cg_grant c = Some g0 \<and> g = g0\<lparr>gg_PolicyRev := gx_policyRev cx\<rparr> \<and>
        grantUsable (gx_now cx) (gatewayGrantNodeFingerprint node) c \<and>
        (op_refresh (gx_opts cx) \<longrightarrow> \<not> op_forceReissue (gx_opts cx) \<and>
           (op_lastSessionID (gx_opts cx) = 0 \<or> op_lastSessionIDValid (gx_opts cx))))"
  by (cases cached) (auto simp: reusableGrant_def Let_def)

lemma issueGrant_ok:
  assumes "issueGrant env cx node sid = Some g" and "long_ttl env"
  shows "grant_ok env cx (gn_GatewayID node) g" and "gg_SessionId g = sid"
  using build_grant [OF assms(1) [unfolded issueGrant_def Let_def]] fresh_expiry [OF assms(2)]
  by (simp_all add: grant_ok_def)

lemma issued_entry_ok:
  assumes "grant_ok env cx (gn_GatewayID node) g" and "cx_plain cx" and "plain (gn_GatewayID node)"
  shows "cache_entry_ok env
    (gatewayGrantCacheKey (gx_networkKey cx) (gx_virtualIP cx) (gx_deviceID cx) (gn_GatewayID node))
    \<lparr>cg_gatewayID = gn_GatewayID node, cg_nodeFingerprint = fp,
     cg_expireUnixMs = gg_TicketExpireUnixMs g, cg_grant = Some g\<rparr>"
  using assms by (auto simp: cache_entry_ok_def grant_ok_def cx_plain_def)

lemma grant_step:
  assumes step: "gatewayAccessGrantForNodeLocked env cx node salt gs = ((r, ch), gs')"
    and ok: "cache_ok env (gw_GrantCache gs)" and cx: "cx_plain cx" and node: "plain (gn_GatewayID node)"
    and ttl: "long_ttl env"
  shows "(\<exists>cache. gs' = gs\<lparr>gw_GrantCache := cache\<rparr> \<and> cache_ok env cache) \<and>
    (\<forall>g. r = Some g \<longrightarrow> grant_ok env cx (gn_GatewayID node) g)"
proof -
  let ?key = "gatewayGrantCacheKey (gx_networkKey cx) (gx_virtualIP cx) (gx_deviceID cx) (gn_GatewayID node)"
  let ?cached = "gget (gw_GrantCache gs) ?key"
  note def = gatewayAccessGrantForNodeLocked_def [of env cx node salt gs]
  show ?thesis
  proof (cases "reusableGrant cx node ?cached")
    case (Some g)
    then have "r = Some g" "gs' = gs\<lparr>gw_GrantCache := gw_GrantCache gs\<rparr>" using step def by simp_all
    moreover have "grant_ok env cx (gn_GatewayID node) g"
      using Some cached_grant_ok [OF ok _ _ _ cx node] by (auto simp: reusable_iff)
    ultimately show ?thesis using ok by blast
  next
    case reuse: None
    show ?thesis
    proof (cases "issueGrant env cx node (grantSessionID cx salt ?cached)")
      case None
      then show ?thesis using reuse step def ok cache_ok_del by auto
    next
      case (Some g)
      note g = issueGrant_ok(1) [OF Some ttl]
      show ?thesis
        using reuse Some step def g cache_ok_put [OF ok issued_entry_ok [OF g cx node]] by auto
    qed
  qed
qed

lemma grants_for_nodes:
  assumes "grantsForNodes env cx salt nodes gs = ((grants, ch), gs')"
    and "cache_ok env (gw_GrantCache gs)" and "cx_plain cx" and "\<forall>n \<in> set nodes. plain (gn_GatewayID n)"
    and "long_ttl env"
  shows "(\<exists>cache. gs' = gs\<lparr>gw_GrantCache := cache\<rparr> \<and> cache_ok env cache) \<and>
    (\<forall>g \<in> set grants. \<exists>n \<in> set nodes. grant_ok env cx (gn_GatewayID n) g)"
  using assms
proof (induction nodes arbitrary: salt gs grants ch gs')
  case Nil
  then have "gs' = gs\<lparr>gw_GrantCache := gw_GrantCache gs\<rparr>" "grants = []" by simp_all
  with Nil.prems(2) show ?case by (intro conjI exI [of _ "gw_GrantCache gs"]) auto
next
  case (Cons n nodes)
  obtain r ch1 gs1 where step: "gatewayAccessGrantForNodeLocked env cx n salt gs = ((r, ch1), gs1)"
    by (metis surj_pair)
  obtain gr2 ch2 gs2 where rest: "grantsForNodes env cx (salt + 1) nodes gs1 = ((gr2, ch2), gs2)"
    by (metis surj_pair)
  from grant_step [OF step Cons.prems(2,3) _ Cons.prems(5)] Cons.prems(4)
  obtain cache where c: "gs1 = gs\<lparr>gw_GrantCache := cache\<rparr>" "cache_ok env cache"
    and r: "\<forall>g. r = Some g \<longrightarrow> grant_ok env cx (gn_GatewayID n) g" by auto
  from Cons.IH [OF rest _ Cons.prems(3) _ Cons.prems(5)] c Cons.prems(4)
  obtain cache2 where c2: "gs2 = gs1\<lparr>gw_GrantCache := cache2\<rparr>" "cache_ok env cache2"
    and g2: "\<forall>g \<in> set gr2. \<exists>n \<in> set nodes. grant_ok env cx (gn_GatewayID n) g" by auto
  have "gs' = gs2" "set grants \<subseteq> set_option r \<union> set gr2"
    using Cons.prems(1) step rest by (auto split: option.splits)
  with c c2 r g2 show ?case by fastforce
qed

lemma alive_node:
  assumes "nodes_ok (gw_Nodes gs)" and "n \<in> set (approvedAliveGatewayNodesLocked env now gs)"
  shows "gget (gw_Nodes gs) (gn_GatewayID n) = Some n" and "gatewayNodeApprovedLocked env gs n"
    and "plain (gn_GatewayID n)" and "\<not> time_Sub now (gn_UpdatedAt n) > gatewayNodeLease"
proof -
  from assms(2) obtain k where k: "(k, n) \<in> set (gw_Nodes gs)"
    and "gatewayNodeApprovedLocked env gs n" "\<not> time_Sub now (gn_UpdatedAt n) > gatewayNodeLease"
    by (auto simp: approvedAliveGatewayNodesLocked_def)
  moreover have "gget (gw_Nodes gs) k = Some n" using k assms(1) by (simp add: gget_iff nodes_ok_def)
  ultimately show "gget (gw_Nodes gs) (gn_GatewayID n) = Some n" and "gatewayNodeApprovedLocked env gs n"
    and "plain (gn_GatewayID n)" and "\<not> time_Sub now (gn_UpdatedAt n) > gatewayNodeLease"
    using nodes_ok_get [OF assms(1)] by auto
qed

lemma sync_policy_frame:
  assumes "syncGatewayGrantPolicyLocked nodes gs = ((pol, b), gs1)"
  shows "gs1 = gs\<lparr>gw_GrantFingerprint := gatewayGrantFingerprint nodes, gw_GrantPolicyRev := pol\<rparr>"
    and "pol \<noteq> 0" and "b \<longleftrightarrow> gatewayGrantFingerprint nodes \<noteq> gw_GrantFingerprint gs"
    and "gw_GrantPolicyRev gs \<noteq> 0 \<Longrightarrow> (pol = gw_GrantPolicyRev gs \<longleftrightarrow> \<not> b)"
  using assms by (auto simp: syncGatewayGrantPolicyLocked_def Let_def split: if_splits)

text \<open>What holds of every grant that is handed out.\<close>

definition handed_out ::
    "gateway_env \<Rightarrow> GatewayState \<Rightarrow> gtime \<Rightarrow> string \<Rightarrow> u32 \<Rightarrow> u64 \<Rightarrow> GatewayAccessGrant \<Rightarrow> bool" where
  "handed_out env gs now dev vip pol g \<longleftrightarrow>
     (\<exists>node. gget (gw_Nodes gs) (gg_GatewayId g) = Some node \<and> gatewayNodeApprovedLocked env gs node) \<and>
     gg_PolicyRev g = pol \<and> ticket_for env dev vip g \<and>
     UnixMilli (now + 30 * Second) < gg_TicketExpireUnixMs g"

lemma handed_out_frame:
  "gw_Nodes gs' = gw_Nodes gs \<Longrightarrow> gw_Allow gs' = gw_Allow gs \<Longrightarrow>
     handed_out env gs' now dev vip pol g = handed_out env gs now dev vip pol g"
  by (simp add: handed_out_def gatewayNodeApprovedLocked_def)

lemma retained_ok:
  assumes "g \<in> set (retainedGatewayAccessGrantsLocked env nk vip dev alive pol now gs)"
    and "cache_ok env (gw_GrantCache gs)" and "plain (TrimSpace nk)" and "plain dev"
  shows "handed_out env gs now dev vip pol g"
proof -
  from assms(1) obtain key c g0 where kc: "(key, c) \<in> set (gw_GrantCache gs)"
      "HasPrefix key (gatewayGrantCachePrefix nk vip dev)" "cacheKept env now gs c" "cg_grant c = Some g0"
    and g: "g = g0\<lparr>gg_PolicyRev := pol\<rparr>"
    by (auto simp: retainedGatewayAccessGrantsLocked_def map_filter_def)
  have "gget (gw_GrantCache gs) key = Some c" using kc(1) assms(2) by (simp add: cache_ok_def gget_iff)
  then have "cache_entry_ok env key c" using assms(2) by (simp add: cache_ok_def)
  then obtain nk' vip' dev' where e: "plain (TrimSpace nk')" "plain dev'"
      "key = gatewayGrantCacheKey nk' vip' dev' (cg_gatewayID c)" "gg_GatewayId g0 = cg_gatewayID c"
      "gg_TicketExpireUnixMs g0 = cg_expireUnixMs c" "ticket_for env dev' vip' g0"
    unfolding cache_entry_ok_def using kc(4) by (metis option.inject)
  then have "vip' = vip \<and> dev' = dev" using cache_key_prefix assms(3,4) kc(2) by metis
  with e g kc(3) show ?thesis by (auto simp: handed_out_def cacheKept_def grantUsable_def split: option.splits)
qed

text \<open>The build in three steps: policy, pruning, and the grants themselves.\<close>

lemma build_steps:
  assumes build: "buildGatewayAccessGrantsLocked env now nk vip dev opts gs = ((grants, pol, ch), gs')"
    and sync: "syncGatewayGrantPolicyLocked (approvedAliveGatewayNodesLocked env now gs) gs = ((p, b), gs1)"
  obtains (none) "grants = []" "pol = p" "ch = False" "gs' = pruneGatewayGrantCacheLocked env now gs1"
      "approvedAliveGatewayNodesLocked env now gs = []" "\<not> op_retainExisting opts"
  | (some) opts' grants1 where
      "grantsForNodes env \<lparr>gx_networkKey = nk, gx_virtualIP = vip, gx_deviceID = dev, gx_policyRev = p,
           gx_opts = opts', gx_now = now\<rparr> 0 (approvedAliveGatewayNodesLocked env now gs)
         (pruneGatewayGrantCacheLocked env now gs1) = ((grants1, ch), gs')"
      "set grants = set grants1 \<union> (if op_retainExisting opts
         then set (retainedGatewayAccessGrantsLocked env nk vip dev
                     (approvedAliveGatewayNodesLocked env now gs) p now gs') else {})"
      "pol = p"
proof (cases "approvedAliveGatewayNodesLocked env now gs = [] \<and> \<not> op_retainExisting opts")
  case True
  then show ?thesis using build sync none by (simp add: buildGatewayAccessGrantsLocked_def)
next
  case False
  define opts' where "opts' = checkLastSession nk vip dev (pruneGatewayGrantCacheLocked env now gs1) opts"
  have keep: "op_retainExisting opts' = op_retainExisting opts" by (simp add: opts'_def checkLastSession_def)
  obtain gr c g3 where gr: "grantsForNodes env \<lparr>gx_networkKey = nk, gx_virtualIP = vip, gx_deviceID = dev,
       gx_policyRev = p, gx_opts = opts', gx_now = now\<rparr> 0 (approvedAliveGatewayNodesLocked env now gs)
     (pruneGatewayGrantCacheLocked env now gs1) = ((gr, c), g3)" by (metis surj_pair)
  have "((grants, pol, ch), gs') = ((sortGatewayAccessGrants (TrimSpace (ev_DefaultGatewayID env))
      (gr @ (if op_retainExisting opts' then retainedGatewayAccessGrantsLocked env nk vip dev
                (approvedAliveGatewayNodesLocked env now gs) p now g3 else [])), p, c), g3)"
    using build sync False gr keep by (simp add: buildGatewayAccessGrantsLocked_def Let_def opts'_def)
  then show ?thesis using gr keep by (intro some [of opts' gr]) (auto simp: sortGatewayAccessGrants_def)
qed

lemma build_grants:
  assumes build: "buildGatewayAccessGrantsLocked env now nk vip dev opts gs = ((grants, pol, ch), gs')"
    and wf: "gw_wf env gs" and key: "plain (TrimSpace nk)" "plain dev" and ttl: "long_ttl env"
  shows "\<exists>cache. cache_ok env cache \<and>
      gs' = gs\<lparr>gw_GrantFingerprint := gatewayGrantFingerprint (approvedAliveGatewayNodesLocked env now gs),
               gw_GrantPolicyRev := pol, gw_GrantCache := cache\<rparr>"
    and "pol \<noteq> 0" and "\<forall>g \<in> set grants. handed_out env gs now dev vip pol g"
proof -
  let ?nodes = "approvedAliveGatewayNodesLocked env now gs"
  obtain p b gs1 where sync: "syncGatewayGrantPolicyLocked ?nodes gs = ((p, b), gs1)" by (metis surj_pair)
  note s = sync_policy_frame [OF sync]
  define gs2 where "gs2 = pruneGatewayGrantCacheLocked env now gs1"
  have ok2: "cache_ok env (gw_GrantCache gs2)"
    using wf s(1) by (simp add: gs2_def pruneGatewayGrantCacheLocked_def cache_ok_filter gw_wf_def)
  have fr2: "gs2\<lparr>gw_GrantCache := c\<rparr> = gs\<lparr>gw_GrantFingerprint := gatewayGrantFingerprint ?nodes,
      gw_GrantPolicyRev := p, gw_GrantCache := c\<rparr>" for c
    using s(1) by (simp add: gs2_def pruneGatewayGrantCacheLocked_def)
  have pl: "\<forall>n \<in> set ?nodes. plain (gn_GatewayID n)" using wf alive_node(3) by (auto simp: gw_wf_def)
  have *: "pol = p \<and> (\<exists>cache. cache_ok env cache \<and> gs' = gs2\<lparr>gw_GrantCache := cache\<rparr>) \<and>
      (\<forall>g \<in> set grants. handed_out env gs now dev vip pol g)"
  proof (cases rule: build_steps [OF build sync])
    case 1
    have "gs2 = gs2\<lparr>gw_GrantCache := gw_GrantCache gs2\<rparr>" by simp
    with 1 ok2 show ?thesis by (auto simp: gs2_def [symmetric])
  next
    case (2 opts' grants1)
    let ?cx = "\<lparr>gx_networkKey = nk, gx_virtualIP = vip, gx_deviceID = dev, gx_policyRev = p,
           gx_opts = opts', gx_now = now\<rparr>"
    have "cx_plain ?cx" using key by (simp add: cx_plain_def)
    from grants_for_nodes [OF 2(1) [folded gs2_def] ok2 this pl ttl]
    obtain cache where c: "gs' = gs2\<lparr>gw_GrantCache := cache\<rparr>" "cache_ok env cache"
      and g1: "\<forall>g \<in> set grants1. \<exists>n \<in> set ?nodes. grant_ok env ?cx (gn_GatewayID n) g" by blast
    have new: "\<forall>g \<in> set grants1. handed_out env gs now dev vip p g"
      using g1 wf alive_node by (fastforce simp: handed_out_def grant_ok_def gw_wf_def)
    have "gw_Nodes gs' = gw_Nodes gs" "gw_Allow gs' = gw_Allow gs" using c(1) fr2 by simp_all
    moreover have "cache_ok env (gw_GrantCache gs')" using c by simp
    ultimately have "g \<in> set (retainedGatewayAccessGrantsLocked env nk vip dev ?nodes p now gs')
        \<Longrightarrow> handed_out env gs now dev vip p g" for g
      using retained_ok [OF _ _ key] handed_out_frame by metis
    with new 2(2,3) c show ?thesis by (auto split: if_splits)
  qed
  then show "\<exists>cache. cache_ok env cache \<and>
      gs' = gs\<lparr>gw_GrantFingerprint := gatewayGrantFingerprint ?nodes,
               gw_GrantPolicyRev := pol, gw_GrantCache := cache\<rparr>" using fr2 by auto
  show "pol \<noteq> 0" and "\<forall>g \<in> set grants. handed_out env gs now dev vip pol g" using * s(2) by blast+
qed

section \<open>Histories keep the invariant\<close>

lemma gw_wf_grants:
  assumes "gw_wf env gs" and "op_plain (GrantsOp rnd nk vip dev opts)" and "long_ttl env"
  shows "gw_wf env (gw_apply env (now, GrantsOp rnd nk vip dev opts) gs)"
    and "gw_Nonce (gw_apply env (now, GrantsOp rnd nk vip dev opts) gs) = gw_Nonce gs"
    and "gw_Nodes (gw_apply env (now, GrantsOp rnd nk vip dev opts) gs) = gw_Nodes gs"
    and "gw_Allow (gw_apply env (now, GrantsOp rnd nk vip dev opts) gs) = gw_Allow gs"
proof -
  let ?env = "env\<lparr>ev_rand := rnd\<rparr>"
  obtain grants pol ch gs' where b: "buildGatewayAccessGrantsLocked ?env now nk vip dev opts gs = ((grants, pol, ch), gs')"
    by (metis surj_pair)
  have "gw_wf ?env gs" "long_ttl ?env" using assms by (simp_all add: long_ttl_def)
  from build_grants(1) [OF b this(1) _ _ this(2)] assms(2)
  obtain cache fp where "cache_ok env cache"
    "gs' = gs\<lparr>gw_GrantFingerprint := fp, gw_GrantPolicyRev := pol, gw_GrantCache := cache\<rparr>" by auto
  with assms(1) b show "gw_wf env (gw_apply env (now, GrantsOp rnd nk vip dev opts) gs)"
    and "gw_Nonce (gw_apply env (now, GrantsOp rnd nk vip dev opts) gs) = gw_Nonce gs"
    and "gw_Nodes (gw_apply env (now, GrantsOp rnd nk vip dev opts) gs) = gw_Nodes gs"
    and "gw_Allow (gw_apply env (now, GrantsOp rnd nk vip dev opts) gs) = gw_Allow gs"
    by (simp_all add: gw_wf_def)
qed

lemma gw_apply_wf:
  assumes "gw_wf env gs" and "op_plain (snd x)" and "long_ttl env"
  shows "gw_wf env (gw_apply env x gs)"
proof (cases x)
  case (Pair now opn)
  show ?thesis
  proof (cases opn)
    case (GrantsOp rnd nk vip dev opts)
    then show ?thesis using gw_wf_grants(1) [OF assms(1) _ assms(3)] assms(2) Pair by simp
  qed (use assms Pair in \<open>simp_all add: gw_wf_report gw_wf_approve gw_wf_approve_endpoint gw_wf_delist gw_wf_register\<close>)
qed

definition plain_history :: "(gtime \<times> gw_op) list \<Rightarrow> bool" where
  "plain_history ops \<longleftrightarrow> list_all (op_plain \<circ> snd) ops"

lemma plain_history_simps [simp]:
  "plain_history []" "plain_history (x # ops) \<longleftrightarrow> op_plain (snd x) \<and> plain_history ops"
  by (simp_all add: plain_history_def)

lemma gw_history_wf:
  "gw_wf env gs \<Longrightarrow> plain_history ops \<Longrightarrow> long_ttl env \<Longrightarrow> gw_wf env (gw_history env ops gs)"
  by (induction ops arbitrary: gs) (simp_all add: gw_apply_wf)

text \<open>An assertion that every operation of some kind keeps holds after every history of this kind.\<close>

lemma gw_history_induct [consumes 3, case_names step]:
  assumes "gw_wf env gs" and "plain_history ops" and "P gs" and "long_ttl env"
    and "\<And>x gs. x \<in> set ops \<Longrightarrow> gw_wf env gs \<Longrightarrow> op_plain (snd x) \<Longrightarrow> P gs \<Longrightarrow> P (gw_apply env x gs)"
  shows "P (gw_history env ops gs)"
  using assms by (induction ops arbitrary: gs) (simp_all add: gw_apply_wf)

section \<open>Replays\<close>

definition nonce_until :: "GatewayState \<Rightarrow> string \<Rightarrow> string \<Rightarrow> int \<Rightarrow> bool" where
  "nonce_until gs i k e \<longleftrightarrow> (\<exists>c. gget (gw_Nonce gs) i = Some c \<and> gget c k = Some e)"

lemma freshness: "time_Sub a b > gatewayReportFreshnessWindow \<longleftrightarrow> a - b > 120 * Second"
  using time_Sub_gt_iff [of "120 * Second" a b] by (simp add: gatewayReportFreshnessWindow_def Second_def)

lemma fresh_ms:
  assumes "\<not> now - time_of_UnixMilli ms > 120 * Second"
  shows "\<not> UnixMilli (time_of_UnixMilli ms + gatewayReportFreshnessWindow) < UnixMilli now"
    and "UnixMilli (time_of_UnixMilli ms + gatewayReportFreshnessWindow) = ms + 120000"
  using assms by (simp_all add: time_defs gatewayReportFreshnessWindow_def)

lemma nonce_recorded:
  assumes "fst (validateGatewayReplayWindow i ms nonce now gs) = Inr ()"
  shows "nonce_until (snd (validateGatewayReplayWindow i ms nonce now gs)) i (hex_encode nonce) (ms + 120000)"
    and "\<bar>now - time_of_UnixMilli ms\<bar> \<le> 120 * Second"
proof -
  have f: "\<not> now - time_of_UnixMilli ms > 120 * Second" "\<not> time_of_UnixMilli ms - now > 120 * Second"
    using assms by (auto simp: validateGatewayReplayWindow_def Let_def freshness split: if_splits)
  then show "\<bar>now - time_of_UnixMilli ms\<bar> \<le> 120 * Second" by linarith
  show "nonce_until (snd (validateGatewayReplayWindow i ms nonce now gs)) i (hex_encode nonce) (ms + 120000)"
    using assms f fresh_ms [OF f(1)]
    by (simp add: validateGatewayReplayWindow_def Let_def freshness nonce_until_def split: if_splits)
qed

lemma nonce_kept:
  assumes "nonce_until gs i k e" and "UnixMilli now < e" and "gw_wf env gs"
  shows "nonce_until (snd (validateGatewayReplayWindow i' ms nonce now gs)) i k e"
proof -
  obtain c where c: "gget (gw_Nonce gs) i = Some c" "gget c k = Some e" using assms(1) by (auto simp: nonce_until_def)
  moreover have "gwf c" using c assms(3) by (simp add: gw_wf_def)
  ultimately show ?thesis
    using assms(1,2)
    by (auto simp: validateGatewayReplayWindow_def Let_def nonce_until_def gget_gfilter split: if_splits)
qed

lemma nonce_refused:
  assumes "nonce_until gs i (hex_encode nonce) e" and "UnixMilli now < e" and "gw_wf env gs"
  shows "\<exists>err. fst (validateGatewayReplayWindow i ms nonce now gs) = Inl err"
proof -
  obtain c where c: "gget (gw_Nonce gs) i = Some c" "gget c (hex_encode nonce) = Some e"
    using assms(1) by (auto simp: nonce_until_def)
  moreover have "gwf c" using c assms(3) by (simp add: gw_wf_def)
  ultimately show ?thesis
    using assms(2) by (auto simp: validateGatewayReplayWindow_def Let_def gget_gfilter)
qed

lemma authenticate_Inr:
  assumes "fst (authenticateGatewayReport env req now gs) = Inr ()"
  shows "authenticateGatewayReport env req now gs =
      validateGatewayReplayWindow (TrimSpace (gr_GatewayId req)) (gr_ReportUnixMs req) (gr_Nonce req) now gs"
    and "\<exists>pb. ev_proof env (gatewayReportProof env req) = Inr pb \<and>
      gr_Signature req = ev_hmac env (ev_Secret env) pb"
  using assms by (auto simp: authenticateGatewayReport_def split: if_splits sum.splits)

lemma nonce_kept_auth:
  assumes "nonce_until gs i k e" and "UnixMilli now < e" and "gw_wf env gs"
  shows "nonce_until (snd (authenticateGatewayReport env req now gs)) i k e"
  using nonce_kept [OF assms] assms(1) by (simp add: authenticateGatewayReport_def split: sum.split)

lemma nonce_until_frame: "gw_Nonce gs' = gw_Nonce gs \<Longrightarrow> nonce_until gs' i k e = nonce_until gs i k e"
  by (simp add: nonce_until_def)

lemma nonce_frames [simp]:
  "gw_Nonce (recordGatewaySeen n gs) = gw_Nonce gs"
  "gw_Nonce (RegisterGatewayNodeWithTransport env now j caps chans gs) = gw_Nonce gs"
  "gw_Nonce (ApproveGatewayNode j e gs) = gw_Nonce gs"
  "gw_Nonce (snd (ApproveGatewayNodeByID env j gs)) = gw_Nonce gs"
  "gw_Nonce (snd (DelistGatewayNodeByID env j gs)) = gw_Nonce gs"
  by (simp_all add: recordGatewaySeen_def RegisterGatewayNodeWithTransport_def ApproveGatewayNode_def
        ApproveGatewayNodeByID_def DelistGatewayNodeByID_def deleteGatewayGrantCacheForGatewayLocked_def Let_def
        split: option.split)

lemma report_nonce:
  assumes "handleGatewayReport env now decoded gs = (r, gs')"
  shows "gs' = gs \<or> (\<exists>req. decoded = Inr req \<and> gw_Nonce gs' = gw_Nonce (snd (authenticateGatewayReport env req now gs)))"
  using assms by (cases rule: handle_report_cases [of env now decoded gs]) auto

lemma gw_apply_nonce:
  assumes "nonce_until gs i k e" and "UnixMilli (fst x) < e" and "gw_wf env gs" and "op_plain (snd x)" and "long_ttl env"
  shows "nonce_until (gw_apply env x gs) i k e"
proof (cases x)
  case (Pair now opn)
  show ?thesis
  proof (cases opn)
    case (ReportOp decoded)
    obtain r gs' where h: "handleGatewayReport env now decoded gs = (r, gs')" by fastforce
    have "nonce_until gs' i k e"
      using report_nonce [OF h] nonce_kept_auth [OF assms(1) _ assms(3)] assms(1,2) Pair nonce_until_frame
      by (metis fst_conv)
    then show ?thesis using h Pair ReportOp by simp
  next
    case (GrantsOp rnd nk vip dev opts)
    then show ?thesis
      using gw_wf_grants(2) [OF assms(3) _ assms(5)] assms(1,4) Pair nonce_until_frame by (metis snd_conv)
  qed (use assms Pair in \<open>simp_all add: nonce_until_def\<close>)
qed

section \<open>Frames and completeness\<close>

text \<open>A report touches only the entries of its own gateway.\<close>

lemma register_frame:
  "k \<noteq> i \<Longrightarrow> gget (gw_Nodes (RegisterGatewayNodeWithTransport env now i caps chans gs)) k = gget (gw_Nodes gs) k"
  "k \<noteq> i \<Longrightarrow> gget (gw_Allow (RegisterGatewayNodeWithTransport env now i caps chans gs)) k = gget (gw_Allow gs) k"
  by (simp_all add: RegisterGatewayNodeWithTransport_def Let_def)

lemma auth_frames [simp]:
  "gw_Nodes (snd (authenticateGatewayReport env req now gs)) = gw_Nodes gs"
  "gw_Allow (snd (authenticateGatewayReport env req now gs)) = gw_Allow gs"
  "gw_Seen (snd (authenticateGatewayReport env req now gs)) = gw_Seen gs"
  using authenticate_frame [of env req now gs] by auto

lemma seen_frames [simp]:
  "gw_Nodes (recordGatewaySeen n gs) = gw_Nodes gs" "gw_Allow (recordGatewaySeen n gs) = gw_Allow gs"
  by (simp_all add: recordGatewaySeen_def)

lemma report_frame:
  assumes "handleGatewayReport env now decoded gs = (r, gs')"
    and "k \<noteq> (case decoded of Inr req \<Rightarrow> gr_GatewayId req | Inl _ \<Rightarrow> [])
         \<or> (TrimSpace k \<noteq> TrimSpace (ev_DefaultGatewayID env) \<and> gget (gw_Allow gs) k = None)"
  shows "gget (gw_Nodes gs') k = gget (gw_Nodes gs) k \<and> gget (gw_Allow gs') k = gget (gw_Allow gs) k"
proof (cases rule: handle_report_cases [of env now decoded gs])
  case (accepted req gs1)
  have fr: "gw_Nodes gs1 = gw_Nodes gs" "gw_Allow gs1 = gw_Allow gs"
    using auth_frames [of env req now gs] accepted(2) by simp_all
  have "k \<noteq> gr_GatewayId req"
    using assms(2) accepted(1,4) fr by (auto simp: isGatewayAllowed_def)
  with assms(1) accepted(5) fr show ?thesis by (auto simp: register_frame)
next
  case (pending req gs1)
  then have "gw_Nodes gs1 = gw_Nodes gs" "gw_Allow gs1 = gw_Allow gs"
    using auth_frames [of env req now gs] by simp_all
  with pending assms(1) show ?thesis by auto
qed (use assms(1) in auto)

text \<open>Tickets can be made: the parameters succeed and there is a secret.\<close>

definition env_total :: "gateway_env \<Rightarrow> bool" where
  "env_total env \<longleftrightarrow> TrimSpace (ev_Secret env) \<noteq> [] \<and> (\<forall>i. \<exists>b. ev_rand env i = Inr b) \<and>
     (\<forall>c. \<exists>b. ev_claims env c = Inr b) \<and> (\<forall>t. \<exists>b. ev_ticket env t = Inr b)"

lemma ticket_returns:
  assumes "env_total env"
  shows "\<exists>t. newGatewayTicket env now dev vip sid pol ids grp ex l gr = Inr t"
proof -
  obtain b where b: "ev_rand env (hd (ids @ [[]])) = Inr b" using assms by (meson env_total_def)
  let ?claims = "\<lparr>tc_TicketId = hex_encode b, tc_DeviceId = dev, tc_VirtualIp = vip,
     tc_SessionId = sid, tc_PolicyRevision = pol, tc_GatewayIds = ids, tc_GatewayGroupId = grp,
     tc_IssuedAtUnixMs = UnixMilli now, tc_NotBeforeUnixMs = UnixMilli now - 5000, tc_ExpireUnixMs = ex,
     tc_LeaseCapSecs = l, tc_GraceCapSecs = gr\<rparr>"
  obtain c where c: "ev_claims env ?claims = Inr c" using assms by (meson env_total_def)
  have "TrimSpace (ev_Secret env) \<noteq> []"
    and "\<exists>t. ev_ticket env \<lparr>sg_Alg = ''hmac-sha256'', sg_Claims = c, sg_Signature = ev_hmac env (ev_Secret env) c\<rparr> = Inr t"
    using assms by (auto simp: env_total_def)
  with b c show ?thesis by (simp add: newGatewayTicket_def Let_def)
qed

lemma issue_returns:
  assumes "env_total env" and "cloneGatewayChannels env (gn_Channels node) \<noteq> []"
  shows "issueGrant env cx node sid \<noteq> None"
proof -
  have "buildGatewayAccessGrantForNode env now vip dev node sid ex ref l gr pol \<noteq> None" for now vip dev ex ref l gr pol
    using ticket_returns [OF assms(1), of now dev vip sid pol "[gn_GatewayID node]" "[]" ex l gr] assms(2)
    by (auto simp: buildGatewayAccessGrantForNode_def split: list.split)
  then show ?thesis by (simp add: issueGrant_def Let_def)
qed

lemma grant_step_returns:
  assumes "gatewayAccessGrantForNodeLocked env cx node salt gs = ((r, ch), gs')"
    and "\<And>sid. issueGrant env cx node sid \<noteq> None"
  shows "r \<noteq> None"
proof -
  let ?cached = "gget (gw_GrantCache gs)
    (gatewayGrantCacheKey (gx_networkKey cx) (gx_virtualIP cx) (gx_deviceID cx) (gn_GatewayID node))"
  obtain g where "issueGrant env cx node (grantSessionID cx salt ?cached) = Some g" using assms(2) by blast
  then have "fst (fst (gatewayAccessGrantForNodeLocked env cx node salt gs)) \<noteq> None"
    by (cases "reusableGrant cx node ?cached") (simp_all add: gatewayAccessGrantForNodeLocked_def)
  with assms(1) show ?thesis by simp
qed

lemma grants_ids:
  assumes "grantsForNodes env cx salt nodes gs = ((grants, ch), gs')"
    and "cache_ok env (gw_GrantCache gs)" and "cx_plain cx" and "long_ttl env" and "env_total env"
    and "\<forall>n \<in> set nodes. plain (gn_GatewayID n) \<and> cloneGatewayChannels env (gn_Channels n) \<noteq> []"
  shows "map gg_GatewayId grants = map gn_GatewayID nodes"
  using assms
proof (induction nodes arbitrary: salt gs grants ch gs')
  case (Cons n nodes)
  obtain r ch1 gs1 where step: "gatewayAccessGrantForNodeLocked env cx n salt gs = ((r, ch1), gs1)"
    by (metis surj_pair)
  obtain gr2 ch2 gs2 where rest: "grantsForNodes env cx (salt + 1) nodes gs1 = ((gr2, ch2), gs2)"
    by (metis surj_pair)
  from grant_step [OF step Cons.prems(2,3) _ Cons.prems(4)] Cons.prems(6)
  have ok: "cache_ok env (gw_GrantCache gs1)" and r: "\<forall>g. r = Some g \<longrightarrow> grant_ok env cx (gn_GatewayID n) g" by auto
  have "r \<noteq> None"
    using grant_step_returns [OF step] issue_returns [OF Cons.prems(5), of n cx] Cons.prems(6) by simp
  then obtain g where "r = Some g" "gg_GatewayId g = gn_GatewayID n" using r by (auto simp: grant_ok_def)
  moreover have "map gg_GatewayId gr2 = map gn_GatewayID nodes"
    using Cons.IH [OF rest ok Cons.prems(3-5)] Cons.prems(6) by simp
  ultimately show ?case using Cons.prems(1) step rest by auto
qed simp

text \<open>A gateway that is not approved stays so, unless it is approved or registered by name.\<close>

fun admits :: "string \<Rightarrow> gw_op \<Rightarrow> bool" where
  "admits i (ApproveOp j) \<longleftrightarrow> TrimSpace j = i"
| "admits i (ApproveEndpointOp j _) \<longleftrightarrow> j = i"
| "admits i (RegisterOp j _ _) \<longleftrightarrow> j = i"
| "admits i _ \<longleftrightarrow> False"

definition unlisted :: "string \<Rightarrow> GatewayState \<Rightarrow> bool" where
  "unlisted i gs \<longleftrightarrow> gget (gw_Allow gs) i = None \<and> gget (gw_Nodes gs) i = None"

lemma delist_frame:
  "gget (gw_Allow (snd (DelistGatewayNodeByID env j gs))) i = None
     \<or> gget (gw_Allow (snd (DelistGatewayNodeByID env j gs))) i = gget (gw_Allow gs) i"
  "gget (gw_Nodes (snd (DelistGatewayNodeByID env j gs))) i = None
     \<or> gget (gw_Nodes (snd (DelistGatewayNodeByID env j gs))) i = gget (gw_Nodes gs) i"
  by (simp_all add: DelistGatewayNodeByID_def deleteGatewayGrantCacheForGatewayLocked_def Let_def split: option.split)

lemma approve_frame:
  "i \<noteq> TrimSpace j \<Longrightarrow> gget (gw_Allow (snd (ApproveGatewayNodeByID env j gs))) i = gget (gw_Allow gs) i"
  "i \<noteq> TrimSpace j \<Longrightarrow> gget (gw_Nodes (snd (ApproveGatewayNodeByID env j gs))) i = gget (gw_Nodes gs) i"
  by (auto simp: ApproveGatewayNodeByID_def Let_def split: option.split)

lemma unlisted_apply:
  assumes "unlisted i gs" and "\<not> admits i (snd x)" and "TrimSpace i \<noteq> TrimSpace (ev_DefaultGatewayID env)"
    and "gw_wf env gs" and "op_plain (snd x)" and "long_ttl env"
  shows "unlisted i (gw_apply env x gs)"
proof (cases x)
  case (Pair now opn)
  show ?thesis
  proof (cases opn)
    case (ReportOp decoded)
    obtain r gs' where h: "handleGatewayReport env now decoded gs = (r, gs')" by fastforce
    have "gget (gw_Nodes gs') i = gget (gw_Nodes gs) i \<and> gget (gw_Allow gs') i = gget (gw_Allow gs) i"
      by (rule report_frame [OF h]) (use assms(1,3) in \<open>simp add: unlisted_def\<close>)
    then show ?thesis using h assms(1) Pair ReportOp by (simp add: unlisted_def)
  next
    case (DelistOp j)
    then show ?thesis using delist_frame [of env j gs i] assms(1) Pair by (auto simp: unlisted_def)
  next
    case (ApproveOp j)
    then show ?thesis using approve_frame [of i j env gs] assms(1,2) Pair by (auto simp: unlisted_def)
  next
    case (GrantsOp rnd nk vip dev opts)
    then show ?thesis
      using gw_wf_grants(3,4) [OF assms(4) _ assms(6)] assms(1,5) Pair by (simp add: unlisted_def)
  qed (use assms(1,2) Pair in \<open>simp_all add: unlisted_def register_frame ApproveGatewayNode_def\<close>)
qed

text \<open>Only the computation of grants moves the policy.\<close>

fun is_grants :: "gw_op \<Rightarrow> bool" where
  "is_grants (GrantsOp _ _ _ _ _) = True"
| "is_grants _ = False"

lemma auth_policy:
  "gw_GrantFingerprint (snd (authenticateGatewayReport env req now gs)) = gw_GrantFingerprint gs"
  "gw_GrantPolicyRev (snd (authenticateGatewayReport env req now gs)) = gw_GrantPolicyRev gs"
  using authenticate_frame [of env req now gs] by auto

lemma register_policy:
  "gw_GrantFingerprint (RegisterGatewayNodeWithTransport env now i caps chans gs) = gw_GrantFingerprint gs"
  "gw_GrantPolicyRev (RegisterGatewayNodeWithTransport env now i caps chans gs) = gw_GrantPolicyRev gs"
  "gw_GrantFingerprint (recordGatewaySeen n gs) = gw_GrantFingerprint gs"
  "gw_GrantPolicyRev (recordGatewaySeen n gs) = gw_GrantPolicyRev gs"
  by (simp_all add: RegisterGatewayNodeWithTransport_def recordGatewaySeen_def Let_def)

lemma report_policy:
  "gw_GrantFingerprint (snd (handleGatewayReport env now decoded gs)) = gw_GrantFingerprint gs \<and>
   gw_GrantPolicyRev (snd (handleGatewayReport env now decoded gs)) = gw_GrantPolicyRev gs"
proof (cases rule: handle_report_cases [of env now decoded gs])
  case (pending req gs1)
  then show ?thesis using auth_policy [of env req now gs] by (simp add: register_policy)
next
  case (accepted req gs1)
  then show ?thesis using auth_policy [of env req now gs] by (simp add: register_policy)
qed (simp_all add: auth_policy)

lemma policy_apply:
  assumes "\<not> is_grants (snd x)"
  shows "gw_GrantFingerprint (gw_apply env x gs) = gw_GrantFingerprint gs \<and>
    gw_GrantPolicyRev (gw_apply env x gs) = gw_GrantPolicyRev gs"
proof (cases x)
  case (Pair now opn)
  with assms show ?thesis
    by (cases opn)
      (auto simp: report_policy register_policy ApproveGatewayNode_def ApproveGatewayNodeByID_def
        DelistGatewayNodeByID_def deleteGatewayGrantCacheForGatewayLocked_def Let_def split: option.split)
qed

lemma policy_history:
  "\<forall>x \<in> set ops. \<not> is_grants (snd x) \<Longrightarrow>
     gw_GrantFingerprint (gw_history env ops gs) = gw_GrantFingerprint gs \<and>
     gw_GrantPolicyRev (gw_history env ops gs) = gw_GrantPolicyRev gs"
  by (induction ops arbitrary: gs) (simp_all add: policy_apply)

lemma build_policy:
  assumes "buildGatewayAccessGrantsLocked env now nk vip dev opts gs = ((grants, pol, ch), gs')"
  shows "\<exists>b gs1. syncGatewayGrantPolicyLocked (approvedAliveGatewayNodesLocked env now gs) gs = ((pol, b), gs1)"
proof -
  obtain p b gs1 where sync: "syncGatewayGrantPolicyLocked (approvedAliveGatewayNodesLocked env now gs) gs = ((p, b), gs1)"
    by (metis surj_pair)
  have "pol = p" by (cases rule: build_steps [OF assms sync]) simp_all
  with sync show ?thesis by blast
qed

section \<open>Properties\<close>

text \<open>A gateway, its report, and an environment to run them in.\<close>

definition sample_env :: gateway_env where
  "sample_env = \<lparr>ev_hmac = (\<lambda>_ b. b @ [0]), ev_proof = (\<lambda>p. Inr (gp_Nonce p)), ev_claims = (\<lambda>_. Inr [1]),
     ev_ticket = (\<lambda>t. Inr (sg_Signature t)), ev_url = (\<lambda>_. None),
     ev_rand = (\<lambda>_. Inr [9]), ev_HardTTL = 86400 * Second, ev_SoftRefreshLead = 600 * Second,
     ev_DefaultGatewayID = ''default'', ev_Secret = ''k''\<rparr>"

definition sample_report :: GatewayReportRequest where
  "sample_report = \<lparr>gr_GatewayId = ''g1'', gr_Capabilities = [''relay''], gr_ReportUnixMs = 1000, gr_Nonce = [7],
     gr_Signature = [7, 0],
     gr_GatewayChannel = Some \<lparr>gc_Kind = GATEWAY_CHANNEL_QUIC, gc_Addr = ''quic://h:1'', gc_ServerName = ''h'',
       gc_UdpPublicKey = [], gc_UdpKeyId = []\<rparr>\<rparr>"

definition sample_ops :: "(gtime \<times> gw_op) list" where
  "sample_ops = [(Second, ReportOp (Inr sample_report)), (2 * Second, ApproveOp ''g1'')]"

definition sample_gs :: GatewayState where
  "sample_gs = gw_history sample_env sample_ops (NewGatewayState [])"

lemma sample_env_ok: "long_ttl sample_env" "env_total sample_env"
  by (simp_all add: long_ttl_def env_total_def sample_env_def Second_def) code_simp

lemma sample_plain: "plain_history sample_ops"
  by code_simp

lemma sample_wf: "gw_wf sample_env sample_gs"
  unfolding sample_gs_def by (rule gw_history_wf [OF gw_wf_New sample_plain sample_env_ok(1)])

text \<open>
  C28: only an authentic report counts. A report without the right signature changes nothing and is never
  acknowledged as good. A report that is acknowledged as good was signed with the secret, is not older
  or newer than two minutes, and comes from the default gateway or from an approved endpoint. Whatever
  the outcome, the entries of other gateways stay as they are.
\<close>

theorem report_authentic:
  assumes "handleGatewayReport env now (Inr req) gs = (r, gs')"
  shows "((\<forall>pb. ev_proof env (gatewayReportProof env req) = Inr pb \<longrightarrow>
              gr_Signature req \<noteq> ev_hmac env (ev_Secret env) pb) \<longrightarrow>
            gs' = gs \<and> (\<forall>ack. r = Inr ack \<longrightarrow> \<not> ga_Ok ack)) \<and>
         (\<forall>ack. r = Inr ack \<and> ga_Ok ack \<longrightarrow>
            (\<exists>pb. ev_proof env (gatewayReportProof env req) = Inr pb \<and>
                  gr_Signature req = ev_hmac env (ev_Secret env) pb) \<and>
            \<bar>now - time_of_UnixMilli (gr_ReportUnixMs req)\<bar> \<le> 120 * Second \<and>
            isGatewayAllowed env (gr_GatewayId req) (primaryGatewayEndpoint env (reportChannels env req)) gs) \<and>
         (\<forall>i. i \<noteq> gr_GatewayId req \<longrightarrow>
            gget (gw_Nodes gs') i = gget (gw_Nodes gs) i \<and> gget (gw_Allow gs') i = gget (gw_Allow gs) i)"
    (is "(?forged \<longrightarrow> ?inert) \<and> ?good \<and> ?frame")
proof -
  have unsigned: "fst (authenticateGatewayReport env req now gs) \<noteq> Inr ()
      \<and> snd (authenticateGatewayReport env req now gs) = gs" if ?forged
    using that by (auto simp: authenticateGatewayReport_def split: sum.split)
  have inert: ?inert if f: ?forged
    using unsigned [OF f] assms
    by (cases rule: handle_report_cases [of env now "Inr req" gs]) (auto simp: gatewayAck_def)
  have good: ?good
  proof (intro allI impI)
    fix ack assume ok: "r = Inr ack \<and> ga_Ok ack"
    show "(\<exists>pb. ev_proof env (gatewayReportProof env req) = Inr pb \<and>
                  gr_Signature req = ev_hmac env (ev_Secret env) pb) \<and>
            \<bar>now - time_of_UnixMilli (gr_ReportUnixMs req)\<bar> \<le> 120 * Second \<and>
            isGatewayAllowed env (gr_GatewayId req) (primaryGatewayEndpoint env (reportChannels env req)) gs"
    proof (cases rule: handle_report_cases [of env now "Inr req" gs])
      case (accepted req' gs1)
      then have a: "fst (authenticateGatewayReport env req now gs) = Inr ()" and r: "req' = req" by auto
      have "gw_Allow gs1 = gw_Allow gs" using accepted(2) r by (metis auth_frames(2) snd_conv)
      with accepted(4) r authenticate_Inr [OF a] nonce_recorded(2) a show ?thesis
        by (auto simp: isGatewayAllowed_def reportNode_def)
    qed (use ok assms in \<open>auto simp: gatewayAck_def\<close>)
  qed
  have ?frame using report_frame [OF assms] by auto
  with inert good show ?thesis by blast
qed

theorem report_authentic_witness:
  "\<exists>r gs'. handleGatewayReport sample_env Second (Inr (sample_report\<lparr>gr_Signature := [1]\<rparr>)) sample_gs = (r, gs') \<and>
     gs' = sample_gs"
proof -
  obtain r gs' where h: "handleGatewayReport sample_env Second (Inr (sample_report\<lparr>gr_Signature := [1]\<rparr>)) sample_gs
      = (r, gs')" by fastforce
  have "ev_proof sample_env (gatewayReportProof sample_env (sample_report\<lparr>gr_Signature := [1]\<rparr>)) = Inr [7]"
    and "ev_hmac sample_env (ev_Secret sample_env) [7] \<noteq> [1]" by code_simp+
  with report_authentic [OF h] h show ?thesis by auto
qed

text \<open>
  C27: a report cannot be replayed. Once a report has been authenticated, the same report is refused at
  every later instant, whatever operations run in between, and the refusal changes no gateway. The one
  instant exactly two minutes after the time of the report is left out: then the report still counts as
  fresh while its nonce has just been forgotten.
\<close>

theorem replay_refused:
  assumes "gw_wf env gs" and "long_ttl env" and "plain_history ops" and "plain (gr_GatewayId req)"
    and "reportError env req = None" and "fst (authenticateGatewayReport env req now gs) = Inr ()"
    and "gs2 = gw_history env ops (snd (handleGatewayReport env now (Inr req) gs))"
    and "\<forall>t \<in> fst ` set ops. t \<le> later"
    and "later \<noteq> time_of_UnixMilli (gr_ReportUnixMs req) + gatewayReportFreshnessWindow"
    and "handleGatewayReport env later (Inr req) gs2 = (r, gs3)"
  shows "(\<forall>ack. r = Inr ack \<longrightarrow> \<not> ga_Ok ack) \<and>
    gw_Nodes gs3 = gw_Nodes gs2 \<and> gw_Allow gs3 = gw_Allow gs2 \<and> gw_Seen gs3 = gw_Seen gs2"
proof -
  let ?i = "TrimSpace (gr_GatewayId req)" and ?k = "hex_encode (gr_Nonce req)"
    and ?e = "gr_ReportUnixMs req + 120000" and ?gs1 = "snd (handleGatewayReport env now (Inr req) gs)"
  note auth = authenticate_Inr [OF assms(6)]
  have wf1: "gw_wf env ?gs1" using gw_wf_report [OF assms(1)] assms(4) by simp
  have "nonce_until (snd (authenticateGatewayReport env req now gs)) ?i ?k ?e"
    using nonce_recorded(1) assms(6) auth(1) by simp
  moreover have "gw_Nonce ?gs1 = gw_Nonce (snd (authenticateGatewayReport env req now gs))"
    using assms(5,6) by (simp add: handleGatewayReport_def Let_def split: prod.split sum.split)
  ultimately have n1: "nonce_until ?gs1 ?i ?k ?e" using nonce_until_frame by blast
  have "\<exists>err. fst (validateGatewayReplayWindow ?i (gr_ReportUnixMs req) (gr_Nonce req) later gs2) = Inl err"
  proof (cases "later < time_of_UnixMilli (gr_ReportUnixMs req) + gatewayReportFreshnessWindow")
    case True
    then have e: "t \<le> later \<Longrightarrow> UnixMilli t < ?e" for t
      by (simp add: time_defs gatewayReportFreshnessWindow_def)
    have "nonce_until (gw_history env ops ?gs1) ?i ?k ?e"
      by (rule gw_history_induct [where P = "\<lambda>gs. nonce_until gs ?i ?k ?e", OF wf1 assms(3) n1 assms(2)])
        (use e assms(2,8) in \<open>auto intro: gw_apply_nonce\<close>)
    moreover have "gw_wf env gs2" using gw_history_wf [OF wf1 assms(3,2)] assms(7) by simp
    ultimately show ?thesis using nonce_refused e [of later] assms(7) by blast
  next
    case False
    then have "later - time_of_UnixMilli (gr_ReportUnixMs req) > 120 * Second"
      using assms(9) by (simp add: gatewayReportFreshnessWindow_def)
    then show ?thesis by (simp add: validateGatewayReplayWindow_def freshness)
  qed
  then have no: "fst (authenticateGatewayReport env req later gs2) \<noteq> Inr ()"
    using authenticate_Inr(1) by (metis Inr_Inl_False)
  from assms(10) show ?thesis
    by (cases rule: handle_report_cases [of env later "Inr req" gs2]) (use no in \<open>auto simp: gatewayAck_def\<close>)
qed

theorem replay_refused_witness:
  "\<exists>r gs3. handleGatewayReport sample_env (3 * Second) (Inr sample_report) sample_gs = (r, gs3) \<and>
     (\<forall>ack. r = Inr ack \<longrightarrow> \<not> ga_Ok ack) \<and> gw_Nodes gs3 = gw_Nodes sample_gs"
proof -
  obtain r gs3 where h: "handleGatewayReport sample_env (3 * Second) (Inr sample_report) sample_gs = (r, gs3)"
    by fastforce
  have gs2: "sample_gs = gw_history sample_env [(2 * Second, ApproveOp ''g1'')]
      (snd (handleGatewayReport sample_env Second (Inr sample_report) (NewGatewayState [])))"
    by (simp add: sample_gs_def sample_ops_def)
  have "(\<forall>ack. r = Inr ack \<longrightarrow> \<not> ga_Ok ack) \<and> gw_Nodes gs3 = gw_Nodes sample_gs \<and>
      gw_Allow gs3 = gw_Allow sample_gs \<and> gw_Seen gs3 = gw_Seen sample_gs"
    by (rule replay_refused [OF gw_wf_New sample_env_ok(1) _ _ _ _ gs2 _ _ h]) code_simp+
  with h show ?thesis by blast
qed

lemma sample_evaluated:
  "fst (fst (buildGatewayAccessGrantsLocked sample_env (3 * Second) ''ms.net'' 5 ''d1'' no_options sample_gs)) \<noteq> [] \<and>
   (\<forall>n \<in> set (approvedAliveGatewayNodesLocked sample_env (3 * Second) sample_gs).
      cloneGatewayChannels sample_env (gn_Channels n) \<noteq> []) \<and>
   map gn_GatewayID (approvedAliveGatewayNodesLocked sample_env (3 * Second) sample_gs) = [''g1''] \<and>
   fst (DelistGatewayNodeByID sample_env ''g1'' sample_gs) = Inr () \<and>
   plain (TrimSpace ''ms.net'') \<and> plain ''d1''"
  by code_simp

text \<open>
  C26: grants are bound to the client. In every reachable state a grant that is handed out is for a gateway
  that is registered and approved, carries the current revision of the policy, which is never zero, has
  more than thirty seconds to live, and holds a ticket that is signed for the device, the address, the
  gateway and the session of this grant, provided that the separator of the cache keys does not occur
  in identifiers.
\<close>

theorem grants_bound_to_client:
  assumes "long_ttl env" and "plain_history ops" and "plain (TrimSpace nk)" and "plain dev"
    and "gs = gw_history env ops (NewGatewayState approved)"
    and "buildGatewayAccessGrantsLocked env now nk vip dev opts gs = ((grants, pol, ch), gs')"
    and "g \<in> set grants"
  shows "pol \<noteq> 0 \<and> handed_out env gs now dev vip pol g"
proof -
  have "gw_wf env gs" using gw_history_wf [OF gw_wf_New assms(2,1)] assms(5) by simp
  from build_grants(2,3) [OF assms(6) this assms(3,4,1)] assms(7) show ?thesis by blast
qed

theorem grants_bound_to_client_witness:
  "\<exists>grants pol ch gs' g.
     buildGatewayAccessGrantsLocked sample_env (3 * Second) ''ms.net'' 5 ''d1'' no_options sample_gs
       = ((grants, pol, ch), gs') \<and> g \<in> set grants \<and> handed_out sample_env sample_gs (3 * Second) ''d1'' 5 pol g"
proof -
  let ?b = "buildGatewayAccessGrantsLocked sample_env (3 * Second) ''ms.net'' 5 ''d1'' no_options sample_gs"
  obtain grants pol ch gs' where b: "?b = ((grants, pol, ch), gs')" by (metis surj_pair)
  have "fst (fst ?b) \<noteq> []" by (simp add: sample_evaluated)
  then obtain g where g: "g \<in> set grants" using b by (cases grants) auto
  have "plain (TrimSpace ''ms.net'')" "plain ''d1''" using sample_evaluated by blast+
  from grants_bound_to_client [OF sample_env_ok(1) sample_plain this sample_gs_def b g] b g show ?thesis by blast
qed



text \<open>
  C32: delisting is final until the gateway is approved again. After a gateway has been delisted, no client gets
  a grant for it, whatever reports it sends and whatever other gateways are approved or delisted.
\<close>

theorem delist_sticks:
  assumes "gw_wf env gs" and "long_ttl env" and "plain_history ops" and "plain (TrimSpace nk)" and "plain dev"
    and "DelistGatewayNodeByID env i gs = (Inr (), gs1)"
    and "\<forall>(t, opn) \<in> set ops. \<not> admits (TrimSpace i) opn"
    and "buildGatewayAccessGrantsLocked env now nk vip dev opts (gw_history env ops gs1) = ((grants, pol, ch), gs')"
  shows "\<forall>g \<in> set grants. gg_GatewayId g \<noteq> TrimSpace i"
proof -
  have not_default: "TrimSpace (TrimSpace i) \<noteq> TrimSpace (ev_DefaultGatewayID env)" and un: "unlisted (TrimSpace i) gs1"
    using assms(6) by (auto simp: DelistGatewayNodeByID_def Let_def unlisted_def
        deleteGatewayGrantCacheForGatewayLocked_def split: if_splits option.splits)
  have wf1: "gw_wf env gs1" using gw_wf_delist [OF assms(1), of i] assms(6) by simp
  have "unlisted (TrimSpace i) (gw_history env ops gs1)"
    by (rule gw_history_induct [where P = "unlisted (TrimSpace i)", OF wf1 assms(3) un assms(2)])
      (use assms(2,7) not_default in \<open>auto intro!: unlisted_apply\<close>)
  then show ?thesis
    using build_grants(3) [OF assms(8) gw_history_wf [OF wf1 assms(3,2)] assms(4,5,2)]
    by (auto simp: handed_out_def unlisted_def)
qed

theorem delist_sticks_witness:
  "\<exists>gs1 grants pol ch gs'. DelistGatewayNodeByID sample_env ''g1'' sample_gs = (Inr (), gs1) \<and>
     buildGatewayAccessGrantsLocked sample_env (4 * Second) ''ms.net'' 5 ''d1'' no_options
       (gw_history sample_env [(3 * Second, ReportOp (Inr (sample_report\<lparr>gr_Nonce := [8], gr_Signature := [8, 0]\<rparr>)))] gs1)
       = ((grants, pol, ch), gs') \<and> (\<forall>g \<in> set grants. gg_GatewayId g \<noteq> TrimSpace ''g1'')"
proof -
  let ?ops = "[(3 * Second, ReportOp (Inr (sample_report\<lparr>gr_Nonce := [8], gr_Signature := [8, 0]\<rparr>)))]"
  have "fst (DelistGatewayNodeByID sample_env ''g1'' sample_gs) = Inr ()" using sample_evaluated by blast
  then obtain gs1 where d: "DelistGatewayNodeByID sample_env ''g1'' sample_gs = (Inr (), gs1)" by (metis prod.collapse)
  obtain grants pol ch gs' where b: "buildGatewayAccessGrantsLocked sample_env (4 * Second) ''ms.net'' 5 ''d1''
      no_options (gw_history sample_env ?ops gs1) = ((grants, pol, ch), gs')" by (metis surj_pair)
  have "plain_history ?ops" "plain (TrimSpace ''ms.net'')" "plain ''d1''" by code_simp+
  from delist_sticks [OF sample_wf sample_env_ok(1) this d _ b] d b show ?thesis by auto
qed

text \<open>
  The revision of the policy tells the clients whether the set of gateways has changed. Two consecutive
  computations of grants yield the same revision exactly when the approved gateways that are alive have the
  same fingerprint.
\<close>

theorem policy_revision_exact:
  assumes "gw_wf env gs" and "long_ttl env" and "plain (TrimSpace nk)" and "plain dev"
    and "\<forall>x \<in> set ops. \<not> is_grants (snd x)"
    and "buildGatewayAccessGrantsLocked env now nk vip dev opts gs = ((grants, pol, ch), gs1)"
    and "gs2 = gw_history env ops gs1"
    and "buildGatewayAccessGrantsLocked env now' nk' vip' dev' opts' gs2 = ((grants', pol', ch'), gs3)"
  shows "pol' = pol \<longleftrightarrow> gatewayGrantFingerprint (approvedAliveGatewayNodesLocked env now' gs2)
                       = gatewayGrantFingerprint (approvedAliveGatewayNodesLocked env now gs)"
proof -
  from build_grants(1,2) [OF assms(6,1,3,4,2)]
  have "gw_GrantFingerprint gs1 = gatewayGrantFingerprint (approvedAliveGatewayNodesLocked env now gs)"
    and "gw_GrantPolicyRev gs1 = pol" and nz: "pol \<noteq> 0" by auto
  then have fp: "gw_GrantFingerprint gs2 = gatewayGrantFingerprint (approvedAliveGatewayNodesLocked env now gs)"
    and pol: "gw_GrantPolicyRev gs2 = pol"
    using policy_history [OF assms(5), of env gs1] assms(7) by simp_all
  obtain b gs' where sync: "syncGatewayGrantPolicyLocked (approvedAliveGatewayNodesLocked env now' gs2) gs2 = ((pol', b), gs')"
    using build_policy [OF assms(8)] by blast
  show ?thesis using sync_policy_frame(3,4) [OF sync] fp pol nz by simp
qed

end
