(* ===== verification/Dns.thy ===== *)
theory Dns
  imports Gateway User_Manager
begin

text \<open>
  Names, \<^verbatim>\<open>control/dns.go\<close> and \<^verbatim>\<open>control/dns_proxy.go\<close>: the snapshot of a domain that is handed to the name
  server, its epoch, and the profile that tells a client which servers answer for which domains.
  SHA-256 is the parameter \<open>sha256\<close>; the exchange with the name server is the parameter \<open>exchange\<close>.
\<close>

section \<open>Data\<close>

record DNSSOAView =
  so_PrimaryNS :: string
  so_AdminMailbox :: string

record DNSNetworkView =
  nv_Group :: string
  nv_GatewayIP :: string
  nv_Netmask :: string

record DNSRecordView =
  rv_FQDN :: string
  rv_ShortName :: string
  rv_DeviceID :: string
  rv_Group :: string
  rv_VirtualIP :: string
  rv_ControlOnline :: bool
  rv_DataPlaneReachable :: bool
  rv_UpdatedAtUnix :: int

record DNSGatewayView =
  gv_GatewayID :: string
  gv_Endpoint :: string
  gv_Default :: bool
  gv_Alive :: bool

record DNSSnapshotView =
  ss_Domain :: string
  ss_GroupFilter :: string
  ss_Epoch :: u64
  ss_DefaultTTLSeconds :: u32
  ss_RefreshAfterSec :: u32
  ss_SOA :: DNSSOAView
  ss_Networks :: "DNSNetworkView list"
  ss_Records :: "DNSRecordView list"
  ss_Gateways :: "DNSGatewayView list"

record dnsGroupScope =
  sc_shortName :: string
  sc_runtimeGroup :: string
  sc_gatewayIP :: string
  sc_netmask :: string
  sc_includeGroupLabel :: bool

record DnsProfile =
  dp_Servers :: "string list"
  dp_MatchDomains :: "string list"

definition implicitDNSGroupName :: string where "implicitDNSGroupName = ''default''"

section \<open>Snapshots\<close>

definition ListDNSDomains :: "Config \<Rightarrow> string list" where
  "ListDNSDomains c =
     sort (filter (\<lambda>d. d \<noteq> []) (map (\<lambda>(domain, _). ToLower (TrimSpace domain)) (cf_Domains c)))"

definition groupScope :: "string \<Rightarrow> string \<Rightarrow> GroupConfig \<Rightarrow> dnsGroupScope" where
  "groupScope domain grp gc =
     \<lparr>sc_shortName = grp, sc_runtimeGroup = grp @ ''.'' @ domain, sc_gatewayIP = IP_String (gc_Gateway gc),
      sc_netmask = gc_Netmask gc, sc_includeGroupLabel = True\<rparr>"

definition buildDNSGroupScopes :: "Config \<Rightarrow> string \<Rightarrow> string \<Rightarrow> dnsGroupScope list result" where
  "buildDNSGroupScopes c domain grp =
     (if cf_Domains c \<noteq> []
      then (case gget (cf_Domains c) domain of
              None \<Rightarrow> Inl (''domain '' @ domain @ '' not configured'')
            | Some dc \<Rightarrow>
                if grp \<noteq> []
                then (case gget (dc_Groups dc) grp of
                        None \<Rightarrow> Inl (''group '' @ grp @ '' not configured under domain '' @ domain)
                      | Some gc \<Rightarrow> Inr [groupScope domain grp gc])
                else Inr (map (\<lambda>(groupName, gc). groupScope domain (ToLower (TrimSpace groupName)) gc) (dc_Groups dc)))
      else
        (let configured = ToLower (TrimSpace (cf_Domain c)) in
         if configured = [] then Inl ''dns snapshot is unsupported for current control config''
         else if domain \<noteq> configured then Inl (''domain '' @ domain @ '' not configured'')
         else if grp \<noteq> [] \<and> grp \<noteq> implicitDNSGroupName
         then Inl (''group '' @ grp @ '' not configured under domain '' @ domain)
         else Inr [\<lparr>sc_shortName = implicitDNSGroupName, sc_runtimeGroup = configured,
                    sc_gatewayIP = IP_String (cf_Gateway c), sc_netmask = cf_Netmask c,
                    sc_includeGroupLabel = False\<rparr>]))"

definition buildDNSFQDN :: "string \<Rightarrow> string \<Rightarrow> string \<Rightarrow> bool \<Rightarrow> string" where
  "buildDNSFQDN shortName0 group0 domain0 includeGroup =
     (let shortName = ToLower (TrimSpace shortName0); grp = ToLower (TrimSpace group0);
          domain = ToLower (TrimSpace domain0)
      in if includeGroup \<and> grp \<noteq> [] then shortName @ ''.'' @ grp @ ''.'' @ domain
         else shortName @ ''.'' @ domain)"

definition dnsRecord :: "string \<Rightarrow> dnsGroupScope \<Rightarrow> u32 \<Rightarrow> ClientInfo \<Rightarrow> DNSRecordView" where
  "dnsRecord domain scope ip client =
     (let name0 = ToLower (TrimSpace (cl_Name client));
          name = (if name0 = [] then ToLower (TrimSpace (cl_DeviceId client)) else name0)
      in \<lparr>rv_FQDN = buildDNSFQDN name (sc_shortName scope) domain (sc_includeGroupLabel scope),
          rv_ShortName = name, rv_DeviceID = TrimSpace (cl_DeviceId client), rv_Group = sc_shortName scope,
          rv_VirtualIP = Uint32ToIP_String ip, rv_ControlOnline = cl_ControlOnline client,
          rv_DataPlaneReachable = cl_DataPlaneReachable client,
          rv_UpdatedAtUnix = max (max (cl_ControlLastSeen client) (cl_DataPlaneLastSeen client)) (cl_LastJoin client)\<rparr>)"

text \<open>The records of one scope: the clients of its network that are not in a personal network.\<close>

definition scopeRecords :: "NetworkControl \<Rightarrow> string \<Rightarrow> dnsGroupScope \<Rightarrow> DNSRecordView list" where
  "scopeRecords nc domain scope =
     forEachVirtualNetworkRead nc (sc_runtimeGroup scope)
       (\<lambda>_ network records.
          (False, records @ map (\<lambda>(ip, client). dnsRecord domain scope ip client)
             (filter (\<lambda>(_, client).
                        \<not> HasPrefix (clientNetworkScope client (sc_runtimeGroup scope)) personalNetworkPrefix)
                (ni_Clients network))))
       []"

definition dnsGateways :: "gateway_env \<Rightarrow> gtime \<Rightarrow> GatewayState \<Rightarrow> DNSGatewayView list" where
  "dnsGateways env now gs =
     sort_key gv_GatewayID
       (map (\<lambda>g. \<lparr>gv_GatewayID = TrimSpace (av_GatewayID g), gv_Endpoint = TrimSpace (av_Endpoint g),
                  gv_Default = av_Default g, gv_Alive = av_Alive g\<rparr>) (ListGateways env now gs))"

definition epochLines :: "DNSSnapshotView \<Rightarrow> string list" where
  "epochLines ss =
     [ss_Domain ss, ss_GroupFilter ss, so_PrimaryNS (ss_SOA ss), so_AdminMailbox (ss_SOA ss),
      ''ttl:'' @ show_word (ss_DefaultTTLSeconds ss), ''refresh:'' @ show_word (ss_RefreshAfterSec ss)]
     @ map (\<lambda>n. ''net:'' @ nv_Group n @ ''|'' @ nv_GatewayIP n @ ''|'' @ nv_Netmask n) (ss_Networks ss)
     @ map (\<lambda>r. ''rec:'' @ rv_FQDN r @ ''|'' @ rv_DeviceID r @ ''|'' @ rv_Group r @ ''|'' @ rv_VirtualIP r)
         (ss_Records ss)"

definition be_word :: "bytes \<Rightarrow> u64" where
  "be_word bs = foldl (\<lambda>acc b. push_bit 8 acc + ucast b) 0 bs"

definition computeDNSEpoch :: "(bytes \<Rightarrow> bytes) \<Rightarrow> DNSSnapshotView \<Rightarrow> u64" where
  "computeDNSEpoch sha256 ss =
     (let epoch = be_word (take 8 (sha256 (concat (map (\<lambda>l. bytes_of l @ [10]) (epochLines ss)))))
      in if epoch = 0 then 1 else epoch)"

definition BuildDNSSnapshot ::
    "(bytes \<Rightarrow> bytes) \<Rightarrow> gateway_env \<Rightarrow> gtime \<Rightarrow> Config \<Rightarrow> NetworkControl \<Rightarrow> GatewayState \<Rightarrow> string \<Rightarrow> string
     \<Rightarrow> DNSSnapshotView result" where
  "BuildDNSSnapshot sha256 env now c nc gs domain0 group0 =
     (let domain1 = ToLower (TrimSpace domain0); grp = ToLower (TrimSpace group0);
          domain = (if domain1 = [] then ToLower (TrimSpace (EffectiveDefaultDomain c)) else domain1)
      in if domain = [] then Inl ''domain is required''
         else case buildDNSGroupScopes c domain grp of
           Inl err \<Rightarrow> Inl err
         | Inr scopes \<Rightarrow>
             (let ss = \<lparr>ss_Domain = domain, ss_GroupFilter = grp, ss_Epoch = 0, ss_DefaultTTLSeconds = 30,
                        ss_RefreshAfterSec = 15,
                        ss_SOA = \<lparr>so_PrimaryNS = ''ns1.'' @ domain, so_AdminMailbox = ''admin.'' @ domain\<rparr>,
                        ss_Networks = sort_key nv_Group
                          (map (\<lambda>scope. \<lparr>nv_Group = sc_shortName scope, nv_GatewayIP = sc_gatewayIP scope,
                                         nv_Netmask = sc_netmask scope\<rparr>) scopes),
                        ss_Records = sort_key (\<lambda>r. (rv_FQDN r, rv_VirtualIP r, rv_DeviceID r))
                          (concat (map (scopeRecords nc domain) scopes)),
                        ss_Gateways = dnsGateways env now gs\<rparr>
              in Inr (ss\<lparr>ss_Epoch := computeDNSEpoch sha256 ss\<rparr>)))"

section \<open>Profiles\<close>

definition cloneStrings :: "string list \<Rightarrow> string list" where
  "cloneStrings values = filter (\<lambda>v. v \<noteq> []) (map TrimSpace values)"

definition firstNonEmptyStrings :: "string list \<Rightarrow> string list \<Rightarrow> string list" where
  "firstNonEmptyStrings primary fallback =
     (if primary \<noteq> [] then cloneStrings primary else cloneStrings fallback)"

definition normalizeDNSStrings :: "string list \<Rightarrow> bool \<Rightarrow> string list" where
  "normalizeDNSStrings values lower =
     sort (remdups (filter (\<lambda>v. v \<noteq> [])
       (map (\<lambda>v. if lower then ToLower (TrimSpace v) else TrimSpace v) values)))"

definition ensureGroupQualifiedMatchDomains :: "string list \<Rightarrow> string \<Rightarrow> string \<Rightarrow> string list" where
  "ensureGroupQualifiedMatchDomains domains groupName0 domainName0 =
     (let groupName = ToLower (TrimSpace groupName0); domainName = ToLower (TrimSpace domainName0);
          out = cloneStrings domains; qualified = groupName @ ''.'' @ domainName
      in if groupName = [] \<or> domainName = [] then out
         else if \<exists>domain \<in> set out. EqualFold (TrimSpace domain) qualified then out
         else out @ [qualified])"

text \<open>The servers of a group: its own, the common ones, the service address, the gateway.\<close>

definition profileServers :: "Config \<Rightarrow> string \<Rightarrow> string list \<Rightarrow> netIP \<Rightarrow> string list" where
  "profileServers c token servers gateway =
     (if servers \<noteq> [] then servers
      else if resolveDNSServiceIP c token \<noteq> [] then [resolveDNSServiceIP c token]
      else if gateway \<noteq> [] then [IP_String gateway] else [])"

definition profileLists :: "Config \<Rightarrow> string \<Rightarrow> (string list \<times> string list) option" where
  "profileLists c token =
     (let orElse = (\<lambda>xs ys. if xs = [] then ys else xs) in
      if cf_Domains c \<noteq> []
      then (case matchDomainAndGroup token (cf_Domains c) of
              None \<Rightarrow> None
            | Some (domainName, groupName) \<Rightarrow>
                (let gc = (case domainGroup c domainName groupName of Some gc \<Rightarrow> gc | None \<Rightarrow> zero_GroupConfig)
                 in Some (profileServers c token (firstNonEmptyStrings (gc_DNSServers gc) (cf_DNSServers c)) (gc_Gateway gc),
                          ensureGroupQualifiedMatchDomains
                            (orElse (firstNonEmptyStrings (gc_DNSMatchDomains gc) (cf_DNSMatchDomains c)) [domainName])
                            groupName domainName)))
      else if cf_Groups c \<noteq> []
      then (case gget (cf_Groups c) token of
              None \<Rightarrow> None
            | Some gc \<Rightarrow>
                Some (profileServers c token (firstNonEmptyStrings (gc_DNSServers gc) (cf_DNSServers c)) (gc_Gateway gc),
                      orElse (firstNonEmptyStrings (gc_DNSMatchDomains gc) (cf_DNSMatchDomains c)) [token]))
      else
        (let domainName = ToLower (TrimSpace (EffectiveDefaultDomain c)) in
         if domainName = [] then None
         else Some (profileServers c token (cloneStrings (cf_DNSServers c)) (cf_Gateway c),
                    orElse (cloneStrings (cf_DNSMatchDomains c)) [domainName])))"

definition BuildClientDNSProfile :: "Config \<Rightarrow> string \<Rightarrow> DnsProfile option" where
  "BuildClientDNSProfile c token0 =
     (let token = ToLower (TrimSpace token0) in
      if token = [] then None
      else case profileLists c token of
        None \<Rightarrow> None
      | Some (servers0, matchDomains0) \<Rightarrow>
          (let servers = normalizeDNSStrings servers0 False; matchDomains = normalizeDNSStrings matchDomains0 True
           in if servers = [] \<or> matchDomains = [] then None
              else Some \<lparr>dp_Servers = servers, dp_MatchDomains = matchDomains\<rparr>))"

section \<open>Queries\<close>

record DnsQueryResponse =
  qr_RequestId :: u64
  qr_Error :: string
  qr_Response :: bytes

text \<open>The exchange with the name server over UDP: the call that fails, or the bytes that arrive.\<close>

datatype dns_exchange = DialFailed string | DeadlineFailed string | WriteFailed string | ReadFailed string | Replied bytes

text \<open>A reply is read into a buffer of 4096 bytes.\<close>

definition proxyDNSQuery :: "(string \<Rightarrow> bytes \<Rightarrow> dns_exchange) \<Rightarrow> Config \<Rightarrow> bytes \<Rightarrow> bytes result" where
  "proxyDNSQuery exchange c query =
     (let target = TrimSpace (cf_DNSServiceAddr c) in
      if target = [] then Inl ''dns_service_addr is empty''
      else case exchange target query of
        DialFailed err \<Rightarrow> Inl (''dial dns_service_addr '' @ target @ '': '' @ err)
      | DeadlineFailed err \<Rightarrow> Inl (''set dns proxy deadline: '' @ err)
      | WriteFailed err \<Rightarrow> Inl (''write dns query to '' @ target @ '': '' @ err)
      | ReadFailed err \<Rightarrow> Inl (''read dns response from '' @ target @ '': '' @ err)
      | Replied reply \<Rightarrow> Inr (take 4096 reply))"

definition answerDNSQuery ::
    "(string \<Rightarrow> bytes \<Rightarrow> dns_exchange) \<Rightarrow> Config \<Rightarrow> u64 \<Rightarrow> bytes \<Rightarrow> DnsQueryResponse" where
  "answerDNSQuery exchange c requestId query =
     (let blank = \<lparr>qr_RequestId = requestId, qr_Error = [], qr_Response = []\<rparr>
      in if query = [] then blank\<lparr>qr_Error := ''dns query payload is empty''\<rparr>
         else case proxyDNSQuery exchange c query of
           Inl err \<Rightarrow> blank\<lparr>qr_Error := err\<rparr> | Inr reply \<Rightarrow> blank\<lparr>qr_Response := reply\<rparr>)"

definition HandleDNSQueryPacket ::
    "(string \<Rightarrow> bytes \<Rightarrow> dns_exchange) \<Rightarrow> (DnsQueryResponse \<Rightarrow> bytes result) \<Rightarrow> Config \<Rightarrow> Packet
     \<Rightarrow> (u64 \<times> bytes) result \<Rightarrow> Packet result" where
  "HandleDNSQueryPacket exchange marshal c request decoded =
     (case decoded of
        Inl err \<Rightarrow> Inl (''DnsQueryRequest unmarshal error: '' @ err)
      | Inr (requestId, query) \<Rightarrow>
          buildServicePacket marshal request AppProtoDNSQueryResponse (answerDNSQuery exchange c requestId query))"

end
