(* ===== verification/Device_Views.thy ===== *)
theory Device_Views
  imports Network User_Manager
begin

text \<open>
  What clients and administrators are told about devices: the device lists of \<^verbatim>\<open>controller.go\<close> and
  \<^verbatim>\<open>network.go\<close>, the approval of exit nodes and their views (\<^verbatim>\<open>control/exit_node.go\<close>), and the list
  of devices (\<^verbatim>\<open>control/device_list.go\<close>). The database of approvals is the parameter \<open>exit_store\<close>:
  its two statements return an error or nothing, and \<open>no_rows\<close> stands for \<^verbatim>\<open>sql.ErrNoRows\<close>.
\<close>

section \<open>Device lists\<close>

record DeviceInfo =
  di_Name :: string
  di_VirtualIp :: u32
  di_DeviceStatus :: u32
  di_DeviceId :: string
  di_DevicePubKey :: bytes
  di_OnlineKxPub :: bytes
  di_PreferredChannelMode :: ChannelMode
  di_ExitNodeAdvertised :: bool
  di_ExitNodeApproved :: bool
  di_ExitNodeUsable :: bool

definition clientExitNodeAdvertised :: "ClientInfo \<Rightarrow> bool" where
  "clientExitNodeAdvertised client =
     (case cl_ClientStatus client of Some s \<Rightarrow> cs_ExitNodeAdvertised s | None \<Rightarrow> False)"

definition clientExitNodeLocalReady :: "ClientInfo \<Rightarrow> bool" where
  "clientExitNodeLocalReady client =
     (case cl_ClientStatus client of Some s \<Rightarrow> cs_ExitNodeLocalReady s | None \<Rightarrow> False)"

definition clientExitNodeUsable :: "ClientInfo \<Rightarrow> bool" where
  "clientExitNodeUsable client \<longleftrightarrow>
     cl_ControlOnline client \<and> clientExitNodeAdvertised client \<and> clientExitNodeLocalReady client"

definition deviceInfo :: "u32 \<Rightarrow> ClientInfo \<Rightarrow> DeviceInfo" where
  "deviceInfo ip info =
     \<lparr>di_Name = cl_Name info, di_VirtualIp = ip, di_DeviceStatus = (if cl_ControlOnline info then 0 else 1),
      di_DeviceId = cl_DeviceId info, di_DevicePubKey = cl_DevicePubKey info,
      di_OnlineKxPub = cl_OnlineKxPub info, di_PreferredChannelMode = cl_PreferredChannelMode info,
      di_ExitNodeAdvertised = clientExitNodeAdvertised info, di_ExitNodeApproved = False,
      di_ExitNodeUsable = False\<rparr>"

definition buildDeviceInfoList :: "(u32, ClientInfo) gomap \<Rightarrow> u32 \<Rightarrow> DeviceInfo list" where
  "buildDeviceInfoList clients selfIP =
     (case gget clients selfIP of
        None \<Rightarrow> []
      | Some self \<Rightarrow>
          map (\<lambda>(ip, info). deviceInfo ip info)
            (filter (\<lambda>(ip, info). ip \<noteq> selfIP \<and> clientNetworkScope info [] = clientNetworkScope self [])
               clients))"

record DeviceList =
  dl_Epoch :: u32
  dl_DeviceInfoList :: "DeviceInfo list"

definition DeviceListByIPInNetwork :: "NetworkControl \<Rightarrow> string \<Rightarrow> u32 \<Rightarrow> DeviceList option" where
  "DeviceListByIPInNetwork nc networkKey selfIP =
     forEachVirtualNetworkRead nc networkKey
       (\<lambda>_ network found.
          case gget (ni_Clients network) selfIP of
            None \<Rightarrow> (True, found)
          | Some _ \<Rightarrow>
              (False, Some \<lparr>dl_Epoch = ucast (ni_Epoch network),
                            dl_DeviceInfoList = buildDeviceInfoList (ni_Clients network) selfIP\<rparr>))
       None"

section \<open>Approval of exit nodes\<close>

type_synonym exit_approvals = "(string, (string, bool) gomap) gomap"

definition exit_approved :: "exit_approvals \<Rightarrow> string \<Rightarrow> string \<Rightarrow> bool" where
  "exit_approved approved userID deviceID =
     (case gget approved userID of
        Some devices \<Rightarrow> gget devices deviceID = Some True | None \<Rightarrow> False)"

record exit_store =
  es_approve :: "string \<Rightarrow> string \<Rightarrow> string option"
  es_revoke :: "string \<Rightarrow> string \<Rightarrow> string option"

definition no_rows :: string where "no_rows = ''sql: no rows in result set''"

definition isAuthedDeviceForUser :: "UserManager \<Rightarrow> string \<Rightarrow> string \<Rightarrow> bool" where
  "isAuthedDeviceForUser m userID deviceID \<longleftrightarrow>
     (\<exists>record \<in> set (ListAuthedDevicesByUser userID m). ad_DeviceID record = deviceID)"

definition ApproveExitNode ::
    "exit_store option \<Rightarrow> UserManager \<Rightarrow> string \<Rightarrow> string \<Rightarrow> exit_approvals \<Rightarrow> unit result \<times> exit_approvals" where
  "ApproveExitNode pgStore m userID0 deviceID0 approved =
     (let userID = TrimSpace userID0; deviceID = TrimSpace deviceID0 in
      if userID = [] then (Inl ''user_id is required'', approved)
      else if deviceID = [] then (Inl ''device_id is required'', approved)
      else if \<not> isAuthedDeviceForUser m userID deviceID
      then (Inl (''device '' @ deviceID @ '' is not authed for user '' @ userID), approved)
      else case pgStore of
        None \<Rightarrow> (Inl ''exit-node approval requires DATABASE_URL'', approved)
      | Some pg \<Rightarrow>
          (case es_approve pg userID deviceID of
             Some err \<Rightarrow> (Inl err, approved)
           | None \<Rightarrow>
               (let devices = (case gget approved userID of Some d \<Rightarrow> d | None \<Rightarrow> [])
                in (Inr (), gput userID (gput deviceID True devices) approved))))"

definition resolveExitNodeApprovalTarget ::
    "UserManager \<Rightarrow> string \<Rightarrow> string \<Rightarrow> string \<Rightarrow> (string \<times> string) result" where
  "resolveExitNodeApprovalTarget m userID0 deviceID0 displayName0 =
     (let userID = TrimSpace userID0; deviceID = TrimSpace deviceID0; displayName = TrimSpace displayName0 in
      if deviceID \<noteq> [] \<and> displayName \<noteq> [] then Inl ''specify either device_id or name, not both''
      else if deviceID = [] \<and> displayName = [] then Inl ''device_id or name is required''
      else if displayName \<noteq> [] \<and> userID = [] then Inl ''user_id is required when approving by name''
      else
        (let records = (if userID \<noteq> [] then ListAuthedDevicesByUser userID m else ListAuthedDevices m);
             matches = filter (\<lambda>r. (deviceID \<noteq> [] \<and> ad_DeviceID r = deviceID) \<or>
                                   (displayName \<noteq> [] \<and> ad_DisplayName r = displayName)) records
         in case matches of
              [] \<Rightarrow> Inl (if userID \<noteq> []
                         then (if displayName \<noteq> []
                               then ''node \"'' @ displayName @ ''\" is not authed for user '' @ userID
                               else ''device '' @ deviceID @ '' is not authed for user '' @ userID)
                         else ''device '' @ deviceID @ '' is not an authed device'')
            | [r] \<Rightarrow> Inr (ad_UserID r, ad_DeviceID r)
            | _ \<Rightarrow> Inl (if userID = []
                        then ''device '' @ deviceID @ '' is ambiguous; specify --id/-u <user-id>''
                        else ''node \"'' @ displayName @ ''\" is ambiguous for user '' @ userID
                             @ ''; use its device_id'')))"

definition ApproveExitNodeTarget ::
    "exit_store option \<Rightarrow> UserManager \<Rightarrow> string \<Rightarrow> string \<Rightarrow> string \<Rightarrow> exit_approvals
     \<Rightarrow> (string \<times> string) result \<times> exit_approvals" where
  "ApproveExitNodeTarget pgStore m userID deviceID displayName approved =
     (case resolveExitNodeApprovalTarget m userID deviceID displayName of
        Inl err \<Rightarrow> (Inl err, approved)
      | Inr (user, device) \<Rightarrow>
          (case ApproveExitNode pgStore m user device approved of
             (Inl err, approved') \<Rightarrow> (Inl err, approved')
           | (Inr _, approved') \<Rightarrow> (Inr (user, device), approved')))"

definition not_approved :: "string \<Rightarrow> string \<Rightarrow> string" where
  "not_approved userID deviceID = ''exit node '' @ deviceID @ '' for user '' @ userID @ '' is not approved''"

definition RevokeExitNode ::
    "exit_store option \<Rightarrow> string \<Rightarrow> string \<Rightarrow> exit_approvals \<Rightarrow> unit result \<times> exit_approvals" where
  "RevokeExitNode pgStore userID0 deviceID0 approved =
     (let userID = TrimSpace userID0; deviceID = TrimSpace deviceID0 in
      if userID = [] then (Inl ''user_id is required'', approved)
      else if deviceID = [] then (Inl ''device_id is required'', approved)
      else case pgStore of
        None \<Rightarrow> (Inl ''exit-node approval requires DATABASE_URL'', approved)
      | Some pg \<Rightarrow>
          if \<not> exit_approved approved userID deviceID then (Inl (not_approved userID deviceID), approved)
          else (case es_revoke pg userID deviceID of
                  Some err \<Rightarrow> (Inl (if err = no_rows then not_approved userID deviceID else err), approved)
                | None \<Rightarrow>
                    (let devices = gdel deviceID (case gget approved userID of Some d \<Rightarrow> d | None \<Rightarrow> [])
                     in (Inr (), if devices = [] then gdel userID approved else gput userID devices approved))))"

definition exitNodeApprovedSnapshot :: "exit_approvals \<Rightarrow> exit_approvals" where
  "exitNodeApprovedSnapshot approved = gmapv (\<lambda>_ devices. gfilter (\<lambda>_ ok. ok) devices) approved"

section \<open>Exit nodes in device lists\<close>

definition enrichItem :: "exit_approvals \<Rightarrow> (u32, ClientInfo) gomap \<Rightarrow> DeviceInfo \<Rightarrow> DeviceInfo" where
  "enrichItem approved clientsByIP item =
     (case gget clientsByIP (di_VirtualIp item) of
        None \<Rightarrow> item
      | Some client \<Rightarrow>
          (let isApproved = exit_approved approved (cl_UserID client) (cl_DeviceId client)
           in item\<lparr>di_ExitNodeAdvertised := clientExitNodeAdvertised client,
                   di_ExitNodeApproved := isApproved,
                   di_ExitNodeUsable := isApproved \<and> clientExitNodeUsable client\<rparr>))"

definition enrichDeviceInfoListExitNodesFromClients ::
    "exit_approvals \<Rightarrow> (u32, ClientInfo) gomap \<Rightarrow> DeviceInfo list \<Rightarrow> DeviceInfo list" where
  "enrichDeviceInfoListExitNodesFromClients approved clientsByIP items =
     map (enrichItem (exitNodeApprovedSnapshot approved) clientsByIP) items"

definition enrichDeviceInfoListExitNodes ::
    "exit_approvals \<Rightarrow> NetworkControl \<Rightarrow> string \<Rightarrow> DeviceInfo list \<Rightarrow> DeviceInfo list" where
  "enrichDeviceInfoListExitNodes approved nc networkKey items =
     enrichDeviceInfoListExitNodesFromClients approved
       (forEachVirtualNetworkRead nc networkKey
          (\<lambda>_ network byIP.
             (TrimSpace networkKey = [], fold (\<lambda>(ip, client). gput ip client) (ni_Clients network) byIP)) [])
       items"

section \<open>Views for administrators\<close>

record ExitNodeAdminView =
  ev_UserID :: string
  ev_Group :: string
  ev_Name :: string
  ev_DeviceID :: string
  ev_VirtualIP :: string
  ev_Approved :: bool
  ev_Advertised :: bool
  ev_LocalReady :: bool
  ev_Usable :: bool
  ev_ControlOnline :: bool
  ev_DataPlaneReachable :: bool
  ev_UpdatedAtUnix :: int

definition blank_view :: "string \<Rightarrow> string \<Rightarrow> bool \<Rightarrow> ExitNodeAdminView" where
  "blank_view userID deviceID ok =
     \<lparr>ev_UserID = userID, ev_Group = [], ev_Name = [], ev_DeviceID = deviceID, ev_VirtualIP = [],
      ev_Approved = ok, ev_Advertised = False, ev_LocalReady = False, ev_Usable = False,
      ev_ControlOnline = False, ev_DataPlaneReachable = False, ev_UpdatedAtUnix = 0\<rparr>"

definition nulKey :: "string \<Rightarrow> string \<Rightarrow> string" where
  "nulKey a b = a @ [CHR 0x00] @ b"

text \<open>The latest of the three times of a client.\<close>

definition clientUpdatedAt :: "ClientInfo \<Rightarrow> int" where
  "clientUpdatedAt client =
     max (max (cl_ControlLastSeen client) (cl_DataPlaneLastSeen client)) (cl_LastJoin client)"

definition mergeExitNode ::
    "exit_approvals \<Rightarrow> NetworkInfo \<Rightarrow> u32 \<Rightarrow> ClientInfo \<Rightarrow> (string, ExitNodeAdminView) gomap
     \<Rightarrow> (string, ExitNodeAdminView) gomap" where
  "mergeExitNode approved network ip client viewsByKey =
     (let key = nulKey (cl_UserID client) (cl_DeviceId client);
          isApproved = exit_approved approved (cl_UserID client) (cl_DeviceId client);
          found = gget viewsByKey key
      in if found = None \<and> \<not> isApproved \<and> \<not> clientExitNodeAdvertised client \<and> \<not> clientExitNodeLocalReady client
         then viewsByKey
         else
           (let view = (case found of Some v \<Rightarrow> v
                        | None \<Rightarrow> blank_view (cl_UserID client) (cl_DeviceId client) isApproved)
            in gput key
                 (view\<lparr>ev_Name := (if TrimSpace (cl_Name client) \<noteq> [] then cl_Name client else ev_Name view),
                       ev_Group := (if TrimSpace (ev_Group view) = []
                                    then clientAuthGroup client (ni_Group network) else ev_Group view),
                       ev_VirtualIP := Uint32ToIP_String ip,
                       ev_Advertised := clientExitNodeAdvertised client, ev_Approved := isApproved,
                       ev_LocalReady := clientExitNodeLocalReady client,
                       ev_ControlOnline := cl_ControlOnline client,
                       ev_DataPlaneReachable := cl_DataPlaneReachable client,
                       ev_UpdatedAtUnix := max (ev_UpdatedAtUnix view) (clientUpdatedAt client)\<rparr>)
                 viewsByKey))"

definition mergeExitNodeRuntimeViews ::
    "exit_approvals \<Rightarrow> NetworkControl \<Rightarrow> string \<Rightarrow> (string, ExitNodeAdminView) gomap
     \<Rightarrow> (string, ExitNodeAdminView) gomap" where
  "mergeExitNodeRuntimeViews approved nc userIDFilter viewsByKey =
     forEachVirtualNetworkRead nc []
       (\<lambda>_ network views.
          (True, fold (\<lambda>(ip, client) views.
                         if TrimSpace userIDFilter \<noteq> [] \<and> cl_UserID client \<noteq> TrimSpace userIDFilter then views
                         else mergeExitNode (exitNodeApprovedSnapshot approved) network ip client views)
                   (ni_Clients network) views))
       viewsByKey"

definition approvedViews ::
    "exit_approvals \<Rightarrow> UMAuthDevice list \<Rightarrow> (string, ExitNodeAdminView) gomap" where
  "approvedViews approved records =
     (let fromRecords =
            fold (\<lambda>record views.
                    if exit_approved approved (ad_UserID record) (ad_DeviceID record)
                    then gput (nulKey (ad_UserID record) (ad_DeviceID record))
                           ((blank_view (ad_UserID record) (ad_DeviceID record) True)
                              \<lparr>ev_Group := ad_GroupName record,
                               ev_Name := (if TrimSpace (ad_DisplayName record) = []
                                           then ad_DeviceID record else TrimSpace (ad_DisplayName record))\<rparr>) views
                    else views) records []
      in fold (\<lambda>(userID, devices) views.
                 fold (\<lambda>(deviceID, _) views.
                         if gget views (nulKey userID deviceID) \<noteq> None then views
                         else gput (nulKey userID deviceID) (blank_view userID deviceID True) views)
                   devices views) approved fromRecords)"

definition ListExitNodes ::
    "exit_approvals \<Rightarrow> UserManager \<Rightarrow> NetworkControl \<Rightarrow> string \<Rightarrow> ExitNodeAdminView list" where
  "ListExitNodes approvals m nc userID0 =
     (let userID = TrimSpace userID0;
          approved = gfilter (\<lambda>u _. \<not> (userID \<noteq> [] \<and> u \<noteq> userID)) (exitNodeApprovedSnapshot approvals);
          records = (if userID \<noteq> [] then ListAuthedDevicesByUser userID m else ListAuthedDevices m);
          views = mergeExitNodeRuntimeViews approvals nc userID (approvedViews approved records)
      in sort_key (\<lambda>v. (ev_UserID v, ev_Group v, ev_Name v, ev_DeviceID v))
           (map (\<lambda>(_, v). v\<lparr>ev_Usable := ev_Approved v \<and> ev_Advertised v \<and> ev_LocalReady v \<and> ev_ControlOnline v\<rparr>)
              views))"

record DeviceAdminView =
  dv_UserID :: string
  dv_Group :: string
  dv_Name :: string
  dv_DeviceID :: string
  dv_VirtualIP :: string
  dv_ControlOnline :: bool
  dv_DataPlaneReachable :: bool
  dv_AuthedAtUnix :: int
  dv_AuthExpireAtUnix :: int
  dv_AuthExpired :: bool
  dv_UpdatedAtUnix :: int

definition recordView :: "gtime \<Rightarrow> UMAuthDevice \<Rightarrow> DeviceAdminView" where
  "recordView now record =
     \<lparr>dv_UserID = ad_UserID record, dv_Group = ad_GroupName record,
      dv_Name = (if TrimSpace (ad_DisplayName record) = [] then ad_DeviceID record
                 else TrimSpace (ad_DisplayName record)),
      dv_DeviceID = ad_DeviceID record, dv_VirtualIP = [], dv_ControlOnline = False,
      dv_DataPlaneReachable = False, dv_AuthedAtUnix = Unix (ad_AuthedAt record),
      dv_AuthExpireAtUnix = Unix (ad_AuthExpireAt record),
      dv_AuthExpired = (\<not> IsZero_time (ad_AuthExpireAt record) \<and> now > ad_AuthExpireAt record),
      dv_UpdatedAtUnix = Unix (ad_AuthedAt record)\<rparr>"

definition runtimeView :: "NetworkInfo \<Rightarrow> u32 \<times> ClientInfo \<Rightarrow> DeviceAdminView \<Rightarrow> DeviceAdminView" where
  "runtimeView network = (\<lambda>(ip, client) device.
     device\<lparr>dv_Name := (if TrimSpace (cl_Name client) \<noteq> [] then cl_Name client else dv_Name device),
            dv_Group := clientAuthGroup client (ni_Group network),
            dv_VirtualIP := Uint32ToIP_String ip, dv_ControlOnline := cl_ControlOnline client,
            dv_DataPlaneReachable := cl_DataPlaneReachable client,
            dv_UpdatedAtUnix := max (dv_UpdatedAtUnix device) (clientUpdatedAt client)\<rparr>)"

definition ListDevices ::
    "gtime \<Rightarrow> UserManager \<Rightarrow> NetworkControl \<Rightarrow> string \<Rightarrow> DeviceAdminView list" where
  "ListDevices now m nc userID0 =
     (let userID = TrimSpace userID0; records = ListAuthedDevicesByUser userID m in
      if userID = [] \<or> records = [] then []
      else
        (let byKey = fold (\<lambda>record. gput (nulKey (ad_GroupName record) (ad_DeviceID record)) (recordView now record))
                       records [];
             devices = forEachVirtualNetworkRead nc []
               (\<lambda>_ network views.
                  (True, fold (\<lambda>(ip, client) views.
                                 let key = nulKey (clientAuthGroup client (ni_Group network)) (cl_DeviceId client)
                                 in case gget views key of
                                      None \<Rightarrow> views
                                    | Some device \<Rightarrow> gput key (runtimeView network (ip, client) device) views)
                           (ni_Clients network) views)) byKey
         in sort_key (\<lambda>d. (dv_Group d, dv_UserID d, dv_Name d, dv_VirtualIP d, dv_DeviceID d)) (map snd devices)))"

end
