(* ===== verification/Controller.thy ===== *)
theory Controller
  imports Dns Device_Views
begin

text \<open>
  The controller of \<^verbatim>\<open>control/controller.go\<close>: the state that the components share, how it is made from the
  configuration and the stores at start, and the capabilities that a client announces before it registers.
  What the controller only calls is in \<open>control_env\<close>: SHA-256, \<^verbatim>\<open>ed25519.Verify\<close> for keys of the right length,
  the store of the user manager, the database of exit nodes and the environment of the gateways.
\<close>

section \<open>State\<close>

record deviceAuthChallengeState =
  ac_UserID :: string
  ac_GroupName :: string
  ac_DeviceID :: string
  ac_Ticket :: string
  ac_DevicePubKey :: bytes
  ac_Nonce :: bytes
  ac_ExpireAt :: gtime
  ac_ReauthRequired :: bool

record Controller =
  ct_nc :: NetworkControl
  ct_um :: UserManager
  ct_gateways :: GatewayState
  ct_authChallenges :: "(string, deviceAuthChallengeState) gomap"
  ct_handshakeCaps :: "(string, string list) gomap"
  ct_exitNodeApproved :: exit_approvals

record control_env =
  ce_cfg :: Config
  ce_sha256 :: "bytes \<Rightarrow> bytes"
  ce_ed25519 :: "bytes \<Rightarrow> bytes \<Rightarrow> bytes \<Rightarrow> bool"
  ce_UMStore :: UMStore
  ce_ExitStore :: "exit_store option"
  ce_gateway :: gateway_env

text \<open>The environment of the gateways, with the two settings that the code reads from \<^verbatim>\<open>c.cfg\<close>.\<close>

definition gatewayEnv :: "control_env \<Rightarrow> gateway_env" where
  "gatewayEnv env = (ce_gateway env)
     \<lparr>ev_DefaultGatewayID := cf_DefaultGatewayID (ce_cfg env),
      ev_Secret := cf_GatewayTicketSecret (ce_cfg env)\<rparr>"

section \<open>Start\<close>

text \<open>
  A duration from the environment, in seconds. The product with \<^verbatim>\<open>time.Second\<close> wraps in 64 bits.
\<close>

definition durationFromEnvSeconds :: "string \<Rightarrow> int \<Rightarrow> int" where
  "durationFromEnvSeconds value fallback =
     (let raw = TrimSpace value in
      if raw = [] then fallback
      else case Atoi raw of
        None \<Rightarrow> fallback
      | Some seconds \<Rightarrow>
          if seconds \<le> 0 then fallback else sint (word_of_int (seconds * Second) :: u64))"

definition isEmptyUMSnapshot :: "UMSnapshot \<Rightarrow> bool" where
  "isEmptyUMSnapshot snapshot \<longleftrightarrow>
     sn_UserSeq snapshot = 0 \<and> sn_EnrollmentSeq snapshot = 0 \<and> sn_Users snapshot = [] \<and>
     sn_Policies snapshot = [] \<and> sn_Enrollments snapshot = [] \<and> sn_DeviceByPubKey snapshot = [] \<and>
     sn_CertifiedDevices snapshot = [] \<and> sn_DeviceTickets snapshot = []"

text \<open>
  The snapshot in the database, or the one of the migration file when the database is empty. The database is
  its \<^verbatim>\<open>Load\<close> and \<^verbatim>\<open>Save\<close>; \<open>seed\<close> is the content of the migration file, \<^term>\<open>None\<close> when no path is set.
\<close>

definition loadUMSnapshotForPostgresStore ::
    "UMSnapshot result \<Rightarrow> (UMSnapshot \<Rightarrow> string option) \<Rightarrow> (string \<times> UMSnapshot result) option
     \<Rightarrow> UMSnapshot result" where
  "loadUMSnapshotForPostgresStore loaded save seed =
     (case loaded of
        Inl err \<Rightarrow> Inl (''load user manager from postgres: '' @ err)
      | Inr snapshot \<Rightarrow>
          if \<not> isEmptyUMSnapshot snapshot then Inr snapshot
          else case seed of
            None \<Rightarrow> Inr snapshot
          | Some (path, content) \<Rightarrow>
              (case content of
                 Inl err \<Rightarrow> Inl (''load user manager migration snapshot ('' @ path @ ''): '' @ err)
               | Inr seedSnapshot \<Rightarrow>
                   if isEmptyUMSnapshot seedSnapshot then Inr snapshot
                   else case save seedSnapshot of
                     Some err \<Rightarrow> Inl (''seed user manager from json ('' @ path @ ''): '' @ err)
                   | None \<Rightarrow> Inr seedSnapshot))"

text \<open>
  The user manager and its store: the database when there is one, else the JSON file. A file that cannot be
  read leaves an empty manager that saves nowhere.
\<close>

record um_source =
  us_db :: "(UMSnapshot result \<times> (UMSnapshot \<Rightarrow> string option)) option"
  us_seed :: "(string \<times> UMSnapshot result) option"
  us_json :: "UMSnapshot result"
  us_jsonSave :: "UMSnapshot \<Rightarrow> string option"

definition newUserManagerFromStore :: "gtime \<Rightarrow> um_source \<Rightarrow> (UserManager \<times> UMStore) result" where
  "newUserManagerFromStore now src =
     (case us_db src of
        Some (loaded, save) \<Rightarrow>
          (case loadUMSnapshotForPostgresStore loaded save (us_seed src) of
             Inl err \<Rightarrow> Inl err
           | Inr snapshot \<Rightarrow> Inr (restore now snapshot NewUserManager, Some save))
      | None \<Rightarrow>
          (case NewUserManagerWithStore now (us_json src) of
             Inl _ \<Rightarrow> Inr (NewUserManager, None)
           | Inr m \<Rightarrow> Inr (m, Some (us_jsonSave src))))"

definition newGatewayApprovalStateFromStore :: "(string, string) gomap result \<Rightarrow> (string, string) gomap" where
  "newGatewayApprovalStateFromStore loaded =
     (case loaded of
        Inl _ \<Rightarrow> []
      | Inr snapshot \<Rightarrow>
          fold (\<lambda>(gatewayID, endpoint) approved.
                  if TrimSpace gatewayID = [] \<or> TrimSpace endpoint = [] then approved
                  else gput (TrimSpace gatewayID) (TrimSpace endpoint) approved) snapshot [])"

definition loadExitNodeApprovalStateFromPostgres :: "(string \<times> string) list result \<Rightarrow> exit_approvals result" where
  "loadExitNodeApprovalStateFromPostgres rows =
     (case rows of
        Inl err \<Rightarrow> Inl err
      | Inr records \<Rightarrow>
          Inr (fold (\<lambda>(user, device) approved.
                       let userID = TrimSpace user; deviceID = TrimSpace device;
                           devices = (case gget approved userID of Some d \<Rightarrow> d | None \<Rightarrow> [])
                       in if userID = [] \<or> deviceID = [] then approved
                          else gput userID (gput deviceID True devices) approved) records []))"

definition newExitNodeApprovalStateFromStore :: "(string \<times> string) list result option \<Rightarrow> exit_approvals result" where
  "newExitNodeApprovalStateFromStore pgStore =
     (case pgStore of
        None \<Rightarrow> Inr []
      | Some rows \<Rightarrow>
          (case loadExitNodeApprovalStateFromPostgres rows of
             Inl err \<Rightarrow> Inl (''load exit-node approval store from postgres: '' @ err)
           | Inr approved \<Rightarrow> Inr approved))"

datatype startup_error = ConfigMissing | ConfigInvalid config_error | StoreFailed string

text \<open>
  \<^verbatim>\<open>NewController\<close>: the validated configuration, the store of the user manager, and the first state.
\<close>

definition NewController ::
    "gtime \<Rightarrow> Config option \<Rightarrow> um_source \<Rightarrow> (string, string) gomap result \<Rightarrow> (string \<times> string) list result option
     \<Rightarrow> startup_error + (Config \<times> UMStore \<times> Controller)" where
  "NewController now cfg src gatewayFile exitRows =
     (case cfg of
        None \<Rightarrow> Inl ConfigMissing
      | Some c \<Rightarrow>
          (case Validate c of
             (Some err, _) \<Rightarrow> Inl (ConfigInvalid err)
           | (None, c') \<Rightarrow>
               (case newUserManagerFromStore now src of
                  Inl err \<Rightarrow> Inl (StoreFailed err)
                | Inr (m, store) \<Rightarrow>
                    (case newExitNodeApprovalStateFromStore exitRows of
                       Inl err \<Rightarrow> Inl (StoreFailed err)
                     | Inr approved \<Rightarrow>
                         Inr (c', store,
                              \<lparr>ct_nc = NewNetworkControl, ct_um = m,
                               ct_gateways = NewGatewayState (newGatewayApprovalStateFromStore gatewayFile),
                               ct_authChallenges = [], ct_handshakeCaps = [],
                               ct_exitNodeApproved = approved\<rparr>)))))"

section \<open>Users\<close>

definition selectDomain :: "Config \<Rightarrow> string \<Rightarrow> string" where
  "selectDomain c selected0 =
     (let selected = (if selected0 = [] then TrimSpace (EffectiveDefaultDomain c) else selected0)
      in if selected = [] then ''ms.net'' else selected)"

definition domainKnown :: "Config \<Rightarrow> string \<Rightarrow> bool" where
  "domainKnown c domain \<longleftrightarrow> cf_Domains c = [] \<or> gget (cf_Domains c) domain \<noteq> None"

definition optionalDomain :: "string list \<Rightarrow> string" where
  "optionalDomain domain = (case domain of [] \<Rightarrow> [] | d # _ \<Rightarrow> TrimSpace d)"

definition UMCreateUser ::
    "control_env \<Rightarrow> gtime \<Rightarrow> string \<Rightarrow> string list \<Rightarrow> UserManager \<Rightarrow> (UMUser result \<times> UserManager) option" where
  "UMCreateUser env now name domain m =
     (let selected = selectDomain (ce_cfg env) (optionalDomain domain) in
      if \<not> domainKnown (ce_cfg env) selected
      then Some (Inl (''domain '' @ selected @ '' not configured''), m)
      else CreateUser now (ce_UMStore env) name [selected] m)"

text \<open>The domain of a group: the configured one it ends in, or, without domains, what follows its first dot.\<close>

definition domainOfGroup :: "Config \<Rightarrow> string \<Rightarrow> string" where
  "domainOfGroup c grp =
     (if cf_Domains c \<noteq> []
      then (case matchDomainAndGroup grp (cf_Domains c) of Some (domainName, _) \<Rightarrow> domainName | None \<Rightarrow> [])
      else case IndexByte (CHR ''.'') grp of
        Some i \<Rightarrow> if 0 < i \<and> i + 1 < length grp then TrimSpace (drop (i + 1) grp) else []
      | None \<Rightarrow> [])"

definition UMCreateUserWithID ::
    "control_env \<Rightarrow> gtime \<Rightarrow> string \<Rightarrow> string \<Rightarrow> string list \<Rightarrow> UserManager \<Rightarrow> UMUser result \<times> UserManager" where
  "UMCreateUserWithID env now userID grp domain m =
     (let c = ce_cfg env;
          selected = selectDomain c (if optionalDomain domain = [] then domainOfGroup c (TrimSpace grp)
                                     else optionalDomain domain)
      in if \<not> domainKnown c selected then (Inl (''domain '' @ selected @ '' not configured''), m)
         else CreateUserWithID now (ce_UMStore env) userID selected grp m)"

record WebUserProfile =
  wp_SDLUserID :: string
  wp_Email :: string
  wp_DisplayName :: string

text \<open>\<open>profiles\<close> is what the database returns, \<^term>\<open>None\<close> when there is none; the last row of a user counts.\<close>

definition withProfile :: "WebUserProfile list \<Rightarrow> UMUserAdminView \<Rightarrow> UMUserAdminView" where
  "withProfile profiles user =
     (case find (\<lambda>p. TrimSpace (wp_SDLUserID p) = uv_UserID user) (rev profiles) of
        None \<Rightarrow> user
      | Some p \<Rightarrow>
          user\<lparr>uv_Email := TrimSpace (wp_Email p),
               uv_Name := (if TrimSpace (wp_DisplayName p) \<noteq> [] then TrimSpace (wp_DisplayName p)
                           else uv_Name user)\<rparr>)"

definition UMListUsers ::
    "WebUserProfile list result option \<Rightarrow> string \<Rightarrow> string \<Rightarrow> UserManager \<Rightarrow> UMUserAdminView list result" where
  "UMListUsers profiles idFilter nameFilter m =
     (let filtered = (\<lambda>users. if TrimSpace nameFilter = [] then users
                              else filter (\<lambda>user. userNameMatches nameFilter (uv_Name user)) users)
      in case profiles of
           None \<Rightarrow> Inr (filtered (ListUsers idFilter m))
         | Some (Inl err) \<Rightarrow> Inl err
         | Some (Inr ps) \<Rightarrow> Inr (filtered (map (withProfile ps) (ListUsers idFilter m))))"

section \<open>Handshake\<close>

definition capabilityUDPEndpointReportV1 :: string where
  "capabilityUDPEndpointReportV1 = ''udp_endpoint_report_v1''"

definition supportedHandshakeCapabilities :: "string list" where
  "supportedHandshakeCapabilities = [''udp_endpoint_report_v1'', ''punch_coord_v1'', ''gateway_ticket_v1'']"

definition negotiateHandshakeCapabilities :: "string list \<Rightarrow> string list" where
  "negotiateHandshakeCapabilities requested =
     filter (\<lambda>capability. capability \<in> set supportedHandshakeCapabilities) requested"

definition hasCapability :: "string list \<Rightarrow> string \<Rightarrow> bool" where
  "hasCapability capabilities capability \<longleftrightarrow> (\<exists>item \<in> set capabilities. item = capability)"

definition setPendingHandshakeCapabilities :: "netAddr \<Rightarrow> string list \<Rightarrow> Controller \<Rightarrow> Controller" where
  "setPendingHandshakeCapabilities remoteAddr capabilities ct =
     (case remoteAddr of None \<Rightarrow> ct
      | Some addr \<Rightarrow> ct\<lparr>ct_handshakeCaps := gput addr capabilities (ct_handshakeCaps ct)\<rparr>)"

definition pendingHandshakeCapabilities :: "netAddr \<Rightarrow> Controller \<Rightarrow> string list" where
  "pendingHandshakeCapabilities remoteAddr ct =
     (case remoteAddr of None \<Rightarrow> []
      | Some addr \<Rightarrow> (case gget (ct_handshakeCaps ct) addr of Some caps \<Rightarrow> caps | None \<Rightarrow> []))"

definition clearPendingHandshakeCapabilities :: "netAddr \<Rightarrow> Controller \<Rightarrow> Controller" where
  "clearPendingHandshakeCapabilities remoteAddr ct =
     (case remoteAddr of None \<Rightarrow> ct
      | Some addr \<Rightarrow> ct\<lparr>ct_handshakeCaps := gdel addr (ct_handshakeCaps ct)\<rparr>)"

text \<open>The reply has the version and the capabilities; \<open>decoded\<close> is the list that the client asks for.\<close>

definition HandleHandshakePacket ::
    "(string \<times> string list \<Rightarrow> bytes result) \<Rightarrow> Packet \<Rightarrow> string list result \<Rightarrow> netAddr \<Rightarrow> Controller
     \<Rightarrow> Packet result \<times> Controller" where
  "HandleHandshakePacket marshal request decoded remoteAddr ct =
     (case decoded of
        Inl err \<Rightarrow> (Inl err, ct)
      | Inr requested \<Rightarrow>
          (let negotiated = negotiateHandshakeCapabilities requested in
           (buildServicePacket marshal request AppProtoHandshakeResponse (''goversion-1.0.0'', negotiated),
            setPendingHandshakeCapabilities remoteAddr negotiated ct)))"

end
