(* ===== verification/Device_Auth.thy ===== *)
theory Device_Auth
  imports Controller
begin

text \<open>
  Authentication of devices, from \<^verbatim>\<open>control/controller.go\<close> and \<^verbatim>\<open>control/registration.go\<close>: a client that has a
  ticket gets a challenge and proves that it holds the key of the device by signing it. \<^verbatim>\<open>ed25519.Verify\<close> panics
  for a key that does not have 32 bytes, and nothing in the program recovers: that outcome is \<^term>\<open>None\<close>.
\<close>

section \<open>Messages\<close>

record DeviceAuthRequest =
  da_UserId :: string
  da_Group :: string
  da_DeviceId :: string
  da_Ticket :: string
  da_DevicePubKey :: bytes

record DeviceAuthChallenge =
  dc_ChallengeId :: string
  dc_Nonce :: bytes
  dc_ExpireUnixMs :: int
  dc_ReauthRequired :: bool

record DeviceAuthProof =
  dp_ChallengeId :: string
  dp_DeviceId :: string
  dp_DevicePubKey :: bytes
  dp_Signature :: bytes

datatype DeviceAuthErrorReason =
  DEVICE_AUTH_UNSPECIFIED | DEVICE_AUTH_CHALLENGE_EXPIRED | DEVICE_AUTH_DEVICE_KEY_MISMATCH
| DEVICE_AUTH_INVALID_SIGNATURE | DEVICE_AUTH_AUTH_CHECK_FAILED

record DeviceAuthAck =
  dk_Ok :: bool
  dk_Reason :: string
  dk_UserId :: string
  dk_Group :: string
  dk_DeviceId :: string
  dk_AuthExpireUnixMs :: int
  dk_ReauthRequired :: bool
  dk_ErrorReason :: DeviceAuthErrorReason

definition blank_ack :: DeviceAuthAck where
  "blank_ack = \<lparr>dk_Ok = False, dk_Reason = [], dk_UserId = [], dk_Group = [], dk_DeviceId = [],
     dk_AuthExpireUnixMs = 0, dk_ReauthRequired = False, dk_ErrorReason = DEVICE_AUTH_UNSPECIFIED\<rparr>"

section \<open>Challenges\<close>

definition deviceAuthChallengeTTL :: int where "deviceAuthChallengeTTL = 60 * Second"

text \<open>
  \<open>nonce\<close> and \<open>ident\<close> are what the two calls of \<^verbatim>\<open>rand.Read\<close> yield. Expired challenges are dropped.
\<close>

definition newDeviceAuthChallenge ::
    "bytes result \<Rightarrow> bytes result \<Rightarrow> gtime \<Rightarrow> DeviceAuthRequest \<Rightarrow> string \<Rightarrow> bool \<Rightarrow> Controller
     \<Rightarrow> DeviceAuthChallenge result \<times> Controller" where
  "newDeviceAuthChallenge nonce ident now req groupName reauthRequired ct =
     (case nonce of
        Inl err \<Rightarrow> (Inl err, ct)
      | Inr n \<Rightarrow>
          (case ident of
             Inl err \<Rightarrow> (Inl err, ct)
           | Inr i \<Rightarrow>
               (let challengeID = hex_encode i;
                    challenge = \<lparr>ac_UserID = da_UserId req, ac_GroupName = groupName,
                                 ac_DeviceID = da_DeviceId req, ac_Ticket = da_Ticket req,
                                 ac_DevicePubKey = da_DevicePubKey req, ac_Nonce = n,
                                 ac_ExpireAt = now + deviceAuthChallengeTTL,
                                 ac_ReauthRequired = reauthRequired\<rparr>
                in (Inr \<lparr>dc_ChallengeId = challengeID, dc_Nonce = n,
                         dc_ExpireUnixMs = UnixMilli (now + deviceAuthChallengeTTL),
                         dc_ReauthRequired = reauthRequired\<rparr>,
                    ct\<lparr>ct_authChallenges :=
                         gput challengeID challenge
                           (gfilter (\<lambda>_ state. \<not> now > ac_ExpireAt state) (ct_authChallenges ct))\<rparr>))))"

definition consumeDeviceAuthChallenge ::
    "string \<Rightarrow> Controller \<Rightarrow> deviceAuthChallengeState option \<times> Controller" where
  "consumeDeviceAuthChallenge challengeID ct =
     (gget (ct_authChallenges ct) challengeID,
      ct\<lparr>ct_authChallenges := gdel challengeID (ct_authChallenges ct)\<rparr>)"

definition appendLenPrefixed :: "bytes \<Rightarrow> bytes \<Rightarrow> bytes" where
  "appendLenPrefixed buf dat = buf @ be32 (of_nat (length dat)) @ dat"

definition buildDeviceAuthSignedPayload :: "string \<Rightarrow> bytes \<Rightarrow> string \<Rightarrow> bytes \<Rightarrow> bytes" where
  "buildDeviceAuthSignedPayload challengeID nonce deviceID devicePubKey =
     appendLenPrefixed
       (appendLenPrefixed
          (appendLenPrefixed (appendLenPrefixed [] (bytes_of challengeID)) nonce)
          (bytes_of deviceID))
       devicePubKey"

section \<open>Handlers\<close>

definition refuseAuth :: "DeviceAuthRequest \<Rightarrow> string \<Rightarrow> DeviceAuthAck" where
  "refuseAuth req reason =
     blank_ack\<lparr>dk_Reason := reason, dk_UserId := da_UserId req, dk_Group := da_Group req,
               dk_DeviceId := da_DeviceId req\<rparr>"

text \<open>The two ways \<^verbatim>\<open>HandleDeviceAuthPacket\<close> ends: a refusal, or the challenge of the client.\<close>

definition answerDeviceAuth ::
    "control_env \<Rightarrow> bytes result \<Rightarrow> bytes result \<Rightarrow> gtime \<Rightarrow> DeviceAuthRequest \<Rightarrow> Controller
     \<Rightarrow> (DeviceAuthAck + DeviceAuthChallenge) result \<times> Controller" where
  "answerDeviceAuth env nonce ident now req ct =
     (case ValidateDeviceAuth now (da_UserId req) (da_Group req) (da_DeviceId req) (da_Ticket req) (ct_um ct) of
        Inl err \<Rightarrow> (Inr (Inl (refuseAuth req err)), ct)
      | Inr groupName \<Rightarrow>
          if da_DevicePubKey req = [] then (Inr (Inl (refuseAuth req ''device public key is empty'')), ct)
          else
            (let reauthRequired =
                   (case GetAuthedDevice groupName (da_DeviceId req) (ct_um ct) of
                      Some existing \<Rightarrow>
                        ad_PubKeyHex existing \<noteq> toPubKeyHex (ce_sha256 env) (da_DevicePubKey req) ''ed25519''
                    | None \<Rightarrow> False)
             in case newDeviceAuthChallenge nonce ident now req groupName reauthRequired ct of
                  (Inl err, ct') \<Rightarrow> (Inl err, ct')
                | (Inr challenge, ct') \<Rightarrow> (Inr (Inr challenge), ct')))"

definition HandleDeviceAuthPacket ::
    "control_env \<Rightarrow> (DeviceAuthAck \<Rightarrow> bytes result) \<Rightarrow> (DeviceAuthChallenge \<Rightarrow> bytes result)
     \<Rightarrow> bytes result \<Rightarrow> bytes result \<Rightarrow> gtime \<Rightarrow> Packet \<Rightarrow> DeviceAuthRequest result \<Rightarrow> Controller
     \<Rightarrow> Packet result \<times> Controller" where
  "HandleDeviceAuthPacket env marshalAck marshalChallenge nonce ident now request decoded ct =
     (case decoded of
        Inl err \<Rightarrow> (Inl err, ct)
      | Inr req \<Rightarrow>
          (case answerDeviceAuth env nonce ident now req ct of
             (Inl err, ct') \<Rightarrow> (Inl err, ct')
           | (Inr (Inl ack), ct') \<Rightarrow> (buildServicePacket marshalAck request AppProtoDeviceAuthAck ack, ct')
           | (Inr (Inr challenge), ct') \<Rightarrow>
               (buildServicePacket marshalChallenge request AppProtoDeviceAuthChallenge challenge, ct')))"

definition refuseProof ::
    "DeviceAuthProof \<Rightarrow> bool \<Rightarrow> string \<Rightarrow> DeviceAuthErrorReason \<Rightarrow> DeviceAuthAck" where
  "refuseProof req reauth reason errorReason =
     blank_ack\<lparr>dk_Reason := reason, dk_DeviceId := dp_DeviceId req, dk_ReauthRequired := reauth,
               dk_ErrorReason := errorReason\<rparr>"

text \<open>Whether the signature of the proof is that of the challenge's device; \<^term>\<open>None\<close> is the panic.\<close>

definition proofSigned :: "control_env \<Rightarrow> deviceAuthChallengeState \<Rightarrow> DeviceAuthProof \<Rightarrow> bool option" where
  "proofSigned env challenge req =
     (if length (dp_DevicePubKey req) \<noteq> 32 then None
      else Some (ce_ed25519 env (dp_DevicePubKey req)
             (buildDeviceAuthSignedPayload (dp_ChallengeId req) (ac_Nonce challenge) (dp_DeviceId req)
                (dp_DevicePubKey req))
             (dp_Signature req)))"

definition acceptProof ::
    "control_env \<Rightarrow> gtime \<Rightarrow> deviceAuthChallengeState \<Rightarrow> Controller \<Rightarrow> DeviceAuthAck \<times> Controller" where
  "acceptProof env now challenge ct =
     (case AuthDevice (ce_sha256 env) now (ce_UMStore env) (ac_UserID challenge) (ac_GroupName challenge)
             (ac_DeviceID challenge) (ac_Ticket challenge) (ac_DevicePubKey challenge) (ct_um ct) of
        (Inl err, m) \<Rightarrow>
          (blank_ack\<lparr>dk_Reason := err, dk_UserId := ac_UserID challenge, dk_Group := ac_GroupName challenge,
                     dk_DeviceId := ac_DeviceID challenge, dk_ReauthRequired := ac_ReauthRequired challenge,
                     dk_ErrorReason := DEVICE_AUTH_AUTH_CHECK_FAILED\<rparr>,
           ct\<lparr>ct_um := m\<rparr>)
      | (Inr r, m) \<Rightarrow>
          (blank_ack\<lparr>dk_Ok := True, dk_UserId := ad_UserID r, dk_Group := ad_GroupName r,
                     dk_DeviceId := ad_DeviceID r, dk_AuthExpireUnixMs := UnixMilli (ad_AuthExpireAt r),
                     dk_ReauthRequired := ac_ReauthRequired challenge\<rparr>,
           ct\<lparr>ct_um := m\<rparr>))"

definition answerDeviceAuthProof ::
    "control_env \<Rightarrow> gtime \<Rightarrow> DeviceAuthProof \<Rightarrow> Controller \<Rightarrow> (DeviceAuthAck \<times> Controller) option" where
  "answerDeviceAuthProof env now req ct =
     (case consumeDeviceAuthChallenge (dp_ChallengeId req) ct of
        (None, ct1) \<Rightarrow>
          Some (refuseProof req False ''challenge_expired'' DEVICE_AUTH_CHALLENGE_EXPIRED, ct1)
      | (Some challenge, ct1) \<Rightarrow>
          if now > ac_ExpireAt challenge
          then Some (refuseProof req False ''challenge_expired'' DEVICE_AUTH_CHALLENGE_EXPIRED, ct1)
          else if ac_DeviceID challenge \<noteq> dp_DeviceId req \<or> ac_DevicePubKey challenge \<noteq> dp_DevicePubKey req
          then Some (refuseProof req (ac_ReauthRequired challenge) ''device_key_mismatch''
                       DEVICE_AUTH_DEVICE_KEY_MISMATCH, ct1)
          else map_option
            (\<lambda>signed. if \<not> signed
                       then (refuseProof req (ac_ReauthRequired challenge) ''invalid_signature''
                               DEVICE_AUTH_INVALID_SIGNATURE, ct1)
                       else acceptProof env now challenge ct1)
            (proofSigned env challenge req))"

definition HandleDeviceAuthProofPacket ::
    "control_env \<Rightarrow> (DeviceAuthAck \<Rightarrow> bytes result) \<Rightarrow> gtime \<Rightarrow> Packet \<Rightarrow> DeviceAuthProof result \<Rightarrow> Controller
     \<Rightarrow> (Packet result \<times> Controller) option" where
  "HandleDeviceAuthProofPacket env marshal now request decoded ct =
     (case decoded of
        Inl err \<Rightarrow> Some (Inl err, ct)
      | Inr req \<Rightarrow>
          map_option (\<lambda>(ack, ct'). (buildServicePacket marshal request AppProtoDeviceAuthAck ack, ct'))
            (answerDeviceAuthProof env now req ct))"

end
