(* ===== verification/Registration.thy ===== *)
theory Registration
  imports Device_Auth
begin

text \<open>
  Registration, \<^verbatim>\<open>control/registration.go\<close>: how an authenticated device joins the network of its group and
  gets an address, how it is renamed, and what happens to its runtime state when its record is deleted or
  stops being valid. A handler returns its result and the controller afterwards; \<^term>\<open>None\<close> would be a loop of
  the address or name search that never ends. The instant \<open>now\<close> is the one of all \<^verbatim>\<open>time.Now()\<close> of a handler.
\<close>

section \<open>Messages\<close>

record RegistrationRequest =
  rq_Token :: string
  rq_DeviceId :: string
  rq_Name :: string
  rq_Version :: string
  rq_VirtualIp :: u32
  rq_AllowIpChange :: bool
  rq_DevicePubKey :: bytes
  rq_OnlineKxPub :: bytes

datatype RegistrationErrorReason =
  REGISTRATION_UNSPECIFIED | REGISTRATION_INVALID_GROUP_DOMAIN | REGISTRATION_NOT_AUTHED
| REGISTRATION_INVALID_REQUEST | REGISTRATION_MISSING_HANDSHAKE_CAPABILITY | REGISTRATION_INTERNAL

record RegistrationResponse =
  rr_VirtualIp :: u32
  rr_VirtualGateway :: u32
  rr_VirtualNetmask :: u32
  rr_Epoch :: u32
  rr_DeviceInfoList :: "DeviceInfo list"
  rr_PublicIp :: u32
  rr_PublicPort :: u32
  rr_PublicIpv6 :: bytes
  rr_GatewayAccessGrant :: "GatewayAccessGrant option"
  rr_ErrorCode :: u32
  rr_ErrorMessage :: string
  rr_DnsProfile :: "DnsProfile option"
  rr_GatewayAccessGrants :: "GatewayAccessGrant list"
  rr_GatewayPolicyRev :: u64
  rr_ErrorReason :: RegistrationErrorReason

definition blank_response :: RegistrationResponse where
  "blank_response = \<lparr>rr_VirtualIp = 0, rr_VirtualGateway = 0, rr_VirtualNetmask = 0, rr_Epoch = 0,
     rr_DeviceInfoList = [], rr_PublicIp = 0, rr_PublicPort = 0, rr_PublicIpv6 = [],
     rr_GatewayAccessGrant = None, rr_ErrorCode = 0, rr_ErrorMessage = [], rr_DnsProfile = None,
     rr_GatewayAccessGrants = [], rr_GatewayPolicyRev = 0, rr_ErrorReason = REGISTRATION_UNSPECIFIED\<rparr>"

section \<open>Who may register\<close>

definition validateRegistrationRequest :: "RegistrationRequest \<Rightarrow> string option" where
  "validateRegistrationRequest reg =
     (if rq_Token reg = [] \<or> length (rq_Token reg) > 128 then Some ''token length error''
      else if rq_DeviceId reg = [] \<or> length (rq_DeviceId reg) > 128 then Some ''device_id length error''
      else if rq_Name reg = [] \<or> length (rq_Name reg) > 128 then Some ''name length error''
      else if rq_DevicePubKey reg = [] then Some ''device_pub_key is empty''
      else if length (rq_OnlineKxPub reg) \<noteq> 32 then Some ''online_kx_pub length error''
      else None)"

definition staleClient :: "string \<Rightarrow> string \<Rightarrow> NetworkInfo \<Rightarrow> ClientInfo \<Rightarrow> bool" where
  "staleClient authGroup deviceID netInfo client \<longleftrightarrow>
     cl_DeviceId client = deviceID \<and> clientAuthGroup client (ni_Group netInfo) = authGroup \<and>
     (cl_ControlOnline client \<or> cl_ClientStatus client \<noteq> None \<or> cl_DataPlaneReachable client)"

definition clearStaleClientStateByDeviceID :: "gtime \<Rightarrow> string \<Rightarrow> string \<Rightarrow> NetworkControl \<Rightarrow> NetworkControl" where
  "clearStaleClientStateByDeviceID now authGroup deviceID nc =
     nc_offline now (staleClient authGroup deviceID) cl_Address nc"

text \<open>
  The first part of the handler: the network of the group, the check of the device's record and key, and the
  display name, which is assigned on the first registration. A device that fails the check goes offline.
\<close>

definition ensureDisplayName ::
    "control_env \<Rightarrow> RegistrationRequest \<Rightarrow> UMAuthDevice \<Rightarrow> Controller
     \<Rightarrow> (UMAuthDevice result \<times> Controller) option" where
  "ensureDisplayName env reg authRecord ct =
     (if TrimSpace (ad_DisplayName authRecord) = []
      then map_option (\<lambda>(r, m). (r, ct\<lparr>ct_um := m\<rparr>))
             (AssignAuthedDeviceDisplayName (ce_UMStore env) (rq_Token reg) (rq_DeviceId reg)
                (TrimSpace (rq_Name reg)) (ct_um ct))
      else Some (Inr authRecord, ct))"

definition authorizeRegistration ::
    "control_env \<Rightarrow> gtime \<Rightarrow> RegistrationRequest \<Rightarrow> Controller
     \<Rightarrow> ((UMAuthDevice \<times> netIP \<times> netMask) result \<times> Controller) option" where
  "authorizeRegistration env now reg ct =
     (case validateRegistrationRequest reg of
        Some err \<Rightarrow> Some (Inl err, ct)
      | None \<Rightarrow>
          (case resolveGroupNetworkConfig (ce_cfg env) (rq_Token reg) of
             Inl err \<Rightarrow> Some (Inl err, ct)
           | Inr (gateway, netmask) \<Rightarrow>
               (case CheckAuthedDevice (ce_sha256 env) now (rq_Token reg) (rq_DeviceId reg)
                       (rq_DevicePubKey reg) (ct_um ct) of
                  Some err \<Rightarrow>
                    Some (Inl (''device '' @ rq_DeviceId reg @ '' auth check failed for group ''
                               @ rq_Token reg @ '': '' @ err),
                          ct\<lparr>ct_nc := clearStaleClientStateByDeviceID now (rq_Token reg) (rq_DeviceId reg) (ct_nc ct)\<rparr>)
                | None \<Rightarrow>
                    (case GetAuthedDevice (rq_Token reg) (rq_DeviceId reg) (ct_um ct) of
                       None \<Rightarrow>
                         Some (Inl (''device '' @ rq_DeviceId reg @ '' auth record missing for group ''
                                    @ rq_Token reg), ct)
                     | Some authRecord \<Rightarrow>
                         map_option (\<lambda>(r, ct'). (map_sum id (\<lambda>assigned. (assigned, gateway, netmask)) r, ct'))
                           (ensureDisplayName env reg authRecord ct)))))"

definition registrationName :: "RegistrationRequest \<Rightarrow> UMAuthDevice \<Rightarrow> string" where
  "registrationName reg authRecord =
     (if TrimSpace (ad_DisplayName authRecord) \<noteq> [] then TrimSpace (ad_DisplayName authRecord)
      else TrimSpace (rq_Name reg))"

section \<open>Joining the network\<close>

text \<open>The host and the port of the remote address; the text of the library's error is left out.\<close>

definition parseRemoteAddr :: "string \<Rightarrow> (string \<times> u32) result" where
  "parseRemoteAddr remoteAddr =
     (case SplitHostPort remoteAddr of
        None \<Rightarrow> Inl ''Failed to parse remote address''
      | Some (host, portStr) \<Rightarrow>
          (case Atoi portStr of
             None \<Rightarrow> Inl (''invalid remote port: \"'' @ portStr @ ''\"'')
           | Some port \<Rightarrow>
               if port < 0 \<or> port > 65535 then Inl (''invalid remote port: \"'' @ portStr @ ''\"'')
               else Inr (host, word_of_int port)))"

definition joinedClient ::
    "gtime \<Rightarrow> NetworkIdentity \<Rightarrow> RegistrationRequest \<Rightarrow> UMAuthDevice \<Rightarrow> string list \<Rightarrow> string \<Rightarrow> u32
     \<Rightarrow> ClientInfo \<Rightarrow> ClientInfo" where
  "joinedClient now identity reg authRecord caps remoteAddr virtualIP client =
     client\<lparr>cl_DeviceId := rq_DeviceId reg, cl_Name := registrationName reg authRecord,
            cl_UserID := ad_UserID authRecord, cl_NetworkKey := id_key identity,
            cl_AuthGroup := rq_Token reg, cl_NetworkScope := id_scope identity,
            cl_Version := rq_Version reg, cl_Capabilities := caps, cl_ControlOnline := True,
            cl_ControlLastSeen := Unix now, cl_DataPlaneReachable := False, cl_DataPlaneLastSeen := 0,
            cl_PreferredChannelMode := CHANNEL_MODE_AUTO, cl_VirtualIp := virtualIP,
            cl_Address := Some remoteAddr, cl_DevicePubKey := rq_DevicePubKey reg,
            cl_OnlineKxPub := rq_OnlineKxPub reg, cl_LastJoin := Unix now\<rparr>"

text \<open>What follows the choice of the address: the previous one is given up and the client is stored.\<close>

definition placeClient ::
    "gtime \<Rightarrow> NetworkIdentity \<Rightarrow> RegistrationRequest \<Rightarrow> UMAuthDevice \<Rightarrow> string list \<Rightarrow> string \<Rightarrow> u32 \<Rightarrow> u32
     \<Rightarrow> NetworkInfo \<times> (IpSessionKey, netAddr) ExpireMap \<Rightarrow> NetworkInfo \<times> (IpSessionKey, netAddr) ExpireMap" where
  "placeClient now identity reg authRecord caps remoteAddr virtualIP oldIP = (\<lambda>(netInfo, sess).
     (let moved = (oldIP \<noteq> 0 \<and> oldIP \<noteq> virtualIP);
          netInfo1 = (if moved then DeleteClient oldIP netInfo else netInfo);
          sess1 = (if moved then em_Delete (NewIpSessionKey (id_key identity) oldIP) sess else sess);
          client = (case gget (ni_Clients netInfo1) virtualIP of Some c \<Rightarrow> c | None \<Rightarrow> zero_ClientInfo);
          netInfo2 = UpsertClient virtualIP
                       (joinedClient now identity reg authRecord caps remoteAddr virtualIP client) netInfo1
      in (netInfo2\<lparr>ni_Epoch := ni_Epoch netInfo2 + 1\<rparr>,
          em_Delete (NewIpSessionKey (id_key identity) virtualIP) sess1)))"

definition setNetwork :: "string \<Rightarrow> NetworkInfo \<Rightarrow> NetworkControl \<Rightarrow> NetworkControl" where
  "setNetwork key netInfo nc = with_networks nc (gput key netInfo (em_data (nc_VirtualNetwork nc)))"

text \<open>
  The part under the write lock: the network, made on its first registration, the address, and the client.
  A network that is made stays when no address is left.
\<close>

definition joinNetwork ::
    "gtime \<Rightarrow> NetworkIdentity \<Rightarrow> netIP \<Rightarrow> netMask \<Rightarrow> (u32, string) gomap \<Rightarrow> RegistrationRequest \<Rightarrow> UMAuthDevice
     \<Rightarrow> string list \<Rightarrow> string \<Rightarrow> NetworkControl \<Rightarrow> ((u32 \<times> NetworkInfo) result \<times> NetworkControl) option" where
  "joinNetwork now identity gateway netmask reserved reg authRecord caps remoteAddr nc =
     (let key = id_key identity;
          netInfo = (case gget (em_data (nc_VirtualNetwork nc)) key of
                       Some n \<Rightarrow> n | None \<Rightarrow> NewNetworkInfo key netmask gateway reserved)
      in map_option
           (\<lambda>(r, netInfo1, sess).
              case r of
                Inl err \<Rightarrow> (Inl err, (setNetwork key netInfo1 nc)\<lparr>nc_IPSessions := sess\<rparr>)
              | Inr (virtualIP, oldIP) \<Rightarrow>
                  (case placeClient now identity reg authRecord caps remoteAddr virtualIP oldIP (netInfo1, sess) of
                     (netInfo2, sess2) \<Rightarrow>
                       (Inr (virtualIP, netInfo2),
                        TouchCipherSession now (Some remoteAddr)
                          ((setNetwork key netInfo2 nc)\<lparr>nc_IPSessions := sess2\<rparr>))))
           (generateIP now netInfo (nc_IPSessions nc) (rq_VirtualIp reg) (rq_DeviceId reg) (rq_AllowIpChange reg)))"

section \<open>The handler\<close>

definition registrationResponse ::
    "control_env \<Rightarrow> RegistrationRequest \<Rightarrow> netIP \<Rightarrow> netMask \<Rightarrow> string \<Rightarrow> u32 \<Rightarrow> u32 \<Rightarrow> NetworkInfo
     \<Rightarrow> GatewayAccessGrant list \<Rightarrow> u64 \<Rightarrow> exit_approvals \<Rightarrow> RegistrationResponse" where
  "registrationResponse env reg gateway netmask host port virtualIP netInfo grants policyRev approved =
     blank_response
       \<lparr>rr_PublicPort := port,
        rr_PublicIp := (case ParseIP_To4 host of Some ip4 \<Rightarrow> IpToUint32 ip4 | None \<Rightarrow> 0),
        rr_PublicIpv6 := (case ParseIP host of
                            Some ip \<Rightarrow> (if To4 ip = None then (case To16 ip of Some ip16 \<Rightarrow> ip16 | None \<Rightarrow> [])
                                        else [])
                          | None \<Rightarrow> []),
        rr_VirtualGateway := IpToUint32 gateway, rr_VirtualNetmask := MaskToUint32 netmask,
        rr_DnsProfile := BuildClientDNSProfile (ce_cfg env) (rq_Token reg), rr_VirtualIp := virtualIP,
        rr_GatewayAccessGrant := selectPrimaryGatewayGrant grants, rr_GatewayAccessGrants := grants,
        rr_GatewayPolicyRev := policyRev, rr_Epoch := ucast (ni_Epoch netInfo),
        rr_DeviceInfoList := enrichDeviceInfoListExitNodesFromClients approved (ni_Clients netInfo)
                               (buildDeviceInfoList (ni_Clients netInfo) virtualIP)\<rparr>"

text \<open>
  The handler after decoding: the response, the address and the identity of the network. The remote address
  of a packet is never nil here. Without the capability to report endpoints a warning is logged.
\<close>

definition completeRegistration ::
    "control_env \<Rightarrow> gtime \<Rightarrow> RegistrationRequest \<Rightarrow> string \<Rightarrow> string list \<Rightarrow> UMAuthDevice \<Rightarrow> netIP \<Rightarrow> netMask
     \<Rightarrow> string \<Rightarrow> u32 \<Rightarrow> Controller
     \<Rightarrow> ((RegistrationResponse \<times> u32 \<times> NetworkIdentity) result \<times> Controller) option" where
  "completeRegistration env now reg remoteAddr caps authRecord gateway netmask host port ct =
     (let identity = NewNetworkIdentity (rq_Token reg) (ad_UserID authRecord) in
      map_option
        (\<lambda>(r, nc).
           case r of
             Inl err \<Rightarrow> (Inl err, ct\<lparr>ct_nc := nc\<rparr>)
           | Inr (virtualIP, netInfo) \<Rightarrow>
               (case buildGatewayAccessGrantsForExistingClient (gatewayEnv env) now (id_key identity) virtualIP
                       (rq_DeviceId reg) (ct_gateways ct) of
                  ((grants, policyRev), gs) \<Rightarrow>
                    (Inr (registrationResponse env reg gateway netmask host port virtualIP netInfo grants policyRev
                            (ct_exitNodeApproved ct), virtualIP, identity),
                     ct\<lparr>ct_nc := nc, ct_gateways := gs\<rparr>)))
        (joinNetwork now identity gateway netmask (reservedServiceIPs (ce_cfg env) (rq_Token reg)) reg authRecord
           caps remoteAddr (ct_nc ct)))"

definition register ::
    "control_env \<Rightarrow> gtime \<Rightarrow> RegistrationRequest \<Rightarrow> string \<Rightarrow> string list \<Rightarrow> Controller
     \<Rightarrow> ((RegistrationResponse \<times> u32 \<times> NetworkIdentity) result \<times> Controller) option" where
  "register env now reg remoteAddr caps ct =
     Option.bind (authorizeRegistration env now reg ct)
       (\<lambda>(r, ct1).
          case r of
            Inl err \<Rightarrow> Some (Inl err, ct1)
          | Inr (authRecord, gateway, netmask) \<Rightarrow>
              (case parseRemoteAddr remoteAddr of
                 Inl err \<Rightarrow> Some (Inl err, ct1)
               | Inr (host, port) \<Rightarrow>
                   completeRegistration env now reg remoteAddr caps authRecord gateway netmask host port ct1))"

definition HandleRegistrationPacketWithVirtualIPAndCapabilities ::
    "control_env \<Rightarrow> (RegistrationResponse \<Rightarrow> bytes result) \<Rightarrow> gtime \<Rightarrow> Packet \<Rightarrow> RegistrationRequest result
     \<Rightarrow> string \<Rightarrow> string list \<Rightarrow> Controller \<Rightarrow> ((Packet \<times> u32 \<times> NetworkIdentity) result \<times> Controller) option" where
  "HandleRegistrationPacketWithVirtualIPAndCapabilities env marshal now request decoded remoteAddr caps ct =
     (case decoded of
        Inl err \<Rightarrow> Some (Inl err, ct)
      | Inr reg \<Rightarrow>
          map_option
            (\<lambda>(r, ct'). (case r of
                           Inl err \<Rightarrow> Inl err
                         | Inr (response, virtualIP, identity) \<Rightarrow>
                             (case buildServicePacket marshal request AppProtoRegistrationResponse response of
                                Inl err \<Rightarrow> Inl (''RegistrationResponse marshal error: '' @ err)
                              | Inr packet \<Rightarrow> Inr (packet, virtualIP, identity)), ct'))
            (register env now reg remoteAddr caps ct))"

section \<open>Errors\<close>

definition classifyRegistrationError :: "string option \<Rightarrow> u32 \<times> RegistrationErrorReason \<times> string" where
  "classifyRegistrationError err =
     (case err of
        None \<Rightarrow> (1, REGISTRATION_INTERNAL, ''registration failed'')
      | Some reason \<Rightarrow>
          if Contains reason ''expect <group>.<domain>'' \<or> Contains reason ''not configured in domains''
          then (1001, REGISTRATION_INVALID_GROUP_DOMAIN, reason)
          else if Contains reason ''not authed'' then (1002, REGISTRATION_NOT_AUTHED, reason)
          else if Contains reason ''unmarshal'' \<or> Contains reason ''validate''
          then (1003, REGISTRATION_INVALID_REQUEST, reason)
          else if Contains reason ''missing required handshake capability''
          then (1004, REGISTRATION_MISSING_HANDSHAKE_CAPABILITY, reason)
          else (1999, REGISTRATION_INTERNAL, reason))"

definition BuildRegistrationErrorPacket ::
    "(RegistrationResponse \<Rightarrow> bytes result) \<Rightarrow> Packet \<Rightarrow> string option \<Rightarrow> Packet result" where
  "BuildRegistrationErrorPacket marshal request err =
     (case classifyRegistrationError err of
        (code, errorReason, reason) \<Rightarrow>
          (case buildServicePacket marshal request AppProtoRegistrationResponse
                  (blank_response\<lparr>rr_ErrorCode := code, rr_ErrorMessage := reason, rr_ErrorReason := errorReason\<rparr>) of
             Inl e \<Rightarrow> Inl (''RegistrationResponse(error) marshal error: '' @ e)
           | Inr packet \<Rightarrow> Inr packet))"

section \<open>Renaming and deleting devices\<close>

record DeviceRenameResponse =
  rn_RequestId :: u64
  rn_Ok :: bool
  rn_Reason :: string
  rn_AppliedName :: string

definition networkHasDuplicateDeviceNameLocked :: "NetworkInfo \<Rightarrow> string \<Rightarrow> string \<Rightarrow> bool" where
  "networkHasDuplicateDeviceNameLocked network deviceID newName \<longleftrightarrow>
     TrimSpace newName \<noteq> [] \<and>
     (\<exists>client \<in> set (map snd (ni_Clients network)).
        cl_DeviceId client \<noteq> deviceID \<and> EqualFold (TrimSpace (cl_Name client)) (TrimSpace newName))"

text \<open>The group of the client that sends the request, or why it may not take the name: \<^verbatim>\<open>renameReason\<close>.\<close>

definition renameGroup :: "NetworkControl \<Rightarrow> string \<Rightarrow> u32 \<Rightarrow> string \<Rightarrow> string \<Rightarrow> string result" where
  "renameGroup nc networkKey srcIP deviceID newName =
     forEachVirtualNetworkRead nc networkKey
       (\<lambda>_ network found.
          case gget (ni_Clients network) srcIP of
            None \<Rightarrow> (True, found)
          | Some client \<Rightarrow>
              (False,
               if cl_DeviceId client \<noteq> deviceID then Inl ''device mismatch''
               else if networkHasDuplicateDeviceNameLocked network deviceID newName
               then Inl ''device name already exists''
               else Inr (clientAuthGroup client (ni_Group network))))
       (Inr [])"

definition answerDeviceRename ::
    "control_env \<Rightarrow> Packet \<Rightarrow> u64 \<Rightarrow> string \<Rightarrow> string \<Rightarrow> Controller \<Rightarrow> DeviceRenameResponse \<times> Controller" where
  "answerDeviceRename env request requestId deviceID0 newName0 ct =
     (let deviceID = TrimSpace deviceID0;
          refuse = (\<lambda>reason. \<lparr>rn_RequestId = requestId, rn_Ok = False, rn_Reason = reason, rn_AppliedName = []\<rparr>)
      in case normalizeRenameName newName0 of
           Inl err \<Rightarrow> (refuse err, ct)
         | Inr newName \<Rightarrow>
             if deviceID = [] then (refuse ''device_id is empty'', ct)
             else case renameGroup (ct_nc ct) (pk_RouteNetworkKey request) (IpToUint32 (pk_SrcIP request))
                         deviceID newName of
               Inl reason \<Rightarrow> (refuse reason, ct)
             | Inr groupName \<Rightarrow>
                 if groupName = [] then (refuse ''device not registered'', ct)
                 else case SetAuthedDeviceDisplayName (ce_UMStore env) groupName deviceID newName (ct_um ct) of
                   (Inl err, m) \<Rightarrow> (refuse err, ct\<lparr>ct_um := m\<rparr>)
                 | (Inr _, m) \<Rightarrow>
                     (\<lparr>rn_RequestId = requestId, rn_Ok = True, rn_Reason = ''restart required to apply rename'',
                       rn_AppliedName = newName\<rparr>, ct\<lparr>ct_um := m\<rparr>))"

text \<open>\<open>decoded\<close> is the number of the request, the device and the new name.\<close>

definition HandleDeviceRenamePacket ::
    "control_env \<Rightarrow> (DeviceRenameResponse \<Rightarrow> bytes result) \<Rightarrow> Packet \<Rightarrow> (u64 \<times> string \<times> string) result \<Rightarrow> Controller
     \<Rightarrow> Packet result \<times> Controller" where
  "HandleDeviceRenamePacket env marshal request decoded ct =
     (case decoded of
        Inl err \<Rightarrow> (Inl err, ct)
      | Inr (requestId, deviceID, newName) \<Rightarrow>
          (case answerDeviceRename env request requestId deviceID newName ct of
             (response, ct') \<Rightarrow> (buildServicePacket marshal request AppProtoDeviceRenameResponse response, ct')))"

text \<open>
  The loops of \<^verbatim>\<open>removeAuthedDeviceRuntimeState\<close> over the clients of one network: the selected ones are deleted
  with their reservation, and the epoch grows when there was one.
\<close>

definition removeClients ::
    "string \<Rightarrow> (ClientInfo \<Rightarrow> bool) \<Rightarrow> NetworkInfo \<Rightarrow> (IpSessionKey, netAddr) ExpireMap
     \<Rightarrow> NetworkInfo \<times> (IpSessionKey, netAddr) ExpireMap" where
  "removeClients networkKey sel netInfo sess0 =
     (case fold (\<lambda>(virtualIP, client) (n, sess, changed).
                   if sel client
                   then (DeleteClient virtualIP n, em_Delete (NewIpSessionKey networkKey virtualIP) sess, True)
                   else (n, sess, changed))
             (ni_Clients netInfo) (netInfo, sess0, False) of
        (n, sess, changed) \<Rightarrow> (if changed then n\<lparr>ni_Epoch := ni_Epoch n + 1\<rparr> else n, sess))"

fun removeFromNetworks ::
    "(NetworkInfo \<Rightarrow> ClientInfo \<Rightarrow> bool) \<Rightarrow> (string, NetworkInfo) gomap \<Rightarrow> (IpSessionKey, netAddr) ExpireMap
     \<Rightarrow> (string, NetworkInfo) gomap \<times> (IpSessionKey, netAddr) ExpireMap" where
  "removeFromNetworks sel [] sess = ([], sess)"
| "removeFromNetworks sel ((networkKey, netInfo) # rest) sess =
     (case removeClients networkKey (sel netInfo) netInfo sess of
        (netInfo', sess') \<Rightarrow>
          (case removeFromNetworks sel rest sess' of
             (rest', sess'') \<Rightarrow> ((networkKey, netInfo') # rest', sess'')))"

definition removeAuthedDeviceRuntimeState :: "UMAuthDevice list \<Rightarrow> NetworkControl \<Rightarrow> NetworkControl" where
  "removeAuthedDeviceRuntimeState records nc =
     (if records = [] then nc
      else
        (let gone = map (\<lambda>r. authedDeviceKey (ad_GroupName r) (ad_DeviceID r)) records in
         case removeFromNetworks
                (\<lambda>netInfo client. authedDeviceKey (clientAuthGroup client (ni_Group netInfo)) (cl_DeviceId client)
                                    \<in> set gone)
                (em_data (nc_VirtualNetwork nc)) (nc_IPSessions nc) of
           (ns, sess) \<Rightarrow> (with_networks nc ns)\<lparr>nc_IPSessions := sess\<rparr>))"

definition renameClients :: "UMAuthDevice \<Rightarrow> string \<Rightarrow> NetworkInfo \<Rightarrow> NetworkInfo" where
  "renameClients r displayName netInfo =
     (case fold (\<lambda>(virtualIP, client) (n, changed).
                   if clientAuthGroup client (ni_Group netInfo) = ad_GroupName r \<and>
                      cl_DeviceId client = ad_DeviceID r \<and> cl_Name client \<noteq> displayName
                   then (UpsertClient virtualIP (client\<lparr>cl_Name := displayName\<rparr>) n, True)
                   else (n, changed))
             (ni_Clients netInfo) (netInfo, False) of
        (n, changed) \<Rightarrow> if changed then n\<lparr>ni_Epoch := ni_Epoch n + 1\<rparr> else n)"

definition updateAuthedDeviceRuntimeName :: "UMAuthDevice \<Rightarrow> NetworkControl \<Rightarrow> NetworkControl" where
  "updateAuthedDeviceRuntimeName r nc =
     (let displayName = TrimSpace (ad_DisplayName r) in
      if displayName = [] then nc
      else with_networks nc (gmapv (\<lambda>_. renameClients r displayName) (em_data (nc_VirtualNetwork nc))))"

text \<open>\<^verbatim>\<open>Controller.DeleteAuthedDevice\<close> and \<^verbatim>\<open>Controller.RenameAuthedDevice\<close> of \<^verbatim>\<open>control/controller_user.go\<close>.\<close>

definition ctl_DeleteAuthedDevice ::
    "control_env \<Rightarrow> string \<Rightarrow> string \<Rightarrow> string \<Rightarrow> Controller \<Rightarrow> UMAuthDevice list result \<times> Controller" where
  "ctl_DeleteAuthedDevice env userID groupName deviceID ct =
     (case DeleteAuthedDevice (ce_UMStore env) userID groupName deviceID (ct_um ct) of
        (Inl err, m) \<Rightarrow> (Inl err, ct\<lparr>ct_um := m\<rparr>)
      | (Inr records, m) \<Rightarrow>
          (Inr records, ct\<lparr>ct_um := m, ct_nc := removeAuthedDeviceRuntimeState records (ct_nc ct)\<rparr>))"

definition ctl_RenameAuthedDevice ::
    "control_env \<Rightarrow> string \<Rightarrow> string \<Rightarrow> string \<Rightarrow> string \<Rightarrow> Controller \<Rightarrow> UMAuthDevice result \<times> Controller" where
  "ctl_RenameAuthedDevice env userID groupName deviceID displayName ct =
     (case RenameAuthedDevice (ce_UMStore env) userID groupName deviceID displayName (ct_um ct) of
        (Inl err, m) \<Rightarrow> (Inl err, ct\<lparr>ct_um := m\<rparr>)
      | (Inr r, m) \<Rightarrow> (Inr r, ct\<lparr>ct_um := m, ct_nc := updateAuthedDeviceRuntimeName r (ct_nc ct)\<rparr>))"

end
