(* ===== verification/Admission.thy ===== *)
theory Admission
  imports Registration User_Names
begin

text \<open>
  What registration promises. \<open>net_ok\<close> is the invariant of a network: it is well formed, its settings are
  those of a proper network, and every client has an address inside it and belongs to it by its group and user.
  The locale \<open>guarded_table\<close> extends the contract of the address table by such a condition on the clients; the
  steps of the controller keep it, so it holds in every reachable state.
\<close>

section \<open>Tables with a condition on the clients\<close>

locale guarded_table = address_table +
  fixes settings :: "'a \<Rightarrow> 's"
    and admissible :: "'s \<Rightarrow> u32 \<Rightarrow> 'b \<Rightarrow> bool"
    and ok :: "'a \<Rightarrow> bool"
  assumes settings_upsert: "settings (upsert ip c n) = settings n"
    and settings_remove: "settings (remove ip n) = settings n"
    and ok_iff: "ok n \<longleftrightarrow> inv n \<and> (\<forall>ip c. lookup n ip = Some c \<longrightarrow> admissible (settings n) ip c)"
begin

lemma ok_remove: "ok n \<Longrightarrow> ok (remove ip n)"
  by (simp add: ok_iff inv_remove lookup_remove settings_remove)

lemma ok_replace:
  assumes "ok n" and "lookup n ip = Some c" and "device c' = device c" and "admissible (settings n) ip c'"
  shows "ok (upsert ip c' n)"
  using assms inv_modify [of n ip c c'] by (auto simp: ok_iff lookup_upsert settings_upsert)

lemma ok_place:
  assumes "ok n" and "ip \<noteq> 0" and "device c \<noteq> []" and "admissible (settings n) ip c"
    and "old = address n (device c)"
  shows "ok (upsert ip c (if old \<noteq> 0 \<and> old \<noteq> ip then remove old n else n))"
proof -
  have "inv (upsert ip c (if old \<noteq> 0 \<and> old \<noteq> ip then remove old n else n))"
    by (rule move_device(1) [OF _ assms(2,3,5) refl]) (use assms(1) in \<open>simp add: ok_iff\<close>)
  then show ?thesis using assms(1,4)
    by (auto simp: ok_iff lookup_upsert settings_upsert lookup_remove settings_remove)
qed

end

section \<open>The invariant of a network\<close>

definition in_network :: "netIP \<Rightarrow> netMask \<Rightarrow> u32 \<Rightarrow> bool" where
  "in_network gateway netmask ip \<longleftrightarrow>
     firstIP (IpToUint32 gateway) (MaskToUint32 netmask) \<le> ip \<and>
     ip \<le> lastIP (IpToUint32 gateway) (MaskToUint32 netmask) \<and> ip \<noteq> IpToUint32 gateway"

definition member_ok :: "string \<times> netIP \<times> netMask \<Rightarrow> u32 \<Rightarrow> ClientInfo \<Rightarrow> bool" where
  "member_ok = (\<lambda>(key, gateway, netmask) ip c.
     (let identity = NewNetworkIdentity (cl_AuthGroup c) (cl_UserID c) in
      in_network gateway netmask ip \<and> cl_DeviceId c \<noteq> [] \<and> cl_VirtualIp c = ip \<and>
      CHR ''@'' \<notin> set (cl_AuthGroup c) \<and> key = id_key identity \<and> cl_NetworkKey c = key \<and> cl_NetworkScope c = id_scope identity))"

definition net_settings :: "NetworkInfo \<Rightarrow> string \<times> netIP \<times> netMask" where
  "net_settings n = (ni_Group n, ni_Gateway n, ni_Netmask n)"

definition members_ok :: "NetworkInfo \<Rightarrow> bool" where
  "members_ok n \<longleftrightarrow> net_wf n \<and>
     (\<forall>ip c. gget (ni_Clients n) ip = Some c \<longrightarrow> member_ok (net_settings n) ip c)"

interpretation gt: guarded_table "\<lambda>n. gget (ni_Clients n)" FindClientIPByDeviceID cl_DeviceId
  UpsertClient DeleteClient net_wf net_settings member_ok members_ok
  by unfold_locales (simp_all add: net_settings_def members_ok_def)

text \<open>A network under its key of the map.\<close>

definition net_ok :: "string \<Rightarrow> NetworkInfo \<Rightarrow> bool" where
  "net_ok key n \<longleftrightarrow> ni_Group n = key \<and> proper_network (ni_Gateway n) (ni_Netmask n) \<and> members_ok n"

definition nc_ok :: "NetworkControl \<Rightarrow> bool" where
  "nc_ok nc \<longleftrightarrow> gwf (networks nc) \<and> (\<forall>(key, n) \<in> set (networks nc). net_ok key n)"

lemma net_ok_wf: "net_ok key n \<Longrightarrow> net_wf n"
  by (simp add: net_ok_def members_ok_def)

lemma nc_ok_wf: "nc_ok nc \<Longrightarrow> nc_wf nc"
  by (auto simp: nc_ok_def nc_wf_def net_ok_wf)

lemma nc_ok_get: "nc_ok nc \<Longrightarrow> gget (networks nc) key = Some n \<Longrightarrow> net_ok key n"
  by (auto simp: nc_ok_def dest: gget_Some_in)

lemma net_ok_epoch [simp]: "net_ok key (n\<lparr>ni_Epoch := e\<rparr>) = net_ok key n"
  by (simp add: net_ok_def members_ok_def net_wf_def net_settings_def)

lemma assignable_in_network: "assignable n ip \<longleftrightarrow> in_network (ni_Gateway n) (ni_Netmask n) ip"
  by (simp add: assignable_def in_network_def)

lemma net_ok_Delete: "net_ok key n \<Longrightarrow> net_ok key (DeleteClient ip n)"
  by (simp add: net_ok_def gt.ok_remove)

lemma net_ok_member: "net_ok key n \<Longrightarrow> gget (ni_Clients n) ip = Some c \<Longrightarrow> member_ok (net_settings n) ip c"
  by (simp add: net_ok_def members_ok_def)

lemma net_ok_held: "net_ok key n \<Longrightarrow> gget (ni_Clients n) ip \<noteq> None \<Longrightarrow> assignable n ip"
  using net_ok_member [of key n ip]
  by (cases "gget (ni_Clients n) ip") (simp_all add: member_ok_def net_settings_def assignable_in_network Let_def)

text \<open>What identifies a client; every change of a client outside registration leaves it alone.\<close>

definition client_id :: "ClientInfo \<Rightarrow> string \<times> string \<times> string \<times> string \<times> string \<times> u32" where
  "client_id c = (cl_DeviceId c, cl_UserID c, cl_AuthGroup c, cl_NetworkKey c, cl_NetworkScope c, cl_VirtualIp c)"

lemma member_ok_same: "client_id c' = client_id c \<Longrightarrow> member_ok st ip c' = member_ok st ip c"
  by (cases st) (simp add: client_id_def member_ok_def Let_def)

lemma net_ok_replace:
  assumes "net_ok key n" and "gget (ni_Clients n) ip = Some c" and "client_id c' = client_id c"
  shows "net_ok key (UpsertClient ip c' n)"
proof -
  note m = net_ok_member [OF assms(1,2)]
  have "cl_DeviceId c' = cl_DeviceId c" using assms(3) by (simp add: client_id_def)
  moreover have "member_ok (net_settings n) ip c'" using m assms(3) by (metis member_ok_same)
  ultimately have "members_ok (UpsertClient ip c' n)"
    using gt.ok_replace [OF _ assms(2)] assms(1) by (simp add: net_ok_def)
  then show ?thesis using assms(1) by (simp add: net_ok_def)
qed


section \<open>Changes that keep the invariant\<close>

lemma all_networks:
  assumes "map fst ns' = map fst ns" and "list_all2 (\<lambda>(_, n) (_, n'). R n n') ns ns'"
    and "\<forall>(key, n) \<in> set ns. net_ok key n" and "\<And>key n n'. R n n' \<Longrightarrow> net_ok key n \<Longrightarrow> net_ok key n'"
  shows "\<forall>(key, n) \<in> set ns'. net_ok key n"
  using assms(2,1,3)
proof (induction rule: list_all2_induct)
  case (Cons x xs y ys)
  obtain key n n' where xy: "x = (key, n)" "y = (key, n')" using Cons.prems(1) by (cases x; cases y) auto
  have "net_ok key n'" by (rule assms(4)) (use Cons.hyps(1) Cons.prems(2) xy in auto)
  then show ?case using Cons.IH Cons.prems xy by simp
qed simp

lemma nc_okI: "gwf (networks nc) \<Longrightarrow> \<forall>(key, n) \<in> set (networks nc). net_ok key n \<Longrightarrow> nc_ok nc"
  by (simp add: nc_ok_def)

lemma left_network_ok:
  assumes left: "left_network now sel n n'" and ok: "net_ok key n"
  shows "net_ok key n'"
proof -
  have st: "net_settings n' = net_settings n"
    using left by (simp add: left_network_def same_settings_def net_settings_def)
  have "member_ok (net_settings n') ip c'" if "gget (ni_Clients n') ip = Some c'" for ip c'
  proof -
    have "gget (ni_Clients n') ip = map_option (offline_if now sel) (gget (ni_Clients n) ip)"
      using left by (simp add: left_network_def)
    with that obtain c where c: "gget (ni_Clients n) ip = Some c" "c' = offline_if now sel c"
      by (cases "gget (ni_Clients n) ip") auto
    moreover have "client_id (offline_if now sel c) = client_id c"
      by (simp add: offline_if_def mark_offline_def client_id_def)
    ultimately show ?thesis using net_ok_member [OF ok] member_ok_same st by metis
  qed
  then show ?thesis using left ok
    by (simp add: net_ok_def members_ok_def left_network_def same_settings_def)
qed

lemma nc_ok_offline:
  assumes "nc_ok nc"
  shows "nc_ok (nc_offline now sel addr nc)"
proof -
  obtain ns' s' where off: "offline_networks now sel addr (networks nc) (nc_IPSessions nc) = (ns', s')"
    by (cases "offline_networks now sel addr (networks nc) (nc_IPSessions nc)")
  then have ns: "networks (nc_offline now sel addr nc) = ns'"
    by (simp add: nc_offline_def networks_def with_networks_def)
  have "\<forall>(key, n) \<in> set (networks nc). net_wf n" using nc_ok_wf [OF assms] by (simp add: nc_wf_def)
  note sp = offline_networks_spec [OF this off]
  have "\<forall>(key, n) \<in> set ns'. net_ok key n"
  proof (rule all_networks)
    show "list_all2 (\<lambda>(_, n) (_, n'). \<exists>sel. left_network now sel n n') (networks nc) ns'"
      by (rule list.rel_mono_strong [OF conjunct2 [OF sp]]) auto
  qed (use sp assms left_network_ok in \<open>auto simp: nc_ok_def\<close>)
  then show ?thesis using sp assms ns by (auto intro: nc_okI simp: nc_ok_def gwf_def)
qed

lemma nc_ok_update_first:
  assumes ok: "nc_ok nc" and u: "update_first f (em_data (nc_VirtualNetwork nc)) = (r, ns')"
    and f: "\<And>key n n' x. f key n = Some (n', x) \<Longrightarrow> net_ok key n \<Longrightarrow> net_ok key n'"
  shows "nc_ok (with_networks nc ns')"
proof -
  have "(\<forall>(key, n) \<in> set ns'. net_ok key n) \<and> map fst ns' = map fst ns"
    if "\<forall>(key, n) \<in> set ns. net_ok key n" "update_first f ns = (r, ns')" for ns ns' r
    using that
  proof (induction ns arbitrary: ns' r)
    case (Cons x ns)
    obtain key n where x: "x = (key, n)" by (cases x)
    obtain r2 ns2 where u2: "update_first f ns = (r2, ns2)" by (cases "update_first f ns")
    show ?case
    proof (cases "f key n")
      case None
      then show ?thesis using Cons.IH [of r2 ns2] Cons.prems x u2 by auto
    next
      case (Some y)
      then show ?thesis using Cons.prems x f by (cases y) fastforce
    qed
  qed simp
  from this [OF _ u] ok show ?thesis by (auto simp: nc_ok_def networks_def with_networks_def gwf_def)
qed

text \<open>The updates of one client that \<^verbatim>\<open>Touch\<close> and the status reports make.\<close>

lemma update_client_ok:
  assumes "(if skip key then None else case gget (ni_Clients n) ip of None \<Rightarrow> None
      | Some c \<Rightarrow> Some (UpsertClient ip (g c) n, h n c)) = Some (n', x)"
    and "net_ok key n" and "\<And>c. client_id (g c) = client_id c"
  shows "net_ok key n'"
proof (cases "gget (ni_Clients n) ip")
  case (Some c)
  then have "n' = UpsertClient ip (g c) n" using assms(1) by (simp split: if_split_asm)
  then show ?thesis using net_ok_replace [OF assms(2) Some assms(3)] by simp
qed (use assms(1) in \<open>simp split: if_split_asm\<close>)

lemma nc_ok_fields [simp]:
  "nc_ok (nc\<lparr>nc_IPSessions := s\<rparr>) = nc_ok nc" "nc_ok (nc\<lparr>nc_CipherSessions := cs\<rparr>) = nc_ok nc"
  by (simp_all add: nc_ok_def networks_def)

lemma nc_ok_Leave: "nc_ok nc \<Longrightarrow> nc_ok (LeaveByRemoteAddr now remoteAddr nc)"
  by (cases remoteAddr) (simp_all add: LeaveByRemoteAddr_def nc_ok_offline)

lemma nc_ok_Touch:
  assumes "nc_ok nc"
  shows "nc_ok (snd (TouchClientByIPInNetwork now key srcIP nc))"
proof -
  let ?f = "\<lambda>key' network. if TrimSpace key \<noteq> [] \<and> key' \<noteq> key then None
      else case gget (ni_Clients network) (IpToUint32 srcIP) of None \<Rightarrow> None
        | Some client \<Rightarrow> Some (UpsertClient (IpToUint32 srcIP) (client\<lparr>cl_ControlOnline := True,
                            cl_ControlLastSeen := Unix now\<rparr>) network, ucast (ni_Epoch network) :: u16)"
  obtain r ns' where u: "update_first ?f (em_data (nc_VirtualNetwork nc)) = (r, ns')"
    by (cases "update_first ?f (em_data (nc_VirtualNetwork nc))")
  have "nc_ok (with_networks nc ns')"
    by (rule nc_ok_update_first [OF assms u], erule update_client_ok) (simp_all add: client_id_def)
  then show ?thesis using u by (simp add: TouchClientByIPInNetwork_def Let_def)
qed

lemma nc_ok_status:
  assumes "nc_ok nc"
  shows "nc_ok (snd (HandleClientStatusInfoPacketInNetwork now request decoded key nc))"
proof (cases decoded)
  case (Inr status)
  let ?ip = "IpToUint32 (pk_SrcIP request)"
  let ?f = "\<lambda>key' network. if TrimSpace key \<noteq> [] \<and> key' \<noteq> key then None
      else case gget (ni_Clients network) ?ip of None \<Rightarrow> None
      | Some client \<Rightarrow> Some (UpsertClient ?ip (applyStatus now status client) network, statusChanges status client)"
  obtain r ns' where u: "update_first ?f (em_data (nc_VirtualNetwork nc)) = (r, ns')"
    by (cases "update_first ?f (em_data (nc_VirtualNetwork nc))")
  have "nc_ok (with_networks nc ns')"
    by (rule nc_ok_update_first [OF assms u], erule update_client_ok)
      (simp_all add: client_id_def applyStatus_def Let_def)
  then show ?thesis using u assms Inr
    by (cases r) (simp_all add: HandleClientStatusInfoPacketInNetwork_def Let_def)
qed (simp add: HandleClientStatusInfoPacketInNetwork_def assms)

lemma nc_ok_control: "nc_ok nc \<Longrightarrow> nc_ok (snd (HandleControlPacketInNetwork now payload request key nc))"
  using nc_ok_Touch [of nc now key "pk_SrcIP request"]
  by (auto simp: HandleControlPacketInNetwork_def split: sum.split prod.split)


section \<open>Deleting and renaming devices\<close>

abbreviation remove_body where
  "remove_body networkKey sel \<equiv> \<lambda>(virtualIP, client) (n, sess :: (IpSessionKey, netAddr) ExpireMap, changed).
     if sel client
     then (DeleteClient virtualIP n, em_Delete (NewIpSessionKey networkKey virtualIP) sess, True)
     else (n, sess, changed)"

lemma remove_fold:
  assumes "distinct (map fst xs)" and "net_ok key n"
    and "fold (remove_body networkKey sel) xs (n, s, b) = (n', s', b')"
  shows "net_ok key n' \<and> ni_Epoch n' = ni_Epoch n \<and> (b' \<longleftrightarrow> b \<or> (\<exists>(ip, c) \<in> set xs. sel c)) \<and>
    (\<forall>ip. gget (ni_Clients n') ip =
      (case map_of xs ip of Some c \<Rightarrow> if sel c then None else gget (ni_Clients n) ip
       | None \<Rightarrow> gget (ni_Clients n) ip))"
  using assms
proof (induction xs arbitrary: n s b)
  case (Cons x xs)
  obtain ip c where x: "x = (ip, c)" by (cases x)
  have dist: "distinct (map fst xs)" using Cons.prems(1) by simp
  have fresh: "map_of xs ip = None" using Cons.prems(1) x by (simp add: map_of_eq_None_iff)
  show ?case
  proof (cases "sel c")
    case True
    from Cons.IH [OF dist net_ok_Delete [OF Cons.prems(2), of ip]] Cons.prems(3) x True fresh
    show ?thesis by (auto split: option.splits)
  next
    case False
    from Cons.IH [OF dist Cons.prems(2)] Cons.prems(3) x False fresh show ?thesis
      by (auto split: option.splits)
  qed
qed simp

definition removed_network :: "(ClientInfo \<Rightarrow> bool) \<Rightarrow> NetworkInfo \<Rightarrow> NetworkInfo \<Rightarrow> bool" where
  "removed_network sel n n' \<longleftrightarrow>
     (\<forall>key. net_ok key n \<longrightarrow> net_ok key n') \<and>
     (\<forall>ip. gget (ni_Clients n') ip =
        (case gget (ni_Clients n) ip of Some c \<Rightarrow> if sel c then None else Some c | None \<Rightarrow> None)) \<and>
     ni_Epoch n' = (if \<exists>ip c. gget (ni_Clients n) ip = Some c \<and> sel c then ni_Epoch n + 1 else ni_Epoch n)"

lemma removeClients_removed:
  assumes ok: "net_ok key n"
  shows "removed_network sel n (fst (removeClients networkKey sel n s))"
proof -
  have g: "gwf (ni_Clients n)" using net_ok_wf [OF ok] by (simp add: net_wf_def)
  obtain n1 s1 b1 where f: "fold (remove_body networkKey sel) (ni_Clients n) (n, s, False) = (n1, s1, b1)"
    by (cases "fold (remove_body networkKey sel) (ni_Clients n) (n, s, False)") auto
  have *: "net_ok k n1 \<and> ni_Epoch n1 = ni_Epoch n \<and> (b1 \<longleftrightarrow> False \<or> (\<exists>(ip, c) \<in> set (ni_Clients n). sel c)) \<and>
    (\<forall>ip. gget (ni_Clients n1) ip =
      (case map_of (ni_Clients n) ip of Some c \<Rightarrow> if sel c then None else gget (ni_Clients n) ip
       | None \<Rightarrow> gget (ni_Clients n) ip))" if "net_ok k n" for k
    by (rule remove_fold [OF _ that f]) (use g in \<open>simp add: gwf_def\<close>)
  note sp = * [OF ok]
  have l: "gget (ni_Clients n1) ip =
      (case gget (ni_Clients n) ip of Some c \<Rightarrow> if sel c then None else Some c | None \<Rightarrow> None)" for ip
    using sp by (cases "gget (ni_Clients n) ip") simp_all
  have b: "b1 \<longleftrightarrow> (\<exists>ip c. gget (ni_Clients n) ip = Some c \<and> sel c)"
    using sp by (auto simp: gget_iff [OF g])
  have r: "fst (removeClients networkKey sel n s) = (if b1 then n1\<lparr>ni_Epoch := ni_Epoch n1 + 1\<rparr> else n1)"
    using f by (simp add: removeClients_def)
  show ?thesis unfolding r removed_network_def
    using * sp l b by (cases b1) simp_all
qed

lemma removeFromNetworks_spec:
  assumes "\<forall>(key, n) \<in> set ns. net_ok key n" and "removeFromNetworks sel ns s = (ns', s')"
  shows "map fst ns' = map fst ns \<and> list_all2 (\<lambda>(_, n) (_, n'). removed_network (sel n) n n') ns ns'"
  using assms
proof (induction ns arbitrary: ns' s s')
  case (Cons x ns)
  obtain key n where x: "x = (key, n)" by (cases x)
  obtain n1 s1 where o: "removeClients key (sel n) n s = (n1, s1)" by (cases "removeClients key (sel n) n s")
  obtain r2 s2 where r: "removeFromNetworks sel ns s1 = (r2, s2)" by (cases "removeFromNetworks sel ns s1")
  have ok: "net_ok key n" using Cons.prems(1) x by simp
  have "removed_network (sel n) n n1" using removeClients_removed [OF ok, of "sel n" key s] o by simp
  then show ?case using Cons.IH [OF _ r] Cons.prems x o r by auto
qed simp

definition device_gone :: "UMAuthDevice list \<Rightarrow> NetworkInfo \<Rightarrow> ClientInfo \<Rightarrow> bool" where
  "device_gone records = (\<lambda>n client.
     authedDeviceKey (clientAuthGroup client (ni_Group n)) (cl_DeviceId client)
       \<in> (\<lambda>r. authedDeviceKey (ad_GroupName r) (ad_DeviceID r)) ` set records)"

lemma removeRuntime_spec:
  assumes "nc_ok nc"
  shows "nc_ok (removeAuthedDeviceRuntimeState records nc)"
    and "gget (networks nc) key = Some n \<Longrightarrow>
      \<exists>n'. gget (networks (removeAuthedDeviceRuntimeState records nc)) key = Some n' \<and>
        removed_network (device_gone records n) n n'"
proof -
  let ?sel = "device_gone records"
  obtain ns' s' where rm: "removeFromNetworks ?sel (networks nc) (nc_IPSessions nc) = (ns', s')"
    by (cases "removeFromNetworks ?sel (networks nc) (nc_IPSessions nc)")
  have "\<forall>(key, n) \<in> set (networks nc). net_ok key n" using assms by (simp add: nc_ok_def)
  note sp = removeFromNetworks_spec [OF this rm]
  have idle: "removed_network (device_gone [] n) n n" for n
    by (auto simp: removed_network_def device_gone_def split: option.split)
  have ns: "networks (removeAuthedDeviceRuntimeState records nc) = (if records = [] then networks nc else ns')"
    using rm
    by (simp add: removeAuthedDeviceRuntimeState_def networks_def with_networks_def device_gone_def [symmetric] Let_def)
  have "\<forall>(key, n) \<in> set ns'. net_ok key n"
  proof (rule all_networks)
    show "list_all2 (\<lambda>(_, n) (_, n'). removed_network (device_gone records n) n n') (networks nc) ns'"
      using sp by blast
  qed (use sp assms in \<open>simp_all add: nc_ok_def removed_network_def\<close>)
  then show "nc_ok (removeAuthedDeviceRuntimeState records nc)"
    using sp assms ns by (intro nc_okI) (auto simp: nc_ok_def gwf_def)
  show "\<exists>n'. gget (networks (removeAuthedDeviceRuntimeState records nc)) key = Some n' \<and>
      removed_network (device_gone records n) n n'" if g: "gget (networks nc) key = Some n"
  proof (cases "records = []")
    case True
    then show ?thesis using g ns idle by simp
  next
    case False
    have "\<exists>n'. gget ns' key = Some n' \<and> removed_network (device_gone records n) n n'"
      by (rule gget_list_all2 [OF conjunct1 [OF sp] _ g]) (use sp in simp)
    then show ?thesis using ns False by simp
  qed
qed


lemma nc_ok_rename:
  assumes "nc_ok nc"
  shows "nc_ok (updateAuthedDeviceRuntimeName r nc)"
proof -
  have keep: "net_ok key (renameClients r name n)" if ok: "net_ok key n" for key n name
  proof -
    let ?P = "\<lambda>(m, b :: bool). net_ok key m \<and> (\<forall>(ip, c) \<in> set (ni_Clients n).
        \<exists>c'. gget (ni_Clients m) ip = Some c' \<and> client_id c' = client_id c)"
    let ?f = "\<lambda>(virtualIP, client) (m, changed).
        if clientAuthGroup client (ni_Group n) = ad_GroupName r \<and> cl_DeviceId client = ad_DeviceID r \<and>
           cl_Name client \<noteq> name
        then (UpsertClient virtualIP (client\<lparr>cl_Name := name\<rparr>) m, True) else (m, changed)"
    have g: "gwf (ni_Clients n)" using net_ok_wf [OF ok] by (simp add: net_wf_def)
    have "?P (fold ?f (ni_Clients n) (n, False))"
    proof (rule fold_invariant [where Q = "\<lambda>x. x \<in> set (ni_Clients n)"])
      show "?P (n, False)" using ok by (auto simp: gget_iff [OF g])
      fix x and s :: "NetworkInfo \<times> bool"
      assume x: "x \<in> set (ni_Clients n)" and P: "?P s"
      obtain ip c m b where xs: "x = (ip, c)" "s = (m, b)" by (cases x; cases s)
      obtain c' where c': "gget (ni_Clients m) ip = Some c'" "client_id c' = client_id c" using P x xs by auto
      have id: "client_id (c\<lparr>cl_Name := name\<rparr>) = client_id c" by (simp add: client_id_def)
      have "net_ok key (UpsertClient ip (c\<lparr>cl_Name := name\<rparr>) m)"
        by (rule net_ok_replace [OF _ c'(1)]) (use P xs c'(2) id in simp_all)
      moreover have "c'' = c" if "(ip, c'') \<in> set (ni_Clients n)" for c''
        using that x xs g by (metis gget_iff option.inject)
      ultimately have "?P (UpsertClient ip (c\<lparr>cl_Name := name\<rparr>) m, True)" using P xs id by auto
      then show "?P (?f x s)" using P xs by simp
    qed
    then show ?thesis by (auto simp: renameClients_def split: prod.splits)
  qed
  show ?thesis
    using assms keep
    by (auto simp: updateAuthedDeviceRuntimeName_def Let_def nc_ok_def networks_def with_networks_def gmapv_def
        intro: gwf_gmapv [unfolded gmapv_def])
qed

section \<open>Joining\<close>

lemma proper_network_mask:
  assumes "proper_network gw m"
  shows "NOT (MaskToUint32 m) \<noteq> 0" and "\<exists>b. To4 gw = Some b" and "in_network gw m ip \<Longrightarrow> ip \<noteq> 0"
proof -
  obtain k where k: "1 \<le> k" "k \<le> 31" "MaskToUint32 m = NOT (mask k)" using assms by (auto simp: proper_network_def)
  have bit0: "\<not> bit (MaskToUint32 m) 0" using k by (simp add: bit_not_iff bit_mask_iff)
  have "bit (NOT (MaskToUint32 m)) 0" using bit0 by (simp add: bit_not_iff)
  then show "NOT (MaskToUint32 m) \<noteq> 0" by auto
  show "\<exists>b. To4 gw = Some b" using assms by (auto simp: proper_network_def)
  assume i: "in_network gw m ip"
  have "networkIP (IpToUint32 gw) (MaskToUint32 m) \<noteq> - 1"
  proof
    assume "networkIP (IpToUint32 gw) (MaskToUint32 m) = - 1"
    then have "bit (IpToUint32 gw AND MaskToUint32 m) 0" by (simp add: networkIP_def)
    with bit0 show False by (simp add: bit_and_iff)
  qed
  then have "firstIP (IpToUint32 gw) (MaskToUint32 m) \<noteq> 0" by (simp add: firstIP_def eq_neg_iff_add_eq_0)
  then show "ip \<noteq> 0" using i by (auto simp: in_network_def)
qed


text \<open>
  What a successful join does to its network: the device holds one address, inside the network; every other
  client that is online keeps its own.
\<close>

definition joined :: "NetworkInfo \<Rightarrow> string \<Rightarrow> u32 \<Rightarrow> ClientInfo \<Rightarrow> NetworkInfo \<Rightarrow> bool" where
  "joined n dev ip c n' \<longleftrightarrow> same_settings n n' \<and> ni_Epoch n' = ni_Epoch n + 1 \<and>
     in_network (ni_Gateway n) (ni_Netmask n) ip \<and> gget (ni_Clients n') ip = Some c \<and>
     (\<forall>ip' c'. gget (ni_Clients n') ip' = Some c' \<and> cl_DeviceId c' = dev \<longrightarrow> ip' = ip) \<and>
     (\<forall>ip' c'. gget (ni_Clients n) ip' = Some c' \<and> cl_DeviceId c' \<noteq> dev \<and> cl_ControlOnline c' \<longrightarrow>
        gget (ni_Clients n') ip' = Some c') \<and>
     (\<forall>ip' c'. gget (ni_Clients n') ip' = Some c' \<and> ip' \<noteq> ip \<longrightarrow> gget (ni_Clients n) ip' = Some c')"

lemma pruned_client:
  assumes "pruned n n1"
  shows "gget (ni_Clients n1) ip = Some c \<Longrightarrow> gget (ni_Clients n) ip = Some c"
    and "gget (ni_Clients n) ip = Some c \<Longrightarrow> cl_ControlOnline c \<Longrightarrow> gget (ni_Clients n1) ip = Some c"
  using assms by (auto simp: pruned_def dest!: spec [of _ ip])

lemma pruned_ok:
  assumes "pruned n n1" and "net_ok key n"
  shows "net_ok key n1"
  using assms pruned_client(1) [OF assms(1)]
  by (auto simp: net_ok_def members_ok_def net_settings_def pruned_def)

lemma give_up_address:
  assumes p: "pruned n n1" and wf: "net_wf n" and old: "old = FindClientIPByDeviceID n dev"
  shows "(if old \<noteq> 0 \<and> old \<noteq> ip then DeleteClient old n1 else n1) =
    (let a = FindClientIPByDeviceID n1 dev in if a \<noteq> 0 \<and> a \<noteq> ip then DeleteClient a n1 else n1)"
proof (cases "FindClientIPByDeviceID n1 dev = 0")
  case False
  have wf1: "net_wf n1" using p by (simp add: pruned_def)
  obtain c where c: "gget (ni_Clients n1) (FindClientIPByDeviceID n1 dev) = Some c" "cl_DeviceId c = dev" "dev \<noteq> []"
    using Find_iff [OF wf1 False, of dev] by auto
  then have "FindClientIPByDeviceID n dev = FindClientIPByDeviceID n1 dev"
    using Find_iff [OF wf False] pruned_client(1) [OF p c(1)] by blast
  then show ?thesis using old by (simp add: Let_def)
next
  case True
  have "gget (ni_Clients n1) old = None" if "old \<noteq> 0"
  proof (rule ccontr)
    assume "gget (ni_Clients n1) old \<noteq> None"
    then obtain c where c: "gget (ni_Clients n1) old = Some c" by blast
    have "cl_DeviceId c = dev \<and> dev \<noteq> []"
      using Find_iff [OF wf that, of dev] old pruned_client(1) [OF p c] by auto
    then have "FindClientIPByDeviceID n1 dev = old"
      using Find_iff [OF _ that, of n1] p c by (auto simp: pruned_def)
    with True that show False by simp
  qed
  then show ?thesis using True by (auto simp: DeleteClient_def)
qed

lemma joinedClient_fields [simp]:
  "cl_DeviceId (joinedClient now i reg r caps addr ip c) = rq_DeviceId reg"
  "cl_UserID (joinedClient now i reg r caps addr ip c) = ad_UserID r"
  "cl_AuthGroup (joinedClient now i reg r caps addr ip c) = rq_Token reg"
  "cl_NetworkKey (joinedClient now i reg r caps addr ip c) = id_key i"
  "cl_NetworkScope (joinedClient now i reg r caps addr ip c) = id_scope i"
  "cl_VirtualIp (joinedClient now i reg r caps addr ip c) = ip"
  "cl_ControlOnline (joinedClient now i reg r caps addr ip c)"
  "cl_Address (joinedClient now i reg r caps addr ip c) = Some addr"
  "cl_DevicePubKey (joinedClient now i reg r caps addr ip c) = rq_DevicePubKey reg"
  by (simp_all add: joinedClient_def)

text \<open>
  The address of the device before, if it has another one, is given up; then the client is put at its address. What that does
  to a network in which no other device is at this address:
\<close>

definition moved :: "NetworkInfo \<Rightarrow> u32 \<Rightarrow> ClientInfo \<Rightarrow> NetworkInfo" where
  "moved n ip c = UpsertClient ip c
     (let a = FindClientIPByDeviceID n (cl_DeviceId c) in if a \<noteq> 0 \<and> a \<noteq> ip then DeleteClient a n else n)"

lemma moved_fields:
  "ni_Group (moved n ip c) = ni_Group n" "ni_Gateway (moved n ip c) = ni_Gateway n" "ni_Netmask (moved n ip c) = ni_Netmask n"
  "ni_ReservedIPs (moved n ip c) = ni_ReservedIPs n" "ni_Epoch (moved n ip c) = ni_Epoch n"
  by (simp_all add: moved_def Let_def)

lemma moved_client:
  assumes wf: "net_wf n" and "ip \<noteq> 0" and "cl_DeviceId c \<noteq> []"
  shows "gget (ni_Clients (moved n ip c)) ip = Some c"
    and "gget (ni_Clients (moved n ip c)) ip' = Some c' \<Longrightarrow> cl_DeviceId c' = cl_DeviceId c \<Longrightarrow> ip' = ip"
    and "gget (ni_Clients (moved n ip c)) ip' = Some c' \<Longrightarrow> ip' \<noteq> ip \<Longrightarrow> gget (ni_Clients n) ip' = Some c'"
    and "gget (ni_Clients n) ip' = Some c' \<Longrightarrow> ip' \<noteq> ip \<Longrightarrow> cl_DeviceId c' \<noteq> cl_DeviceId c \<Longrightarrow>
      gget (ni_Clients (moved n ip c)) ip' = Some c'"
proof -
  let ?a = "FindClientIPByDeviceID n (cl_DeviceId c)"
  show "gget (ni_Clients (moved n ip c)) ip = Some c" by (simp add: moved_def)
  show "ip' = ip" if "gget (ni_Clients (moved n ip c)) ip' = Some c'" "cl_DeviceId c' = cl_DeviceId c"
    by (rule tbl.move_device(3) [OF wf assms(2,3) refl refl _ that(2)]) (use that(1) in \<open>simp add: moved_def Let_def\<close>)
  show "gget (ni_Clients n) ip' = Some c'" if "gget (ni_Clients (moved n ip c)) ip' = Some c'" "ip' \<noteq> ip"
    using that by (simp add: moved_def Let_def split: if_split_asm)
  show "gget (ni_Clients (moved n ip c)) ip' = Some c'"
    if at: "gget (ni_Clients n) ip' = Some c'" and "ip' \<noteq> ip" and d: "cl_DeviceId c' \<noteq> cl_DeviceId c"
  proof -
    have "ip' \<noteq> ?a" if "?a \<noteq> 0" using Find_iff [OF wf that, of "cl_DeviceId c"] at d by auto
    then show ?thesis using at \<open>ip' \<noteq> ip\<close> by (simp add: moved_def Let_def)
  qed
qed

lemma placeClient_moved:
  assumes p: "pruned n n1" and wf: "net_wf n" and old: "old = FindClientIPByDeviceID n (rq_DeviceId reg)"
    and pl: "placeClient now identity reg r caps addr ip old (n1, s) = (n2, s2)"
  shows "\<exists>c. n2 = (moved n1 ip (joinedClient now identity reg r caps addr ip c))\<lparr>ni_Epoch := ni_Epoch n + 1\<rparr>"
proof -
  let ?a = "FindClientIPByDeviceID n1 (rq_DeviceId reg)"
  let ?d = "if ?a \<noteq> 0 \<and> ?a \<noteq> ip then DeleteClient ?a n1 else n1"
  have d: "(if old \<noteq> 0 \<and> old \<noteq> ip then DeleteClient old n1 else n1) = ?d"
    using give_up_address [OF p wf old] by (simp add: Let_def)
  have "fst (placeClient now identity reg r caps addr ip old (n1, s)) =
      (let m = (if old \<noteq> 0 \<and> old \<noteq> ip then DeleteClient old n1 else n1) in
       (UpsertClient ip (joinedClient now identity reg r caps addr ip
          (case gget (ni_Clients m) ip of Some c \<Rightarrow> c | None \<Rightarrow> zero_ClientInfo)) m)\<lparr>ni_Epoch := ni_Epoch m + 1\<rparr>)"
    by (simp add: placeClient_def Let_def)
  moreover have "ni_Epoch ?d = ni_Epoch n" using p by (simp add: pruned_def)
  ultimately show ?thesis unfolding d pl Let_def moved_def by auto
qed

lemma placeClient_joined:
  assumes ok: "net_ok (id_key identity) n" and a: "assigned_ok n (rq_DeviceId reg) (Inr (ip, old)) n1"
    and i: "identity = NewNetworkIdentity (rq_Token reg) (ad_UserID r)"
    and dev: "rq_DeviceId reg \<noteq> []" "CHR ''@'' \<notin> set (rq_Token reg)"
    and pl: "placeClient now identity reg r caps addr ip old (n1, s) = (n2, s2)"
  shows "net_ok (id_key identity) n2"
    and "\<exists>c. joined n (rq_DeviceId reg) ip (joinedClient now identity reg r caps addr ip c) n2"
proof -
  have p: "pruned n n1" and asg: "assignable n ip" and old: "old = FindClientIPByDeviceID n (rq_DeviceId reg)"
    using a by (simp_all add: assigned_ok_def)
  have ok1: "net_ok (id_key identity) n1" by (rule pruned_ok [OF p ok])
  obtain c where n2: "n2 = (moved n1 ip (joinedClient now identity reg r caps addr ip c))\<lparr>ni_Epoch := ni_Epoch n + 1\<rparr>"
    using placeClient_moved [OF p net_ok_wf [OF ok] old pl] by blast
  let ?c = "joinedClient now identity reg r caps addr ip c"
  have inn: "in_network (ni_Gateway n) (ni_Netmask n) ip" using asg by (simp add: assignable_in_network)
  then have nz: "ip \<noteq> 0" using proper_network_mask(3) ok by (auto simp: net_ok_def)
  have st: "net_settings n1 = (id_key identity, ni_Gateway n, ni_Netmask n)"
    using p ok by (simp add: net_settings_def pruned_def net_ok_def)
  have m: "member_ok (net_settings n1) ip ?c" using inn dev i by (simp add: st member_ok_def Let_def)
  have "members_ok (moved n1 ip ?c)"
    unfolding moved_def Let_def by (rule gt.ok_place [OF _ nz]) (use ok1 dev m in \<open>simp_all add: net_ok_def\<close>)
  moreover have settings: "ni_Group (moved n1 ip ?c) = ni_Group n" "ni_Gateway (moved n1 ip ?c) = ni_Gateway n"
    "ni_Netmask (moved n1 ip ?c) = ni_Netmask n" "ni_ReservedIPs (moved n1 ip ?c) = ni_ReservedIPs n"
    using p by (simp_all add: pruned_def moved_fields)
  ultimately show "net_ok (id_key identity) n2"
    using ok n2 by (simp add: net_ok_def members_ok_def net_wf_def net_settings_def)
  have d: "cl_DeviceId ?c \<noteq> []" "cl_DeviceId ?c = rq_DeviceId reg" using dev by simp_all
  note moved = moved_client [OF net_ok_wf [OF ok1] nz d(1), unfolded d(2)]
  have keep: "gget (ni_Clients (moved n1 ip ?c)) ip' = Some c'"
    if "gget (ni_Clients n) ip' = Some c'" "cl_DeviceId c' \<noteq> rq_DeviceId reg" "cl_ControlOnline c'" for ip' c'
  proof -
    have at: "gget (ni_Clients n1) ip' = Some c'" by (rule pruned_client(2) [OF p that(1,3)])
    moreover have "ip' \<noteq> ip" using a at that(2) by (auto simp: assigned_ok_def)
    ultimately show ?thesis using moved(4) that(2) by blast
  qed
  have cl: "ni_Clients n2 = ni_Clients (moved n1 ip ?c)" and "ni_Epoch n2 = ni_Epoch n + 1" and "same_settings n n2"
    using settings by (simp_all add: n2 same_settings_def)
  then have "joined n (rq_DeviceId reg) ip ?c n2"
    unfolding joined_def cl using inn moved(1-3) keep pruned_client(1) [OF p] by blast
  then show "\<exists>c. joined n (rq_DeviceId reg) ip (joinedClient now identity reg r caps addr ip c) n2" by blast
qed


lemma networks_setNetwork [simp]: "networks (setNetwork key n nc) = gput key n (networks nc)"
  by (simp add: setNetwork_def networks_def with_networks_def)

lemma networks_fields [simp]:
  "networks (nc\<lparr>nc_IPSessions := s\<rparr>) = networks nc" "networks (TouchCipherSession now addr nc) = networks nc"
  by (simp_all add: networks_def TouchCipherSession_def split: option.split)

lemma nc_ok_set:
  assumes "nc_ok nc" and "net_ok key n" and "networks nc' = gput key n (networks nc)"
  shows "nc_ok nc'"
proof (rule nc_okI)
  show g: "gwf (networks nc')" using assms by (simp add: nc_ok_def gwf_put)
  show "\<forall>(k, m) \<in> set (networks nc'). net_ok k m"
  proof clarify
    fix k m assume "(k, m) \<in> set (networks nc')"
    then have "gget (networks nc') k = Some m" using gget_iff [OF g] by blast
    then show "net_ok k m" using assms nc_ok_get by (auto split: if_split_asm)
  qed
qed

definition network_or_new ::
    "string \<Rightarrow> netIP \<Rightarrow> netMask \<Rightarrow> (u32, string) gomap \<Rightarrow> NetworkControl \<Rightarrow> NetworkInfo" where
  "network_or_new key gateway netmask reserved nc =
     (case gget (networks nc) key of Some n \<Rightarrow> n | None \<Rightarrow> NewNetworkInfo key netmask gateway reserved)"

lemma network_or_new_ok:
  assumes "nc_ok nc" and "proper_network gateway netmask"
  shows "net_ok key (network_or_new key gateway netmask reserved nc)"
proof -
  have "net_ok key (NewNetworkInfo key netmask gateway reserved)"
    using assms(2) net_wf_New [of key netmask gateway reserved]
    by (simp add: net_ok_def members_ok_def) (simp add: NewNetworkInfo_def)
  then show ?thesis using nc_ok_get [OF assms(1)] by (simp add: network_or_new_def split: option.split)
qed

lemma joinNetwork_returns:
  assumes ok: "nc_ok nc" and pn: "proper_network gateway netmask"
    and i: "identity = NewNetworkIdentity (rq_Token reg) (ad_UserID r)"
    and dev: "rq_DeviceId reg \<noteq> []" "CHR ''@'' \<notin> set (rq_Token reg)"
    and n_def: "n = network_or_new (id_key identity) gateway netmask reserved nc"
  shows "\<exists>res nc'. joinNetwork now identity gateway netmask reserved reg r caps addr nc = Some (res, nc') \<and>
    nc_ok nc' \<and> (\<forall>k. k \<noteq> id_key identity \<longrightarrow> gget (networks nc') k = gget (networks nc) k) \<and>
    (case res of Inl e \<Rightarrow> \<exists>n'. gget (networks nc') (id_key identity) = Some n' \<and> pruned n n'
     | Inr (ip, n') \<Rightarrow> gget (networks nc') (id_key identity) = Some n' \<and>
         (\<exists>c. joined n (rq_DeviceId reg) ip (joinedClient now identity reg r caps addr ip c) n'))"
proof -
  let ?key = "id_key identity"
  have nok: "net_ok ?key n" unfolding n_def by (rule network_or_new_ok [OF ok pn])
  have msk: "NOT (MaskToUint32 (ni_Netmask n)) \<noteq> 0" and gw: "\<exists>b. To4 (ni_Gateway n) = Some b"
    using proper_network_mask nok by (auto simp: net_ok_def)
  obtain res n1 s1 where gen: "generateIP now n (nc_IPSessions nc) (rq_VirtualIp reg) (rq_DeviceId reg)
      (rq_AllowIpChange reg) = Some (res, n1, s1)" and a: "assigned_ok n (rq_DeviceId reg) res n1"
    using generateIP_returns [OF net_ok_wf [OF nok] msk] gw net_ok_held [OF nok] by metis
  have n: "(case gget (em_data (nc_VirtualNetwork nc)) ?key of Some n \<Rightarrow> n
      | None \<Rightarrow> NewNetworkInfo ?key netmask gateway reserved) = n"
    by (simp add: n_def network_or_new_def networks_def)
  show ?thesis
  proof (cases res)
    case (Inl e)
    let ?nc = "(setNetwork ?key n1 nc)\<lparr>nc_IPSessions := s1\<rparr>"
    have p: "pruned n n1" using a by (simp add: assigned_ok_def)
    have "nc_ok ?nc" by (rule nc_ok_set [OF ok pruned_ok [OF p nok]]) simp
    then show ?thesis using gen Inl p n by (simp add: joinNetwork_def Let_def)
  next
    case (Inr b)
    obtain ip old where b: "b = (ip, old)" by (cases b)
    obtain n2 s2 where pl: "placeClient now identity reg r caps addr ip old (n1, s1) = (n2, s2)"
      by (cases "placeClient now identity reg r caps addr ip old (n1, s1)")
    note j = placeClient_joined [OF nok a [unfolded Inr b] i dev pl]
    let ?nc = "TouchCipherSession now (Some addr) ((setNetwork ?key n2 nc)\<lparr>nc_IPSessions := s2\<rparr>)"
    have "nc_ok ?nc" by (rule nc_ok_set [OF ok j(1)]) simp
    then show ?thesis using gen Inr b pl j(2) n by (simp add: joinNetwork_def Let_def)
  qed
qed


section \<open>Names of groups\<close>

lemma at_TrimSpace: "CHR ''@'' \<in> set (TrimSpace s) \<longleftrightarrow> CHR ''@'' \<in> set s"
proof
  have "\<forall>t \<in> set space_seqs. CHR ''@'' \<notin> set t" by code_simp
  then show "CHR ''@'' \<in> set s \<Longrightarrow> CHR ''@'' \<in> set (TrimSpace s)"
    by (simp add: TrimSpace_keeps)
  assume "CHR ''@'' \<in> set (TrimSpace s)"
  then show "CHR ''@'' \<in> set s"
    using set_mono_suffix [OF strip_tokens_suffix] unfolding TrimSpace_def by (metis set_rev subsetD)
qed

lemma at_split: "c \<in> set s \<Longrightarrow> c \<noteq> sep \<Longrightarrow> \<exists>p \<in> set (split_char sep s). c \<in> set p"
  by (induction s) (auto split: list.split)

lemma in_butlast_or_last: "x \<in> set xs \<Longrightarrow> x \<in> set (butlast xs) \<or> x = last xs"
  by (induction xs) auto

lemma domainRe_no_at:
  assumes "domainRe d"
  shows "CHR ''@'' \<notin> set d"
proof
  assume "CHR ''@'' \<in> set d"
  then obtain p where p: "p \<in> set (split_char (CHR ''.'') d)" "CHR ''@'' \<in> set p"
    using at_split [of "CHR ''@''" d "CHR ''.''"] by auto
  have no: "\<not> is_label_char (CHR ''@'')" "\<not> is_letter (CHR ''@'')" by code_simp+
  have "p \<in> set (butlast (split_char (CHR ''.'') d)) \<or> p = last (split_char (CHR ''.'') d)"
    by (rule in_butlast_or_last [OF p(1)])
  then show False using assms p(2) no by (auto simp: domainRe_def Let_def list_all_iff)
qed

lemma groupRe_no_at: "groupRe g \<Longrightarrow> CHR ''@'' \<notin> set g"
proof -
  have "\<not> is_label_char (CHR ''@'')" by code_simp
  then show "groupRe g \<Longrightarrow> CHR ''@'' \<notin> set g" by (auto simp: groupRe_def list_all_iff)
qed

lemma HasSuffix_best:
  assumes "bestDomain t domains \<noteq> []"
  shows "HasSuffix t (''.'' @ bestDomain t domains)"
proof -
  have "bestDomain t domains = [] \<or> HasSuffix t (''.'' @ bestDomain t domains)"
    unfolding bestDomain_def
    by (rule fold_invariant [where Q = "\<lambda>_. True" and P = "\<lambda>b. b = [] \<or> HasSuffix t (''.'' @ b)"])
      (auto simp only: split: prod.split if_split)
  then show ?thesis using assms by blast
qed

text \<open>A group that the configuration resolves has no at sign.\<close>

lemma resolved_group_no_at:
  assumes "Validate c = (None, c')" and r: "resolveGroupNetworkConfig c' t = Inr x"
  shows "CHR ''@'' \<notin> set t"
  using assms(1)
proof (cases rule: Validate_cases)
  case domains
  obtain d g where dg: "matchDomainAndGroup t (cf_Domains c') = Some (d, g)"
    using r domains(1) by (cases "matchDomainAndGroup t (cf_Domains c')") (auto simp: resolveGroupNetworkConfig_def)
  obtain gc where "domainGroup c' d g = Some gc"
    using r domains(1) dg by (cases "domainGroup c' d g") (auto simp: resolveGroupNetworkConfig_def)
  then obtain dc where dc: "gget (cf_Domains c') d = Some dc" "gget (dc_Groups dc) g = Some gc"
    by (auto simp: domainGroup_def bind_eq_Some_conv)
  have at: "CHR ''@'' \<notin> set d" "CHR ''@'' \<notin> set g"
    using validated_domain [OF domains(2)] dc gget_Some_in domainRe_no_at groupRe_no_at by metis+
  have d: "d = bestDomain t (cf_Domains c')" "d \<noteq> []" "g = TrimSpace (TrimSuffix t (''.'' @ d))"
    using dg by (auto simp: matchDomainAndGroup_def Let_def split: if_splits)
  then have "suffix (''.'' @ d) t" using HasSuffix_best [of t "cf_Domains c'"] by (simp add: HasSuffix_def)
  then obtain p where p: "t = p @ ''.'' @ d" by (auto simp: suffix_def)
  then have "TrimSpace p = g" using d(3) by (simp add: TrimSuffix_def suffix_def)
  then have "CHR ''@'' \<notin> set p" using at(2) at_TrimSpace by metis
  then show ?thesis using p at(1) by simp
next
  case single
  then have "domainRe (cf_Domain c')" by (simp add: validateSingle_def checks_None)
  moreover have "t = cf_Domain c'"
    using r single domainRe_not_Nil [OF calculation] by (auto simp: resolveGroupNetworkConfig_def split: if_splits)
  ultimately show ?thesis using domainRe_no_at by simp
next
  case groups
  obtain gc where "gget (cf_Groups c') t = Some gc"
    using r groups(1,2) by (cases "gget (cf_Groups c') t") (auto simp: resolveGroupNetworkConfig_def)
  then have "domainRe t" using groups(3) gget_Some_in
    by (fastforce simp: validateGroups_def checks_None firstError_None)
  then show ?thesis by (rule domainRe_no_at)
qed


section \<open>Registration\<close>

lemma Assign_returns:
  "\<exists>res m'. AssignAuthedDeviceDisplayName store g d name m = Some (res, m') \<and>
     (\<forall>r. res = Inr r \<longrightarrow> (\<exists>r0. GetAuthedDevice g d m = Some r0 \<and> ad_UserID r = ad_UserID r0))"
proof (cases "normalizeRenameName name")
  case (Inr n)
  show ?thesis
  proof (cases "gget (um_authedDevices m) (authedDeviceKey g d)")
    case (Some r0)
    obtain x where x: "uniqueDisplayNameLocked r0 n m = Some x" using uniqueDisplayName_returns by blast
    let ?r = "r0\<lparr>ad_DisplayName := x\<rparr>"
    let ?m = "m\<lparr>um_authedDevices := gput (authedDeviceKey g d) ?r (um_authedDevices m)\<rparr>"
    have "AssignAuthedDeviceDisplayName store g d name m =
        Some (if TrimSpace (ad_DisplayName r0) \<noteq> [] then (Inr r0, m) else saved store ?r ?m)"
      using Inr Some x by (simp add: AssignAuthedDeviceDisplayName_def Let_def)
    moreover have "\<exists>res. saved store ?r ?m = (res, ?m) \<and> (\<forall>r. res = Inr r \<longrightarrow> r = ?r)"
      by (cases "saveLocked store ?m") (simp_all add: saved_def)
    ultimately show ?thesis using Some by (auto simp: GetAuthedDevice_def)
  qed (simp add: AssignAuthedDeviceDisplayName_def Inr Let_def)
qed (simp add: AssignAuthedDeviceDisplayName_def)

lemma ensureDisplayName_returns:
  assumes "GetAuthedDevice (rq_Token reg) (rq_DeviceId reg) (ct_um ct) = Some r0"
  shows "\<exists>res ct1. ensureDisplayName env reg r0 ct = Some (res, ct1) \<and> ct_nc ct1 = ct_nc ct \<and>
     (\<forall>r. res = Inr r \<longrightarrow> ad_UserID r0 = ad_UserID r)"
proof (cases "TrimSpace (ad_DisplayName r0) = []")
  case True
  from Assign_returns [of "ce_UMStore env" "rq_Token reg" "rq_DeviceId reg" "TrimSpace (rq_Name reg)" "ct_um ct"]
  obtain res m' where a: "AssignAuthedDeviceDisplayName (ce_UMStore env) (rq_Token reg) (rq_DeviceId reg)
      (TrimSpace (rq_Name reg)) (ct_um ct) = Some (res, m')"
    and u: "\<forall>r. res = Inr r \<longrightarrow>
      (\<exists>r1. GetAuthedDevice (rq_Token reg) (rq_DeviceId reg) (ct_um ct) = Some r1 \<and> ad_UserID r = ad_UserID r1)"
    by (elim exE conjE, intro that)
  have "\<forall>r. res = Inr r \<longrightarrow> ad_UserID r0 = ad_UserID r" using u assms by (metis option.inject)
  moreover have "ensureDisplayName env reg r0 ct = Some (res, ct\<lparr>ct_um := m'\<rparr>)"
    using True a by (simp add: ensureDisplayName_def)
  ultimately show ?thesis by force
qed (simp add: ensureDisplayName_def)

text \<open>The checks of a registration: they end, and they pass only for a device whose record and key are valid.\<close>

definition authorized :: "control_env \<Rightarrow> gtime \<Rightarrow> RegistrationRequest \<Rightarrow> Controller \<Rightarrow> UMAuthDevice \<Rightarrow> bool" where
  "authorized env now reg ct r0 \<longleftrightarrow> validateRegistrationRequest reg = None \<and>
     CheckAuthedDevice (ce_sha256 env) now (rq_Token reg) (rq_DeviceId reg) (rq_DevicePubKey reg) (ct_um ct) = None \<and>
     GetAuthedDevice (rq_Token reg) (rq_DeviceId reg) (ct_um ct) = Some r0"

lemma authorize_returns:
  "\<exists>res ct1. authorizeRegistration env now reg ct = Some (res, ct1) \<and>
     (case res of
        Inl e \<Rightarrow> ct_nc ct1 = ct_nc ct \<or>
          ct_nc ct1 = clearStaleClientStateByDeviceID now (rq_Token reg) (rq_DeviceId reg) (ct_nc ct)
      | Inr (r, gw, m) \<Rightarrow> ct_nc ct1 = ct_nc ct \<and>
          resolveGroupNetworkConfig (ce_cfg env) (rq_Token reg) = Inr (gw, m) \<and>
          (\<exists>r0. authorized env now reg ct r0 \<and> ad_UserID r = ad_UserID r0))"
proof (cases "validateRegistrationRequest reg")
  case v: None
  show ?thesis
  proof (cases "resolveGroupNetworkConfig (ce_cfg env) (rq_Token reg)")
    case res: (Inr gm)
    obtain gw m where gm: "gm = (gw, m)" by (cases gm)
    show ?thesis
    proof (cases "CheckAuthedDevice (ce_sha256 env) now (rq_Token reg) (rq_DeviceId reg) (rq_DevicePubKey reg) (ct_um ct)")
      case ch: None
      then obtain r0 where r0: "GetAuthedDevice (rq_Token reg) (rq_DeviceId reg) (ct_um ct) = Some r0"
        by (auto simp: CheckAuthedDevice_def GetAuthedDevice_def split: option.splits)
      obtain rs ct1 where e: "ensureDisplayName env reg r0 ct = Some (rs, ct1)" "ct_nc ct1 = ct_nc ct"
        "\<forall>r. rs = Inr r \<longrightarrow> ad_UserID r0 = ad_UserID r"
        using ensureDisplayName_returns [OF r0, of env] by (elim exE conjE, intro that)
      have a: "authorized env now reg ct r0" using v ch r0 by (simp add: authorized_def)
      have "authorizeRegistration env now reg ct = Some (map_sum id (\<lambda>assigned. (assigned, gw, m)) rs, ct1)"
        using v res gm ch r0 e(1) by (simp add: authorizeRegistration_def)
      then show ?thesis using res gm e(2,3) a by (cases rs) auto
    qed (simp add: authorizeRegistration_def v res gm)
  qed (simp add: authorizeRegistration_def v)
qed (simp add: authorizeRegistration_def)

end
