(* ===== verification/Auth_Facts.thy ===== *)
theory Auth_Facts
  imports Device_Auth User_Facts
begin

text \<open>
  What authentication promises: a device is accepted only for a signature over a challenge that was issued for
  its key within the last minute and that no proof has used. \<open>auth_history\<close> is a history of the two handlers
  among other operations of the controller, which leave the challenges alone.
\<close>

section \<open>The signed payload\<close>

lemma be32_inj: "be32 v = be32 w \<Longrightarrow> v = w"
  using Uint32ToIP_inj by (simp add: Uint32ToIP_def)

lemma length_prefixed:
  assumes "be32 (of_nat (length a)) @ a @ r = be32 (of_nat (length b)) @ b @ s"
    and "length a < 2 ^ 32" and "length b < 2 ^ 32"
  shows "a = b \<and> r = s"
proof -
  have l: "length (be32 w) = 4" for w by (simp add: be32_def)
  have "be32 (of_nat (length a)) = be32 (of_nat (length b))" and rest: "a @ r = b @ s"
    using assms(1) l by (metis append_eq_append_conv)+
  then have "(of_nat (length a) :: u32) = of_nat (length b)" using be32_inj by blast
  then have "unat (of_nat (length a) :: u32) = unat (of_nat (length b) :: u32)" by simp
  then have "length a = length b" using assms(2,3) by (simp add: unat_of_nat)
  with rest show ?thesis by simp
qed

lemma of_char_byte_inj:
  assumes "(of_char c :: u8) = of_char d"
  shows "c = d"
proof -
  have u: "unat (of_char x :: u8) = of_char x" for x
  proof -
    have "unat (of_nat (of_char x) :: u8) = of_char x mod 2 ^ LENGTH(8)" by (rule unat_of_nat)
    moreover have "(of_nat (of_char x) :: u8) = of_char x"
      by (rule of_nat_of_char)
    moreover have "of_char x mod 2 ^ LENGTH(8) = (of_char x :: nat)" by simp
    ultimately show ?thesis by (simp only:)
  qed
  have "(of_char c :: nat) = of_char d" using u assms by metis
  then show ?thesis by simp
qed

lemma bytes_of_inj: "bytes_of s = bytes_of t \<Longrightarrow> s = t"
  unfolding bytes_of_def by (rule map_injective) (auto intro!: injI of_char_byte_inj)

text \<open>
  C31: the signed payload determines what was signed. For fields of less than 4 GiB, two challenges with the
  same payload have the same identifier, nonce, device and key, so a signature made for one is not one for
  another.
\<close>

theorem signed_payload_injective:
  assumes "buildDeviceAuthSignedPayload c1 n1 d1 k1 = buildDeviceAuthSignedPayload c2 n2 d2 k2"
    and "\<forall>x \<in> set [bytes_of c1, n1, bytes_of d1, k1, bytes_of c2, n2, bytes_of d2, k2]. length x < 2 ^ 32"
  shows "c1 = c2 \<and> n1 = n2 \<and> d1 = d2 \<and> k1 = k2"
proof -
  note p = assms(1) [unfolded buildDeviceAuthSignedPayload_def appendLenPrefixed_def append_assoc append_Nil]
  from length_prefixed [OF p] assms(2) have c: "bytes_of c1 = bytes_of c2"
    and p1: "be32 (of_nat (length n1)) @ n1 @ be32 (of_nat (length (bytes_of d1))) @ bytes_of d1 @ be32 (of_nat (length k1)) @ k1 =
      be32 (of_nat (length n2)) @ n2 @ be32 (of_nat (length (bytes_of d2))) @ bytes_of d2 @ be32 (of_nat (length k2)) @ k2"
    by simp_all
  from length_prefixed [OF p1] assms(2) have n: "n1 = n2"
    and p2: "be32 (of_nat (length (bytes_of d1))) @ bytes_of d1 @ be32 (of_nat (length k1)) @ k1 =
      be32 (of_nat (length (bytes_of d2))) @ bytes_of d2 @ be32 (of_nat (length k2)) @ k2"
    by simp_all
  from length_prefixed [OF p2] assms(2) have d: "bytes_of d1 = bytes_of d2"
    and p3: "be32 (of_nat (length k1)) @ k1 @ [] = be32 (of_nat (length k2)) @ k2 @ []"
    by simp_all
  from length_prefixed [OF p3] assms(2) have "k1 = k2" by simp
  with c n d show ?thesis using bytes_of_inj by blast
qed

theorem signed_payload_injective_witness:
  "buildDeviceAuthSignedPayload ''c'' [1, 2] ''d'' [3] \<noteq> buildDeviceAuthSignedPayload ''c'' [1] ''d'' [2, 3]"
proof
  assume "buildDeviceAuthSignedPayload ''c'' [1, 2] ''d'' [3] = buildDeviceAuthSignedPayload ''c'' [1] ''d'' [2, 3]"
  from signed_payload_injective [OF this] show False by (simp add: bytes_of_def)
qed


section \<open>Histories\<close>

datatype auth_op = Ask bytes bytes DeviceAuthRequest | Prove DeviceAuthProof | Other

inductive auth_history :: "control_env \<Rightarrow> (gtime \<times> auth_op) list \<Rightarrow> Controller \<Rightarrow> bool" for env where
  start: "ct_authChallenges ct = [] \<Longrightarrow> auth_history env [] ct"
| ask: "auth_history env h ct \<Longrightarrow> answerDeviceAuth env (Inr nonce) (Inr ident) now req ct = (res, ct') \<Longrightarrow>
    auth_history env (h @ [(now, Ask nonce ident req)]) ct'"
| prove: "auth_history env h ct \<Longrightarrow> answerDeviceAuthProof env now req ct = Some (ack, ct') \<Longrightarrow>
    auth_history env (h @ [(now, Prove req)]) ct'"
| other: "auth_history env h ct \<Longrightarrow> ct_authChallenges ct' = ct_authChallenges ct \<Longrightarrow>
    auth_history env (h @ [(now, Other)]) ct'"

text \<open>The challenge \<open>ch\<close> with this identifier was issued in the history and no later proof used it.\<close>

definition issued :: "(gtime \<times> auth_op) list \<Rightarrow> string \<Rightarrow> deviceAuthChallengeState \<Rightarrow> bool" where
  "issued h challengeID ch \<longleftrightarrow>
     (\<exists>j t ident req. j < length h \<and> h ! j = (t, Ask (ac_Nonce ch) ident req) \<and> hex_encode ident = challengeID \<and>
        da_UserId req = ac_UserID ch \<and> da_DeviceId req = ac_DeviceID ch \<and> da_Ticket req = ac_Ticket ch \<and>
        da_DevicePubKey req = ac_DevicePubKey ch \<and> ac_ExpireAt ch = t + deviceAuthChallengeTTL \<and>
        (\<forall>k t' p. j < k \<and> k < length h \<and> h ! k = (t', Prove p) \<longrightarrow> dp_ChallengeId p \<noteq> challengeID))"

lemma issued_now:
  assumes "ac_Nonce ch = nonce" "da_UserId req = ac_UserID ch" "da_DeviceId req = ac_DeviceID ch"
    "da_Ticket req = ac_Ticket ch" "da_DevicePubKey req = ac_DevicePubKey ch"
    "ac_ExpireAt ch = now + deviceAuthChallengeTTL"
  shows "issued (h @ [(now, Ask nonce ident req)]) (hex_encode ident) ch"
  unfolding issued_def
  by (rule exI [of _ "length h"], rule exI [of _ now], rule exI [of _ ident], rule exI [of _ req])
    (use assms in auto)

lemma issued_append:
  assumes "issued h challengeID ch" and "\<And>t p. x = (t, Prove p) \<Longrightarrow> dp_ChallengeId p \<noteq> challengeID"
  shows "issued (h @ [x]) challengeID ch"
proof -
  obtain j t ident req where j: "j < length h" "h ! j = (t, Ask (ac_Nonce ch) ident req)"
    and r: "hex_encode ident = challengeID \<and> da_UserId req = ac_UserID ch \<and> da_DeviceId req = ac_DeviceID ch \<and>
      da_Ticket req = ac_Ticket ch \<and> da_DevicePubKey req = ac_DevicePubKey ch \<and>
      ac_ExpireAt ch = t + deviceAuthChallengeTTL"
    and k: "\<forall>k t' p. j < k \<and> k < length h \<and> h ! k = (t', Prove p) \<longrightarrow> dp_ChallengeId p \<noteq> challengeID"
    using assms(1) unfolding issued_def by blast
  have "dp_ChallengeId p \<noteq> challengeID" if "j < i" "i < length (h @ [x])" "(h @ [x]) ! i = (t', Prove p)" for i t' p
    using that k assms(2) by (cases "i < length h") (auto simp: nth_append)
  moreover have "(h @ [x]) ! j = (t, Ask (ac_Nonce ch) ident req)" using j by (simp add: nth_append)
  ultimately show ?thesis unfolding issued_def using j(1) r
    by (intro exI [of _ j] exI [of _ t] exI [of _ ident] exI [of _ req]) auto
qed

lemma ask_state:
  assumes "answerDeviceAuth env nonce ident now req ct = (res, ct')"
  shows "ct' = ct \<or> (\<exists>g b. ct' = snd (newDeviceAuthChallenge nonce ident now req g b ct))"
proof (cases "ValidateDeviceAuth now (da_UserId req) (da_Group req) (da_DeviceId req) (da_Ticket req) (ct_um ct)")
  case (Inr g)
  let ?b = "case GetAuthedDevice g (da_DeviceId req) (ct_um ct) of
      Some existing \<Rightarrow> ad_PubKeyHex existing \<noteq> toPubKeyHex (ce_sha256 env) (da_DevicePubKey req) ''ed25519''
    | None \<Rightarrow> False"
  have "ct' = ct \<or> ct' = snd (newDeviceAuthChallenge nonce ident now req g ?b ct)"
    using assms Inr
    by (cases "newDeviceAuthChallenge nonce ident now req g ?b ct")
      (auto simp: answerDeviceAuth_def Let_def split: if_splits sum.splits)
  then show ?thesis by blast
qed (use assms in \<open>simp add: answerDeviceAuth_def\<close>)

lemma ask_challenges:
  assumes "answerDeviceAuth env (Inr nonce) (Inr ident) now req ct = (res, ct')"
    and "gget (ct_authChallenges ct') challengeID = Some ch" and "gwf (ct_authChallenges ct)"
  shows "gget (ct_authChallenges ct) challengeID = Some ch \<or>
    (challengeID = hex_encode ident \<and> ac_Nonce ch = nonce \<and> da_UserId req = ac_UserID ch \<and>
     da_DeviceId req = ac_DeviceID ch \<and> da_Ticket req = ac_Ticket ch \<and>
     da_DevicePubKey req = ac_DevicePubKey ch \<and> ac_ExpireAt ch = now + deviceAuthChallengeTTL)"
proof -
  show ?thesis using ask_state [OF assms(1)] assms(2,3)
    by (auto simp: newDeviceAuthChallenge_def Let_def gget_gfilter split: if_splits option.splits)
qed

lemma ask_gwf:
  assumes "answerDeviceAuth env (Inr nonce) (Inr ident) now req ct = (res, ct')" and "gwf (ct_authChallenges ct)"
  shows "gwf (ct_authChallenges ct')"
proof -
  show ?thesis using ask_state [OF assms(1)] assms(2) by (auto simp: newDeviceAuthChallenge_def Let_def intro!: gwf_intros)
qed

lemma acceptProof_challenges [simp]: "ct_authChallenges (snd (acceptProof env now ch ct)) = ct_authChallenges ct"
  by (simp add: acceptProof_def split: prod.split sum.split)

lemma proof_challenges:
  assumes "answerDeviceAuthProof env now req ct = Some (ack, ct')"
  shows "ct_authChallenges ct' = gdel (dp_ChallengeId req) (ct_authChallenges ct)"
proof (cases "gget (ct_authChallenges ct) (dp_ChallengeId req)")
  case (Some challenge)
  let ?ct = "ct\<lparr>ct_authChallenges := gdel (dp_ChallengeId req) (ct_authChallenges ct)\<rparr>"
  have "ct' = ?ct \<or> ct' = snd (acceptProof env now challenge ?ct)"
    using assms Some by (auto simp: answerDeviceAuthProof_def consumeDeviceAuthChallenge_def proofSigned_def
        split: if_split_asm)
  then show ?thesis by auto
qed (use assms in \<open>auto simp: answerDeviceAuthProof_def consumeDeviceAuthChallenge_def\<close>)

lemma history_issued:
  assumes "auth_history env h ct"
  shows "gwf (ct_authChallenges ct) \<and>
    (\<forall>challengeID ch. gget (ct_authChallenges ct) challengeID = Some ch \<longrightarrow> issued h challengeID ch)"
  using assms
proof induction
  case (ask h ct nonce ident now req res ct')
  have "issued (h @ [(now, Ask nonce ident req)]) c ch" if ch: "gget (ct_authChallenges ct') c = Some ch" for c ch
  proof -
    have g: "gwf (ct_authChallenges ct)" using ask.IH by simp
    from ask_challenges [OF ask.hyps(2) ch g] show ?thesis
    proof
      assume "gget (ct_authChallenges ct) c = Some ch"
      then have "issued h c ch" using ask.IH by blast
      then show ?thesis by (rule issued_append) simp
    qed (use issued_now in metis)
  qed
  then show ?case using ask_gwf [OF ask.hyps(2)] ask.IH by blast
next
  case (prove h ct now req ack ct')
  have "issued (h @ [(now, Prove req)]) c ch" if "gget (ct_authChallenges ct') c = Some ch" for c ch
  proof -
    have c: "c \<noteq> dp_ChallengeId req" "gget (ct_authChallenges ct) c = Some ch"
      using that proof_challenges [OF prove.hyps(2)] by (simp_all split: if_split_asm)
    then have "issued h c ch" using prove.IH by blast
    then show ?thesis by (rule issued_append) (use c in auto)
  qed
  moreover have "gwf (ct_authChallenges ct')" using proof_challenges [OF prove.hyps(2)] prove.IH by (auto intro: gwf_del)
  ultimately show ?case by blast
next
  case (other h ct ct' now)
  have "issued (h @ [(now, Other)]) c ch" if "gget (ct_authChallenges ct') c = Some ch" for c ch
    by (rule issued_append) (use other that in auto)
  then show ?case using other by simp
qed simp

lemma proof_accepted:
  assumes "answerDeviceAuthProof env now req ct = Some (ack, ct')" and "dk_Ok ack"
  obtains ch where "gget (ct_authChallenges ct) (dp_ChallengeId req) = Some ch" "now \<le> ac_ExpireAt ch"
    "ac_DeviceID ch = dp_DeviceId req" "ac_DevicePubKey ch = dp_DevicePubKey req"
    "length (dp_DevicePubKey req) = 32"
    "ce_ed25519 env (dp_DevicePubKey req) (buildDeviceAuthSignedPayload (dp_ChallengeId req) (ac_Nonce ch)
       (dp_DeviceId req) (dp_DevicePubKey req)) (dp_Signature req)"
    "(ack, ct') = acceptProof env now ch (ct\<lparr>ct_authChallenges := gdel (dp_ChallengeId req) (ct_authChallenges ct)\<rparr>)"
proof -
  have no: "\<not> dk_Ok (refuseProof req b r e)" for b r e by (simp add: refuseProof_def blank_ack_def)
  obtain ch where ch: "gget (ct_authChallenges ct) (dp_ChallengeId req) = Some ch"
    using assms no by (cases "gget (ct_authChallenges ct) (dp_ChallengeId req)")
      (auto simp: answerDeviceAuthProof_def consumeDeviceAuthChallenge_def)
  show thesis
    by (rule that [OF ch]) (use assms ch no in \<open>auto simp: answerDeviceAuthProof_def consumeDeviceAuthChallenge_def
        proofSigned_def split: if_split_asm\<close>)
qed

text \<open>
  C15: a proof is accepted only for a challenge that was issued earlier in the history, at most 60 seconds
  before and to the same device and key, when no proof has named it since; the key has signed the nonce of that
  challenge. Afterwards the challenge is gone, so a proof authenticates once.
\<close>

theorem auth_needs_fresh_signature:
  assumes "auth_history env h ct" and "answerDeviceAuthProof env now req ct = Some (ack, ct')" and "dk_Ok ack"
  shows "(\<exists>j t nonce ident a. j < length h \<and> h ! j = (t, Ask nonce ident a) \<and>
      hex_encode ident = dp_ChallengeId req \<and> da_DeviceId a = dp_DeviceId req \<and>
      da_DevicePubKey a = dp_DevicePubKey req \<and> now \<le> t + 60 * Second \<and>
      ce_ed25519 env (dp_DevicePubKey req) (buildDeviceAuthSignedPayload (dp_ChallengeId req) nonce
        (dp_DeviceId req) (dp_DevicePubKey req)) (dp_Signature req) \<and>
      (\<forall>k t' p. j < k \<and> k < length h \<and> h ! k = (t', Prove p) \<longrightarrow> dp_ChallengeId p \<noteq> dp_ChallengeId req)) \<and>
    gget (ct_authChallenges ct') (dp_ChallengeId req) = None"
proof -
  obtain ch where ch: "gget (ct_authChallenges ct) (dp_ChallengeId req) = Some ch" "now \<le> ac_ExpireAt ch"
    "ac_DeviceID ch = dp_DeviceId req" "ac_DevicePubKey ch = dp_DevicePubKey req"
    and sg: "ce_ed25519 env (dp_DevicePubKey req) (buildDeviceAuthSignedPayload (dp_ChallengeId req) (ac_Nonce ch)
       (dp_DeviceId req) (dp_DevicePubKey req)) (dp_Signature req)"
    by (rule proof_accepted [OF assms(2,3)])
  have i: "issued h (dp_ChallengeId req) ch" using history_issued [OF assms(1)] ch(1) by blast
  have "gget (ct_authChallenges ct') (dp_ChallengeId req) = None" using proof_challenges [OF assms(2)] by simp
  moreover have "now \<le> t + 60 * Second" if "ac_ExpireAt ch = t + deviceAuthChallengeTTL" for t
    using ch(2) that by (simp add: deviceAuthChallengeTTL_def)
  ultimately show ?thesis using i ch(3,4) sg unfolding issued_def by metis
qed

definition sample_control :: control_env where
  "sample_control = \<lparr>ce_cfg = sample_validated, ce_sha256 = (\<lambda>b. b), ce_ed25519 = (\<lambda>_ _ sig. sig = [1]),
     ce_UMStore = None, ce_ExitStore = None,
     ce_gateway = \<lparr>ev_hmac = (\<lambda>_ b. b), ev_proof = (\<lambda>p. Inr (gp_Nonce p)), ev_claims = (\<lambda>_. Inr [1]),
       ev_ticket = (\<lambda>t. Inr (sg_Signature t)), ev_url = (\<lambda>_. None), ev_rand = (\<lambda>_. Inr [9]),
       ev_HardTTL = 86400 * Second, ev_SoftRefreshLead = 600 * Second, ev_DefaultGatewayID = [], ev_Secret = []\<rparr>\<rparr>"

definition sample_key :: bytes where "sample_key = replicate 32 7"

definition sample_auth :: Controller where
  "sample_auth = \<lparr>ct_nc = NewNetworkControl, ct_um = sample_um, ct_gateways = NewGatewayState [],
     ct_authChallenges = [], ct_handshakeCaps = [], ct_exitNodeApproved = []\<rparr>"

definition sample_ask :: DeviceAuthRequest where
  "sample_ask = \<lparr>da_UserId = ''sdl-1'', da_Group = ''home.ms.net'', da_DeviceId = ''dev-a'', da_Ticket = ''dtk-1'',
     da_DevicePubKey = sample_key\<rparr>"

definition sample_proof :: DeviceAuthProof where
  "sample_proof = \<lparr>dp_ChallengeId = ''03'', dp_DeviceId = ''dev-a'', dp_DevicePubKey = sample_key, dp_Signature = [1]\<rparr>"

definition sample_challenged :: Controller where
  "sample_challenged = snd (answerDeviceAuth sample_control (Inr [2]) (Inr [3]) 5 sample_ask sample_auth)"

theorem auth_needs_fresh_signature_witness:
  "\<exists>ack ct'. answerDeviceAuthProof sample_control 6 sample_proof sample_challenged = Some (ack, ct') \<and> dk_Ok ack \<and>
     gget (ct_authChallenges ct') ''03'' = None"
proof -
  have "map_option (dk_Ok \<circ> fst) (answerDeviceAuthProof sample_control 6 sample_proof sample_challenged) = Some True"
    by code_simp
  then obtain ack ct' where p: "answerDeviceAuthProof sample_control 6 sample_proof sample_challenged = Some (ack, ct')"
    and ok: "dk_Ok ack" by auto
  have "auth_history sample_control [] sample_auth" by (rule auth_history.start) (simp add: sample_auth_def)
  then have "auth_history sample_control ([] @ [(5, Ask [2] [3] sample_ask)]) sample_challenged"
    unfolding sample_challenged_def by (rule auth_history.ask) (rule prod.collapse [symmetric])
  from auth_needs_fresh_signature [OF this p ok] p ok show ?thesis by (auto simp: sample_proof_def)
qed

section \<open>Keys of the wrong length\<close>

text \<open>
  The request is only checked for a key that is not empty. A client with a valid ticket that announces a key of
  another length than 32 and answers its challenge makes \<^verbatim>\<open>ed25519.Verify\<close> panic.
\<close>

lemma short_key_panics:
  assumes "ValidateDeviceAuth now (da_UserId a) (da_Group a) (da_DeviceId a) (da_Ticket a) (ct_um ct) = Inr g"
    and "da_DevicePubKey a \<noteq> []" and "length (da_DevicePubKey a) \<noteq> 32"
    and "p = \<lparr>dp_ChallengeId = hex_encode ident, dp_DeviceId = da_DeviceId a, dp_DevicePubKey = da_DevicePubKey a,
         dp_Signature = sig\<rparr>"
  shows "answerDeviceAuthProof env now p (snd (answerDeviceAuth env (Inr nonce) (Inr ident) now a ct)) = None"
  using assms
  by (simp add: answerDeviceAuth_def newDeviceAuthChallenge_def answerDeviceAuthProof_def proofSigned_def
      consumeDeviceAuthChallenge_def deviceAuthChallengeTTL_def Second_def Let_def)

end
