(* ===== verification/Control_Facts.thy ===== *)
theory Control_Facts
  imports Admission Auth_Facts
begin

text \<open>
  Registration as a whole, and the states that the controller can reach. \<open>ctl_step\<close> is one operation of the
  controller; the parts that never touch the networks (users, gateways, hole punching, exit nodes) may do
  anything to their own state there.
\<close>

section \<open>A registration\<close>

definition no_new_online :: "NetworkControl \<Rightarrow> NetworkControl \<Rightarrow> bool" where
  "no_new_online nc nc' \<longleftrightarrow>
     (\<forall>key n' ip c. gget (networks nc') key = Some n' \<and> gget (ni_Clients n') ip = Some c \<and> cl_ControlOnline c \<longrightarrow>
        (\<exists>n. gget (networks nc) key = Some n \<and> gget (ni_Clients n) ip = Some c))"

text \<open>The client of a registration: online under the address, with the device, the key and the user of the record.\<close>

definition is_client :: "RegistrationRequest \<Rightarrow> UMAuthDevice \<Rightarrow> string \<Rightarrow> ClientInfo \<Rightarrow> bool" where
  "is_client reg r0 addr c \<longleftrightarrow> cl_DeviceId c = rq_DeviceId reg \<and> cl_UserID c = ad_UserID r0 \<and>
     cl_DevicePubKey c = rq_DevicePubKey reg \<and> cl_Address c = Some addr \<and> cl_ControlOnline c"

definition registered ::
    "RegistrationRequest \<Rightarrow> UMAuthDevice \<Rightarrow> string \<Rightarrow> NetworkControl \<Rightarrow> u32 \<Rightarrow> NetworkIdentity \<Rightarrow> NetworkControl \<Rightarrow> bool"
  where
  "registered reg r0 addr nc ip identity nc' \<longleftrightarrow>
     identity = NewNetworkIdentity (rq_Token reg) (ad_UserID r0) \<and>
     (\<exists>n'. gget (networks nc') (id_key identity) = Some n' \<and>
        in_network (ni_Gateway n') (ni_Netmask n') ip \<and>
        (\<exists>c. gget (ni_Clients n') ip = Some c \<and> is_client reg r0 addr c) \<and>
        (\<forall>ip' c'. gget (ni_Clients n') ip' = Some c' \<and> cl_DeviceId c' = rq_DeviceId reg \<longrightarrow> ip' = ip)) \<and>
     (\<forall>key n ip' c'. gget (networks nc) key = Some n \<and> gget (ni_Clients n) ip' = Some c' \<and> cl_ControlOnline c' \<and>
        \<not> (key = id_key identity \<and> cl_DeviceId c' = rq_DeviceId reg) \<longrightarrow>
        (\<exists>m. gget (networks nc') key = Some m \<and> gget (ni_Clients m) ip' = Some c'))"

lemma nc_offline_keys:
  assumes "nc_wf nc"
  shows "map fst (networks (nc_offline now sel addr nc)) = map fst (networks nc)"
proof -
  obtain ns' s' where off: "offline_networks now sel addr (networks nc) (nc_IPSessions nc) = (ns', s')"
    by (cases "offline_networks now sel addr (networks nc) (nc_IPSessions nc)")
  have "\<forall>(key, n) \<in> set (networks nc). net_wf n" using assms by (simp add: nc_wf_def)
  from offline_networks_spec [OF this off] off show ?thesis
    by (simp add: nc_offline_def networks_def with_networks_def)
qed

lemma offline_no_new:
  assumes wf: "nc_wf nc"
  shows "no_new_online nc (nc_offline now sel addr nc)"
  unfolding no_new_online_def
proof (intro allI impI; elim conjE)
  fix key n' ip c
  assume n': "gget (networks (nc_offline now sel addr nc)) key = Some n'" and c: "gget (ni_Clients n') ip = Some c"
    and on: "cl_ControlOnline c"
  have "key \<in> fst ` set (networks nc)"
    using n' nc_offline_keys [OF wf, of now sel addr] by (metis gget_Some_in fst_conv image_eqI image_set)
  then obtain n where n: "gget (networks nc) key = Some n" by (metis map_of_eq_None_iff not_None_eq)
  then obtain n2 where "gget (networks (nc_offline now sel addr nc)) key = Some n2" "left_network now (sel n) n n2"
    using nc_offline_spec(2) [OF wf n] by blast
  then have "gget (ni_Clients n') ip = map_option (offline_if now (sel n)) (gget (ni_Clients n) ip)"
    using n' by (simp add: left_network_def)
  then obtain d where d: "gget (ni_Clients n) ip = Some d" "c = offline_if now (sel n) d"
    using c by (cases "gget (ni_Clients n) ip") simp_all
  then have "c = d" using on by (auto simp: offline_if_def mark_offline_def split: if_split_asm)
  then show "\<exists>n. gget (networks nc) key = Some n \<and> gget (ni_Clients n) ip = Some c" using n d(1) by blast
qed

lemma join_failed:
  assumes "\<forall>k. k \<noteq> key \<longrightarrow> gget (networks nc') k = gget (networks nc) k"
    and "gget (networks nc') key = Some n'" and "pruned (network_or_new key gw m reserved nc) n'"
  shows "no_new_online nc nc'"
  unfolding no_new_online_def
proof (intro allI impI; elim conjE)
  fix k n1 ip c assume n1: "gget (networks nc') k = Some n1" and c: "gget (ni_Clients n1) ip = Some c"
  show "\<exists>n. gget (networks nc) k = Some n \<and> gget (ni_Clients n) ip = Some c"
  proof (cases "k = key")
    case True
    then have "gget (ni_Clients (network_or_new key gw m reserved nc)) ip = Some c"
      using pruned_client(1) [OF assms(3)] n1 c assms(2) by simp
    then show ?thesis using True
      by (auto simp: network_or_new_def NewNetworkInfo_def split: option.splits)
  qed (use n1 c assms(1) in auto)
qed

lemma join_registered:
  assumes "\<forall>k. k \<noteq> key \<longrightarrow> gget (networks nc') k = gget (networks nc) k" and key: "key = id_key identity"
    and n': "gget (networks nc') key = Some n'"
    and j: "joined (network_or_new key gw m reserved nc) (rq_DeviceId reg) ip c n'" and c: "is_client reg r0 addr c"
    and i: "identity = NewNetworkIdentity (rq_Token reg) (ad_UserID r0)"
  shows "registered reg r0 addr nc ip identity nc'"
proof -
  have "\<exists>m. gget (networks nc') k = Some m \<and> gget (ni_Clients m) ip' = Some c'"
    if k: "gget (networks nc) k = Some n" "gget (ni_Clients n) ip' = Some c'" "cl_ControlOnline c'"
      "\<not> (k = key \<and> cl_DeviceId c' = rq_DeviceId reg)" for k n ip' c'
  proof (cases "k = key")
    case True
    then have "network_or_new key gw m reserved nc = n" using k(1) by (simp add: network_or_new_def)
    then have "\<forall>a c. gget (ni_Clients n) a = Some c \<and> cl_DeviceId c \<noteq> rq_DeviceId reg \<and> cl_ControlOnline c \<longrightarrow>
        gget (ni_Clients n') a = Some c"
      using j unfolding joined_def by blast
    then have "gget (ni_Clients n') ip' = Some c'" using k True by blast
    then show ?thesis using True n' by blast
  next
    case False
    then have "gget (networks nc') k = Some n" using k(1) assms(1) by simp
    then show ?thesis using k(2) by blast
  qed
  moreover have "in_network (ni_Gateway n') (ni_Netmask n') ip"
    using j unfolding joined_def same_settings_def by metis
  moreover have "gget (ni_Clients n') ip = Some c"
    and "\<forall>ip' c'. gget (ni_Clients n') ip' = Some c' \<and> cl_DeviceId c' = rq_DeviceId reg \<longrightarrow> ip' = ip"
    using j unfolding joined_def by blast+
  ultimately show ?thesis unfolding registered_def key [symmetric] using i n' c by blast
qed

text \<open>An admitted device: joining its network returns, and the client that joined is the one that registered.\<close>

lemma completeRegistration_returns:
  assumes v: "Validate c0 = (None, ce_cfg env)" and ok: "nc_ok (ct_nc ct)" and nc: "ct_nc ct1 = ct_nc ct"
    and rg: "resolveGroupNetworkConfig (ce_cfg env) (rq_Token reg) = Inr (gw, m)"
    and r0: "authorized env now reg ct r0" "ad_UserID r = ad_UserID r0"
  shows "\<exists>res ct'. completeRegistration env now reg addr caps r gw m host port ct1 = Some (res, ct') \<and> nc_ok (ct_nc ct') \<and>
    (case res of Inl e \<Rightarrow> no_new_online (ct_nc ct) (ct_nc ct')
     | Inr (resp, ip, identity) \<Rightarrow> rr_VirtualIp resp = ip \<and> registered reg r0 addr (ct_nc ct) ip identity (ct_nc ct'))"
proof -
  have pn: "proper_network gw m" using validated_proper [OF v rg] .
  have dev: "rq_DeviceId reg \<noteq> []" "CHR ''@'' \<notin> set (rq_Token reg)"
    using r0(1) resolved_group_no_at [OF v rg]
    by (auto simp: authorized_def validateRegistrationRequest_def split: if_splits)
  let ?i = "NewNetworkIdentity (rq_Token reg) (ad_UserID r)"
  let ?n = "network_or_new (id_key ?i) gw m (reservedServiceIPs (ce_cfg env) (rq_Token reg)) (ct_nc ct)"
  obtain jr nc' where j: "joinNetwork now ?i gw m (reservedServiceIPs (ce_cfg env) (rq_Token reg)) reg r caps addr
        (ct_nc ct) = Some (jr, nc')" and okj: "nc_ok nc'"
    and oth: "\<forall>k. k \<noteq> id_key ?i \<longrightarrow> gget (networks nc') k = gget (networks (ct_nc ct)) k"
    and cs: "case jr of Inl e \<Rightarrow> \<exists>n'. gget (networks nc') (id_key ?i) = Some n' \<and> pruned ?n n'
      | Inr (ip, n') \<Rightarrow> gget (networks nc') (id_key ?i) = Some n' \<and>
         (\<exists>c. joined ?n (rq_DeviceId reg) ip (joinedClient now ?i reg r caps addr ip c) n')"
    using joinNetwork_returns [OF ok pn refl dev refl, where r = r and now = now and caps = caps and addr = addr
        and reserved = "reservedServiceIPs (ce_cfg env) (rq_Token reg)"]
    by (elim exE conjE, intro that)
  show ?thesis
  proof (cases jr)
    case (Inl e)
    then have "no_new_online (ct_nc ct) nc'" using cs join_failed [OF oth] by auto
    then show ?thesis using Inl j nc okj by (simp add: completeRegistration_def Let_def)
  next
    case (Inr z)
    obtain ip n' where z: "z = (ip, n')" by (cases z)
    have isc: "is_client reg r0 addr (joinedClient now ?i reg r caps addr ip c)" for c
      using r0(2) by (simp add: is_client_def)
    have "registered reg r0 addr (ct_nc ct) ip ?i nc'"
      using cs Inr z join_registered [OF oth refl _ _ isc] r0(2) by auto
    then show ?thesis using Inr z j nc okj
      by (auto simp: completeRegistration_def Let_def registrationResponse_def split: prod.split)
  qed
qed

lemma register_returns:
  assumes v: "Validate c0 = (None, ce_cfg env)" and ok: "nc_ok (ct_nc ct)"
  shows "\<exists>res ct'. register env now reg addr caps ct = Some (res, ct') \<and> nc_ok (ct_nc ct') \<and>
    (case res of Inl e \<Rightarrow> no_new_online (ct_nc ct) (ct_nc ct')
     | Inr (resp, ip, identity) \<Rightarrow> rr_VirtualIp resp = ip \<and>
         (\<exists>r0. authorized env now reg ct r0 \<and> registered reg r0 addr (ct_nc ct) ip identity (ct_nc ct')))"
proof -
  have idle: "no_new_online (ct_nc ct) (ct_nc ct)" by (simp add: no_new_online_def)
  have stale: "nc_ok (clearStaleClientStateByDeviceID now g d (ct_nc ct)) \<and>
      no_new_online (ct_nc ct) (clearStaleClientStateByDeviceID now g d (ct_nc ct))" for g d
    using nc_ok_offline [OF ok] offline_no_new [OF nc_ok_wf [OF ok]]
    by (simp add: clearStaleClientStateByDeviceID_def)
  obtain res ct1 where au: "authorizeRegistration env now reg ct = Some (res, ct1)"
    and sp: "case res of
        Inl e \<Rightarrow> ct_nc ct1 = ct_nc ct \<or>
          ct_nc ct1 = clearStaleClientStateByDeviceID now (rq_Token reg) (rq_DeviceId reg) (ct_nc ct)
      | Inr (r, gw, m) \<Rightarrow> ct_nc ct1 = ct_nc ct \<and>
          resolveGroupNetworkConfig (ce_cfg env) (rq_Token reg) = Inr (gw, m) \<and>
          (\<exists>r0. authorized env now reg ct r0 \<and> ad_UserID r = ad_UserID r0)"
    using authorize_returns [of env now reg ct] by (elim exE conjE, intro that)
  show ?thesis
  proof (cases res)
    case (Inl e)
    then show ?thesis using au sp idle stale ok by (auto simp: register_def)
  next
    case (Inr x)
    obtain r gw m where x: "x = (r, gw, m)" by (cases x)
    obtain r0 where nc: "ct_nc ct1 = ct_nc ct" and rg: "resolveGroupNetworkConfig (ce_cfg env) (rq_Token reg) = Inr (gw, m)"
      and r0: "authorized env now reg ct r0" "ad_UserID r = ad_UserID r0"
      using sp Inr x by auto
    show ?thesis
    proof (cases "parseRemoteAddr addr")
      case (Inl e)
      then show ?thesis using au Inr x nc idle ok by (simp add: register_def)
    next
      case hp: (Inr y)
      obtain host port where "y = (host, port)" by (cases y)
      then have reg: "register env now reg addr caps ct = completeRegistration env now reg addr caps r gw m host port ct1"
        using au Inr x hp by (simp add: register_def)
      from completeRegistration_returns [OF v ok nc rg r0, where addr = addr and caps = caps and host = host and port = port]
      show ?thesis unfolding reg by (elim exE conjE) (use r0(1) in \<open>force split: sum.splits prod.splits\<close>)
    qed
  qed
qed


section \<open>Handlers that leave the networks alone\<close>

lemma handshake_nc: "ct_nc (snd (HandleHandshakePacket marshal request decoded addr ct)) = ct_nc ct"
  by (simp add: HandleHandshakePacket_def setPendingHandshakeCapabilities_def Let_def split: sum.split option.split)

lemma answerDeviceAuth_nc: "ct_nc (snd (answerDeviceAuth env nonce ident now req ct)) = ct_nc ct"
  by (simp add: answerDeviceAuth_def newDeviceAuthChallenge_def Let_def split: sum.split)

lemma device_auth_nc: "ct_nc (snd (HandleDeviceAuthPacket env ma mc nonce ident now request decoded ct)) = ct_nc ct"
proof (cases decoded)
  case (Inr req)
  obtain res ct1 where a: "answerDeviceAuth env nonce ident now req ct = (res, ct1)"
    by (cases "answerDeviceAuth env nonce ident now req ct")
  then have "ct_nc ct1 = ct_nc ct" using answerDeviceAuth_nc [of env nonce ident now req ct] by simp
  then show ?thesis using Inr a by (simp add: HandleDeviceAuthPacket_def split: sum.split)
qed (simp add: HandleDeviceAuthPacket_def)

lemma acceptProof_nc: "ct_nc (snd (acceptProof env now challenge ct)) = ct_nc ct"
  by (simp add: acceptProof_def split: prod.split sum.split)

lemma proof_nc:
  assumes "HandleDeviceAuthProofPacket env marshal now request decoded ct = Some (res, ct')"
  shows "ct_nc ct' = ct_nc ct"
proof (cases decoded)
  case (Inr req)
  obtain ack where a: "answerDeviceAuthProof env now req ct = Some (ack, ct')"
    using assms Inr by (auto simp: HandleDeviceAuthProofPacket_def)
  show ?thesis
  proof (cases "gget (ct_authChallenges ct) (dp_ChallengeId req)")
    case (Some challenge)
    let ?ct = "ct\<lparr>ct_authChallenges := gdel (dp_ChallengeId req) (ct_authChallenges ct)\<rparr>"
    have "ct' = ?ct \<or> ct' = snd (acceptProof env now challenge ?ct)"
      using a Some by (auto simp: answerDeviceAuthProof_def consumeDeviceAuthChallenge_def proofSigned_def
          split: if_split_asm)
    then show ?thesis by (auto simp: acceptProof_nc)
  qed (use a in \<open>auto simp: answerDeviceAuthProof_def consumeDeviceAuthChallenge_def\<close>)
qed (use assms in \<open>simp add: HandleDeviceAuthProofPacket_def\<close>)

lemma rename_nc: "ct_nc (snd (HandleDeviceRenamePacket env marshal request decoded ct)) = ct_nc ct"
  by (auto simp: HandleDeviceRenamePacket_def answerDeviceRename_def Let_def split: sum.split prod.split)

section \<open>Reachable states\<close>

inductive ctl_step :: "control_env \<Rightarrow> Controller \<Rightarrow> Controller \<Rightarrow> bool" for env where
  registering: "register env now reg addr caps ct = Some (res, ct') \<Longrightarrow> ctl_step env ct ct'"
| handshaking: "HandleHandshakePacket marshal request decoded remote ct = (res, ct') \<Longrightarrow> ctl_step env ct ct'"
| authenticating:
    "HandleDeviceAuthPacket env ma mc nonce ident now request decoded ct = (res, ct') \<Longrightarrow> ctl_step env ct ct'"
| proving: "HandleDeviceAuthProofPacket env marshal now request decoded ct = Some (res, ct') \<Longrightarrow> ctl_step env ct ct'"
| renaming: "HandleDeviceRenamePacket env marshal request decoded ct = (res, ct') \<Longrightarrow> ctl_step env ct ct'"
| leaving: "ctl_step env ct (ct\<lparr>ct_nc := LeaveByRemoteAddr now remote (ct_nc ct)\<rparr>)"
| controlling:
    "ctl_step env ct (ct\<lparr>ct_nc := snd (HandleControlPacketInNetwork now payload request key (ct_nc ct))\<rparr>)"
| reporting:
    "ctl_step env ct (ct\<lparr>ct_nc := snd (HandleClientStatusInfoPacketInNetwork now request status key (ct_nc ct))\<rparr>)"
| deleting: "ctl_DeleteAuthedDevice env userID groupName deviceID ct = (res, ct') \<Longrightarrow> ctl_step env ct ct'"
| administering: "ctl_RenameAuthedDevice env userID groupName deviceID name ct = (res, ct') \<Longrightarrow> ctl_step env ct ct'"
| users: "ctl_step env ct (ct\<lparr>ct_um := m\<rparr>)"
| gateways: "ctl_step env ct (ct\<lparr>ct_gateways := gs\<rparr>)"
| exits: "ctl_step env ct (ct\<lparr>ct_exitNodeApproved := approved\<rparr>)"
| punching: "networks nc' = networks (ct_nc ct) \<Longrightarrow> ctl_step env ct (ct\<lparr>ct_nc := nc'\<rparr>)"

lemma ctl_Delete_nc:
  "nc_ok (ct_nc ct) \<Longrightarrow> nc_ok (ct_nc (snd (ctl_DeleteAuthedDevice env userID groupName deviceID ct)))"
  using removeRuntime_spec(1) by (simp add: ctl_DeleteAuthedDevice_def split: prod.split sum.split)

lemma ctl_Rename_nc:
  "nc_ok (ct_nc ct) \<Longrightarrow> nc_ok (ct_nc (snd (ctl_RenameAuthedDevice env userID groupName deviceID name ct)))"
  using nc_ok_rename by (simp add: ctl_RenameAuthedDevice_def split: prod.split sum.split)

lemma ctl_step_ok:
  assumes "ctl_step env ct ct'" and v: "Validate c = (None, ce_cfg env)" and ok: "nc_ok (ct_nc ct)"
  shows "nc_ok (ct_nc ct')"
  using assms(1)
proof cases
  case (registering now reg addr caps res)
  from register_returns [OF v ok, where now = now and reg = reg and addr = addr and caps = caps]
  obtain res1 ct1 where "register env now reg addr caps ct = Some (res1, ct1)" "nc_ok (ct_nc ct1)"
    by (elim exE conjE, intro that)
  with registering show ?thesis by simp
next
  case handshaking
  then show ?thesis using ok handshake_nc by (metis snd_conv)
next
  case authenticating
  then show ?thesis using ok device_auth_nc by (metis snd_conv)
next
  case proving
  then show ?thesis using ok proof_nc by metis
next
  case renaming
  then show ?thesis using ok rename_nc by (metis snd_conv)
next
  case deleting
  then show ?thesis using ctl_Delete_nc [OF ok] by (metis snd_conv)
next
  case administering
  then show ?thesis using ctl_Rename_nc [OF ok] by (metis snd_conv)
next
  case punching
  then show ?thesis using ok by (simp add: nc_ok_def)
qed (use ok nc_ok_Leave nc_ok_control nc_ok_status in simp_all)

lemma NewController_start:
  assumes "NewController t (Some c) src file rows = Inr (c', store, ct0)"
  shows "Validate c = (None, c')" and "ct_nc ct0 = NewNetworkControl"
proof -
  obtain e c1 where v: "Validate c = (e, c1)" by (cases "Validate c")
  have e: "e = None" using assms v by (cases e) (simp_all add: NewController_def)
  obtain m st where um: "newUserManagerFromStore t src = Inr (m, st)"
    using assms v e by (cases "newUserManagerFromStore t src") (auto simp: NewController_def)
  obtain a where "newExitNodeApprovalStateFromStore rows = Inr a"
    using assms v e um by (cases "newExitNodeApprovalStateFromStore rows") (simp_all add: NewController_def)
  then show "Validate c = (None, c')" and "ct_nc ct0 = NewNetworkControl"
    using assms v e um by (auto simp: NewController_def)
qed

lemma reachable_ok:
  assumes start: "NewController t (Some c) src file rows = Inr (ce_cfg env, store, ct0)"
    and "(ctl_step env)\<^sup>*\<^sup>* ct0 ct"
  shows "nc_ok (ct_nc ct)"
proof -
  have v: "Validate c = (None, ce_cfg env)" and "ct_nc ct0 = NewNetworkControl"
    using NewController_start [OF start] by simp_all
  then have "nc_ok (ct_nc ct0)" by (simp add: nc_ok_def networks_def NewNetworkControl_def NewExpireMap_def)
  with assms(2) show ?thesis by (induction rule: rtranclp_induct) (auto intro: ctl_step_ok [OF _ v])
qed


section \<open>Networks keep their members apart\<close>

lemma last_separator:
  assumes "u @ x # g = v @ x # h" and "x \<notin> set g" and "x \<notin> set h"
  shows "u = v \<and> g = h"
proof -
  have take: "takeWhile (\<lambda>y. y \<noteq> x) (rev (w @ x # f)) = rev f" if "x \<notin> set f" for w f
    using that by (simp, subst takeWhile_append2) auto
  have "rev g = rev h" using take [OF assms(2)] take [OF assms(3)] assms(1) by metis
  then show ?thesis using assms(1) by simp
qed

lemma same_key:
  assumes k: "id_key (NewNetworkIdentity g u) = id_key (NewNetworkIdentity h v)"
    and g: "CHR ''@'' \<notin> set g" and h: "CHR ''@'' \<notin> set h"
  shows "TrimSpace g = TrimSpace h" and "isPersonalSDLUser u \<Longrightarrow> TrimSpace u = TrimSpace v"
proof -
  have at: "CHR ''@'' \<notin> set (TrimSpace g)" "CHR ''@'' \<notin> set (TrimSpace h)" using g h by (simp_all add: at_TrimSpace)
  have p: "isPersonalSDLUser (TrimSpace x) = isPersonalSDLUser x" for x by (simp add: isPersonalSDLUser_def)
  have "TrimSpace g = TrimSpace h \<and> (isPersonalSDLUser u \<longrightarrow> TrimSpace u = TrimSpace v)"
  proof (cases "isPersonalSDLUser u"; cases "isPersonalSDLUser v")
    assume "isPersonalSDLUser u" "isPersonalSDLUser v"
    then have "(personalNetworkPrefix @ TrimSpace u) @ CHR ''@'' # TrimSpace g =
        (personalNetworkPrefix @ TrimSpace v) @ CHR ''@'' # TrimSpace h"
      using k by (simp add: NewNetworkIdentity_def Let_def p)
    from last_separator [OF this at] show ?thesis by simp
  next
    assume "isPersonalSDLUser u" "\<not> isPersonalSDLUser v"
    then have "TrimSpace h = personalNetworkPrefix @ TrimSpace u @ ''@'' @ TrimSpace g"
      using k by (simp add: NewNetworkIdentity_def Let_def p)
    then have False using at(2) by simp
    then show ?thesis ..
  next
    assume "\<not> isPersonalSDLUser u" "isPersonalSDLUser v"
    then have "TrimSpace g = personalNetworkPrefix @ TrimSpace v @ ''@'' @ TrimSpace h"
      using k by (simp add: NewNetworkIdentity_def Let_def p)
    then have False using at(1) by simp
    then show ?thesis ..
  next
    assume "\<not> isPersonalSDLUser u" "\<not> isPersonalSDLUser v"
    then show ?thesis using k by (simp add: NewNetworkIdentity_def Let_def p)
  qed
  then show "TrimSpace g = TrimSpace h" and "isPersonalSDLUser u \<Longrightarrow> TrimSpace u = TrimSpace v" by blast+
qed

lemma member_identity:
  assumes "nc_ok nc" and "gget (networks nc) key = Some n" and "gget (ni_Clients n) ip = Some c"
  shows "key = id_key (NewNetworkIdentity (cl_AuthGroup c) (cl_UserID c))" and "CHR ''@'' \<notin> set (cl_AuthGroup c)"
    and "in_network (ni_Gateway n) (ni_Netmask n) ip" and "cl_VirtualIp c = ip" and "cl_NetworkKey c = key"
    and "cl_DeviceId c \<noteq> []"
proof -
  have ok: "net_ok key n" by (rule nc_ok_get [OF assms(1,2)])
  then have "net_settings n = (key, ni_Gateway n, ni_Netmask n)" by (simp add: net_settings_def net_ok_def)
  with net_ok_member [OF ok assms(3)]
  show "key = id_key (NewNetworkIdentity (cl_AuthGroup c) (cl_UserID c))" and "CHR ''@'' \<notin> set (cl_AuthGroup c)"
    and "in_network (ni_Gateway n) (ni_Netmask n) ip" and "cl_VirtualIp c = ip" and "cl_NetworkKey c = key"
    and "cl_DeviceId c \<noteq> []"
    by (simp_all add: member_ok_def Let_def)
qed

section \<open>Properties\<close>

text \<open>
  C1: with a validated configuration a registration ends, and the networks stay well formed. It succeeds only
  for a device whose record is current and whose key it presents; then the device is online under exactly one
  address, inside its network and not the gateway's, in the network of its group and user, and every other
  online client keeps its place. When it fails no client comes online.
\<close>

theorem registration_sound:
  assumes "Validate c = (None, ce_cfg env)" and "nc_ok (ct_nc ct)"
  shows "\<exists>res ct'. register env now reg addr caps ct = Some (res, ct') \<and> nc_ok (ct_nc ct') \<and>
    (case res of Inl e \<Rightarrow> no_new_online (ct_nc ct) (ct_nc ct')
     | Inr (resp, ip, identity) \<Rightarrow> rr_VirtualIp resp = ip \<and>
         (\<exists>r0. authorized env now reg ct r0 \<and> registered reg r0 addr (ct_nc ct) ip identity (ct_nc ct')))"
  by (rule register_returns [OF assms])

definition sample_device :: UMAuthDevice where
  "sample_device = \<lparr>ad_UserID = ''sdl-1'', ad_GroupName = ''dev.ms.net'', ad_DeviceID = ''dev-a'',
     ad_DisplayName = ''laptop'', ad_PubKeyHex = toPubKeyHex (\<lambda>b. b) [7] ''ed25519'', ad_AuthedAt = 1,
     ad_AuthExpireAt = 10 * Second\<rparr>"

definition sample_ct :: Controller where
  "sample_ct = \<lparr>ct_nc = NewNetworkControl,
     ct_um = NewUserManager\<lparr>
       um_users := [(''sdl-1'', \<lparr>uu_UserID = ''sdl-1'', uu_Name = ''a'', uu_Domain = ''ms.net'', uu_CreatedAt = 1\<rparr>)],
       um_policies := [(''sdl-1'', generateBasicPolicyLocked 1 ''sdl-1'')],
       um_authedDevices := [(''dev.ms.net|dev-a'', sample_device)]\<rparr>,
     ct_gateways = NewGatewayState [], ct_authChallenges = [], ct_handshakeCaps = [], ct_exitNodeApproved = []\<rparr>"

definition sample_reg :: RegistrationRequest where
  "sample_reg = \<lparr>rq_Token = ''dev.ms.net'', rq_DeviceId = ''dev-a'', rq_Name = ''laptop'', rq_Version = ''1'',
     rq_VirtualIp = 0x0A000007, rq_AllowIpChange = False, rq_DevicePubKey = [7], rq_OnlineKxPub = replicate 32 0\<rparr>"

lemma sample_control_valid: "Validate sample_config = (None, ce_cfg sample_control)"
  by (simp add: sample_control_def sample_config_valid)

lemma sample_ct_ok: "nc_ok (ct_nc sample_ct)"
  by (simp add: sample_ct_def nc_ok_def networks_def NewNetworkControl_def NewExpireMap_def)

lemma sample_authorized:
  assumes "ct_um ct = ct_um sample_ct"
  shows "authorizeRegistration sample_control 5 sample_reg ct =
     Some (Inr (sample_device, [10, 0, 0, 1], [255, 255, 255, 0]), ct)"
proof -
  have "validateRegistrationRequest sample_reg = None"
    and "resolveGroupNetworkConfig (ce_cfg sample_control) (rq_Token sample_reg) = Inr ([10, 0, 0, 1], [255, 255, 255, 0])"
    and "CheckAuthedDevice (ce_sha256 sample_control) 5 (rq_Token sample_reg) (rq_DeviceId sample_reg)
      (rq_DevicePubKey sample_reg) (ct_um sample_ct) = None"
    and "TrimSpace (ad_DisplayName sample_device) \<noteq> []"
    by code_simp+
  moreover have "GetAuthedDevice (rq_Token sample_reg) (rq_DeviceId sample_reg) (ct_um sample_ct) = Some sample_device"
    by (simp add: GetAuthedDevice_def authedDeviceKey_def sample_reg_def sample_ct_def)
  ultimately show ?thesis using assms by (simp add: authorizeRegistration_def ensureDisplayName_def)
qed

lemma sample_joined:
  "\<exists>n nc. joinNetwork 5 (NewNetworkIdentity (rq_Token sample_reg) (ad_UserID sample_device)) [10, 0, 0, 1] [255, 255, 255, 0]
     (reservedServiceIPs (ce_cfg sample_control) (rq_Token sample_reg)) sample_reg sample_device [] ''1.2.3.4:50''
     (ct_nc sample_ct) = Some (Inr (0x0A000007, n), nc)"
    (is "\<exists>n nc. ?j = Some (Inr (_, n), nc)")
proof -
  have "map_option (\<lambda>(r, nc). map_sum (\<lambda>_. ()) fst r) ?j = Some (Inr 0x0A000007)" by code_simp
  then obtain r nc where j: "?j = Some (r, nc)" and r: "map_sum (\<lambda>_. ()) fst r = Inr 0x0A000007" by auto
  then obtain n where "r = Inr (0x0A000007, n)" by (cases r) auto
  with j show ?thesis by blast
qed

lemma sample_registers:
  "\<exists>resp identity ct'. register sample_control 5 sample_reg ''1.2.3.4:50'' [] sample_ct =
     Some (Inr (resp, 0x0A000007, identity), ct')"
proof -
  obtain n nc where "joinNetwork 5 (NewNetworkIdentity (rq_Token sample_reg) (ad_UserID sample_device)) [10, 0, 0, 1]
     [255, 255, 255, 0] (reservedServiceIPs (ce_cfg sample_control) (rq_Token sample_reg)) sample_reg sample_device []
     ''1.2.3.4:50'' (ct_nc sample_ct) = Some (Inr (0x0A000007, n), nc)" using sample_joined by blast
  moreover have "parseRemoteAddr ''1.2.3.4:50'' = Inr (''1.2.3.4'', 50)" by code_simp
  ultimately show ?thesis
    by (simp add: register_def sample_authorized [OF refl] completeRegistration_def Let_def split: prod.split)
qed

theorem registration_sound_witness:
  "\<exists>resp identity ct' r0. register sample_control 5 sample_reg ''1.2.3.4:50'' [] sample_ct =
       Some (Inr (resp, 0x0A000007, identity), ct') \<and>
     authorized sample_control 5 sample_reg sample_ct r0 \<and>
     registered sample_reg r0 ''1.2.3.4:50'' (ct_nc sample_ct) 0x0A000007 identity (ct_nc ct')"
proof -
  obtain resp identity ct' where "register sample_control 5 sample_reg ''1.2.3.4:50'' [] sample_ct =
      Some (Inr (resp, 0x0A000007, identity), ct')" using sample_registers by blast
  with registration_sound [OF sample_control_valid sample_ct_ok, where now = 5 and reg = sample_reg
      and addr = "''1.2.3.4:50''" and caps = "[]"]
  show ?thesis by auto
qed

text \<open>
  C2: from the start of the controller, whatever operations follow, every network has the settings of a proper
  network and holds only clients of its own: each has an address inside the network, stands under the key of
  its group and user, and no device has two addresses.
\<close>

theorem reachable_networks:
  assumes "NewController t (Some c) src file rows = Inr (ce_cfg env, store, ct0)"
    and "(ctl_step env)\<^sup>*\<^sup>* ct0 ct" and "gget (networks (ct_nc ct)) key = Some n"
  shows "proper_network (ni_Gateway n) (ni_Netmask n) \<and>
    (\<forall>ip c. gget (ni_Clients n) ip = Some c \<longrightarrow>
       in_network (ni_Gateway n) (ni_Netmask n) ip \<and> cl_VirtualIp c = ip \<and> cl_NetworkKey c = key \<and>
       key = id_key (NewNetworkIdentity (cl_AuthGroup c) (cl_UserID c)) \<and>
       (\<forall>ip' c'. gget (ni_Clients n) ip' = Some c' \<and> cl_DeviceId c' = cl_DeviceId c \<longrightarrow> ip' = ip))"
proof -
  have ok: "nc_ok (ct_nc ct)" by (rule reachable_ok [OF assms(1,2)])
  have n: "net_ok key n" by (rule nc_ok_get [OF ok assms(3)])
  have "ip' = ip" if "gget (ni_Clients n) ip = Some c" "gget (ni_Clients n) ip' = Some c'"
    "cl_DeviceId c' = cl_DeviceId c" for ip c ip' c'
    using net_wf_unique [OF net_ok_wf [OF n]] that member_identity(6) [OF ok assms(3)] by metis
  moreover have "proper_network (ni_Gateway n) (ni_Netmask n)" using n by (simp add: net_ok_def)
  ultimately show ?thesis using member_identity [OF ok assms(3)] by blast
qed

definition sample_source :: um_source where
  "sample_source = \<lparr>us_db = None, us_seed = None, us_json = Inl ''no file'', us_jsonSave = (\<lambda>_. None)\<rparr>"

definition sample_start :: Controller where
  "sample_start = sample_ct\<lparr>ct_um := NewUserManager\<rparr>"

lemma sample_starts:
  "NewController 1 (Some sample_config) sample_source (Inl ''no file'') None =
     Inr (ce_cfg sample_control, None, sample_start)"
  by (simp add: NewController_def sample_control_valid newUserManagerFromStore_def sample_source_def
      NewUserManagerWithStore_def newExitNodeApprovalStateFromStore_def newGatewayApprovalStateFromStore_def
      sample_start_def sample_ct_def)

lemma sample_reach:
  "\<exists>ct n c. (ctl_step sample_control)\<^sup>*\<^sup>* sample_start ct \<and>
     gget (networks (ct_nc ct)) (id_key (NewNetworkIdentity ''dev.ms.net'' ''sdl-1'')) = Some n \<and>
     gget (ni_Clients n) 0x0A000007 = Some c \<and> cl_UserID c = ''sdl-1''"
proof -
  obtain resp identity ct' where r: "register sample_control 5 sample_reg ''1.2.3.4:50'' [] sample_ct =
      Some (Inr (resp, 0x0A000007, identity), ct')" using sample_registers by blast
  have "sample_ct = sample_start\<lparr>ct_um := ct_um sample_ct\<rparr>" by (simp add: sample_start_def)
  then have "ctl_step sample_control sample_start sample_ct" using ctl_step.users by metis
  moreover have "ctl_step sample_control sample_ct ct'" by (rule ctl_step.registering [OF r])
  ultimately have reach: "(ctl_step sample_control)\<^sup>*\<^sup>* sample_start ct'" by simp
  from register_returns [OF sample_control_valid sample_ct_ok, where now = 5 and reg = sample_reg
      and addr = "''1.2.3.4:50''" and caps = "[]"] r
  obtain r0 where "authorized sample_control 5 sample_reg sample_ct r0"
    and g: "registered sample_reg r0 ''1.2.3.4:50'' (ct_nc sample_ct) 0x0A000007 identity (ct_nc ct')" by auto
  then have "r0 = sample_device"
    by (simp add: authorized_def GetAuthedDevice_def authedDeviceKey_def sample_reg_def sample_ct_def)
  with g reach show ?thesis
    by (auto simp: registered_def is_client_def sample_device_def sample_reg_def)
qed

theorem reachable_networks_witness:
  "\<exists>ct n c. (ctl_step sample_control)\<^sup>*\<^sup>* sample_start ct \<and> gget (ni_Clients n) 0x0A000007 = Some c \<and>
     gget (networks (ct_nc ct)) (cl_NetworkKey c) = Some n \<and> in_network (ni_Gateway n) (ni_Netmask n) 0x0A000007"
proof -
  obtain ct n c where ct: "(ctl_step sample_control)\<^sup>*\<^sup>* sample_start ct"
    and n: "gget (networks (ct_nc ct)) (id_key (NewNetworkIdentity ''dev.ms.net'' ''sdl-1'')) = Some n"
    and c: "gget (ni_Clients n) 0x0A000007 = Some c" using sample_reach by blast
  from reachable_networks [OF sample_starts ct n] ct n c show ?thesis by metis
qed

text \<open>
  C3: networks keep their members apart. Two clients that share a network come from the same group; when one
  of them is a device of a personal user, the other is a device of the same user.
\<close>

theorem network_isolation:
  assumes "NewController t (Some c) src file rows = Inr (ce_cfg env, store, ct0)"
    and "(ctl_step env)\<^sup>*\<^sup>* ct0 ct" and "gget (networks (ct_nc ct)) key = Some n"
    and "gget (ni_Clients n) ip1 = Some c1" and "gget (ni_Clients n) ip2 = Some c2"
  shows "TrimSpace (cl_AuthGroup c1) = TrimSpace (cl_AuthGroup c2) \<and>
    (isPersonalSDLUser (cl_UserID c1) \<longrightarrow> TrimSpace (cl_UserID c1) = TrimSpace (cl_UserID c2))"
proof -
  have ok: "nc_ok (ct_nc ct)" by (rule reachable_ok [OF assms(1,2)])
  note m = member_identity [OF ok assms(3)]
  have "id_key (NewNetworkIdentity (cl_AuthGroup c1) (cl_UserID c1)) =
      id_key (NewNetworkIdentity (cl_AuthGroup c2) (cl_UserID c2))"
    using m(1) [OF assms(4)] m(1) [OF assms(5)] by simp
  from same_key [OF this m(2) [OF assms(4)] m(2) [OF assms(5)]] show ?thesis by blast
qed


theorem network_isolation_witness:
  "\<exists>ct key n c. (ctl_step sample_control)\<^sup>*\<^sup>* sample_start ct \<and> gget (networks (ct_nc ct)) key = Some n \<and>
     gget (ni_Clients n) 0x0A000007 = Some c \<and>
     isPersonalSDLUser (cl_UserID c) \<and>
     (\<forall>ip c'. gget (ni_Clients n) ip = Some c' \<longrightarrow> TrimSpace (cl_UserID c') = ''sdl-1'')"
proof -
  obtain ct n c where ct: "(ctl_step sample_control)\<^sup>*\<^sup>* sample_start ct"
    and n: "gget (networks (ct_nc ct)) (id_key (NewNetworkIdentity ''dev.ms.net'' ''sdl-1'')) = Some n"
    and c: "gget (ni_Clients n) 0x0A000007 = Some c" and u: "cl_UserID c = ''sdl-1''" using sample_reach by blast
  have p: "isPersonalSDLUser ''sdl-1''" "TrimSpace ''sdl-1'' = ''sdl-1''" by code_simp+
  then have all: "\<forall>ip c'. gget (ni_Clients n) ip = Some c' \<longrightarrow> TrimSpace (cl_UserID c') = ''sdl-1''"
    using network_isolation [OF sample_starts ct n c] u by simp
  have "isPersonalSDLUser (cl_UserID c)" using u p(1) by simp
  then show ?thesis using ct n c all by blast
qed

section \<open>Deleting a device\<close>

lemma Delete_records:
  assumes "DeleteAuthedDevice store u g d m = (Inr records, m')" and wf: "um_wf m" and r: "r \<in> set records"
  shows "ad_UserID r = TrimSpace u \<and> ad_DeviceID r = TrimSpace d" and "GetAuthedDevice (ad_GroupName r) (ad_DeviceID r) m' = None"
proof -
  obtain grp where grp: "resolveGroup (TrimSpace u) (TrimSpace g) m = Inr grp"
    using assms(1) by (cases "resolveGroup (TrimSpace u) (TrimSpace g) m")
      (simp_all add: DeleteAuthedDevice_def Let_def split: if_split_asm)
  let ?ms = "matchingDevices (TrimSpace u) grp (TrimSpace d) (um_authedDevices m)"
  have d: "TrimSpace d \<noteq> []" using assms(1) by (auto simp: DeleteAuthedDevice_def Let_def split: if_split_asm)
  have "saved store (map (\<lambda>k. the (gget (um_authedDevices m) k)) ?ms)
      (m\<lparr>um_authedDevices := gfilter (\<lambda>k _. k \<notin> set ?ms) (um_authedDevices m)\<rparr>) = (Inr records, m')"
    using assms(1) grp by (simp add: DeleteAuthedDevice_def Let_def split: if_split_asm)
  then have rec: "records = map (\<lambda>k. the (gget (um_authedDevices m) k)) ?ms"
    and m': "m' = m\<lparr>um_authedDevices := gfilter (\<lambda>k _. k \<notin> set ?ms) (um_authedDevices m)\<rparr>"
    by (auto simp: saved_def split: option.splits)
  have w: "gwf (um_authedDevices m)" using wf by (simp add: um_wf_def)
  obtain k where k: "k \<in> set ?ms" "r = the (gget (um_authedDevices m) k)" using r rec by auto
  have "\<exists>r1. (k, r1) \<in> set (um_authedDevices m) \<and> ad_UserID r1 = TrimSpace u \<and> ad_DeviceID r1 = TrimSpace d"
    using k(1) d by (auto simp: matchingDevices_def)
  then obtain r1 where r1: "(k, r1) \<in> set (um_authedDevices m)" "ad_UserID r1 = TrimSpace u"
    "ad_DeviceID r1 = TrimSpace d" by blast
  then have g: "gget (um_authedDevices m) k = Some r1" using gget_iff [OF w] by blast
  then show "ad_UserID r = TrimSpace u \<and> ad_DeviceID r = TrimSpace d" using k(2) r1 d by simp
  have "k = authedDeviceKey (ad_GroupName r) (ad_DeviceID r)" using wf g k(2) by (simp add: um_wf_def)
  then show "GetAuthedDevice (ad_GroupName r) (ad_DeviceID r) m' = None"
    using k(1) w by (auto simp: GetAuthedDevice_def m' gget_gfilter split: option.split)
qed

lemma register_needs_record:
  assumes "GetAuthedDevice (rq_Token reg) (rq_DeviceId reg) (ct_um ct) = None"
  shows "register env now reg addr caps ct \<noteq> Some (Inr x, ct')"
proof
  assume r: "register env now reg addr caps ct = Some (Inr x, ct')"
  obtain res ct1 where a: "authorizeRegistration env now reg ct = Some (res, ct1)"
    using authorize_returns [of env now reg ct] by (elim exE conjE, intro that)
  obtain y where y: "res = Inr y" using r a by (cases res) (simp_all add: register_def)
  obtain r1 gw m where "y = (r1, gw, m)" by (cases y)
  with authorize_returns [of env now reg ct] a y have "\<exists>r0. authorized env now reg ct r0" by auto
  with assms show False by (simp add: authorized_def)
qed

text \<open>
  C30: deleting a device removes its records, and from every network exactly the clients with the group and
  the device of one of them. It cannot register again until it has been authenticated again.
\<close>

theorem delete_device_exact:
  assumes "nc_ok (ct_nc ct)" and "um_wf (ct_um ct)"
    and del: "ctl_DeleteAuthedDevice env u g d ct = (Inr records, ct')" and "r \<in> set records"
  shows "ad_UserID r = TrimSpace u \<and> ad_DeviceID r = TrimSpace d \<and>
    (\<forall>key n. gget (networks (ct_nc ct)) key = Some n \<longrightarrow>
       (\<exists>n'. gget (networks (ct_nc ct')) key = Some n' \<and>
          (\<forall>ip. gget (ni_Clients n') ip =
             (case gget (ni_Clients n) ip of
                Some c \<Rightarrow> if device_gone records n c then None else Some c | None \<Rightarrow> None)))) \<and>
    (\<forall>now reg addr caps x ct2. rq_Token reg = ad_GroupName r \<and> rq_DeviceId reg = ad_DeviceID r \<longrightarrow>
       register env now reg addr caps ct' \<noteq> Some (Inr x, ct2))"
proof -
  obtain m where m: "DeleteAuthedDevice (ce_UMStore env) u g d (ct_um ct) = (Inr records, m)"
    and ct': "ct' = ct\<lparr>ct_um := m, ct_nc := removeAuthedDeviceRuntimeState records (ct_nc ct)\<rparr>"
    using del by (auto simp: ctl_DeleteAuthedDevice_def split: prod.splits sum.splits)
  note rec = Delete_records [OF m assms(2,4)]
  have "\<exists>n'. gget (networks (ct_nc ct')) key = Some n' \<and> removed_network (device_gone records n) n n'"
    if "gget (networks (ct_nc ct)) key = Some n" for key n
    using removeRuntime_spec(2) [OF assms(1) that] by (simp add: ct')
  moreover have "register env now reg addr caps ct' \<noteq> Some (Inr x, ct2)"
    if "rq_Token reg = ad_GroupName r" "rq_DeviceId reg = ad_DeviceID r" for now reg addr caps x ct2
    by (rule register_needs_record) (use rec(2) that in \<open>simp add: ct'\<close>)
  ultimately show ?thesis unfolding removed_network_def using rec(1) by blast
qed

lemma sample_um_wf: "um_wf (ct_um sample_ct)"
proof -
  have "TrimSpace ''ms.net'' = ''ms.net''" by code_simp
  then show ?thesis
    by (simp add: um_wf_def sample_ct_def NewUserManager_def sample_device_def authedDeviceKey_def gwf_def)
qed

theorem delete_device_exact_witness:
  "\<forall>x ct2. register sample_control 5 sample_reg ''1.2.3.4:50'' []
     (snd (ctl_DeleteAuthedDevice sample_control ''sdl-1'' [] ''dev-a'' sample_ct)) \<noteq> Some (Inr x, ct2)"
proof -
  have t: "TrimSpace ''sdl-1'' = ''sdl-1''" "TrimSpace ''dev-a'' = ''dev-a''" by code_simp+
  have "fst (ctl_DeleteAuthedDevice sample_control ''sdl-1'' [] ''dev-a'' sample_ct) = Inr [sample_device]"
    by (simp add: ctl_DeleteAuthedDevice_def DeleteAuthedDevice_def Let_def t sample_control_def sample_ct_def
        NewUserManager_def resolveGroup_def matchingDevices_def sample_device_def saved_def saveLocked_def)
  then have "ctl_DeleteAuthedDevice sample_control ''sdl-1'' [] ''dev-a'' sample_ct =
      (Inr [sample_device], snd (ctl_DeleteAuthedDevice sample_control ''sdl-1'' [] ''dev-a'' sample_ct))"
    by (metis prod.collapse)
  moreover have "sample_device \<in> set [sample_device]" and "rq_Token sample_reg = ad_GroupName sample_device"
    and "rq_DeviceId sample_reg = ad_DeviceID sample_device"
    by (simp_all add: sample_reg_def sample_device_def)
  ultimately show ?thesis using delete_device_exact [OF sample_ct_ok sample_um_wf] by blast
qed

end
