(* ===== verification/Push.thy ===== *)
theory Push
  imports Registration
begin

text \<open>
  Device lists that clients pull or that the controller pushes when a peer or the gateways change, and the
  refresh of gateway grants: the rest of \<^verbatim>\<open>control/registration.go\<close>. Building the grants of a client changes the
  cache of the gateways, so the loops over the clients thread \<^typ>\<open>GatewayState\<close>.
\<close>

section \<open>Pulling the list\<close>

record DeviceListMessage =
  dm_Epoch :: u32
  dm_DeviceInfoList :: "DeviceInfo list"
  dm_GatewayAccessGrants :: "GatewayAccessGrant list"
  dm_GatewayPolicyRev :: u64

definition marshalDeviceList ::
    "(DeviceListMessage \<Rightarrow> bytes result) \<Rightarrow> DeviceListMessage \<Rightarrow> bytes result" where
  "marshalDeviceList marshal msg =
     (case marshal msg of Inl err \<Rightarrow> Inl (''DeviceList marshal error: '' @ err) | Inr payload \<Rightarrow> Inr payload)"

definition pulledList ::
    "control_env \<Rightarrow> gtime \<Rightarrow> string \<Rightarrow> u32 \<Rightarrow> DeviceList \<Rightarrow> Controller \<Rightarrow> DeviceListMessage \<times> Controller" where
  "pulledList env now networkKey selfIP deviceList ct =
     (case FindClientByVirtualIPInNetwork (ct_nc ct) networkKey selfIP of
        None \<Rightarrow> (\<lparr>dm_Epoch = dl_Epoch deviceList, dm_DeviceInfoList = dl_DeviceInfoList deviceList,
                  dm_GatewayAccessGrants = [], dm_GatewayPolicyRev = 0\<rparr>, ct)
      | Some client \<Rightarrow>
          (let routeNetworkKey = (if TrimSpace networkKey = [] then clientNetworkKey client [] else networkKey) in
           case buildGatewayAccessGrantsForExistingClient (gatewayEnv env) now routeNetworkKey selfIP
                  (cl_DeviceId client) (ct_gateways ct) of
             ((grants, policyRev), gs) \<Rightarrow>
               (\<lparr>dm_Epoch = dl_Epoch deviceList,
                 dm_DeviceInfoList = enrichDeviceInfoListExitNodes (ct_exitNodeApproved ct) (ct_nc ct)
                                       routeNetworkKey (dl_DeviceInfoList deviceList),
                 dm_GatewayAccessGrants = grants, dm_GatewayPolicyRev = policyRev\<rparr>,
                ct\<lparr>ct_gateways := gs\<rparr>)))"

definition HandlePullDeviceListPacketInNetwork ::
    "control_env \<Rightarrow> (DeviceListMessage \<Rightarrow> bytes result) \<Rightarrow> gtime \<Rightarrow> Packet \<Rightarrow> string \<Rightarrow> Controller
     \<Rightarrow> Packet result \<times> Controller" where
  "HandlePullDeviceListPacketInNetwork env marshal now request networkKey ct =
     (let selfIP = IpToUint32 (pk_SrcIP request) in
      case DeviceListByIPInNetwork (ct_nc ct) networkKey selfIP of
        None \<Rightarrow> (Inr (buildDisconnectPacket request), ct)
      | Some deviceList \<Rightarrow>
          (case pulledList env now networkKey selfIP deviceList ct of
             (msg, ct') \<Rightarrow>
               (buildServicePacket (marshalDeviceList marshal) request AppProtoPushDeviceList msg, ct')))"

section \<open>Pushing lists\<close>

definition buildPushDeviceListPacket ::
    "(DeviceListMessage \<Rightarrow> bytes result) \<Rightarrow> string \<Rightarrow> u32 \<Rightarrow> DeviceListMessage \<Rightarrow> Packet result" where
  "buildPushDeviceListPacket marshal networkKey targetIP push =
     (case marshalDeviceList marshal push of
        Inl err \<Rightarrow> Inl err
      | Inr payload \<Rightarrow>
          Inr (servicePacket AppProtoPushDeviceList (net_IPv4 0 0 0 1) (Uint32ToIP targetIP) payload networkKey))"

text \<open>The packet of one target, the body of the loops below.\<close>

definition pushTo ::
    "control_env \<Rightarrow> (DeviceListMessage \<Rightarrow> bytes result) \<Rightarrow> gtime \<Rightarrow> exit_approvals \<Rightarrow> NetworkInfo \<Rightarrow> u32 \<Rightarrow> ClientInfo
     \<Rightarrow> GatewayState \<Rightarrow> Packet result \<times> GatewayState" where
  "pushTo env marshal now approved network targetIP targetClient gs =
     (let targetNetworkKey = clientNetworkKey targetClient (ni_Group network) in
      case buildGatewayAccessGrantsForExistingClient (gatewayEnv env) now targetNetworkKey targetIP
             (cl_DeviceId targetClient) gs of
        ((grants, policyRev), gs') \<Rightarrow>
          (buildPushDeviceListPacket marshal targetNetworkKey targetIP
             \<lparr>dm_Epoch = ucast (ni_Epoch network),
              dm_DeviceInfoList = enrichDeviceInfoListExitNodesFromClients approved (ni_Clients network)
                                    (buildDeviceInfoList (ni_Clients network) targetIP),
              dm_GatewayAccessGrants = grants, dm_GatewayPolicyRev = policyRev\<rparr>, gs'))"

fun pushEach ::
    "(u32 \<Rightarrow> ClientInfo \<Rightarrow> bool) \<Rightarrow> (u32 \<Rightarrow> ClientInfo \<Rightarrow> GatewayState \<Rightarrow> Packet result \<times> GatewayState)
     \<Rightarrow> (u32, ClientInfo) gomap \<Rightarrow> Packet list \<Rightarrow> GatewayState \<Rightarrow> Packet list result \<times> GatewayState" where
  "pushEach sel push [] packets gs = (Inr packets, gs)"
| "pushEach sel push ((targetIP, targetClient) # rest) packets gs =
     (if \<not> sel targetIP targetClient then pushEach sel push rest packets gs
      else case push targetIP targetClient gs of
             (Inl err, gs') \<Rightarrow> (Inl err, gs')
           | (Inr packet, gs') \<Rightarrow> pushEach sel push rest (packets @ [packet]) gs')"

text \<open>The targets of a change: the other online clients with the scope of the changed one.\<close>

definition peerTarget :: "NetworkInfo \<Rightarrow> u32 \<Rightarrow> ClientInfo \<Rightarrow> u32 \<Rightarrow> ClientInfo \<Rightarrow> bool" where
  "peerTarget network changedIP changedClient targetIP targetClient \<longleftrightarrow>
     targetIP \<noteq> changedIP \<and> cl_ControlOnline targetClient \<and>
     clientNetworkScope targetClient (ni_Group network) = clientNetworkScope changedClient (ni_Group network)"

definition BuildPushDeviceListPacketsForPeerChangeInNetwork ::
    "control_env \<Rightarrow> (DeviceListMessage \<Rightarrow> bytes result) \<Rightarrow> gtime \<Rightarrow> string \<Rightarrow> u32 \<Rightarrow> Controller
     \<Rightarrow> Packet list result \<times> Controller" where
  "BuildPushDeviceListPacketsForPeerChangeInNetwork env marshal now networkKey changedIP ct =
     (case forEachVirtualNetworkRead (ct_nc ct) networkKey
             (\<lambda>_ network (packets, gs).
                case gget (ni_Clients network) changedIP of
                  None \<Rightarrow> (True, (packets, gs))
                | Some changedClient \<Rightarrow>
                    (False,
                     if \<not> cl_ControlOnline changedClient then (packets, gs)
                     else pushEach (peerTarget network changedIP changedClient)
                            (pushTo env marshal now (ct_exitNodeApproved ct) network) (ni_Clients network) [] gs))
             (Inr [], ct_gateways ct) of
        (packets, gs) \<Rightarrow> (packets, ct\<lparr>ct_gateways := gs\<rparr>))"

definition BuildPushDeviceListPacketsForPeerChange ::
    "control_env \<Rightarrow> (DeviceListMessage \<Rightarrow> bytes result) \<Rightarrow> gtime \<Rightarrow> u32 \<Rightarrow> Controller
     \<Rightarrow> Packet list result \<times> Controller" where
  "BuildPushDeviceListPacketsForPeerChange env marshal now changedIP ct =
     BuildPushDeviceListPacketsForPeerChangeInNetwork env marshal now [] changedIP ct"

text \<open>The address of the first online client with the user and the device; 0 when there is none.\<close>

definition selectDeviceIP :: "NetworkControl \<Rightarrow> string \<Rightarrow> string \<Rightarrow> u32" where
  "selectDeviceIP nc userID deviceID =
     forEachVirtualNetworkRead nc []
       (\<lambda>_ network selectedIP.
          case find (\<lambda>(_, client). cl_UserID client = userID \<and> cl_DeviceId client = deviceID \<and> cl_ControlOnline client)
                 (ni_Clients network) of
            Some (_, client) \<Rightarrow> (False, cl_VirtualIp client) | None \<Rightarrow> (True, selectedIP))
       0"

definition BuildPushDeviceListPacketsForAuthedDeviceChange ::
    "control_env \<Rightarrow> (DeviceListMessage \<Rightarrow> bytes result) \<Rightarrow> gtime \<Rightarrow> string \<Rightarrow> string \<Rightarrow> Controller
     \<Rightarrow> Packet list result \<times> Controller" where
  "BuildPushDeviceListPacketsForAuthedDeviceChange env marshal now userID0 deviceID0 ct =
     (let userID = TrimSpace userID0; deviceID = TrimSpace deviceID0;
          selectedIP = selectDeviceIP (ct_nc ct) userID deviceID
      in if userID = [] \<or> deviceID = [] \<or> selectedIP = 0 then (Inr [], ct)
         else BuildPushDeviceListPacketsForPeerChange env marshal now selectedIP ct)"

definition BuildPushDeviceListPacketsForGatewayChange ::
    "control_env \<Rightarrow> (DeviceListMessage \<Rightarrow> bytes result) \<Rightarrow> gtime \<Rightarrow> Controller \<Rightarrow> Packet list result \<times> Controller"
  where
  "BuildPushDeviceListPacketsForGatewayChange env marshal now ct =
     (case forEachVirtualNetworkRead (ct_nc ct) []
             (\<lambda>_ network (packets, gs).
                case packets of
                  Inl err \<Rightarrow> (False, (packets, gs))
                | Inr ps \<Rightarrow>
                    (case pushEach (\<lambda>_ client. cl_ControlOnline client)
                            (pushTo env marshal now (ct_exitNodeApproved ct) network) (ni_Clients network) ps gs of
                       (Inl err, gs') \<Rightarrow> (False, (Inl err, gs'))
                     | (Inr ps', gs') \<Rightarrow> (True, (Inr ps', gs'))))
             (Inr [], ct_gateways ct) of
        (packets, gs) \<Rightarrow> (packets, ct\<lparr>ct_gateways := gs\<rparr>))"

definition BuildPushDeviceListPacketsForGatewayChangeIfNeeded ::
    "control_env \<Rightarrow> (DeviceListMessage \<Rightarrow> bytes result) \<Rightarrow> gtime \<Rightarrow> Controller \<Rightarrow> Packet list result \<times> Controller"
  where
  "BuildPushDeviceListPacketsForGatewayChangeIfNeeded env marshal now ct =
     (case syncGatewayGrantPolicyLocked (approvedAliveGatewayNodesLocked (gatewayEnv env) now (ct_gateways ct))
             (ct_gateways ct) of
        ((_, changed), gs) \<Rightarrow>
          if \<not> changed then (Inr [], ct\<lparr>ct_gateways := gs\<rparr>)
          else BuildPushDeviceListPacketsForGatewayChange env marshal now (ct\<lparr>ct_gateways := gs\<rparr>))"

section \<open>Refreshing grants\<close>

record RefreshGatewayGrantRequest =
  rf_VirtualIp :: u32
  rf_DeviceId :: string
  rf_LastSessionId :: u64
  rf_LastPolicyRev :: u64
  rf_ForceReissue :: bool

datatype RefreshGatewayGrantResult =
  REFRESH_UNSPECIFIED | REFRESH_UPDATED | REFRESH_NO_CHANGE | REFRESH_TEMPORARILY_UNAVAILABLE | REFRESH_REVOKED

record RefreshGatewayGrantResponse =
  rp_HasUpdate :: bool
  rp_GatewayAccessGrant :: "GatewayAccessGrant option"
  rp_Reason :: string
  rp_GatewayAccessGrants :: "GatewayAccessGrant list"
  rp_GatewayPolicyRev :: u64
  rp_Result :: RefreshGatewayGrantResult

definition refreshError :: "NetworkControl \<Rightarrow> Packet \<Rightarrow> string \<Rightarrow> RefreshGatewayGrantRequest \<Rightarrow> string option" where
  "refreshError nc request networkKey req =
     (if rf_VirtualIp req = 0 then Some ''refresh gateway grant virtual_ip is empty''
      else if rf_DeviceId req = [] then Some ''refresh gateway grant device_id is empty''
      else if (case To4 (pk_SrcIP request) of None \<Rightarrow> True | Some srcIP \<Rightarrow> IpToUint32 srcIP \<noteq> rf_VirtualIp req)
      then Some ''refresh gateway grant source mismatch''
      else if \<not> clientOwnsVirtualIPInNetwork nc networkKey (rf_VirtualIp req) (rf_DeviceId req)
      then Some ''refresh gateway grant device mismatch'' else None)"

definition refreshResponse ::
    "RefreshGatewayGrantRequest \<Rightarrow> GatewayAccessGrant list \<Rightarrow> u64 \<Rightarrow> bool \<Rightarrow> RefreshGatewayGrantResponse" where
  "refreshResponse req grants gatewayPolicyRev changed =
     (let resp = \<lparr>rp_HasUpdate = True, rp_GatewayAccessGrant = None, rp_Reason = ''refreshed'',
                  rp_GatewayAccessGrants = [], rp_GatewayPolicyRev = gatewayPolicyRev, rp_Result = REFRESH_UPDATED\<rparr>
      in if grants \<noteq> []
         then (if \<not> rf_ForceReissue req \<and> rf_LastSessionId req \<noteq> 0 \<and>
                  rf_LastPolicyRev req = gatewayPolicyRev \<and> \<not> changed
               then resp\<lparr>rp_HasUpdate := False, rp_Reason := ''gateway grant unchanged'', rp_Result := REFRESH_NO_CHANGE\<rparr>
               else resp\<lparr>rp_GatewayAccessGrant := selectPrimaryGatewayGrant grants, rp_GatewayAccessGrants := grants\<rparr>)
         else if rf_LastPolicyRev req < gatewayPolicyRev
         then resp\<lparr>rp_Reason := ''gateway policy cleared'', rp_Result := REFRESH_REVOKED\<rparr>
         else resp\<lparr>rp_HasUpdate := False, rp_Reason := ''no gateway available'',
                   rp_Result := REFRESH_TEMPORARILY_UNAVAILABLE\<rparr>)"

text \<open>The network that the grants are for; without a key it is that of the client with the address.\<close>

definition refreshNetwork :: "NetworkControl \<Rightarrow> string \<Rightarrow> u32 \<Rightarrow> string" where
  "refreshNetwork nc networkKey virtualIP =
     (if TrimSpace networkKey = []
      then (case FindClientByVirtualIPInNetwork nc [] virtualIP of
              Some client \<Rightarrow> clientNetworkKey client [] | None \<Rightarrow> networkKey)
      else networkKey)"

definition answerRefresh ::
    "control_env \<Rightarrow> gtime \<Rightarrow> Packet \<Rightarrow> string \<Rightarrow> RefreshGatewayGrantRequest \<Rightarrow> Controller
     \<Rightarrow> RefreshGatewayGrantResponse result \<times> Controller" where
  "answerRefresh env now request networkKey req ct =
     (case refreshError (ct_nc ct) request networkKey req of
        Some err \<Rightarrow> (Inl err, ct)
      | None \<Rightarrow>
          (case buildGatewayAccessGrantsForRefresh (gatewayEnv env) now
                  (refreshNetwork (ct_nc ct) networkKey (rf_VirtualIp req)) (rf_VirtualIp req) (rf_DeviceId req)
                  (rf_LastSessionId req) (rf_ForceReissue req) (ct_gateways ct) of
             ((grants, gatewayPolicyRev, changed), gs) \<Rightarrow>
               (Inr (refreshResponse req grants gatewayPolicyRev changed), ct\<lparr>ct_gateways := gs\<rparr>)))"

definition HandleRefreshGatewayGrantPacketInNetwork ::
    "control_env \<Rightarrow> (RefreshGatewayGrantResponse \<Rightarrow> bytes result) \<Rightarrow> gtime \<Rightarrow> Packet
     \<Rightarrow> RefreshGatewayGrantRequest result \<Rightarrow> string \<Rightarrow> Controller \<Rightarrow> Packet result \<times> Controller" where
  "HandleRefreshGatewayGrantPacketInNetwork env marshal now request decoded networkKey ct =
     (case decoded of
        Inl err \<Rightarrow> (Inl err, ct)
      | Inr req \<Rightarrow>
          (case answerRefresh env now request networkKey req ct of
             (Inl err, ct') \<Rightarrow> (Inl err, ct')
           | (Inr resp, ct') \<Rightarrow>
               (buildServicePacket marshal request AppProtoRefreshGatewayGrantResponse resp, ct')))"

end
