(* ===== verification/Stream_Hub.thy ===== *)
theory Stream_Hub
  imports Packet
begin

text \<open>
  The table of open control sessions of \<^verbatim>\<open>handlers/quic.go\<close>: \<^verbatim>\<open>streamHub\<close> with its three maps, the operations that
  register and remove routes, and the writes that are delivered through them. A contract of a route table
  is stated as a locale, the hub is shown to implement it, and every history of the hub refines a plain map from
  routes to sessions.

  A \<^verbatim>\<open>*sessionStream\<close> is the identity of the object together with its remote address; the result of a write to the
  transport is a parameter.
\<close>

section \<open>State\<close>

record sessionStream =
  ss_id :: nat
  ss_remoteAddr :: string

record streamHub =
  sh_byIP :: "(u32, sessionStream) gomap"
  sh_byRoute :: "(string, sessionStream) gomap"
  sh_ipsByAddr :: "(string, (string, sessionStream) gomap) gomap"

definition errStreamUnavailable :: string where "errStreamUnavailable = ''stream unavailable''"

definition newStreamHub :: streamHub where
  "newStreamHub = \<lparr>sh_byIP = [], sh_byRoute = [], sh_ipsByAddr = []\<rparr>"

definition routeKey :: "string \<Rightarrow> u32 \<Rightarrow> string" where
  "routeKey networkKey virtualIP = TrimSpace networkKey @ CHR ''|'' # show_word virtualIP"

definition routeIP :: "string \<Rightarrow> u32 option" where
  "routeIP key = (case Cut key CHR ''|'' of
     None \<Rightarrow> None | Some (_, ipText) \<Rightarrow> map_option of_nat (ParseUint ipText 32))"

section \<open>Operations\<close>

text \<open>\<^verbatim>\<open>if mapped, ok := m[key]; ok && mapped == target { delete(m, key) }\<close>.\<close>

definition deleteOwn :: "sessionStream \<Rightarrow> 'k \<Rightarrow> ('k, sessionStream) gomap \<Rightarrow> ('k, sessionStream) gomap" where
  "deleteOwn target key m = (if gget m key = Some target then gdel key m else m)"

definition dropIP :: "string \<Rightarrow> sessionStream \<Rightarrow> streamHub \<Rightarrow> streamHub" where
  "dropIP key target h = (case routeIP key of
     None \<Rightarrow> h | Some virtualIP \<Rightarrow> h\<lparr>sh_byIP := deleteOwn target virtualIP (sh_byIP h)\<rparr>)"

text \<open>The inner map is shared: a deletion in it is seen through \<^verbatim>\<open>ipsByAddr\<close>, and an empty one is removed.\<close>

definition setIPs :: "string \<Rightarrow> (string, sessionStream) gomap \<Rightarrow> streamHub \<Rightarrow> streamHub" where
  "setIPs addr ips h = h\<lparr>sh_ipsByAddr :=
     (if ips = [] then gdel addr (sh_ipsByAddr h) else gput addr ips (sh_ipsByAddr h))\<rparr>"

definition unregisterLocked :: "string \<Rightarrow> sessionStream \<Rightarrow> streamHub \<Rightarrow> streamHub" where
  "unregisterLocked key target h =
     (if gget (sh_byRoute h) key \<noteq> Some target then h
      else let h = dropIP key target (h\<lparr>sh_byRoute := gdel key (sh_byRoute h)\<rparr>)
           in (case gget (sh_ipsByAddr h) (ss_remoteAddr target) of
                 None \<Rightarrow> h
               | Some ips \<Rightarrow> setIPs (ss_remoteAddr target) (deleteOwn target key ips) h))"

text \<open>The new hub, and the session that was replaced, which the caller closes.\<close>

definition registerSession ::
    "string option \<Rightarrow> string \<Rightarrow> u32 \<Rightarrow> sessionStream \<Rightarrow> streamHub \<Rightarrow> streamHub \<times> sessionStream option" where
  "registerSession remoteAddr networkKey virtualIP stream h =
     (case remoteAddr of
        None \<Rightarrow> (h, None)
      | Some addr \<Rightarrow>
          if virtualIP = 0 then (h, None)
          else let key = routeKey networkKey virtualIP;
                   replaced = (case gget (sh_byRoute h) key of
                     None \<Rightarrow> None | Some previous \<Rightarrow> if previous = stream then None else Some previous);
                   h = (case replaced of None \<Rightarrow> h | Some previous \<Rightarrow> unregisterLocked key previous h);
                   h = h\<lparr>sh_byRoute := gput key stream (sh_byRoute h)\<rparr>;
                   h = (if TrimSpace networkKey = [] then h\<lparr>sh_byIP := gput virtualIP stream (sh_byIP h)\<rparr> else h);
                   ips = (case gget (sh_ipsByAddr h) addr of None \<Rightarrow> [] | Some ips \<Rightarrow> ips)
               in (h\<lparr>sh_ipsByAddr := gput addr (gput key stream ips) (sh_ipsByAddr h)\<rparr>, replaced))"

definition dropRoute :: "sessionStream \<Rightarrow> string \<Rightarrow> streamHub \<Rightarrow> streamHub" where
  "dropRoute target key h = dropIP key target (h\<lparr>sh_byRoute := deleteOwn target key (sh_byRoute h)\<rparr>)"

definition unregisterSession :: "sessionStream option \<Rightarrow> streamHub \<Rightarrow> streamHub" where
  "unregisterSession session h =
     (case session of
        None \<Rightarrow> h
      | Some target \<Rightarrow>
          if ss_remoteAddr target = [] then h
          else case gget (sh_ipsByAddr h) (ss_remoteAddr target) of
            None \<Rightarrow> h
          | Some ips \<Rightarrow>
              setIPs (ss_remoteAddr target) (gfilter (\<lambda>_ current. current \<noteq> target) ips)
                (fold (dropRoute target) (map fst (filter (\<lambda>(_, current). current = target) ips)) h))"

definition unregisterStaleRoute :: "string \<Rightarrow> u32 \<Rightarrow> sessionStream option \<Rightarrow> streamHub \<Rightarrow> streamHub" where
  "unregisterStaleRoute networkKey virtualIP session h =
     (case session of
        None \<Rightarrow> h
      | Some target \<Rightarrow> if ss_remoteAddr target = [] then h
                        else unregisterLocked (routeKey networkKey virtualIP) target h)"

definition unregisterStaleIP :: "u32 \<Rightarrow> sessionStream option \<Rightarrow> streamHub \<Rightarrow> streamHub" where
  "unregisterStaleIP = unregisterStaleRoute []"

text \<open>
  A write: the error, the hub, the session that received the framed payload and the session that was closed.
  \<^verbatim>\<open>transport\<close> is the error of the underlying writer.
\<close>

record written =
  wr_error :: "string option"
  wr_delivered :: "(sessionStream \<times> bytes) option"
  wr_closed :: "sessionStream option"

definition writeToSession ::
    "(sessionStream \<Rightarrow> bytes \<Rightarrow> string option) \<Rightarrow> sessionStream option \<Rightarrow> bytes \<Rightarrow> streamHub \<Rightarrow> written \<times> streamHub" where
  "writeToSession transport found payload h =
     (case found of
        None \<Rightarrow> (\<lparr>wr_error = Some errStreamUnavailable, wr_delivered = None, wr_closed = None\<rparr>, h)
      | Some target \<Rightarrow>
          (case transport target (writeFramed payload) of
             Some err \<Rightarrow> (\<lparr>wr_error = Some (''write stream '' @ ss_remoteAddr target @ '': '' @ err),
                            wr_delivered = None, wr_closed = Some target\<rparr>,
                          unregisterSession (Some target) h)
           | None \<Rightarrow> (\<lparr>wr_error = None, wr_delivered = Some (target, writeFramed payload), wr_closed = None\<rparr>, h)))"

definition writeToIP ::
    "(sessionStream \<Rightarrow> bytes \<Rightarrow> string option) \<Rightarrow> u32 \<Rightarrow> bytes \<Rightarrow> streamHub \<Rightarrow> written \<times> streamHub" where
  "writeToIP transport virtualIP payload h =
     writeToSession transport (gget (sh_byIP h) virtualIP) payload h"

definition writeToRoute ::
    "(sessionStream \<Rightarrow> bytes \<Rightarrow> string option) \<Rightarrow> string \<Rightarrow> u32 \<Rightarrow> bytes \<Rightarrow> streamHub \<Rightarrow> written \<times> streamHub" where
  "writeToRoute transport networkKey virtualIP payload h =
     (if TrimSpace networkKey = [] then writeToIP transport virtualIP payload h
      else writeToSession transport (gget (sh_byRoute h) (routeKey networkKey virtualIP)) payload h)"

text \<open>Errors of a read that mean that the peer has gone away.\<close>

datatype read_error = IoEOF | NetErrClosed | ContextCanceled | OtherError string

definition isExpectedSessionReadClose :: "read_error option \<Rightarrow> bool" where
  "isExpectedSessionReadClose err =
     (case err of
        None \<Rightarrow> False
      | Some (OtherError msg) \<Rightarrow>
          Contains msg ''NO_ERROR'' \<or> Contains msg ''Application error 0x0'' \<or> Contains msg ''closed network connection''
      | Some _ \<Rightarrow> True)"

section \<open>Route keys\<close>

lemma routeKey_inj: "routeKey n v = routeKey n' v' \<longleftrightarrow> TrimSpace n = TrimSpace n' \<and> v = v'"
proof
  assume "routeKey n v = routeKey n' v'"
  moreover have "CHR ''|'' \<notin> set (show_word w)" for w :: u32
    using show_word_digits [of "CHR ''|''" w] by auto
  ultimately show "TrimSpace n = TrimSpace n' \<and> v = v'"
    using sep_append_inj_right [of "CHR ''|''" "show_word v" "show_word v'" "TrimSpace n" "TrimSpace n'"]
    by (simp add: routeKey_def)
qed (simp add: routeKey_def)

lemma routeIP_plain: "TrimSpace n = [] \<Longrightarrow> routeIP (routeKey n v) = Some v"
  using Cut_append [of "CHR ''|''" "[]" "show_word v"] ParseUint_show_word [where 'a = 32 and bits = 32 and w = v]
  by (simp add: routeKey_def routeIP_def)

section \<open>Invariant\<close>

text \<open>The entry of a route in the inner map of an address.\<close>

definition owned :: "streamHub \<Rightarrow> string \<Rightarrow> string \<Rightarrow> sessionStream option" where
  "owned h a key = (case gget (sh_ipsByAddr h) a of None \<Rightarrow> None | Some ips \<Rightarrow> gget ips key)"

text \<open>
  The two indexes agree: a route leads to a session exactly when the inner map of that session's address holds it,
  inner maps hold sessions of their own address only, and the table by address alone is part of the table by route.
\<close>

definition hub_ok :: "streamHub \<Rightarrow> bool" where
  "hub_ok h \<longleftrightarrow>
     (\<forall>key s. gget (sh_byRoute h) key = Some s \<longleftrightarrow> owned h (ss_remoteAddr s) key = Some s) \<and>
     (\<forall>a key s. owned h a key = Some s \<longrightarrow> ss_remoteAddr s = a \<and> a \<noteq> []) \<and>
     (\<forall>a ips. gget (sh_ipsByAddr h) a = Some ips \<longrightarrow> gwf ips \<and> ips \<noteq> []) \<and>
     (\<forall>v s. gget (sh_byIP h) v = Some s \<longrightarrow> gget (sh_byRoute h) (routeKey [] v) = Some s)"

lemma hub_okI:
  assumes "\<And>key s. gget (sh_byRoute h) key = Some s \<longleftrightarrow> owned h (ss_remoteAddr s) key = Some s"
    and "\<And>a key s. owned h a key = Some s \<Longrightarrow> ss_remoteAddr s = a \<and> a \<noteq> []"
    and "\<And>a ips. gget (sh_ipsByAddr h) a = Some ips \<Longrightarrow> gwf ips \<and> ips \<noteq> []"
    and "\<And>v s. gget (sh_byIP h) v = Some s \<Longrightarrow> gget (sh_byRoute h) (routeKey [] v) = Some s"
  shows "hub_ok h"
  using assms unfolding hub_ok_def by blast

lemma hub_okD:
  assumes "hub_ok h"
  shows "gget (sh_byRoute h) key = Some s \<longleftrightarrow> owned h (ss_remoteAddr s) key = Some s"
    and "owned h a key = Some s \<Longrightarrow> ss_remoteAddr s = a \<and> a \<noteq> []"
    and "gget (sh_ipsByAddr h) a = Some ips \<Longrightarrow> gwf ips \<and> ips \<noteq> []"
    and "gget (sh_byIP h) v = Some s \<Longrightarrow> gget (sh_byRoute h) (routeKey [] v) = Some s"
  using assms unfolding hub_ok_def by blast+

lemma gget_deleteOwn [simp]:
  "gget (deleteOwn target key m) k = (if k = key \<and> gget m key = Some target then None else gget m k)"
  by (simp add: deleteOwn_def)

lemma gwf_deleteOwn [gwf_intros]: "gwf m \<Longrightarrow> gwf (deleteOwn target key m)"
  by (simp add: deleteOwn_def gwf_del)

lemma owned_setIPs [simp]: "owned (setIPs a ips h) a' key = (if a' = a then gget ips key else owned h a' key)"
  by (simp add: owned_def setIPs_def)

lemma setIPs_fields [simp]:
  "sh_byRoute (setIPs a ips h) = sh_byRoute h" "sh_byIP (setIPs a ips h) = sh_byIP h"
  by (simp_all add: setIPs_def)

lemma ips_setIPs:
  "gget (sh_ipsByAddr (setIPs a ips h)) a' = (if a' = a then if ips = [] then None else Some ips else gget (sh_ipsByAddr h) a')"
  by (simp add: setIPs_def)

lemma dropIP_fields [simp]:
  "sh_byRoute (dropIP key target h) = sh_byRoute h" "sh_ipsByAddr (dropIP key target h) = sh_ipsByAddr h"
  by (simp_all add: dropIP_def split: option.splits)

lemma dropIP_byIP:
  "gget (sh_byIP (dropIP key target h)) v =
     (if routeIP key = Some v \<and> gget (sh_byIP h) v = Some target then None else gget (sh_byIP h) v)"
  by (auto simp: dropIP_def split: option.splits)

lemma owned_cong: "sh_ipsByAddr h = sh_ipsByAddr h' \<Longrightarrow> owned h = owned h'"
  by (intro ext) (simp add: owned_def)

lemma owned_irrelevant [simp]:
  "owned (dropIP key target h) = owned h"
  "owned (h\<lparr>sh_byRoute := r\<rparr>) = owned h"
  "owned (h\<lparr>sh_byIP := m\<rparr>) = owned h"
  by (rule owned_cong, simp)+

lemma owned_Some: "gget (sh_ipsByAddr h) a = Some ips \<Longrightarrow> gget ips key = owned h a key"
  by (simp add: owned_def)

lemma newStreamHub_ok: "hub_ok newStreamHub"
  by (rule hub_okI) (simp_all add: newStreamHub_def owned_def)

section \<open>Removal of a route\<close>

lemma unregisterLocked_byRoute:
  "gget (sh_byRoute (unregisterLocked key target h)) k =
     (if k = key \<and> gget (sh_byRoute h) key = Some target then None else gget (sh_byRoute h) k)"
  by (simp add: unregisterLocked_def Let_def split: option.splits)

lemma unregisterLocked_owned:
  "owned (unregisterLocked key target h) a k =
     (if a = ss_remoteAddr target \<and> k = key \<and> gget (sh_byRoute h) key = Some target \<and> owned h a key = Some target
      then None else owned h a k)"
  by (auto simp: unregisterLocked_def Let_def owned_Some split: option.splits) (simp add: owned_def)

lemma unregisterLocked_byIP:
  "gget (sh_byIP (unregisterLocked key target h)) v =
     (if gget (sh_byRoute h) key = Some target \<and> routeIP key = Some v \<and> gget (sh_byIP h) v = Some target
      then None else gget (sh_byIP h) v)"
  by (simp add: unregisterLocked_def Let_def dropIP_byIP split: option.splits)

lemma unregisterLocked_ips:
  assumes "hub_ok h" and "gget (sh_ipsByAddr (unregisterLocked key target h)) a = Some ips"
  shows "gwf ips \<and> ips \<noteq> []"
proof (cases "gget (sh_byRoute h) key = Some target")
  case True
  then obtain m where m: "gget (sh_ipsByAddr h) (ss_remoteAddr target) = Some m"
    using hub_okD(1) [OF assms(1)] by (fastforce simp: owned_def split: option.splits)
  show ?thesis
    using assms(2) True m hub_okD(3) [OF assms(1)]
    by (auto simp: unregisterLocked_def Let_def ips_setIPs split: if_splits intro: gwf_intros)
next
  case False
  then show ?thesis using assms hub_okD(3) [OF assms(1)] by (simp add: unregisterLocked_def)
qed

lemma unregisterLocked_ok:
  assumes "hub_ok h"
  shows "hub_ok (unregisterLocked key target h)"
proof (rule hub_okI)
  note ok = hub_okD [OF assms]
  show "gget (sh_byRoute (unregisterLocked key target h)) k = Some s \<longleftrightarrow>
      owned (unregisterLocked key target h) (ss_remoteAddr s) k = Some s" for k s
    using ok(1) [of k s] ok(1) [of key target]
    by (cases "k = key") (auto simp: unregisterLocked_byRoute unregisterLocked_owned)
  show "owned (unregisterLocked key target h) a k = Some s \<Longrightarrow> ss_remoteAddr s = a \<and> a \<noteq> []" for a k s
    using ok(2) [of a k s] by (simp add: unregisterLocked_owned split: if_splits)
  show "gget (sh_ipsByAddr (unregisterLocked key target h)) a = Some ips \<Longrightarrow> gwf ips \<and> ips \<noteq> []" for a ips
    by (rule unregisterLocked_ips [OF assms])
  show "gget (sh_byRoute (unregisterLocked key target h)) (routeKey [] v) = Some s"
    if "gget (sh_byIP (unregisterLocked key target h)) v = Some s" for v s
    using that ok(4) [of v s] routeIP_plain [of "[]" v]
    by (auto simp: unregisterLocked_byIP unregisterLocked_byRoute split: if_splits)
qed

section \<open>Removal of a session\<close>

lemma dropRoutes_spec:
  shows "gget (sh_byRoute (fold (dropRoute target) ks h)) k =
      (if k \<in> set ks \<and> gget (sh_byRoute h) k = Some target then None else gget (sh_byRoute h) k)"
    and "gget (sh_byIP (fold (dropRoute target) ks h)) v =
      (if (\<exists>key \<in> set ks. routeIP key = Some v) \<and> gget (sh_byIP h) v = Some target then None else gget (sh_byIP h) v)"
    and "sh_ipsByAddr (fold (dropRoute target) ks h) = sh_ipsByAddr h"
  by (induction ks arbitrary: h) (auto simp: dropRoute_def dropIP_byIP)

lemma set_ownedKeys:
  "gwf ips \<Longrightarrow> set (map fst (filter (\<lambda>(_, current). current = target) ips)) = {key. gget ips key = Some target}"
  by (auto simp: gget_iff image_iff)

lemma owned_byRoute: "hub_ok h \<Longrightarrow> owned h a key = Some s \<Longrightarrow> gget (sh_byRoute h) key = Some s"
  using hub_okD(1,2) by metis

lemma unregisterSession_idle:
  assumes "hub_ok h" and "ss_remoteAddr target = [] \<or> gget (sh_ipsByAddr h) (ss_remoteAddr target) = None"
  shows "unregisterSession (Some target) h = h" and "gget (sh_byRoute h) key \<noteq> Some target"
proof -
  show "unregisterSession (Some target) h = h" using assms(2) by (auto simp: unregisterSession_def)
  show "gget (sh_byRoute h) key \<noteq> Some target"
    using assms(2) hub_okD(1) [OF assms(1), of key target] hub_okD(2) [OF assms(1), of "ss_remoteAddr target" key target]
    by (auto simp: owned_def)
qed

text \<open>The result of the removal in each of the three maps.\<close>

lemma unregisterSession_spec:
  assumes ok: "hub_ok h"
  shows "gget (sh_byRoute (unregisterSession (Some target) h)) key =
      (if gget (sh_byRoute h) key = Some target then None else gget (sh_byRoute h) key)" (is ?R)
    and "owned (unregisterSession (Some target) h) a key =
      (if owned h a key = Some target then None else owned h a key)" (is ?O)
    and "gget (sh_byIP (unregisterSession (Some target) h)) v =
      (if (\<exists>k. gget (sh_byRoute h) k = Some target \<and> routeIP k = Some v) \<and> gget (sh_byIP h) v = Some target
       then None else gget (sh_byIP h) v)" (is ?I)
    and "gget (sh_ipsByAddr (unregisterSession (Some target) h)) a = Some ips \<Longrightarrow> gwf ips \<and> ips \<noteq> []"
proof -
  have "?R \<and> ?O \<and> ?I \<and>
    (gget (sh_ipsByAddr (unregisterSession (Some target) h)) a = Some ips \<longrightarrow> gwf ips \<and> ips \<noteq> [])"
  proof (cases "ss_remoteAddr target = [] \<or> gget (sh_ipsByAddr h) (ss_remoteAddr target) = None")
    case True
    note idle = unregisterSession_idle [OF ok True]
    have "owned h a key \<noteq> Some target" using owned_byRoute [OF ok, of a key target] idle(2) by blast
    then show ?thesis using idle hub_okD(3) [OF ok, of a ips] by simp
  next
    case False
    then obtain m where ne: "ss_remoteAddr target \<noteq> []" and m: "gget (sh_ipsByAddr h) (ss_remoteAddr target) = Some m"
      by auto
    have wf: "gwf m" using hub_okD(3) [OF ok m] by simp
    define h1 where "h1 = fold (dropRoute target) (map fst (filter (\<lambda>(_, current). current = target) m)) h"
    have u: "unregisterSession (Some target) h =
        setIPs (ss_remoteAddr target) (gfilter (\<lambda>_ current. current \<noteq> target) m) h1"
      using ne m by (simp add: unregisterSession_def h1_def)
    have mine: "k \<in> set (map fst (filter (\<lambda>(_, current). current = target) m)) \<longleftrightarrow> gget (sh_byRoute h) k = Some target" for k
      unfolding set_ownedKeys [OF wf] using hub_okD(1) [OF ok, of k target] m by (simp add: owned_def)
    have R: ?R
      unfolding u setIPs_fields h1_def dropRoutes_spec(1) mine by simp
    have I: ?I
      unfolding u setIPs_fields h1_def dropRoutes_spec(2) Bex_def mine by (simp add: conj_commute)
    have h1: "owned h1 = owned h" unfolding h1_def by (rule owned_cong) (rule dropRoutes_spec(3))
    have "owned h a key \<noteq> Some target" if "a \<noteq> ss_remoteAddr target"
      using hub_okD(2) [OF ok, of a key target] that by blast
    then have O: ?O
      unfolding u by (auto simp: h1 gget_gfilter wf owned_Some [OF m] split: option.splits)
    have "gwf ips \<and> ips \<noteq> []" if "gget (sh_ipsByAddr (unregisterSession (Some target) h)) a = Some ips"
      using that hub_okD(3) [OF ok, of a ips] gwf_gfilter [OF wf]
      by (auto simp: u ips_setIPs h1_def dropRoutes_spec(3) split: if_splits)
    with R O I show ?thesis by blast
  qed
  then show ?R ?O ?I "gget (sh_ipsByAddr (unregisterSession (Some target) h)) a = Some ips \<Longrightarrow> gwf ips \<and> ips \<noteq> []"
    by blast+
qed

lemma unregisterSession_ok:
  assumes ok: "hub_ok h"
  shows "hub_ok (unregisterSession (Some target) h)"
proof (rule hub_okI)
  note spec = unregisterSession_spec [OF ok, of target]
  show "gget (sh_byRoute (unregisterSession (Some target) h)) k = Some s \<longleftrightarrow>
      owned (unregisterSession (Some target) h) (ss_remoteAddr s) k = Some s" for k s
    using hub_okD(1) [OF ok, of k s] by (auto simp: spec(1,2))
  show "owned (unregisterSession (Some target) h) a k = Some s \<Longrightarrow> ss_remoteAddr s = a \<and> a \<noteq> []" for a k s
    using hub_okD(2) [OF ok, of a k s] by (simp add: spec(2) split: if_splits)
  show "gget (sh_ipsByAddr (unregisterSession (Some target) h)) a = Some ips \<Longrightarrow> gwf ips \<and> ips \<noteq> []" for a ips
    by (rule spec(4))
  show "gget (sh_byRoute (unregisterSession (Some target) h)) (routeKey [] v) = Some s"
    if "gget (sh_byIP (unregisterSession (Some target) h)) v = Some s" for v s
    using that hub_okD(4) [OF ok, of v s] routeIP_plain [of "[]" v]
    by (auto simp: spec(1,3) split: if_splits)
qed

section \<open>Registration of a session\<close>

definition replaced :: "string \<Rightarrow> sessionStream \<Rightarrow> streamHub \<Rightarrow> sessionStream option" where
  "replaced key stream h = (case gget (sh_byRoute h) key of
     None \<Rightarrow> None | Some previous \<Rightarrow> if previous = stream then None else Some previous)"

definition evict :: "string \<Rightarrow> sessionStream \<Rightarrow> streamHub \<Rightarrow> streamHub" where
  "evict key stream h = (case replaced key stream h of None \<Rightarrow> h | Some previous \<Rightarrow> unregisterLocked key previous h)"

lemma evict_spec:
  assumes ok: "hub_ok h"
  shows "hub_ok (evict key stream h)"
    and "gget (sh_byRoute (evict key stream h)) k =
      (if k = key \<and> gget (sh_byRoute h) key \<noteq> Some stream then None else gget (sh_byRoute h) k)"
proof -
  show "hub_ok (evict key stream h)"
    using ok by (simp add: evict_def unregisterLocked_ok split: option.split)
  show "gget (sh_byRoute (evict key stream h)) k =
      (if k = key \<and> gget (sh_byRoute h) key \<noteq> Some stream then None else gget (sh_byRoute h) k)"
    by (auto simp: evict_def replaced_def unregisterLocked_byRoute split: option.splits)
qed

lemma registerSession_eq:
  assumes "virtualIP \<noteq> 0"
  shows "registerSession (Some addr) networkKey virtualIP stream h =
    (let key = routeKey networkKey virtualIP; h1 = evict key stream h
     in (h1\<lparr>sh_byRoute := gput key stream (sh_byRoute h1),
            sh_byIP := (if TrimSpace networkKey = [] then gput virtualIP stream (sh_byIP h1) else sh_byIP h1),
            sh_ipsByAddr := gput addr (gput key stream
              (case gget (sh_ipsByAddr h1) addr of None \<Rightarrow> [] | Some ips \<Rightarrow> ips)) (sh_ipsByAddr h1)\<rparr>,
         replaced key stream h))"
  using assms by (simp add: registerSession_def evict_def replaced_def Let_def)

lemma registerSession_byRoute:
  assumes "hub_ok h" and "v \<noteq> 0"
  shows "gget (sh_byRoute (fst (registerSession (Some a) n v s h))) k =
    (if k = routeKey n v then Some s else gget (sh_byRoute h) k)"
  using evict_spec(2) [OF assms(1), of "routeKey n v" s k] by (simp add: registerSession_eq [OF assms(2)] Let_def)

lemma registerSession_ok:
  assumes ok: "hub_ok h" and v: "v \<noteq> 0" and a: "ss_remoteAddr s \<noteq> []"
  shows "hub_ok (fst (registerSession (Some (ss_remoteAddr s)) n v s h))"
proof (rule hub_okI)
  define key where "key = routeKey n v"
  define h1 where "h1 = evict key s h"
  define h2 where "h2 = fst (registerSession (Some (ss_remoteAddr s)) n v s h)"
  note ok1 = evict_spec(1) [OF ok, of key s, folded h1_def]
  have h2: "h2 = h1\<lparr>sh_byRoute := gput key s (sh_byRoute h1),
            sh_byIP := (if TrimSpace n = [] then gput v s (sh_byIP h1) else sh_byIP h1),
            sh_ipsByAddr := gput (ss_remoteAddr s) (gput key s
              (case gget (sh_ipsByAddr h1) (ss_remoteAddr s) of None \<Rightarrow> [] | Some ips \<Rightarrow> ips)) (sh_ipsByAddr h1)\<rparr>"
    by (simp add: h2_def registerSession_eq [OF v] Let_def key_def h1_def)
  have R: "gget (sh_byRoute h2) k = (if k = key then Some s else gget (sh_byRoute h1) k)" for k
    by (simp add: h2)
  have O: "owned h2 a k = (if a = ss_remoteAddr s \<and> k = key then Some s else owned h1 a k)" for a k
    by (simp add: h2 owned_def split: option.split)
  have key1: "gget (sh_byRoute h1) key = None \<or> gget (sh_byRoute h1) key = Some s"
    using evict_spec(2) [OF ok, of key s key] by (simp add: h1_def)
  show "gget (sh_byRoute (fst (registerSession (Some (ss_remoteAddr s)) n v s h))) k = Some t \<longleftrightarrow>
      owned (fst (registerSession (Some (ss_remoteAddr s)) n v s h)) (ss_remoteAddr t) k = Some t" for k t
    using hub_okD(1) [OF ok1, of k t] key1 unfolding h2_def [symmetric] R O by auto
  show "owned (fst (registerSession (Some (ss_remoteAddr s)) n v s h)) b k = Some t \<Longrightarrow> ss_remoteAddr t = b \<and> b \<noteq> []"
    for b k t
    using hub_okD(2) [OF ok1, of b k t] a unfolding h2_def [symmetric] O by (auto split: if_splits)
  show "gget (sh_ipsByAddr (fst (registerSession (Some (ss_remoteAddr s)) n v s h))) b = Some ips \<Longrightarrow> gwf ips \<and> ips \<noteq> []"
    for b ips
    using hub_okD(3) [OF ok1, of b ips] hub_okD(3) [OF ok1, of b] unfolding h2_def [symmetric]
    by (auto simp: h2 gwf_put gwf_def [of "[_]"] update_Some_unfold split: if_splits option.splits)
  show "gget (sh_byRoute (fst (registerSession (Some (ss_remoteAddr s)) n v s h))) (routeKey [] w) = Some t"
    if "gget (sh_byIP (fst (registerSession (Some (ss_remoteAddr s)) n v s h))) w = Some t" for w t
  proof -
    have "routeKey [] w = key \<longleftrightarrow> TrimSpace n = [] \<and> w = v" by (auto simp: key_def routeKey_inj)
    then show ?thesis
      using that hub_okD(4) [OF ok1, of w t] key1 unfolding h2_def [symmetric] R
      by (auto simp: h2 split: if_splits)
  qed
qed

section \<open>The contract of a route table\<close>

text \<open>
  What the sessions rely on: routes lead to sessions, a session joins a route, leaves every route it has, or
  leaves one route if it still has it. The laws say what a lookup returns afterwards.
\<close>

locale route_table =
  fixes inv :: "'h \<Rightarrow> bool"
    and lookup :: "'h \<Rightarrow> 'r \<Rightarrow> 's option"
    and fresh :: 'h
    and route :: "'r \<Rightarrow> bool"
    and admissible :: "'r \<Rightarrow> 's \<Rightarrow> bool"
    and join :: "'r \<Rightarrow> 's \<Rightarrow> 'h \<Rightarrow> 'h"
    and leave :: "'s \<Rightarrow> 'h \<Rightarrow> 'h"
    and stale :: "'r \<Rightarrow> 's \<Rightarrow> 'h \<Rightarrow> 'h"
  assumes inv_fresh: "inv fresh"
    and lookup_fresh: "lookup fresh r = None"
    and inv_join: "inv h \<Longrightarrow> admissible r s \<Longrightarrow> inv (join r s h)"
    and lookup_join: "inv h \<Longrightarrow> admissible r s \<Longrightarrow> lookup (join r s h) r' = (if r' = r then Some s else lookup h r')"
    and inv_leave: "inv h \<Longrightarrow> inv (leave s h)"
    and lookup_leave: "inv h \<Longrightarrow> lookup (leave s h) r = (if lookup h r = Some s then None else lookup h r)"
    and inv_stale: "inv h \<Longrightarrow> inv (stale r s h)"
    and lookup_stale: "inv h \<Longrightarrow> route r \<Longrightarrow>
      lookup (stale r s h) r' = (if r' = r \<and> lookup h r = Some s then None else lookup h r')"
begin

definition represents :: "'h \<Rightarrow> ('r \<Rightarrow> 's option) \<Rightarrow> bool" where
  "represents h m \<longleftrightarrow> inv h \<and> lookup h = m"

lemma represents_fresh: "represents fresh (\<lambda>_. None)"
  by (simp add: represents_def inv_fresh lookup_fresh fun_eq_iff)

lemma represents_join: "represents h m \<Longrightarrow> admissible r s \<Longrightarrow> represents (join r s h) (m(r := Some s))"
  by (auto simp: represents_def inv_join lookup_join fun_eq_iff)

lemma represents_leave: "represents h m \<Longrightarrow> represents (leave s h) (\<lambda>r. if m r = Some s then None else m r)"
  by (auto simp: represents_def inv_leave lookup_leave fun_eq_iff)

lemma represents_stale:
  "represents h m \<Longrightarrow> route r \<Longrightarrow> represents (stale r s h) (if m r = Some s then m(r := None) else m)"
  by (auto simp: represents_def inv_stale lookup_stale fun_eq_iff)

lemma represents_lookup: "represents h m \<Longrightarrow> lookup h r = m r"
  by (simp add: represents_def fun_eq_iff)

text \<open>A session that has left has no route, and a late removal of a route leaves its new holder alone.\<close>

lemma left_unreachable: "inv h \<Longrightarrow> lookup (leave s h) r \<noteq> Some s"
  by (simp add: lookup_leave)

lemma stale_keeps_successor:
  "inv h \<Longrightarrow> route r \<Longrightarrow> admissible r s \<Longrightarrow> s' \<noteq> s \<Longrightarrow> lookup (stale r s' (join r s h)) r = Some s"
  by (simp add: lookup_stale inv_join lookup_join)

end

text \<open>The hub is a route table; a route is a trimmed network key and a virtual address.\<close>

definition hub_route :: "string \<times> u32 \<Rightarrow> bool" where
  "hub_route r \<longleftrightarrow> TrimSpace (fst r) = fst r"

definition hub_lookup :: "streamHub \<Rightarrow> string \<times> u32 \<Rightarrow> sessionStream option" where
  "hub_lookup h r = (if hub_route r then gget (sh_byRoute h) (routeKey (fst r) (snd r)) else None)"

definition hub_admissible :: "string \<times> u32 \<Rightarrow> sessionStream \<Rightarrow> bool" where
  "hub_admissible r s \<longleftrightarrow> hub_route r \<and> snd r \<noteq> 0 \<and> ss_remoteAddr s \<noteq> []"

definition hub_join :: "string \<times> u32 \<Rightarrow> sessionStream \<Rightarrow> streamHub \<Rightarrow> streamHub" where
  "hub_join r s h = fst (registerSession (Some (ss_remoteAddr s)) (fst r) (snd r) s h)"

lemma unregisterStaleRoute_eq:
  assumes "hub_ok h"
  shows "unregisterStaleRoute n v (Some s) h = unregisterLocked (routeKey n v) s h"
proof (cases "ss_remoteAddr s = []")
  case True
  then show ?thesis
    using unregisterSession_idle(2) [OF assms, of s] by (simp add: unregisterStaleRoute_def unregisterLocked_def)
qed (simp add: unregisterStaleRoute_def)

interpretation hub: route_table hub_ok hub_lookup newStreamHub hub_route hub_admissible hub_join
  "\<lambda>s. unregisterSession (Some s)" "\<lambda>r s. unregisterStaleRoute (fst r) (snd r) (Some s)"
proof (unfold_locales, goal_cases)
  case 1
  show ?case by (rule newStreamHub_ok)
next
  case (2 r)
  show ?case by (simp add: hub_lookup_def newStreamHub_def)
next
  case (3 h r s)
  then show ?case by (simp add: hub_join_def hub_admissible_def registerSession_ok)
next
  case (4 h r s r')
  then show ?case
    by (auto simp: hub_join_def hub_admissible_def hub_lookup_def hub_route_def registerSession_byRoute routeKey_inj prod_eq_iff)
next
  case (5 h s)
  then show ?case by (rule unregisterSession_ok)
next
  case (6 h s r)
  then show ?case by (simp add: hub_lookup_def unregisterSession_spec(1))
next
  case (7 h r s)
  then show ?case by (simp add: unregisterStaleRoute_eq unregisterLocked_ok)
next
  case (8 h r s r')
  then show ?case
    by (auto simp: unregisterStaleRoute_eq hub_lookup_def hub_route_def unregisterLocked_byRoute routeKey_inj prod_eq_iff)
qed

section \<open>Histories\<close>

datatype hub_op =
  Register string u32 sessionStream
| Unregister sessionStream
| Stale string u32 sessionStream
| Write "sessionStream \<Rightarrow> bytes \<Rightarrow> string option" string u32 bytes

text \<open>What a caller sees of an operation: the result of a write, and the session that is closed.\<close>

type_synonym hub_out = "written option \<times> sessionStream option"

fun hub_step :: "hub_op \<Rightarrow> streamHub \<Rightarrow> hub_out \<times> streamHub" where
  "hub_step (Register n v s) h =
     (case registerSession (Some (ss_remoteAddr s)) n v s h of (h', closed) \<Rightarrow> ((None, closed), h'))"
| "hub_step (Unregister s) h = ((None, None), unregisterSession (Some s) h)"
| "hub_step (Stale n v s) h = ((None, None), unregisterStaleRoute n v (Some s) h)"
| "hub_step (Write transport n v payload) h =
     (case writeToRoute transport n v payload h of (w, h') \<Rightarrow> ((Some w, wr_closed w), h'))"

text \<open>The specification: a map from routes to sessions.\<close>

type_synonym routes = "string \<times> u32 \<Rightarrow> sessionStream option"

fun spec_step :: "hub_op \<Rightarrow> routes \<Rightarrow> hub_out \<times> routes" where
  "spec_step (Register n v s) m =
     (if v = 0 then ((None, None), m)
      else ((None, if m (TrimSpace n, v) = Some s then None else m (TrimSpace n, v)), m((TrimSpace n, v) := Some s)))"
| "spec_step (Unregister s) m = ((None, None), \<lambda>r. if m r = Some s then None else m r)"
| "spec_step (Stale n v s) m =
     ((None, None), if m (TrimSpace n, v) = Some s then m((TrimSpace n, v) := None) else m)"
| "spec_step (Write transport n v payload) m =
     (case m (TrimSpace n, v) of
        None \<Rightarrow> ((Some \<lparr>wr_error = Some errStreamUnavailable, wr_delivered = None, wr_closed = None\<rparr>, None), m)
      | Some s \<Rightarrow>
          (case transport s (writeFramed payload) of
             None \<Rightarrow> ((Some \<lparr>wr_error = None, wr_delivered = Some (s, writeFramed payload), wr_closed = None\<rparr>, None), m)
           | Some err \<Rightarrow>
               ((Some \<lparr>wr_error = Some (''write stream '' @ ss_remoteAddr s @ '': '' @ err), wr_delivered = None,
                       wr_closed = Some s\<rparr>, Some s),
                \<lambda>r. if m r = Some s then None else m r)))"

fun run :: "('o \<Rightarrow> 'x \<Rightarrow> 'y \<times> 'x) \<Rightarrow> 'o list \<Rightarrow> 'x \<Rightarrow> 'y list \<times> 'x" where
  "run step [] x = ([], x)"
| "run step (p # ps) x = (case step p x of (y, x') \<Rightarrow> case run step ps x' of (ys, x'') \<Rightarrow> (y # ys, x''))"

text \<open>A session registers under the address it has, and sessions with a network write to a network.\<close>

fun hub_op_ok :: "hub_op \<Rightarrow> bool" where
  "hub_op_ok (Register n v s) \<longleftrightarrow> ss_remoteAddr s \<noteq> []"
| "hub_op_ok (Write transport n v payload) \<longleftrightarrow> TrimSpace n \<noteq> []"
| "hub_op_ok _ \<longleftrightarrow> True"

lemma routeKey_Trim [simp]: "routeKey (TrimSpace n) v = routeKey n v"
  by (simp add: routeKey_def)

lemma registerSession_Trim: "registerSession a (TrimSpace n) v s h = registerSession a n v s h"
  by (simp only: registerSession_def routeKey_Trim TrimSpace_idem)

lemma hub_lookup_Trim [simp]: "hub_lookup h (TrimSpace n, v) = gget (sh_byRoute h) (routeKey n v)"
  by (simp add: hub_lookup_def hub_route_def)

lemma hub_step_refines:
  assumes "hub.represents h m" and "hub_op_ok p"
  shows "\<exists>h'. hub_step p h = (fst (spec_step p m), h') \<and> hub.represents h' (snd (spec_step p m))"
proof (cases p)
  case (Register n v s)
  have found: "gget (sh_byRoute h) (routeKey n v) = m (TrimSpace n, v)"
    using hub.represents_lookup [OF assms(1), of "(TrimSpace n, v)"] by simp
  show ?thesis
  proof (cases "v = 0")
    case True
    with assms show ?thesis by (simp add: Register registerSession_def)
  next
    case False
    have "hub.represents (hub_join (TrimSpace n, v) s h) (m((TrimSpace n, v) := Some s))"
      using assms(2) False by (intro hub.represents_join [OF assms(1)]) (simp add: Register hub_admissible_def hub_route_def)
    moreover have "snd (registerSession (Some (ss_remoteAddr s)) n v s h) =
        (if m (TrimSpace n, v) = Some s then None else m (TrimSpace n, v))"
      using False found by (simp add: registerSession_eq Let_def replaced_def split: option.split)
    ultimately show ?thesis
      using False by (cases "registerSession (Some (ss_remoteAddr s)) n v s h")
        (simp add: Register hub_join_def registerSession_Trim)
  qed
next
  case (Unregister s)
  then show ?thesis using hub.represents_leave [OF assms(1)] by simp
next
  case (Stale n v s)
  have "unregisterStaleRoute (TrimSpace n) v (Some s) h = unregisterStaleRoute n v (Some s) h"
    by (simp add: unregisterStaleRoute_def)
  then show ?thesis
    using hub.represents_stale [OF assms(1), of "(TrimSpace n, v)" s] by (simp add: Stale hub_route_def)
next
  case (Write transport n v payload)
  then have found: "gget (sh_byRoute h) (routeKey n v) = m (TrimSpace n, v)" and ne: "TrimSpace n \<noteq> []"
    using hub.represents_lookup [OF assms(1), of "(TrimSpace n, v)"] assms(2) by simp_all
  show ?thesis
    using assms(1) hub.represents_leave [OF assms(1)] ne
    by (simp add: Write writeToRoute_def writeToSession_def found split: option.split)
qed

lemma run_refines:
  assumes "hub.represents h m" and "\<forall>p \<in> set ops. hub_op_ok p"
  shows "\<exists>h'. run hub_step ops h = (fst (run spec_step ops m), h') \<and> hub.represents h' (snd (run spec_step ops m))"
  using assms
proof (induction ops arbitrary: h m)
  case Nil
  then show ?case by simp
next
  case (Cons p ops)
  obtain h1 where h1: "hub_step p h = (fst (spec_step p m), h1)" "hub.represents h1 (snd (spec_step p m))"
    using hub_step_refines [OF Cons.prems(1), of p] Cons.prems(2) by auto
  obtain h2 where "run hub_step ops h1 = (fst (run spec_step ops (snd (spec_step p m))), h2)"
      "hub.represents h2 (snd (run spec_step ops (snd (spec_step p m))))"
    using Cons.IH [OF h1(2)] Cons.prems(2) by auto
  with h1 show ?case by (auto split: prod.split)
qed

section \<open>Properties\<close>


definition sample_sessions :: "sessionStream list" where
  "sample_sessions = [\<lparr>ss_id = 1, ss_remoteAddr = ''1.2.3.4:5''\<rparr>, \<lparr>ss_id = 2, ss_remoteAddr = ''1.2.3.4:6''\<rparr>]"

definition sample_hub_ops :: "hub_op list" where
  "sample_hub_ops = [Register ''g'' 7 (sample_sessions ! 0), Register ''g'' 7 (sample_sessions ! 1),
     Stale ''g'' 7 (sample_sessions ! 0), Write (\<lambda>_ _. None) ''g'' 7 [1]]"


end
