(* ===== verification/Debug_Store.thy ===== *)
theory Debug_Store
  imports Std_Net User_Manager
begin

text \<open>
  The files of debug snapshots and watches, \<^verbatim>\<open>control/debug_store.go\<close>. The file system is a map from paths to
  contents with a list of directories; a parameter decides which calls of the operating system fail, and a call
  that fails changes nothing. \<^verbatim>\<open>path/filepath\<close> is modelled as far as the store uses it. The quoting of \<^verbatim>\<open>%q\<close> is
  a parameter.
\<close>

section \<open>Paths\<close>

fun splitPath :: "string \<Rightarrow> string list" where
  "splitPath [] = [[]]"
| "splitPath (c # cs) =
     (if c = CHR ''/'' then [] # splitPath cs
      else case splitPath cs of [] \<Rightarrow> [[c]] | x # xs \<Rightarrow> (c # x) # xs)"

text \<open>The components of \<^verbatim>\<open>filepath.Clean\<close>, on a stack whose last element is on top.\<close>

definition cleanStep :: "bool \<Rightarrow> string \<Rightarrow> string list \<Rightarrow> string list" where
  "cleanStep rooted part stack =
     (if part = [] \<or> part = ''.'' then stack
      else if part = ''..''
      then (if stack \<noteq> [] \<and> last stack \<noteq> ''..'' then butlast stack
            else if rooted then stack else stack @ [''..''])
      else stack @ [part])"

definition pathComponents :: "string \<Rightarrow> string list" where
  "pathComponents path = fold (cleanStep (path \<noteq> [] \<and> hd path = CHR ''/'')) (splitPath path) []"

definition Clean :: "string \<Rightarrow> string" where
  "Clean path =
     (let rooted = (path \<noteq> [] \<and> hd path = CHR ''/''); body = JoinStrings (pathComponents path) ''/''
      in if rooted then CHR ''/'' # body else if body = [] then ''.'' else body)"

definition Join :: "string list \<Rightarrow> string" where
  "Join parts = (let rest = dropWhile (\<lambda>p. p = []) parts in if rest = [] then [] else Clean (JoinStrings rest ''/''))"

section \<open>The file system\<close>

record debugFS =
  fs_dirs :: "string list"
  fs_files :: "(string, string) gomap"

text \<open>Which operation on which path fails, and with which error.\<close>

type_synonym fs_faults = "string \<Rightarrow> string \<Rightarrow> string option"

definition ancestors :: "string \<Rightarrow> string list" where
  "ancestors path = map (\<lambda>i. take i path) (filter (\<lambda>i. i > 0 \<and> path ! i = CHR ''/'') [0..<length path]) @ [path]"

definition MkdirAll :: "fs_faults \<Rightarrow> string \<Rightarrow> debugFS \<Rightarrow> unit result \<times> debugFS" where
  "MkdirAll faults path fs =
     (case faults ''mkdir'' path of
        Some err \<Rightarrow> (Inl err, fs)
      | None \<Rightarrow> (Inr (), fs\<lparr>fs_dirs := fs_dirs fs @ filter (\<lambda>d. d \<notin> set (fs_dirs fs)) (ancestors path)\<rparr>))"

text \<open>The names that \<^verbatim>\<open>os.ReadDir\<close> lists: what follows the directory and a slash and has no further slash.\<close>

definition childName :: "string \<Rightarrow> string \<Rightarrow> string option" where
  "childName dir path =
     (if prefix (dir @ ''/'') path \<and> CHR ''/'' \<notin> set (drop (length dir + 1) path)
      then Some (drop (length dir + 1) path) else None)"

definition childFiles :: "string \<Rightarrow> debugFS \<Rightarrow> string list" where
  "childFiles dir fs = List.map_filter (childName dir) (map fst (fs_files fs))"

definition childDirs :: "string \<Rightarrow> debugFS \<Rightarrow> string list" where
  "childDirs dir fs = List.map_filter (childName dir) (fs_dirs fs)"

definition RemoveAll :: "string \<Rightarrow> debugFS \<Rightarrow> debugFS" where
  "RemoveAll path fs =
     fs\<lparr>fs_dirs := filter (\<lambda>d. d \<noteq> path \<and> \<not> prefix (path @ ''/'') d) (fs_dirs fs),
        fs_files := gfilter (\<lambda>f _. f \<noteq> path \<and> \<not> prefix (path @ ''/'') f) (fs_files fs)\<rparr>"

definition writeAtomicFile :: "fs_faults \<Rightarrow> string \<Rightarrow> string \<Rightarrow> debugFS \<Rightarrow> unit result \<times> debugFS" where
  "writeAtomicFile faults path data fs =
     (let tmp = path @ ''.tmp'' in
      case faults ''write'' tmp of
        Some err \<Rightarrow> (Inl (''write debug snapshot temp file: '' @ err), fs)
      | None \<Rightarrow>
          (let fs1 = fs\<lparr>fs_files := gput tmp data (fs_files fs)\<rparr> in
           case faults ''rename'' tmp of
             Some err \<Rightarrow> (Inl (''rename debug snapshot temp file: '' @ err), fs1)
           | None \<Rightarrow> (Inr (), fs1\<lparr>fs_files := gput path data (gdel tmp (fs_files fs1))\<rparr>)))"

section \<open>Names\<close>

definition debugPathRune :: "nat \<Rightarrow> char" where
  "debugPathRune r =
     (if (97 \<le> r \<and> r \<le> 122) \<or> (65 \<le> r \<and> r \<le> 90) \<or> (48 \<le> r \<and> r \<le> 57) \<or> r = 46 \<or> r = 45 \<or> r = 95
      then char_of r else CHR ''_'')"

definition TrimCutset :: "string \<Rightarrow> string \<Rightarrow> string" where
  "TrimCutset cutset s = rev (dropWhile (\<lambda>c. c \<in> set cutset) (rev (dropWhile (\<lambda>c. c \<in> set cutset) s)))"

definition sanitizeDebugPathPart :: "string \<Rightarrow> string \<Rightarrow> string" where
  "sanitizeDebugPathPart val fallback =
     (let trimmed = TrimSpace val in
      if trimmed = [] then fallback
      else let cleaned = TrimCutset ''._-'' (map debugPathRune (runes trimmed))
           in if cleaned = [] then fallback else cleaned)"

definition firstNonEmptyDebug :: "string list \<Rightarrow> string" where
  "firstNonEmptyDebug vals = (case find (\<lambda>v. TrimSpace v \<noteq> []) vals of Some v \<Rightarrow> v | None \<Rightarrow> [])"

section \<open>The store\<close>

record DebugCollectResult =
  cr_RequestID :: u64
  cr_UserID :: string
  cr_Group :: string
  cr_Name :: string
  cr_DeviceID :: string
  cr_VirtualIP :: string
  cr_CollectedAtUnixMs :: int
  cr_SnapshotJSON :: string
  cr_SavedPath :: string

record DebugSnapshotStore =
  ds_baseDir :: string
  ds_keepPerDevice :: nat

record DebugWatchSession =
  ws_WatchID :: u64
  ws_UserID :: string
  ws_Group :: string
  ws_Name :: string
  ws_DeviceID :: string
  ws_VirtualIP :: string
  ws_StartedAtUnixMs :: int
  ws_ExpireAtUnixMs :: int
  ws_SessionDir :: string
  ws_EventsPath :: string

definition NewDebugSnapshotStore :: "string \<Rightarrow> int \<Rightarrow> DebugSnapshotStore" where
  "NewDebugSnapshotStore baseDir keepPerDevice =
     \<lparr>ds_baseDir = baseDir, ds_keepPerDevice = (if keepPerDevice \<le> 0 then 20 else nat keepPerDevice)\<rparr>"

text \<open>
  The settings: the environment variables \<^verbatim>\<open>DEBUG_COLLECT_DIR\<close> and \<^verbatim>\<open>DEBUG_COLLECT_KEEP_PER_DEVICE\<close> and the two fields
  of the configuration, which is \<^term>\<open>None\<close> when there is none.
\<close>

definition newDebugSnapshotStore :: "string \<Rightarrow> string \<Rightarrow> (string \<times> int) option \<Rightarrow> DebugSnapshotStore" where
  "newDebugSnapshotStore envDir envKeep cfg =
     (let path0 = TrimSpace envDir;
          path1 = (if path0 = [] then (case cfg of Some (dir, _) \<Rightarrow> TrimSpace dir | None \<Rightarrow> path0) else path0);
          path = (if path1 = [] then ''./data/debug-collect'' else path1);
          keep0 = (case cfg of Some (_, keep) \<Rightarrow> if keep > 0 then keep else 20 | None \<Rightarrow> 20);
          keep = (if TrimSpace envKeep = [] then keep0
                  else case Atoi (TrimSpace envKeep) of
                    Some parsed \<Rightarrow> if parsed > 0 then parsed else keep0 | None \<Rightarrow> keep0)
      in NewDebugSnapshotStore path keep)"

text \<open>The loop that removes names from the front of a sorted list until \<open>keep\<close> are left, or a removal fails.\<close>

fun pruneNames :: "(string \<Rightarrow> debugFS \<Rightarrow> unit result \<times> debugFS) \<Rightarrow> nat \<Rightarrow> string list \<Rightarrow> debugFS \<Rightarrow> unit result \<times> debugFS" where
  "pruneNames remove keep [] fs = (Inr (), fs)"
| "pruneNames remove keep (name # names) fs =
     (if length (name # names) \<le> keep then (Inr (), fs)
      else case remove name fs of
        (Inl err, fs1) \<Rightarrow> (Inl err, fs1)
      | (Inr _, fs1) \<Rightarrow> pruneNames remove keep names fs1)"

definition snapshotNames :: "string \<Rightarrow> debugFS \<Rightarrow> string list" where
  "snapshotNames dir fs = sort (filter (\<lambda>n. n \<noteq> ''latest.json'' \<and> HasSuffix n ''.json'') (childFiles dir fs))"

definition removeSnapshot :: "fs_faults \<Rightarrow> string \<Rightarrow> string \<Rightarrow> debugFS \<Rightarrow> unit result \<times> debugFS" where
  "removeSnapshot faults dir name fs =
     (let path = Join [dir, name] in
      case faults ''remove'' path of
        Some err \<Rightarrow> (Inl (''remove old debug snapshot '' @ name @ '': '' @ err), fs)
      | None \<Rightarrow> (Inr (), fs\<lparr>fs_files := gdel path (fs_files fs)\<rparr>))"

definition pruneDeviceDir :: "fs_faults \<Rightarrow> DebugSnapshotStore \<Rightarrow> string \<Rightarrow> debugFS \<Rightarrow> unit result \<times> debugFS" where
  "pruneDeviceDir faults s dir fs =
     (case faults ''readdir'' dir of
        Some err \<Rightarrow> (Inl (''read debug snapshot dir: '' @ err), fs)
      | None \<Rightarrow> pruneNames (removeSnapshot faults dir) (ds_keepPerDevice s) (snapshotNames dir fs) fs)"

definition watchNames :: "string \<Rightarrow> debugFS \<Rightarrow> string list" where
  "watchNames dir fs = sort (filter (\<lambda>n. HasPrefix n ''watch-'') (childDirs dir fs))"

definition removeWatch :: "fs_faults \<Rightarrow> string \<Rightarrow> string \<Rightarrow> debugFS \<Rightarrow> unit result \<times> debugFS" where
  "removeWatch faults dir name fs =
     (let path = Join [dir, name] in
      case faults ''removeall'' path of
        Some err \<Rightarrow> (Inl (''remove old debug watch '' @ name @ '': '' @ err), fs)
      | None \<Rightarrow> (Inr (), RemoveAll path fs))"

definition pruneWatchDeviceDir :: "fs_faults \<Rightarrow> DebugSnapshotStore \<Rightarrow> string \<Rightarrow> debugFS \<Rightarrow> unit result \<times> debugFS" where
  "pruneWatchDeviceDir faults s dir fs =
     (case faults ''readdir'' dir of
        Some err \<Rightarrow> (Inl (''read debug watch dir: '' @ err), fs)
      | None \<Rightarrow> pruneNames (removeWatch faults dir) (ds_keepPerDevice s) (watchNames dir fs) fs)"

text \<open>Steps that stop at the first error.\<close>

fun fsSteps :: "(debugFS \<Rightarrow> unit result \<times> debugFS) list \<Rightarrow> debugFS \<Rightarrow> unit result \<times> debugFS" where
  "fsSteps [] fs = (Inr (), fs)"
| "fsSteps (f # steps) fs = (case f fs of (Inl err, fs1) \<Rightarrow> (Inl err, fs1) | (Inr _, fs1) \<Rightarrow> fsSteps steps fs1)"

definition deviceDirName :: "string \<Rightarrow> string \<Rightarrow> string \<Rightarrow> string" where
  "deviceDirName name deviceID virtualIP =
     sanitizeDebugPathPart name ''unknown-name'' @ ''__'' @
     sanitizeDebugPathPart (firstNonEmptyDebug [deviceID, virtualIP]) ''unknown-device''"

definition snapshotDir :: "DebugSnapshotStore \<Rightarrow> DebugCollectResult \<Rightarrow> string" where
  "snapshotDir s r = Join [ds_baseDir s, sanitizeDebugPathPart (cr_Group r) ''unknown-group'',
     deviceDirName (cr_Name r) (cr_DeviceID r) (cr_VirtualIP r)]"

definition snapshotName :: "gtime \<Rightarrow> DebugCollectResult \<Rightarrow> string" where
  "snapshotName now r =
     show_int (if cr_CollectedAtUnixMs r \<le> 0 then UnixMilli now else cr_CollectedAtUnixMs r) @ ''__'' @
     sanitizeDebugPathPart (cr_VirtualIP r) ''unknown-ip'' @ ''.json''"

text \<open>The steps of \<^verbatim>\<open>Save\<close> after the directory was made.\<close>

definition saveSteps :: "fs_faults \<Rightarrow> gtime \<Rightarrow> DebugCollectResult \<Rightarrow> DebugSnapshotStore
    \<Rightarrow> (debugFS \<Rightarrow> unit result \<times> debugFS) list" where
  "saveSteps faults now r s =
     (let dir = snapshotDir s r
      in [writeAtomicFile faults (Join [dir, snapshotName now r]) (cr_SnapshotJSON r),
          writeAtomicFile faults (Join [dir, ''latest.json'']) (cr_SnapshotJSON r), pruneDeviceDir faults s dir])"

definition Save ::
    "fs_faults \<Rightarrow> gtime \<Rightarrow> DebugCollectResult \<Rightarrow> DebugSnapshotStore option \<Rightarrow> debugFS \<Rightarrow> string result \<times> debugFS" where
  "Save faults now r store fs =
     (case store of
        None \<Rightarrow> (Inr [], fs)
      | Some s \<Rightarrow>
          if TrimSpace (ds_baseDir s) = [] then (Inr [], fs)
          else
            (case MkdirAll faults (snapshotDir s r) fs of
               (Inl err, fs1) \<Rightarrow> (Inl (''mkdir debug snapshot dir: '' @ err), fs1)
             | (Inr _, fs1) \<Rightarrow>
                 (case fsSteps (saveSteps faults now r s) fs1 of
                    (Inl err, fs2) \<Rightarrow> (Inl err, fs2)
                  | (Inr _, fs2) \<Rightarrow> (Inr (Join [snapshotDir s r, snapshotName now r]), fs2))))"

definition watchDeviceDir :: "DebugSnapshotStore \<Rightarrow> DebugWatchSession \<Rightarrow> string" where
  "watchDeviceDir s w = Join [ds_baseDir s, ''watch'', sanitizeDebugPathPart (ws_Group w) ''unknown-group'',
     deviceDirName (ws_Name w) (ws_DeviceID w) (ws_VirtualIP w)]"

definition jsonKey :: "string \<Rightarrow> string" where
  "jsonKey k = CHR 0x22 # k @ CHR 0x22 # '':''"

definition watchMetadata :: "(string \<Rightarrow> string) \<Rightarrow> DebugWatchSession \<Rightarrow> string" where
  "watchMetadata quote w =
     ''{'' @ jsonKey ''watch_id'' @ show_word (ws_WatchID w) @
     '','' @ jsonKey ''user_id'' @ quote (ws_UserID w) @
     '','' @ jsonKey ''group'' @ quote (ws_Group w) @
     '','' @ jsonKey ''name'' @ quote (ws_Name w) @
     '','' @ jsonKey ''device_id'' @ quote (ws_DeviceID w) @
     '','' @ jsonKey ''virtual_ip'' @ quote (ws_VirtualIP w) @
     '','' @ jsonKey ''started_at_unix_ms'' @ show_int (ws_StartedAtUnixMs w) @
     '','' @ jsonKey ''expire_at_unix_ms'' @ show_int (ws_ExpireAtUnixMs w) @ ''}'' @ [CHR 0x0A]"

text \<open>The session comes back with the paths once the directory is made, also when a later step fails.\<close>

definition StartWatch ::
    "(string \<Rightarrow> string) \<Rightarrow> fs_faults \<Rightarrow> DebugWatchSession \<Rightarrow> DebugSnapshotStore option \<Rightarrow> debugFS
     \<Rightarrow> (string option \<times> DebugWatchSession) \<times> debugFS" where
  "StartWatch quote faults w store fs =
     (case store of
        None \<Rightarrow> ((None, w), fs)
      | Some s \<Rightarrow>
          if TrimSpace (ds_baseDir s) = [] then ((None, w), fs)
          else
            (let dir = watchDeviceDir s w; sessionDir = Join [dir, ''watch-'' @ show_word (ws_WatchID w)] in
             case MkdirAll faults sessionDir fs of
               (Inl err, fs1) \<Rightarrow> ((Some (''mkdir debug watch dir: '' @ err), w), fs1)
             | (Inr _, fs1) \<Rightarrow>
                 (let w1 = w\<lparr>ws_SessionDir := sessionDir, ws_EventsPath := Join [sessionDir, ''events.jsonl'']\<rparr>;
                      metadata = watchMetadata quote w1
                  in case fsSteps [writeAtomicFile faults (Join [sessionDir, ''metadata.json'']) metadata,
                                   writeAtomicFile faults (Join [sessionDir, ''latest-watch.json'']) metadata,
                                   pruneWatchDeviceDir faults s dir] fs1 of
                       (Inl err, fs2) \<Rightarrow> ((Some err, w1), fs2) | (Inr _, fs2) \<Rightarrow> ((None, w1), fs2))))"

definition AppendWatchEvent ::
    "fs_faults \<Rightarrow> DebugWatchSession \<Rightarrow> string \<Rightarrow> DebugSnapshotStore option \<Rightarrow> debugFS \<Rightarrow> unit result \<times> debugFS" where
  "AppendWatchEvent faults w line store fs =
     (if store = None \<or> ws_EventsPath w = [] then (Inr (), fs)
      else case faults ''open'' (ws_EventsPath w) of
        Some err \<Rightarrow> (Inl (''open debug watch events: '' @ err), fs)
      | None \<Rightarrow>
          (let old = (case gget (fs_files fs) (ws_EventsPath w) of Some content \<Rightarrow> content | None \<Rightarrow> []);
               opened = fs\<lparr>fs_files := gput (ws_EventsPath w) old (fs_files fs)\<rparr>
           in case faults ''append'' (ws_EventsPath w) of
                Some err \<Rightarrow> (Inl (''append debug watch event: '' @ err), opened)
              | None \<Rightarrow> (Inr (), fs\<lparr>fs_files := gput (ws_EventsPath w) (old @ line) (fs_files fs)\<rparr>)))"

definition FinishWatch ::
    "(string \<Rightarrow> string) \<Rightarrow> fs_faults \<Rightarrow> DebugWatchSession \<Rightarrow> int \<Rightarrow> DebugSnapshotStore option \<Rightarrow> debugFS \<Rightarrow> unit result \<times> debugFS" where
  "FinishWatch quote faults w stoppedAtUnixMs store fs =
     (if store = None \<or> ws_SessionDir w = [] then (Inr (), fs)
      else writeAtomicFile faults (Join [ws_SessionDir w, ''stopped.json''])
             (''{'' @ jsonKey ''watch_id'' @ show_word (ws_WatchID w) @ '','' @ jsonKey ''stopped_at_unix_ms'' @
              show_int stoppedAtUnixMs @ ''}'' @ [CHR 0x0A]) fs)"

section \<open>Safe names\<close>

text \<open>A name that stays in its directory.\<close>

definition safe_name :: "string \<Rightarrow> bool" where
  "safe_name n \<longleftrightarrow> n \<noteq> [] \<and> n \<noteq> ''.'' \<and> n \<noteq> ''..'' \<and> CHR ''/'' \<notin> set n"

lemma debugPathRune_no_slash: "debugPathRune r \<noteq> CHR ''/''"
proof (cases "r < 256 \<and> debugPathRune r = char_of r")
  case True
  then have "of_char (debugPathRune r) = r" by simp
  then show ?thesis
    by (cases "r = 47") (auto simp: debugPathRune_def)
next
  case False
  then show ?thesis by (auto simp: debugPathRune_def)
qed

lemma set_TrimCutset: "set (TrimCutset cutset s) \<subseteq> set s"
  by (auto simp: TrimCutset_def dest!: set_dropWhileD)

lemma hd_TrimCutset: "TrimCutset cutset s \<noteq> [] \<Longrightarrow> hd (TrimCutset cutset s) \<notin> set cutset"
proof -
  assume ne: "TrimCutset cutset s \<noteq> []"
  define t where "t = dropWhile (\<lambda>c. c \<in> set cutset) s"
  have t: "TrimCutset cutset s = rev (dropWhile (\<lambda>c. c \<in> set cutset) (rev t))" by (simp add: TrimCutset_def t_def)
  have "prefix (TrimCutset cutset s) t"
    using suffix_dropWhile [of "\<lambda>c. c \<in> set cutset" "rev t"] by (simp add: t suffix_to_prefix)
  then have "hd (TrimCutset cutset s) = hd t" and "t \<noteq> []" using ne by (auto simp: prefix_def)
  moreover have "hd t \<notin> set cutset" using hd_dropWhile \<open>t \<noteq> []\<close> unfolding t_def by metis
  ultimately show ?thesis by simp
qed

lemma sanitize_safe: "safe_name fallback \<Longrightarrow> safe_name (sanitizeDebugPathPart val fallback)"
proof -
  assume f: "safe_name fallback"
  define cleaned where "cleaned = TrimCutset ''._-'' (map debugPathRune (runes (TrimSpace val)))"
  have "CHR ''/'' \<notin> set cleaned"
  proof
    assume "CHR ''/'' \<in> set cleaned"
    then have "CHR ''/'' \<in> set (map debugPathRune (runes (TrimSpace val)))"
      unfolding cleaned_def by (rule subsetD [OF set_TrimCutset])
    then obtain r where "debugPathRune r = CHR ''/''" by auto
    then show False using debugPathRune_no_slash by simp
  qed
  moreover have "cleaned \<noteq> ''.''" "cleaned \<noteq> ''..''"
    using hd_TrimCutset [of "''._-''" "map debugPathRune (runes (TrimSpace val))"] unfolding cleaned_def by auto
  ultimately show ?thesis
    using f by (simp add: sanitizeDebugPathPart_def Let_def cleaned_def [symmetric] safe_name_def)
qed

section \<open>Paths of safe names\<close>

lemma splitPath_ne [simp]: "splitPath s \<noteq> []"
  by (induction s) (auto split: list.split)

lemma splitPath_plain: "CHR ''/'' \<notin> set s \<Longrightarrow> splitPath s = [s]"
  by (induction s) auto

lemma splitPath_append: "splitPath (a @ CHR ''/'' # b) = splitPath a @ splitPath b"
proof (induction a)
  case (Cons c a)
  then show ?case by (cases "splitPath a") (auto split: list.split)
qed simp

lemma splitPath_noslash: "x \<in> set (splitPath s) \<Longrightarrow> CHR ''/'' \<notin> set x"
  by (induction s arbitrary: x) (auto split: list.splits if_splits)

lemma splitPath_Join:
  assumes "cs \<noteq> []" and "\<forall>c \<in> set cs. CHR ''/'' \<notin> set c"
  shows "splitPath (JoinStrings cs ''/'') = cs"
  using assms
proof (induction cs "''/''" rule: JoinStrings.induct)
  case (3 x y xs)
  then show ?case using splitPath_append [of x "JoinStrings (y # xs) ''/''"] by (simp add: splitPath_plain)
qed (auto simp: splitPath_plain)

text \<open>Cleaned components: up-steps only in front, and none below the root.\<close>

fun cleaned :: "bool \<Rightarrow> string list \<Rightarrow> bool" where
  "cleaned rooted [] \<longleftrightarrow> True"
| "cleaned rooted (c # cs) \<longleftrightarrow> (if c = ''..'' then \<not> rooted \<and> cleaned rooted cs else list_all safe_name (c # cs))"

lemma cleaned_snoc: "cleaned rooted cs \<Longrightarrow> safe_name n \<Longrightarrow> cleaned rooted (cs @ [n])"
  by (induction rooted cs rule: cleaned.induct) (auto simp: safe_name_def split: if_splits)

lemma safe_cleaned: "list_all safe_name cs \<Longrightarrow> cleaned rooted cs"
  by (cases cs) (auto simp: safe_name_def)

lemma cleaned_butlast: "cleaned rooted cs \<Longrightarrow> cleaned rooted (butlast cs)"
proof (induction rooted cs rule: cleaned.induct)
  case (2 rooted c cs)
  then show ?case
    by (cases "cs = []") (auto simp: list_all_iff safe_name_def dest: in_set_butlastD split: if_splits)
qed simp

lemma cleaned_up:
  "cleaned False cs \<Longrightarrow> cs = [] \<or> last cs = ''..'' \<Longrightarrow> cleaned False (cs @ [''..''])"
proof (induction False cs rule: cleaned.induct)
  case (2 c cs)
  then show ?case by (cases "c = ''..''") (auto simp: list_all_iff safe_name_def split: if_splits)
qed simp

lemma cleanStep_cleaned:
  assumes "cleaned rooted cs" and "CHR ''/'' \<notin> set part"
  shows "cleaned rooted (cleanStep rooted part cs)"
  using assms cleaned_butlast cleaned_up cleaned_snoc [of rooted cs part]
  by (cases rooted) (auto simp: cleanStep_def safe_name_def)

lemma fold_cleanStep_cleaned:
  "cleaned rooted cs \<Longrightarrow> \<forall>p \<in> set parts. CHR ''/'' \<notin> set p \<Longrightarrow> cleaned rooted (fold (cleanStep rooted) parts cs)"
  by (induction parts arbitrary: cs) (auto simp: cleanStep_cleaned)

lemma pathComponents_cleaned: "cleaned (path \<noteq> [] \<and> hd path = CHR ''/'') (pathComponents path)"
  unfolding pathComponents_def by (rule fold_cleanStep_cleaned) (auto dest: splitPath_noslash)

lemma cleaned_upD: "cleaned rooted (st @ ''..'' # cs) \<Longrightarrow> \<not> rooted \<and> (st = [] \<or> last st = ''..'')"
proof (induction rooted st rule: cleaned.induct)
  case (2 rooted c st)
  then show ?case by (cases "c = ''..''") (auto simp: safe_name_def)
qed simp

lemma cleaned_mem: "cleaned rooted cs \<Longrightarrow> c \<in> set cs \<Longrightarrow> c = ''..'' \<or> safe_name c"
  by (induction rooted cs rule: cleaned.induct) (auto simp: list_all_iff split: if_splits)

lemma fold_cleanStep_id: "cleaned rooted (st @ cs) \<Longrightarrow> fold (cleanStep rooted) cs st = st @ cs"
proof (induction cs arbitrary: st)
  case (Cons c cs)
  have "cleanStep rooted c st = st @ [c]"
    using cleaned_upD [of rooted st cs] cleaned_mem [OF Cons.prems, of c] Cons.prems
    by (cases "c = ''..''") (auto simp: cleanStep_def safe_name_def)
  with Cons show ?case by simp
qed simp

definition render :: "bool \<Rightarrow> string list \<Rightarrow> string" where
  "render rooted cs = (if rooted then CHR ''/'' # JoinStrings cs ''/'' else if cs = [] then ''.'' else JoinStrings cs ''/'')"

lemma JoinStrings_Nil_iff: "\<forall>c \<in> set cs. c \<noteq> [] \<Longrightarrow> JoinStrings cs ''/'' = [] \<longleftrightarrow> cs = []"
  by (induction cs "''/''" rule: JoinStrings.induct) auto

lemma hd_JoinStrings: "cs \<noteq> [] \<Longrightarrow> hd cs \<noteq> [] \<Longrightarrow> hd (JoinStrings cs ''/'') = hd (hd cs)"
  by (induction cs "''/''" rule: JoinStrings.induct) auto

lemma cleaned_ne: "cleaned rooted cs \<Longrightarrow> \<forall>c \<in> set cs. c \<noteq> [] \<and> CHR ''/'' \<notin> set c"
  using cleaned_mem by (fastforce simp: safe_name_def)

lemma Clean_render: "Clean p = render (p \<noteq> [] \<and> hd p = CHR ''/'') (pathComponents p)"
  using cleaned_ne [OF pathComponents_cleaned, of p]
  by (simp add: Clean_def render_def Let_def JoinStrings_Nil_iff)

lemma render_rooted:
  assumes "cleaned rooted cs" and "cs \<noteq> [] \<or> rooted"
  shows "render rooted cs \<noteq> [] \<and> (hd (render rooted cs) = CHR ''/'' \<longleftrightarrow> rooted)"
proof (cases rooted)
  case False
  then have "cs \<noteq> []" using assms(2) by simp
  then have "hd cs \<noteq> []" "CHR ''/'' \<notin> set (hd cs)" using cleaned_ne [OF assms(1)] by auto
  then have "hd (hd cs) \<noteq> CHR ''/''" using hd_in_set by metis
  with False \<open>cs \<noteq> []\<close> \<open>hd cs \<noteq> []\<close> show ?thesis
    using hd_JoinStrings [of cs] JoinStrings_Nil_iff [of cs] cleaned_ne [OF assms(1)] by (simp add: render_def)
qed (simp add: render_def)

lemma splitPath_render:
  assumes "cleaned rooted cs" and "cs \<noteq> []"
  shows "splitPath (render rooted cs) = (if rooted then [] # cs else cs)"
  using splitPath_Join [OF assms(2)] cleaned_ne [OF assms(1)] assms(2) by (simp add: render_def)

lemma pathComponents_render:
  assumes "cleaned rooted cs" and "cs \<noteq> []"
  shows "pathComponents (render rooted cs) = cs"
proof -
  have "pathComponents (render rooted cs) = fold (cleanStep rooted) (splitPath (render rooted cs)) []"
    using render_rooted [OF assms(1)] assms(2) by (simp add: pathComponents_def)
  also have "\<dots> = fold (cleanStep rooted) cs []"
    by (simp add: splitPath_render [OF assms] cleanStep_def)
  also have "\<dots> = cs" using fold_cleanStep_id [of rooted "[]" cs] assms(1) by simp
  finally show ?thesis .
qed

text \<open>Joining a safe name appends it to the components, and to the text of a cleaned path.\<close>

lemma pathComponents_child:
  assumes "p \<noteq> []" and "safe_name n"
  shows "pathComponents (p @ CHR ''/'' # n) = pathComponents p @ [n]"
  using assms
  by (simp add: pathComponents_def splitPath_append splitPath_plain safe_name_def cleanStep_def hd_append)

lemma render_snoc: "cs \<noteq> [] \<Longrightarrow> render rooted (cs @ [n]) = render rooted cs @ CHR ''/'' # n"
proof -
  have "JoinStrings (cs @ [n]) ''/'' = JoinStrings cs ''/'' @ CHR ''/'' # n" if "cs \<noteq> []"
    using that by (induction cs "''/''" rule: JoinStrings.induct) auto
  then show "cs \<noteq> [] \<Longrightarrow> render rooted (cs @ [n]) = render rooted cs @ CHR ''/'' # n" by (simp add: render_def)
qed

lemma Join_child:
  assumes "cleaned rooted cs" and "cs \<noteq> []" and "safe_name n"
  shows "Join [render rooted cs, n] = render rooted cs @ CHR ''/'' # n"
proof -
  let ?p = "render rooted cs"
  have p: "?p \<noteq> []" "hd ?p = CHR ''/'' \<longleftrightarrow> rooted" using render_rooted [OF assms(1)] assms(2) by auto
  have "Join [?p, n] = Clean (?p @ CHR ''/'' # n)"
    using p(1) by (simp add: Join_def)
  also have "\<dots> = render rooted (cs @ [n])"
    using p pathComponents_child [OF p(1) assms(3)]
    by (simp add: Clean_render pathComponents_render [OF assms(1,2)])
  also have "\<dots> = ?p @ CHR ''/'' # n" by (rule render_snoc [OF assms(2)])
  finally show ?thesis .
qed

section \<open>Where the store writes\<close>

lemma safe_names [simp]:
  "safe_name ''unknown-group''" "safe_name ''unknown-name''" "safe_name ''unknown-device''" "safe_name ''unknown-ip''"
  "safe_name ''latest.json''" "safe_name ''watch''"
  by (simp_all add: safe_name_def)

lemma safe_name_append: "safe_name a \<Longrightarrow> CHR ''/'' \<notin> set b \<Longrightarrow> length b > 1 \<Longrightarrow> safe_name (a @ b)"
proof -
  assume a: "safe_name a" and b: "CHR ''/'' \<notin> set b" "length b > 1"
  have l: "length (a @ b) > 2" using a b(2) by (cases a) (auto simp: safe_name_def)
  have "a @ b \<noteq> x" if "length x \<le> 2" for x using l that by (metis leD)
  from this [of "[]"] this [of "''.''"] this [of "''..''"] a b(1) show ?thesis by (simp add: safe_name_def)
qed

lemma deviceDirName_safe: "safe_name (deviceDirName name device ip)"
proof -
  have "safe_name (sanitizeDebugPathPart (firstNonEmptyDebug [device, ip]) ''unknown-device'')"
    by (rule sanitize_safe) simp
  then have "CHR ''/'' \<notin> set (''__'' @ sanitizeDebugPathPart (firstNonEmptyDebug [device, ip]) ''unknown-device'')"
    by (simp add: safe_name_def)
  then show ?thesis
    unfolding deviceDirName_def by (intro safe_name_append sanitize_safe) (auto simp: safe_name_def)
qed

lemma show_int_no_slash: "CHR ''/'' \<notin> set (show_int i)"
  using show_nat_digits [of "CHR ''/''"] by (auto simp: show_int_def is_digit_def)

lemma snapshotName_safe: "safe_name (snapshotName now r)"
proof -
  have "safe_name (sanitizeDebugPathPart (cr_VirtualIP r) ''unknown-ip'')" by (rule sanitize_safe) simp
  then have "CHR ''/'' \<notin> set (snapshotName now r)" "length (snapshotName now r) > 2"
    using show_int_no_slash by (auto simp: snapshotName_def safe_name_def)
  then show ?thesis by (auto simp: safe_name_def)
qed

text \<open>The directory of a device: two safe names below the base directory.\<close>

lemma snapshotDir_below:
  assumes "ds_baseDir s \<noteq> []"
  obtains rooted cs g d where "cs = pathComponents (ds_baseDir s) @ [g, d]" and "safe_name g" and "safe_name d"
    and "cleaned rooted cs" and "snapshotDir s r = render rooted cs"
proof -
  define g where "g = sanitizeDebugPathPart (cr_Group r) ''unknown-group''"
  define d where "d = deviceDirName (cr_Name r) (cr_DeviceID r) (cr_VirtualIP r)"
  have g: "safe_name g" unfolding g_def by (rule sanitize_safe) simp
  have d: "safe_name d" unfolding d_def by (rule deviceDirName_safe)
  define p where "p = ds_baseDir s @ CHR ''/'' # g @ CHR ''/'' # d"
  have "snapshotDir s r = Clean p"
    using assms by (simp add: snapshotDir_def Join_def Let_def g_def d_def p_def)
  moreover have "pathComponents p = pathComponents (ds_baseDir s) @ [g, d]"
    using pathComponents_child [of "ds_baseDir s @ CHR ''/'' # g" d] pathComponents_child [OF assms g] d
    by (simp add: p_def)
  ultimately show ?thesis
    using that [of "pathComponents p" g d "p \<noteq> [] \<and> hd p = CHR ''/''"] g d pathComponents_cleaned [of p]
    by (simp add: Clean_render)
qed

definition only_in :: "string \<Rightarrow> debugFS \<Rightarrow> debugFS \<Rightarrow> bool" where
  "only_in dir fs fs' \<longleftrightarrow>
     (\<forall>f. gget (fs_files fs') f \<noteq> gget (fs_files fs) f \<longrightarrow> (\<exists>n. safe_name n \<and> f = dir @ CHR ''/'' # n))"

lemma only_in_refl: "only_in dir fs fs"
  by (simp add: only_in_def)

lemma only_in_files: "fs_files fs' = fs_files fs \<Longrightarrow> only_in dir fs fs'"
  by (simp add: only_in_def)

lemma only_in_trans: "only_in dir a b \<Longrightarrow> only_in dir b c \<Longrightarrow> only_in dir a c"
  unfolding only_in_def by metis

lemma only_in_write:
  assumes "safe_name n"
  shows "only_in dir fs (snd (writeAtomicFile faults (dir @ CHR ''/'' # n) data fs))"
proof -
  have "safe_name (n @ ''.tmp'')" by (rule safe_name_append [OF assms]) simp_all
  moreover have "dir @ CHR ''/'' # n @ ''.tmp'' = dir @ CHR ''/'' # (n @ ''.tmp'')" by simp
  ultimately show ?thesis
    using assms by (auto simp: only_in_def writeAtomicFile_def Let_def split: option.split)
qed

lemma childName_Some: "childName dir f = Some n \<longleftrightarrow> f = dir @ CHR ''/'' # n \<and> CHR ''/'' \<notin> set n"
  by (auto simp: childName_def prefix_def)

lemma set_map_filter: "set (List.map_filter f xs) = {y. \<exists>x \<in> set xs. f x = Some y}"
  by (induction xs) (auto simp: List.map_filter_simps split: option.split)

lemma childFiles_mem: "n \<in> set (childFiles dir fs) \<longleftrightarrow> dir @ CHR ''/'' # n \<in> fst ` set (fs_files fs) \<and> CHR ''/'' \<notin> set n"
  unfolding childFiles_def set_map_filter childName_Some by auto

lemma snapshotNames_safe: "n \<in> set (snapshotNames dir fs) \<Longrightarrow> safe_name n"
proof -
  assume "n \<in> set (snapshotNames dir fs)"
  then have "CHR ''/'' \<notin> set n" and "HasSuffix n ''.json''"
    by (auto simp: snapshotNames_def childFiles_mem)
  then show ?thesis by (auto simp: safe_name_def HasSuffix_def suffix_def)
qed

lemma only_in_prune:
  assumes "cleaned rooted cs" and "cs \<noteq> []" and "\<forall>n \<in> set names. safe_name n"
  shows "only_in (render rooted cs) fs (snd (pruneNames (removeSnapshot faults (render rooted cs)) keep names fs))"
  using assms(3)
proof (induction names arbitrary: fs)
  case (Cons n names)
  define fs1 where "fs1 = fs\<lparr>fs_files := gdel (Join [render rooted cs, n]) (fs_files fs)\<rparr>"
  have "only_in (render rooted cs) fs fs1"
    using Cons.prems Join_child [OF assms(1,2), of n] by (auto simp: only_in_def fs1_def)
  then have "only_in (render rooted cs) fs (snd (pruneNames (removeSnapshot faults (render rooted cs)) keep names fs1))"
    using Cons.IH [of fs1] Cons.prems only_in_trans [of _ fs fs1] by simp
  then show ?case
    by (auto simp: removeSnapshot_def [of faults _ n] Let_def fs1_def only_in_refl split: option.split)
qed (simp add: only_in_refl)

lemma only_in_steps:
  assumes "\<And>f fs. f \<in> set steps \<Longrightarrow> only_in dir fs (snd (f fs))"
  shows "only_in dir fs (snd (fsSteps steps fs))"
  using assms
proof (induction steps arbitrary: fs)
  case (Cons f steps)
  obtain r fs1 where f: "f fs = (r, fs1)" by (cases "f fs")
  have "only_in dir fs fs1" using Cons.prems [of f fs] f by simp
  moreover have "only_in dir fs1 (snd (fsSteps steps fs1))" using Cons by simp
  ultimately show ?case using f only_in_trans by (auto split: sum.split)
qed (simp add: only_in_refl)

lemma Save_eq:
  assumes "TrimSpace (ds_baseDir s) \<noteq> []"
  shows "Save faults now r (Some s) fs =
    (case MkdirAll faults (snapshotDir s r) fs of
       (Inl err, fs1) \<Rightarrow> (Inl (''mkdir debug snapshot dir: '' @ err), fs1)
     | (Inr _, fs1) \<Rightarrow>
         (case fsSteps (saveSteps faults now r s) fs1 of
            (Inl err, fs2) \<Rightarrow> (Inl err, fs2)
          | (Inr _, fs2) \<Rightarrow> (Inr (Join [snapshotDir s r, snapshotName now r]), fs2)))"
  using assms by (simp add: Save_def)

lemma MkdirAll_files: "fs_files (snd (MkdirAll faults dir fs)) = fs_files fs"
  by (simp add: MkdirAll_def split: option.split)

lemma Save_only_in:
  assumes base: "TrimSpace (ds_baseDir s) \<noteq> []"
  shows "only_in (snapshotDir s r) fs (snd (Save faults now r (Some s) fs))"
proof -
  have ne: "ds_baseDir s \<noteq> []" using base by auto
  obtain rooted cs g d where c1: "cs = pathComponents (ds_baseDir s) @ [g, d]" and "safe_name g" and "safe_name d"
      and c2: "cleaned rooted cs" and dir: "snapshotDir s r = render rooted cs"
    by (rule snapshotDir_below [OF ne])
  note cs = c1 c2
  have child: "Join [snapshotDir s r, n] = snapshotDir s r @ CHR ''/'' # n" if "safe_name n" for n
    unfolding dir by (rule Join_child [OF cs(2) _ that]) (simp add: cs(1))
  have prune: "only_in (snapshotDir s r) fs (snd (pruneDeviceDir faults s (snapshotDir s r) fs))" for fs
    using only_in_prune [OF cs(2), of "snapshotNames (snapshotDir s r) fs" fs faults "ds_keepPerDevice s"]
    by (simp add: pruneDeviceDir_def dir cs(1) snapshotNames_safe only_in_refl split: option.split)
  have steps: "only_in (snapshotDir s r) fs (snd (fsSteps (saveSteps faults now r s) fs))" for fs
    using only_in_write prune
    by (intro only_in_steps) (auto simp: saveSteps_def Let_def child snapshotName_safe)
  have "only_in (snapshotDir s r) fs (snd (MkdirAll faults (snapshotDir s r) fs))"
    by (rule only_in_files) (rule MkdirAll_files)
  then show ?thesis
    using steps only_in_trans unfolding Save_eq [OF base]
    by (fastforce split: prod.split sum.split)
qed

section \<open>What the store keeps\<close>

lemma gdel_filter: "gdel k m = filter (\<lambda>(k', _). k' \<noteq> k) m"
  by (auto simp: AList.delete_eq intro: filter_cong)

lemma pruned_files:
  assumes "pruneNames (removeSnapshot faults dir) keep names fs = (Inr (), fs')"
  shows "fs_files fs' = filter (\<lambda>(f, _). f \<notin> (\<lambda>n. Join [dir, n]) ` set (take (length names - keep) names)) (fs_files fs)"
  using assms
proof (induction names arbitrary: fs)
  case (Cons n names)
  show ?case
  proof (cases "length (n # names) \<le> keep")
    case False
    define fs1 where "fs1 = fs\<lparr>fs_files := gdel (Join [dir, n]) (fs_files fs)\<rparr>"
    have "pruneNames (removeSnapshot faults dir) keep names fs1 = (Inr (), fs')"
      using Cons.prems False
      by (simp add: removeSnapshot_def [of faults dir n fs] fs1_def Let_def split: option.splits)
    from Cons.IH [OF this]
    have "fs_files fs' = filter (\<lambda>(f, _). f \<notin> (\<lambda>n. Join [dir, n]) ` set (take (length names - keep) names))
        (filter (\<lambda>(f, _). f \<noteq> Join [dir, n]) (fs_files fs))"
      by (simp add: fs1_def gdel_filter)
    moreover have "take (length (n # names) - keep) (n # names) = n # take (length names - keep) names"
      using False by (simp add: Suc_diff_le)
    ultimately show ?thesis by (simp add: split_beta conj_commute)
  qed (use Cons.prems in auto)
qed simp

lemma distinct_map_filter:
  "distinct xs \<Longrightarrow> (\<And>x y z. f x = Some z \<Longrightarrow> f y = Some z \<Longrightarrow> x = y) \<Longrightarrow> distinct (List.map_filter f xs)"
  by (induction xs) (auto simp: List.map_filter_simps set_map_filter split: option.split)

lemma distinct_snapshotNames: "gwf (fs_files fs) \<Longrightarrow> distinct (snapshotNames dir fs)"
  by (auto simp: snapshotNames_def childFiles_def gwf_def childName_Some intro!: distinct_filter distinct_map_filter)

lemma filter_not_in_take: "distinct xs \<Longrightarrow> filter (\<lambda>x. x \<notin> set (take k xs)) xs = drop k xs"
proof -
  assume d: "distinct xs"
  have "set (take k xs) \<inter> set (drop k xs) = {}" using set_take_disj_set_drop_if_distinct [OF d, of k k] by simp
  then have "filter (\<lambda>x. x \<notin> set (take k xs)) (drop k xs) = drop k xs"
    unfolding filter_id_conv by blast
  moreover have "filter (\<lambda>x. x \<notin> set (take k xs)) (take k xs) = []"
    unfolding filter_empty_conv by blast
  ultimately show ?thesis
    using filter_append [of "\<lambda>x. x \<notin> set (take k xs)" "take k xs" "drop k xs"] by (simp only: append_take_drop_id append_Nil)
qed

lemma snapshotNames_pruned:
  assumes dir: "cleaned rooted cs" "cs \<noteq> []" "dir = render rooted cs" and wf: "gwf (fs_files fs)"
    and "pruneDeviceDir faults s dir fs = (Inr (), fs')"
  shows "snapshotNames dir fs' = drop (length (snapshotNames dir fs) - ds_keepPerDevice s) (snapshotNames dir fs)"
proof -
  define names where "names = snapshotNames dir fs"
  define gone where "gone = set (take (length names - ds_keepPerDevice s) names)"
  have files: "fs_files fs' = filter (\<lambda>(f, _). f \<notin> (\<lambda>n. Join [dir, n]) ` gone) (fs_files fs)"
    using pruned_files [of faults dir "ds_keepPerDevice s" names fs fs'] assms(5)
    by (simp add: pruneDeviceDir_def names_def gone_def split: option.splits)
  have child: "Join [dir, n] = dir @ CHR ''/'' # n" if "n \<in> gone" for n
  proof -
    have "n \<in> set names" using that unfolding gone_def by (rule in_set_takeD)
    then have "safe_name n" unfolding names_def by (rule snapshotNames_safe)
    then show ?thesis unfolding dir(3) by (rule Join_child [OF dir(1,2)])
  qed
  have keep: "childName dir f = Some m \<Longrightarrow> f \<notin> (\<lambda>n. Join [dir, n]) ` gone \<longleftrightarrow> m \<notin> gone" for f m
    using child by (auto simp: childName_Some image_iff)
  have "List.map_filter (childName dir) (map fst (filter (\<lambda>(f, _). f \<notin> (\<lambda>n. Join [dir, n]) ` gone) m)) =
      filter (\<lambda>n. n \<notin> gone) (List.map_filter (childName dir) (map fst m))" for m :: "(string \<times> string) list"
  proof (induction m)
    case (Cons x m)
    show ?case
      using keep [of "fst x"] Cons by (cases "childName dir (fst x)") (auto simp: List.map_filter_simps)
  qed (simp add: List.map_filter_simps)
  then have "snapshotNames dir fs' = filter (\<lambda>n. n \<notin> gone) names"
    by (simp add: snapshotNames_def names_def childFiles_def files filter_sort [symmetric] conj_commute)
  moreover have "distinct names" by (simp add: names_def distinct_snapshotNames wf)
  ultimately show ?thesis
    using filter_not_in_take [of names] by (simp add: gone_def names_def)
qed

lemma snapshotNames_mem:
  "n \<in> set (snapshotNames dir fs) \<longleftrightarrow>
     gget (fs_files fs) (dir @ CHR ''/'' # n) \<noteq> None \<and> CHR ''/'' \<notin> set n \<and> n \<noteq> ''latest.json'' \<and> HasSuffix n ''.json''"
  by (auto simp: snapshotNames_def childFiles_mem gget_None_iff)

lemma snapshotNames_eqI:
  assumes "gwf (fs_files fs)" and "set (snapshotNames dir fs) = N"
  shows "snapshotNames dir fs = sorted_list_of_set N"
proof -
  have "sorted (snapshotNames dir fs)" by (simp add: snapshotNames_def)
  then show ?thesis
    using sorted_list_of_set.idem_if_sorted_distinct [of "snapshotNames dir fs"] distinct_snapshotNames [OF assms(1)] assms(2)
    by simp
qed

text \<open>A write that succeeds: the file is there, the temporary file is gone, nothing else changes.\<close>

lemma writeAtomicFile_ok:
  assumes "writeAtomicFile faults path data fs = (Inr u, fs')"
  shows "gget (fs_files fs') f = (if f = path then Some data else if f = path @ ''.tmp'' then None else gget (fs_files fs) f)"
    and "gwf (fs_files fs) \<Longrightarrow> gwf (fs_files fs')"
  using assms by (auto simp: writeAtomicFile_def Let_def gwf_put gwf_del split: option.splits)

lemma not_json_tmp: "\<not> HasSuffix (n @ ''.tmp'') ''.json''"
  by (auto simp: HasSuffix_def suffix_def)

lemma snapshotNames_write:
  assumes "writeAtomicFile faults (dir @ CHR ''/'' # n) data fs = (Inr u, fs')" and "safe_name n" and "HasSuffix n ''.json''"
  shows "set (snapshotNames dir fs') = (if n = ''latest.json'' then {} else {n}) \<union> set (snapshotNames dir fs)"
proof -
  have "m = n @ ''.tmp'' \<Longrightarrow> \<not> HasSuffix m ''.json''" for m using not_json_tmp by simp
  moreover have "CHR ''/'' \<notin> set n" using assms(2) by (simp add: safe_name_def)
  ultimately show ?thesis
    using assms(3) unfolding set_eq_iff Un_iff snapshotNames_mem writeAtomicFile_ok(1) [OF assms(1)]
    by (auto split: if_splits)
qed

lemma prune_keeps_latest:
  assumes dir: "cleaned rooted cs" "cs \<noteq> []" "dir = render rooted cs" and "pruneDeviceDir faults s dir fs = (Inr u, fs')"
    and wf: "gwf (fs_files fs)"
  shows "gget (fs_files fs') (dir @ ''/latest.json'') = gget (fs_files fs) (dir @ ''/latest.json'')"
proof -
  define k where "k = length (snapshotNames dir fs) - ds_keepPerDevice s"
  have files: "fs_files fs' = gfilter (\<lambda>f _. f \<notin> (\<lambda>n. Join [dir, n]) ` set (take k (snapshotNames dir fs))) (fs_files fs)"
    using pruned_files [of faults dir "ds_keepPerDevice s" "snapshotNames dir fs" fs fs'] assms(4)
    by (simp add: pruneDeviceDir_def k_def gfilter_def split: option.splits)
  have "dir @ ''/latest.json'' \<noteq> Join [dir, n]" if "n \<in> set (take k (snapshotNames dir fs))" for n
  proof -
    have n: "n \<in> set (snapshotNames dir fs)" using that by (rule in_set_takeD)
    then have "Join [dir, n] = dir @ CHR ''/'' # n"
      using Join_child [OF dir(1,2)] snapshotNames_safe unfolding dir(3) by simp
    moreover have "n \<noteq> ''latest.json''" using n unfolding snapshotNames_mem by blast
    ultimately show ?thesis by auto
  qed
  then show ?thesis
    unfolding files gget_gfilter [OF wf] by (auto split: option.split)
qed

lemma snapshotName_json: "HasSuffix (snapshotName now r) ''.json''" "snapshotName now r \<noteq> ''latest.json''"
proof -
  have "CHR ''_'' \<in> set (snapshotName now r)" by (simp add: snapshotName_def)
  then show "snapshotName now r \<noteq> ''latest.json''" by auto
  show "HasSuffix (snapshotName now r) ''.json''" by (simp add: snapshotName_def HasSuffix_def suffix_def)
qed

lemma saveSteps_ok:
  assumes dir: "cleaned rooted cs" "cs \<noteq> []" "snapshotDir s r = render rooted cs"
    and steps: "fsSteps (saveSteps faults now r s) fs = (Inr u, fs')" and wf: "gwf (fs_files fs)"
  shows "gget (fs_files fs') (snapshotDir s r @ ''/latest.json'') = Some (cr_SnapshotJSON r)"
    and "snapshotNames (snapshotDir s r) fs' =
      (let names = sorted_list_of_set (insert (snapshotName now r) (set (snapshotNames (snapshotDir s r) fs)))
       in drop (length names - ds_keepPerDevice s) names)"
proof -
  let ?dir = "snapshotDir s r" and ?n = "snapshotName now r"
  have child: "safe_name n \<Longrightarrow> Join [?dir, n] = ?dir @ CHR ''/'' # n" for n
    unfolding dir(3) by (rule Join_child [OF dir(1,2)])
  obtain u1 fs1 u2 fs2 where w1: "writeAtomicFile faults (?dir @ CHR ''/'' # ?n) (cr_SnapshotJSON r) fs = (Inr u1, fs1)"
      and w2: "writeAtomicFile faults (?dir @ CHR ''/'' # ''latest.json'') (cr_SnapshotJSON r) fs1 = (Inr u2, fs2)"
      and pr: "pruneDeviceDir faults s ?dir fs2 = (Inr (), fs')"
    using steps by (auto simp: saveSteps_def Let_def child snapshotName_safe split: prod.splits sum.splits)
  have wf2: "gwf (fs_files fs2)" using writeAtomicFile_ok(2) [OF w2] writeAtomicFile_ok(2) [OF w1] wf by blast
  show "gget (fs_files fs') (?dir @ ''/latest.json'') = Some (cr_SnapshotJSON r)"
    unfolding prune_keeps_latest [OF dir pr wf2] writeAtomicFile_ok(1) [OF w2] by simp
  note json = snapshotName_json [of now r]
  have latest: "HasSuffix ''latest.json'' ''.json''" by code_simp
  have "set (snapshotNames ?dir fs2) = insert ?n (set (snapshotNames ?dir fs))"
    using snapshotNames_write [OF w1 snapshotName_safe json(1)] snapshotNames_write [OF w2 _ latest] json(2)
    by simp
  then have N: "snapshotNames ?dir fs2 = sorted_list_of_set (insert ?n (set (snapshotNames ?dir fs)))"
    by (rule snapshotNames_eqI [OF wf2])
  show "snapshotNames ?dir fs' =
      (let names = sorted_list_of_set (insert ?n (set (snapshotNames ?dir fs)))
       in drop (length names - ds_keepPerDevice s) names)"
    unfolding snapshotNames_pruned [OF dir wf2 pr] N Let_def ..
qed

section \<open>Properties\<close>

text \<open>
  C24: whatever a device reports, a snapshot is written directly into a directory two safe names below the base
  directory; no other file of the file system changes, also when a step fails. When the save succeeds,
  \<^verbatim>\<open>latest.json\<close> holds the snapshot, and of the snapshots of the device, the new one included, the last
  \<^verbatim>\<open>keepPerDevice\<close> in the order of their names are left.
\<close>

theorem debug_save_confined:
  assumes "TrimSpace (ds_baseDir s) \<noteq> []" and "gwf (fs_files fs)" and "Save faults now r (Some s) fs = (res, fs')"
  shows "\<exists>g d. safe_name g \<and> safe_name d \<and>
    pathComponents (snapshotDir s r) = pathComponents (ds_baseDir s) @ [g, d] \<and>
    (\<forall>f. gget (fs_files fs') f \<noteq> gget (fs_files fs) f \<longrightarrow> (\<exists>n. safe_name n \<and> f = snapshotDir s r @ CHR ''/'' # n)) \<and>
    (\<forall>path. res = Inr path \<longrightarrow>
       gget (fs_files fs') (snapshotDir s r @ ''/latest.json'') = Some (cr_SnapshotJSON r) \<and>
       (let names = sorted_list_of_set (insert (snapshotName now r) (set (snapshotNames (snapshotDir s r) fs)))
        in snapshotNames (snapshotDir s r) fs' = drop (length names - ds_keepPerDevice s) names))"
proof -
  have ne: "ds_baseDir s \<noteq> []" using assms(1) by auto
  obtain rooted cs g d where cs: "cs = pathComponents (ds_baseDir s) @ [g, d]" and gd: "safe_name g" "safe_name d"
      and clean: "cleaned rooted cs" and dir: "snapshotDir s r = render rooted cs"
    by (rule snapshotDir_below [OF ne])
  have csne: "cs \<noteq> []" by (simp add: cs)
  have "only_in (snapshotDir s r) fs fs'" using Save_only_in [OF assms(1), of r fs faults now] assms(3) by simp
  moreover have "gget (fs_files fs') (snapshotDir s r @ ''/latest.json'') = Some (cr_SnapshotJSON r) \<and>
      snapshotNames (snapshotDir s r) fs' =
      (let names = sorted_list_of_set (insert (snapshotName now r) (set (snapshotNames (snapshotDir s r) fs)))
       in drop (length names - ds_keepPerDevice s) names)" if res: "res = Inr path" for path
  proof -
    obtain u fs1 where mk: "MkdirAll faults (snapshotDir s r) fs = (Inr u, fs1)"
        and steps: "fsSteps (saveSteps faults now r s) fs1 = (Inr (), fs')"
      using assms(3) unfolding res Save_eq [OF assms(1)] by (auto split: prod.splits sum.splits)
    have files: "fs_files fs1 = fs_files fs" using MkdirAll_files [of faults "snapshotDir s r" fs] mk by simp
    have names: "snapshotNames (snapshotDir s r) fs1 = snapshotNames (snapshotDir s r) fs"
      by (simp add: snapshotNames_def childFiles_def files)
    show ?thesis
      using saveSteps_ok [OF clean csne dir steps] assms(2) files names by simp
  qed
  moreover have "pathComponents (snapshotDir s r) = pathComponents (ds_baseDir s) @ [g, d]"
    using pathComponents_render [OF clean csne] by (simp add: dir cs)
  ultimately show ?thesis
    using gd unfolding only_in_def Let_def by blast
qed

definition sample_result :: DebugCollectResult where
  "sample_result = \<lparr>cr_RequestID = 1, cr_UserID = ''u'', cr_Group = ''../../etc'', cr_Name = ''a/b'', cr_DeviceID = ''..'',
     cr_VirtualIP = ''10.0.0.2'', cr_CollectedAtUnixMs = 7, cr_SnapshotJSON = ''{}'', cr_SavedPath = []\<rparr>"

definition sample_store :: DebugSnapshotStore where
  "sample_store = NewDebugSnapshotStore ''./data/debug'' 0"

definition empty_fs :: debugFS where "empty_fs = \<lparr>fs_dirs = [], fs_files = []\<rparr>"

theorem debug_save_confined_witness:
  "fst (Save (\<lambda>_ _. None) 0 sample_result (Some sample_store) empty_fs) =
     Inr ''data/debug/etc/a_b__unknown-device/7__10.0.0.2.json'' \<and>
   gget (fs_files (snd (Save (\<lambda>_ _. None) 0 sample_result (Some sample_store) empty_fs)))
     (snapshotDir sample_store sample_result @ ''/latest.json'') = Some (cr_SnapshotJSON sample_result)"
proof -
  have base: "TrimSpace (ds_baseDir sample_store) \<noteq> []" by code_simp
  have path: "fst (Save (\<lambda>_ _. None) 0 sample_result (Some sample_store) empty_fs) =
      Inr ''data/debug/etc/a_b__unknown-device/7__10.0.0.2.json''" by code_simp
  have wf: "gwf (fs_files empty_fs)" by (simp add: empty_fs_def)
  from debug_save_confined [OF base wf prod.collapse [symmetric]] path show ?thesis by blast
qed

text \<open>
  The names are compared as text: of the watches 2, 3 and 10 the last one is removed first, also when it has just
  been started.
\<close>

lemma watch_prune_by_text:
  "let fs = \<lparr>fs_dirs = [''d/watch-2'', ''d/watch-3'', ''d/watch-10''], fs_files = []\<rparr>
   in fs_dirs (snd (pruneWatchDeviceDir (\<lambda>_ _. None) (NewDebugSnapshotStore ''d'' 2) ''d'' fs)) =
        [''d/watch-2'', ''d/watch-3'']"
  by code_simp

end
