(* ===== verification/Debug.thy ===== *)
theory Debug
  imports Controller Debug_Store
begin

text \<open>
  Debug collection and debug watches, \<^verbatim>\<open>control/debug_collect.go\<close> and \<^verbatim>\<open>control/debug_watch.go\<close>: requests that an
  administrator sends to a device, the channels on which the callers wait, the answers of the devices and the
  table of running watches.

  A channel with room for one result is a cell of a heap of channels: a list of the results that were sent and not
  yet received. Sending to a full channel blocks for good when nobody receives any more; it is \<^term>\<open>None\<close>.
\<close>

section \<open>Waiters\<close>

record 'r waiters =
  wt_pending :: "(u64, nat) gomap"
  wt_next :: nat
  wt_channels :: "(nat, 'r list) gomap"

definition no_waiters :: "'r waiters" where
  "no_waiters = \<lparr>wt_pending = [], wt_next = 0, wt_channels = []\<rparr>"

text \<open>\<^verbatim>\<open>make(chan T, 1)\<close>, registered under the number of the request.\<close>

definition newWaiter :: "u64 \<Rightarrow> 'r waiters \<Rightarrow> nat \<times> 'r waiters" where
  "newWaiter requestID w =
     (wt_next w, w\<lparr>wt_pending := gput requestID (wt_next w) (wt_pending w), wt_next := Suc (wt_next w),
                   wt_channels := gput (wt_next w) [] (wt_channels w)\<rparr>)"

definition finishWaiter :: "u64 \<Rightarrow> nat \<Rightarrow> 'r waiters \<Rightarrow> 'r waiters" where
  "finishWaiter requestID waiter w =
     (if gget (wt_pending w) requestID = Some waiter then w\<lparr>wt_pending := gdel requestID (wt_pending w)\<rparr> else w)"

definition cancelWaiter :: "u64 \<Rightarrow> 'r waiters \<Rightarrow> 'r waiters" where
  "cancelWaiter requestID w = w\<lparr>wt_pending := gdel requestID (wt_pending w)\<rparr>"

definition sendTo :: "nat \<Rightarrow> 'r \<Rightarrow> 'r waiters \<Rightarrow> 'r waiters option" where
  "sendTo waiter result w =
     (case gget (wt_channels w) waiter of
        None \<Rightarrow> None
      | Some queued \<Rightarrow>
          if queued \<noteq> [] then None else Some (w\<lparr>wt_channels := gput waiter [result] (wt_channels w)\<rparr>))"

text \<open>
  The waiter of a request is taken out of the table under the lock and gets the result after it. A result without a
  waiter is dropped.
\<close>

definition resolveWaiter :: "u64 \<Rightarrow> 'r \<Rightarrow> 'r waiters \<Rightarrow> 'r waiters option" where
  "resolveWaiter requestID result w =
     (case gget (wt_pending w) requestID of
        None \<Rightarrow> Some w
      | Some waiter \<Rightarrow> sendTo waiter result (cancelWaiter requestID w))"

text \<open>
  The two halves of an await: the waiter is looked up; then either the timer fires and the request is cancelled,
  or a result is received. \<^term>\<open>None\<close> is the select that still waits.
\<close>

definition awaitSelect :: "bool \<Rightarrow> u64 \<Rightarrow> nat \<Rightarrow> 'r waiters \<Rightarrow> ('r option \<times> 'r waiters) option" where
  "awaitSelect fired requestID waiter w =
     (if fired then Some (None, cancelWaiter requestID w)
      else case gget (wt_channels w) waiter of
        Some (result # queued) \<Rightarrow> Some (Some result, w\<lparr>wt_channels := gput waiter queued (wt_channels w)\<rparr>)
      | _ \<Rightarrow> None)"

section \<open>State\<close>

record DebugWatchStartResult =
  sr_RequestID :: u64
  sr_WatchID :: u64
  sr_UserID :: string
  sr_Group :: string
  sr_Name :: string
  sr_DeviceID :: string
  sr_VirtualIP :: string
  sr_StartedAtUnixMs :: int
  sr_ExpireAtUnixMs :: int
  sr_SavedPath :: string

record DebugWatchStopResult =
  tr_RequestID :: u64
  tr_WatchID :: u64
  tr_UserID :: string
  tr_Group :: string
  tr_Name :: string
  tr_DeviceID :: string
  tr_VirtualIP :: string
  tr_StoppedAtUnixMs :: int
  tr_SavedPath :: string

record debugState =
  dg_collectSeq :: u64
  dg_watchSeq :: u64
  dg_collect :: "DebugCollectResult waiters"
  dg_watchStart :: "DebugWatchStartResult waiters"
  dg_watchStop :: "DebugWatchStopResult waiters"
  dg_latestCollect :: "(string, DebugCollectResult) gomap"
  dg_activeWatches :: "(u64, DebugWatchSession) gomap"
  dg_activeWatchByDevice :: "(string, u64) gomap"
  dg_files :: debugFS

definition newDebugState :: "debugFS \<Rightarrow> debugState" where
  "newDebugState fs = \<lparr>dg_collectSeq = 0, dg_watchSeq = 0, dg_collect = no_waiters, dg_watchStart = no_waiters,
     dg_watchStop = no_waiters, dg_latestCollect = [], dg_activeWatches = [], dg_activeWatchByDevice = [], dg_files = fs\<rparr>"

record debug_env =
  de_store :: "DebugSnapshotStore option"
  de_faults :: fs_faults
  de_quote :: "string \<Rightarrow> string"

section \<open>Finding the device\<close>

definition userIDForAuthedDevice :: "UserManager \<Rightarrow> string \<Rightarrow> string \<Rightarrow> string option" where
  "userIDForAuthedDevice um groupName deviceID =
     map_option ad_UserID (gget (um_authedDevices um) (groupName @ CHR 0x00 # deviceID))"

definition onlineMatch ::
    "UserManager \<Rightarrow> string \<Rightarrow> string \<Rightarrow> string \<Rightarrow> NetworkInfo \<Rightarrow> u32 \<times> ClientInfo \<Rightarrow> (DeviceAdminView \<times> u32 \<times> string) option" where
  "onlineMatch um name userID grp network = (\<lambda>(ip, client).
     let authGroup = clientAuthGroup client (ni_Group network);
         own = TrimSpace (cl_UserID client);
         recordUserID = (if own = [] then case_option [] id (userIDForAuthedDevice um authGroup (cl_DeviceId client)) else own)
     in if grp \<noteq> [] \<and> \<not> EqualFold authGroup grp then None
        else if \<not> cl_ControlOnline client \<or> \<not> EqualFold (TrimSpace (cl_Name client)) name then None
        else if userID \<noteq> [] \<and> \<not> EqualFold recordUserID userID then None
        else Some (\<lparr>dv_UserID = recordUserID, dv_Group = authGroup, dv_Name = cl_Name client, dv_DeviceID = cl_DeviceId client,
                    dv_VirtualIP = Uint32ToIP_String ip, dv_ControlOnline = cl_ControlOnline client,
                    dv_DataPlaneReachable = cl_DataPlaneReachable client, dv_AuthedAtUnix = 0, dv_AuthExpireAtUnix = 0,
                    dv_AuthExpired = False, dv_UpdatedAtUnix = 0\<rparr>,
                   ip, clientNetworkKey client (ni_Group network)))"

definition findOnlineDeviceByName ::
    "(string \<Rightarrow> string) \<Rightarrow> string \<Rightarrow> string \<Rightarrow> string \<Rightarrow> Controller \<Rightarrow> (DeviceAdminView \<times> u32 \<times> string) result" where
  "findOnlineDeviceByName quote name0 userID0 grp0 ct =
     (let name = TrimSpace name0; userID = TrimSpace userID0; grp = TrimSpace grp0;
          matches = forEachVirtualNetworkRead (ct_nc ct) []
            (\<lambda>_ network found. (True, found @ List.map_filter (onlineMatch (ct_um ct) name userID grp network) (ni_Clients network))) []
      in if name = [] then Inl ''name required''
         else case matches of
           [] \<Rightarrow> Inl (''no online device matched name '' @ quote name)
         | [found] \<Rightarrow> Inr found
         | _ \<Rightarrow> Inl (''name '' @ quote name @ '' matched multiple online devices: '' @
                 JoinStrings (map (\<lambda>(v, _, _). dv_UserID v @ ''/'' @ dv_Group v @ ''/'' @ dv_DeviceID v)
                   (sort_key (\<lambda>(v, _, _). (dv_Group v, dv_UserID v, dv_DeviceID v)) matches)) '', ''))"

text \<open>The identity that the answer of a device is given: of the first client with its source address.\<close>

definition debugIdentity ::
    "Controller \<Rightarrow> Packet \<Rightarrow> string \<times> string \<times> string \<times> string \<times> string" where
  "debugIdentity ct packet =
     (let ip = IpToUint32 (pk_SrcIP packet) in
      forEachVirtualNetworkRead (ct_nc ct) []
        (\<lambda>_ network found.
           case gget (ni_Clients network) ip of
             None \<Rightarrow> (True, found)
           | Some client \<Rightarrow>
               (let authGroup = clientAuthGroup client (ni_Group network); own = TrimSpace (cl_UserID client)
                in (False,
                    (if own \<noteq> [] then own
                     else case_option [] id (userIDForAuthedDevice (ct_um ct) authGroup (cl_DeviceId client)),
                     authGroup, cl_Name client, cl_DeviceId client, Uint32ToIP_String ip))))
        ([], [], [], [], IP_String (pk_SrcIP packet)))"

fun normalizeSections :: "string list \<Rightarrow> string list \<Rightarrow> string list" where
  "normalizeSections seen [] = []"
| "normalizeSections seen (section # sections) =
     (let normalized = ToLower (TrimSpace section) in
      if normalized = [] \<or> normalized \<in> set seen then normalizeSections seen sections
      else normalized # normalizeSections (normalized # seen) sections)"

definition normalizeDebugSections :: "string list \<Rightarrow> string list" where
  "normalizeDebugSections sections = normalizeSections [] sections"

section \<open>Collection\<close>

record DebugCollectRequest =
  cq_RequestId :: u64
  cq_Sections :: "string list"
  cq_Reason :: string

record DebugCollectResponse =
  ca_RequestId :: u64
  ca_Ok :: bool
  ca_Reason :: string
  ca_CollectedAtUnixMs :: int
  ca_SnapshotJson :: string

definition debugPacket :: "u8 \<Rightarrow> u32 \<Rightarrow> bytes \<Rightarrow> string \<Rightarrow> Packet" where
  "debugPacket appProto ip payload networkKey =
     servicePacket appProto (net_IPv4 0 0 0 1) (Uint32ToIP ip) payload networkKey"

definition newDebugCollectWaiter :: "debugState \<Rightarrow> (u64 \<times> nat) \<times> debugState" where
  "newDebugCollectWaiter dg =
     (let requestID = dg_collectSeq dg + 1 in
      case newWaiter requestID (dg_collect dg) of
        (waiter, w) \<Rightarrow> ((requestID, waiter), dg\<lparr>dg_collectSeq := requestID, dg_collect := w\<rparr>))"

definition PrepareDebugCollectByName ::
    "debug_env \<Rightarrow> (DebugCollectRequest \<Rightarrow> bytes result) \<Rightarrow> string \<Rightarrow> string \<Rightarrow> string \<Rightarrow> string list \<Rightarrow> Controller \<Rightarrow> debugState
     \<Rightarrow> (Packet \<times> u32 \<times> u64) result \<times> debugState" where
  "PrepareDebugCollectByName env marshal name userID grp sections ct dg =
     (case findOnlineDeviceByName (de_quote env) name userID grp ct of
        Inl err \<Rightarrow> (Inl err, dg)
      | Inr (_, ip, networkKey) \<Rightarrow>
          (case newDebugCollectWaiter dg of
             ((requestID, waiter), dg1) \<Rightarrow>
               (case marshal \<lparr>cq_RequestId = requestID, cq_Sections = normalizeDebugSections sections,
                              cq_Reason = ''admin collect_debug''\<rparr> of
                  Inl err \<Rightarrow> (Inl err, dg1\<lparr>dg_collect := finishWaiter requestID waiter (dg_collect dg1)\<rparr>)
                | Inr payload \<Rightarrow>
                    (Inr (debugPacket AppProtoDebugCollectRequest ip payload networkKey, ip, requestID), dg1))))"

definition CancelDebugCollect :: "u64 \<Rightarrow> debugState \<Rightarrow> debugState" where
  "CancelDebugCollect requestID dg = dg\<lparr>dg_collect := cancelWaiter requestID (dg_collect dg)\<rparr>"

text \<open>\<^verbatim>\<open>AwaitDebugCollect\<close> in two steps: the lookup of the waiter, and the select on it.\<close>

definition lookupDebugCollect :: "u64 \<Rightarrow> debugState \<Rightarrow> nat result" where
  "lookupDebugCollect requestID dg =
     (case gget (wt_pending (dg_collect dg)) requestID of
        None \<Rightarrow> Inl (''debug request '' @ show_word requestID @ '' not found'') | Some waiter \<Rightarrow> Inr waiter)"

definition selectDebugCollect ::
    "bool \<Rightarrow> u64 \<Rightarrow> nat \<Rightarrow> debugState \<Rightarrow> (DebugCollectResult result \<times> debugState) option" where
  "selectDebugCollect fired requestID waiter dg =
     map_option (\<lambda>(r, w).
       (case r of
          None \<Rightarrow> Inl ''debug collection timed out''
        | Some result \<Rightarrow> if cr_SnapshotJSON result = [] then Inl ''debug collection returned empty snapshot'' else Inr result,
        dg\<lparr>dg_collect := w\<rparr>))
       (awaitSelect fired requestID waiter (dg_collect dg))"

definition decorateDebugCollectResult :: "Controller \<Rightarrow> Packet \<Rightarrow> DebugCollectResponse \<Rightarrow> DebugCollectResult" where
  "decorateDebugCollectResult ct packet resp =
     (case debugIdentity ct packet of
        (userID, grp, name, deviceID, virtualIP) \<Rightarrow>
          \<lparr>cr_RequestID = ca_RequestId resp, cr_UserID = userID, cr_Group = grp, cr_Name = name, cr_DeviceID = deviceID,
           cr_VirtualIP = virtualIP, cr_CollectedAtUnixMs = ca_CollectedAtUnixMs resp, cr_SnapshotJSON = ca_SnapshotJson resp,
           cr_SavedPath = []\<rparr>)"

definition resolveDebugCollect :: "debug_env \<Rightarrow> gtime \<Rightarrow> DebugCollectResult \<Rightarrow> debugState \<Rightarrow> debugState option" where
  "resolveDebugCollect env now result0 dg =
     (let (saved, fs) =
            (if de_store env \<noteq> None \<and> TrimSpace (cr_SnapshotJSON result0) \<noteq> []
             then (case Save (de_faults env) now result0 (de_store env) (dg_files dg) of
                     (Inl err, fs) \<Rightarrow> (cr_SavedPath result0, fs) | (Inr path, fs) \<Rightarrow> (path, fs))
             else (cr_SavedPath result0, dg_files dg));
          result = result0\<lparr>cr_SavedPath := saved\<rparr>
      in map_option
           (\<lambda>w. dg\<lparr>dg_files := fs, dg_collect := w,
                   dg_latestCollect := (if cr_DeviceID result \<noteq> [] then gput (cr_DeviceID result) result (dg_latestCollect dg)
                                        else dg_latestCollect dg)\<rparr>)
           (resolveWaiter (cr_RequestID result) result (dg_collect dg)))"

definition rejectedSnapshot :: "(string \<Rightarrow> string) \<Rightarrow> DebugCollectResponse \<Rightarrow> string \<Rightarrow> string" where
  "rejectedSnapshot quote resp json =
     (if ca_Ok resp then json
      else if TrimSpace (ca_Reason resp) \<noteq> [] then ''{'' @ jsonKey ''error'' @ quote (TrimSpace (ca_Reason resp)) @ ''}''
      else ''{'' @ jsonKey ''error'' @ CHR 0x22 # ''debug collection rejected'' @ CHR 0x22 # ''}'')"

definition HandleDebugCollectResponse ::
    "debug_env \<Rightarrow> gtime \<Rightarrow> Packet \<Rightarrow> DebugCollectResponse result \<Rightarrow> Controller \<Rightarrow> debugState \<Rightarrow> (unit result \<times> debugState) option"
  where
  "HandleDebugCollectResponse env now request decoded ct dg =
     (case decoded of
        Inl err \<Rightarrow> Some (Inl err, dg)
      | Inr resp \<Rightarrow>
          (let result = decorateDebugCollectResult ct request resp in
           map_option (\<lambda>dg'. (Inr (), dg'))
             (resolveDebugCollect env now
                (result\<lparr>cr_SnapshotJSON := rejectedSnapshot (de_quote env) resp (cr_SnapshotJSON result)\<rparr>) dg)))"

section \<open>Watches\<close>

record DebugWatchStartRequest =
  wq_RequestId :: u64
  wq_Sections :: "string list"
  wq_DurationSec :: u32
  wq_Reason :: string

record DebugWatchStopRequest =
  xq_RequestId :: u64
  xq_WatchId :: u64
  xq_Reason :: string

record DebugWatchStartResponse =
  wa_RequestId :: u64
  wa_WatchId :: u64
  wa_Ok :: bool
  wa_StartedAtUnixMs :: int
  wa_ExpireAtUnixMs :: int

record DebugWatchStopResponse =
  xa_RequestId :: u64
  xa_WatchId :: u64
  xa_StoppedAtUnixMs :: int

record DebugWatchEvent =
  we_WatchId :: u64
  we_EventUnixMs :: int
  we_Section :: string
  we_EventType :: string
  we_PayloadJson :: string

definition newDebugWatchStartWaiter :: "debugState \<Rightarrow> (u64 \<times> nat) \<times> debugState" where
  "newDebugWatchStartWaiter dg =
     (let requestID = dg_watchSeq dg + 1 in
      case newWaiter requestID (dg_watchStart dg) of
        (waiter, w) \<Rightarrow> ((requestID, waiter), dg\<lparr>dg_watchSeq := requestID, dg_watchStart := w\<rparr>))"

definition newDebugWatchStopWaiter :: "debugState \<Rightarrow> (u64 \<times> nat) \<times> debugState" where
  "newDebugWatchStopWaiter dg =
     (let requestID = dg_watchSeq dg + 1 in
      case newWaiter requestID (dg_watchStop dg) of
        (waiter, w) \<Rightarrow> ((requestID, waiter), dg\<lparr>dg_watchSeq := requestID, dg_watchStop := w\<rparr>))"

text \<open>\<^verbatim>\<open>uint32(duration / time.Second)\<close> truncates towards zero and wraps; zero means five minutes.\<close>

definition watchDuration :: "int \<Rightarrow> u32" where
  "watchDuration duration =
     (let seconds = word_of_int (if duration < 0 then - ((- duration) div Second) else duration div Second)
      in if seconds = 0 then 300 else seconds)"

definition PrepareDebugWatchStartByName ::
    "debug_env \<Rightarrow> (DebugWatchStartRequest \<Rightarrow> bytes result) \<Rightarrow> string \<Rightarrow> string \<Rightarrow> string \<Rightarrow> string list \<Rightarrow> int \<Rightarrow> Controller
     \<Rightarrow> debugState \<Rightarrow> (Packet \<times> u32 \<times> u64) result \<times> debugState" where
  "PrepareDebugWatchStartByName env marshal name userID grp sections duration ct dg =
     (case findOnlineDeviceByName (de_quote env) name userID grp ct of
        Inl err \<Rightarrow> (Inl err, dg)
      | Inr (_, ip, networkKey) \<Rightarrow>
          (case newDebugWatchStartWaiter dg of
             ((requestID, waiter), dg1) \<Rightarrow>
               (case marshal \<lparr>wq_RequestId = requestID, wq_Sections = normalizeDebugSections sections,
                              wq_DurationSec = watchDuration duration, wq_Reason = ''admin start_debug_watch''\<rparr> of
                  Inl err \<Rightarrow> (Inl err, dg1\<lparr>dg_watchStart := finishWaiter requestID waiter (dg_watchStart dg1)\<rparr>)
                | Inr payload \<Rightarrow>
                    (Inr (debugPacket AppProtoDebugWatchStartRequest ip payload networkKey, ip, requestID), dg1))))"

definition activeDebugWatchIDForDevice :: "string \<Rightarrow> debugState \<Rightarrow> u64" where
  "activeDebugWatchIDForDevice deviceID dg =
     (case gget (dg_activeWatchByDevice dg) (TrimSpace deviceID) of Some watchID \<Rightarrow> watchID | None \<Rightarrow> 0)"

definition PrepareDebugWatchStopByName ::
    "debug_env \<Rightarrow> (DebugWatchStopRequest \<Rightarrow> bytes result) \<Rightarrow> string \<Rightarrow> string \<Rightarrow> string \<Rightarrow> Controller \<Rightarrow> debugState
     \<Rightarrow> (Packet \<times> u32 \<times> u64) result \<times> debugState" where
  "PrepareDebugWatchStopByName env marshal name userID grp ct dg =
     (case findOnlineDeviceByName (de_quote env) name userID grp ct of
        Inl err \<Rightarrow> (Inl err, dg)
      | Inr (found, ip, networkKey) \<Rightarrow>
          (case newDebugWatchStopWaiter dg of
             ((requestID, waiter), dg1) \<Rightarrow>
               (case marshal \<lparr>xq_RequestId = requestID, xq_WatchId = activeDebugWatchIDForDevice (dv_DeviceID found) dg1,
                              xq_Reason = ''admin stop_debug_watch''\<rparr> of
                  Inl err \<Rightarrow> (Inl err, dg1\<lparr>dg_watchStop := finishWaiter requestID waiter (dg_watchStop dg1)\<rparr>)
                | Inr payload \<Rightarrow>
                    (Inr (debugPacket AppProtoDebugWatchStopRequest ip payload networkKey, ip, requestID), dg1))))"

definition cancelDebugWatchStart :: "u64 \<Rightarrow> debugState \<Rightarrow> debugState" where
  "cancelDebugWatchStart requestID dg = dg\<lparr>dg_watchStart := cancelWaiter requestID (dg_watchStart dg)\<rparr>"

definition cancelDebugWatchStop :: "u64 \<Rightarrow> debugState \<Rightarrow> debugState" where
  "cancelDebugWatchStop requestID dg = dg\<lparr>dg_watchStop := cancelWaiter requestID (dg_watchStop dg)\<rparr>"

definition lookupDebugWatchStart :: "u64 \<Rightarrow> debugState \<Rightarrow> nat result" where
  "lookupDebugWatchStart requestID dg =
     (case gget (wt_pending (dg_watchStart dg)) requestID of
        None \<Rightarrow> Inl (''debug watch start request '' @ show_word requestID @ '' not found'') | Some waiter \<Rightarrow> Inr waiter)"

definition selectDebugWatchStart ::
    "bool \<Rightarrow> u64 \<Rightarrow> nat \<Rightarrow> debugState \<Rightarrow> (DebugWatchStartResult result \<times> debugState) option" where
  "selectDebugWatchStart fired requestID waiter dg =
     map_option (\<lambda>(r, w).
       (case r of
          None \<Rightarrow> Inl ''debug watch start timed out''
        | Some result \<Rightarrow> if sr_WatchID result = 0 then Inl ''debug watch returned empty watch id'' else Inr result,
        dg\<lparr>dg_watchStart := w\<rparr>))
       (awaitSelect fired requestID waiter (dg_watchStart dg))"

definition lookupDebugWatchStop :: "u64 \<Rightarrow> debugState \<Rightarrow> nat result" where
  "lookupDebugWatchStop requestID dg =
     (case gget (wt_pending (dg_watchStop dg)) requestID of
        None \<Rightarrow> Inl (''debug watch stop request '' @ show_word requestID @ '' not found'') | Some waiter \<Rightarrow> Inr waiter)"

definition selectDebugWatchStop ::
    "bool \<Rightarrow> u64 \<Rightarrow> nat \<Rightarrow> debugState \<Rightarrow> (DebugWatchStopResult result \<times> debugState) option" where
  "selectDebugWatchStop fired requestID waiter dg =
     map_option (\<lambda>(r, w). (case r of None \<Rightarrow> Inl ''debug watch stop timed out'' | Some result \<Rightarrow> Inr result,
                             dg\<lparr>dg_watchStop := w\<rparr>))
       (awaitSelect fired requestID waiter (dg_watchStop dg))"

definition decorateDebugWatchStartResult :: "Controller \<Rightarrow> Packet \<Rightarrow> DebugWatchStartResponse \<Rightarrow> DebugWatchStartResult" where
  "decorateDebugWatchStartResult ct packet resp =
     (case debugIdentity ct packet of
        (userID, grp, name, deviceID, virtualIP) \<Rightarrow>
          \<lparr>sr_RequestID = wa_RequestId resp, sr_WatchID = wa_WatchId resp, sr_UserID = userID, sr_Group = grp, sr_Name = name,
           sr_DeviceID = deviceID, sr_VirtualIP = virtualIP, sr_StartedAtUnixMs = wa_StartedAtUnixMs resp,
           sr_ExpireAtUnixMs = wa_ExpireAtUnixMs resp, sr_SavedPath = []\<rparr>)"

definition decorateDebugWatchStopResult :: "Controller \<Rightarrow> Packet \<Rightarrow> DebugWatchStopResponse \<Rightarrow> DebugWatchStopResult" where
  "decorateDebugWatchStopResult ct packet resp =
     (case debugIdentity ct packet of
        (userID, grp, name, deviceID, virtualIP) \<Rightarrow>
          \<lparr>tr_RequestID = xa_RequestId resp, tr_WatchID = xa_WatchId resp, tr_UserID = userID, tr_Group = grp, tr_Name = name,
           tr_DeviceID = deviceID, tr_VirtualIP = virtualIP, tr_StoppedAtUnixMs = xa_StoppedAtUnixMs resp, tr_SavedPath = []\<rparr>)"

definition watchSessionOf :: "DebugWatchStartResult \<Rightarrow> DebugWatchSession" where
  "watchSessionOf result =
     \<lparr>ws_WatchID = sr_WatchID result, ws_UserID = sr_UserID result, ws_Group = sr_Group result, ws_Name = sr_Name result,
      ws_DeviceID = sr_DeviceID result, ws_VirtualIP = sr_VirtualIP result, ws_StartedAtUnixMs = sr_StartedAtUnixMs result,
      ws_ExpireAtUnixMs = sr_ExpireAtUnixMs result, ws_SessionDir = [], ws_EventsPath = []\<rparr>"

text \<open>The entries of a new watch: the previous watch of the device is dropped, the new one takes its number.\<close>

definition activateWatch :: "DebugWatchSession \<Rightarrow> debugState \<Rightarrow> debugState" where
  "activateWatch session dg =
     (let active = (case gget (dg_activeWatchByDevice dg) (ws_DeviceID session) of
            Some previousWatchID \<Rightarrow> gdel previousWatchID (dg_activeWatches dg) | None \<Rightarrow> dg_activeWatches dg)
      in dg\<lparr>dg_activeWatches := gput (ws_WatchID session) session active,
            dg_activeWatchByDevice := (if ws_DeviceID session \<noteq> [] then
              gput (ws_DeviceID session) (ws_WatchID session) (dg_activeWatchByDevice dg) else dg_activeWatchByDevice dg)\<rparr>)"

definition resolveDebugWatchStart :: "DebugWatchStartResult \<Rightarrow> debugState \<Rightarrow> debugState option" where
  "resolveDebugWatchStart result dg =
     map_option (\<lambda>w. dg\<lparr>dg_watchStart := w\<rparr>) (resolveWaiter (sr_RequestID result) result (dg_watchStart dg))"

definition HandleDebugWatchStartResponse ::
    "debug_env \<Rightarrow> Packet \<Rightarrow> DebugWatchStartResponse result \<Rightarrow> Controller \<Rightarrow> debugState \<Rightarrow> (unit result \<times> debugState) option" where
  "HandleDebugWatchStartResponse env packet decoded ct dg =
     (case decoded of
        Inl err \<Rightarrow> Some (Inl err, dg)
      | Inr resp \<Rightarrow>
          (let result = decorateDebugWatchStartResult ct packet resp in
           map_option (\<lambda>dg'. (Inr (), dg'))
             (if \<not> wa_Ok resp then resolveDebugWatchStart result dg
              else case StartWatch (de_quote env) (de_faults env) (watchSessionOf result) (de_store env) (dg_files dg) of
                ((err, stored), fs) \<Rightarrow>
                  (let kept = (de_store env \<noteq> None \<and> err = None);
                       session = (if kept then stored else watchSessionOf result);
                       answer = (if kept then result\<lparr>sr_SavedPath := ws_SessionDir stored\<rparr> else result)
                   in resolveDebugWatchStart answer (activateWatch session (dg\<lparr>dg_files := fs\<rparr>))))))"

text \<open>The watch is taken out of both tables and its files are closed; the waiter comes after it.\<close>

definition closeWatch :: "debug_env \<Rightarrow> DebugWatchStopResult \<Rightarrow> debugState \<Rightarrow> DebugWatchStopResult \<times> debugState" where
  "closeWatch env result dg =
     (case gget (dg_activeWatches dg) (tr_WatchID result) of
        None \<Rightarrow> (result, dg)
      | Some session \<Rightarrow>
          (let dg1 = dg\<lparr>dg_activeWatches := gdel (tr_WatchID result) (dg_activeWatches dg),
                        dg_activeWatchByDevice := (if ws_DeviceID session \<noteq> [] then
                          gdel (ws_DeviceID session) (dg_activeWatchByDevice dg) else dg_activeWatchByDevice dg)\<rparr>
           in if de_store env = None then (result, dg1)
              else (result\<lparr>tr_SavedPath := ws_SessionDir session\<rparr>,
                    dg1\<lparr>dg_files := snd (FinishWatch (de_quote env) (de_faults env) session (tr_StoppedAtUnixMs result)
                                         (de_store env) (dg_files dg1))\<rparr>)))"

definition HandleDebugWatchStopResponse ::
    "debug_env \<Rightarrow> Packet \<Rightarrow> DebugWatchStopResponse result \<Rightarrow> Controller \<Rightarrow> debugState \<Rightarrow> (unit result \<times> debugState) option" where
  "HandleDebugWatchStopResponse env packet decoded ct dg =
     (case decoded of
        Inl err \<Rightarrow> Some (Inl err, dg)
      | Inr resp \<Rightarrow>
          (case closeWatch env (decorateDebugWatchStopResult ct packet resp) dg of
             (answer, dg1) \<Rightarrow>
               map_option (\<lambda>w. (Inr (), dg1\<lparr>dg_watchStop := w\<rparr>))
                 (resolveWaiter (tr_RequestID answer) answer (dg_watchStop dg1))))"

text \<open>The line of an event is a JSON object of its fields; \<open>encode\<close> is \<^verbatim>\<open>json.Marshal\<close> of it.\<close>

definition HandleDebugWatchEvent ::
    "debug_env \<Rightarrow> (DebugWatchEvent \<Rightarrow> string result) \<Rightarrow> DebugWatchEvent result \<Rightarrow> debugState \<Rightarrow> unit result \<times> debugState" where
  "HandleDebugWatchEvent env encode decoded dg =
     (case decoded of
        Inl err \<Rightarrow> (Inl err, dg)
      | Inr event \<Rightarrow>
          (case gget (dg_activeWatches dg) (we_WatchId event) of
             None \<Rightarrow> (Inr (), dg)
           | Some session \<Rightarrow>
               (case encode event of
                  Inl err \<Rightarrow> (Inl err, dg)
                | Inr encoded \<Rightarrow>
                    (case AppendWatchEvent (de_faults env) session (encoded @ [CHR 0x0A]) (de_store env) (dg_files dg) of
                       (r, fs) \<Rightarrow> (r, dg\<lparr>dg_files := fs\<rparr>)))))"

end
