(* ===== verification/Session.thy ===== *)
theory Session
  imports Push Stream_Hub Debug
begin

text \<open>
  The control session of \<^verbatim>\<open>handlers/quic.go\<close>: \<^verbatim>\<open>serveControlSession\<close> reads frames from a connection, dispatches each
  packet to the controller, answers on the connection and pushes what the packet caused to other sessions through
  the stream hub. The server is the controller, the hub and the state of debug requests; a session has the
  capabilities of its handshake, the key of the network it registered in, and the time of its last sweep.

  The messages are decoded and encoded by generated code, which is the parameter \<open>codec\<close>. The transport, the
  upstream DNS server and the random bytes of a challenge are parameters as well. A packet is handled at one instant.
  \<^term>\<open>None\<close> is a handler that panics, which ends the process, or never returns.
\<close>

section \<open>State\<close>

record server =
  sv_ct :: Controller
  sv_hub :: streamHub
  sv_debug :: debugState

record session =
  se_stream :: sessionStream
  se_capabilities :: "string list"
  se_networkKey :: string
  se_lastSweepMs :: int

record codec =
  cd_handshake :: "bytes \<Rightarrow> string list result"
  cd_handshakeResp :: "string \<times> string list \<Rightarrow> bytes result"
  cd_handshakeRead :: "bytes \<Rightarrow> string list result"
  cd_registration :: "bytes \<Rightarrow> RegistrationRequest result"
  cd_registrationResp :: "RegistrationResponse \<Rightarrow> bytes result"
  cd_deviceList :: "DeviceListMessage \<Rightarrow> bytes result"
  cd_auth :: "bytes \<Rightarrow> DeviceAuthRequest result"
  cd_authAck :: "DeviceAuthAck \<Rightarrow> bytes result"
  cd_authChallenge :: "DeviceAuthChallenge \<Rightarrow> bytes result"
  cd_proof :: "bytes \<Rightarrow> DeviceAuthProof result"
  cd_report :: "bytes \<Rightarrow> GatewayReportRequest result"
  cd_reportAck :: "GatewayReportAck \<Rightarrow> bytes result"
  cd_refresh :: "bytes \<Rightarrow> RefreshGatewayGrantRequest result"
  cd_refreshResp :: "RefreshGatewayGrantResponse \<Rightarrow> bytes result"
  cd_dns :: "bytes \<Rightarrow> (u64 \<times> bytes) result"
  cd_dnsResp :: "DnsQueryResponse \<Rightarrow> bytes result"
  cd_rename :: "bytes \<Rightarrow> (u64 \<times> string \<times> string) result"
  cd_renameResp :: "DeviceRenameResponse \<Rightarrow> bytes result"
  cd_status :: "bytes \<Rightarrow> RouteStatus result"
  cd_punchRequest :: "bytes \<Rightarrow> PunchRequest result"
  cd_punchAck :: "bytes \<Rightarrow> PunchAck result"
  cd_punchAckResp :: "PunchAck \<Rightarrow> bytes result"
  cd_punchStart :: "PunchStart \<Rightarrow> bytes result"
  cd_punchResult :: "bytes \<Rightarrow> PunchResultMsg result"
  cd_collected :: "bytes \<Rightarrow> DebugCollectResponse result"
  cd_watchStarted :: "bytes \<Rightarrow> DebugWatchStartResponse result"
  cd_watchStopped :: "bytes \<Rightarrow> DebugWatchStopResponse result"
  cd_watchEvent :: "bytes \<Rightarrow> DebugWatchEvent result"
  cd_eventLine :: "DebugWatchEvent \<Rightarrow> string result"

record server_env =
  en_control :: control_env
  en_debug :: debug_env
  en_codec :: codec
  en_transport :: "sessionStream \<Rightarrow> bytes \<Rightarrow> string option"
  en_dns :: "string \<Rightarrow> bytes \<Rightarrow> dns_exchange"

text \<open>What the outside contributes to one packet: the time, random bytes, clocks of session numbers.\<close>

record tick =
  tk_now :: gtime
  tk_nonce :: "bytes result"
  tk_ident :: "bytes result"
  tk_clock :: "u32 \<Rightarrow> gtime"

definition ipToUint32 :: "netIP \<Rightarrow> u32" where
  "ipToUint32 ip = (case To4 ip of None \<Rightarrow> 0 | Some v4 \<Rightarrow> of_be32 (v4 ! 0) (v4 ! 1) (v4 ! 2) (v4 ! 3))"

section \<open>Pushing\<close>

text \<open>The loop over packets for other sessions: what was delivered to whom, and the hub without broken sessions.\<close>

fun dispatchPushes ::
    "(sessionStream \<Rightarrow> bytes \<Rightarrow> string option) \<Rightarrow> Packet list \<Rightarrow> streamHub \<Rightarrow> (sessionStream \<times> Packet) list \<times> streamHub" where
  "dispatchPushes transport [] h = ([], h)"
| "dispatchPushes transport (push # pushes) h =
     (if pk_DstIP push = [] then dispatchPushes transport pushes h
      else case writeToRoute transport (pk_RouteNetworkKey push) (ipToUint32 (pk_DstIP push)) (Marshal push) h of
        (w, h1) \<Rightarrow>
          (case dispatchPushes transport pushes h1 of
             (delivered, h2) \<Rightarrow>
               (case wr_delivered w of None \<Rightarrow> delivered | Some (s, _) \<Rightarrow> (s, push) # delivered, h2)))"

definition pushAll ::
    "server_env \<Rightarrow> Packet list \<Rightarrow> server \<Rightarrow> (sessionStream \<times> Packet) list \<times> server" where
  "pushAll env pushes sv =
     (case dispatchPushes (en_transport env) pushes (sv_hub sv) of (delivered, h) \<Rightarrow> (delivered, sv\<lparr>sv_hub := h\<rparr>))"

section \<open>The cases of the dispatch\<close>

text \<open>
  A case ends with \<^verbatim>\<open>continue\<close>, or with a reply and the packets that are pushed after it. \<open>deferred\<close> are the
  packets that a change of the gateways has caused before the dispatch.
\<close>

type_synonym branch = "(Packet \<times> Packet list) option \<times> (sessionStream \<times> Packet) list \<times> session \<times> server"

definition replyWith :: "Packet result \<Rightarrow> Packet list \<Rightarrow> session \<Rightarrow> server \<Rightarrow> branch" where
  "replyWith resp pushes se sv = (case resp of Inl err \<Rightarrow> None | Inr packet \<Rightarrow> Some (packet, pushes), [], se, sv)"

definition onHandshake :: "server_env \<Rightarrow> Packet \<Rightarrow> Packet list \<Rightarrow> session \<Rightarrow> server \<Rightarrow> branch" where
  "onHandshake env packet deferred se sv =
     (case HandleHandshakePacket (cd_handshakeResp (en_codec env)) packet (cd_handshake (en_codec env) (pk_Payload packet))
             (Some (ss_remoteAddr (se_stream se))) (sv_ct sv) of
        (resp, ct) \<Rightarrow>
          replyWith resp deferred
            (case resp of
               Inl err \<Rightarrow> se
             | Inr reply \<Rightarrow>
                 se\<lparr>se_capabilities := (case cd_handshakeRead (en_codec env) (pk_Payload reply) of
                                         Inl err \<Rightarrow> [] | Inr capabilities \<Rightarrow> capabilities)\<rparr>)
            (sv\<lparr>sv_ct := ct\<rparr>))"

text \<open>A failed build of the pushes leaves none, also not those that were deferred.\<close>

definition orNone :: "Packet list result \<Rightarrow> Packet list" where
  "orNone r = (case r of Inl err \<Rightarrow> [] | Inr packets \<Rightarrow> packets)"

definition onRegistration :: "server_env \<Rightarrow> tick \<Rightarrow> Packet \<Rightarrow> session \<Rightarrow> server \<Rightarrow> branch option" where
  "onRegistration env t packet se sv =
     map_option (\<lambda>(r, ct).
       case r of
         Inl err \<Rightarrow>
           replyWith (BuildRegistrationErrorPacket (cd_registrationResp (en_codec env)) packet (Some err)) [] se
             (sv\<lparr>sv_ct := ct\<rparr>)
       | Inr (reply, virtualIP, identity) \<Rightarrow>
           (let networkKey = id_key identity;
                h = fst (registerSession (Some (ss_remoteAddr (se_stream se))) networkKey virtualIP (se_stream se) (sv_hub sv))
            in case BuildPushDeviceListPacketsForPeerChangeInNetwork (en_control env) (cd_deviceList (en_codec env)) (tk_now t)
                      networkKey virtualIP ct of
                 (pushes, ct1) \<Rightarrow>
                   replyWith (Inr reply) (orNone pushes) (se\<lparr>se_networkKey := networkKey\<rparr>) (sv\<lparr>sv_ct := ct1, sv_hub := h\<rparr>)))
       (HandleRegistrationPacketWithVirtualIPAndCapabilities (en_control env) (cd_registrationResp (en_codec env)) (tk_now t)
          packet (cd_registration (en_codec env) (pk_Payload packet)) (ss_remoteAddr (se_stream se)) (se_capabilities se) (sv_ct sv))"

definition onPull :: "server_env \<Rightarrow> tick \<Rightarrow> Packet \<Rightarrow> Packet list \<Rightarrow> session \<Rightarrow> server \<Rightarrow> branch" where
  "onPull env t packet deferred se sv =
     (case HandlePullDeviceListPacketInNetwork (en_control env) (cd_deviceList (en_codec env)) (tk_now t) packet
             (se_networkKey se) (sv_ct sv) of
        (resp, ct) \<Rightarrow> replyWith resp deferred se (sv\<lparr>sv_ct := ct\<rparr>))"

definition onAuth :: "server_env \<Rightarrow> tick \<Rightarrow> Packet \<Rightarrow> Packet list \<Rightarrow> session \<Rightarrow> server \<Rightarrow> branch" where
  "onAuth env t packet deferred se sv =
     (case HandleDeviceAuthPacket (en_control env) (cd_authAck (en_codec env)) (cd_authChallenge (en_codec env)) (tk_nonce t)
             (tk_ident t) (tk_now t) packet (cd_auth (en_codec env) (pk_Payload packet)) (sv_ct sv) of
        (resp, ct) \<Rightarrow> replyWith resp deferred se (sv\<lparr>sv_ct := ct\<rparr>))"

definition onProof :: "server_env \<Rightarrow> tick \<Rightarrow> Packet \<Rightarrow> Packet list \<Rightarrow> session \<Rightarrow> server \<Rightarrow> branch option" where
  "onProof env t packet deferred se sv =
     map_option (\<lambda>(resp, ct). replyWith resp deferred se (sv\<lparr>sv_ct := ct\<rparr>))
       (HandleDeviceAuthProofPacket (en_control env) (cd_authAck (en_codec env)) (tk_now t) packet
          (cd_proof (en_codec env) (pk_Payload packet)) (sv_ct sv))"

definition gatewayPushes :: "server_env \<Rightarrow> tick \<Rightarrow> Controller \<Rightarrow> Packet list \<times> Controller" where
  "gatewayPushes env t ct =
     (case BuildPushDeviceListPacketsForGatewayChangeIfNeeded (en_control env) (cd_deviceList (en_codec env)) (tk_now t) ct of
        (packets, ct1) \<Rightarrow> (orNone packets, ct1))"

definition onGatewayReport :: "server_env \<Rightarrow> tick \<Rightarrow> Packet \<Rightarrow> Packet list \<Rightarrow> session \<Rightarrow> server \<Rightarrow> branch" where
  "onGatewayReport env t packet deferred se sv =
     (case HandleGatewayReportPacket (gatewayEnv (en_control env)) (cd_reportAck (en_codec env)) (tk_now t) packet
             (cd_report (en_codec env) (pk_Payload packet)) (ct_gateways (sv_ct sv)) of
        (Inl err, gs) \<Rightarrow> (None, [], se, sv\<lparr>sv_ct := (sv_ct sv)\<lparr>ct_gateways := gs\<rparr>\<rparr>)
      | (Inr reply, gs) \<Rightarrow>
          (case gatewayPushes env t ((sv_ct sv)\<lparr>ct_gateways := gs\<rparr>) of
             (packets, ct) \<Rightarrow> replyWith (Inr reply) (deferred @ packets) se (sv\<lparr>sv_ct := ct\<rparr>)))"

definition onRefresh :: "server_env \<Rightarrow> tick \<Rightarrow> Packet \<Rightarrow> Packet list \<Rightarrow> session \<Rightarrow> server \<Rightarrow> branch" where
  "onRefresh env t packet deferred se sv =
     (case HandleRefreshGatewayGrantPacketInNetwork (en_control env) (cd_refreshResp (en_codec env)) (tk_now t) packet
             (cd_refresh (en_codec env) (pk_Payload packet)) (se_networkKey se) (sv_ct sv) of
        (resp, ct) \<Rightarrow> replyWith resp deferred se (sv\<lparr>sv_ct := ct\<rparr>))"

definition onDNSQuery :: "server_env \<Rightarrow> Packet \<Rightarrow> Packet list \<Rightarrow> session \<Rightarrow> server \<Rightarrow> branch" where
  "onDNSQuery env packet deferred se sv =
     replyWith (HandleDNSQueryPacket (en_dns env) (cd_dnsResp (en_codec env)) (ce_cfg (en_control env)) packet
                  (cd_dns (en_codec env) (pk_Payload packet))) deferred se sv"

text \<open>The handler of a rename always returns the address 0, so no pushes are built here.\<close>

definition onRename :: "server_env \<Rightarrow> Packet \<Rightarrow> Packet list \<Rightarrow> session \<Rightarrow> server \<Rightarrow> branch" where
  "onRename env packet deferred se sv =
     (case HandleDeviceRenamePacket (en_control env) (cd_renameResp (en_codec env)) packet
             (cd_rename (en_codec env) (pk_Payload packet)) (sv_ct sv) of
        (resp, ct) \<Rightarrow> replyWith resp deferred se (sv\<lparr>sv_ct := ct\<rparr>))"

text \<open>A status report: lists for the peers when something changed, then hole punching; no reply.\<close>

definition onStatus :: "server_env \<Rightarrow> tick \<Rightarrow> Packet \<Rightarrow> session \<Rightarrow> server \<Rightarrow> branch" where
  "onStatus env t packet se sv =
     (let key = se_networkKey se;
          (changed, nc1) = HandleClientStatusInfoPacketInNetwork (tk_now t) packet
            (cd_status (en_codec env) (pk_Payload packet)) key (ct_nc (sv_ct sv));
          sv1 = sv\<lparr>sv_ct := (sv_ct sv)\<lparr>ct_nc := nc1\<rparr>\<rparr>;
          (delivered1, sv2) =
            (if changed = Inr True
             then (case BuildPushDeviceListPacketsForPeerChangeInNetwork (en_control env) (cd_deviceList (en_codec env))
                          (tk_now t) key (ipToUint32 (pk_SrcIP packet)) (sv_ct sv1) of
                     (pushes, ct) \<Rightarrow> pushAll env (orNone pushes) (sv1\<lparr>sv_ct := ct\<rparr>))
             else ([], sv1));
          (starts, nc2) = BuildPunchStartPacketsFromStatusInNetwork (tk_now t) (tk_clock t) (cd_punchStart (en_codec env))
            packet key (ct_nc (sv_ct sv2));
          (delivered2, sv3) = pushAll env (orNone starts) (sv2\<lparr>sv_ct := (sv_ct sv2)\<lparr>ct_nc := nc2\<rparr>\<rparr>)
      in (None, delivered1 @ delivered2, se, sv3))"

definition onDebug :: "session \<Rightarrow> server \<Rightarrow> (unit result \<times> debugState) option \<Rightarrow> branch option" where
  "onDebug se sv handled = map_option (\<lambda>(_, dg). (None, [], se, sv\<lparr>sv_debug := dg\<rparr>)) handled"

text \<open>A punch request: the two start packets are sent before the acknowledgement.\<close>

definition onPunchRequest :: "server_env \<Rightarrow> tick \<Rightarrow> Packet \<Rightarrow> Packet list \<Rightarrow> session \<Rightarrow> server \<Rightarrow> branch" where
  "onPunchRequest env t packet deferred se sv =
     (let key = se_networkKey se; decoded = cd_punchRequest (en_codec env) (pk_Payload packet)
      in case HandlePunchRequestPacketInNetwork (tk_now t) (cd_punchAckResp (en_codec env)) packet decoded key (ct_nc (sv_ct sv)) of
           (Inl err, nc) \<Rightarrow> (None, [], se, sv\<lparr>sv_ct := (sv_ct sv)\<lparr>ct_nc := nc\<rparr>\<rparr>)
         | (Inr reply, nc) \<Rightarrow>
             (let sv1 = sv\<lparr>sv_ct := (sv_ct sv)\<lparr>ct_nc := nc\<rparr>\<rparr> in
              case BuildPunchStartPacketsInNetwork (cd_punchStart (en_codec env)) packet decoded key nc of
                Inl err \<Rightarrow> (None, [], se, sv1)
              | Inr starts \<Rightarrow>
                  (case pushAll env starts sv1 of (delivered, sv2) \<Rightarrow> (Some (reply, deferred), delivered, se, sv2))))"

definition withNC :: "session \<Rightarrow> server \<Rightarrow> NetworkControl \<Rightarrow> branch" where
  "withNC se sv nc = (None, [], se, sv\<lparr>sv_ct := (sv_ct sv)\<lparr>ct_nc := nc\<rparr>\<rparr>)"

definition serviceCase ::
    "server_env \<Rightarrow> tick \<Rightarrow> Packet \<Rightarrow> Packet list \<Rightarrow> session \<Rightarrow> server \<Rightarrow> branch option" where
  "serviceCase env t packet deferred se sv =
     (let app = pk_AppProto packet; payload = pk_Payload packet; cd = en_codec env in
      if app = AppProtoHandshakeRequest then Some (onHandshake env packet deferred se sv)
      else if app = AppProtoRegistrationRequest then onRegistration env t packet se sv
      else if app = AppProtoPullDeviceList then Some (onPull env t packet deferred se sv)
      else if app = AppProtoDeviceAuthRequest then Some (onAuth env t packet deferred se sv)
      else if app = AppProtoDeviceAuthProof then onProof env t packet deferred se sv
      else if app = AppProtoGatewayReportRequest then Some (onGatewayReport env t packet deferred se sv)
      else if app = AppProtoRefreshGatewayGrantRequest then Some (onRefresh env t packet deferred se sv)
      else if app = AppProtoDNSQueryRequest then Some (onDNSQuery env packet deferred se sv)
      else if app = AppProtoDeviceRenameRequest then Some (onRename env packet deferred se sv)
      else if app = AppProtoClientStatusInfo then Some (onStatus env t packet se sv)
      else if app = AppProtoDebugCollectResponse
      then onDebug se sv (HandleDebugCollectResponse (en_debug env) (tk_now t) packet (cd_collected cd payload) (sv_ct sv) (sv_debug sv))
      else if app = AppProtoDebugWatchStartResponse
      then onDebug se sv (HandleDebugWatchStartResponse (en_debug env) packet (cd_watchStarted cd payload) (sv_ct sv) (sv_debug sv))
      else if app = AppProtoDebugWatchStopResponse
      then onDebug se sv (HandleDebugWatchStopResponse (en_debug env) packet (cd_watchStopped cd payload) (sv_ct sv) (sv_debug sv))
      else if app = AppProtoDebugWatchEvent
      then onDebug se sv (Some (HandleDebugWatchEvent (en_debug env) (cd_eventLine cd) (cd_watchEvent cd payload) (sv_debug sv)))
      else if app = AppProtoPunchRequest then Some (onPunchRequest env t packet deferred se sv)
      else if app = AppProtoPunchAck
      then Some (withNC se sv (snd (HandlePunchAckPacket (tk_now t) packet (cd_punchAck cd payload) (ct_nc (sv_ct sv)))))
      else if app = AppProtoPunchResult
      then Some (withNC se sv (snd (HandlePunchResultPacket (tk_now t) packet (cd_punchResult cd payload) (ct_nc (sv_ct sv)))))
      else Some (None, [], se, sv))"

section \<open>Serving a session\<close>

text \<open>Whether the session goes on, what was delivered to which session, and the new states.\<close>

type_synonym served = "bool \<times> (sessionStream \<times> Packet) list \<times> session \<times> server"

text \<open>The reply is written to the connection; an error of the write ends the session before anything is pushed.\<close>

definition finishService :: "server_env \<Rightarrow> branch \<Rightarrow> served" where
  "finishService env = (\<lambda>(reply, delivered, se, sv).
     case reply of
       None \<Rightarrow> (True, delivered, se, sv)
     | Some (packet, pushes) \<Rightarrow>
         if en_transport env (se_stream se) (writeFramed (Marshal packet)) \<noteq> None then (False, delivered, se, sv)
         else (case pushAll env pushes sv of
                 (pushed, sv1) \<Rightarrow> (True, delivered @ [(se_stream se, packet)] @ pushed, se, sv1)))"

definition serveService :: "server_env \<Rightarrow> tick \<Rightarrow> Packet \<Rightarrow> session \<Rightarrow> server \<Rightarrow> served option" where
  "serveService env t packet se sv =
     (case gatewayPushes env t (sv_ct sv) of
        (deferred, ct) \<Rightarrow>
          map_option (finishService env) (serviceCase env t packet deferred se (sv\<lparr>sv_ct := ct\<rparr>)))"

definition serveControl :: "server_env \<Rightarrow> tick \<Rightarrow> Packet \<Rightarrow> session \<Rightarrow> server \<Rightarrow> served" where
  "serveControl env t packet se sv =
     (case HandleControlPacketInNetwork (tk_now t)
            (BuildAddrPayloadByAddr (de_quote (en_debug env)) (ss_remoteAddr (se_stream se))) packet (se_networkKey se) (ct_nc (sv_ct sv)) of
        (resp, nc) \<Rightarrow> finishService env (replyWith resp [] se (sv\<lparr>sv_ct := (sv_ct sv)\<lparr>ct_nc := nc\<rparr>\<rparr>)))"

definition sweep :: "tick \<Rightarrow> session \<Rightarrow> server \<Rightarrow> session \<times> server" where
  "sweep t se sv =
     (let nowMs = UnixMilli (tk_now t) in
      if nowMs - se_lastSweepMs se \<ge> 1000
      then (se\<lparr>se_lastSweepMs := nowMs\<rparr>,
            sv\<lparr>sv_ct := (sv_ct sv)\<lparr>ct_nc := ReconcilePunchSessions (tk_now t) nowMs (ct_nc (sv_ct sv))\<rparr>\<rparr>)
      else (se, sv))"

definition serveFrame :: "server_env \<Rightarrow> tick \<Rightarrow> bytes \<Rightarrow> session \<Rightarrow> server \<Rightarrow> served option" where
  "serveFrame env t packetRaw se0 sv0 =
     (case Unmarshal packetRaw of
        None \<Rightarrow> Some (True, [], se0, sv0)
      | Some p \<Rightarrow>
          (let packet = p\<lparr>pk_RouteNetworkKey := se_networkKey se0\<rparr>; (se, sv) = sweep t se0 sv0 in
           if pk_Proto packet = ProtocolService then serveService env t packet se sv
           else if pk_Proto packet = ProtocolControl then Some (serveControl env t packet se sv)
           else Some (True, [], se, sv)))"

fun serveFrames :: "server_env \<Rightarrow> (tick \<times> bytes) list \<Rightarrow> session \<Rightarrow> server \<Rightarrow> served option" where
  "serveFrames env [] se sv = Some (True, [], se, sv)"
| "serveFrames env ((t, raw) # frames) se sv =
     Option.bind (serveFrame env t raw se sv)
       (\<lambda>(go, delivered, se1, sv1).
          if \<not> go then Some (False, delivered, se1, sv1)
          else map_option (\<lambda>(go2, delivered2, se2, sv2). (go2, delivered @ delivered2, se2, sv2))
                 (serveFrames env frames se1 sv1))"

text \<open>
  The start of a session, and its end: the deferred calls close the connection, take the clients of its address
  offline and remove its routes.
\<close>

definition startSession :: "gtime \<Rightarrow> sessionStream \<Rightarrow> server \<Rightarrow> session \<times> server" where
  "startSession now stream sv =
     (\<lparr>se_stream = stream, se_capabilities = [], se_networkKey = [], se_lastSweepMs = 0\<rparr>,
      sv\<lparr>sv_ct := (sv_ct sv)\<lparr>ct_nc := TouchCipherSession now (Some (ss_remoteAddr stream)) (ct_nc (sv_ct sv))\<rparr>\<rparr>)"

definition endSession :: "gtime \<Rightarrow> session \<Rightarrow> server \<Rightarrow> server" where
  "endSession now se sv =
     sv\<lparr>sv_ct := (sv_ct sv)\<lparr>ct_nc := LeaveByRemoteAddr now (Some (ss_remoteAddr (se_stream se))) (ct_nc (sv_ct sv))\<rparr>,
        sv_hub := unregisterSession (Some (se_stream se)) (sv_hub sv)\<rparr>"

text \<open>A whole session over the bytes that were read, with one tick for each frame.\<close>

definition serveControlSession ::
    "server_env \<Rightarrow> gtime \<Rightarrow> gtime \<Rightarrow> sessionStream \<Rightarrow> bytes list \<Rightarrow> tick list \<Rightarrow> server
     \<Rightarrow> ((sessionStream \<times> Packet) list \<times> server) option" where
  "serveControlSession env start stop stream chunks ticks sv =
     (case startSession start stream sv of
        (se, sv1) \<Rightarrow>
          map_option (\<lambda>(_, delivered, se2, sv2). (delivered, endSession stop se2 sv2))
            (serveFrames env (zip ticks (fst (feed ([], Some []) chunks))) se sv1))"

end
