(* ===== verification/Debug_Facts.thy ===== *)
theory Debug_Facts
  imports Debug
begin

text \<open>
  Facts about debug requests: channels never block the goroutine that answers, whatever the history of requests,
  answers, cancellations and time-outs, and what is delivered to whom.
\<close>

section \<open>Waiters\<close>

text \<open>Every pending request has a channel of its own, and that channel is empty.\<close>

definition waiters_ok :: "'r waiters \<Rightarrow> bool" where
  "waiters_ok w \<longleftrightarrow>
     (\<forall>r ch. gget (wt_pending w) r = Some ch \<longrightarrow> ch < wt_next w \<and> gget (wt_channels w) ch = Some []) \<and>
     (\<forall>r r' ch. gget (wt_pending w) r = Some ch \<and> gget (wt_pending w) r' = Some ch \<longrightarrow> r = r')"

lemma waiters_okD:
  assumes "waiters_ok w"
  shows "gget (wt_pending w) r = Some ch \<Longrightarrow> ch < wt_next w \<and> gget (wt_channels w) ch = Some []"
    and "gget (wt_pending w) r = Some ch \<Longrightarrow> gget (wt_pending w) r' = Some ch \<Longrightarrow> r = r'"
  using assms unfolding waiters_ok_def by blast+

lemma no_waiters_ok [simp]: "waiters_ok no_waiters"
  by (simp add: waiters_ok_def no_waiters_def)

lemma newWaiter_ok:
  assumes "waiters_ok w"
  shows "waiters_ok (snd (newWaiter r w))"
  using waiters_okD [OF assms] unfolding waiters_ok_def newWaiter_def
  by (auto split: if_splits) (metis less_irrefl less_SucI)+

lemma cancelWaiter_ok: "waiters_ok w \<Longrightarrow> waiters_ok (cancelWaiter r w)"
  by (auto simp: waiters_ok_def cancelWaiter_def split: if_splits)

lemma finishWaiter_ok: "waiters_ok w \<Longrightarrow> waiters_ok (finishWaiter r ch w)"
  using cancelWaiter_ok [of w r] by (simp add: finishWaiter_def cancelWaiter_def)

text \<open>The answer to a pending request is put into its channel; no other channel changes.\<close>

lemma resolveWaiter_spec:
  assumes "waiters_ok w"
  obtains w' where "resolveWaiter r result w = Some w'" and "waiters_ok w'"
    and "wt_pending w' = (if gget (wt_pending w) r = None then wt_pending w else gdel r (wt_pending w))"
    and "\<And>ch. gget (wt_channels w') ch = (if gget (wt_pending w) r = Some ch then Some [result] else gget (wt_channels w) ch)"
proof (cases "gget (wt_pending w) r")
  case None
  then show ?thesis using that [of w] assms by (simp add: resolveWaiter_def)
next
  case (Some ch)
  let ?w' = "(cancelWaiter r w)\<lparr>wt_channels := gput ch [result] (wt_channels w)\<rparr>"
  have "resolveWaiter r result w = Some ?w'"
    using Some waiters_okD(1) [OF assms Some] by (simp add: resolveWaiter_def sendTo_def cancelWaiter_def)
  moreover have "waiters_ok ?w'"
    using waiters_okD [OF assms] Some unfolding waiters_ok_def cancelWaiter_def by (auto split: if_splits)
  ultimately show ?thesis using that [of ?w'] Some by (auto simp: cancelWaiter_def)
qed

lemma resolveWaiter_ok: "waiters_ok w \<Longrightarrow> resolveWaiter r result w = Some w' \<Longrightarrow> waiters_ok w'"
  by (erule resolveWaiter_spec [where r = r and result = result]) simp

lemma resolveWaiter_returns: "waiters_ok w \<Longrightarrow> resolveWaiter r result w \<noteq> None"
  by (erule resolveWaiter_spec [where r = r and result = result]) simp

text \<open>A result that is received is taken from the channel of a request that is not pending any more.\<close>

lemma awaitSelect_ok:
  assumes ok: "waiters_ok w" and s: "awaitSelect fired r ch w = Some (res, w')"
  shows "waiters_ok w'"
proof (cases fired)
  case True
  then show ?thesis using s cancelWaiter_ok [OF ok] by (auto simp: awaitSelect_def)
next
  case False
  then obtain result queued where ch: "gget (wt_channels w) ch = Some (result # queued)"
      and w': "w' = w\<lparr>wt_channels := gput ch queued (wt_channels w)\<rparr>"
    using s by (auto simp: awaitSelect_def split: option.splits list.splits)
  have "gget (wt_pending w) r' \<noteq> Some ch" for r' using waiters_okD(1) [OF ok, of r' ch] ch by auto
  then show ?thesis using waiters_okD [OF ok] unfolding waiters_ok_def w' by auto
qed

section \<open>Histories\<close>

definition debug_ok :: "debugState \<Rightarrow> bool" where
  "debug_ok dg \<longleftrightarrow> waiters_ok (dg_collect dg) \<and> waiters_ok (dg_watchStart dg) \<and> waiters_ok (dg_watchStop dg)"

lemma debug_okI:
  "waiters_ok (dg_collect dg) \<Longrightarrow> waiters_ok (dg_watchStart dg) \<Longrightarrow> waiters_ok (dg_watchStop dg) \<Longrightarrow> debug_ok dg"
  by (simp add: debug_ok_def)

text \<open>Every operation on the state of debug requests, with any controller and any answers of the devices.\<close>

inductive debug_step :: "debug_env \<Rightarrow> debugState \<Rightarrow> debugState \<Rightarrow> bool" for env where
  prepare: "PrepareDebugCollectByName env m name user grp sections ct dg = (res, dg') \<Longrightarrow> debug_step env dg dg'"
| prepare_start:
    "PrepareDebugWatchStartByName env ms name user grp sections duration ct dg = (res, dg') \<Longrightarrow> debug_step env dg dg'"
| prepare_stop: "PrepareDebugWatchStopByName env mt name user grp ct dg = (res, dg') \<Longrightarrow> debug_step env dg dg'"
| cancel: "debug_step env dg (CancelDebugCollect r dg)"
| cancel_start: "debug_step env dg (cancelDebugWatchStart r dg)"
| cancel_stop: "debug_step env dg (cancelDebugWatchStop r dg)"
| await: "selectDebugCollect fired r ch dg = Some (rc, dg') \<Longrightarrow> debug_step env dg dg'"
| await_start: "selectDebugWatchStart fired r ch dg = Some (rs, dg') \<Longrightarrow> debug_step env dg dg'"
| await_stop: "selectDebugWatchStop fired r ch dg = Some (rt, dg') \<Longrightarrow> debug_step env dg dg'"
| collected: "HandleDebugCollectResponse env now packet dc ct dg = Some (u, dg') \<Longrightarrow> debug_step env dg dg'"
| started: "HandleDebugWatchStartResponse env packet ds ct dg = Some (u, dg') \<Longrightarrow> debug_step env dg dg'"
| stopped: "HandleDebugWatchStopResponse env packet dt ct dg = Some (u, dg') \<Longrightarrow> debug_step env dg dg'"
| event: "HandleDebugWatchEvent env encode de dg = (u, dg') \<Longrightarrow> debug_step env dg dg'"

lemmas debug_op_defs =
  newDebugCollectWaiter_def newDebugWatchStartWaiter_def newDebugWatchStopWaiter_def CancelDebugCollect_def
  cancelDebugWatchStart_def cancelDebugWatchStop_def

lemma newWaiter_okD: "waiters_ok w \<Longrightarrow> newWaiter r w = (ch, w') \<Longrightarrow> waiters_ok w'"
  using newWaiter_ok [of w r] by simp

lemma prepare_ok:
  "debug_ok dg \<Longrightarrow> PrepareDebugCollectByName env m name user grp sections ct dg = (res, dg') \<Longrightarrow> debug_ok dg'"
  "debug_ok dg \<Longrightarrow> PrepareDebugWatchStartByName env ms name user grp sections duration ct dg = (res, dg') \<Longrightarrow> debug_ok dg'"
  "debug_ok dg \<Longrightarrow> PrepareDebugWatchStopByName env mt name user grp ct dg = (res, dg') \<Longrightarrow> debug_ok dg'"
  unfolding debug_ok_def PrepareDebugCollectByName_def PrepareDebugWatchStartByName_def PrepareDebugWatchStopByName_def
  by (auto simp: debug_op_defs Let_def finishWaiter_ok dest: newWaiter_okD split: sum.splits prod.splits)

lemma select_ok:
  "debug_ok dg \<Longrightarrow> selectDebugCollect fired r ch dg = Some (rc, dg') \<Longrightarrow> debug_ok dg'"
  "debug_ok dg \<Longrightarrow> selectDebugWatchStart fired r ch dg = Some (rs, dg') \<Longrightarrow> debug_ok dg'"
  "debug_ok dg \<Longrightarrow> selectDebugWatchStop fired r ch dg = Some (rt, dg') \<Longrightarrow> debug_ok dg'"
  unfolding debug_ok_def selectDebugCollect_def selectDebugWatchStart_def selectDebugWatchStop_def
  by (auto dest: awaitSelect_ok)

text \<open>The handlers return, and they change the waiters only through \<^const>\<open>resolveWaiter\<close>.\<close>

lemma collect_response_spec:
  assumes ok: "debug_ok dg"
  obtains u dg' where "HandleDebugCollectResponse env now packet decoded ct dg = Some (u, dg')" and "debug_ok dg'"
proof (cases decoded)
  case (Inl err)
  then show ?thesis using that ok by (simp add: HandleDebugCollectResponse_def)
next
  case (Inr resp)
  have c: "waiters_ok (dg_collect dg)" using ok by (simp add: debug_ok_def)
  define result where "result = (decorateDebugCollectResult ct packet resp)\<lparr>cr_SnapshotJSON :=
    rejectedSnapshot (de_quote env) resp (cr_SnapshotJSON (decorateDebugCollectResult ct packet resp))\<rparr>"
  have "\<exists>dg'. resolveDebugCollect env now result dg = Some dg' \<and> debug_ok dg'"
    using resolveWaiter_returns [OF c] resolveWaiter_ok [OF c] ok
    by (fastforce simp: resolveDebugCollect_def Let_def debug_ok_def split: prod.splits if_splits)
  then show ?thesis using that Inr by (auto simp: HandleDebugCollectResponse_def Let_def result_def)
qed

lemma resolveDebugWatchStart_spec:
  assumes "debug_ok dg"
  shows "\<exists>dg'. resolveDebugWatchStart result dg = Some dg' \<and> debug_ok dg'"
  using assms resolveWaiter_returns [of "dg_watchStart dg" "sr_RequestID result" result]
    resolveWaiter_ok [of "dg_watchStart dg" "sr_RequestID result" result]
  by (auto simp: resolveDebugWatchStart_def debug_ok_def)

lemma start_response_spec:
  assumes ok: "debug_ok dg"
  obtains u dg' where "HandleDebugWatchStartResponse env packet decoded ct dg = Some (u, dg')" and "debug_ok dg'"
proof (cases decoded)
  case (Inl err)
  then show ?thesis using that ok by (simp add: HandleDebugWatchStartResponse_def)
next
  case (Inr resp)
  have act: "debug_ok (activateWatch session (dg\<lparr>dg_files := fs\<rparr>))" for session fs
    using ok by (simp add: activateWatch_def debug_ok_def Let_def)
  have "\<exists>u dg'. HandleDebugWatchStartResponse env packet decoded ct dg = Some (u, dg') \<and> debug_ok dg'"
    using resolveDebugWatchStart_spec [OF ok] resolveDebugWatchStart_spec [OF act]
    by (auto simp: Inr HandleDebugWatchStartResponse_def Let_def split: prod.split)
  then show ?thesis using that by blast
qed

lemma stop_response_spec:
  assumes ok: "debug_ok dg"
  obtains u dg' where "HandleDebugWatchStopResponse env packet decoded ct dg = Some (u, dg')" and "debug_ok dg'"
proof (cases decoded)
  case (Inl err)
  then show ?thesis using that ok by (simp add: HandleDebugWatchStopResponse_def)
next
  case (Inr resp)
  obtain answer dg1 where c: "closeWatch env (decorateDebugWatchStopResult ct packet resp) dg = (answer, dg1)"
    by (cases "closeWatch env (decorateDebugWatchStopResult ct packet resp) dg")
  then have ok1: "debug_ok dg1"
    using ok by (auto simp: closeWatch_def Let_def debug_ok_def split: option.splits if_splits)
  then have t: "waiters_ok (dg_watchStop dg1)" by (simp add: debug_ok_def)
  obtain w where "resolveWaiter (tr_RequestID answer) answer (dg_watchStop dg1) = Some w"
    using resolveWaiter_returns [OF t] by blast
  then show ?thesis
    using that [of "Inr ()" "dg1\<lparr>dg_watchStop := w\<rparr>"] ok1 resolveWaiter_ok [OF t]
    by (simp add: Inr HandleDebugWatchStopResponse_def c debug_ok_def)
qed

lemma event_ok: "debug_ok dg \<Longrightarrow> HandleDebugWatchEvent env encode decoded dg = (u, dg') \<Longrightarrow> debug_ok dg'"
  by (auto simp: HandleDebugWatchEvent_def debug_ok_def split: sum.splits option.splits prod.splits)

lemma cancel_ok:
  "debug_ok dg \<Longrightarrow> debug_ok (CancelDebugCollect r dg)"
  "debug_ok dg \<Longrightarrow> debug_ok (cancelDebugWatchStart r dg)"
  "debug_ok dg \<Longrightarrow> debug_ok (cancelDebugWatchStop r dg)"
  by (simp_all add: debug_op_defs debug_ok_def cancelWaiter_ok)

lemma debug_step_ok: "debug_step env dg dg' \<Longrightarrow> debug_ok dg \<Longrightarrow> debug_ok dg'"
proof (induction rule: debug_step.induct)
  case (collected now packet dc ct dg u dg')
  then show ?case by (metis collect_response_spec option.inject prod.inject)
next
  case (started packet ds ct dg u dg')
  then show ?case by (metis start_response_spec option.inject prod.inject)
next
  case (stopped packet dt ct dg u dg')
  then show ?case by (metis stop_response_spec option.inject prod.inject)
qed (auto intro: cancel_ok dest: prepare_ok select_ok event_ok)

lemma debug_reachable_ok:
  assumes "(debug_step env)\<^sup>*\<^sup>* (newDebugState fs) dg"
  shows "debug_ok dg"
  using assms
proof (induction rule: rtranclp_induct)
  case base
  then show ?case by (simp add: newDebugState_def debug_ok_def)
qed (rule debug_step_ok)

section \<open>Properties\<close>

text \<open>
  C23: an answer of a device never blocks the session that receives it. After every history of requests, answers,
  repeated answers, cancellations and time-outs each of the three handlers returns. The answer to a pending
  collection is put into the channel of that request and the request is not pending any more; a later call of
  \<^verbatim>\<open>AwaitDebugCollect\<close> for it fails, also when nobody has received the answer.
\<close>

theorem debug_answers_return:
  assumes "(debug_step env)\<^sup>*\<^sup>* (newDebugState fs) dg"
  shows "(\<exists>u dg'. HandleDebugCollectResponse env now packet (Inr resp) ct dg = Some (u, dg') \<and>
      (\<forall>ch. lookupDebugCollect (ca_RequestId resp) dg = Inr ch \<longrightarrow>
         (\<exists>result. cr_RequestID result = ca_RequestId resp \<and> gget (wt_channels (dg_collect dg')) ch = Some [result])) \<and>
      (\<exists>err. lookupDebugCollect (ca_RequestId resp) dg' = Inl err)) \<and>
    HandleDebugWatchStartResponse env packet ds ct dg \<noteq> None \<and>
    HandleDebugWatchStopResponse env packet dt ct dg \<noteq> None"
proof (intro conjI)
  have ok: "debug_ok dg" by (rule debug_reachable_ok [OF assms])
  then have c: "waiters_ok (dg_collect dg)" by (simp add: debug_ok_def)
  show "HandleDebugWatchStartResponse env packet ds ct dg \<noteq> None"
    by (rule start_response_spec [OF ok, of env packet ds ct]) simp
  show "HandleDebugWatchStopResponse env packet dt ct dg \<noteq> None"
    by (rule stop_response_spec [OF ok, of env packet dt ct]) simp
  define result where "result = (decorateDebugCollectResult ct packet resp)\<lparr>cr_SnapshotJSON :=
    rejectedSnapshot (de_quote env) resp (cr_SnapshotJSON (decorateDebugCollectResult ct packet resp))\<rparr>"
  have id: "cr_RequestID result = ca_RequestId resp"
    by (simp add: result_def decorateDebugCollectResult_def split: prod.split)
  obtain saved where dg': "resolveDebugCollect env now result dg =
      map_option (\<lambda>w. dg\<lparr>dg_files := snd saved, dg_collect := w,
          dg_latestCollect := (if cr_DeviceID result \<noteq> [] then
            gput (cr_DeviceID result) (result\<lparr>cr_SavedPath := fst saved\<rparr>) (dg_latestCollect dg) else dg_latestCollect dg)\<rparr>)
        (resolveWaiter (ca_RequestId resp) (result\<lparr>cr_SavedPath := fst saved\<rparr>) (dg_collect dg))"
    by (rule that [of "if de_store env \<noteq> None \<and> TrimSpace (cr_SnapshotJSON result) \<noteq> []
             then (case Save (de_faults env) now result (de_store env) (dg_files dg) of
                     (Inl err, fs) \<Rightarrow> (cr_SavedPath result, fs) | (Inr path, fs) \<Rightarrow> (path, fs))
             else (cr_SavedPath result, dg_files dg)"])
      (simp add: resolveDebugCollect_def Let_def id split_beta)
  let ?answer = "result\<lparr>cr_SavedPath := fst saved\<rparr>"
  obtain w where w: "resolveWaiter (ca_RequestId resp) ?answer (dg_collect dg) = Some w"
      "wt_pending w = (if gget (wt_pending (dg_collect dg)) (ca_RequestId resp) = None then wt_pending (dg_collect dg)
         else gdel (ca_RequestId resp) (wt_pending (dg_collect dg)))"
      "\<And>ch. gget (wt_channels w) ch = (if gget (wt_pending (dg_collect dg)) (ca_RequestId resp) = Some ch
         then Some [?answer] else gget (wt_channels (dg_collect dg)) ch)"
    by (rule resolveWaiter_spec [OF c, of "ca_RequestId resp" ?answer]) (rule that)
  show "\<exists>u dg'. HandleDebugCollectResponse env now packet (Inr resp) ct dg = Some (u, dg') \<and>
      (\<forall>ch. lookupDebugCollect (ca_RequestId resp) dg = Inr ch \<longrightarrow>
         (\<exists>result. cr_RequestID result = ca_RequestId resp \<and> gget (wt_channels (dg_collect dg')) ch = Some [result])) \<and>
      (\<exists>err. lookupDebugCollect (ca_RequestId resp) dg' = Inl err)"
    using id by (simp add: HandleDebugCollectResponse_def Let_def result_def [symmetric] dg' w lookupDebugCollect_def
        split: option.split)
qed

definition sample_debug_env :: debug_env where
  "sample_debug_env = \<lparr>de_store = None, de_faults = (\<lambda>_ _. None), de_quote = id\<rparr>"

definition sample_debug_packet :: Packet where
  "sample_debug_packet = servicePacket AppProtoDebugCollectResponse [10, 26, 0, 2] [10, 26, 0, 1] [] []"

definition sample_answer :: DebugCollectResponse where
  "sample_answer = \<lparr>ca_RequestId = 1, ca_Ok = True, ca_Reason = [], ca_CollectedAtUnixMs = 5, ca_SnapshotJson = ''{}''\<rparr>"

theorem debug_answers_return_witness:
  "\<forall>ct fs. \<exists>u dg'. HandleDebugCollectResponse sample_debug_env 0 sample_debug_packet (Inr sample_answer) ct (newDebugState fs) =
     Some (u, dg') \<and> (\<exists>err. lookupDebugCollect 1 dg' = Inl err)"
proof (intro allI)
  fix ct fs
  show "\<exists>u dg'. HandleDebugCollectResponse sample_debug_env 0 sample_debug_packet (Inr sample_answer) ct (newDebugState fs) =
     Some (u, dg') \<and> (\<exists>err. lookupDebugCollect 1 dg' = Inl err)"
    using debug_answers_return [of sample_debug_env fs "newDebugState fs" 0 sample_debug_packet sample_answer ct "Inl []" "Inl []"]
    by (auto simp: sample_answer_def)
qed

text \<open>
  The number of a watch is chosen by the device. When two devices choose the same number and the first of them
  starts another watch, the running watch of the second one is forgotten: its events are dropped from then on,
  while the table by device still leads to it.
\<close>

lemma watch_number_collision:
  assumes "ws_DeviceID a \<noteq> []" "ws_DeviceID b \<noteq> []" "ws_DeviceID a \<noteq> ws_DeviceID b" "ws_DeviceID a' = ws_DeviceID a"
    and "ws_WatchID b = ws_WatchID a" "ws_WatchID a' \<noteq> ws_WatchID a"
  shows "let dg' = activateWatch a' (activateWatch b (activateWatch a dg))
    in gget (dg_activeWatches dg') (ws_WatchID b) = None \<and>
       gget (dg_activeWatchByDevice dg') (ws_DeviceID b) = Some (ws_WatchID b)"
  using assms by (simp add: activateWatch_def Let_def)

end
