(* ===== verification/Session_Facts.thy ===== *)
theory Session_Facts
  imports Session Debug_Facts Control_Facts Punch_Facts
begin

text \<open>
  Facts about serving one frame: the controller moves only by its own steps, the hub and the debug requests keep
  their invariants, routes are new only for the session that registered, every packet that is pushed follows a
  route, and the only frame that does not return is the proof of a device with a key of a wrong length.
\<close>

section \<open>Hole punching leaves the networks alone\<close>

named_theorems net_frame \<open>operations that do not change the networks\<close>

lemma networks_record [net_frame, simp]:
  "networks (nc\<lparr>nc_PunchSessions := a\<rparr>) = networks nc"
  "networks (nc\<lparr>nc_PunchPairCooldown := b\<rparr>) = networks nc"
  "networks (nc\<lparr>nc_PunchPairRetry := c\<rparr>) = networks nc"
  "networks (nc\<lparr>nc_ManualPunchPairDedup := d\<rparr>) = networks nc"
  by (simp_all add: networks_def)

lemma networks_retry [net_frame, simp]: "networks (updatePunchRetryState now k st nc) = networks nc"
  by (simp add: networks_def)

lemma networks_punchClaim [net_frame]: "networks (snd (punchClaim now manual k b nc)) = networks nc"
  by (simp add: punchClaim_def Let_def split: prod.split option.split)

lemma networks_punchTargets [net_frame]:
  "networks (snd (punchTargets penv key trigger recovery srcClient srcIP targets packets nc)) = networks nc"
proof -
  obtain now clock marshal frm where penv: "penv = (now, clock, marshal, frm)" by (cases penv)
  show ?thesis
    unfolding penv
  proof (induction targets arbitrary: trigger recovery packets nc)
    case (Cons target targets)
    obtain targetIP targetClient where target: "target = (targetIP, targetClient)" by (cases target)
    define claim where "claim = punchClaim now (trigger = PunchTriggerManualRequest) (punchPairKey srcIP targetIP)
      (buildPunchEndpoints srcClient \<noteq> [] \<and> buildPunchEndpoints targetClient \<noteq> []) nc"
    obtain r nc1 where c: "claim = (r, nc1)" by (cases claim)
    have n1: "networks nc1 = networks nc"
      using networks_punchClaim [of now "trigger = PunchTriggerManualRequest" "punchPairKey srcIP targetIP"
          "buildPunchEndpoints srcClient \<noteq> [] \<and> buildPunchEndpoints targetClient \<noteq> []" nc] c
      by (simp add: claim_def)
    show ?case
      using Cons.IH n1 by (cases r) (simp_all add: target Let_def claim_def [symmetric] c split: sum.split)
  qed simp
qed

lemma networks_findSession [net_frame]: "networks (snd (findSession now k nc)) = networks nc"
  by (simp add: findSession_def split: prod.split)

lemma networks_punch [net_frame]:
  "networks (snd (HandlePunchRequestPacketInNetwork now marshal request pq key nc)) = networks nc"
  "networks (snd (HandlePunchAckPacket now request pa nc)) = networks nc"
  "networks (snd (HandlePunchResultPacket now request pr nc)) = networks nc"
  using networks_findSession [of now]
  by (auto simp: HandlePunchRequestPacketInNetwork_def HandlePunchAckPacket_def HandlePunchResultPacket_def Let_def
      applyAck_def applyResult_def split: sum.split option.split prod.split) (metis snd_conv)+

lemma networks_reconcile [net_frame]: "networks (ReconcilePunchSessions now ms nc) = networks nc"
proof -
  have "networks (fold (\<lambda>(key, session) nc. if overdue ms session
      then (let pairKey = punchPairKey (ps_Source session) (ps_Target session); sessions = nc_PunchSessions nc
            in updatePunchRetryState now pairKey PunchSessionTimeout
                 (nc\<lparr>nc_PunchSessions := sessions\<lparr>em_data := gput key (expireSession session) (em_data sessions)\<rparr>,
                     nc_PunchPairCooldown := em_Delete pairKey (nc_PunchPairCooldown nc)\<rparr>))
      else nc) xs nc) = networks nc" for xs nc
    by (induction xs arbitrary: nc) (auto simp: Let_def)
  then show ?thesis by (simp add: ReconcilePunchSessions_def)
qed

lemma networks_punchNetworks [net_frame]:
  "networks (snd (punchNetworks penv key srcIP ns packets nc)) = networks nc"
proof (induction ns arbitrary: packets nc)
  case (Cons n ns)
  obtain k network where n: "n = (k, network)" by (cases n)
  show ?case
  proof (cases "\<not> (key \<noteq> [] \<and> k \<noteq> key) \<and> (\<exists>c st. gget (ni_Clients network) srcIP = Some c \<and>
      cl_ClientStatus c = Some st \<and> cl_ControlOnline c)")
    case True
    then obtain c st where c: "gget (ni_Clients network) srcIP = Some c" "cl_ClientStatus c = Some st" "cl_ControlOnline c"
        "\<not> (key \<noteq> [] \<and> k \<noteq> key)" by blast
    define recovery where "recovery = (if triggerOf st = PunchTriggerManualRequest then cs_RecoveryPunchTarget st else 0)"
    obtain r nc1 where t: "punchTargets penv k (triggerOf st) recovery c srcIP (ni_Clients network) packets nc = (r, nc1)"
      by (cases "punchTargets penv k (triggerOf st) recovery c srcIP (ni_Clients network) packets nc")
    have n1: "networks nc1 = networks nc"
      using networks_punchTargets [of penv k "triggerOf st" recovery c srcIP "ni_Clients network" packets nc] t by simp
    have "punchNetworks penv key srcIP (n # ns) packets nc =
        (case r of Inl err \<Rightarrow> (Inl err, nc1) | Inr (True, ps) \<Rightarrow> punchNetworks penv key srcIP ns ps nc1
         | Inr (False, ps) \<Rightarrow> (Inr ps, nc1))"
      using c t by (auto simp: n Let_def recovery_def split: sum.split prod.split bool.split)
    then show ?thesis using Cons.IH n1 by (simp split: sum.split prod.split bool.split)
  next
    case False
    then have "punchNetworks penv key srcIP (n # ns) packets nc = punchNetworks penv key srcIP ns packets nc"
      by (auto simp: n split: option.split)
    then show ?thesis using Cons.IH by simp
  qed
qed simp

lemma networks_status_punch [net_frame]:
  "networks (snd (BuildPunchStartPacketsFromStatusInNetwork now clock marshal request key nc)) = networks nc"
  by (simp add: BuildPunchStartPacketsFromStatusInNetwork_def networks_punchNetworks)

section \<open>The controller moves by its own steps\<close>

text \<open>Operations that only issue grants change only the gateways.\<close>

lemma grants_only:
  "\<exists>gs. snd (BuildPushDeviceListPacketsForPeerChangeInNetwork cenv m now key ip ct) = ct\<lparr>ct_gateways := gs\<rparr>"
  "\<exists>gs. snd (BuildPushDeviceListPacketsForGatewayChange cenv m now ct) = ct\<lparr>ct_gateways := gs\<rparr>"
  "\<exists>gs. snd (pulledList cenv now key ip l ct) = ct\<lparr>ct_gateways := gs\<rparr>"
  "\<exists>gs. snd (answerRefresh cenv now request key req ct) = ct\<lparr>ct_gateways := gs\<rparr>"
proof -
  have same: "\<exists>gs. ct = ct\<lparr>ct_gateways := gs\<rparr>" by (rule exI [of _ "ct_gateways ct"]) simp
  show "\<exists>gs. snd (BuildPushDeviceListPacketsForPeerChangeInNetwork cenv m now key ip ct) = ct\<lparr>ct_gateways := gs\<rparr>"
    unfolding BuildPushDeviceListPacketsForPeerChangeInNetwork_def by (simp add: split_beta) blast
  show "\<exists>gs. snd (BuildPushDeviceListPacketsForGatewayChange cenv m now ct) = ct\<lparr>ct_gateways := gs\<rparr>"
    unfolding BuildPushDeviceListPacketsForGatewayChange_def by (simp add: split_beta) blast
  show "\<exists>gs. snd (pulledList cenv now key ip l ct) = ct\<lparr>ct_gateways := gs\<rparr>"
    using same by (auto simp: pulledList_def Let_def split: option.split prod.split)
  show "\<exists>gs. snd (answerRefresh cenv now request key req ct) = ct\<lparr>ct_gateways := gs\<rparr>"
    using same by (auto simp: answerRefresh_def split: option.split prod.split)
qed

lemma gatewayChange_only:
  "\<exists>gs. snd (BuildPushDeviceListPacketsForGatewayChangeIfNeeded cenv m now ct) = ct\<lparr>ct_gateways := gs\<rparr>"
proof -
  obtain rev changed gs where s: "syncGatewayGrantPolicyLocked (approvedAliveGatewayNodesLocked (gatewayEnv cenv) now (ct_gateways ct))
      (ct_gateways ct) = ((rev, changed), gs)" by (metis surj_pair)
  obtain gs' where "snd (BuildPushDeviceListPacketsForGatewayChange cenv m now (ct\<lparr>ct_gateways := gs\<rparr>)) =
      ct\<lparr>ct_gateways := gs, ct_gateways := gs'\<rparr>" using grants_only(2) by blast
  then show ?thesis by (auto simp: BuildPushDeviceListPacketsForGatewayChangeIfNeeded_def s)
qed

lemma gatewayPushes_only: "\<exists>gs. snd (gatewayPushes env t ct) = ct\<lparr>ct_gateways := gs\<rparr>"
  using gatewayChange_only by (simp add: gatewayPushes_def split_beta)

lemma pull_only: "\<exists>gs. snd (HandlePullDeviceListPacketInNetwork cenv m now request key ct) = ct\<lparr>ct_gateways := gs\<rparr>"
proof (cases "DeviceListByIPInNetwork (ct_nc ct) key (IpToUint32 (pk_SrcIP request))")
  case None
  then show ?thesis by (auto simp: HandlePullDeviceListPacketInNetwork_def intro: exI [of _ "ct_gateways ct"])
next
  case (Some l)
  then show ?thesis
    using grants_only(3) [of cenv now key "IpToUint32 (pk_SrcIP request)" l ct]
    by (simp add: HandlePullDeviceListPacketInNetwork_def split_beta Let_def)
qed

lemma refresh_only:
  "\<exists>gs. snd (HandleRefreshGatewayGrantPacketInNetwork cenv m now request decoded key ct) = ct\<lparr>ct_gateways := gs\<rparr>"
proof (cases decoded)
  case (Inl err)
  then show ?thesis by (auto simp: HandleRefreshGatewayGrantPacketInNetwork_def intro: exI [of _ "ct_gateways ct"])
next
  case (Inr req)
  obtain r ct1 where a: "answerRefresh cenv now request key req ct = (r, ct1)"
    by (cases "answerRefresh cenv now request key req ct")
  then show ?thesis
    using grants_only(4) [of cenv now request key req ct]
    by (cases r) (simp_all add: Inr HandleRefreshGatewayGrantPacketInNetwork_def)
qed

text \<open>
  How the parts of the server move: the controller by its steps, debug requests by theirs, and the hub with its
  invariant. Routes are only lost, apart from those in \<open>new\<close>.
\<close>

definition moves :: "server_env \<Rightarrow> (sessionStream \<times> string) set \<Rightarrow> server \<Rightarrow> server \<Rightarrow> bool" where
  "moves env new sv sv' \<longleftrightarrow>
     (ctl_step (en_control env))\<^sup>*\<^sup>* (sv_ct sv) (sv_ct sv') \<and> (debug_step (en_debug env))\<^sup>*\<^sup>* (sv_debug sv) (sv_debug sv') \<and>
     (hub_ok (sv_hub sv) \<longrightarrow> hub_ok (sv_hub sv') \<and>
        (\<forall>k s. gget (sh_byRoute (sv_hub sv')) k = Some s \<longrightarrow> gget (sh_byRoute (sv_hub sv)) k = Some s \<or> (s, k) \<in> new))"

lemma moves_refl: "moves env new sv sv"
  by (simp add: moves_def)

lemma moves_trans: "moves env new a b \<Longrightarrow> moves env new b c \<Longrightarrow> moves env new a c"
  unfolding moves_def by (meson rtranclp_trans)

lemma moves_mono: "moves env new a b \<Longrightarrow> new \<subseteq> new' \<Longrightarrow> moves env new' a b"
  unfolding moves_def by blast

lemma moves_ctl: "(ctl_step (en_control env))\<^sup>*\<^sup>* (sv_ct sv) ct \<Longrightarrow> moves env new sv (sv\<lparr>sv_ct := ct\<rparr>)"
  by (simp add: moves_def)

lemma moves_step: "ctl_step (en_control env) (sv_ct sv) ct \<Longrightarrow> moves env new sv (sv\<lparr>sv_ct := ct\<rparr>)"
  by (simp add: moves_def)

lemma moves_gateways: "\<exists>gs. ct = (sv_ct sv)\<lparr>ct_gateways := gs\<rparr> \<Longrightarrow> moves env new sv (sv\<lparr>sv_ct := ct\<rparr>)"
  by (rule moves_step) (auto intro: ctl_step.gateways)

lemma moves_punch: "networks nc = networks (ct_nc (sv_ct sv)) \<Longrightarrow> moves env new sv (sv\<lparr>sv_ct := (sv_ct sv)\<lparr>ct_nc := nc\<rparr>\<rparr>)"
  by (intro moves_step ctl_step.punching)


section \<open>Pushes follow routes\<close>

definition route_of :: "Packet \<Rightarrow> string" where
  "route_of p = routeKey (pk_RouteNetworkKey p) (ipToUint32 (pk_DstIP p))"

text \<open>Every delivery goes to the sender itself, or to the session that the route of the packet leads to.\<close>

definition routed ::
    "sessionStream option \<Rightarrow> (sessionStream \<times> string) set \<Rightarrow> streamHub \<Rightarrow> (sessionStream \<times> Packet) list \<Rightarrow> bool" where
  "routed own new h delivered \<longleftrightarrow> (\<forall>(s, p) \<in> set delivered.
     own = Some s \<or> gget (sh_byRoute h) (route_of p) = Some s \<or> (s, route_of p) \<in> new)"

lemma writeToRoute_found:
  assumes "hub_ok h" and "wr_delivered (fst (writeToRoute transport n v payload h)) = Some (s, bs)"
  shows "gget (sh_byRoute h) (routeKey n v) = Some s"
proof (cases "TrimSpace n = []")
  case True
  then have "gget (sh_byIP h) v = Some s"
    using assms(2) by (auto simp: writeToRoute_def writeToIP_def writeToSession_def split: option.splits)
  then have "gget (sh_byRoute h) (routeKey [] v) = Some s" by (rule hub_okD(4) [OF assms(1)])
  then show ?thesis using True by (simp add: routeKey_def)
next
  case False
  then show ?thesis
    using assms(2) by (auto simp: writeToRoute_def writeToSession_def split: option.splits)
qed

lemma writeToRoute_hub:
  assumes "hub_ok h"
  shows "hub_ok (snd (writeToRoute transport n v payload h))"
    and "gget (sh_byRoute (snd (writeToRoute transport n v payload h))) k = Some s \<Longrightarrow> gget (sh_byRoute h) k = Some s"
  using assms unregisterSession_ok [OF assms]
  by (auto simp: writeToRoute_def writeToIP_def writeToSession_def unregisterSession_spec(1) [OF assms]
      split: option.splits if_splits)

lemma dispatchPushes_spec:
  assumes "hub_ok h" and "dispatchPushes transport pushes h = (delivered, h')"
  shows "hub_ok h' \<and> (\<forall>k s. gget (sh_byRoute h') k = Some s \<longrightarrow> gget (sh_byRoute h) k = Some s) \<and> routed None {} h delivered"
  using assms
proof (induction pushes arbitrary: h delivered h')
  case Nil
  then show ?case by (simp add: routed_def)
next
  case (Cons p pushes)
  show ?case
  proof (cases "pk_DstIP p = []")
    case True
    then show ?thesis using Cons by simp
  next
    case False
    obtain w h1 where w: "writeToRoute transport (pk_RouteNetworkKey p) (ipToUint32 (pk_DstIP p)) (Marshal p) h = (w, h1)"
      by (cases "writeToRoute transport (pk_RouteNetworkKey p) (ipToUint32 (pk_DstIP p)) (Marshal p) h")
    obtain d2 h2 where r: "dispatchPushes transport pushes h1 = (d2, h2)" by (cases "dispatchPushes transport pushes h1")
    have h1: "hub_ok h1" and less: "\<And>k s. gget (sh_byRoute h1) k = Some s \<Longrightarrow> gget (sh_byRoute h) k = Some s"
      using writeToRoute_hub [OF Cons.prems(1), of transport "pk_RouteNetworkKey p" "ipToUint32 (pk_DstIP p)" "Marshal p"] w
      by simp_all
    have h': "h' = h2" and d: "delivered = (case wr_delivered w of None \<Rightarrow> d2 | Some (s, _) \<Rightarrow> (s, p) # d2)"
      using Cons.prems(2) False by (simp_all add: w r)
    have IH: "hub_ok h2" "\<forall>k s. gget (sh_byRoute h2) k = Some s \<longrightarrow> gget (sh_byRoute h1) k = Some s" "routed None {} h1 d2"
      using Cons.IH [OF h1 r] by simp_all
    have "gget (sh_byRoute h) (route_of p) = Some s" if "wr_delivered w = Some (s, bs)" for s bs
      using writeToRoute_found [OF Cons.prems(1), of transport "pk_RouteNetworkKey p" "ipToUint32 (pk_DstIP p)" "Marshal p" s bs]
        that w by (simp add: route_of_def)
    then have "routed None {} h delivered"
      using IH(3) less unfolding d routed_def by (auto split: option.split)
    then show ?thesis using IH(1,2) less h' by blast
  qed
qed

lemma routed_append: "routed own new h (a @ b) \<longleftrightarrow> routed own new h a \<and> routed own new h b"
  by (auto simp: routed_def)

lemma routed_Nil [simp]: "routed own new h []"
  by (simp add: routed_def)

text \<open>A stretch of the work of a session: the server moves and the deliveries follow the routes.\<close>

definition works ::
    "server_env \<Rightarrow> sessionStream option \<Rightarrow> (sessionStream \<times> string) set \<Rightarrow> server \<Rightarrow> (sessionStream \<times> Packet) list
     \<Rightarrow> server \<Rightarrow> bool" where
  "works env own new sv delivered sv' \<longleftrightarrow> moves env new sv sv' \<and> (hub_ok (sv_hub sv) \<longrightarrow> routed own new (sv_hub sv) delivered)"

lemma works_moves: "moves env new sv sv' \<Longrightarrow> works env own new sv [] sv'"
  by (simp add: works_def)

lemma works_trans:
  assumes "works env own new a d b" and "works env own new b e c"
  shows "works env own new a (d @ e) c"
proof -
  have "moves env new a c" using assms moves_trans unfolding works_def by blast
  moreover have "routed own new (sv_hub a) e" if "hub_ok (sv_hub a)"
    using assms that unfolding works_def moves_def routed_def by blast
  ultimately show ?thesis using assms(1) by (simp add: works_def routed_append)
qed

lemma works_after: "moves env new a b \<Longrightarrow> works env own new b d c \<Longrightarrow> works env own new a d c"
  using works_trans [OF works_moves] by fastforce

lemma works_pushAll:
  assumes "pushAll env pushes sv = (delivered, sv')"
  shows "works env own new sv delivered sv'"
proof -
  obtain h where h: "dispatchPushes (en_transport env) pushes (sv_hub sv) = (delivered, h)" and sv': "sv' = sv\<lparr>sv_hub := h\<rparr>"
    using assms by (auto simp: pushAll_def split: prod.splits)
  show ?thesis
    using dispatchPushes_spec [OF _ h] unfolding works_def moves_def routed_def sv' by auto
qed


section \<open>The cases of the dispatch\<close>

record registration =
  rg_stream :: sessionStream
  rg_key :: string
  rg_ip :: u32
  rg_now :: gtime
  rg_request :: RegistrationRequest
  rg_before :: Controller

text \<open>The registration that a packet brings about, if it does.\<close>

definition registrationsIn :: "server_env \<Rightarrow> tick \<Rightarrow> Packet \<Rightarrow> session \<Rightarrow> server \<Rightarrow> registration list" where
  "registrationsIn env t packet se sv =
     (if pk_AppProto packet \<noteq> AppProtoRegistrationRequest then []
      else case cd_registration (en_codec env) (pk_Payload packet) of
        Inl err \<Rightarrow> []
      | Inr reg \<Rightarrow>
          (case register (en_control env) (tk_now t) reg (ss_remoteAddr (se_stream se)) (se_capabilities se) (sv_ct sv) of
             Some (Inr (resp, ip, identity), ct) \<Rightarrow>
               [\<lparr>rg_stream = se_stream se, rg_key = id_key identity, rg_ip = ip, rg_now = tk_now t, rg_request = reg,
                 rg_before = sv_ct sv\<rparr>]
           | _ \<Rightarrow> []))"

definition routes_of :: "registration list \<Rightarrow> (sessionStream \<times> string) set" where
  "routes_of es = (\<lambda>e. (rg_stream e, routeKey (rg_key e) (rg_ip e))) ` set es"

text \<open>What every case does: the server works, and the session keeps its connection.\<close>

definition case_ok :: "server_env \<Rightarrow> (sessionStream \<times> string) set \<Rightarrow> session \<Rightarrow> server \<Rightarrow> branch \<Rightarrow> bool" where
  "case_ok env new se sv b \<longleftrightarrow> (case b of (reply, delivered, se', sv') \<Rightarrow>
     works env (Some (se_stream se)) new sv delivered sv' \<and> se_stream se' = se_stream se)"

lemma case_ok_replyWith:
  "moves env new sv sv' \<Longrightarrow> se_stream se' = se_stream se \<Longrightarrow> case_ok env new se sv (replyWith resp pushes se' sv')"
  by (simp add: case_ok_def replyWith_def works_moves)

lemma case_ok_quiet:
  "moves env new sv sv' \<Longrightarrow> case_ok env new se sv (reply, [], se, sv')"
  by (simp add: case_ok_def works_moves)

lemma onHandshake_ok: "case_ok env new se sv (onHandshake env packet deferred se sv)"
proof -
  obtain resp ct where h: "HandleHandshakePacket (cd_handshakeResp (en_codec env)) packet
      (cd_handshake (en_codec env) (pk_Payload packet)) (Some (ss_remoteAddr (se_stream se))) (sv_ct sv) = (resp, ct)"
    by (metis surj_pair)
  have "moves env new sv (sv\<lparr>sv_ct := ct\<rparr>)" by (rule moves_step) (rule ctl_step.handshaking [OF h])
  then show ?thesis by (simp add: onHandshake_def h case_ok_replyWith split: sum.split)
qed

lemma onPull_ok: "case_ok env new se sv (onPull env t packet deferred se sv)"
  using moves_gateways [OF pull_only [of "en_control env" "cd_deviceList (en_codec env)" "tk_now t" packet "se_networkKey se" "sv_ct sv"]]
  by (simp add: onPull_def case_ok_replyWith split_beta)

lemma onAuth_ok: "case_ok env new se sv (onAuth env t packet deferred se sv)"
proof -
  obtain resp ct where h: "HandleDeviceAuthPacket (en_control env) (cd_authAck (en_codec env)) (cd_authChallenge (en_codec env))
      (tk_nonce t) (tk_ident t) (tk_now t) packet (cd_auth (en_codec env) (pk_Payload packet)) (sv_ct sv) = (resp, ct)"
    by (metis surj_pair)
  have "moves env new sv (sv\<lparr>sv_ct := ct\<rparr>)" by (rule moves_step) (rule ctl_step.authenticating [OF h])
  then show ?thesis by (simp add: onAuth_def h case_ok_replyWith)
qed

lemma onProof_ok:
  assumes "onProof env t packet deferred se sv = Some b"
  shows "case_ok env new se sv b"
proof -
  obtain resp ct where h: "HandleDeviceAuthProofPacket (en_control env) (cd_authAck (en_codec env)) (tk_now t) packet
      (cd_proof (en_codec env) (pk_Payload packet)) (sv_ct sv) = Some (resp, ct)"
      and b: "b = replyWith resp deferred se (sv\<lparr>sv_ct := ct\<rparr>)"
    using assms by (auto simp: onProof_def)
  have "moves env new sv (sv\<lparr>sv_ct := ct\<rparr>)" by (rule moves_step) (rule ctl_step.proving [OF h])
  then show ?thesis by (simp add: b case_ok_replyWith)
qed

lemma onGatewayReport_ok: "case_ok env new se sv (onGatewayReport env t packet deferred se sv)"
proof -
  obtain r gs where h: "HandleGatewayReportPacket (gatewayEnv (en_control env)) (cd_reportAck (en_codec env)) (tk_now t) packet
      (cd_report (en_codec env) (pk_Payload packet)) (ct_gateways (sv_ct sv)) = (r, gs)" by (metis surj_pair)
  obtain gs' where g: "snd (gatewayPushes env t ((sv_ct sv)\<lparr>ct_gateways := gs\<rparr>)) = (sv_ct sv)\<lparr>ct_gateways := gs, ct_gateways := gs'\<rparr>"
    using gatewayPushes_only by blast
  have m: "moves env new sv (sv\<lparr>sv_ct := (sv_ct sv)\<lparr>ct_gateways := g\<rparr>\<rparr>)" for g by (rule moves_gateways) blast
  show ?thesis
    using m [of gs] m [of gs'] g
    by (cases r) (simp_all add: onGatewayReport_def h case_ok_replyWith case_ok_quiet split_beta)
qed

lemma onRefresh_ok: "case_ok env new se sv (onRefresh env t packet deferred se sv)"
  using moves_gateways [OF refresh_only [of "en_control env" "cd_refreshResp (en_codec env)" "tk_now t" packet
        "cd_refresh (en_codec env) (pk_Payload packet)" "se_networkKey se" "sv_ct sv"]]
  by (simp add: onRefresh_def case_ok_replyWith split_beta)

lemma onDNSQuery_ok: "case_ok env new se sv (onDNSQuery env packet deferred se sv)"
  by (simp add: onDNSQuery_def case_ok_replyWith moves_refl)

lemma onRename_ok: "case_ok env new se sv (onRename env packet deferred se sv)"
proof -
  obtain resp ct where h: "HandleDeviceRenamePacket (en_control env) (cd_renameResp (en_codec env)) packet
      (cd_rename (en_codec env) (pk_Payload packet)) (sv_ct sv) = (resp, ct)" by (metis surj_pair)
  have "moves env new sv (sv\<lparr>sv_ct := ct\<rparr>)" by (rule moves_step) (rule ctl_step.renaming [OF h])
  then show ?thesis by (simp add: onRename_def h case_ok_replyWith)
qed

lemma onDebug_ok:
  assumes "onDebug se sv handled = Some b" and "\<And>u dg. handled = Some (u, dg) \<Longrightarrow> debug_step (en_debug env) (sv_debug sv) dg"
  shows "case_ok env new se sv b"
  using assms by (auto simp: onDebug_def intro!: case_ok_quiet simp: moves_def)

lemma withNC_ok: "networks nc = networks (ct_nc (sv_ct sv)) \<Longrightarrow> case_ok env new se sv (withNC se sv nc)"
  unfolding withNC_def by (intro case_ok_quiet moves_punch)

lemma onPunchRequest_ok: "case_ok env new se sv (onPunchRequest env t packet deferred se sv)"
proof -
  obtain r nc where h: "HandlePunchRequestPacketInNetwork (tk_now t) (cd_punchAckResp (en_codec env)) packet
      (cd_punchRequest (en_codec env) (pk_Payload packet)) (se_networkKey se) (ct_nc (sv_ct sv)) = (r, nc)" by (metis surj_pair)
  let ?sv = "sv\<lparr>sv_ct := (sv_ct sv)\<lparr>ct_nc := nc\<rparr>\<rparr>"
  have "networks nc = networks (ct_nc (sv_ct sv))"
    using networks_punch(1) [of "tk_now t" "cd_punchAckResp (en_codec env)" packet "cd_punchRequest (en_codec env) (pk_Payload packet)"
        "se_networkKey se" "ct_nc (sv_ct sv)"] h by simp
  then have m: "moves env new sv ?sv" by (rule moves_punch)
  have "works env (Some (se_stream se)) new sv delivered sv2" if "pushAll env starts ?sv = (delivered, sv2)" for starts delivered sv2
    by (rule works_after [OF m works_pushAll [OF that]])
  then show ?thesis
    using m by (auto simp: onPunchRequest_def h Let_def case_ok_quiet case_ok_def works_moves split: sum.split prod.split)
qed


text \<open>A status report: first the lists for the peers, then hole punching.\<close>

lemma peerPushes_ok:
  assumes "BuildPushDeviceListPacketsForPeerChangeInNetwork (en_control env) m now key ip (sv_ct sv) = (pushes, ct)"
  shows "moves env new sv (sv\<lparr>sv_ct := ct\<rparr>)"
  using grants_only(1) [of "en_control env" m now key ip "sv_ct sv"] assms by (intro moves_gateways) simp

definition statusLists :: "server_env \<Rightarrow> tick \<Rightarrow> Packet \<Rightarrow> string \<Rightarrow> bool result \<Rightarrow> server \<Rightarrow> (sessionStream \<times> Packet) list \<times> server" where
  "statusLists env t packet key changed sv =
     (if changed = Inr True
      then (case BuildPushDeviceListPacketsForPeerChangeInNetwork (en_control env) (cd_deviceList (en_codec env))
                   (tk_now t) key (ipToUint32 (pk_SrcIP packet)) (sv_ct sv) of
              (pushes, ct) \<Rightarrow> pushAll env (orNone pushes) (sv\<lparr>sv_ct := ct\<rparr>))
      else ([], sv))"

lemma statusLists_ok:
  assumes "statusLists env t packet key changed sv = (delivered, sv')"
  shows "works env own new sv delivered sv'"
proof (cases "changed = Inr True")
  case True
  obtain pushes ct where b: "BuildPushDeviceListPacketsForPeerChangeInNetwork (en_control env) (cd_deviceList (en_codec env))
      (tk_now t) key (ipToUint32 (pk_SrcIP packet)) (sv_ct sv) = (pushes, ct)" by (metis surj_pair)
  then have "pushAll env (orNone pushes) (sv\<lparr>sv_ct := ct\<rparr>) = (delivered, sv')"
    using assms True by (simp add: statusLists_def)
  from works_after [OF peerPushes_ok [OF b] works_pushAll [OF this]] show ?thesis .
next
  case False
  then show ?thesis using assms by (auto simp: statusLists_def intro: works_moves moves_refl)
qed

lemma onStatus_ok: "case_ok env new se sv (onStatus env t packet se sv)"
proof -
  let ?key = "se_networkKey se"
  obtain changed nc1 where h: "HandleClientStatusInfoPacketInNetwork (tk_now t) packet
      (cd_status (en_codec env) (pk_Payload packet)) ?key (ct_nc (sv_ct sv)) = (changed, nc1)" by (metis surj_pair)
  define sv1 where "sv1 = sv\<lparr>sv_ct := (sv_ct sv)\<lparr>ct_nc := nc1\<rparr>\<rparr>"
  obtain d1 sv2 where l: "statusLists env t packet ?key changed sv1 = (d1, sv2)"
    by (metis surj_pair)
  obtain starts nc2 where b: "BuildPunchStartPacketsFromStatusInNetwork (tk_now t) (tk_clock t) (cd_punchStart (en_codec env))
      packet ?key (ct_nc (sv_ct sv2)) = (starts, nc2)" by (metis surj_pair)
  define sv3 where "sv3 = sv2\<lparr>sv_ct := (sv_ct sv2)\<lparr>ct_nc := nc2\<rparr>\<rparr>"
  obtain d2 sv4 where p: "pushAll env (orNone starts) sv3 = (d2, sv4)" by (metis surj_pair)
  have eq: "onStatus env t packet se sv = (None, d1 @ d2, se, sv4)"
    using l b p unfolding onStatus_def statusLists_def sv1_def sv3_def by (simp add: h Let_def)
  have "moves env new sv sv1" unfolding sv1_def
    by (rule moves_step) (use ctl_step.reporting [of "en_control env" "sv_ct sv" "tk_now t" packet _ ?key] h in \<open>metis snd_conv\<close>)
  moreover have "moves env new sv2 sv3" unfolding sv3_def
    by (rule moves_punch) (use networks_status_punch [of "tk_now t" "tk_clock t" _ packet ?key "ct_nc (sv_ct sv2)"] b in \<open>metis snd_conv\<close>)
  ultimately have "works env (Some (se_stream se)) new sv ([] @ d1 @ [] @ d2) sv4"
    using statusLists_ok [OF l] works_pushAll [OF p] by (intro works_trans works_moves)
  then show ?thesis by (simp add: eq case_ok_def)
qed

lemma register_addr:
  assumes "register env now reg addr caps ct = Some (Inr x, ct')"
  shows "addr \<noteq> []"
proof
  assume "addr = []"
  moreover have "parseRemoteAddr [] = Inl ''Failed to parse remote address''" by code_simp
  ultimately show False
    using assms by (auto simp: register_def split: Option.bind_splits sum.splits)
qed

lemma registerSession_routes:
  assumes ok: "hub_ok h" and "ss_remoteAddr stream \<noteq> []"
  shows "hub_ok (fst (registerSession (Some (ss_remoteAddr stream)) key ip stream h)) \<and>
    (\<forall>k s. gget (sh_byRoute (fst (registerSession (Some (ss_remoteAddr stream)) key ip stream h))) k = Some s \<longrightarrow>
      gget (sh_byRoute h) k = Some s \<or> (s, k) = (stream, routeKey key ip))"
proof (cases "ip = 0")
  case True
  then show ?thesis using ok by (simp add: registerSession_def)
next
  case False
  then show ?thesis
    using assms registerSession_ok [OF ok False] registerSession_byRoute [OF ok False] by (auto split: if_splits)
qed

lemma onRegistration_ok:
  assumes "onRegistration env t packet se sv = Some b" and app: "pk_AppProto packet = AppProtoRegistrationRequest"
  shows "case_ok env (routes_of (registrationsIn env t packet se sv)) se sv b"
proof (cases "cd_registration (en_codec env) (pk_Payload packet)")
  case (Inl err)
  then show ?thesis
    using assms(1) by (auto simp: onRegistration_def HandleRegistrationPacketWithVirtualIPAndCapabilities_def
        intro: case_ok_replyWith moves_refl)
next
  case (Inr reg)
  let ?s = "se_stream se"
  let ?reg = "register (en_control env) (tk_now t) reg (ss_remoteAddr ?s) (se_capabilities se) (sv_ct sv)"
  let ?new = "routes_of (registrationsIn env t packet se sv)"
  obtain r ct where r: "?reg = Some (r, ct)"
    using assms(1) Inr by (auto simp: onRegistration_def HandleRegistrationPacketWithVirtualIPAndCapabilities_def)
  have m: "moves env new sv (sv\<lparr>sv_ct := ct\<rparr>)" for new by (rule moves_step) (rule ctl_step.registering [OF r])
  show ?thesis
  proof (cases r)
    case (Inl err)
    then show ?thesis
      using assms(1) Inr r m by (auto simp: onRegistration_def HandleRegistrationPacketWithVirtualIPAndCapabilities_def
        intro: case_ok_replyWith)
  next
    case x: (Inr x)
    obtain resp ip identity where x': "x = (resp, ip, identity)" by (cases x)
    have new: "?new = {(?s, routeKey (id_key identity) ip)}"
      by (simp add: registrationsIn_def app Inr r x x' routes_of_def)
    show ?thesis
    proof (cases "buildServicePacket (cd_registrationResp (en_codec env)) packet AppProtoRegistrationResponse resp")
      case (Inl err)
      then show ?thesis
        using assms(1) Inr r x x' m by (auto simp: onRegistration_def HandleRegistrationPacketWithVirtualIPAndCapabilities_def
          intro: case_ok_replyWith)
    next
      case reply: (Inr reply)
      obtain pushes ct1 where p: "BuildPushDeviceListPacketsForPeerChangeInNetwork (en_control env) (cd_deviceList (en_codec env))
          (tk_now t) (id_key identity) ip ct = (pushes, ct1)" by (metis surj_pair)
      define h where "h = fst (registerSession (Some (ss_remoteAddr ?s)) (id_key identity) ip ?s (sv_hub sv))"
      have b: "b = replyWith (Inr reply) (orNone pushes) (se\<lparr>se_networkKey := id_key identity\<rparr>) (sv\<lparr>sv_ct := ct1, sv_hub := h\<rparr>)"
        using assms(1) Inr r x x' reply p
        by (simp add: onRegistration_def HandleRegistrationPacketWithVirtualIPAndCapabilities_def h_def Let_def)
      have "moves env ?new (sv\<lparr>sv_ct := ct\<rparr>) (sv\<lparr>sv_ct := ct\<rparr>\<lparr>sv_ct := ct1\<rparr>)"
        by (rule peerPushes_ok) (use p in simp)
      from moves_trans [OF m this] have m1: "moves env ?new sv (sv\<lparr>sv_ct := ct1\<rparr>)" by simp
      have "hub_ok h \<and> (\<forall>k s. gget (sh_byRoute h) k = Some s \<longrightarrow> gget (sh_byRoute (sv_hub sv)) k = Some s \<or> (s, k) \<in> ?new)"
        if "hub_ok (sv_hub sv)"
        using registerSession_routes [OF that] register_addr r x unfolding h_def new by (metis singleton_iff)
      then have "moves env ?new sv (sv\<lparr>sv_ct := ct1, sv_hub := h\<rparr>)"
        using m1 by (simp add: moves_def)
      then show ?thesis unfolding b by (rule case_ok_replyWith) simp
    qed
  qed
qed


lemma if_SomeE:
  assumes "(if c then x else y) = Some b" and "c \<Longrightarrow> x = Some b \<Longrightarrow> R" and "y = Some b \<Longrightarrow> R"
  shows R
  using assms by (simp split: if_splits)

lemma serviceCase_ok:
  assumes "serviceCase env t packet deferred se sv = Some b"
  shows "case_ok env (routes_of (registrationsIn env t packet se sv)) se sv b"
proof (cases "pk_AppProto packet = AppProtoRegistrationRequest")
  case True
  then have "onRegistration env t packet se sv = Some b"
    using assms by (simp add: serviceCase_def Let_def AppProtoHandshakeRequest_def AppProtoRegistrationRequest_def)
  then show ?thesis by (rule onRegistration_ok) (rule True)
next
  case False
  note cases_ok = onHandshake_ok onPull_ok onAuth_ok onProof_ok onGatewayReport_ok onRefresh_ok onDNSQuery_ok onRename_ok
    onStatus_ok onPunchRequest_ok withNC_ok [OF networks_punch(2)] withNC_ok [OF networks_punch(3)] case_ok_quiet [OF moves_refl]
  note debugs_ok = onDebug_ok [OF _ debug_step.collected] onDebug_ok [OF _ debug_step.started] onDebug_ok [OF _ debug_step.stopped]
    onDebug_ok [OF _ debug_step.event]
  show ?thesis
    using assms unfolding serviceCase_def Let_def
    by (elim if_SomeE) (use False in \<open>auto intro: cases_ok debugs_ok\<close>)
qed


section \<open>A frame\<close>

lemma finishService_ok:
  assumes "case_ok env new se sv b" and "finishService env b = (go, delivered, se', sv')"
  shows "works env (Some (se_stream se)) new sv delivered sv' \<and> se_stream se' = se_stream se"
proof -
  obtain reply d se1 sv1 where b: "b = (reply, d, se1, sv1)" by (cases b)
  have w: "works env (Some (se_stream se)) new sv d sv1" and s: "se_stream se1 = se_stream se"
    using assms(1) by (simp_all add: case_ok_def b)
  show ?thesis
  proof (cases reply)
    case None
    then show ?thesis using assms(2) w s by (auto simp: finishService_def b)
  next
    case (Some r)
    obtain packet pushes where r: "r = (packet, pushes)" by (cases r)
    obtain pushed sv2 where p: "pushAll env pushes sv1 = (pushed, sv2)" by (cases "pushAll env pushes sv1")
    have own: "works env (Some (se_stream se)) new sv1 [(se_stream se, packet)] sv1"
      by (simp add: works_def moves_refl routed_def)
    have "works env (Some (se_stream se)) new sv (d @ [(se_stream se, packet)] @ pushed) sv2"
      by (rule works_trans [OF w works_trans [OF own works_pushAll [OF p]]])
    then show ?thesis
      using assms(2) w s p by (auto simp: finishService_def b Some r split: if_splits)
  qed
qed

lemma sweep_ok:
  assumes "sweep t se sv = (se', sv')"
  shows "moves env new sv sv'" and "se_stream se' = se_stream se" and "se_capabilities se' = se_capabilities se"
    and "se_networkKey se' = se_networkKey se"
  using assms by (auto simp: sweep_def Let_def networks_reconcile intro: moves_refl moves_punch split: if_splits)

text \<open>The packet of a frame with the state in which it is dispatched, when it is a service packet.\<close>

definition dispatched :: "server_env \<Rightarrow> tick \<Rightarrow> bytes \<Rightarrow> session \<Rightarrow> server \<Rightarrow> (Packet \<times> session \<times> server) option" where
  "dispatched env t raw se0 sv0 =
     (case Unmarshal raw of
        None \<Rightarrow> None
      | Some p \<Rightarrow>
          (case sweep t se0 sv0 of
             (se, sv) \<Rightarrow>
               if pk_Proto p = ProtocolService
               then Some (p\<lparr>pk_RouteNetworkKey := se_networkKey se0\<rparr>, se, sv\<lparr>sv_ct := snd (gatewayPushes env t (sv_ct sv))\<rparr>)
               else None))"

definition frameRegistrations :: "server_env \<Rightarrow> tick \<Rightarrow> bytes \<Rightarrow> session \<Rightarrow> server \<Rightarrow> registration list" where
  "frameRegistrations env t raw se sv =
     (case dispatched env t raw se sv of None \<Rightarrow> [] | Some (packet, se, sv) \<Rightarrow> registrationsIn env t packet se sv)"

lemma serveFrame_eq:
  "serveFrame env t raw se0 sv0 =
     (case dispatched env t raw se0 sv0 of
        Some (packet, se, sv) \<Rightarrow>
          map_option (finishService env)
            (serviceCase env t packet (fst (gatewayPushes env t (sv_ct (snd (sweep t se0 sv0))))) se sv)
      | None \<Rightarrow>
          (case Unmarshal raw of
             None \<Rightarrow> Some (True, [], se0, sv0)
           | Some p \<Rightarrow>
               (case sweep t se0 sv0 of
                  (se, sv) \<Rightarrow>
                    if pk_Proto p = ProtocolControl
                    then Some (serveControl env t (p\<lparr>pk_RouteNetworkKey := se_networkKey se0\<rparr>) se sv)
                    else Some (True, [], se, sv))))"
  by (simp add: serveFrame_def dispatched_def serveService_def Let_def split: option.split prod.split)

lemma dispatched_ok:
  assumes "dispatched env t raw se0 sv0 = Some (packet, se, sv)"
  shows "moves env new sv0 sv" and "se_stream se = se_stream se0"
proof -
  obtain se1 sv1 where sw: "sweep t se0 sv0 = (se1, sv1)" by (cases "sweep t se0 sv0")
  have se: "se = se1" and sv: "sv = sv1\<lparr>sv_ct := snd (gatewayPushes env t (sv_ct sv1))\<rparr>"
    using assms sw by (auto simp: dispatched_def split: option.splits if_splits)
  show "moves env new sv0 sv"
    unfolding sv by (rule moves_trans [OF sweep_ok(1) [OF sw] moves_gateways [OF gatewayPushes_only]])
  show "se_stream se = se_stream se0" unfolding se by (rule sweep_ok(2) [OF sw])
qed

lemma serveControl_ok:
  assumes "serveControl env t packet se sv = (go, delivered, se', sv')"
  shows "works env (Some (se_stream se)) new sv delivered sv' \<and> se_stream se' = se_stream se"
proof -
  obtain resp nc where h: "HandleControlPacketInNetwork (tk_now t)
      (BuildAddrPayloadByAddr (de_quote (en_debug env)) (ss_remoteAddr (se_stream se))) packet (se_networkKey se) (ct_nc (sv_ct sv)) =
      (resp, nc)" by (metis surj_pair)
  have "moves env new sv (sv\<lparr>sv_ct := (sv_ct sv)\<lparr>ct_nc := nc\<rparr>\<rparr>)"
    by (rule moves_step) (metis ctl_step.controlling h snd_conv)
  from case_ok_replyWith [OF this refl] finishService_ok assms show ?thesis by (simp add: serveControl_def h) blast
qed

text \<open>Serving a frame: new routes are those of its registration, and deliveries follow old or new routes.\<close>

lemma serveFrame_ok:
  assumes "serveFrame env t raw se sv = Some (go, delivered, se', sv')"
  shows "works env (Some (se_stream se)) (routes_of (frameRegistrations env t raw se sv)) sv delivered sv' \<and>
    se_stream se' = se_stream se"
proof (cases "dispatched env t raw se sv")
  case (Some d)
  obtain packet se1 sv1 where d: "d = (packet, se1, sv1)" by (cases d)
  let ?new = "routes_of (registrationsIn env t packet se1 sv1)"
  note di = dispatched_ok [OF Some [unfolded d]]
  obtain b where b: "serviceCase env t packet (fst (gatewayPushes env t (sv_ct (snd (sweep t se sv))))) se1 sv1 = Some b"
      and f: "finishService env b = (go, delivered, se', sv')"
    using assms by (auto simp: serveFrame_eq Some d)
  have "works env (Some (se_stream se1)) ?new sv1 delivered sv' \<and> se_stream se' = se_stream se1"
    by (rule finishService_ok [OF serviceCase_ok [OF b] f])
  then show ?thesis using works_after [OF di(1)] di(2) by (simp add: frameRegistrations_def Some d)
next
  case None
  obtain se1 sv1 where sw: "sweep t se sv = (se1, sv1)" by (cases "sweep t se sv")
  have "works env (Some (se_stream se)) {} sv delivered sv' \<and> se_stream se' = se_stream se"
  proof (cases "\<exists>p. Unmarshal raw = Some p \<and> pk_Proto p = ProtocolControl")
    case True
    then obtain p where "serveControl env t (p\<lparr>pk_RouteNetworkKey := se_networkKey se\<rparr>) se1 sv1 = (go, delivered, se', sv')"
      using assms by (auto simp: serveFrame_eq None sw)
    from serveControl_ok [OF this] show ?thesis using works_after [OF sweep_ok(1) [OF sw]] sweep_ok(2) [OF sw] by simp
  next
    case False
    then show ?thesis
      using assms sweep_ok(1,2) [OF sw] by (auto simp: serveFrame_eq None sw intro: works_moves moves_refl split: option.splits)
  qed
  then show ?thesis by (simp add: frameRegistrations_def None routes_of_def)
qed


text \<open>A packet stops the server only when it is a proof of a device whose key has a wrong length.\<close>

definition panicking :: "server_env \<Rightarrow> bytes \<Rightarrow> bool" where
  "panicking env raw \<longleftrightarrow> (\<exists>p req. Unmarshal raw = Some p \<and> pk_Proto p = ProtocolService \<and>
     pk_AppProto p = AppProtoDeviceAuthProof \<and> cd_proof (en_codec env) (pk_Payload p) = Inr req \<and>
     length (dp_DevicePubKey req) \<noteq> 32)"

lemma proof_returns:
  assumes "\<And>req. decoded = Inr req \<Longrightarrow> length (dp_DevicePubKey req) = 32"
  shows "HandleDeviceAuthProofPacket env marshal now request decoded ct \<noteq> None"
  using assms
  by (auto simp: HandleDeviceAuthProofPacket_def answerDeviceAuthProof_def proofSigned_def
      split: sum.split prod.split option.split) (metis surj_pair)

lemma registration_returns:
  assumes "Validate c = (None, ce_cfg env)" and "nc_ok (ct_nc ct)"
  shows "HandleRegistrationPacketWithVirtualIPAndCapabilities env marshal now request decoded addr caps ct \<noteq> None"
  using register_returns [OF assms]
  by (auto simp: HandleRegistrationPacketWithVirtualIPAndCapabilities_def split: sum.split) (metis option.distinct(1))

lemma serviceCase_returns:
  assumes "Validate c = (None, ce_cfg (en_control env))" and "nc_ok (ct_nc (sv_ct sv))" and ok: "debug_ok (sv_debug sv)"
    and none: "serviceCase env t packet deferred se sv = None"
  shows "\<exists>req. pk_AppProto packet = AppProtoDeviceAuthProof \<and> cd_proof (en_codec env) (pk_Payload packet) = Inr req \<and>
    length (dp_DevicePubKey req) \<noteq> 32"
proof -
  have "onRegistration env t packet se sv \<noteq> None"
    using registration_returns [OF assms(1,2)] by (simp add: onRegistration_def)
  moreover have "HandleDebugCollectResponse (en_debug env) now packet dc ct (sv_debug sv) \<noteq> None" for now dc ct
    by (rule collect_response_spec [OF ok, of "en_debug env" now packet dc ct]) simp
  moreover have "HandleDebugWatchStartResponse (en_debug env) packet ds ct (sv_debug sv) \<noteq> None" for ds ct
    by (rule start_response_spec [OF ok, of "en_debug env" packet ds ct]) simp
  moreover have "HandleDebugWatchStopResponse (en_debug env) packet dt ct (sv_debug sv) \<noteq> None" for dt ct
    by (rule stop_response_spec [OF ok, of "en_debug env" packet dt ct]) simp
  ultimately have "pk_AppProto packet = AppProtoDeviceAuthProof \<and> onProof env t packet deferred se sv = None"
    using none by (auto simp add: serviceCase_def Let_def onDebug_def simp del: not_None_eq split: if_splits)
  moreover from this have "HandleDeviceAuthProofPacket (en_control env) (cd_authAck (en_codec env)) (tk_now t) packet
      (cd_proof (en_codec env) (pk_Payload packet)) (sv_ct sv) = None" by (simp add: onProof_def)
  ultimately show ?thesis
    using proof_returns [of "cd_proof (en_codec env) (pk_Payload packet)"] by blast
qed

end
