(* ===== verification/Server_Facts.thy ===== *)
theory Server_Facts
  imports Session_Facts
begin

text \<open>
  The running server: any number of sessions, operators and debug requests, in any order. What holds of the
  reachable states of the controller holds of the server, every frame returns, and a packet with a network key
  reaches only sessions that registered in that network.
\<close>

section \<open>The running server\<close>

record system =
  sy_server :: server
  sy_sessions :: "session list"
  sy_log :: "registration list"

text \<open>
  The server with its open sessions: a session opens, serves a frame, or closes, in any order and with any bytes
  from the devices; operators change the controller, push packets and start or await debug requests. The log of
  registrations is kept for the statements only.
\<close>

inductive sys_step :: "server_env \<Rightarrow> system \<Rightarrow> system \<Rightarrow> bool" for env where
  connecting: "startSession now stream (sy_server sy) = (se, sv) \<Longrightarrow>
    sys_step env sy (sy\<lparr>sy_server := sv, sy_sessions := se # sy_sessions sy\<rparr>)"
| serving: "se \<in> set (sy_sessions sy) \<Longrightarrow> serveFrame env t raw se (sy_server sy) = Some (go, delivered, se', sv) \<Longrightarrow>
    sys_step env sy (sy\<lparr>sy_server := sv, sy_sessions := se' # remove1 se (sy_sessions sy),
      sy_log := sy_log sy @ frameRegistrations env t raw se (sy_server sy)\<rparr>)"
| closing: "se \<in> set (sy_sessions sy) \<Longrightarrow>
    sys_step env sy (sy\<lparr>sy_server := endSession now se (sy_server sy), sy_sessions := remove1 se (sy_sessions sy)\<rparr>)"
| operating: "ctl_step (en_control env) (sv_ct (sy_server sy)) ct \<Longrightarrow>
    sys_step env sy (sy\<lparr>sy_server := (sy_server sy)\<lparr>sv_ct := ct\<rparr>\<rparr>)"
| pushing: "pushAll env packets (sy_server sy) = (delivered, sv) \<Longrightarrow> sys_step env sy (sy\<lparr>sy_server := sv\<rparr>)"
| debugging: "debug_step (en_debug env) (sv_debug (sy_server sy)) dg \<Longrightarrow>
    sys_step env sy (sy\<lparr>sy_server := (sy_server sy)\<lparr>sv_debug := dg\<rparr>\<rparr>)"

definition booted :: "Controller \<Rightarrow> debugFS \<Rightarrow> system" where
  "booted ct fs = \<lparr>sy_server = \<lparr>sv_ct = ct, sv_hub = newStreamHub, sv_debug = newDebugState fs\<rparr>, sy_sessions = [], sy_log = []\<rparr>"

text \<open>A registration was admitted: its device had a current record then, with the key it presented.\<close>

definition admitted :: "server_env \<Rightarrow> registration \<Rightarrow> bool" where
  "admitted env e \<longleftrightarrow> (\<exists>r0. authorized (en_control env) (rg_now e) (rg_request e) (rg_before e) r0 \<and>
     rg_key e = id_key (NewNetworkIdentity (rq_Token (rg_request e)) (ad_UserID r0)))"

definition sys_ok :: "server_env \<Rightarrow> Controller \<Rightarrow> debugFS \<Rightarrow> system \<Rightarrow> bool" where
  "sys_ok env ct0 fs sy \<longleftrightarrow>
     (ctl_step (en_control env))\<^sup>*\<^sup>* ct0 (sv_ct (sy_server sy)) \<and>
     (debug_step (en_debug env))\<^sup>*\<^sup>* (newDebugState fs) (sv_debug (sy_server sy)) \<and>
     hub_ok (sv_hub (sy_server sy)) \<and>
     (\<forall>k s. gget (sh_byRoute (sv_hub (sy_server sy))) k = Some s \<longrightarrow> (s, k) \<in> routes_of (sy_log sy)) \<and>
     (\<forall>e \<in> set (sy_log sy). admitted env e \<and> (ctl_step (en_control env))\<^sup>*\<^sup>* ct0 (rg_before e))"

lemma sys_ok_moves:
  assumes "sys_ok env ct0 fs sy" and "moves env (routes_of es) (sy_server sy) sv" and "sy_server sy' = sv"
    and "sy_log sy' = sy_log sy @ es" and "\<forall>e \<in> set es. admitted env e \<and> (ctl_step (en_control env))\<^sup>*\<^sup>* ct0 (rg_before e)"
  shows "sys_ok env ct0 fs sy'"
proof -
  have ok: "hub_ok (sv_hub (sy_server sy))" using assms(1) by (simp add: sys_ok_def)
  have "(ctl_step (en_control env))\<^sup>*\<^sup>* ct0 (sv_ct sv)" "(debug_step (en_debug env))\<^sup>*\<^sup>* (newDebugState fs) (sv_debug sv)"
    using assms(1,2) unfolding sys_ok_def moves_def by (meson rtranclp_trans)+
  moreover have "hub_ok (sv_hub sv)"
    and routes: "gget (sh_byRoute (sv_hub sv)) k = Some s \<Longrightarrow>
      gget (sh_byRoute (sv_hub (sy_server sy))) k = Some s \<or> (s, k) \<in> routes_of es" for k s
    using assms(2) ok unfolding moves_def by blast+
  moreover have "(s, k) \<in> routes_of (sy_log sy @ es)" if "gget (sh_byRoute (sv_hub sv)) k = Some s" for k s
    using routes [OF that] assms(1) by (auto simp: sys_ok_def routes_of_def)
  ultimately show ?thesis using assms(1,3-5) by (auto simp: sys_ok_def)
qed

lemma frameRegistrations_ok:
  assumes v: "Validate c = (None, ce_cfg (en_control env))" and ok: "\<And>ct. (ctl_step (en_control env))\<^sup>*\<^sup>* ct0 ct \<Longrightarrow> nc_ok (ct_nc ct)"
    and ct: "(ctl_step (en_control env))\<^sup>*\<^sup>* ct0 (sv_ct sv)" and e: "e \<in> set (frameRegistrations env t raw se sv)"
  shows "admitted env e \<and> (ctl_step (en_control env))\<^sup>*\<^sup>* ct0 (rg_before e) \<and> rg_stream e = se_stream se"
proof -
  obtain packet se1 sv1 where d: "dispatched env t raw se sv = Some (packet, se1, sv1)"
      and e1: "e \<in> set (registrationsIn env t packet se1 sv1)"
    using e unfolding frameRegistrations_def by (cases "dispatched env t raw se sv") auto
  obtain reg resp ip identity ct' where
      r: "register (en_control env) (tk_now t) reg (ss_remoteAddr (se_stream se1)) (se_capabilities se1) (sv_ct sv1) =
        Some (Inr (resp, ip, identity), ct')"
      and e2: "e = \<lparr>rg_stream = se_stream se1, rg_key = id_key identity, rg_ip = ip, rg_now = tk_now t, rg_request = reg,
                 rg_before = sv_ct sv1\<rparr>"
    using e1 by (auto simp: registrationsIn_def split: if_splits sum.splits option.splits prod.splits) metis
  have "moves env {} sv sv1" by (rule dispatched_ok(1) [OF d])
  then have reach: "(ctl_step (en_control env))\<^sup>*\<^sup>* ct0 (sv_ct sv1)" using ct unfolding moves_def by (meson rtranclp_trans)
  from register_returns [OF v ok [OF reach], of "tk_now t" reg "ss_remoteAddr (se_stream se1)" "se_capabilities se1"] r
  obtain r0 where "authorized (en_control env) (tk_now t) reg (sv_ct sv1) r0" "identity = NewNetworkIdentity (rq_Token reg) (ad_UserID r0)"
    by (auto simp: registered_def)
  then show ?thesis using reach dispatched_ok(2) [OF d] by (auto simp: admitted_def e2)
qed

lemma endSession_moves: "moves env new sv (endSession now se sv)"
proof -
  let ?ct = "(sv_ct sv)\<lparr>ct_nc := LeaveByRemoteAddr now (Some (ss_remoteAddr (se_stream se))) (ct_nc (sv_ct sv))\<rparr>"
  let ?h = "unregisterSession (Some (se_stream se)) (sv_hub sv)"
  have "hub_ok ?h \<and> (\<forall>k s. gget (sh_byRoute ?h) k = Some s \<longrightarrow> gget (sh_byRoute (sv_hub sv)) k = Some s)"
    if "hub_ok (sv_hub sv)" using unregisterSession_spec(1) [OF that] unregisterSession_ok [OF that] by simp
  then have "moves env new (sv\<lparr>sv_ct := ?ct\<rparr>) (sv\<lparr>sv_ct := ?ct, sv_hub := ?h\<rparr>)" unfolding moves_def by simp
  with moves_step [OF ctl_step.leaving] show ?thesis unfolding endSession_def by (rule moves_trans)
qed

lemma sys_step_ok:
  assumes v: "Validate c = (None, ce_cfg (en_control env))" and nc: "\<And>ct. (ctl_step (en_control env))\<^sup>*\<^sup>* ct0 ct \<Longrightarrow> nc_ok (ct_nc ct)"
    and ok: "sys_ok env ct0 fs sy" and "sys_step env sy sy'"
  shows "sys_ok env ct0 fs sy'"
  using assms(4)
proof cases
  case (connecting now stream se sv)
  have "moves env (routes_of []) (sy_server sy) sv"
    using connecting(2) by (auto simp: startSession_def intro: moves_punch)
  with ok show ?thesis by (rule sys_ok_moves) (simp_all add: connecting)
next
  case (serving se t raw go delivered se' sv)
  have "moves env (routes_of (frameRegistrations env t raw se (sy_server sy))) (sy_server sy) sv"
    using serveFrame_ok [OF serving(3)] by (simp add: works_def)
  with ok show ?thesis
  proof (rule sys_ok_moves)
    show "\<forall>e \<in> set (frameRegistrations env t raw se (sy_server sy)). admitted env e \<and> (ctl_step (en_control env))\<^sup>*\<^sup>* ct0 (rg_before e)"
      using frameRegistrations_ok [OF v nc, of ct0 "sy_server sy"] ok unfolding sys_ok_def by blast
  qed (simp_all add: serving)
next
  case (closing se now)
  from ok endSession_moves show ?thesis by (rule sys_ok_moves [where es = "[]"]) (simp_all add: closing)
next
  case (operating ct)
  from ok moves_step [OF operating(2)] show ?thesis by (rule sys_ok_moves [where es = "[]"]) (simp_all add: operating)
next
  case (pushing packets delivered sv)
  have "moves env (routes_of []) (sy_server sy) sv" using works_pushAll [OF pushing(2)] by (simp add: works_def)
  with ok show ?thesis by (rule sys_ok_moves) (simp_all add: pushing)
next
  case (debugging dg)
  have "moves env (routes_of []) (sy_server sy) ((sy_server sy)\<lparr>sv_debug := dg\<rparr>)" using debugging(2) by (simp add: moves_def)
  with ok show ?thesis by (rule sys_ok_moves) (simp_all add: debugging)
qed

lemma sys_reachable_ok:
  assumes start: "NewController t0 (Some c) src file rows = Inr (ce_cfg (en_control env), store, ct0)"
    and "(sys_step env)\<^sup>*\<^sup>* (booted ct0 fs) sy"
  shows "sys_ok env ct0 fs sy"
  using assms(2)
proof (induction rule: rtranclp_induct)
  case base
  then show ?case by (simp add: sys_ok_def booted_def newStreamHub_ok) (simp add: newStreamHub_def)
next
  case (step y z)
  then show ?case using sys_step_ok [OF NewController_start(1) [OF start] reachable_ok [OF start]] by blast
qed


lemma sys_ok_route:
  assumes ok: "sys_ok env ct0 fs sy" and "gget (sh_byRoute (sv_hub (sy_server sy))) (route_of p) = Some s"
  shows "\<exists>e \<in> set (sy_log sy). rg_stream e = s \<and> TrimSpace (rg_key e) = TrimSpace (pk_RouteNetworkKey p) \<and>
    rg_ip e = ipToUint32 (pk_DstIP p) \<and> admitted env e \<and> (ctl_step (en_control env))\<^sup>*\<^sup>* ct0 (rg_before e)"
proof -
  have "(s, route_of p) \<in> routes_of (sy_log sy)" using assms unfolding sys_ok_def by blast
  then obtain e where "e \<in> set (sy_log sy)" "rg_stream e = s" "routeKey (rg_key e) (rg_ip e) = route_of p"
    by (auto simp: routes_of_def)
  then show ?thesis
    using ok unfolding sys_ok_def route_of_def routeKey_inj by blast
qed

section \<open>A run\<close>

text \<open>A small server with one registered device, on which the properties are applied.\<close>

definition sample_codec :: codec where
  "sample_codec = \<lparr>cd_handshake = (\<lambda>_. Inl []), cd_handshakeResp = (\<lambda>_. Inr []), cd_handshakeRead = (\<lambda>_. Inl []),
     cd_registration = (\<lambda>_. Inr sample_reg), cd_registrationResp = (\<lambda>_. Inr []), cd_deviceList = (\<lambda>_. Inr []),
     cd_auth = (\<lambda>_. Inl []), cd_authAck = (\<lambda>_. Inr []), cd_authChallenge = (\<lambda>_. Inr []), cd_proof = (\<lambda>_. Inl []),
     cd_report = (\<lambda>_. Inl []), cd_reportAck = (\<lambda>_. Inr []), cd_refresh = (\<lambda>_. Inl []), cd_refreshResp = (\<lambda>_. Inr []),
     cd_dns = (\<lambda>_. Inl []), cd_dnsResp = (\<lambda>_. Inr []), cd_rename = (\<lambda>_. Inl []), cd_renameResp = (\<lambda>_. Inr []),
     cd_status = (\<lambda>_. Inl []), cd_punchRequest = (\<lambda>_. Inl []), cd_punchAck = (\<lambda>_. Inl []), cd_punchAckResp = (\<lambda>_. Inr []),
     cd_punchStart = (\<lambda>_. Inr []), cd_punchResult = (\<lambda>_. Inl []), cd_collected = (\<lambda>_. Inl []),
     cd_watchStarted = (\<lambda>_. Inl []), cd_watchStopped = (\<lambda>_. Inl []), cd_watchEvent = (\<lambda>_. Inl []), cd_eventLine = (\<lambda>_. Inl [])\<rparr>"

definition sample_env :: server_env where
  "sample_env = \<lparr>en_control = sample_control, en_debug = sample_debug_env, en_codec = sample_codec,
     en_transport = (\<lambda>_ _. None), en_dns = (\<lambda>_ _. DialFailed [])\<rparr>"

definition sample_tick :: tick where
  "sample_tick = \<lparr>tk_now = 5, tk_nonce = Inl [], tk_ident = Inl [], tk_clock = (\<lambda>_. 5)\<rparr>"

definition sample_frame :: "u8 \<Rightarrow> bytes" where
  "sample_frame app = Marshal (servicePacket app [10, 0, 0, 9] [10, 0, 0, 1] [] [])"

definition sample_stream :: "nat \<Rightarrow> sessionStream" where
  "sample_stream i = \<lparr>ss_id = i, ss_remoteAddr = ''1.2.3.4:50''\<rparr>"

definition sample_first :: session where
  "sample_first = \<lparr>se_stream = sample_stream 2, se_capabilities = [], se_networkKey = [], se_lastSweepMs = 0\<rparr>"

definition sample_second :: session where
  "sample_second = sample_first\<lparr>se_stream := sample_stream 3\<rparr>"

text \<open>The server before the registration of the first session.\<close>

definition sample_fs :: debugFS where "sample_fs = \<lparr>fs_dirs = [], fs_files = []\<rparr>"

definition sample_opened :: server where
  "sample_opened = snd (startSession 5 (se_stream sample_first) \<lparr>sv_ct = sample_ct, sv_hub = newStreamHub, sv_debug = newDebugState sample_fs\<rparr>)"

definition sample_hub :: streamHub where
  "sample_hub = \<lparr>sh_byIP = [], sh_byRoute = [(''personal:sdl-1@dev.ms.net|167772167'', se_stream sample_first)],
     sh_ipsByAddr = [(''1.2.3.4:50'', [(''personal:sdl-1@dev.ms.net|167772167'', se_stream sample_first)])]\<rparr>"

definition sample_client :: ClientInfo where
  "sample_client = \<lparr>cl_DeviceId = ''dev-a'', cl_Name = ''laptop'', cl_UserID = ''sdl-1'',
     cl_NetworkKey = ''personal:sdl-1@dev.ms.net'', cl_AuthGroup = ''dev.ms.net'', cl_NetworkScope = ''personal:sdl-1'',
     cl_ControlOnline = True, cl_ControlLastSeen = 0, cl_DataPlaneReachable = False, cl_DataPlaneLastSeen = 0,
     cl_Version = ''1'', cl_Capabilities = [], cl_VirtualIp = 167772167, cl_Address = Some ''1.2.3.4:50'',
     cl_DevicePubKey = [7], cl_OnlineKxPub = replicate 32 0, cl_LastJoin = 0, cl_ClientStatus = None,
     cl_PreferredChannelMode = CHANNEL_MODE_AUTO\<rparr>"

definition sample_network :: NetworkInfo where
  "sample_network = \<lparr>ni_Group = ''personal:sdl-1@dev.ms.net'', ni_Netmask = [255, 255, 255, 0], ni_Gateway = [10, 0, 0, 1],
     ni_Epoch = 1, ni_Clients = [(167772167, sample_client)], ni_ClientIPsByDeviceID = [(''dev-a'', 167772167)],
     ni_ReservedIPs = [(167772213, ''dns_service_ip'')]\<rparr>"

definition sample_gs :: GatewayState where
  "sample_gs = \<lparr>gw_Allow = [], gw_Nodes = [], gw_Seen = [], gw_Nonce = [], gw_GrantCache = [], gw_GrantFingerprint = [],
     gw_GrantPolicyRev = 1\<rparr>"

definition sample_nc :: NetworkControl where
  "sample_nc = (let nc = TouchCipherSession 5 (Some ''1.2.3.4:50'') NewNetworkControl
     in nc\<lparr>nc_VirtualNetwork := (nc_VirtualNetwork nc)\<lparr>em_data := [(''personal:sdl-1@dev.ms.net'', sample_network)]\<rparr>\<rparr>)"

lemma sample_opened_eq: "sample_opened = \<lparr>sv_ct = sample_ct\<lparr>ct_nc := TouchCipherSession 5 (Some ''1.2.3.4:50'') NewNetworkControl\<rparr>,
    sv_hub = newStreamHub, sv_debug = newDebugState sample_fs\<rparr>"
  by (simp add: sample_opened_def startSession_def sample_first_def sample_stream_def sample_ct_def)

lemma sample_served:
  "joinNetwork 5 (NewNetworkIdentity ''dev.ms.net'' ''sdl-1'') [10, 0, 0, 1] [255, 255, 255, 0]
     [(167772213, ''dns_service_ip'')] sample_reg sample_device [] ''1.2.3.4:50''
     (TouchCipherSession 5 (Some ''1.2.3.4:50'') NewNetworkControl) = Some (Inr (0x0A000007, sample_network), sample_nc) \<and>
   id_key (NewNetworkIdentity ''dev.ms.net'' ''sdl-1'') = ''personal:sdl-1@dev.ms.net'' \<and>
   reservedServiceIPs (ce_cfg sample_control) ''dev.ms.net'' = [(167772213, ''dns_service_ip'')] \<and>
   snd (buildGatewayAccessGrantsForExistingClient (gatewayEnv sample_control) 5 ''personal:sdl-1@dev.ms.net'' 0x0A000007 ''dev-a''
     sample_gs) = sample_gs \<and>
   syncGatewayGrantPolicyLocked (approvedAliveGatewayNodesLocked (gatewayEnv sample_control) 5 (NewGatewayState []))
     (NewGatewayState []) = ((1, False), sample_gs) \<and>
   parseRemoteAddr ''1.2.3.4:50'' = Inr (''1.2.3.4'', 50) \<and>
   sweep sample_tick sample_first sample_opened = (sample_first, sample_opened) \<and>
   fst (registerSession (Some ''1.2.3.4:50'') ''personal:sdl-1@dev.ms.net'' 0x0A000007 (se_stream sample_first) newStreamHub) = sample_hub"
  by code_simp

lemma sample_gateways: "gatewayPushes sample_env sample_tick (sample_ct\<lparr>ct_nc := nc\<rparr>) = ([], sample_ct\<lparr>ct_nc := nc, ct_gateways := sample_gs\<rparr>)"
  by (simp add: gatewayPushes_def BuildPushDeviceListPacketsForGatewayChangeIfNeeded_def sample_env_def sample_tick_def sample_ct_def
      sample_served orNone_def)

lemma sample_register:
  "\<exists>resp. register sample_control 5 sample_reg ''1.2.3.4:50'' []
     (sample_ct\<lparr>ct_nc := TouchCipherSession 5 (Some ''1.2.3.4:50'') NewNetworkControl, ct_gateways := sample_gs\<rparr>) =
   Some (Inr (resp, 0x0A000007, NewNetworkIdentity ''dev.ms.net'' ''sdl-1''), sample_ct\<lparr>ct_nc := sample_nc, ct_gateways := sample_gs\<rparr>)"
proof -
  let ?ct = "sample_ct\<lparr>ct_nc := TouchCipherSession 5 (Some ''1.2.3.4:50'') NewNetworkControl, ct_gateways := sample_gs\<rparr>"
  have "authorizeRegistration sample_control 5 sample_reg ?ct = Some (Inr (sample_device, [10, 0, 0, 1], [255, 255, 255, 0]), ?ct)"
    by (rule sample_authorized) simp
  moreover have "rq_Token sample_reg = ''dev.ms.net''" "ad_UserID sample_device = ''sdl-1''" "rq_DeviceId sample_reg = ''dev-a''"
    by (simp_all add: sample_reg_def sample_device_def)
  ultimately show ?thesis
    using sample_served by (simp add: register_def completeRegistration_def Let_def split_beta)
qed

text \<open>The first session registers.\<close>

lemma sample_registers_frame:
  "\<exists>d se. serveFrame sample_env sample_tick (sample_frame AppProtoRegistrationRequest) sample_first sample_opened =
     Some (True, d, se, \<lparr>sv_ct = sample_ct\<lparr>ct_nc := sample_nc, ct_gateways := sample_gs\<rparr>, sv_hub = sample_hub, sv_debug = newDebugState sample_fs\<rparr>)"
proof -
  let ?ct = "sample_ct\<lparr>ct_nc := TouchCipherSession 5 (Some ''1.2.3.4:50'') NewNetworkControl, ct_gateways := sample_gs\<rparr>"
  let ?ct1 = "sample_ct\<lparr>ct_nc := sample_nc, ct_gateways := sample_gs\<rparr>"
  have frame: "map_option (\<lambda>p. (pk_Proto p, pk_AppProto p)) (Unmarshal (sample_frame AppProtoRegistrationRequest)) =
      Some (ProtocolService, AppProtoRegistrationRequest)" by code_simp
  have sweep: "sweep sample_tick sample_first sample_opened = (sample_first, sample_opened)" by (simp add: sample_served)
  have hub: "fst (registerSession (Some ''1.2.3.4:50'') ''personal:sdl-1@dev.ms.net'' 0x0A000007 (se_stream sample_first) newStreamHub) = sample_hub"
    by (simp add: sample_served)
  have peers: "BuildPushDeviceListPacketsForPeerChangeInNetwork sample_control (\<lambda>_. Inr []) 5 ''personal:sdl-1@dev.ms.net'' 0x0A000007 ?ct1 = (Inr [], ?ct1)"
    by code_simp
  obtain p where p: "Unmarshal (sample_frame AppProtoRegistrationRequest) = Some p" "pk_Proto p = ProtocolService"
      "pk_AppProto p = AppProtoRegistrationRequest" using frame by auto
  obtain resp where r: "register sample_control 5 sample_reg ''1.2.3.4:50'' [] ?ct =
      Some (Inr (resp, 0x0A000007, NewNetworkIdentity ''dev.ms.net'' ''sdl-1''), ?ct1)" using sample_register by blast
  have fields: "en_control sample_env = sample_control" "cd_registration (en_codec sample_env) = (\<lambda>_. Inr sample_reg)"
      "cd_registrationResp (en_codec sample_env) = (\<lambda>_. Inr [])" "cd_deviceList (en_codec sample_env) = (\<lambda>_. Inr [])"
      "en_transport sample_env = (\<lambda>_ _. None)" "tk_now sample_tick = 5" "se_capabilities sample_first = []"
      "ss_remoteAddr (se_stream sample_first) = ''1.2.3.4:50''" "se_networkKey sample_first = []"
    by (simp_all add: sample_env_def sample_codec_def sample_tick_def sample_first_def sample_stream_def)
  have d: "dispatched sample_env sample_tick (sample_frame AppProtoRegistrationRequest) sample_first sample_opened =
     Some (p\<lparr>pk_RouteNetworkKey := []\<rparr>, sample_first, sample_opened\<lparr>sv_ct := ?ct\<rparr>)"
    using sample_gateways [of "TouchCipherSession 5 (Some ''1.2.3.4:50'') NewNetworkControl"]
    by (simp add: dispatched_def p sweep fields) (simp add: sample_opened_eq)
  have "onRegistration sample_env sample_tick (p\<lparr>pk_RouteNetworkKey := []\<rparr>) sample_first (sample_opened\<lparr>sv_ct := ?ct\<rparr>) =
     Some (replyWith (buildServicePacket (\<lambda>_. Inr []) (p\<lparr>pk_RouteNetworkKey := []\<rparr>) AppProtoRegistrationResponse resp) []
        (sample_first\<lparr>se_networkKey := ''personal:sdl-1@dev.ms.net''\<rparr>)
        \<lparr>sv_ct = ?ct1, sv_hub = sample_hub, sv_debug = newDebugState sample_fs\<rparr>)"
    using peers hub
    by (simp add: onRegistration_def fields HandleRegistrationPacketWithVirtualIPAndCapabilities_def r sample_opened_eq Let_def
        sample_served buildServicePacket_def orNone_def)
  then have "serviceCase sample_env sample_tick (p\<lparr>pk_RouteNetworkKey := []\<rparr>) deferred sample_first (sample_opened\<lparr>sv_ct := ?ct\<rparr>) =
     Some (replyWith (buildServicePacket (\<lambda>_. Inr []) (p\<lparr>pk_RouteNetworkKey := []\<rparr>) AppProtoRegistrationResponse resp) []
        (sample_first\<lparr>se_networkKey := ''personal:sdl-1@dev.ms.net''\<rparr>)
        \<lparr>sv_ct = ?ct1, sv_hub = sample_hub, sv_debug = newDebugState sample_fs\<rparr>)" for deferred
    using p(3) by (simp add: serviceCase_def Let_def AppProtoHandshakeRequest_def AppProtoRegistrationRequest_def)
  then show ?thesis
    by (simp add: serveFrame_eq d replyWith_def buildServicePacket_def finishService_def fields pushAll_def)
qed

definition sample_sv :: server where
  "sample_sv = \<lparr>sv_ct = sample_ct\<lparr>ct_nc := sample_nc, ct_gateways := sample_gs\<lparr>gw_GrantFingerprint := ''old''\<rparr>\<rparr>,
     sv_hub = sample_hub, sv_debug = newDebugState sample_fs\<rparr>"

lemma sample_gateway_push:
  obtains p gs where "gatewayPushes sample_env sample_tick (sv_ct sample_sv) = ([p], (sv_ct sample_sv)\<lparr>ct_gateways := gs\<rparr>)"
    and "pk_DstIP p = [10, 0, 0, 7]" and "pk_RouteNetworkKey p = ''personal:sdl-1@dev.ms.net''"
proof -
  obtain ps ct where g: "gatewayPushes sample_env sample_tick (sv_ct sample_sv) = (ps, ct)"
    by (cases "gatewayPushes sample_env sample_tick (sv_ct sample_sv)")
  obtain gs where ct: "ct = (sv_ct sample_sv)\<lparr>ct_gateways := gs\<rparr>"
    using gatewayPushes_only [of sample_env sample_tick "sv_ct sample_sv"] g by auto
  have "map (\<lambda>p. (pk_DstIP p, pk_RouteNetworkKey p)) (fst (gatewayPushes sample_env sample_tick (sv_ct sample_sv))) =
      [([10, 0, 0, 7], ''personal:sdl-1@dev.ms.net'')]" by code_simp
  then obtain p where "ps = [p]" "pk_DstIP p = [10, 0, 0, 7]" "pk_RouteNetworkKey p = ''personal:sdl-1@dev.ms.net''"
    by (auto simp: g)
  then show ?thesis using that g ct by blast
qed

lemma sample_delivery:
  assumes "pk_DstIP p = [10, 0, 0, 7]" and "pk_RouteNetworkKey p = ''personal:sdl-1@dev.ms.net''"
  shows "dispatchPushes (\<lambda>_ _. None) [p] sample_hub = ([(sample_stream 2, p)], sample_hub)"
proof -
  have "ipToUint32 [10, 0, 0, 7] = 0x0A000007" and "TrimSpace ''personal:sdl-1@dev.ms.net'' \<noteq> []"
    and "routeKey ''personal:sdl-1@dev.ms.net'' 0x0A000007 = ''personal:sdl-1@dev.ms.net|167772167''" by code_simp+
  then show ?thesis
    using assms by (simp add: writeToRoute_def writeToSession_def sample_hub_def sample_first_def)
qed

text \<open>The next frame of the second session finds the gateways changed; the list goes to the first session.\<close>

lemma sample_pushed:
  "\<exists>go delivered se' sv' p. serveFrame sample_env sample_tick (sample_frame AppProtoPullDeviceList) sample_second sample_sv =
     Some (go, delivered, se', sv') \<and> (sample_stream 2, p) \<in> set delivered"
proof -
  obtain p gs where g: "gatewayPushes sample_env sample_tick (sv_ct sample_sv) = ([p], (sv_ct sample_sv)\<lparr>ct_gateways := gs\<rparr>)"
    and p: "pk_DstIP p = [10, 0, 0, 7]" "pk_RouteNetworkKey p = ''personal:sdl-1@dev.ms.net''" by (rule sample_gateway_push)
  have frame: "map_option (\<lambda>p. (pk_Proto p, pk_AppProto p, pk_SrcIP p)) (Unmarshal (sample_frame AppProtoPullDeviceList)) =
      Some (ProtocolService, AppProtoPullDeviceList, net_IPv4 10 0 0 9)" by code_simp
  then obtain q where q: "Unmarshal (sample_frame AppProtoPullDeviceList) = Some q" "pk_Proto q = ProtocolService"
      "pk_AppProto q = AppProtoPullDeviceList" "pk_SrcIP q = net_IPv4 10 0 0 9" by auto
  have sweep: "sweep sample_tick sample_second sample_sv = (sample_second, sample_sv)"
    by (simp add: sweep_def sample_tick_def sample_second_def sample_first_def) code_simp
  have none: "DeviceListByIPInNetwork sample_nc [] (of_be32 10 0 0 9) = None" by code_simp
  have fields: "en_transport sample_env = (\<lambda>_ _. None)" "se_networkKey sample_second = []"
      "ct_nc (sv_ct sample_sv) = sample_nc" "sv_hub sample_sv = sample_hub"
    by (simp_all add: sample_env_def sample_second_def sample_first_def sample_sv_def)
  have apps: "AppProtoPullDeviceList \<noteq> AppProtoHandshakeRequest" "AppProtoPullDeviceList \<noteq> AppProtoRegistrationRequest"
    by code_simp+
  show ?thesis
    using apps sample_delivery [OF p]
    by (simp add: serveFrame_eq dispatched_def q sweep g fields serviceCase_def Let_def onPull_def
        HandlePullDeviceListPacketInNetwork_def none replyWith_def finishService_def pushAll_def
        del: dispatchPushes.simps) blast
qed

lemma sample_boot: "NewController 1 (Some sample_config) sample_source (Inl ''no file'') None =
    Inr (ce_cfg (en_control sample_env), None, sample_start)"
  using sample_starts by (simp add: sample_env_def)

lemma sample_system:
  obtains sy go delivered se' sv' p where "(sys_step sample_env)\<^sup>*\<^sup>* (booted sample_start sample_fs) sy"
    and "serveFrame sample_env sample_tick (sample_frame AppProtoPullDeviceList) sample_second (sy_server sy) =
       Some (go, delivered, se', sv')" and "(sample_stream 2, p) \<in> set delivered"
proof -
  let ?raw = "sample_frame AppProtoRegistrationRequest"
  define sv where "sv = \<lparr>sv_ct = sample_ct\<lparr>ct_nc := sample_nc, ct_gateways := sample_gs\<rparr>, sv_hub = sample_hub,
    sv_debug = newDebugState sample_fs\<rparr>"
  have changed: "sample_sv = sv\<lparr>sv_ct := (sv_ct sv)\<lparr>ct_gateways := sample_gs\<lparr>gw_GrantFingerprint := ''old''\<rparr>\<rparr>\<rparr>"
    by (simp add: sample_sv_def sv_def)
  define sy1 where "sy1 = \<lparr>sy_server = \<lparr>sv_ct = sample_ct, sv_hub = newStreamHub, sv_debug = newDebugState sample_fs\<rparr>,
    sy_sessions = [], sy_log = []\<rparr>"
  define sy2 where "sy2 = sy1\<lparr>sy_server := sample_opened, sy_sessions := [sample_first]\<rparr>"
  obtain d1 se1 where r: "serveFrame sample_env sample_tick ?raw sample_first sample_opened = Some (True, d1, se1, sv)"
    using sample_registers_frame by (auto simp: sv_def)
  define sy3 where "sy3 = sy2\<lparr>sy_server := sv, sy_sessions := [se1],
    sy_log := frameRegistrations sample_env sample_tick ?raw sample_first sample_opened\<rparr>"
  define sy where "sy = sy3\<lparr>sy_server := sample_sv\<rparr>"
  have "sys_step sample_env (booted sample_start sample_fs) sy1"
    using sys_step.operating [of sample_env "booted sample_start sample_fs" sample_ct]
      ctl_step.users [of sample_control sample_start "ct_um sample_ct"]
    by (simp add: booted_def sy1_def sample_env_def sample_start_def)
  moreover have "sys_step sample_env sy1 sy2"
    using sys_step.connecting [of 5 "se_stream sample_first" sy1 sample_first sample_opened sample_env]
    by (simp add: sy1_def sy2_def sample_opened_def startSession_def sample_first_def)
  moreover have "sys_step sample_env sy2 sy3"
    using sys_step.serving [of sample_first sy2 sample_env sample_tick ?raw True d1 se1 sv] r
    by (simp add: sy1_def sy2_def sy3_def)
  moreover have "sys_step sample_env sy3 sy"
    using sys_step.operating [of sample_env sy3 "sv_ct sample_sv"] ctl_step.gateways [of sample_control "sv_ct sv"]
    by (simp add: sy_def sy3_def changed sample_env_def)
  ultimately have reach: "(sys_step sample_env)\<^sup>*\<^sup>* (booted sample_start sample_fs) sy" by simp
  from sample_pushed obtain go delivered se' sv' p where
    "serveFrame sample_env sample_tick (sample_frame AppProtoPullDeviceList) sample_second (sy_server sy) = Some (go, delivered, se', sv')"
    "(sample_stream 2, p) \<in> set delivered" by (auto simp: sy_def)
  with that reach show ?thesis .
qed

section \<open>Properties\<close>

text \<open>
  C5: the server survives its devices. From the start, whatever sessions open, send and close and whatever the
  operators do, every frame of every session is answered or dropped and the session goes on or ends; the only frame
  that can stop the process is the proof of a device with a public key of a wrong length. In between, the
  networks are well formed and the session table is consistent.
\<close>

theorem server_survives:
  assumes "NewController t0 (Some c) src file rows = Inr (ce_cfg (en_control env), store, ct0)"
    and "(sys_step env)\<^sup>*\<^sup>* (booted ct0 fs) sy"
  shows "nc_ok (ct_nc (sv_ct (sy_server sy))) \<and> hub_ok (sv_hub (sy_server sy)) \<and>
    (\<forall>t raw se. \<not> panicking env raw \<longrightarrow> (\<exists>served. serveFrame env t raw se (sy_server sy) = Some served))"
proof -
  have ok: "sys_ok env ct0 fs sy" by (rule sys_reachable_ok [OF assms])
  have "\<exists>served. serveFrame env t raw se (sy_server sy) = Some served" if np: "\<not> panicking env raw" for t raw se
  proof (cases "dispatched env t raw se (sy_server sy)")
    case None
    then show ?thesis by (simp add: serveFrame_eq split_beta del: split_paired_Ex split: option.split)
  next
    case (Some d)
    obtain packet se1 sv1 where d: "d = (packet, se1, sv1)" by (cases d)
    have m: "moves env {} (sy_server sy) sv1" by (rule dispatched_ok(1) [OF Some [unfolded d]])
    have "(ctl_step (en_control env))\<^sup>*\<^sup>* ct0 (sv_ct sv1)" "(debug_step (en_debug env))\<^sup>*\<^sup>* (newDebugState fs) (sv_debug sv1)"
      using m ok unfolding moves_def sys_ok_def by (meson rtranclp_trans)+
    then have "nc_ok (ct_nc (sv_ct sv1))" "debug_ok (sv_debug sv1)" using reachable_ok [OF assms(1)] debug_reachable_ok by blast+
    note returns = serviceCase_returns [OF NewController_start(1) [OF assms(1)] this, of t packet _ se1]
    have "serviceCase env t packet deferred se1 sv1 \<noteq> None" for deferred
    proof
      assume "serviceCase env t packet deferred se1 sv1 = None"
      from returns [OF this] have "panicking env raw"
        using Some by (auto simp: d panicking_def dispatched_def split: option.splits prod.splits if_splits)
      with np show False ..
    qed
    then have "serveFrame env t raw se (sy_server sy) \<noteq> None" by (simp add: serveFrame_eq Some d del: not_None_eq)
    then show ?thesis by blast
  qed
  moreover have "nc_ok (ct_nc (sv_ct (sy_server sy)))" using ok reachable_ok [OF assms(1)] by (simp add: sys_ok_def)
  moreover have "hub_ok (sv_hub (sy_server sy))" using ok by (simp add: sys_ok_def)
  ultimately show ?thesis by blast
qed

theorem server_survives_witness:
  "(sys_step sample_env)\<^sup>*\<^sup>* (booted sample_start sample_fs) (booted sample_start sample_fs) \<and> \<not> panicking sample_env [1] \<and>
   (\<exists>served. serveFrame sample_env sample_tick [1] sample_first (sy_server (booted sample_start sample_fs)) = Some served)"
proof -
  have "\<not> panicking sample_env [1]" by (simp add: panicking_def sample_env_def sample_codec_def)
  with server_survives [OF sample_boot, of sample_fs "booted sample_start sample_fs"] show ?thesis by blast
qed

text \<open>
  C4: packets stay in their network. When serving a frame delivers a packet to another session, that session has
  registered before, under the address and the network key that the packet carries, and the registration was
  admitted: at that moment its device had a current record with the key it presented, and the network is that of
  the group and the user of the record.
\<close>

theorem pushes_reach_members:
  assumes "NewController t0 (Some c) src file rows = Inr (ce_cfg (en_control env), store, ct0)"
    and "(sys_step env)\<^sup>*\<^sup>* (booted ct0 fs) sy"
    and frame: "serveFrame env t raw se (sy_server sy) = Some (go, delivered, se', sv')"
    and other: "(s, p) \<in> set delivered" "s \<noteq> se_stream se"
  shows "\<exists>e \<in> set (sy_log sy). rg_stream e = s \<and> TrimSpace (rg_key e) = TrimSpace (pk_RouteNetworkKey p) \<and>
    rg_ip e = ipToUint32 (pk_DstIP p) \<and> admitted env e \<and> (ctl_step (en_control env))\<^sup>*\<^sup>* ct0 (rg_before e)"
proof -
  have ok: "sys_ok env ct0 fs sy" by (rule sys_reachable_ok [OF assms(1,2)])
  have "(s, route_of p) \<notin> routes_of (frameRegistrations env t raw se (sy_server sy))"
  proof
    assume "(s, route_of p) \<in> routes_of (frameRegistrations env t raw se (sy_server sy))"
    then obtain e where "e \<in> set (frameRegistrations env t raw se (sy_server sy))" "rg_stream e = s"
      by (auto simp: routes_of_def)
    then show False
      using frameRegistrations_ok [OF NewController_start(1) [OF assms(1)] reachable_ok [OF assms(1)]] ok other(2)
      unfolding sys_ok_def by blast
  qed
  then have "gget (sh_byRoute (sv_hub (sy_server sy))) (route_of p) = Some s"
    using serveFrame_ok [OF frame] ok other unfolding works_def routed_def sys_ok_def by fastforce
  with ok show ?thesis by (rule sys_ok_route)
qed

theorem pushes_reach_members_witness:
  "\<exists>sy (p :: Packet) e. (sys_step sample_env)\<^sup>*\<^sup>* (booted sample_start sample_fs) sy \<and> e \<in> set (sy_log sy) \<and>
     rg_stream e = sample_stream 2 \<and> TrimSpace (rg_key e) = TrimSpace (pk_RouteNetworkKey p) \<and>
     rg_ip e = ipToUint32 (pk_DstIP p) \<and> admitted sample_env e"
proof -
  obtain sy go delivered se' sv' p where reach: "(sys_step sample_env)\<^sup>*\<^sup>* (booted sample_start sample_fs) sy"
      and s: "serveFrame sample_env sample_tick (sample_frame AppProtoPullDeviceList) sample_second (sy_server sy) =
        Some (go, delivered, se', sv')" and p: "(sample_stream 2, p) \<in> set delivered"
    by (rule sample_system)
  have "sample_stream 2 \<noteq> se_stream sample_second" by (simp add: sample_second_def sample_stream_def)
  from pushes_reach_members [OF sample_boot reach s p this]
  obtain e where "e \<in> set (sy_log sy)" "rg_stream e = sample_stream 2" "TrimSpace (rg_key e) = TrimSpace (pk_RouteNetworkKey p)"
    "rg_ip e = ipToUint32 (pk_DstIP p)" "admitted sample_env e" by (elim bexE conjE)
  with reach show ?thesis by (intro exI conjI)
qed

end
