(* ===== verification/Admin.thy ===== *)
theory Admin
  imports Session Dns
begin

text \<open>
  The administrative interface: the requests of operators (\<^verbatim>\<open>handlers/admin_api.go\<close> and \<^verbatim>\<open>admin_types.go\<close>) and the
  HTTP handler in front of them (\<^verbatim>\<open>handlers/admin_http.go\<close>), over the server of \<open>Session\<close>. The list of updated
  devices is from \<^verbatim>\<open>handlers/admin_unix.go\<close>.

  The three debug actions wait for the answer of a device. They are split there: \<open>executeAdminRequest\<close> ends in the
  number of the request that is awaited, and \<open>awaited\<close> and \<open>finishCollect\<close>, \<open>finishWatchStart\<close>, \<open>finishWatchStop\<close>
  are the two halves of the wait. JSON is a parameter: the decoder of a request body, \<^verbatim>\<open>json.Valid\<close> and the wrapping
  of a snapshot that is not JSON.
\<close>

section \<open>Requests and responses\<close>

record adminRequest =
  ar_Action :: string
  ar_Name :: string
  ar_Domain :: string
  ar_GatewayID :: string
  ar_Endpoint :: string
  ar_Capabilities :: "string list"
  ar_Sections :: "string list"
  ar_UserID :: string
  ar_IDFilter :: string
  ar_NameFilter :: string
  ar_Group :: string
  ar_DeviceID :: string
  ar_All :: bool
  ar_TTLSeconds :: u64
  ar_TimeoutSec :: u64
  ar_DurationSec :: u64

record adminResponse =
  rs_OK :: bool
  rs_Version :: string
  rs_UserID :: string
  rs_SdlUserID :: string
  rs_Name :: string
  rs_Domain :: string
  rs_Group :: string
  rs_Domains :: "string list"
  rs_Ticket :: string
  rs_ExpireAtUnix :: int
  rs_Gateways :: "GatewayAdminView list"
  rs_ExitNodes :: "ExitNodeAdminView list"
  rs_Users :: "UMUserAdminView list"
  rs_Devices :: "DeviceAdminView list"
  rs_UpdatedDevices :: "DeviceAdminView list"
  rs_DNSSnapshot :: "DNSSnapshotView option"
  rs_DebugResult :: string
  rs_DebugPath :: string
  rs_DebugWatchID :: u64
  rs_UpdatedCount :: nat
  rs_Error :: string

definition zero_adminRequest :: adminRequest where
  "zero_adminRequest = \<lparr>ar_Action = [], ar_Name = [], ar_Domain = [], ar_GatewayID = [], ar_Endpoint = [],
     ar_Capabilities = [], ar_Sections = [], ar_UserID = [], ar_IDFilter = [], ar_NameFilter = [], ar_Group = [],
     ar_DeviceID = [], ar_All = False, ar_TTLSeconds = 0, ar_TimeoutSec = 0, ar_DurationSec = 0\<rparr>"

definition zero_adminResponse :: adminResponse where
  "zero_adminResponse = \<lparr>rs_OK = False, rs_Version = [], rs_UserID = [], rs_SdlUserID = [], rs_Name = [], rs_Domain = [],
     rs_Group = [], rs_Domains = [], rs_Ticket = [], rs_ExpireAtUnix = 0, rs_Gateways = [], rs_ExitNodes = [], rs_Users = [],
     rs_Devices = [], rs_UpdatedDevices = [], rs_DNSSnapshot = None, rs_DebugResult = [], rs_DebugPath = [],
     rs_DebugWatchID = 0, rs_UpdatedCount = 0, rs_Error = []\<rparr>"

definition okResponse :: adminResponse where "okResponse = zero_adminResponse\<lparr>rs_OK := True\<rparr>"

definition errorResponse :: "string \<Rightarrow> adminResponse" where
  "errorResponse err = zero_adminResponse\<lparr>rs_Error := err\<rparr>"

record admin_env =
  ae_server :: server_env
  ae_version :: string
  ae_profiles :: "WebUserProfile list result option"
  ae_ticket :: "bytes result"
  ae_collectRequest :: "DebugCollectRequest \<Rightarrow> bytes result"
  ae_startRequest :: "DebugWatchStartRequest \<Rightarrow> bytes result"
  ae_stopRequest :: "DebugWatchStopRequest \<Rightarrow> bytes result"
  ae_validJSON :: "string \<Rightarrow> bool"
  ae_wrapJSON :: "string \<Rightarrow> string result"

text \<open>A request is answered at once, or waits for the answer of a device.\<close>

datatype outcome = Answered adminResponse | AwaitCollect u64 | AwaitWatchStart u64 | AwaitWatchStop u64

type_synonym admin_result = "outcome \<times> (sessionStream \<times> Packet) list \<times> server"

definition answer :: "adminResponse \<Rightarrow> server \<Rightarrow> admin_result" where
  "answer resp sv = (Answered resp, [], sv)"

text \<open>\<^verbatim>\<open>time.Duration(seconds) * time.Second\<close> on 64 bits.\<close>

definition secondsDuration :: "u64 \<Rightarrow> int" where
  "secondsDuration seconds = sint (seconds * word_of_int Second)"

definition secondsOr :: "int \<Rightarrow> u64 \<Rightarrow> u64" where
  "secondsOr dflt seconds = (if sint seconds \<le> 0 then word_of_int dflt else seconds)"

section \<open>Views\<close>

definition selectUpdatedDeviceViews ::
    "gtime \<Rightarrow> UMAuthDevice list \<Rightarrow> DeviceAdminView list \<Rightarrow> DeviceAdminView list" where
  "selectUpdatedDeviceViews now updated devices =
     (let deviceByKey = fold (\<lambda>device. gput (nulKey (dv_Group device) (dv_DeviceID device)) device) devices []
      in map (\<lambda>record. case gget deviceByKey (nulKey (ad_GroupName record) (ad_DeviceID record)) of
                Some device \<Rightarrow> device
              | None \<Rightarrow>
                  \<lparr>dv_UserID = ad_UserID record, dv_Group = ad_GroupName record,
                   dv_Name = (if TrimSpace (ad_DisplayName record) = [] then ad_DeviceID record
                              else TrimSpace (ad_DisplayName record)),
                   dv_DeviceID = ad_DeviceID record, dv_VirtualIP = [], dv_ControlOnline = False,
                   dv_DataPlaneReachable = False, dv_AuthedAtUnix = Unix (ad_AuthedAt record),
                   dv_AuthExpireAtUnix = Unix (ad_AuthExpireAt record),
                   dv_AuthExpired = (\<not> IsZero_time (ad_AuthExpireAt record) \<and> now > ad_AuthExpireAt record),
                   dv_UpdatedAtUnix = Unix (ad_AuthedAt record)\<rparr>)
           updated)"

definition devicesOf :: "gtime \<Rightarrow> string \<Rightarrow> server \<Rightarrow> DeviceAdminView list" where
  "devicesOf now userID sv = ListDevices now (ct_um (sv_ct sv)) (ct_nc (sv_ct sv)) userID"

definition exitNodesOf :: "string \<Rightarrow> server \<Rightarrow> ExitNodeAdminView list" where
  "exitNodesOf userID sv = ListExitNodes (ct_exitNodeApproved (sv_ct sv)) (ct_um (sv_ct sv)) (ct_nc (sv_ct sv)) userID"

definition updatedResponse :: "gtime \<Rightarrow> string \<Rightarrow> UMAuthDevice list \<Rightarrow> server \<Rightarrow> adminResponse" where
  "updatedResponse now userID updated sv =
     (let devices = devicesOf now userID sv in
      okResponse\<lparr>rs_Devices := devices, rs_UpdatedDevices := selectUpdatedDeviceViews now updated devices,
                 rs_UpdatedCount := length updated\<rparr>)"

section \<open>Actions\<close>

text \<open>The packets that an action has caused; when they cannot be built the error is logged and nothing is sent.\<close>

definition pushBuilt ::
    "admin_env \<Rightarrow> Packet list result \<times> Controller \<Rightarrow> server \<Rightarrow> (sessionStream \<times> Packet) list \<times> server" where
  "pushBuilt env = (\<lambda>(packets, ct) sv. pushAll (ae_server env) (orNone packets) (sv\<lparr>sv_ct := ct\<rparr>))"

definition createUser :: "admin_env \<Rightarrow> gtime \<Rightarrow> adminRequest \<Rightarrow> server \<Rightarrow> admin_result" where
  "createUser env now req sv =
     (case UMCreateUserWithID (en_control (ae_server env)) now (TrimSpace (ar_UserID req)) (TrimSpace (ar_Group req))
             [TrimSpace (ar_Domain req)] (ct_um (sv_ct sv)) of
        (r, m) \<Rightarrow>
          answer (case r of
                    Inl err \<Rightarrow> errorResponse err
                  | Inr user \<Rightarrow> okResponse\<lparr>rs_UserID := uu_UserID user, rs_Name := uu_Name user, rs_Domain := uu_Domain user\<rparr>)
            (sv\<lparr>sv_ct := (sv_ct sv)\<lparr>ct_um := m\<rparr>\<rparr>))"

definition issueTicket :: "admin_env \<Rightarrow> gtime \<Rightarrow> adminRequest \<Rightarrow> server \<Rightarrow> admin_result" where
  "issueTicket env now req sv =
     (let grp = (if TrimSpace (ar_Group req) = [] then ''default.ms.net'' else TrimSpace (ar_Group req)) in
      case IssueDeviceTicket (ae_ticket env) now (ce_UMStore (en_control (ae_server env))) (TrimSpace (ar_UserID req)) grp
             (secondsDuration (secondsOr 300 (ar_TTLSeconds req))) (ct_um (sv_ct sv)) of
        (r, m) \<Rightarrow>
          answer (case r of
                    Inl err \<Rightarrow> errorResponse err
                  | Inr t \<Rightarrow> okResponse\<lparr>rs_Ticket := dt_Ticket t, rs_ExpireAtUnix := Unix (dt_ExpireAt t)\<rparr>)
            (sv\<lparr>sv_ct := (sv_ct sv)\<lparr>ct_um := m\<rparr>\<rparr>))"

text \<open>Enlisting and delisting a gateway: \<open>change\<close> is the operation on the gateways.\<close>

definition changeGateway ::
    "(gateway_env \<Rightarrow> string \<Rightarrow> GatewayState \<Rightarrow> unit result \<times> GatewayState) \<Rightarrow> admin_env \<Rightarrow> gtime \<Rightarrow> adminRequest \<Rightarrow> server
     \<Rightarrow> admin_result" where
  "changeGateway change env now req sv =
     (let gatewayID = TrimSpace (ar_GatewayID req); cenv = en_control (ae_server env) in
      if gatewayID = [] then answer (errorResponse ''gateway_id required'') sv
      else case change (gatewayEnv cenv) gatewayID (ct_gateways (sv_ct sv)) of
        (Inl err, gs) \<Rightarrow> answer (errorResponse err) (sv\<lparr>sv_ct := (sv_ct sv)\<lparr>ct_gateways := gs\<rparr>\<rparr>)
      | (Inr _, gs) \<Rightarrow>
          (case pushBuilt env
                  (BuildPushDeviceListPacketsForGatewayChangeIfNeeded cenv (cd_deviceList (en_codec (ae_server env))) now
                     ((sv_ct sv)\<lparr>ct_gateways := gs\<rparr>)) sv of
             (delivered, sv1) \<Rightarrow> (Answered okResponse, delivered, sv1)))"

definition approveExit :: "admin_env \<Rightarrow> gtime \<Rightarrow> adminRequest \<Rightarrow> server \<Rightarrow> admin_result" where
  "approveExit env now req sv =
     (let cenv = en_control (ae_server env) in
      case ApproveExitNodeTarget (ce_ExitStore cenv) (ct_um (sv_ct sv)) (TrimSpace (ar_UserID req))
             (TrimSpace (ar_DeviceID req)) (TrimSpace (ar_Name req)) (ct_exitNodeApproved (sv_ct sv)) of
        (Inl err, approved) \<Rightarrow> answer (errorResponse err) (sv\<lparr>sv_ct := (sv_ct sv)\<lparr>ct_exitNodeApproved := approved\<rparr>\<rparr>)
      | (Inr (userID, deviceID), approved) \<Rightarrow>
          (case pushBuilt env
                  (BuildPushDeviceListPacketsForAuthedDeviceChange cenv (cd_deviceList (en_codec (ae_server env))) now userID
                     deviceID ((sv_ct sv)\<lparr>ct_exitNodeApproved := approved\<rparr>)) sv of
             (delivered, sv1) \<Rightarrow> (Answered (okResponse\<lparr>rs_ExitNodes := exitNodesOf userID sv1\<rparr>), delivered, sv1)))"

definition revokeExit :: "admin_env \<Rightarrow> gtime \<Rightarrow> adminRequest \<Rightarrow> server \<Rightarrow> admin_result" where
  "revokeExit env now req sv =
     (let cenv = en_control (ae_server env); userID = TrimSpace (ar_UserID req); deviceID = TrimSpace (ar_DeviceID req) in
      case RevokeExitNode (ce_ExitStore cenv) userID deviceID (ct_exitNodeApproved (sv_ct sv)) of
        (Inl err, approved) \<Rightarrow> answer (errorResponse err) (sv\<lparr>sv_ct := (sv_ct sv)\<lparr>ct_exitNodeApproved := approved\<rparr>\<rparr>)
      | (Inr _, approved) \<Rightarrow>
          (case pushBuilt env
                  (BuildPushDeviceListPacketsForAuthedDeviceChange cenv (cd_deviceList (en_codec (ae_server env))) now userID
                     deviceID ((sv_ct sv)\<lparr>ct_exitNodeApproved := approved\<rparr>)) sv of
             (delivered, sv1) \<Rightarrow> (Answered (okResponse\<lparr>rs_ExitNodes := exitNodesOf userID sv1\<rparr>), delivered, sv1)))"

definition listDevices :: "gtime \<Rightarrow> adminRequest \<Rightarrow> server \<Rightarrow> admin_result" where
  "listDevices now req sv =
     (let userID = TrimSpace (ar_UserID req) in
      if userID = [] then answer (errorResponse ''user_id required'') sv
      else answer (okResponse\<lparr>rs_Devices := devicesOf now userID sv\<rparr>) sv)"

definition extendDevices :: "admin_env \<Rightarrow> gtime \<Rightarrow> adminRequest \<Rightarrow> server \<Rightarrow> admin_result" where
  "extendDevices env now req sv =
     (let userID = TrimSpace (ar_UserID req) in
      if userID = [] then answer (errorResponse ''user_id required'') sv
      else case ExtendAuthedDeviceExpiry now (ce_UMStore (en_control (ae_server env))) userID (TrimSpace (ar_Group req))
                  (TrimSpace (ar_DeviceID req)) (secondsDuration (secondsOr (30 * 24 * 3600) (ar_TTLSeconds req))) (ar_All req)
                  (ct_um (sv_ct sv)) of
        (r, m) \<Rightarrow>
          (let sv1 = sv\<lparr>sv_ct := (sv_ct sv)\<lparr>ct_um := m\<rparr>\<rparr> in
           answer (case r of Inl err \<Rightarrow> errorResponse err | Inr updated \<Rightarrow> updatedResponse now userID updated sv1) sv1))"

text \<open>After a device was deleted or renamed all online clients get a new list.\<close>

definition changedDevices ::
    "admin_env \<Rightarrow> gtime \<Rightarrow> string \<Rightarrow> UMAuthDevice list result \<times> Controller \<Rightarrow> server \<Rightarrow> admin_result" where
  "changedDevices env now userID = (\<lambda>(r, ct) sv.
     case r of
       Inl err \<Rightarrow> answer (errorResponse err) (sv\<lparr>sv_ct := ct\<rparr>)
     | Inr changed \<Rightarrow>
         (case pushBuilt env (BuildPushDeviceListPacketsForGatewayChange (en_control (ae_server env))
                                (cd_deviceList (en_codec (ae_server env))) now ct) sv of
            (delivered, sv1) \<Rightarrow> (Answered (updatedResponse now userID changed sv1), delivered, sv1)))"

definition deleteDevice :: "admin_env \<Rightarrow> gtime \<Rightarrow> adminRequest \<Rightarrow> server \<Rightarrow> admin_result" where
  "deleteDevice env now req sv =
     (let userID = TrimSpace (ar_UserID req) in
      if userID = [] then answer (errorResponse ''user_id required'') sv
      else changedDevices env now userID
             (ctl_DeleteAuthedDevice (en_control (ae_server env)) userID (TrimSpace (ar_Group req))
                (TrimSpace (ar_DeviceID req)) (sv_ct sv)) sv)"

definition renameDevice :: "admin_env \<Rightarrow> gtime \<Rightarrow> adminRequest \<Rightarrow> server \<Rightarrow> admin_result" where
  "renameDevice env now req sv =
     (let userID = TrimSpace (ar_UserID req) in
      if userID = [] then answer (errorResponse ''user_id required'') sv
      else case ctl_RenameAuthedDevice (en_control (ae_server env)) userID (TrimSpace (ar_Group req))
                  (TrimSpace (ar_DeviceID req)) (TrimSpace (ar_Name req)) (sv_ct sv) of
        (r, ct) \<Rightarrow> changedDevices env now userID (map_sum id (\<lambda>renamed. [renamed]) r, ct) sv)"

definition dnsSnapshot :: "admin_env \<Rightarrow> gtime \<Rightarrow> adminRequest \<Rightarrow> server \<Rightarrow> adminResponse" where
  "dnsSnapshot env now req sv =
     (let cenv = en_control (ae_server env) in
      case BuildDNSSnapshot (ce_sha256 cenv) (gatewayEnv cenv) now (ce_cfg cenv) (ct_nc (sv_ct sv)) (ct_gateways (sv_ct sv))
             (TrimSpace (ar_Domain req)) (TrimSpace (ar_Group req)) of
        Inl err \<Rightarrow> errorResponse err | Inr snapshot \<Rightarrow> okResponse\<lparr>rs_DNSSnapshot := Some snapshot\<rparr>)"

text \<open>
  A request to a device: the packet is written to its route; when that fails the request is cancelled, otherwise
  the caller waits.
\<close>

definition askDevice ::
    "admin_env \<Rightarrow> (u64 \<Rightarrow> debugState \<Rightarrow> debugState) \<Rightarrow> (u64 \<Rightarrow> outcome) \<Rightarrow> (Packet \<times> u32 \<times> u64) result \<times> debugState \<Rightarrow> server
     \<Rightarrow> admin_result" where
  "askDevice env cancel waiting = (\<lambda>(r, dg) sv.
     case r of
       Inl err \<Rightarrow> answer (errorResponse err) (sv\<lparr>sv_debug := dg\<rparr>)
     | Inr (packet, targetIP, requestID) \<Rightarrow>
         (case writeToRoute (en_transport (ae_server env)) (pk_RouteNetworkKey packet) targetIP (Marshal packet) (sv_hub sv) of
            (w, h) \<Rightarrow>
              (case wr_error w of
                 Some err \<Rightarrow> answer (errorResponse err) (sv\<lparr>sv_hub := h, sv_debug := cancel requestID dg\<rparr>)
               | None \<Rightarrow> (waiting requestID, (case wr_delivered w of None \<Rightarrow> [] | Some (s, _) \<Rightarrow> [(s, packet)]),
                          sv\<lparr>sv_hub := h, sv_debug := dg\<rparr>))))"

definition collectDebug :: "admin_env \<Rightarrow> adminRequest \<Rightarrow> server \<Rightarrow> admin_result" where
  "collectDebug env req sv =
     askDevice env CancelDebugCollect AwaitCollect
       (PrepareDebugCollectByName (en_debug (ae_server env)) (ae_collectRequest env) (TrimSpace (ar_Name req))
          (TrimSpace (ar_UserID req)) (TrimSpace (ar_Group req)) (ar_Sections req) (sv_ct sv) (sv_debug sv)) sv"

definition startDebugWatch :: "admin_env \<Rightarrow> adminRequest \<Rightarrow> server \<Rightarrow> admin_result" where
  "startDebugWatch env req sv =
     askDevice env cancelDebugWatchStart AwaitWatchStart
       (PrepareDebugWatchStartByName (en_debug (ae_server env)) (ae_startRequest env) (TrimSpace (ar_Name req))
          (TrimSpace (ar_UserID req)) (TrimSpace (ar_Group req)) (ar_Sections req)
          (secondsDuration (secondsOr 300 (ar_DurationSec req))) (sv_ct sv) (sv_debug sv)) sv"

definition stopDebugWatch :: "admin_env \<Rightarrow> adminRequest \<Rightarrow> server \<Rightarrow> admin_result" where
  "stopDebugWatch env req sv =
     askDevice env cancelDebugWatchStop AwaitWatchStop
       (PrepareDebugWatchStopByName (en_debug (ae_server env)) (ae_stopRequest env) (TrimSpace (ar_Name req))
          (TrimSpace (ar_UserID req)) (TrimSpace (ar_Group req)) (sv_ct sv) (sv_debug sv)) sv"

section \<open>The dispatch\<close>

definition executeAdminRequest :: "admin_env \<Rightarrow> gtime \<Rightarrow> adminRequest \<Rightarrow> server \<Rightarrow> admin_result" where
  "executeAdminRequest env now req sv =
     (let action = ar_Action req in
      if action = ''version'' then answer (okResponse\<lparr>rs_Version := TrimSpace (ae_version env)\<rparr>) sv
      else if action = ''create_user'' then createUser env now req sv
      else if action = ''list_users''
      then answer (case UMListUsers (ae_profiles env) (TrimSpace (ar_IDFilter req)) (TrimSpace (ar_NameFilter req))
                          (ct_um (sv_ct sv)) of
                     Inl err \<Rightarrow> errorResponse err | Inr users \<Rightarrow> okResponse\<lparr>rs_Users := users\<rparr>) sv
      else if action = ''issue_device_ticket'' \<or> action = ''issue_auth_ticket'' then issueTicket env now req sv
      else if action = ''register_gateway'' \<or> action = ''gateway_enlist''
      then changeGateway ApproveGatewayNodeByID env now req sv
      else if action = ''delist_gateway'' \<or> action = ''gateway_delist''
      then changeGateway DelistGatewayNodeByID env now req sv
      else if action = ''list_gateway'' \<or> action = ''gateway_list''
      then answer (okResponse\<lparr>rs_Gateways := ListGateways (gatewayEnv (en_control (ae_server env))) now
                                (ct_gateways (sv_ct sv))\<rparr>) sv
      else if action = ''exit_node_list''
      then answer (okResponse\<lparr>rs_ExitNodes := exitNodesOf (TrimSpace (ar_UserID req)) sv\<rparr>) sv
      else if action = ''exit_node_approve'' then approveExit env now req sv
      else if action = ''exit_node_revoke'' then revokeExit env now req sv
      else if action = ''list_device'' \<or> action = ''list_devices'' then listDevices now req sv
      else if action = ''extend_device_expiry'' then extendDevices env now req sv
      else if action = ''delete_device'' then deleteDevice env now req sv
      else if action = ''rename_device'' then renameDevice env now req sv
      else if action = ''dns_domains''
      then answer (okResponse\<lparr>rs_Domains := ListDNSDomains (ce_cfg (en_control (ae_server env)))\<rparr>) sv
      else if action = ''dns_snapshot'' then answer (dnsSnapshot env now req sv) sv
      else if action = ''collect_debug'' then collectDebug env req sv
      else if action = ''start_debug_watch'' then startDebugWatch env req sv
      else if action = ''stop_debug_watch'' then stopDebugWatch env req sv
      else answer (errorResponse ''unsupported action'') sv)"

text \<open>
  The waits. First the waiter of the request is looked up; then the timer fires or an answer is received.
\<close>

definition awaited :: "outcome \<Rightarrow> server \<Rightarrow> nat result" where
  "awaited waiting sv =
     (case waiting of
        AwaitCollect requestID \<Rightarrow> lookupDebugCollect requestID (sv_debug sv)
      | AwaitWatchStart requestID \<Rightarrow> lookupDebugWatchStart requestID (sv_debug sv)
      | AwaitWatchStop requestID \<Rightarrow> lookupDebugWatchStop requestID (sv_debug sv)
      | Answered resp \<Rightarrow> Inl [])"

definition collectResponse :: "admin_env \<Rightarrow> DebugCollectResult \<Rightarrow> adminResponse" where
  "collectResponse env result =
     (if ae_validJSON env (cr_SnapshotJSON result)
      then okResponse\<lparr>rs_DebugResult := cr_SnapshotJSON result, rs_DebugPath := cr_SavedPath result\<rparr>
      else case ae_wrapJSON env (cr_SnapshotJSON result) of
             Inl err \<Rightarrow> errorResponse err
           | Inr raw \<Rightarrow> okResponse\<lparr>rs_DebugResult := raw, rs_DebugPath := cr_SavedPath result\<rparr>)"

definition finishCollect :: "admin_env \<Rightarrow> bool \<Rightarrow> u64 \<Rightarrow> nat \<Rightarrow> server \<Rightarrow> (adminResponse \<times> server) option" where
  "finishCollect env fired requestID waiter sv =
     map_option (\<lambda>(r, dg). (case r of Inl err \<Rightarrow> errorResponse err | Inr result \<Rightarrow> collectResponse env result,
                             sv\<lparr>sv_debug := dg\<rparr>))
       (selectDebugCollect fired requestID waiter (sv_debug sv))"

definition finishWatchStart :: "bool \<Rightarrow> u64 \<Rightarrow> nat \<Rightarrow> server \<Rightarrow> (adminResponse \<times> server) option" where
  "finishWatchStart fired requestID waiter sv =
     map_option (\<lambda>(r, dg). (case r of
                               Inl err \<Rightarrow> errorResponse err
                             | Inr result \<Rightarrow> okResponse\<lparr>rs_DebugWatchID := sr_WatchID result, rs_DebugPath := sr_SavedPath result\<rparr>,
                             sv\<lparr>sv_debug := dg\<rparr>))
       (selectDebugWatchStart fired requestID waiter (sv_debug sv))"

definition finishWatchStop :: "bool \<Rightarrow> u64 \<Rightarrow> nat \<Rightarrow> server \<Rightarrow> (adminResponse \<times> server) option" where
  "finishWatchStop fired requestID waiter sv =
     map_option (\<lambda>(r, dg). (case r of
                               Inl err \<Rightarrow> errorResponse err
                             | Inr result \<Rightarrow> okResponse\<lparr>rs_DebugWatchID := tr_WatchID result, rs_DebugPath := tr_SavedPath result\<rparr>,
                             sv\<lparr>sv_debug := dg\<rparr>))
       (selectDebugWatchStop fired requestID waiter (sv_debug sv))"

section \<open>HTTP\<close>

text \<open>
  What the handler reads of a request. \<open>hr_query\<close> is \<^verbatim>\<open>r.URL.Query().Get\<close>; \<open>hr_decode\<close> is the JSON decoder of the
  body, which changes the fields of the request that are present.
\<close>

record http_request =
  hr_Method :: string
  hr_Path :: string
  hr_Authorization :: string
  hr_query :: "string \<Rightarrow> string"
  hr_ContentLength :: int
  hr_decode :: "adminRequest \<Rightarrow> adminRequest result"

definition adminReadActions :: "string list" where
  "adminReadActions = [''gateway_list'', ''list_gateway'', ''exit_node_list'', ''list_device'', ''list_devices'',
     ''list_users'', ''dns_domains'', ''dns_snapshot'', ''version'']"

definition actionOf :: "http_request \<Rightarrow> string" where
  "actionOf r = TrimCutset ''/'' (TrimPrefix (hr_Path r) ''/admin/v1/'')"

definition adminRequestFromHTTP :: "http_request \<Rightarrow> adminRequest result" where
  "adminRequestFromHTTP r =
     (let action = actionOf r; req = zero_adminRequest\<lparr>ar_Action := action\<rparr>; q = hr_query r in
      if hr_Method r = ''GET''
      then Inr (req\<lparr>ar_UserID := q ''user_id'', ar_IDFilter := q ''id'', ar_NameFilter := q ''name'', ar_Group := q ''group'',
                    ar_DeviceID := q ''device_id'', ar_Domain := q ''domain'', ar_Name := q ''name''\<rparr>)
      else if hr_ContentLength r = 0 then Inr req
      else case hr_decode r req of
        Inl err \<Rightarrow> Inl err
      | Inr decoded \<Rightarrow> Inr (if TrimSpace (ar_Action decoded) = [] then decoded\<lparr>ar_Action := action\<rparr> else decoded))"

text \<open>The status with the outcome; 401, 400 and 405 are answered without touching the server.\<close>

definition adminHTTPHandler ::
    "admin_env \<Rightarrow> gtime \<Rightarrow> http_request \<Rightarrow> server \<Rightarrow> nat \<times> admin_result" where
  "adminHTTPHandler env now r sv =
     (if hr_Method r \<noteq> ''POST'' \<and> hr_Method r \<noteq> ''GET'' then (405, answer (errorResponse ''method not allowed'') sv)
      else if hr_Method r \<noteq> ''POST'' \<and> actionOf r \<notin> set adminReadActions
      then (405, answer (errorResponse ''this action requires POST'') sv)
      else case adminRequestFromHTTP r of
        Inl err \<Rightarrow> (400, answer (errorResponse err) sv)
      | Inr req \<Rightarrow> (200, executeAdminRequest env now req sv))"

definition adminHTTPAuth ::
    "string \<Rightarrow> (http_request \<Rightarrow> server \<Rightarrow> nat \<times> admin_result) \<Rightarrow> http_request \<Rightarrow> server \<Rightarrow> nat \<times> admin_result" where
  "adminHTTPAuth token handle r sv =
     (if TrimSpace (hr_Authorization r) \<noteq> ''Bearer '' @ TrimSpace token
      then (401, answer (errorResponse ''unauthorized'') sv)
      else handle r sv)"

definition serveAdminHTTP ::
    "admin_env \<Rightarrow> string \<Rightarrow> gtime \<Rightarrow> http_request \<Rightarrow> server \<Rightarrow> nat \<times> admin_result" where
  "serveAdminHTTP env token now = adminHTTPAuth token (adminHTTPHandler env now)"

section \<open>The local socket\<close>

text \<open>A connection of the socket carries one line; \<open>parse\<close> is \<^verbatim>\<open>json.Unmarshal\<close> of it.\<close>

definition handleAdminConn ::
    "admin_env \<Rightarrow> (string \<Rightarrow> adminRequest result) \<Rightarrow> gtime \<Rightarrow> string result \<Rightarrow> server \<Rightarrow> admin_result" where
  "handleAdminConn env parse now line sv =
     (case line of
        Inl err \<Rightarrow> answer (errorResponse ''invalid request'') sv
      | Inr text \<Rightarrow>
          if text = [] then answer (errorResponse ''invalid request'') sv
          else case parse text of
                 Inl err \<Rightarrow> answer (errorResponse ''invalid json'') sv
               | Inr req \<Rightarrow> executeAdminRequest env now req sv)"

end
