(* ===== verification/Admin_Facts.thy ===== *)
theory Admin_Facts
  imports Admin Server_Facts
begin

text \<open>
  Facts about the administrative interface: every request is a sequence of steps of the running server, its packets
  follow the routes, and the HTTP handler lets only authorised requests through, of which only POST changes anything.
\<close>

section \<open>Requests are steps of the server\<close>

lemma ipToUint32_eq: "ipToUint32 ip = IpToUint32 ip"
proof (cases "To4 ip")
  case (Some v4)
  then have "length v4 = 4" by (auto simp: To4_def split: if_splits)
  then obtain a b c d where "v4 = [a, b, c, d]" by (auto simp: numeral_eq_Suc length_Suc_conv)
  then show ?thesis using Some by (simp add: ipToUint32_def IpToUint32_def)
qed (simp add: ipToUint32_def IpToUint32_def)

text \<open>The server gets from one state to the other by its steps, and the deliveries follow the routes.\<close>

definition serves :: "server_env \<Rightarrow> server \<Rightarrow> (sessionStream \<times> Packet) list \<Rightarrow> server \<Rightarrow> bool" where
  "serves env a delivered b \<longleftrightarrow>
     (\<forall>sy. sy_server sy = a \<longrightarrow> (sys_step env)\<^sup>*\<^sup>* sy (sy\<lparr>sy_server := b\<rparr>)) \<and> works env None {} a delivered b"

lemma serves_refl: "serves env a [] a"
  by (auto simp: serves_def intro: works_moves moves_refl)

lemma serves_trans:
  assumes ab: "serves env a d b" and bc: "serves env b e c"
  shows "serves env a (d @ e) c"
proof -
  have "(sys_step env)\<^sup>*\<^sup>* sy (sy\<lparr>sy_server := c\<rparr>)" if "sy_server sy = a" for sy
  proof -
    have "(sys_step env)\<^sup>*\<^sup>* sy (sy\<lparr>sy_server := b\<rparr>)" using ab that by (simp add: serves_def)
    also have "(sys_step env)\<^sup>*\<^sup>* (sy\<lparr>sy_server := b\<rparr>) (sy\<lparr>sy_server := b\<rparr>\<lparr>sy_server := c\<rparr>)"
      using bc unfolding serves_def by (metis system.select_convs(1) system.surjective system.update_convs(1))
    finally show ?thesis by simp
  qed
  then show ?thesis using ab bc works_trans unfolding serves_def by blast
qed

lemma serves_after: "serves env a [] b \<Longrightarrow> serves env b d c \<Longrightarrow> serves env a d c"
  using serves_trans by fastforce

lemma serves_ctl:
  assumes "ctl_step (en_control env) (sv_ct a) ct"
  shows "serves env a [] (a\<lparr>sv_ct := ct\<rparr>)"
  using sys_step.operating [of env _ ct] assms works_moves [OF moves_step [OF assms]]
  unfolding serves_def by (metis r_into_rtranclp)

lemma serves_debug:
  assumes "debug_step (en_debug env) (sv_debug a) dg"
  shows "serves env a [] (a\<lparr>sv_debug := dg\<rparr>)"
proof -
  have "moves env {} a (a\<lparr>sv_debug := dg\<rparr>)" using assms by (simp add: moves_def)
  then show ?thesis
    using sys_step.debugging [of env _ dg] assms works_moves unfolding serves_def by (metis r_into_rtranclp)
qed

lemma serves_push: "pushAll env packets a = (delivered, b) \<Longrightarrow> serves env a delivered b"
  using sys_step.pushing [of env packets] works_pushAll unfolding serves_def by (metis r_into_rtranclp)

lemma serves_pushBuilt:
  assumes "pushBuilt env (packets, ct) a = (delivered, b)" and "serves (ae_server env) a [] (a\<lparr>sv_ct := ct\<rparr>)"
  shows "serves (ae_server env) a delivered b"
  using assms serves_after serves_push by (simp add: pushBuilt_def)

definition request_ok :: "admin_env \<Rightarrow> server \<Rightarrow> admin_result \<Rightarrow> bool" where
  "request_ok env sv = (\<lambda>(out, delivered, sv'). serves (ae_server env) sv delivered sv')"

lemma request_ok_answer: "serves (ae_server env) sv [] sv' \<Longrightarrow> request_ok env sv (answer resp sv')"
  by (simp add: request_ok_def answer_def)

lemma request_ok_read: "request_ok env sv (answer resp sv)"
  by (rule request_ok_answer) (rule serves_refl)

lemma serves_users: "serves env sv [] (sv\<lparr>sv_ct := (sv_ct sv)\<lparr>ct_um := m\<rparr>\<rparr>)"
  by (rule serves_ctl) (rule ctl_step.users)

lemma serves_gateways: "serves env sv [] (sv\<lparr>sv_ct := (sv_ct sv)\<lparr>ct_gateways := gs\<rparr>\<rparr>)"
  by (rule serves_ctl) (rule ctl_step.gateways)

lemma serves_exits: "serves env sv [] (sv\<lparr>sv_ct := (sv_ct sv)\<lparr>ct_exitNodeApproved := approved\<rparr>\<rparr>)"
  by (rule serves_ctl) (rule ctl_step.exits)

text \<open>The packets of an action change only the gateways of the state that the action has left.\<close>

lemma serves_built:
  assumes "serves (ae_server env) sv [] (sv\<lparr>sv_ct := ct\<rparr>)" and "\<exists>gs. snd built = ct\<lparr>ct_gateways := gs\<rparr>"
    and "pushBuilt env built sv = (delivered, sv')"
  shows "serves (ae_server env) sv delivered sv'"
proof -
  obtain packets ct1 where b: "built = (packets, ct1)" by (cases built)
  obtain gs where "ct1 = ct\<lparr>ct_gateways := gs\<rparr>" using assms(2) b by auto
  then have "serves (ae_server env) (sv\<lparr>sv_ct := ct\<rparr>) [] (sv\<lparr>sv_ct := ct1\<rparr>)"
    using serves_gateways [of "ae_server env" "sv\<lparr>sv_ct := ct\<rparr>" gs] by simp
  then show ?thesis using serves_pushBuilt [of env packets ct1 sv delivered sv'] serves_after [OF assms(1)] assms(3) b by simp
qed


lemma deviceChange_only:
  "\<exists>gs. snd (BuildPushDeviceListPacketsForAuthedDeviceChange cenv m now u d ct) = ct\<lparr>ct_gateways := gs\<rparr>"
proof -
  have "\<exists>gs. ct = ct\<lparr>ct_gateways := gs\<rparr>" by (rule exI [of _ "ct_gateways ct"]) simp
  then show ?thesis
    using grants_only(1) by (simp add: BuildPushDeviceListPacketsForAuthedDeviceChange_def Let_def
        BuildPushDeviceListPacketsForPeerChange_def)
qed

lemma changeGateway_ok: "request_ok env sv (changeGateway change env now req sv)"
proof (cases "TrimSpace (ar_GatewayID req) = []")
  case True
  then show ?thesis by (simp add: changeGateway_def request_ok_read)
next
  case False
  obtain r gs where c: "change (gatewayEnv (en_control (ae_server env))) (TrimSpace (ar_GatewayID req)) (ct_gateways (sv_ct sv)) = (r, gs)"
    by (metis surj_pair)
  note built = serves_built [OF serves_gateways gatewayChange_only]
  show ?thesis
  proof (cases r)
    case (Inl err)
    then show ?thesis using False c by (simp add: changeGateway_def request_ok_answer serves_gateways)
  next
    case (Inr u)
    then show ?thesis using False c built by (simp add: changeGateway_def request_ok_def split: prod.split)
  qed
qed

lemma exits_ok:
  "request_ok env sv (approveExit env now req sv)" "request_ok env sv (revokeExit env now req sv)"
  using serves_built [OF serves_exits deviceChange_only]
  by (simp_all add: approveExit_def revokeExit_def Let_def request_ok_answer serves_exits request_ok_def answer_def
      split: prod.split sum.split)

lemma changedDevices_ok:
  assumes "serves (ae_server env) sv [] (sv\<lparr>sv_ct := ct\<rparr>)"
  shows "request_ok env sv (changedDevices env now userID (r, ct) sv)"
  using assms serves_built [OF assms grants_only(2)]
  by (simp add: changedDevices_def request_ok_def answer_def split: prod.split sum.split)

lemma deleteDevice_ok: "request_ok env sv (deleteDevice env now req sv)"
proof (cases "TrimSpace (ar_UserID req) = []")
  case False
  obtain r ct where d: "ctl_DeleteAuthedDevice (en_control (ae_server env)) (TrimSpace (ar_UserID req)) (TrimSpace (ar_Group req))
      (TrimSpace (ar_DeviceID req)) (sv_ct sv) = (r, ct)" by (metis surj_pair)
  then show ?thesis
    using False changedDevices_ok [OF serves_ctl [OF ctl_step.deleting [OF d]]] by (simp add: deleteDevice_def)
qed (simp add: deleteDevice_def request_ok_read)

lemma renameDevice_ok: "request_ok env sv (renameDevice env now req sv)"
proof (cases "TrimSpace (ar_UserID req) = []")
  case False
  obtain r ct where d: "ctl_RenameAuthedDevice (en_control (ae_server env)) (TrimSpace (ar_UserID req)) (TrimSpace (ar_Group req))
      (TrimSpace (ar_DeviceID req)) (TrimSpace (ar_Name req)) (sv_ct sv) = (r, ct)" by (metis surj_pair)
  then show ?thesis
    using False changedDevices_ok [OF serves_ctl [OF ctl_step.administering [OF d]]] by (simp add: renameDevice_def)
qed (simp add: renameDevice_def request_ok_read)

text \<open>A packet that is written to its own route is a push of that one packet.\<close>

lemma serves_write:
  assumes "writeToRoute (en_transport env) (pk_RouteNetworkKey packet) ip (Marshal packet) (sv_hub sv) = (w, h)"
    and "pk_DstIP packet \<noteq> []" and "ipToUint32 (pk_DstIP packet) = ip"
  shows "serves env sv (case wr_delivered w of None \<Rightarrow> [] | Some (s, _) \<Rightarrow> [(s, packet)]) (sv\<lparr>sv_hub := h\<rparr>)"
  by (rule serves_push [of _ "[packet]"]) (use assms in \<open>simp add: pushAll_def\<close>)

lemma undelivered: "writeToRoute transport n v payload h = (w, h') \<Longrightarrow> wr_error w = Some err \<Longrightarrow> wr_delivered w = None"
  by (auto simp: writeToRoute_def writeToIP_def writeToSession_def split: option.splits if_splits)

lemma askDevice_ok:
  assumes prep: "debug_step (en_debug (ae_server env)) (sv_debug sv) dg"
    and cancel: "\<And>r dg. debug_step (en_debug (ae_server env)) dg (cancel r dg)"
    and packet: "\<And>packet ip requestID. r = Inr (packet, ip, requestID) \<Longrightarrow>
      pk_DstIP packet \<noteq> [] \<and> ipToUint32 (pk_DstIP packet) = ip"
  shows "request_ok env sv (askDevice env cancel waiting (r, dg) sv)"
proof (cases r)
  case (Inl err)
  then show ?thesis using serves_debug [OF prep] by (simp add: askDevice_def request_ok_answer)
next
  case (Inr x)
  obtain p ip requestID where x: "x = (p, ip, requestID)" by (cases x)
  obtain w h where w: "writeToRoute (en_transport (ae_server env)) (pk_RouteNetworkKey p) ip (Marshal p) (sv_hub sv) = (w, h)"
    by (metis surj_pair)
  note p = packet [OF Inr [unfolded x]]
  let ?d = "case wr_delivered w of None \<Rightarrow> [] | Some (s, _) \<Rightarrow> [(s, p)]"
  have "serves (ae_server env) sv ?d (sv\<lparr>sv_debug := dg, sv_hub := h\<rparr>)"
    using serves_after [OF serves_debug [OF prep] serves_write] w p by simp
  moreover have "sv\<lparr>sv_debug := dg, sv_hub := h\<rparr> = sv\<lparr>sv_hub := h, sv_debug := dg\<rparr>" by simp
  ultimately have s: "serves (ae_server env) sv ?d (sv\<lparr>sv_hub := h, sv_debug := dg\<rparr>)" by simp
  show ?thesis
  proof (cases "wr_error w")
    case None
    then show ?thesis using s w Inr x by (simp add: askDevice_def request_ok_def)
  next
    case (Some err)
    then have "?d = []" using undelivered [OF w] by simp
    then have "serves (ae_server env) sv [] (sv\<lparr>sv_hub := h, sv_debug := dg\<rparr>)" using s by simp
    from serves_after [OF this serves_debug [OF cancel]]
    show ?thesis using Some w Inr x by (simp add: askDevice_def request_ok_answer)
  qed
qed

lemma debugPacket_route:
  "pk_DstIP (debugPacket app ip payload key) \<noteq> [] \<and> ipToUint32 (pk_DstIP (debugPacket app ip payload key)) = ip"
  by (simp add: debugPacket_def servicePacket_def ipToUint32_eq) (simp add: Uint32ToIP_def be32_def)

lemma prepared_route:
  "fst (PrepareDebugCollectByName denv m name user grp sections ct dg) = Inr (p, ip, r) \<Longrightarrow>
     pk_DstIP p \<noteq> [] \<and> ipToUint32 (pk_DstIP p) = ip"
  "fst (PrepareDebugWatchStartByName denv ms name user grp sections duration ct dg) = Inr (p, ip, r) \<Longrightarrow>
     pk_DstIP p \<noteq> [] \<and> ipToUint32 (pk_DstIP p) = ip"
  "fst (PrepareDebugWatchStopByName denv mt name user grp ct dg) = Inr (p, ip, r) \<Longrightarrow>
     pk_DstIP p \<noteq> [] \<and> ipToUint32 (pk_DstIP p) = ip"
  using debugPacket_route
  by (auto simp: PrepareDebugCollectByName_def PrepareDebugWatchStartByName_def PrepareDebugWatchStopByName_def Let_def
      split: sum.splits prod.splits)

lemma debugActions_ok:
  "request_ok env sv (collectDebug env req sv)" "request_ok env sv (startDebugWatch env req sv)"
  "request_ok env sv (stopDebugWatch env req sv)"
  unfolding collectDebug_def startDebugWatch_def stopDebugWatch_def
  by (subst prod.collapse [symmetric], rule askDevice_ok; rule debug_step.intros prepared_route; (rule prod.collapse [symmetric])?; assumption?)+

lemma users_ok:
  "request_ok env sv (createUser env now req sv)" "request_ok env sv (issueTicket env now req sv)"
  "request_ok env sv (extendDevices env now req sv)" "request_ok env sv (listDevices now req sv)"
  by (simp_all add: createUser_def issueTicket_def extendDevices_def listDevices_def Let_def request_ok_read
      request_ok_answer serves_users split: prod.split)

lemmas actions_ok = changeGateway_ok exits_ok deleteDevice_ok renameDevice_ok debugActions_ok users_ok request_ok_read

lemma request_ok_if: "request_ok env sv a \<Longrightarrow> request_ok env sv b \<Longrightarrow> request_ok env sv (if c then a else b)"
  by simp

lemma executeAdminRequest_ok: "request_ok env sv (executeAdminRequest env now req sv)"
  unfolding executeAdminRequest_def Let_def by (intro request_ok_if actions_ok)

section \<open>Reading\<close>

text \<open>The actions that a GET request may have leave the server as it is and send nothing.\<close>

lemma answers: "\<exists>resp'. answer resp sv = answer resp' sv"
  by blast

lemma listDevices_answers: "\<exists>resp. listDevices now req sv = answer resp sv"
  by (simp add: listDevices_def Let_def answers)

lemma read_actions:
  assumes "ar_Action req \<in> set adminReadActions"
  shows "\<exists>resp. executeAdminRequest env now req sv = answer resp sv"
proof -
  have "ar_Action req = ''gateway_list'' \<or> ar_Action req = ''list_gateway'' \<or> ar_Action req = ''exit_node_list'' \<or>
      ar_Action req = ''list_device'' \<or> ar_Action req = ''list_devices'' \<or> ar_Action req = ''list_users'' \<or>
      ar_Action req = ''dns_domains'' \<or> ar_Action req = ''dns_snapshot'' \<or> ar_Action req = ''version''"
    using assms by (simp add: adminReadActions_def)
  then show ?thesis by (elim disjE) (simp_all add: executeAdminRequest_def answers listDevices_answers)
qed

lemma Bearer_not_trimmed: "TrimSpace s \<noteq> ''Bearer ''"
proof
  assume "TrimSpace s = ''Bearer ''"
  then have "TrimSpace ''Bearer '' = ''Bearer ''" by (metis TrimSpace_idem)
  moreover have "TrimSpace ''Bearer '' \<noteq> ''Bearer ''" by code_simp
  ultimately show False by simp
qed

section \<open>A request\<close>

definition sample_admin :: admin_env where
  "sample_admin = \<lparr>ae_server = sample_env, ae_version = ''1'', ae_profiles = None, ae_ticket = Inr [1],
     ae_collectRequest = (\<lambda>_. Inr []), ae_startRequest = (\<lambda>_. Inr []), ae_stopRequest = (\<lambda>_. Inr []),
     ae_validJSON = (\<lambda>_. True), ae_wrapJSON = Inr\<rparr>"

definition sample_create :: adminRequest where
  "sample_create = zero_adminRequest\<lparr>ar_Action := ''create_user'', ar_UserID := ''sdl-7'', ar_Group := ''dev.ms.net''\<rparr>"

definition sample_post :: http_request where
  "sample_post = \<lparr>hr_Method = ''POST'', hr_Path = ''/admin/v1/create_user'', hr_Authorization = ''Bearer s3'', hr_query = (\<lambda>_. []),
     hr_ContentLength = 9, hr_decode = (\<lambda>_. Inr sample_create)\<rparr>"

definition sample_booted :: server where "sample_booted = sy_server (booted sample_start sample_fs)"

text \<open>The number of users after a request.\<close>

definition users_after :: "admin_result \<Rightarrow> nat" where
  "users_after = (\<lambda>(_, _, sv). length (um_users (ct_um (sv_ct sv))))"

lemma sample_creates: "users_after (executeAdminRequest sample_admin 5 sample_create sample_booted) = 1"
  by code_simp

lemma sample_no_users: "um_users (ct_um (sv_ct sample_booted)) = []"
  by (simp add: sample_booted_def booted_def sample_start_def NewUserManager_def)

section \<open>Properties\<close>

text \<open>
  C8: the HTTP interface is guarded. A request that is not answered with 401 carries the token, and an empty token
  lets nothing through. A request that changes the server, sends a packet to a session or waits for a device is a
  POST: with GET only the reading actions are reached.
\<close>

theorem admin_http_guard:
  assumes "serveAdminHTTP env token now r sv = (status, out, delivered, sv')"
  shows "(status \<noteq> 401 \<longrightarrow> TrimSpace (hr_Authorization r) = ''Bearer '' @ TrimSpace token \<and> TrimSpace token \<noteq> []) \<and>
    (sv' \<noteq> sv \<or> delivered \<noteq> [] \<or> (\<forall>resp. out \<noteq> Answered resp) \<longrightarrow> status = 200 \<and> hr_Method r = ''POST'')"
proof (cases "TrimSpace (hr_Authorization r) = ''Bearer '' @ TrimSpace token")
  case True
  then have token: "TrimSpace token \<noteq> []" using Bearer_not_trimmed [of "hr_Authorization r"] by auto
  have h: "adminHTTPHandler env now r sv = (status, out, delivered, sv')"
    using assms True by (simp add: serveAdminHTTP_def adminHTTPAuth_def)
  have "status = 200 \<and> hr_Method r = ''POST''" if ch: "sv' \<noteq> sv \<or> delivered \<noteq> [] \<or> (\<forall>resp. out \<noteq> Answered resp)"
  proof -
    have silent: "answer resp sv \<noteq> (out, delivered, sv')" for resp using ch by (auto simp: answer_def)
    have post: "hr_Method r = ''POST''"
    proof (rule ccontr)
      assume np: "hr_Method r \<noteq> ''POST''"
      then have get: "hr_Method r = ''GET''" "actionOf r \<in> set adminReadActions"
        using h silent by (auto simp: adminHTTPHandler_def split: if_splits)
      obtain req where req: "adminRequestFromHTTP r = Inr req" "ar_Action req = actionOf r"
        using get(1) by (simp add: adminRequestFromHTTP_def Let_def)
      then have "executeAdminRequest env now req sv = (out, delivered, sv')"
        using h get by (simp add: adminHTTPHandler_def)
      then show False using read_actions [of req env now sv] get(2) req(2) silent by metis
    qed
    moreover have "status = 200"
      using h post silent by (auto simp: adminHTTPHandler_def split: sum.splits)
    ultimately show ?thesis by simp
  qed
  then show ?thesis using True token by blast
next
  case False
  then show ?thesis using assms by (auto simp: serveAdminHTTP_def adminHTTPAuth_def answer_def)
qed

theorem admin_http_guard_witness:
  "fst (serveAdminHTTP sample_admin '' s3 '' 5 sample_post sample_booted) = 200 \<and>
   users_after (snd (serveAdminHTTP sample_admin '' s3 '' 5 sample_post sample_booted)) = 1 \<and>
   hr_Method sample_post = ''POST'' \<and> TrimSpace '' s3 '' \<noteq> []"
proof -
  obtain status out delivered sv' where r: "serveAdminHTTP sample_admin '' s3 '' 5 sample_post sample_booted =
      (status, out, delivered, sv')" by (metis surj_pair)
  have post: "adminRequestFromHTTP sample_post = Inr sample_create" by code_simp
  have "TrimSpace (hr_Authorization sample_post) = ''Bearer '' @ TrimSpace '' s3 ''" by code_simp
  then have "serveAdminHTTP sample_admin '' s3 '' 5 sample_post sample_booted =
      (200, executeAdminRequest sample_admin 5 sample_create sample_booted)"
    by (simp add: serveAdminHTTP_def adminHTTPAuth_def adminHTTPHandler_def post) (simp add: sample_post_def)
  then have st: "status = 200" and users: "users_after (out, delivered, sv') = 1" using r sample_creates by simp_all
  then have "sv' \<noteq> sample_booted" using sample_no_users by (auto simp: users_after_def)
  with admin_http_guard [OF r] st users r show ?thesis by simp
qed

text \<open>
  C7: what operators do stays within the steps of the running server. After a request in a reachable state the
  server is again in a reachable state, so its invariants hold, and a packet that the request has caused reaches
  only a session that registered under the network key and the address the packet carries, in a registration that was
  admitted.
\<close>

theorem admin_requests_contained:
  assumes start: "NewController t0 (Some c) src file rows = Inr (ce_cfg (en_control (ae_server env)), store, ct0)"
    and reach: "(sys_step (ae_server env))\<^sup>*\<^sup>* (booted ct0 fs) sy"
    and request: "executeAdminRequest env now req (sy_server sy) = (out, delivered, sv')"
  shows "(sys_step (ae_server env))\<^sup>*\<^sup>* (booted ct0 fs) (sy\<lparr>sy_server := sv'\<rparr>) \<and>
    nc_ok (ct_nc (sv_ct sv')) \<and> hub_ok (sv_hub sv') \<and>
    (\<forall>(s, p) \<in> set delivered. \<exists>e \<in> set (sy_log sy). rg_stream e = s \<and>
       TrimSpace (rg_key e) = TrimSpace (pk_RouteNetworkKey p) \<and> rg_ip e = IpToUint32 (pk_DstIP p) \<and>
       admitted (ae_server env) e)"
proof -
  have ok: "sys_ok (ae_server env) ct0 fs sy" by (rule sys_reachable_ok [OF start reach])
  have s: "serves (ae_server env) (sy_server sy) delivered sv'"
    using executeAdminRequest_ok [of env "sy_server sy" now req] request by (simp add: request_ok_def)
  have "(sys_step (ae_server env))\<^sup>*\<^sup>* sy (sy\<lparr>sy_server := sv'\<rparr>)" using s by (simp add: serves_def)
  with reach have reach': "(sys_step (ae_server env))\<^sup>*\<^sup>* (booted ct0 fs) (sy\<lparr>sy_server := sv'\<rparr>)" by (rule rtranclp_trans)
  then have ok': "sys_ok (ae_server env) ct0 fs (sy\<lparr>sy_server := sv'\<rparr>)" by (rule sys_reachable_ok [OF start])
  have "\<exists>e \<in> set (sy_log sy). rg_stream e = s \<and> TrimSpace (rg_key e) = TrimSpace (pk_RouteNetworkKey p) \<and>
      rg_ip e = IpToUint32 (pk_DstIP p) \<and> admitted (ae_server env) e" if sp: "(s, p) \<in> set delivered" for s p
  proof -
    have "gget (sh_byRoute (sv_hub (sy_server sy))) (route_of p) = Some s"
      using s ok sp unfolding serves_def works_def routed_def sys_ok_def by fastforce
    then show ?thesis using sys_ok_route [OF ok] by (simp add: ipToUint32_eq) blast
  qed
  moreover have "nc_ok (ct_nc (sv_ct sv'))" "hub_ok (sv_hub sv')"
    using ok' reachable_ok [OF start] by (simp_all add: sys_ok_def)
  ultimately show ?thesis using reach' by blast
qed

theorem admin_requests_contained_witness:
  "\<exists>sv'. (sys_step sample_env)\<^sup>*\<^sup>* (booted sample_start sample_fs) ((booted sample_start sample_fs)\<lparr>sy_server := sv'\<rparr>) \<and>
     length (um_users (ct_um (sv_ct sv'))) = 1 \<and> nc_ok (ct_nc (sv_ct sv'))"
proof -
  obtain out delivered sv' where r: "executeAdminRequest sample_admin 5 sample_create (sy_server (booted sample_start sample_fs)) =
      (out, delivered, sv')" by (metis surj_pair)
  have e: "ae_server sample_admin = sample_env" by (simp add: sample_admin_def)
  have "length (um_users (ct_um (sv_ct sv'))) = 1" using sample_creates r by (simp add: users_after_def sample_booted_def)
  with admin_requests_contained [where env = sample_admin, unfolded e, OF sample_boot rtranclp.rtrancl_refl r] show ?thesis by blast
qed

end
