(* ===== verification/Stores.thy ===== *)
theory Stores
  imports Debug_Store
begin

text \<open>
  Where snapshots are kept. The locale \<open>snapshot_store\<close> is the contract of the interface \<^verbatim>\<open>UMStore\<close> of
  \<^verbatim>\<open>control/user_store.go\<close>: what \<^verbatim>\<open>Load\<close> returns after a history of \<^verbatim>\<open>Save\<close>. It is interpreted on the file of the user
  manager (\<open>JSONUMStore\<close>) and on the file of gateway approvals (\<open>JSONGatewayStore\<close>, \<^verbatim>\<open>control/gateway_store.go\<close>) here, and
  on the tables of the database in \<open>Postgres_Store\<close>. Every call of the operating system may fail, and a write that
  fails may leave a part of its data behind. \<^verbatim>\<open>encoding/json\<close> is a pair of functions; a snapshot is storable when what
  is encoded decodes to it.
\<close>

section \<open>The contract\<close>

text \<open>A history of calls of \<^verbatim>\<open>Save\<close>, each with what fails during it; and the last snapshot that was saved without an error.\<close>

primrec save_all :: "('f \<Rightarrow> 's \<Rightarrow> 'd \<Rightarrow> string option \<times> 'd) \<Rightarrow> ('f \<times> 's) list \<Rightarrow> 'd \<Rightarrow> 'd" where
  "save_all save [] d = d"
| "save_all save (x # xs) d = save_all save xs (snd (save (fst x) (snd x) d))"

primrec last_saved :: "('f \<Rightarrow> 's \<Rightarrow> 'd \<Rightarrow> string option \<times> 'd) \<Rightarrow> ('f \<times> 's) list \<Rightarrow> 'd \<Rightarrow> 's option" where
  "last_saved save [] d = None"
| "last_saved save (x # xs) d =
     (case last_saved save xs (snd (save (fst x) (snd x) d)) of
        Some s \<Rightarrow> Some s
      | None \<Rightarrow> if fst (save (fst x) (snd x) d) = None then Some (snd x) else None)"

locale snapshot_store =
  fixes inv :: "'d \<Rightarrow> bool"
    and load :: "'d \<Rightarrow> 's result"
    and save :: "'f \<Rightarrow> 's \<Rightarrow> 'd \<Rightarrow> string option \<times> 'd"
    and storable :: "'s \<Rightarrow> bool"
    and returns :: "'s \<Rightarrow> 's \<Rightarrow> bool"
  assumes inv_save: "inv d \<Longrightarrow> storable s \<Longrightarrow> inv (snd (save f s d))"
    and save_done: "inv d \<Longrightarrow> storable s \<Longrightarrow> fst (save f s d) = None \<Longrightarrow>
      \<exists>s'. load (snd (save f s d)) = Inr s' \<and> returns s s'"
    and save_failed: "inv d \<Longrightarrow> storable s \<Longrightarrow> fst (save f s d) \<noteq> None \<Longrightarrow> load (snd (save f s d)) = load d"
begin

lemma durable:
  assumes "inv d" and "\<forall>x \<in> set xs. storable (snd x)"
  shows "case last_saved save xs d of
      None \<Rightarrow> load (save_all save xs d) = load d
    | Some s \<Rightarrow> \<exists>s'. load (save_all save xs d) = Inr s' \<and> returns s s'"
  using assms
proof (induction xs arbitrary: d)
  case Nil
  then show ?case by simp
next
  case (Cons x xs)
  let ?d = "snd (save (fst x) (snd x) d)"
  have x: "storable (snd x)" and d: "inv ?d" using Cons.prems inv_save by simp_all
  note rest = Cons.IH [OF d]
  show ?case
  proof (cases "last_saved save xs ?d")
    case (Some s)
    then show ?thesis using rest Cons.prems by simp
  next
    case None
    then have "load (save_all save xs ?d) = load ?d" using rest Cons.prems by simp
    then show ?thesis
      using None save_done [OF Cons.prems(1) x] save_failed [OF Cons.prems(1) x] by simp
  qed
qed

end

section \<open>A file that is replaced\<close>

text \<open>
  What fails during a \<^verbatim>\<open>Save\<close>: the directory, the encoding (below), the write with the part of the data that it leaves
  in the temporary file, and the renaming.
\<close>

record store_faults =
  sf_mkdir :: "string option"
  sf_write :: "(string \<times> string option) option"
  sf_rename :: "string option"

text \<open>\<^verbatim>\<open>filepath.Dir\<close>: everything up to the last slash, cleaned.\<close>

definition Dir :: "string \<Rightarrow> string" where
  "Dir path = Clean (rev (dropWhile (\<lambda>c. c \<noteq> CHR ''/'') (rev path)))"

definition replaceFile ::
    "string \<Rightarrow> store_faults \<Rightarrow> string \<Rightarrow> string result \<Rightarrow> debugFS \<Rightarrow> string option \<times> debugFS" where
  "replaceFile kind faults path encoded fs =
     (case MkdirAll (\<lambda>_ _. sf_mkdir faults) (Dir path) fs of
        (Inl err, fs1) \<Rightarrow> (Some (''mkdir '' @ kind @ '' dir: '' @ err), fs1)
      | (Inr _, fs1) \<Rightarrow>
          (case encoded of
             Inl err \<Rightarrow> (Some (''marshal '' @ kind @ '': '' @ err), fs1)
           | Inr data \<Rightarrow>
               (let tmp = path @ ''.tmp'' in
                case sf_write faults of
                  Some (err, part) \<Rightarrow>
                    (Some (''write '' @ kind @ '' temp file: '' @ err),
                     case part of None \<Rightarrow> fs1 | Some rest \<Rightarrow> fs1\<lparr>fs_files := gput tmp rest (fs_files fs1)\<rparr>)
                | None \<Rightarrow>
                    (let fs2 = fs1\<lparr>fs_files := gput tmp data (fs_files fs1)\<rparr> in
                     case sf_rename faults of
                       Some err \<Rightarrow> (Some (''rename '' @ kind @ '' temp file: '' @ err), fs2)
                     | None \<Rightarrow> (None, fs2\<lparr>fs_files := gput path data (gdel tmp (fs_files fs2))\<rparr>)))))"

text \<open>Reading: a file that does not exist gives the empty snapshot; \<open>unreadable\<close> is any other error of the read.\<close>

definition readFile ::
    "string \<Rightarrow> string option \<Rightarrow> string \<Rightarrow> (string \<Rightarrow> 's result) \<Rightarrow> 's \<Rightarrow> debugFS \<Rightarrow> 's result" where
  "readFile kind unreadable path decode none fs =
     (case gget (fs_files fs) path of
        None \<Rightarrow> Inr none
      | Some data \<Rightarrow>
          (case unreadable of
             Some err \<Rightarrow> Inl (''read '' @ kind @ '': '' @ err)
           | None \<Rightarrow> (case decode data of Inl err \<Rightarrow> Inl (''unmarshal '' @ kind @ '': '' @ err) | Inr s \<Rightarrow> Inr s)))"

lemma replaceFile_file:
  "gget (fs_files (snd (replaceFile kind faults path encoded fs))) path =
     (if fst (replaceFile kind faults path encoded fs) = None
      then (case encoded of Inr data \<Rightarrow> Some data | Inl _ \<Rightarrow> None) else gget (fs_files fs) path)"
  by (simp add: replaceFile_def MkdirAll_def Let_def split: option.split sum.split prod.split)

lemma replaceFile_encoded:
  "fst (replaceFile kind faults path encoded fs) = None \<Longrightarrow> \<exists>data. encoded = Inr data"
  by (auto simp: replaceFile_def Let_def split: sum.splits prod.splits)

text \<open>Nothing but the file, the temporary file beside it and the directories above is touched.\<close>

lemma replaceFile_frame:
  "p \<noteq> path \<Longrightarrow> p \<noteq> path @ ''.tmp'' \<Longrightarrow>
     gget (fs_files (snd (replaceFile kind faults path encoded fs))) p = gget (fs_files fs) p"
  by (simp add: replaceFile_def MkdirAll_def Let_def split: option.split sum.split prod.split)

definition json_storable :: "('s \<Rightarrow> string result) \<Rightarrow> (string \<Rightarrow> 's result) \<Rightarrow> 's \<Rightarrow> bool" where
  "json_storable encode decode s \<longleftrightarrow> (\<forall>data. encode s = Inr data \<longrightarrow> decode data = Inr s)"

lemma readFile_replaced:
  assumes "json_storable encode decode s" and "fst (replaceFile kind faults path (encode s) fs) = None"
  shows "readFile kind' None path decode none (snd (replaceFile kind faults path (encode s) fs)) = Inr s"
  using assms replaceFile_encoded [OF assms(2)]
  by (auto simp: readFile_def replaceFile_file json_storable_def)

lemma readFile_kept:
  assumes "fst (replaceFile kind faults path encoded fs) \<noteq> None"
  shows "readFile kind' u path decode none (snd (replaceFile kind faults path encoded fs)) =
    readFile kind' u path decode none fs"
  using assms by (simp only: readFile_def replaceFile_file if_False)

section \<open>The file of the user manager\<close>

definition empty_snapshot :: UMSnapshot where
  "empty_snapshot = \<lparr>sn_UserSeq = 0, sn_EnrollmentSeq = 0, sn_Users = [], sn_Policies = [], sn_Enrollments = [],
     sn_DeviceByPubKey = [], sn_CertifiedDevices = [], sn_DeviceTickets = []\<rparr>"

definition JSONUMStore_Load :: "(string \<Rightarrow> UMSnapshot result) \<Rightarrow> string option \<Rightarrow> string \<Rightarrow> debugFS \<Rightarrow> UMSnapshot result" where
  "JSONUMStore_Load decode unreadable path = readFile ''um json'' unreadable path decode empty_snapshot"

definition JSONUMStore_Save ::
    "(UMSnapshot \<Rightarrow> string result) \<Rightarrow> string \<Rightarrow> store_faults \<Rightarrow> UMSnapshot \<Rightarrow> debugFS \<Rightarrow> string option \<times> debugFS" where
  "JSONUMStore_Save encode path faults snapshot = replaceFile ''um json'' faults path (encode snapshot)"

interpretation jum: snapshot_store "\<lambda>_. True" "JSONUMStore_Load decode None path" "JSONUMStore_Save encode path"
    "json_storable encode decode" "\<lambda>s s'. s' = s" for encode decode path
  by unfold_locales (simp_all add: JSONUMStore_Load_def JSONUMStore_Save_def readFile_replaced readFile_kept)

section \<open>The file of gateway approvals\<close>

type_synonym GatewayStoreSnapshot = "(string, string) gomap"

definition JSONGatewayStore_Load ::
    "(string \<Rightarrow> GatewayStoreSnapshot result) \<Rightarrow> string option \<Rightarrow> string \<Rightarrow> debugFS \<Rightarrow> GatewayStoreSnapshot result" where
  "JSONGatewayStore_Load decode unreadable path = readFile ''gateway json'' unreadable path decode []"

definition JSONGatewayStore_Save ::
    "(GatewayStoreSnapshot \<Rightarrow> string result) \<Rightarrow> string \<Rightarrow> store_faults \<Rightarrow> GatewayStoreSnapshot \<Rightarrow> debugFS
     \<Rightarrow> string option \<times> debugFS" where
  "JSONGatewayStore_Save encode path faults snapshot = replaceFile ''gateway json'' faults path (encode snapshot)"

interpretation jgw: snapshot_store "\<lambda>_. True" "JSONGatewayStore_Load decode None path" "JSONGatewayStore_Save encode path"
    "json_storable encode decode" "\<lambda>s s'. s' = s" for encode decode path
  by unfold_locales (simp_all add: JSONGatewayStore_Load_def JSONGatewayStore_Save_def readFile_replaced readFile_kept)

lemma gateway_file_durable:
  "\<forall>x \<in> set xs. json_storable encode decode (snd x) \<Longrightarrow>
    JSONGatewayStore_Load decode None path (save_all (JSONGatewayStore_Save encode path) xs fs) =
      (case last_saved (JSONGatewayStore_Save encode path) xs fs of
         Some s \<Rightarrow> Inr s | None \<Rightarrow> JSONGatewayStore_Load decode None path fs)"
  using jgw.durable [of xs encode decode path fs] by (simp split: option.splits)

section \<open>Properties\<close>

lemma save_all_frame:
  assumes "p \<noteq> path" and "p \<noteq> path @ ''.tmp''"
  shows "gget (fs_files (save_all (JSONUMStore_Save encode path) xs fs)) p = gget (fs_files fs) p"
  using assms by (induction xs arbitrary: fs) (simp_all add: JSONUMStore_Save_def replaceFile_frame)

text \<open>
  C18: the file of the user manager is replaced as a whole or not at all. Over every history of saves, each of which may
  fail when it makes the directory, encodes, writes (leaving a part behind) or renames, \<^verbatim>\<open>Load\<close> returns the last snapshot that
  was saved without an error, and what it returned before when there is none; no other file is touched but the temporary one.
\<close>

theorem user_file_durable:
  assumes "\<forall>x \<in> set xs. json_storable encode decode (snd x)"
  shows "JSONUMStore_Load decode None path (save_all (JSONUMStore_Save encode path) xs fs) =
      (case last_saved (JSONUMStore_Save encode path) xs fs of
         Some s \<Rightarrow> Inr s | None \<Rightarrow> JSONUMStore_Load decode None path fs) \<and>
    (\<forall>p. p \<noteq> path \<and> p \<noteq> path @ ''.tmp'' \<longrightarrow>
       gget (fs_files (save_all (JSONUMStore_Save encode path) xs fs)) p = gget (fs_files fs) p)"
  using jum.durable [of xs encode decode path fs] assms save_all_frame by (simp split: option.splits)

text \<open>A codec for snapshots that have a counter only, and a save that fails when it writes.\<close>

definition sample_encode :: "UMSnapshot \<Rightarrow> string result" where
  "sample_encode s = Inr (show_word (sn_UserSeq s))"

definition sample_decode :: "string \<Rightarrow> UMSnapshot result" where
  "sample_decode data = Inr (empty_snapshot\<lparr>sn_UserSeq := of_nat (read_nat data)\<rparr>)"

definition sample_file_saves :: "(store_faults \<times> UMSnapshot) list" where
  "sample_file_saves =
     [(\<lparr>sf_mkdir = None, sf_write = None, sf_rename = None\<rparr>, empty_snapshot\<lparr>sn_UserSeq := 7\<rparr>),
      (\<lparr>sf_mkdir = None, sf_write = Some (''no space'', Some []), sf_rename = None\<rparr>, empty_snapshot\<lparr>sn_UserSeq := 8\<rparr>)]"

lemma sample_codec_storable: "json_storable sample_encode sample_decode (empty_snapshot\<lparr>sn_UserSeq := n\<rparr>)"
  by (simp add: json_storable_def sample_encode_def sample_decode_def show_word_def)

theorem user_file_durable_witness:
  "JSONUMStore_Load sample_decode None ''d/um.json''
     (save_all (JSONUMStore_Save sample_encode ''d/um.json'') sample_file_saves \<lparr>fs_dirs = [], fs_files = []\<rparr>) =
   Inr (empty_snapshot\<lparr>sn_UserSeq := 7\<rparr>)"
proof -
  have "last_saved (JSONUMStore_Save sample_encode ''d/um.json'') sample_file_saves \<lparr>fs_dirs = [], fs_files = []\<rparr> =
      Some (empty_snapshot\<lparr>sn_UserSeq := 7\<rparr>)"
    by (simp add: sample_file_saves_def JSONUMStore_Save_def replaceFile_def MkdirAll_def sample_encode_def)
  moreover have "\<forall>x \<in> set sample_file_saves. json_storable sample_encode sample_decode (snd x)"
    by (simp add: sample_file_saves_def sample_codec_storable)
  ultimately show ?thesis using user_file_durable [of sample_file_saves sample_encode sample_decode] by simp
qed

end
