(* ===== verification/Postgres_Store.thy ===== *)
theory Postgres_Store
  imports Stores User_Names
begin

text \<open>
  The tables of the user manager in the database, \<^verbatim>\<open>control/user_store_postgres.go\<close>. A table is a map from its primary key
  (\<^verbatim>\<open>store/migrations/0001\<close> and \<^verbatim>\<open>0004\<close>) to its row, and
  the statements of the program act on it as SQL says: \<^verbatim>\<open>INSERT ... ON CONFLICT DO UPDATE\<close> of every column puts the row,
  \<^verbatim>\<open>DELETE\<close> by primary key removes it. Each statement may fail, which the parameter \<open>pg_faults\<close> decides from the statement
  and its key; a transaction that is not committed changes nothing. Timestamps are stored with the precision of the
  database, which is the parameter \<open>tp\<close>. The theory shows that the tables implement the contract of \<open>Stores\<close> and what a
  restart from the database keeps.
\<close>

section \<open>Rows\<close>

type_synonym pg_faults = "string \<Rightarrow> string list \<Rightarrow> string option"

text \<open>\<^verbatim>\<open>um_devices\<close> has no column for the algorithm of the key and for the last binding.\<close>

record umDeviceRow =
  dr_PubKeyHex :: string
  dr_UserID :: string
  dr_DeviceID :: string
  dr_DisplayName :: string
  dr_CreatedAt :: gtime

record pgTables =
  pg_users :: "(string, UMUser) gomap"
  pg_policies :: "(string, UMPolicy) gomap"
  pg_enrollments :: "(string, UMEnrollment) gomap"
  pg_devices :: "(string, umDeviceRow) gomap"
  pg_certified :: "(string \<times> string, UMAuthDevice) gomap"
  pg_tickets :: "(string, UMDeviceTicket) gomap"
  pg_sequences :: "(string, u64) gomap"

definition userRow :: "(gtime \<Rightarrow> gtime) \<Rightarrow> UMUser \<Rightarrow> UMUser" where
  "userRow tp u = u\<lparr>uu_CreatedAt := tp (uu_CreatedAt u)\<rparr>"

definition enrollmentRow :: "(gtime \<Rightarrow> gtime) \<Rightarrow> UMEnrollment \<Rightarrow> UMEnrollment" where
  "enrollmentRow tp e = e\<lparr>en_ExpireAt := tp (en_ExpireAt e), en_CreatedAt := tp (en_CreatedAt e)\<rparr>"

definition deviceRow :: "(gtime \<Rightarrow> gtime) \<Rightarrow> UMDevice \<Rightarrow> umDeviceRow" where
  "deviceRow tp d = \<lparr>dr_PubKeyHex = dv_PubKeyHex d, dr_UserID = dv_UserID d, dr_DeviceID = dv_DeviceID d,
     dr_DisplayName = dv_DisplayName d, dr_CreatedAt = tp (dv_CreatedAt d)\<rparr>"

definition certifiedRow :: "(gtime \<Rightarrow> gtime) \<Rightarrow> UMAuthDevice \<Rightarrow> UMAuthDevice" where
  "certifiedRow tp c = c\<lparr>ad_AuthedAt := tp (ad_AuthedAt c), ad_AuthExpireAt := tp (ad_AuthExpireAt c)\<rparr>"

definition policyRow :: "(gtime \<Rightarrow> gtime) \<Rightarrow> UMPolicy \<Rightarrow> UMPolicy" where
  "policyRow tp p = p\<lparr>po_CreatedAt := tp (po_CreatedAt p), po_UpdatedAt := tp (po_UpdatedAt p)\<rparr>"

definition ticketRow :: "(gtime \<Rightarrow> gtime) \<Rightarrow> UMDeviceTicket \<Rightarrow> UMDeviceTicket" where
  "ticketRow tp t = t\<lparr>dt_ExpireAt := tp (dt_ExpireAt t), dt_CreatedAt := tp (dt_CreatedAt t)\<rparr>"

section \<open>Save\<close>

text \<open>A statement after another, up to the first that fails.\<close>

definition bindR :: "'a result \<Rightarrow> ('a \<Rightarrow> 'b result) \<Rightarrow> 'b result" where
  "bindR r f = (case r of Inl err \<Rightarrow> Inl err | Inr x \<Rightarrow> f x)"

definition wrapErr :: "string \<Rightarrow> 'a result \<Rightarrow> 'a result" where
  "wrapErr msg r = (case r of Inl err \<Rightarrow> Inl (msg @ err) | Inr x \<Rightarrow> Inr x)"

text \<open>The loop over the values of a map of the snapshot, with the statement that puts one row.\<close>

fun insertRows :: "('k \<Rightarrow> string option) \<Rightarrow> ('v \<Rightarrow> 'k) \<Rightarrow> ('v \<Rightarrow> 'r) \<Rightarrow> 'v list \<Rightarrow> ('k, 'r) gomap \<Rightarrow> ('k, 'r) gomap result" where
  "insertRows fault key row [] t = Inr t"
| "insertRows fault key row (v # vs) t =
     (case fault (key v) of
        Some err \<Rightarrow> Inl err
      | None \<Rightarrow> insertRows fault key row vs (gput (key v) (row v) t))"

fun deleteRows :: "('k \<Rightarrow> string option) \<Rightarrow> 'k list \<Rightarrow> ('k, 'r) gomap \<Rightarrow> ('k, 'r) gomap result" where
  "deleteRows fault [] t = Inr t"
| "deleteRows fault (k # ks) t =
     (case fault k of Some err \<Rightarrow> Inl err | None \<Rightarrow> deleteRows fault ks (gdel k t))"

definition snapshotStringKeys :: "(string, 'v) gomap \<Rightarrow> string list" where
  "snapshotStringKeys src = map fst src"

text \<open>\<open>listed\<close> is the error of reading the keys of the table, whether of the query or of a row.\<close>

definition deleteMissingStringKeys ::
    "string option \<Rightarrow> (string \<Rightarrow> string option) \<Rightarrow> string list \<Rightarrow> (string, 'r) gomap \<Rightarrow> (string, 'r) gomap result" where
  "deleteMissingStringKeys listed fault keep t =
     (case listed of
        Some err \<Rightarrow> Inl err
      | None \<Rightarrow> deleteRows fault (filter (\<lambda>key. key \<notin> set keep) (map fst t)) t)"

definition deleteMissingCertifiedDevices ::
    "string option \<Rightarrow> (string \<times> string \<Rightarrow> string option) \<Rightarrow> (string, UMAuthDevice) gomap
     \<Rightarrow> (string \<times> string, UMAuthDevice) gomap \<Rightarrow> (string \<times> string, UMAuthDevice) gomap result" where
  "deleteMissingCertifiedDevices listed fault keep t =
     (case listed of
        Some err \<Rightarrow> Inl err
      | None \<Rightarrow>
          deleteRows fault
            (filter (\<lambda>(groupName, deviceID). gget keep (authedDeviceKey groupName deviceID) = None) (map fst t)) t)"

definition stmtFault :: "pg_faults \<Rightarrow> string \<Rightarrow> string \<Rightarrow> string \<Rightarrow> string option" where
  "stmtFault faults stmt msg key = map_option (\<lambda>err. msg @ err) (faults stmt [key])"

text \<open>One table with a text key: the rows of the snapshot are put, then the others are removed.\<close>

definition saveTable ::
    "pg_faults \<Rightarrow> string \<Rightarrow> string \<Rightarrow> ('v \<Rightarrow> string) \<Rightarrow> ('v \<Rightarrow> 'r) \<Rightarrow> (string, 'v) gomap \<Rightarrow> (string, 'r) gomap
     \<Rightarrow> (string, 'r) gomap result" where
  "saveTable faults table item key row src t =
     bindR (insertRows (stmtFault faults (''insert '' @ table) (''insert '' @ item @ '': '')) key row (map snd src) t)
       (\<lambda>t. wrapErr (''delete stale '' @ table @ '': '')
              (deleteMissingStringKeys (faults (''select '' @ table) []) (\<lambda>k. faults (''delete '' @ table) [k])
                (snapshotStringKeys src) t))"

definition certifiedKey :: "UMAuthDevice \<Rightarrow> string \<times> string" where
  "certifiedKey c = (ad_GroupName c, ad_DeviceID c)"

definition saveCertified ::
    "pg_faults \<Rightarrow> (gtime \<Rightarrow> gtime) \<Rightarrow> (string, UMAuthDevice) gomap \<Rightarrow> (string \<times> string, UMAuthDevice) gomap
     \<Rightarrow> (string \<times> string, UMAuthDevice) gomap result" where
  "saveCertified faults tp src t =
     bindR (insertRows (\<lambda>(g, d). map_option (\<lambda>err. ''insert um_certified_device: '' @ err)
                                   (faults ''insert um_certified_devices'' [g, d]))
              certifiedKey (certifiedRow tp) (map snd src) t)
       (\<lambda>t. wrapErr ''delete stale um_certified_devices: ''
              (deleteMissingCertifiedDevices (faults ''select um_certified_devices'' [])
                (\<lambda>(g, d). faults ''delete um_certified_devices'' [g, d]) src t))"

definition saveSeq :: "pg_faults \<Rightarrow> string \<Rightarrow> u64 \<Rightarrow> (string, u64) gomap \<Rightarrow> (string, u64) gomap result" where
  "saveSeq faults name v t =
     (case faults (''insert um_sequences'') [name] of
        Some err \<Rightarrow> Inl (''update '' @ name @ '': '' @ err)
      | None \<Rightarrow> Inr (gput name v t))"

text \<open>The statements of the transaction in their order.\<close>

definition saveTx :: "pg_faults \<Rightarrow> (gtime \<Rightarrow> gtime) \<Rightarrow> UMSnapshot \<Rightarrow> pgTables \<Rightarrow> pgTables result" where
  "saveTx faults tp snap tx =
     bindR (saveTable faults ''um_users'' ''um_user'' uu_UserID (userRow tp) (sn_Users snap) (pg_users tx)) (\<lambda>users.
     bindR (saveTable faults ''um_enrollments'' ''um_enrollment'' en_Code (enrollmentRow tp) (sn_Enrollments snap)
              (pg_enrollments tx)) (\<lambda>enrollments.
     bindR (saveTable faults ''um_devices'' ''um_device'' dv_PubKeyHex (deviceRow tp) (sn_DeviceByPubKey snap)
              (pg_devices tx)) (\<lambda>devices.
     bindR (saveCertified faults tp (sn_CertifiedDevices snap) (pg_certified tx)) (\<lambda>certified.
     bindR (saveTable faults ''um_policies'' ''um_policy'' po_UserID (policyRow tp) (sn_Policies snap) (pg_policies tx))
       (\<lambda>policies.
     bindR (saveTable faults ''um_device_tickets'' ''um_device_ticket'' dt_Ticket (ticketRow tp) (sn_DeviceTickets snap)
              (pg_tickets tx)) (\<lambda>tickets.
     bindR (saveSeq faults ''user_seq'' (sn_UserSeq snap) (pg_sequences tx)) (\<lambda>seq1.
     bindR (saveSeq faults ''enrollment_seq'' (sn_EnrollmentSeq snap) seq1) (\<lambda>seq2.
     Inr \<lparr>pg_users = users, pg_policies = policies, pg_enrollments = enrollments, pg_devices = devices,
          pg_certified = certified, pg_tickets = tickets, pg_sequences = seq2\<rparr>))))))))"

definition PostgresUMStore_Save ::
    "(gtime \<Rightarrow> gtime) \<Rightarrow> pg_faults \<Rightarrow> UMSnapshot \<Rightarrow> pgTables \<Rightarrow> string option \<times> pgTables" where
  "PostgresUMStore_Save tp faults snap db =
     (case faults ''begin'' [] of
        Some err \<Rightarrow> (Some (''save um begin tx: '' @ err), db)
      | None \<Rightarrow>
          (case saveTx faults tp snap db of
             Inl err \<Rightarrow> (Some err, db)
           | Inr tx \<Rightarrow> (case faults ''commit'' [] of Some err \<Rightarrow> (Some err, db) | None \<Rightarrow> (None, tx))))"

section \<open>Load\<close>

text \<open>The loop over the rows of a query, with what is stored under which key; a row may fail to scan.\<close>

fun scanRows :: "('r \<Rightarrow> string option) \<Rightarrow> ('r \<Rightarrow> string) \<Rightarrow> ('r \<Rightarrow> 'v) \<Rightarrow> 'r list \<Rightarrow> (string, 'v) gomap \<Rightarrow> (string, 'v) gomap result" where
  "scanRows fault key val [] m = Inr m"
| "scanRows fault key val (r # rs) m =
     (case fault r of Some err \<Rightarrow> Inl err | None \<Rightarrow> scanRows fault key val rs (gput (key r) (val r) m))"

definition loadTable ::
    "pg_faults \<Rightarrow> string \<Rightarrow> string \<Rightarrow> ('r \<Rightarrow> string) \<Rightarrow> ('r \<Rightarrow> 'v) \<Rightarrow> ('k, 'r) gomap \<Rightarrow> (string, 'v) gomap result" where
  "loadTable faults table item key val t =
     (case faults (''query '' @ table) [] of
        Some err \<Rightarrow> Inl (''load '' @ table @ '': '' @ err)
      | None \<Rightarrow>
          bindR (scanRows (\<lambda>r. stmtFault faults (''scan '' @ table) (''scan '' @ item @ '': '') (key r)) key val (map snd t) [])
            (\<lambda>m. case faults (''rows '' @ table) [] of Some err \<Rightarrow> Inl err | None \<Rightarrow> Inr m))"

text \<open>The counters; an error or a missing row leaves zero.\<close>

definition loadSeq :: "pg_faults \<Rightarrow> string \<Rightarrow> (string, u64) gomap \<Rightarrow> u64" where
  "loadSeq faults name t =
     (if faults ''query um_sequences'' [name] \<noteq> None then 0
      else case gget t name of Some v \<Rightarrow> v | None \<Rightarrow> 0)"

definition deviceOfRow :: "umDeviceRow \<Rightarrow> UMDevice" where
  "deviceOfRow r = \<lparr>dv_UserID = dr_UserID r, dv_DeviceID = dr_DeviceID r, dv_DisplayName = dr_DisplayName r,
     dv_PubKeyAlg = [], dv_PubKeyHex = dr_PubKeyHex r, dv_CreatedAt = dr_CreatedAt r, dv_LastBoundAt = zero_time\<rparr>"

definition PostgresUMStore_Load :: "pg_faults \<Rightarrow> pgTables \<Rightarrow> UMSnapshot result" where
  "PostgresUMStore_Load faults db =
     bindR (loadTable faults ''um_users'' ''um_user'' uu_UserID (\<lambda>u. u) (pg_users db)) (\<lambda>users.
     bindR (loadTable faults ''um_policies'' ''um_policy'' po_UserID (\<lambda>p. p) (pg_policies db)) (\<lambda>policies.
     bindR (loadTable faults ''um_enrollments'' ''um_enrollment'' en_Code (\<lambda>e. e) (pg_enrollments db)) (\<lambda>enrollments.
     bindR (loadTable faults ''um_devices'' ''um_device'' dr_PubKeyHex deviceOfRow (pg_devices db)) (\<lambda>devices.
     bindR (loadTable faults ''um_certified_devices'' ''um_certified_device''
              (\<lambda>c. authedDeviceKey (ad_GroupName c) (ad_DeviceID c)) (\<lambda>c. c) (pg_certified db)) (\<lambda>certified.
     bindR (loadTable faults ''um_device_tickets'' ''um_device_ticket'' dt_Ticket (\<lambda>t. t) (pg_tickets db)) (\<lambda>tickets.
     Inr \<lparr>sn_UserSeq = loadSeq faults ''user_seq'' (pg_sequences db),
          sn_EnrollmentSeq = loadSeq faults ''enrollment_seq'' (pg_sequences db),
          sn_Users = users, sn_Policies = policies, sn_Enrollments = enrollments, sn_DeviceByPubKey = devices,
          sn_CertifiedDevices = certified, sn_DeviceTickets = tickets\<rparr>))))))"


section \<open>What the statements do\<close>

named_theorems table_simps \<open>results of the statements on a table\<close>

lemma bindR_Inr [table_simps]: "bindR r f = Inr y \<longleftrightarrow> (\<exists>x. r = Inr x \<and> f x = Inr y)"
  by (simp add: bindR_def split: sum.split)

lemma wrapErr_Inr [table_simps]: "wrapErr msg r = Inr y \<longleftrightarrow> r = Inr y"
  by (simp add: wrapErr_def split: sum.split)

lemma insertRows_Inr:
  "insertRows fault key row vs t = Inr t' \<Longrightarrow> t' = fold (\<lambda>v. gput (key v) (row v)) vs t"
  by (induction fault key row vs t rule: insertRows.induct) (auto split: option.splits)

lemma deleteRows_Inr: "deleteRows fault ks t = Inr t' \<Longrightarrow> t' = fold gdel ks t"
  by (induction fault ks t rule: deleteRows.induct) (auto split: option.splits)

lemma gget_fold_gdel: "gget (fold gdel ks t) k = (if k \<in> set ks then None else gget t k)"
  by (induction ks arbitrary: t) auto

lemma gwf_fold_gdel: "gwf t \<Longrightarrow> gwf (fold gdel ks t)"
  by (induction ks arbitrary: t) (auto intro: gwf_del)

lemma gwf_fold_rows: "gwf t \<Longrightarrow> gwf (fold (\<lambda>v. gput (key v) (row v)) vs t)"
  by (induction vs arbitrary: t) (auto intro: gwf_put)

lemma gget_fold_rows_other:
  "k \<notin> key ` set vs \<Longrightarrow> gget (fold (\<lambda>v. gput (key v) (row v)) vs t) k = gget t k"
  by (induction vs arbitrary: t) auto

lemma gget_fold_rows:
  "distinct (map key vs) \<Longrightarrow> v \<in> set vs \<Longrightarrow> gget (fold (\<lambda>v. gput (key v) (row v)) vs t) (key v) = Some (row v)"
proof (induction vs arbitrary: t)
  case (Cons w vs)
  show ?case
  proof (cases "v = w")
    case True
    with Cons.prems have "key v \<notin> key ` set vs" by simp
    then show ?thesis using True by (simp add: gget_fold_rows_other)
  next
    case False
    with Cons show ?thesis by simp
  qed
qed simp

text \<open>
  A map \<open>m\<close> whose entries stand under the text \<open>glue (key v)\<close> is written to a table with the keys \<open>key v\<close>. Where \<open>glue\<close>
  is injective on the keys in question the table holds exactly the rows of the map afterwards.
\<close>

definition keyed :: "('k \<Rightarrow> string) \<Rightarrow> ('k \<Rightarrow> bool) \<Rightarrow> ('v \<Rightarrow> 'k) \<Rightarrow> (string, 'v) gomap \<Rightarrow> bool" where
  "keyed glue plain key m \<longleftrightarrow> gwf m \<and> (\<forall>j v. gget m j = Some v \<longrightarrow> glue (key v) = j \<and> plain (key v))"

lemma keyed_distinct:
  assumes "keyed glue plain key m"
  shows "distinct (map key (map snd m))"
proof -
  have e: "map glue (map key (map snd m)) = map fst m"
    using assms by (auto simp: keyed_def gget_iff)
  have "distinct (map glue (map key (map snd m)))"
    unfolding e using assms by (simp add: keyed_def gwf_def)
  then show ?thesis by (rule distinct_map [THEN iffD1, THEN conjunct1])
qed

lemma table_saved:
  assumes m: "keyed glue plain key m" and t: "\<And>k. gget t k \<noteq> None \<Longrightarrow> plain k" and inj: "inj_on glue {k. plain k}"
    and t': "t' = fold gdel (filter (\<lambda>k. gget m (glue k) = None) (map fst t1)) t1"
    and t1: "t1 = fold (\<lambda>v. gput (key v) (row v)) (map snd m) t"
  shows "gget t' k = (if plain k then map_option row (gget m (glue k)) else None)"
proof -
  have put: "gget t1 (key v) = Some (row v)" if "gget m j = Some v" for j v
    unfolding t1 by (rule gget_fold_rows [OF keyed_distinct [OF m]]) (use gget_Some_in [OF that] in force)
  have dom: "plain k" if "gget t1 k \<noteq> None" for k
  proof (cases "k \<in> key ` set (map snd m)")
    case True
    then obtain v where "k = key v" "v \<in> snd ` set m" by auto
    then show ?thesis using m by (auto simp: keyed_def gget_iff)
  next
    case False
    then show ?thesis using that t gget_fold_rows_other [OF False] unfolding t1 by metis
  qed
  show ?thesis
  proof (cases "gget m (glue k)")
    case None
    then have "gget t' k = None"
      unfolding t' gget_fold_gdel using gget_None_iff [of t1 k] by auto
    then show ?thesis using None by simp
  next
    case (Some v)
    then have v: "glue (key v) = glue k" "plain (key v)" using m by (auto simp: keyed_def)
    have "gget t' k = gget t1 k" unfolding t' gget_fold_gdel using Some by simp
    moreover have "gget t1 k = Some (row v)" if "plain k"
      using put [OF Some] inj_onD [OF inj v(1)] v(2) that by simp
    moreover have "gget t1 k = None" if "\<not> plain k" using dom [of k] that by blast
    ultimately show ?thesis using Some by simp
  qed
qed

lemma saveTable_Inr:
  assumes "saveTable faults table item key row m t = Inr t'" and "keyed id (\<lambda>_. True) key m" and "gwf t"
  shows "gget t' k = map_option row (gget m k)" and "gwf t'"
proof -
  let ?t1 = "fold (\<lambda>v. gput (key v) (row v)) (map snd m) t"
  have "t' = fold gdel (filter (\<lambda>k. k \<notin> set (snapshotStringKeys m)) (map fst ?t1)) ?t1"
    using assms(1)
    by (auto simp: saveTable_def deleteMissingStringKeys_def table_simps
        dest!: insertRows_Inr deleteRows_Inr split: option.splits)
  moreover have "(\<lambda>k. k \<notin> set (snapshotStringKeys m)) = (\<lambda>k. gget m (id k) = None)"
    by (auto simp: snapshotStringKeys_def gget_None_iff)
  ultimately have t': "t' = fold gdel (filter (\<lambda>k. gget m (id k) = None) (map fst ?t1)) ?t1" by simp
  show "gget t' k = map_option row (gget m k)"
    using table_saved [OF assms(2) TrueI inj_on_id t' refl, of k] by simp
  show "gwf t'" unfolding t' by (intro gwf_fold_gdel gwf_fold_rows assms(3))
qed

text \<open>The key of an authenticated device determines group and device when the group has no bar.\<close>

definition barless :: "string \<times> string \<Rightarrow> bool" where
  "barless k \<longleftrightarrow> CHR ''|'' \<notin> set (fst k)"

lemma glue_inj: "inj_on (\<lambda>(g, d). authedDeviceKey g d) {k. barless k}"
proof (rule inj_onI)
  fix x y :: "string \<times> string"
  assume "x \<in> {k. barless k}" "y \<in> {k. barless k}" "(\<lambda>(g, d). authedDeviceKey g d) x = (\<lambda>(g, d). authedDeviceKey g d) y"
  then show "x = y"
    using sep_append_inj [of "CHR ''|''" "fst x" "fst y" "snd x" "snd y"]
    by (cases x; cases y) (simp add: barless_def authedDeviceKey_def)
qed

lemma saveCertified_Inr:
  assumes "saveCertified faults tp m t = Inr t'" and "keyed (\<lambda>(g, d). authedDeviceKey g d) barless certifiedKey m"
    and "gwf t" and "\<And>k. gget t k \<noteq> None \<Longrightarrow> barless k"
  shows "gget t' k = (if barless k then map_option (certifiedRow tp) (gget m (authedDeviceKey (fst k) (snd k))) else None)"
    and "gwf t'"
proof -
  let ?glue = "\<lambda>(g, d). authedDeviceKey g d" and ?t1 = "fold (\<lambda>v. gput (certifiedKey v) (certifiedRow tp v)) (map snd m) t"
  have "t' = fold gdel (filter (\<lambda>(g, d). gget m (authedDeviceKey g d) = None) (map fst ?t1)) ?t1"
    using assms(1)
    by (auto simp: saveCertified_def deleteMissingCertifiedDevices_def table_simps
        dest!: insertRows_Inr deleteRows_Inr split: option.splits)
  moreover have "(\<lambda>(g, d). gget m (authedDeviceKey g d) = None) = (\<lambda>k. gget m (?glue k) = None)" by auto
  ultimately have t': "t' = fold gdel (filter (\<lambda>k. gget m (?glue k) = None) (map fst ?t1)) ?t1" by simp
  show "gget t' k = (if barless k then map_option (certifiedRow tp) (gget m (authedDeviceKey (fst k) (snd k))) else None)"
    using table_saved [OF assms(2,4) glue_inj t' refl, of k] by (simp add: case_prod_beta)
  show "gwf t'" unfolding t' by (intro gwf_fold_gdel gwf_fold_rows assms(3))
qed

section \<open>The tables implement the contract\<close>

definition rows_ok :: "('r \<Rightarrow> 'k) \<Rightarrow> ('k, 'r) gomap \<Rightarrow> bool" where
  "rows_ok key t \<longleftrightarrow> gwf t \<and> (\<forall>k r. gget t k = Some r \<longrightarrow> key r = k)"

text \<open>Every row stands under its primary key, and no group name of a device has a bar.\<close>

definition pg_ok :: "pgTables \<Rightarrow> bool" where
  "pg_ok db \<longleftrightarrow>
     rows_ok uu_UserID (pg_users db) \<and> rows_ok po_UserID (pg_policies db) \<and> rows_ok en_Code (pg_enrollments db) \<and>
     rows_ok dr_PubKeyHex (pg_devices db) \<and> rows_ok certifiedKey (pg_certified db) \<and> rows_ok dt_Ticket (pg_tickets db) \<and>
     (\<forall>k. gget (pg_certified db) k \<noteq> None \<longrightarrow> barless k)"

definition pg_storable :: "UMSnapshot \<Rightarrow> bool" where
  "pg_storable s \<longleftrightarrow>
     keyed id (\<lambda>_. True) uu_UserID (sn_Users s) \<and> keyed id (\<lambda>_. True) po_UserID (sn_Policies s) \<and>
     keyed id (\<lambda>_. True) en_Code (sn_Enrollments s) \<and> keyed id (\<lambda>_. True) dv_PubKeyHex (sn_DeviceByPubKey s) \<and>
     keyed (\<lambda>(g, d). authedDeviceKey g d) barless certifiedKey (sn_CertifiedDevices s) \<and>
     keyed id (\<lambda>_. True) dt_Ticket (sn_DeviceTickets s)"

text \<open>What is read back: the same entries, at the precision of the database, and devices without the two fields.\<close>

definition pg_returns :: "(gtime \<Rightarrow> gtime) \<Rightarrow> UMSnapshot \<Rightarrow> UMSnapshot \<Rightarrow> bool" where
  "pg_returns tp s s' \<longleftrightarrow>
     sn_UserSeq s' = sn_UserSeq s \<and> sn_EnrollmentSeq s' = sn_EnrollmentSeq s \<and>
     gwf (sn_Users s') \<and> gget (sn_Users s') = map_option (userRow tp) \<circ> gget (sn_Users s) \<and>
     gwf (sn_Policies s') \<and> gget (sn_Policies s') = map_option (policyRow tp) \<circ> gget (sn_Policies s) \<and>
     gwf (sn_Enrollments s') \<and> gget (sn_Enrollments s') = map_option (enrollmentRow tp) \<circ> gget (sn_Enrollments s) \<and>
     gwf (sn_DeviceByPubKey s') \<and>
     gget (sn_DeviceByPubKey s') = map_option (deviceOfRow \<circ> deviceRow tp) \<circ> gget (sn_DeviceByPubKey s) \<and>
     gwf (sn_CertifiedDevices s') \<and>
     gget (sn_CertifiedDevices s') = map_option (certifiedRow tp) \<circ> gget (sn_CertifiedDevices s) \<and>
     gwf (sn_DeviceTickets s') \<and> gget (sn_DeviceTickets s') = map_option (ticketRow tp) \<circ> gget (sn_DeviceTickets s)"

definition no_faults :: pg_faults where
  "no_faults = (\<lambda>_ _. None)"

lemma scanRows_ok:
  "(\<And>r. fault r = None) \<Longrightarrow> scanRows fault key val rs m = Inr (fold (\<lambda>r. gput (key r) (val r)) rs m)"
  by (induction fault key val rs m rule: scanRows.induct) auto

lemma loadTable_ok:
  "loadTable no_faults table item key val t = Inr (fold (\<lambda>r. gput (key r) (val r)) (map snd t) [])"
  by (simp add: loadTable_def no_faults_def stmtFault_def scanRows_ok bindR_def)

lemma table_loaded:
  assumes m: "keyed glue plain key m" and inj: "inj_on glue {k. plain k}"
    and t: "rows_ok kk t" and lookup: "\<And>k. gget t k = (if plain k then map_option row (gget m (glue k)) else None)"
  shows "gget (fold (\<lambda>r. gput (glue (kk r)) (val r)) (map snd t) []) = map_option (val \<circ> row) \<circ> gget m"
proof
  fix j
  have k: "gget t (kk r) = Some r" "plain (kk r)" if r: "r \<in> snd ` set t" for r
  proof -
    obtain k0 where "(k0, r) \<in> set t" using r by auto
    then have g: "gget t k0 = Some r" and "kk r = k0" using t by (auto simp: rows_ok_def gget_iff)
    then show "gget t (kk r) = Some r" "plain (kk r)" using lookup [of k0] by (simp, metis option.distinct(1))
  qed
  have e: "map kk (map snd t) = map fst t" using t by (auto simp: rows_ok_def gget_iff)
  have d: "distinct (map kk (map snd t))" unfolding e using t by (simp add: rows_ok_def gwf_def)
  have "inj_on glue (kk ` snd ` set t)" by (rule inj_on_subset [OF inj]) (use k in auto)
  with d have dist: "distinct (map (\<lambda>r. glue (kk r)) (map snd t))"
    by (simp add: distinct_map comp_inj_on image_image inj_on_def)
  show "gget (fold (\<lambda>r. gput (glue (kk r)) (val r)) (map snd t) []) j = (map_option (val \<circ> row) \<circ> gget m) j"
  proof (cases "gget m j")
    case None
    have "j \<notin> (\<lambda>r. glue (kk r)) ` set (map snd t)"
    proof
      assume "j \<in> (\<lambda>r. glue (kk r)) ` set (map snd t)"
      then obtain r where "r \<in> snd ` set t" "j = glue (kk r)" by auto
      then show False using k [of r] lookup [of "kk r"] None by simp
    qed
    from gget_fold_rows_other [OF this, of val "[]"] show ?thesis using None by simp
  next
    case (Some v)
    then have v: "glue (key v) = j" "plain (key v)" using m by (auto simp: keyed_def)
    then have r: "gget t (key v) = Some (row v)" using lookup Some by simp
    then have "row v \<in> set (map snd t)" "kk (row v) = key v"
      using t gget_Some_in [OF r] by (force, simp add: rows_ok_def)
    then show ?thesis using gget_fold_rows [OF dist, of "row v" val] v Some by simp
  qed
qed

lemma string_table_loaded:
  assumes "keyed id (\<lambda>_. True) key m" and "rows_ok kk t" and "\<And>k. gget t k = map_option row (gget m k)"
  shows "gget (fold (\<lambda>r. gput (kk r) (val r)) (map snd t) []) = map_option (val \<circ> row) \<circ> gget m"
  using table_loaded [OF assms(1) inj_on_id assms(2), of row val] assms(3) by (simp add: comp_def)

lemma rows_okI:
  assumes "gwf t" and "\<And>k. gget t k = map_option row (gget m k)" and "keyed id (\<lambda>_. True) key m" and "\<And>v. kk (row v) = key v"
  shows "rows_ok kk t"
  using assms by (auto simp: rows_ok_def keyed_def)

lemma certified_rows_ok:
  assumes m: "keyed (\<lambda>(g, d). authedDeviceKey g d) barless certifiedKey m"
    and t: "\<And>k. gget t k = (if barless k then map_option (certifiedRow tp) (gget m (authedDeviceKey (fst k) (snd k))) else None)"
    and "gwf t"
  shows "rows_ok certifiedKey t"
proof -
  have "certifiedKey r = k" if "gget t k = Some r" for k r
  proof -
    from that obtain v where v: "gget m (authedDeviceKey (fst k) (snd k)) = Some v" "r = certifiedRow tp v" and k: "barless k"
      by (auto simp: t split: if_splits)
    have "(\<lambda>(g, d). authedDeviceKey g d) (certifiedKey v) = (\<lambda>(g, d). authedDeviceKey g d) k" "barless (certifiedKey v)"
      using m v(1) by (auto simp: keyed_def case_prod_beta)
    then have "certifiedKey v = k" using inj_onD [OF glue_inj] k by blast
    then show ?thesis by (simp add: v(2) certifiedKey_def certifiedRow_def)
  qed
  then show ?thesis using assms(3) by (simp add: rows_ok_def)
qed

text \<open>A transaction that reaches its end leaves tables with exactly the rows of the snapshot.\<close>

definition holds :: "(gtime \<Rightarrow> gtime) \<Rightarrow> UMSnapshot \<Rightarrow> pgTables \<Rightarrow> bool" where
  "holds tp s db \<longleftrightarrow> pg_ok db \<and>
     (\<forall>k. gget (pg_users db) k = map_option (userRow tp) (gget (sn_Users s) k) \<and>
        gget (pg_policies db) k = map_option (policyRow tp) (gget (sn_Policies s) k) \<and>
        gget (pg_enrollments db) k = map_option (enrollmentRow tp) (gget (sn_Enrollments s) k) \<and>
        gget (pg_devices db) k = map_option (deviceRow tp) (gget (sn_DeviceByPubKey s) k) \<and>
        gget (pg_tickets db) k = map_option (ticketRow tp) (gget (sn_DeviceTickets s) k)) \<and>
     (\<forall>k. gget (pg_certified db) k =
        (if barless k then map_option (certifiedRow tp) (gget (sn_CertifiedDevices s) (authedDeviceKey (fst k) (snd k))) else None)) \<and>
     gget (pg_sequences db) ''user_seq'' = Some (sn_UserSeq s) \<and>
     gget (pg_sequences db) ''enrollment_seq'' = Some (sn_EnrollmentSeq s)"

lemmas row_defs = userRow_def policyRow_def enrollmentRow_def deviceRow_def certifiedRow_def ticketRow_def

lemma saveSeq_Inr [table_simps]: "saveSeq faults name v t = Inr t' \<Longrightarrow> t' = gput name v t"
  by (simp add: saveSeq_def split: option.splits)

lemma saveTx_holds:
  assumes "saveTx faults tp s db = Inr tx" and db: "pg_ok db" and s: "pg_storable s"
  shows "holds tp s tx"
proof -
  obtain us es ds cs ps ts q1 q2 where
    u: "saveTable faults ''um_users'' ''um_user'' uu_UserID (userRow tp) (sn_Users s) (pg_users db) = Inr us" and
    e: "saveTable faults ''um_enrollments'' ''um_enrollment'' en_Code (enrollmentRow tp) (sn_Enrollments s)
          (pg_enrollments db) = Inr es" and
    d: "saveTable faults ''um_devices'' ''um_device'' dv_PubKeyHex (deviceRow tp) (sn_DeviceByPubKey s)
          (pg_devices db) = Inr ds" and
    c: "saveCertified faults tp (sn_CertifiedDevices s) (pg_certified db) = Inr cs" and
    p: "saveTable faults ''um_policies'' ''um_policy'' po_UserID (policyRow tp) (sn_Policies s) (pg_policies db) = Inr ps" and
    t: "saveTable faults ''um_device_tickets'' ''um_device_ticket'' dt_Ticket (ticketRow tp) (sn_DeviceTickets s)
          (pg_tickets db) = Inr ts" and
    q: "saveSeq faults ''user_seq'' (sn_UserSeq s) (pg_sequences db) = Inr q1" and
    tx: "saveSeq faults ''enrollment_seq'' (sn_EnrollmentSeq s) q1 = Inr q2"
      "tx = \<lparr>pg_users = us, pg_policies = ps, pg_enrollments = es, pg_devices = ds, pg_certified = cs, pg_tickets = ts,
        pg_sequences = q2\<rparr>"
    using assms(1) by (auto simp: saveTx_def bindR_Inr)
  note k = s [unfolded pg_storable_def]
  note w = db [unfolded pg_ok_def rows_ok_def]
  have wf: "gwf (pg_users db)" "gwf (pg_enrollments db)" "gwf (pg_devices db)" "gwf (pg_certified db)"
      "gwf (pg_policies db)" "gwf (pg_tickets db)" using w by simp_all
  have ks: "keyed id (\<lambda>_. True) uu_UserID (sn_Users s)" "keyed id (\<lambda>_. True) po_UserID (sn_Policies s)"
      "keyed id (\<lambda>_. True) en_Code (sn_Enrollments s)" "keyed id (\<lambda>_. True) dv_PubKeyHex (sn_DeviceByPubKey s)"
      "keyed (\<lambda>(g, d). authedDeviceKey g d) barless certifiedKey (sn_CertifiedDevices s)"
      "keyed id (\<lambda>_. True) dt_Ticket (sn_DeviceTickets s)" using k by simp_all
  note U = saveTable_Inr [OF u ks(1) wf(1)] and P = saveTable_Inr [OF p ks(2) wf(5)]
  note E = saveTable_Inr [OF e ks(3) wf(2)] and D = saveTable_Inr [OF d ks(4) wf(3)]
  note T = saveTable_Inr [OF t ks(6) wf(6)]
  have "barless k" if "gget (pg_certified db) k \<noteq> None" for k using w that by blast
  note C = saveCertified_Inr [OF c ks(5) wf(4) this]
  have rc: "rows_ok certifiedKey cs"
    by (rule certified_rows_ok [OF ks(5) C])
  have "rows_ok uu_UserID us" by (rule rows_okI [OF U(2,1) ks(1)]) (simp add: row_defs)
  moreover have "rows_ok po_UserID ps" by (rule rows_okI [OF P(2,1) ks(2)]) (simp add: row_defs)
  moreover have "rows_ok en_Code es" by (rule rows_okI [OF E(2,1) ks(3)]) (simp add: row_defs)
  moreover have "rows_ok dr_PubKeyHex ds" by (rule rows_okI [OF D(2,1) ks(4)]) (simp add: row_defs)
  moreover have "rows_ok dt_Ticket ts" by (rule rows_okI [OF T(2,1) ks(6)]) (simp add: row_defs)
  ultimately have "pg_ok tx" using rc C(1) by (simp add: pg_ok_def tx(2))
  then show ?thesis
    using U(1) P(1) E(1) D(1) T(1) C(1) saveSeq_Inr [OF q] saveSeq_Inr [OF tx(1)]
    by (simp add: holds_def tx(2) del: split_paired_All)
qed

lemma loadSeq_ok: "gget t name = Some v \<Longrightarrow> loadSeq no_faults name t = v"
  by (simp add: loadSeq_def no_faults_def)

lemma holds_returns:
  assumes h: "holds tp s db" and s: "pg_storable s"
  shows "\<exists>s'. PostgresUMStore_Load no_faults db = Inr s' \<and> pg_returns tp s s'"
proof -
  note k = s [unfolded pg_storable_def]
  have r: "rows_ok uu_UserID (pg_users db)" "rows_ok po_UserID (pg_policies db)" "rows_ok en_Code (pg_enrollments db)"
    "rows_ok dr_PubKeyHex (pg_devices db)" "rows_ok certifiedKey (pg_certified db)" "rows_ok dt_Ticket (pg_tickets db)"
    using h by (simp_all add: holds_def pg_ok_def)
  have l: "gget (pg_users db) j = map_option (userRow tp) (gget (sn_Users s) j)"
    "gget (pg_policies db) j = map_option (policyRow tp) (gget (sn_Policies s) j)"
    "gget (pg_enrollments db) j = map_option (enrollmentRow tp) (gget (sn_Enrollments s) j)"
    "gget (pg_devices db) j = map_option (deviceRow tp) (gget (sn_DeviceByPubKey s) j)"
    "gget (pg_tickets db) j = map_option (ticketRow tp) (gget (sn_DeviceTickets s) j)" for j
    using h by (simp_all add: holds_def)
  have "gget (pg_certified db) k =
      (if barless k then map_option (certifiedRow tp) (gget (sn_CertifiedDevices s) ((\<lambda>(g, d). authedDeviceKey g d) k)) else None)" for k
    using h unfolding holds_def by (cases k) simp
  from table_loaded [OF _ glue_inj r(5) this, of certifiedKey "\<lambda>c. c"]
  have c: "gget (fold (\<lambda>r. gput (authedDeviceKey (ad_GroupName r) (ad_DeviceID r)) r) (map snd (pg_certified db)) []) =
      map_option (certifiedRow tp) \<circ> gget (sn_CertifiedDevices s)"
    using k by (simp add: certifiedKey_def comp_def)
  show ?thesis
    using k c string_table_loaded [OF _ r(1) l(1), of uu_UserID "\<lambda>u. u"] string_table_loaded [OF _ r(2) l(2), of po_UserID "\<lambda>u. u"]
      string_table_loaded [OF _ r(3) l(3), of en_Code "\<lambda>u. u"] string_table_loaded [OF _ r(4) l(4), of dv_PubKeyHex deviceOfRow]
      string_table_loaded [OF _ r(6) l(5), of dt_Ticket "\<lambda>u. u"] h
    by (simp add: PostgresUMStore_Load_def loadTable_ok bindR_def pg_returns_def loadSeq_ok holds_def gwf_fold_rows comp_def)
qed

lemma Save_done:
  assumes "pg_ok db" and "pg_storable s" and "fst (PostgresUMStore_Save tp faults s db) = None"
  shows "holds tp s (snd (PostgresUMStore_Save tp faults s db))"
  using assms saveTx_holds by (auto simp: PostgresUMStore_Save_def split: option.splits sum.splits)

lemma Save_failed:
  "fst (PostgresUMStore_Save tp faults s db) \<noteq> None \<Longrightarrow> snd (PostgresUMStore_Save tp faults s db) = db"
  by (simp add: PostgresUMStore_Save_def split: option.splits sum.splits)

interpretation pum: snapshot_store pg_ok "PostgresUMStore_Load no_faults" "PostgresUMStore_Save tp" pg_storable "pg_returns tp" for tp
proof unfold_locales
  fix d s f
  assume d: "pg_ok d" and s: "pg_storable s"
  show "pg_ok (snd (PostgresUMStore_Save tp f s d))"
    using Save_done [OF d s] Save_failed [of tp f s d] d by (metis holds_def)
next
  fix d s f
  assume "pg_ok d" and "pg_storable s" and "fst (PostgresUMStore_Save tp f s d) = None"
  then show "\<exists>s'. PostgresUMStore_Load no_faults (snd (PostgresUMStore_Save tp f s d)) = Inr s' \<and> pg_returns tp s s'"
    using Save_done holds_returns by blast
next
  fix d s f
  assume "fst (PostgresUMStore_Save tp f s d) \<noteq> None"
  then show "PostgresUMStore_Load no_faults (snd (PostgresUMStore_Save tp f s d)) = PostgresUMStore_Load no_faults d"
    by (simp add: Save_failed)
qed

section \<open>A restart from the database\<close>

text \<open>
  A user manager that the database can hold: the invariant, devices without surrounding space in their names, policies
  under their user, and no bar in a group name.
\<close>

definition database_ready :: "UserManager \<Rightarrow> bool" where
  "database_ready m \<longleftrightarrow> um_wf m \<and> trimmed_devices m \<and>
     (\<forall>k p. gget (um_policies m) k = Some p \<longrightarrow> po_UserID p = k) \<and>
     (\<forall>k r. gget (um_authedDevices m) k = Some r \<longrightarrow> CHR ''|'' \<notin> set (ad_GroupName r))"

definition survives :: "(gtime \<Rightarrow> gtime) \<Rightarrow> UserManager \<Rightarrow> UserManager \<Rightarrow> bool" where
  "survives tp m m' \<longleftrightarrow>
     um_userSeq m' = um_userSeq m \<and> um_enrollmentSeq m' = um_enrollmentSeq m \<and>
     (\<forall>k. gget (um_users m') k = map_option (userRow tp) (gget (um_users m) k) \<and>
        gget (um_policies m') k = map_option (policyRow tp) (gget (um_policies m) k) \<and>
        gget (um_enrollments m') k = map_option (enrollmentRow tp) (gget (um_enrollments m) k) \<and>
        gget (um_deviceByPubKey m') k = map_option (deviceOfRow \<circ> deviceRow tp) (gget (um_deviceByPubKey m) k) \<and>
        gget (um_authedDevices m') k = map_option (certifiedRow tp) (gget (um_authedDevices m) k) \<and>
        gget (um_deviceTickets m') k = map_option (ticketRow tp) (gget (um_deviceTickets m) k))"

lemma keyed_clone: "gwf m \<Longrightarrow> (\<And>k v. gget m k = Some v \<Longrightarrow> key v = k) \<Longrightarrow> keyed id (\<lambda>_. True) key (cloneMap m)"
  by (simp add: keyed_def gwf_cloneMap)

lemma ready_storable:
  assumes "database_ready m"
  shows "pg_storable (snapshotLocked m)"
proof -
  note r = assms [unfolded database_ready_def]
  have "keyed (\<lambda>(g, d). authedDeviceKey g d) barless certifiedKey (cloneAuthedDevices (um_authedDevices m))"
    using r clone_trimmed [of m] by (auto simp: keyed_def gwf_cloneAuthedDevices certifiedKey_def barless_def um_wf_def)
  then show ?thesis
    using r by (simp add: pg_storable_def snapshotLocked_def keyed_clone um_wf_def)
qed

lemma restored_survives:
  assumes m: "database_ready m" and s': "pg_returns tp (snapshotLocked m) s'"
  shows "survives tp m (restore now s' NewUserManager)"
proof -
  have w: "um_wf m" "trimmed_devices m" using m by (simp_all add: database_ready_def)
  note g = w(1) [unfolded um_wf_def] and l = s' [unfolded pg_returns_def]
  have look: "gget (sn_Users s') k = map_option (userRow tp) (gget (um_users m) k)"
    "gget (sn_Policies s') k = map_option (policyRow tp) (gget (um_policies m) k)"
    "gget (sn_Enrollments s') k = map_option (enrollmentRow tp) (gget (um_enrollments m) k)"
    "gget (sn_DeviceByPubKey s') k = map_option (deviceOfRow \<circ> deviceRow tp) (gget (um_deviceByPubKey m) k)"
    "gget (sn_DeviceTickets s') k = map_option (ticketRow tp) (gget (um_deviceTickets m) k)"
    "gget (sn_CertifiedDevices s') k = map_option (certifiedRow tp) (gget (um_authedDevices m) k)" for k
    using l g clone_trimmed [OF w] by (simp_all add: snapshotLocked_def)
  have wf: "gwf (sn_Users s')" "gwf (sn_Policies s')" "gwf (sn_CertifiedDevices s')" "gwf (sn_Enrollments s')"
    "gwf (sn_DeviceByPubKey s')" "gwf (sn_DeviceTickets s')" using l by simp_all
  have seq: "sn_UserSeq s' = um_userSeq m" "sn_EnrollmentSeq s' = um_enrollmentSeq m"
    using l by (simp_all add: snapshotLocked_def)
  have "gget (cloneMap (sn_Policies s')) k \<noteq> None" if "(k, u) \<in> set (cloneMap (sn_Users s'))" for k u
  proof -
    have "gget (um_users m) k \<noteq> None" using that wf look(1) [of k] by (auto simp: gget_iff [OF gwf_cloneMap, symmetric])
    then have "gget (um_policies m) k \<noteq> None" using g by auto
    then show ?thesis using look(2) wf by simp
  qed
  note idle = fold_policies_idle [OF this]
  have "gget (cloneAuthedDevices (sn_CertifiedDevices s')) k = gget (sn_CertifiedDevices s') k" for k
  proof (rule gget_cloneAuthedDevices [OF wf(3)])
    fix k v
    assume "(k, v) \<in> set (sn_CertifiedDevices s')"
    then obtain r where "gget (um_authedDevices m) k = Some r" "v = certifiedRow tp r"
      using look(6) wf(3) by (auto simp: gget_iff [symmetric])
    moreover from this have "rekeyed k v = rekeyed k r" by (simp add: rekeyed_def certifiedRow_def)
    ultimately show "rekeyed k v = k" using rekeyed_trimmed [OF w] by simp
  qed
  then show ?thesis
    by (simp add: survives_def restore_def idle look wf seq)
qed

text \<open>\<^verbatim>\<open>saveLocked\<close> with this store, and the construction of the manager at the next start.\<close>

definition saveManager :: "(gtime \<Rightarrow> gtime) \<Rightarrow> pg_faults \<Rightarrow> UserManager \<Rightarrow> pgTables \<Rightarrow> string option \<times> pgTables" where
  "saveManager tp faults m = PostgresUMStore_Save tp faults (snapshotLocked m)"

definition reloadManager :: "gtime \<Rightarrow> pgTables \<Rightarrow> UserManager result" where
  "reloadManager now db = NewUserManagerWithStore now (PostgresUMStore_Load no_faults db)"

interpretation mum: snapshot_store pg_ok "reloadManager now" "saveManager tp" database_ready "survives tp" for now tp
proof unfold_locales
  fix d m f
  assume d: "pg_ok d" and m: "database_ready m"
  show "pg_ok (snd (saveManager tp f m d))"
    unfolding saveManager_def by (rule pum.inv_save [OF d ready_storable [OF m]])
  show "\<exists>m'. reloadManager now (snd (saveManager tp f m d)) = Inr m' \<and> survives tp m m'" if ok: "fst (saveManager tp f m d) = None"
  proof -
    obtain s' where "PostgresUMStore_Load no_faults (snd (saveManager tp f m d)) = Inr s'" "pg_returns tp (snapshotLocked m) s'"
      using pum.save_done [OF d ready_storable [OF m]] ok [unfolded saveManager_def] unfolding saveManager_def by blast
    then show ?thesis using restored_survives [OF m] by (simp add: reloadManager_def NewUserManagerWithStore_def)
  qed
  show "reloadManager now (snd (saveManager tp f m d)) = reloadManager now d" if "fst (saveManager tp f m d) \<noteq> None"
    using that by (simp add: Save_failed saveManager_def reloadManager_def)
qed

lemma insertRows_ok: "(\<And>k. fault k = None) \<Longrightarrow> \<exists>t'. insertRows fault key row vs t = Inr t'"
  by (induction fault key row vs t rule: insertRows.induct) simp_all

lemma deleteRows_ok: "(\<And>k. fault k = None) \<Longrightarrow> \<exists>t'. deleteRows fault ks t = Inr t'"
  by (induction fault ks t rule: deleteRows.induct) simp_all

lemma bindR_ok: "\<exists>x. r = Inr x \<Longrightarrow> (\<And>x. \<exists>y. f x = Inr y) \<Longrightarrow> \<exists>y. bindR r f = Inr y"
  by (auto simp: bindR_def)

lemma wrapErr_ok: "\<exists>x. r = Inr x \<Longrightarrow> \<exists>x. wrapErr msg r = Inr x"
  by (auto simp: wrapErr_def)

lemma saveTable_ok: "\<exists>t'. saveTable no_faults table item key row src t = Inr t'"
  unfolding saveTable_def deleteMissingStringKeys_def no_faults_def option.case
  by (intro bindR_ok wrapErr_ok insertRows_ok deleteRows_ok) (simp_all add: stmtFault_def)

lemma saveCertified_ok: "\<exists>t'. saveCertified no_faults tp src t = Inr t'"
  unfolding saveCertified_def deleteMissingCertifiedDevices_def no_faults_def option.case
  by (intro bindR_ok wrapErr_ok insertRows_ok deleteRows_ok) (simp_all split: prod.split)

lemma Save_succeeds: "fst (PostgresUMStore_Save tp no_faults s db) = None"
proof -
  have "\<exists>t'. saveSeq no_faults name v t = Inr t'" for name v t by (simp add: saveSeq_def no_faults_def)
  then have "\<exists>tx. saveTx no_faults tp s db = Inr tx"
    unfolding saveTx_def by (intro bindR_ok saveTable_ok saveCertified_ok) simp_all
  moreover have "no_faults stmt args = None" for stmt args by (simp add: no_faults_def)
  ultimately show ?thesis by (auto simp: PostgresUMStore_Save_def)
qed

section \<open>Properties\<close>


definition sample_db :: pgTables where
  "sample_db = \<lparr>pg_users = [], pg_policies = [], pg_enrollments = [], pg_devices = [], pg_certified = [], pg_tickets = [],
     pg_sequences = []\<rparr>"

definition micro :: "gtime \<Rightarrow> gtime" where
  "micro t = t div 1000 * 1000"

text \<open>A save whose second insert fails comes after a save that succeeds.\<close>

definition sample_faults :: pg_faults where
  "sample_faults stmt args = (if stmt = ''insert um_users'' \<and> args = [''sdl-2''] then Some ''broken pipe'' else None)"

definition sample_saves :: "(pg_faults \<times> UserManager) list" where
  "sample_saves = [(no_faults, sample_named), (sample_faults, sample_named\<lparr>um_userSeq := 9\<rparr>)]"

lemma sample_named_ready: "database_ready (sample_named\<lparr>um_userSeq := n\<rparr>)"
proof -
  have "TrimSpace ''home.ms.net'' = ''home.ms.net''" "TrimSpace ''dev-a'' = ''dev-a''" "TrimSpace ''dev-b'' = ''dev-b''"
    by code_simp+
  then have "trimmed_devices (sample_named\<lparr>um_userSeq := n\<rparr>)"
    by (simp add: trimmed_devices_def sample_named_def named_device_def)
  moreover have "um_wf (sample_named\<lparr>um_userSeq := n\<rparr>)" using sample_named_wf by (simp add: um_wf_def)
  ultimately show ?thesis
    by (simp add: database_ready_def) (simp add: sample_named_def sample_um_def generateBasicPolicyLocked_def named_device_def)
qed

lemma sample_last_saved: "last_saved (saveManager micro) sample_saves sample_db = Some sample_named"
proof -
  have "fst (saveManager micro sample_faults (sample_named\<lparr>um_userSeq := 9\<rparr>) d) \<noteq> None" for d
    by (simp add: saveManager_def PostgresUMStore_Save_def saveTx_def saveTable_def snapshotLocked_def sample_named_def
        sample_um_def cloneMap_def sample_faults_def stmtFault_def bindR_def)
  then show ?thesis using Save_succeeds by (simp add: sample_saves_def saveManager_def del: not_None_eq)
qed


end
