(* ===== verification/Exit_Store.thy ===== *)
theory Exit_Store
  imports Stores Controller
begin

text \<open>
  The approvals of exit nodes in the database, from \<^verbatim>\<open>control/store/postgres.go\<close>: the table
  \<^verbatim>\<open>control_exit_node_approvals\<close> with the primary key of user and device, its three statements, and the operations of
  \<^verbatim>\<open>control/exit_node.go\<close> on top of it. The copy in memory and the table stay the same set of pairs. The clock of the
  database is an argument; a statement that fails changes nothing.
\<close>

section \<open>The table\<close>

record exitApprovalRow =
  ea_approvedBy :: string
  ea_approvedAt :: gtime
  ea_revokedAt :: "gtime option"
  ea_updatedAt :: gtime

type_synonym exit_table = "(string \<times> string, exitApprovalRow) gomap"

definition store_ApproveExitNode ::
    "string option \<Rightarrow> gtime \<Rightarrow> string \<Rightarrow> string \<Rightarrow> string \<Rightarrow> exit_table \<Rightarrow> string option \<times> exit_table" where
  "store_ApproveExitNode fault now userID deviceID approvedBy t =
     (case fault of
        Some err \<Rightarrow> (Some (''approve exit-node: '' @ err), t)
      | None \<Rightarrow> (None, gput (userID, deviceID)
                    \<lparr>ea_approvedBy = approvedBy, ea_approvedAt = now, ea_revokedAt = None, ea_updatedAt = now\<rparr> t))"

text \<open>\<open>uncounted\<close> is the error of \<^verbatim>\<open>RowsAffected\<close>, after the statement has run.\<close>

definition store_RevokeExitNode ::
    "string option \<Rightarrow> string option \<Rightarrow> gtime \<Rightarrow> string \<Rightarrow> string \<Rightarrow> exit_table \<Rightarrow> string option \<times> exit_table" where
  "store_RevokeExitNode fault uncounted now userID deviceID t =
     (case fault of
        Some err \<Rightarrow> (Some (''revoke exit-node: '' @ err), t)
      | None \<Rightarrow>
          (let active = (case gget t (userID, deviceID) of Some r \<Rightarrow> ea_revokedAt r = None | None \<Rightarrow> False);
               t' = (if active
                     then (case gget t (userID, deviceID) of
                             Some r \<Rightarrow> gput (userID, deviceID) (r\<lparr>ea_revokedAt := Some now, ea_updatedAt := now\<rparr>) t
                           | None \<Rightarrow> t)
                     else t)
           in case uncounted of
                Some err \<Rightarrow> (Some (''revoke exit-node rows affected: '' @ err), t')
              | None \<Rightarrow> (if active then None else Some no_rows, t')))"

definition ListActiveExitNodeApprovals :: "string option \<Rightarrow> exit_table \<Rightarrow> (string \<times> string) list result" where
  "ListActiveExitNodeApprovals fault t =
     (case fault of
        Some err \<Rightarrow> Inl err
      | None \<Rightarrow> Inr (map fst (filter (\<lambda>(_, r). ea_revokedAt r = None) t)))"

definition exit_active :: "exit_table \<Rightarrow> string \<Rightarrow> string \<Rightarrow> bool" where
  "exit_active t userID deviceID \<longleftrightarrow> (\<exists>r. gget t (userID, deviceID) = Some r \<and> ea_revokedAt r = None)"

section \<open>Approval and revocation with this table\<close>

text \<open>
  The store that the operations of \<^verbatim>\<open>exit_node.go\<close> call, and the table after the call: an operation calls the store
  once, with the trimmed identifiers, and only when its own checks pass; when they fail it returns an error before the
  call, as does a statement that failed and left the table as it was. A revocation whose count fails has changed the table.
\<close>

record exit_faults =
  ef_approve :: "string option"
  ef_revoke :: "string option"
  ef_uncounted :: "string option"

definition pgExitStore :: "exit_faults \<Rightarrow> gtime \<Rightarrow> exit_table \<Rightarrow> exit_store" where
  "pgExitStore f now t =
     \<lparr>es_approve = \<lambda>u d. fst (store_ApproveExitNode (ef_approve f) now u d ''sdl-admin'' t),
      es_revoke = \<lambda>u d. fst (store_RevokeExitNode (ef_revoke f) (ef_uncounted f) now u d t)\<rparr>"

definition approveStored ::
    "exit_faults \<Rightarrow> gtime \<Rightarrow> UserManager \<Rightarrow> string \<Rightarrow> string \<Rightarrow> exit_approvals \<times> exit_table \<Rightarrow> unit result \<times> exit_approvals \<times> exit_table" where
  "approveStored f now m userID deviceID st =
     (case ApproveExitNode (Some (pgExitStore f now (snd st))) m userID deviceID (fst st) of
        (Inl err, approved) \<Rightarrow> (Inl err, approved, snd st)
      | (Inr u, approved) \<Rightarrow>
          (Inr u, approved, snd (store_ApproveExitNode (ef_approve f) now (TrimSpace userID) (TrimSpace deviceID) ''sdl-admin'' (snd st))))"

definition revokeStored ::
    "exit_faults \<Rightarrow> gtime \<Rightarrow> string \<Rightarrow> string \<Rightarrow> exit_approvals \<times> exit_table \<Rightarrow> unit result \<times> exit_approvals \<times> exit_table" where
  "revokeStored f now userID deviceID st =
     (case RevokeExitNode (Some (pgExitStore f now (snd st))) userID deviceID (fst st) of
        (r, approved) \<Rightarrow>
          (r, approved,
           if TrimSpace userID = [] \<or> TrimSpace deviceID = [] \<or> \<not> exit_approved (fst st) (TrimSpace userID) (TrimSpace deviceID)
           then snd st
           else snd (store_RevokeExitNode (ef_revoke f) (ef_uncounted f) now (TrimSpace userID) (TrimSpace deviceID) (snd st))))"

section \<open>Memory and table\<close>

text \<open>
  The invariant: the same pairs are approved in memory and active in the table, no key occurs twice, and the
  identifiers in the table are those that a restart reads, not empty and without surrounding space.
\<close>

definition exit_sync :: "exit_approvals \<times> exit_table \<Rightarrow> bool" where
  "exit_sync st \<longleftrightarrow>
     (\<forall>u d. exit_approved (fst st) u d \<longleftrightarrow> exit_active (snd st) u d) \<and> gwf (snd st) \<and>
     (\<forall>u d r. gget (snd st) (u, d) = Some r \<longrightarrow> u \<noteq> [] \<and> d \<noteq> [] \<and> TrimSpace u = u \<and> TrimSpace d = d)"

datatype exit_op =
  ExApprove exit_faults gtime UserManager string string
| ExRevoke exit_faults gtime string string

fun exit_step :: "exit_op \<Rightarrow> exit_approvals \<times> exit_table \<Rightarrow> exit_approvals \<times> exit_table" where
  "exit_step (ExApprove f now m u d) st = snd (approveStored f now m u d st)"
| "exit_step (ExRevoke f now u d) st = snd (revokeStored f now u d st)"

fun counted :: "exit_op \<Rightarrow> bool" where
  "counted (ExApprove _ _ _ _ _) = True"
| "counted (ExRevoke f _ _ _) = (ef_uncounted f = None)"

definition exit_history :: "exit_op list \<Rightarrow> exit_approvals \<times> exit_table" where
  "exit_history ops = fold exit_step ops ([], [])"

lemma exit_approved_put:
  "exit_approved (gput u (gput d True (case gget a u of Some ds \<Rightarrow> ds | None \<Rightarrow> [])) a) u' d' \<longleftrightarrow>
     (u', d') = (u, d) \<or> exit_approved a u' d'"
  by (simp add: exit_approved_def split: option.split)

lemma exit_approved_del:
  assumes "devices = gdel d (case gget a u of Some ds \<Rightarrow> ds | None \<Rightarrow> [])"
  shows "exit_approved (if devices = [] then gdel u a else gput u devices a) u' d' \<longleftrightarrow>
    (u', d') \<noteq> (u, d) \<and> exit_approved a u' d'"
proof (cases "u' = u")
  case True
  have "gget devices d' = (if d' = d then None else (case gget a u of Some ds \<Rightarrow> gget ds d' | None \<Rightarrow> None))"
    unfolding assms by (simp split: option.split)
  moreover have "devices = [] \<Longrightarrow> gget devices d' = None" by simp
  ultimately show ?thesis using True
    by (cases "devices = []") (simp_all add: exit_approved_def split: option.splits if_splits)
next
  case False
  then show ?thesis by (simp add: exit_approved_def)
qed

lemma approve_sync:
  assumes "exit_sync st"
  shows "exit_sync (snd (approveStored f now m userID deviceID st))"
proof -
  obtain a t where st: "st = (a, t)" by (cases st)
  let ?u = "TrimSpace userID" and ?d = "TrimSpace deviceID"
  obtain r a' where r: "ApproveExitNode (Some (pgExitStore f now t)) m userID deviceID a = (r, a')" by (metis surj_pair)
  show ?thesis
  proof (cases r)
    case (Inl err)
    then have "a' = a" using r by (auto simp: ApproveExitNode_def Let_def split: if_splits option.splits)
    then show ?thesis using assms r Inl by (simp add: approveStored_def st)
  next
    case (Inr u)
    then have ok: "?u \<noteq> []" "?d \<noteq> []" "ef_approve f = None"
        "a' = gput ?u (gput ?d True (case gget a ?u of Some ds \<Rightarrow> ds | None \<Rightarrow> [])) a"
      using r by (auto simp: ApproveExitNode_def Let_def pgExitStore_def store_ApproveExitNode_def split: if_splits option.splits)
    then have "snd (approveStored f now m userID deviceID st) =
        (a', gput (?u, ?d) \<lparr>ea_approvedBy = ''sdl-admin'', ea_approvedAt = now, ea_revokedAt = None, ea_updatedAt = now\<rparr> t)"
      using r Inr by (simp add: approveStored_def st store_ApproveExitNode_def)
    then show ?thesis
      using assms ok unfolding exit_sync_def
      by (simp add: st exit_approved_put exit_active_def gwf_put) metis
  qed
qed

lemma revoke_sync:
  assumes "exit_sync st" and "ef_uncounted f = None"
  shows "exit_sync (snd (revokeStored f now userID deviceID st))"
proof -
  obtain a t where st: "st = (a, t)" by (cases st)
  let ?u = "TrimSpace userID" and ?d = "TrimSpace deviceID"
  show ?thesis
  proof (cases "?u = [] \<or> ?d = [] \<or> \<not> exit_approved a ?u ?d")
    case True
    then have "snd (revokeStored f now userID deviceID st) = st"
      by (auto simp: revokeStored_def RevokeExitNode_def Let_def st)
    then show ?thesis using assms by simp
  next
    case False
    then obtain r where r: "gget t (?u, ?d) = Some r" "ea_revokedAt r = None"
      using assms(1) by (auto simp: exit_sync_def exit_active_def st)
    define devices where "devices = gdel ?d (case gget a ?u of Some ds \<Rightarrow> ds | None \<Rightarrow> [])"
    show ?thesis
    proof (cases "ef_revoke f")
      case None
      then have "snd (revokeStored f now userID deviceID st) =
          (if devices = [] then gdel ?u a else gput ?u devices a,
           gput (?u, ?d) (r\<lparr>ea_revokedAt := Some now, ea_updatedAt := now\<rparr>) t)"
        using False r assms(2)
        by (simp add: revokeStored_def RevokeExitNode_def Let_def st pgExitStore_def store_RevokeExitNode_def devices_def)
      then show ?thesis
        using assms(1) r unfolding exit_sync_def
        by (simp add: st exit_approved_del [OF devices_def] exit_active_def gwf_put) metis
    next
      case (Some err)
      then have "snd (revokeStored f now userID deviceID st) = st"
        using False by (simp add: revokeStored_def RevokeExitNode_def Let_def st pgExitStore_def store_RevokeExitNode_def)
      then show ?thesis using assms by simp
    qed
  qed
qed

lemma exit_history_sync:
  "exit_sync st \<Longrightarrow> \<forall>op \<in> set ops. counted op \<Longrightarrow> exit_sync (fold exit_step ops st)"
proof (induction ops arbitrary: st)
  case (Cons op ops)
  have "exit_sync (exit_step op st)"
    using Cons.prems by (cases op) (simp_all add: approve_sync revoke_sync)
  then show ?case using Cons by simp
qed simp

lemma fold_load_approvals:
  assumes "\<forall>(u, d) \<in> set rows. u \<noteq> [] \<and> d \<noteq> [] \<and> TrimSpace u = u \<and> TrimSpace d = d"
  shows "exit_approved (fold (\<lambda>(user, device) approved.
            let userID = TrimSpace user; deviceID = TrimSpace device;
                devices = (case gget approved userID of Some d \<Rightarrow> d | None \<Rightarrow> [])
            in if userID = [] \<or> deviceID = [] then approved
               else gput userID (gput deviceID True devices) approved) rows a) u d \<longleftrightarrow>
     (u, d) \<in> set rows \<or> exit_approved a u d"
  using assms
proof (induction rows arbitrary: a)
  case (Cons x rows)
  obtain v e where x: "x = (v, e)" by (cases x)
  with Cons.prems have "v \<noteq> []" "e \<noteq> []" "TrimSpace v = v" "TrimSpace e = e" by simp_all
  then show ?case using Cons.IH Cons.prems x by (auto simp: Let_def exit_approved_put)
qed simp

lemma active_rows:
  assumes "gwf t"
  shows "(u, d) \<in> set (map fst (filter (\<lambda>(_, r). ea_revokedAt r = None) t)) \<longleftrightarrow> exit_active t u d"
  using assms by (force simp: exit_active_def gget_iff)

section \<open>Properties\<close>

text \<open>
  C19: the approvals of exit nodes survive a restart. Starting with an empty table, after every history of approvals and
  revocations, with any statement failing, a device is approved in memory exactly when its row in the table is active, and
  loading the table at the next start gives the same approvals. (The count of changed rows, which the driver keeps, is
  assumed to be available.)
\<close>

theorem exit_approvals_restart:
  assumes "\<forall>op \<in> set ops. counted op"
  shows "(\<forall>u d. exit_approved (fst (exit_history ops)) u d \<longleftrightarrow> exit_active (snd (exit_history ops)) u d) \<and>
    (\<exists>loaded. newExitNodeApprovalStateFromStore (Some (ListActiveExitNodeApprovals None (snd (exit_history ops)))) = Inr loaded \<and>
       (\<forall>u d. exit_approved loaded u d \<longleftrightarrow> exit_approved (fst (exit_history ops)) u d))"
proof -
  have "exit_sync ([], [])" by (simp add: exit_sync_def exit_approved_def exit_active_def)
  from exit_history_sync [OF this assms] have s: "exit_sync (exit_history ops)" by (simp add: exit_history_def)
  let ?rows = "map fst (filter (\<lambda>(_, r). ea_revokedAt r = None) (snd (exit_history ops)))"
  have t: "gwf (snd (exit_history ops))" using s by (simp add: exit_sync_def)
  have "\<forall>(u, d) \<in> set ?rows. u \<noteq> [] \<and> d \<noteq> [] \<and> TrimSpace u = u \<and> TrimSpace d = d"
  proof clarify
    fix u d
    assume "(u, d) \<in> set ?rows"
    then have "exit_active (snd (exit_history ops)) u d" by (simp only: active_rows [OF t])
    then obtain r where "gget (snd (exit_history ops)) (u, d) = Some r" unfolding exit_active_def by blast
    then show "u \<noteq> [] \<and> d \<noteq> [] \<and> TrimSpace u = u \<and> TrimSpace d = d" using s unfolding exit_sync_def by blast
  qed
  from fold_load_approvals [OF this, of "[]"] show ?thesis
    using s active_rows [OF t]
    by (simp add: newExitNodeApprovalStateFromStore_def loadExitNodeApprovalStateFromPostgres_def
        ListActiveExitNodeApprovals_def exit_sync_def exit_approved_def)
qed

text \<open>Two approvals, a revocation that fails and one that does not.\<close>

definition sample_exit_users :: UserManager where
  "sample_exit_users = NewUserManager\<lparr>um_authedDevices := map (\<lambda>d. (authedDeviceKey ''g.ms.net'' d,
     \<lparr>ad_UserID = ''sdl-1'', ad_GroupName = ''g.ms.net'', ad_DeviceID = d, ad_DisplayName = d, ad_PubKeyHex = [],
      ad_AuthedAt = 0, ad_AuthExpireAt = 90\<rparr>)) [''dev-a'', ''dev-b'']\<rparr>"

definition sample_exit_ops :: "exit_op list" where
  "sample_exit_ops =
     (let ok = \<lparr>ef_approve = None, ef_revoke = None, ef_uncounted = None\<rparr> in
      [ExApprove ok 2 sample_exit_users ''sdl-1'' '' dev-a'', ExApprove ok 3 sample_exit_users ''sdl-1'' ''dev-b'',
       ExRevoke (ok\<lparr>ef_revoke := Some ''timeout''\<rparr>) 4 ''sdl-1'' ''dev-a'', ExRevoke ok 5 ''sdl-1'' ''dev-b''])"

theorem exit_approvals_restart_witness:
  "exit_active (snd (exit_history sample_exit_ops)) ''sdl-1'' ''dev-a'' \<and>
   \<not> exit_active (snd (exit_history sample_exit_ops)) ''sdl-1'' ''dev-b''"
proof -
  have "\<forall>op \<in> set sample_exit_ops. counted op" by code_simp
  moreover have "exit_approved (fst (exit_history sample_exit_ops)) ''sdl-1'' ''dev-a''"
    "\<not> exit_approved (fst (exit_history sample_exit_ops)) ''sdl-1'' ''dev-b''" by code_simp+
  ultimately show ?thesis using exit_approvals_restart [of sample_exit_ops] by blast
qed

end
