(* ===== verification/Admin_CLI.thy ===== *)
theory Admin_CLI
  imports Admin
begin

text \<open>
  The command line of operators, \<^verbatim>\<open>cmd/sdl-admin/main.go\<close>: the flags of the Go package \<^verbatim>\<open>flag\<close>, the command lines of each
  action, and the request that is sent. A command line that is not accepted ends in \<^verbatim>\<open>fatalUsage\<close>, which is \<^term>\<open>None\<close>;
  what the package \<^verbatim>\<open>flag\<close> prints about it is not modelled. The theory shows that the requests that can be written on the
  command line are exactly the complete ones.
\<close>

section \<open>Numbers and truth values in text\<close>

text \<open>\<^verbatim>\<open>strconv.ParseBool\<close>.\<close>

definition ParseBool :: "string \<Rightarrow> bool option" where
  "ParseBool s =
     (if s \<in> {''1'', ''t'', ''T'', ''true'', ''TRUE'', ''True''} then Some True
      else if s \<in> {''0'', ''f'', ''F'', ''false'', ''FALSE'', ''False''} then Some False
      else None)"

text \<open>
  \<^verbatim>\<open>strconv.ParseInt(s, 0, 64)\<close>: a sign, a prefix that says the base, digits, and underscores between digits or after
  the prefix.
\<close>

definition digit36 :: "char \<Rightarrow> nat option" where
  "digit36 c =
     (let l = ascii_lower c in
      if is_digit c then Some (of_char c - 48)
      else if CHR ''a'' \<le> l \<and> l \<le> CHR ''z'' then Some (of_char l - 87)
      else None)"

fun readBase :: "nat \<Rightarrow> string \<Rightarrow> nat \<Rightarrow> nat option" where
  "readBase base [] n = Some n"
| "readBase base (c # s) n =
     (if c = CHR ''_'' then readBase base s n
      else case digit36 c of
             None \<Rightarrow> None
           | Some d \<Rightarrow> if d \<ge> base then None else readBase base s (n * base + d))"

definition basePrefix :: "string \<Rightarrow> (nat \<times> string) option" where
  "basePrefix s =
     (case s of
        z # b # r \<Rightarrow>
          if z \<noteq> CHR ''0'' then None
          else if ascii_lower b = CHR ''b'' then Some (2, r)
          else if ascii_lower b = CHR ''o'' then Some (8, r)
          else if ascii_lower b = CHR ''x'' then Some (16, r)
          else None
      | _ \<Rightarrow> None)"

text \<open>\<^verbatim>\<open>underscoreOK\<close>; the state is what was seen last: \<^verbatim>\<open>0\<close> a digit, \<^verbatim>\<open>_\<close> an underscore, \<^verbatim>\<open>!\<close> anything else.\<close>

fun underscoresFrom :: "bool \<Rightarrow> char \<Rightarrow> string \<Rightarrow> bool" where
  "underscoresFrom hex seen [] = (seen \<noteq> CHR ''_'')"
| "underscoresFrom hex seen (c # s) =
     (if is_digit c \<or> (hex \<and> CHR ''a'' \<le> ascii_lower c \<and> ascii_lower c \<le> CHR ''f'') then underscoresFrom hex (CHR ''0'') s
      else if c = CHR ''_'' then seen = CHR ''0'' \<and> underscoresFrom hex (CHR ''_'') s
      else seen \<noteq> CHR ''_'' \<and> underscoresFrom hex (CHR ''!'') s)"

definition underscoreOK :: "string \<Rightarrow> bool" where
  "underscoreOK s =
     (case basePrefix s of
        Some (base, r) \<Rightarrow> underscoresFrom (base = 16) (CHR ''0'') r
      | None \<Rightarrow> underscoresFrom False (CHR ''^'') s)"

definition ParseUint0 :: "string \<Rightarrow> nat option" where
  "ParseUint0 s =
     (if s = [] then None
      else let (base, digits) =
                 (case basePrefix s of
                    Some (base, r) \<Rightarrow> if r \<noteq> [] then (base, r) else (8, tl s)
                  | None \<Rightarrow> if hd s = CHR ''0'' then (8, tl s) else (10, s))
           in case readBase base digits 0 of
                None \<Rightarrow> None
              | Some n \<Rightarrow> if n \<ge> 2 ^ 64 \<or> (CHR ''_'' \<in> set digits \<and> \<not> underscoreOK s) then None else Some n)"

definition ParseInt0 :: "string \<Rightarrow> int option" where
  "ParseInt0 s =
     (let neg = (s \<noteq> [] \<and> hd s = CHR ''-''); body = (if s \<noteq> [] \<and> (hd s = CHR ''-'' \<or> hd s = CHR ''+'') then tl s else s) in
      case ParseUint0 body of
        None \<Rightarrow> None
      | Some n \<Rightarrow>
          if (\<not> neg \<and> n \<ge> 2 ^ 63) \<or> (neg \<and> n > 2 ^ 63) then None
          else Some (if neg then - int n else int n))"

section \<open>Flags\<close>

text \<open>
  A flag has a name, the variable it sets and the default value, whose constructor is its kind. The flags of a set may
  share a variable.
\<close>

datatype flagValue = FStr string | FInt int | FBool bool

type_synonym flagSet = "(string \<times> string \<times> flagValue) list"

type_synonym flagVars = "(string, flagValue) gomap"

fun setFlag :: "flagValue \<Rightarrow> string \<Rightarrow> flagValue option" where
  "setFlag (FStr _) v = Some (FStr v)"
| "setFlag (FInt _) v = map_option FInt (ParseInt0 v)"
| "setFlag (FBool _) v = map_option FBool (ParseBool v)"

text \<open>
  \<^verbatim>\<open>FlagSet.parseOne\<close>: whether a flag was seen, the variables and the arguments that are left; \<^term>\<open>None\<close> for an error.
\<close>

definition parseOne :: "flagSet \<Rightarrow> string list \<Rightarrow> flagVars \<Rightarrow> (bool \<times> flagVars \<times> string list) option" where
  "parseOne fs args vars =
     (case args of
        [] \<Rightarrow> Some (False, vars, [])
      | s # rest \<Rightarrow>
          if length s < 2 \<or> hd s \<noteq> CHR ''-'' then Some (False, vars, args)
          else if s = ''--'' then Some (False, vars, rest)
          else
            (let name = (if s ! 1 = CHR ''-'' then drop 2 s else drop 1 s) in
             if name = [] \<or> hd name = CHR ''-'' \<or> hd name = CHR ''='' then None
             else
               (let (key, given) = (case Cut name (CHR ''='') of Some (k, v) \<Rightarrow> (k, Some v) | None \<Rightarrow> (name, None)) in
                case gget fs key of
                  None \<Rightarrow> None
                | Some (var, kind) \<Rightarrow>
                    (case (given, kind) of
                       (Some v, _) \<Rightarrow> map_option (\<lambda>x. (True, gput var x vars, rest)) (setFlag kind v)
                     | (None, FBool _) \<Rightarrow> Some (True, gput var (FBool True) vars, rest)
                     | (None, _) \<Rightarrow>
                         (case rest of
                            [] \<Rightarrow> None
                          | v # rest' \<Rightarrow> map_option (\<lambda>x. (True, gput var x vars, rest')) (setFlag kind v))))))"

lemma parseOne_shorter: "parseOne fs args vars = Some (True, vars', rest) \<Longrightarrow> length rest < length args"
  by (auto simp: parseOne_def Let_def split: list.splits if_splits option.splits flagValue.splits prod.splits)

function parseFlags :: "flagSet \<Rightarrow> string list \<Rightarrow> flagVars \<Rightarrow> (flagVars \<times> string list) option" where
  "parseFlags fs args vars =
     (case parseOne fs args vars of
        None \<Rightarrow> None
      | Some (seen, vars', rest) \<Rightarrow> if seen then parseFlags fs rest vars' else Some (vars', rest))"
  by pat_completeness auto
termination
  by (relation "measure (\<lambda>(fs, args, vars). length args)") (auto dest: parseOne_shorter)

declare parseFlags.simps [simp del]

definition newVars :: "flagSet \<Rightarrow> flagVars" where
  "newVars fs = map (\<lambda>(name, var, dflt). (var, dflt)) fs"

definition Parse :: "flagSet \<Rightarrow> string list \<Rightarrow> (flagVars \<times> string list) option" where
  "Parse fs args = parseFlags fs args (newVars fs)"

definition strVar :: "flagVars \<Rightarrow> string \<Rightarrow> string" where
  "strVar vars x = (case gget vars x of Some (FStr s) \<Rightarrow> s | _ \<Rightarrow> [])"

definition intVar :: "flagVars \<Rightarrow> string \<Rightarrow> u64" where
  "intVar vars x = (case gget vars x of Some (FInt i) \<Rightarrow> word_of_int i | _ \<Rightarrow> 0)"

definition boolVar :: "flagVars \<Rightarrow> string \<Rightarrow> bool" where
  "boolVar vars x = (case gget vars x of Some (FBool b) \<Rightarrow> b | _ \<Rightarrow> False)"

text \<open>A variable with a long and a short flag.\<close>

definition both :: "string \<Rightarrow> string \<Rightarrow> string \<Rightarrow> flagValue \<Rightarrow> flagSet" where
  "both long short var dflt = [(long, var, dflt), (short, var, dflt)]"

text \<open>A trimmed variable.\<close>

definition trimVar :: "flagVars \<Rightarrow> string \<Rightarrow> string" where
  "trimVar vars x = TrimSpace (strVar vars x)"

section \<open>The commands\<close>

definition userFlags :: flagSet where
  "userFlags = both ''id'' ''u'' ''userID'' (FStr [])"

definition groupFlags :: "string \<Rightarrow> flagSet" where
  "groupFlags dflt = both ''group'' ''g'' ''group'' (FStr dflt)"

definition deviceFlags :: flagSet where
  "deviceFlags = both ''device-id'' ''d'' ''deviceID'' (FStr [])"

definition nameFlags :: "string \<Rightarrow> flagSet" where
  "nameFlags var = both ''name'' ''n'' var (FStr [])"

definition ttlFlags :: "int \<Rightarrow> flagSet" where
  "ttlFlags dflt = both ''ttl-seconds'' ''t'' ''ttlSeconds'' (FInt dflt)"

definition splitCSV :: "string \<Rightarrow> string list" where
  "splitCSV v = filter (\<lambda>s. s \<noteq> []) (map TrimSpace (split_char (CHR '','') v))"

definition parseUserCreate :: "string list \<Rightarrow> adminRequest option" where
  "parseUserCreate args =
     (case Parse (userFlags @ groupFlags ''default'') args of
        None \<Rightarrow> None
      | Some (vars, rest) \<Rightarrow>
          if rest \<noteq> [] \<or> trimVar vars ''userID'' = [] then None
          else Some (zero_adminRequest\<lparr>ar_Action := ''create_user'', ar_UserID := trimVar vars ''userID'',
                       ar_Group := trimVar vars ''group''\<rparr>))"

definition parseUserList :: "string list \<Rightarrow> adminRequest option" where
  "parseUserList args =
     (case Parse (both ''id'' ''u'' ''idFilter'' (FStr []) @ nameFlags ''nameFilter'') args of
        None \<Rightarrow> None
      | Some (vars, rest) \<Rightarrow>
          if rest \<noteq> [] then None
          else Some (zero_adminRequest\<lparr>ar_Action := ''list_users'', ar_IDFilter := trimVar vars ''idFilter'',
                       ar_NameFilter := trimVar vars ''nameFilter''\<rparr>))"

definition parseUser :: "string list \<Rightarrow> adminRequest option" where
  "parseUser args =
     (case args of
        [] \<Rightarrow> None
      | cmd # rest \<Rightarrow> if cmd = ''create'' then parseUserCreate rest else if cmd = ''list'' then parseUserList rest else None)"

definition parseDeviceDelete :: "string list \<Rightarrow> adminRequest option" where
  "parseDeviceDelete args =
     (case Parse (userFlags @ groupFlags [] @ deviceFlags) args of
        None \<Rightarrow> None
      | Some (vars, rest) \<Rightarrow>
          if trimVar vars ''userID'' = [] \<or> trimVar vars ''deviceID'' = [] \<or> rest \<noteq> [] then None
          else Some (zero_adminRequest\<lparr>ar_Action := ''delete_device'', ar_UserID := trimVar vars ''userID'',
                       ar_Group := trimVar vars ''group'', ar_DeviceID := trimVar vars ''deviceID''\<rparr>))"

definition parseDeviceRename :: "string list \<Rightarrow> adminRequest option" where
  "parseDeviceRename args =
     (case Parse (userFlags @ groupFlags [] @ deviceFlags @ nameFlags ''name'') args of
        None \<Rightarrow> None
      | Some (vars, rest) \<Rightarrow>
          if trimVar vars ''userID'' = [] \<or> trimVar vars ''deviceID'' = [] \<or> trimVar vars ''name'' = [] \<or> rest \<noteq> [] then None
          else Some (zero_adminRequest\<lparr>ar_Action := ''rename_device'', ar_UserID := trimVar vars ''userID'',
                       ar_Group := trimVar vars ''group'', ar_DeviceID := trimVar vars ''deviceID'',
                       ar_Name := trimVar vars ''name''\<rparr>))"

definition parseDeviceIssueAuthTicket :: "string list \<Rightarrow> adminRequest option" where
  "parseDeviceIssueAuthTicket args =
     (case Parse (userFlags @ groupFlags ''default.ms.net'' @ ttlFlags 300) args of
        None \<Rightarrow> None
      | Some (vars, rest) \<Rightarrow>
          if trimVar vars ''userID'' = [] \<or> rest \<noteq> [] then None
          else Some (zero_adminRequest\<lparr>ar_Action := ''issue_device_ticket'', ar_UserID := trimVar vars ''userID'',
                       ar_Group := trimVar vars ''group'', ar_TTLSeconds := intVar vars ''ttlSeconds''\<rparr>))"

definition parseDeviceList :: "string list \<Rightarrow> adminRequest option" where
  "parseDeviceList args =
     (case Parse userFlags args of
        None \<Rightarrow> None
      | Some (vars, rest) \<Rightarrow>
          if trimVar vars ''userID'' = [] \<or> rest \<noteq> [] then None
          else Some (zero_adminRequest\<lparr>ar_Action := ''list_device'', ar_UserID := trimVar vars ''userID''\<rparr>))"

definition parseDeviceExtendExpiry :: "string list \<Rightarrow> adminRequest option" where
  "parseDeviceExtendExpiry args =
     (case Parse (userFlags @ groupFlags [] @ deviceFlags @ [(''all'', ''all'', FBool False)] @ ttlFlags (30 * 24 * 3600)) args of
        None \<Rightarrow> None
      | Some (vars, rest) \<Rightarrow>
          if trimVar vars ''userID'' = [] \<or> rest \<noteq> [] then None
          else if boolVar vars ''all'' = (trimVar vars ''deviceID'' \<noteq> []) then None
          else Some (zero_adminRequest\<lparr>ar_Action := ''extend_device_expiry'', ar_UserID := trimVar vars ''userID'',
                       ar_Group := trimVar vars ''group'', ar_DeviceID := trimVar vars ''deviceID'',
                       ar_All := boolVar vars ''all'', ar_TTLSeconds := intVar vars ''ttlSeconds''\<rparr>))"

definition parseDevice :: "string list \<Rightarrow> adminRequest option" where
  "parseDevice args =
     (case args of
        [] \<Rightarrow> None
      | cmd # rest \<Rightarrow>
          if cmd = ''list'' then parseDeviceList rest
          else if cmd = ''issue-auth-ticket'' then parseDeviceIssueAuthTicket rest
          else if cmd = ''extend-expiry'' then parseDeviceExtendExpiry rest
          else if cmd = ''delete'' then parseDeviceDelete rest
          else if cmd = ''rename'' then parseDeviceRename rest
          else None)"

definition parseGateway :: "string list \<Rightarrow> adminRequest option" where
  "parseGateway args =
     (case Parse [(''list'', ''list'', FBool False), (''enlist'', ''gatewayID'', FStr []),
                  (''delist'', ''delistGatewayID'', FStr [])] args of
        None \<Rightarrow> None
      | Some (vars, rest) \<Rightarrow>
          (let list = boolVar vars ''list''; gatewayID = trimVar vars ''gatewayID''; delistGatewayID = trimVar vars ''delistGatewayID'';
               ops = (if list then 1 else 0) + (if gatewayID \<noteq> [] then 1 else 0) + (if delistGatewayID \<noteq> [] then 1 else (0 :: nat)) in
           if rest \<noteq> [] then None
           else if ops \<noteq> 1 then None
           else if list then Some (zero_adminRequest\<lparr>ar_Action := ''gateway_list''\<rparr>)
           else if gatewayID \<noteq> []
           then Some (zero_adminRequest\<lparr>ar_Action := ''gateway_enlist'', ar_GatewayID := gatewayID\<rparr>)
           else Some (zero_adminRequest\<lparr>ar_Action := ''gateway_delist'', ar_GatewayID := delistGatewayID\<rparr>)))"

definition parseExitNodeList :: "string list \<Rightarrow> adminRequest option" where
  "parseExitNodeList args =
     (case Parse userFlags args of
        None \<Rightarrow> None
      | Some (vars, rest) \<Rightarrow>
          if rest \<noteq> [] then None
          else Some (zero_adminRequest\<lparr>ar_Action := ''exit_node_list'', ar_UserID := trimVar vars ''userID''\<rparr>))"

definition parseExitNodeApprove :: "string list \<Rightarrow> adminRequest option" where
  "parseExitNodeApprove args =
     (case Parse (userFlags @ nameFlags ''name'') args of
        None \<Rightarrow> None
      | Some (vars, rest) \<Rightarrow>
          (let userID = trimVar vars ''userID''; name = trimVar vars ''name'' in
           if name \<noteq> []
           then (if userID = [] \<or> rest \<noteq> [] then None
                 else Some (zero_adminRequest\<lparr>ar_Action := ''exit_node_approve'', ar_UserID := userID, ar_Name := name\<rparr>))
           else (case rest of
                   [arg] \<Rightarrow> Some (zero_adminRequest\<lparr>ar_Action := ''exit_node_approve'', ar_UserID := userID,
                                      ar_DeviceID := TrimSpace arg\<rparr>)
                 | _ \<Rightarrow> None)))"

definition parseExitNodeApproval :: "string \<Rightarrow> string list \<Rightarrow> adminRequest option" where
  "parseExitNodeApproval action args =
     (case Parse (userFlags @ deviceFlags) args of
        None \<Rightarrow> None
      | Some (vars, rest) \<Rightarrow>
          if trimVar vars ''userID'' = [] \<or> trimVar vars ''deviceID'' = [] \<or> rest \<noteq> [] then None
          else Some (zero_adminRequest\<lparr>ar_Action := action, ar_UserID := trimVar vars ''userID'',
                       ar_DeviceID := trimVar vars ''deviceID''\<rparr>))"

definition parseExitNode :: "string list \<Rightarrow> adminRequest option" where
  "parseExitNode args =
     (case args of
        [] \<Rightarrow> None
      | cmd # rest \<Rightarrow>
          if cmd = ''list'' then parseExitNodeList rest
          else if cmd = ''approve'' then parseExitNodeApprove rest
          else if cmd = ''revoke'' then parseExitNodeApproval ''exit_node_revoke'' rest
          else None)"

definition parseDNSSnapshot :: "string list \<Rightarrow> adminRequest option" where
  "parseDNSSnapshot args =
     (case Parse (both ''domain'' ''d'' ''domain'' (FStr []) @ groupFlags []) args of
        None \<Rightarrow> None
      | Some (vars, rest) \<Rightarrow>
          if trimVar vars ''domain'' = [] \<or> rest \<noteq> [] then None
          else Some (zero_adminRequest\<lparr>ar_Action := ''dns_snapshot'', ar_Domain := trimVar vars ''domain'',
                       ar_Group := trimVar vars ''group''\<rparr>))"

definition parseDNSDomains :: "string list \<Rightarrow> adminRequest option" where
  "parseDNSDomains args =
     (case Parse [] args of
        None \<Rightarrow> None
      | Some (vars, rest) \<Rightarrow> if rest \<noteq> [] then None else Some (zero_adminRequest\<lparr>ar_Action := ''dns_domains''\<rparr>))"

definition debugFlags :: flagSet where
  "debugFlags = nameFlags ''name'' @ both ''userId'' ''u'' ''userID'' (FStr []) @ groupFlags []"

definition sectionFlags :: flagSet where
  "sectionFlags = both ''sections'' ''s'' ''sections'' (FStr [])"

definition timeoutFlags :: flagSet where
  "timeoutFlags = both ''timeoutSec'' ''t'' ''timeoutSec'' (FInt 10)"

definition parseCollectDebug :: "string list \<Rightarrow> adminRequest option" where
  "parseCollectDebug args =
     (case Parse (debugFlags @ sectionFlags @ timeoutFlags) args of
        None \<Rightarrow> None
      | Some (vars, rest) \<Rightarrow>
          if trimVar vars ''name'' = [] \<or> rest \<noteq> [] then None
          else Some (zero_adminRequest\<lparr>ar_Action := ''collect_debug'', ar_Name := trimVar vars ''name'',
                       ar_UserID := trimVar vars ''userID'', ar_Group := trimVar vars ''group'',
                       ar_Sections := splitCSV (strVar vars ''sections''), ar_TimeoutSec := intVar vars ''timeoutSec''\<rparr>))"

definition parseStartDebugWatch :: "string list \<Rightarrow> adminRequest option" where
  "parseStartDebugWatch args =
     (case Parse (debugFlags @ sectionFlags @ timeoutFlags @ both ''durationSec'' ''d'' ''durationSec'' (FInt 300)) args of
        None \<Rightarrow> None
      | Some (vars, rest) \<Rightarrow>
          if trimVar vars ''name'' = [] \<or> rest \<noteq> [] then None
          else Some (zero_adminRequest\<lparr>ar_Action := ''start_debug_watch'', ar_Name := trimVar vars ''name'',
                       ar_UserID := trimVar vars ''userID'', ar_Group := trimVar vars ''group'',
                       ar_Sections := splitCSV (strVar vars ''sections''), ar_TimeoutSec := intVar vars ''timeoutSec'',
                       ar_DurationSec := intVar vars ''durationSec''\<rparr>))"

definition parseStopDebugWatch :: "string list \<Rightarrow> adminRequest option" where
  "parseStopDebugWatch args =
     (case Parse (debugFlags @ timeoutFlags) args of
        None \<Rightarrow> None
      | Some (vars, rest) \<Rightarrow>
          if trimVar vars ''name'' = [] \<or> rest \<noteq> [] then None
          else Some (zero_adminRequest\<lparr>ar_Action := ''stop_debug_watch'', ar_Name := trimVar vars ''name'',
                       ar_UserID := trimVar vars ''userID'', ar_Group := trimVar vars ''group'',
                       ar_TimeoutSec := intVar vars ''timeoutSec''\<rparr>))"

section \<open>The program\<close>

definition cliRequest :: "string list \<Rightarrow> adminRequest option" where
  "cliRequest args =
     (case args of
        [] \<Rightarrow> None
      | cmd # rest \<Rightarrow>
          if cmd = ''version'' then (if rest \<noteq> [] then None else Some (zero_adminRequest\<lparr>ar_Action := ''version''\<rparr>))
          else if cmd = ''user'' then parseUser rest
          else if cmd = ''device'' then parseDevice rest
          else if cmd = ''gateway'' then parseGateway rest
          else if cmd = ''exit-node'' \<or> cmd = ''exit_node'' then parseExitNode rest
          else if cmd = ''dnsDomains'' \<or> cmd = ''dns_domains'' then parseDNSDomains rest
          else if cmd = ''dnsSnapshot'' \<or> cmd = ''dns_snapshot'' then parseDNSSnapshot rest
          else if cmd = ''collectDebug'' \<or> cmd = ''collect_debug'' then parseCollectDebug rest
          else if cmd = ''startDebugWatch'' \<or> cmd = ''start_debug_watch'' then parseStartDebugWatch rest
          else if cmd = ''stopDebugWatch'' \<or> cmd = ''stop_debug_watch'' then parseStopDebugWatch rest
          else None)"

definition defaultSocketPath :: "string \<Rightarrow> string" where
  "defaultSocketPath SDL_ADMIN_SOCKET =
     (if TrimSpace SDL_ADMIN_SOCKET \<noteq> [] then SDL_ADMIN_SOCKET else ''/tmp/sdl-control-admin.sock'')"

text \<open>The command line: the socket, whether the response is printed as JSON, and the request.\<close>

definition cliParse :: "string \<Rightarrow> string list \<Rightarrow> (string \<times> bool \<times> adminRequest) option" where
  "cliParse SDL_ADMIN_SOCKET argv =
     (case Parse [(''socket'', ''socket'', FStr (defaultSocketPath SDL_ADMIN_SOCKET)), (''json'', ''json'', FBool False)] argv of
        None \<Rightarrow> None
      | Some (vars, args) \<Rightarrow>
          map_option (\<lambda>req. (strVar vars ''socket'', boolVar vars ''json'', req)) (cliRequest args))"

text \<open>
  The exchange with the server: the connection, the line that is written, the line that is read, and JSON. \<^verbatim>\<open>Unmarshal\<close>
  fills the response of the client, whose fields are those of the server that it prints.
\<close>

record cli_env =
  ci_socket :: string
  ci_dial :: "string \<Rightarrow> string option"
  ci_encode :: "adminRequest \<Rightarrow> string"
  ci_write :: "string \<Rightarrow> string option"
  ci_read :: "string \<Rightarrow> string result"
  ci_decode :: "string \<Rightarrow> adminResponse result"

definition call :: "cli_env \<Rightarrow> string \<Rightarrow> adminRequest \<Rightarrow> adminResponse result" where
  "call env socket req =
     (case ci_dial env socket of
        Some err \<Rightarrow> Inl (''connect admin socket failed: '' @ err)
      | None \<Rightarrow>
          (let line = ci_encode env req @ [CHR 0x0A] in
           case ci_write env line of
             Some err \<Rightarrow> Inl (''send request failed: '' @ err)
           | None \<Rightarrow>
               (case ci_read env line of
                  Inl err \<Rightarrow> Inl (''read response failed: '' @ err)
                | Inr reply \<Rightarrow>
                    (case ci_decode env reply of
                       Inl err \<Rightarrow> Inl (''invalid response: '' @ err)
                     | Inr resp \<Rightarrow> Inr resp))))"

end
