(* ===== verification/Migrations.thy ===== *)
theory Migrations
  imports User_Manager
begin

text \<open>
  The migrations of the database schema, \<^verbatim>\<open>control/store/migrations.go\<close>: the embedded scripts in the order of their file
  names, the table \<^verbatim>\<open>schema_migrations\<close> of those that were applied with their checksums, and the check at the start of the
  server. What a script does to the rest of the database is the parameter \<open>exec\<close>; every statement may fail, and a
  transaction that is not committed changes nothing.
\<close>

section \<open>The scripts\<close>

record migration =
  mg_version :: string
  mg_fileName :: string
  mg_checksum :: string
  mg_sql :: string

text \<open>An entry of the embedded directory.\<close>

record embedEntry =
  ee_name :: string
  ee_isDir :: bool
  ee_content :: string

text \<open>\<^verbatim>\<open>path.Ext\<close>: from the last dot after the last slash.\<close>

definition Ext :: "string \<Rightarrow> string" where
  "Ext path =
     (let tail = takeWhile (\<lambda>c. c \<noteq> CHR ''/'') (rev path); ext = takeWhile (\<lambda>c. c \<noteq> CHR ''.'') tail in
      if ext = tail then [] else CHR ''.'' # rev ext)"

definition newMigration :: "(bytes \<Rightarrow> bytes) \<Rightarrow> embedEntry \<Rightarrow> migration" where
  "newMigration sha256 entry =
     \<lparr>mg_version = TrimSuffix (ee_name entry) ''.sql'', mg_fileName = ee_name entry,
      mg_checksum = hex_encode (sha256 (bytes_of (ee_content entry))), mg_sql = ee_content entry\<rparr>"

definition loadMigrations :: "(bytes \<Rightarrow> bytes) \<Rightarrow> embedEntry list \<Rightarrow> migration list" where
  "loadMigrations sha256 entries =
     sort_key mg_fileName (map (newMigration sha256) (filter (\<lambda>e. \<not> ee_isDir e \<and> Ext (ee_name e) = ''.sql'') entries))"

definition LatestMigrationVersion :: "(bytes \<Rightarrow> bytes) \<Rightarrow> embedEntry list \<Rightarrow> string \<Rightarrow> string result" where
  "LatestMigrationVersion sha256 entries scope0 =
     (let scope = TrimSpace scope0 in
      if scope = [] then Inl ''migration scope is empty''
      else case find (\<lambda>m. Contains (mg_version m) (''_'' @ scope @ ''_'')) (rev (loadMigrations sha256 entries)) of
             Some m \<Rightarrow> Inr (mg_version m)
           | None \<Rightarrow> Inl (''no schema migration found for scope \"'' @ scope @ ''\"''))"

section \<open>Applying them\<close>

record 'q schemaDB =
  sd_applied :: "(string, string) gomap option"
  sd_schema :: 'q

text \<open>Which statement fails: the name of the statement and the version it is about.\<close>

type_synonym mig_faults = "string \<Rightarrow> string \<Rightarrow> string option"

definition ensureTable :: "'q schemaDB \<Rightarrow> 'q schemaDB" where
  "ensureTable db = db\<lparr>sd_applied := Some (case sd_applied db of Some t \<Rightarrow> t | None \<Rightarrow> [])\<rparr>"

definition recordMigration :: "mig_faults \<Rightarrow> migration \<Rightarrow> 'q schemaDB \<Rightarrow> 'q schemaDB result" where
  "recordMigration faults m db =
     (case faults ''insert'' (mg_version m) of
        Some err \<Rightarrow> Inl (''record schema migration '' @ mg_version m @ '': '' @ err)
      | None \<Rightarrow>
          (case sd_applied db of
             None \<Rightarrow> Inl (''record schema migration '' @ mg_version m @ '': relation does not exist'')
           | Some t \<Rightarrow>
               if gget t (mg_version m) \<noteq> None
               then Inl (''record schema migration '' @ mg_version m @ '': duplicate key'')
               else Inr (db\<lparr>sd_applied := Some (gput (mg_version m) (mg_checksum m) t)\<rparr>)))"

fun applyAll ::
    "(string \<Rightarrow> 'q \<Rightarrow> 'q result) \<Rightarrow> mig_faults \<Rightarrow> (string, string) gomap \<Rightarrow> migration list \<Rightarrow> 'q schemaDB \<Rightarrow> 'q schemaDB result" where
  "applyAll exec faults applied [] db = Inr db"
| "applyAll exec faults applied (m # ms) db =
     (case gget applied (mg_version m) of
        Some checksum \<Rightarrow>
          if checksum \<noteq> mg_checksum m then Inl (''schema migration checksum mismatch for '' @ mg_version m)
          else applyAll exec faults applied ms db
      | None \<Rightarrow>
          (case exec (mg_sql m) (sd_schema db) of
             Inl err \<Rightarrow> Inl (''apply schema migration '' @ mg_version m @ '': '' @ err)
           | Inr schema \<Rightarrow>
               (case recordMigration faults m (db\<lparr>sd_schema := schema\<rparr>) of
                  Inl err \<Rightarrow> Inl err
                | Inr db' \<Rightarrow> applyAll exec faults applied ms db')))"

definition loadAppliedMigrations :: "mig_faults \<Rightarrow> 'q schemaDB \<Rightarrow> (string, string) gomap result" where
  "loadAppliedMigrations faults db =
     (case faults ''select'' [] of
        Some err \<Rightarrow> Inl (''load applied schema migrations: '' @ err)
      | None \<Rightarrow> Inr (case sd_applied db of Some t \<Rightarrow> t | None \<Rightarrow> []))"

definition migrateTx ::
    "(string \<Rightarrow> 'q \<Rightarrow> 'q result) \<Rightarrow> mig_faults \<Rightarrow> migration list \<Rightarrow> 'q schemaDB \<Rightarrow> 'q schemaDB result" where
  "migrateTx exec faults ms db =
     (case faults ''create'' [] of
        Some err \<Rightarrow> Inl (''ensure schema_migrations table: '' @ err)
      | None \<Rightarrow>
          (let tx = ensureTable db in
           case loadAppliedMigrations faults tx of
             Inl err \<Rightarrow> Inl err
           | Inr applied \<Rightarrow> applyAll exec faults applied ms tx))"

definition ApplyMigrations ::
    "(bytes \<Rightarrow> bytes) \<Rightarrow> embedEntry list \<Rightarrow> (string \<Rightarrow> 'q \<Rightarrow> 'q result) \<Rightarrow> mig_faults \<Rightarrow> 'q schemaDB \<Rightarrow> string option \<times> 'q schemaDB" where
  "ApplyMigrations sha256 entries exec faults db =
     (case faults ''begin'' [] of
        Some err \<Rightarrow> (Some (''begin schema migration tx: '' @ err), db)
      | None \<Rightarrow>
          (case migrateTx exec faults (loadMigrations sha256 entries) db of
             Inl err \<Rightarrow> (Some err, db)
           | Inr tx \<Rightarrow>
               (case faults ''commit'' [] of
                  Some err \<Rightarrow> (Some (''commit schema migrations: '' @ err), db)
                | None \<Rightarrow> (None, tx))))"

definition RequireMigration :: "mig_faults \<Rightarrow> string \<Rightarrow> 'q schemaDB \<Rightarrow> string option" where
  "RequireMigration faults version db =
     (if TrimSpace version = [] then Some ''required schema version is empty''
      else case faults ''regclass'' [] of
        Some err \<Rightarrow> Some (''check schema_migrations table: '' @ err)
      | None \<Rightarrow>
          (case sd_applied db of
             None \<Rightarrow> Some ''database schema is not initialized; run `sdl-control migrate`''
           | Some t \<Rightarrow>
               (case faults ''exists'' version of
                  Some err \<Rightarrow> Some (''check required schema migration '' @ version @ '': '' @ err)
                | None \<Rightarrow>
                    if gget t version = None
                    then Some (''database schema is missing required migration '' @ version @ ''; run `sdl-control migrate`'')
                    else None)))"

section \<open>What a run does\<close>

definition recorded :: "'q schemaDB \<Rightarrow> string \<Rightarrow> string option" where
  "recorded db v = (case sd_applied db of Some t \<Rightarrow> gget t v | None \<Rightarrow> None)"

definition pending :: "migration list \<Rightarrow> 'q schemaDB \<Rightarrow> migration list" where
  "pending ms db = filter (\<lambda>m. recorded db (mg_version m) = None) ms"

text \<open>The specification of a run: the pending scripts one after the other.\<close>

fun runScripts :: "(string \<Rightarrow> 'q \<Rightarrow> 'q result) \<Rightarrow> string list \<Rightarrow> 'q \<Rightarrow> 'q result" where
  "runScripts exec [] q = Inr q"
| "runScripts exec (s # ss) q = (case exec s q of Inl err \<Rightarrow> Inl err | Inr q' \<Rightarrow> runScripts exec ss q')"

lemma recordMigration_Inr:
  assumes "recordMigration faults m db = Inr db'"
  shows "recorded db' v = (if v = mg_version m then Some (mg_checksum m) else recorded db v)"
    and "recorded db (mg_version m) = None" and "sd_schema db' = sd_schema db" and "sd_applied db' \<noteq> None"
  using assms by (auto simp: recordMigration_def recorded_def split: option.splits if_splits)

lemma applyAll_Inr:
  assumes "applyAll exec faults applied ms db = Inr db'" and "distinct (map mg_version ms)"
    and "\<And>m. m \<in> set ms \<Longrightarrow> gget applied (mg_version m) = recorded db (mg_version m)"
  shows "runScripts exec (map mg_sql (pending ms db)) (sd_schema db) = Inr (sd_schema db') \<and>
    (\<forall>m \<in> set ms. recorded db' (mg_version m) = Some (mg_checksum m)) \<and>
    (\<forall>v. v \<notin> mg_version ` set ms \<longrightarrow> recorded db' v = recorded db v)"
  using assms
proof (induction exec faults applied ms db rule: applyAll.induct)
  case (1 exec faults applied db)
  then show ?case by (simp add: pending_def)
next
  case (2 exec faults applied m ms db)
  have fresh: "mg_version m \<notin> mg_version ` set ms" using "2.prems"(2) by simp
  show ?case
  proof (cases "gget applied (mg_version m)")
    case (Some checksum)
    then have c: "checksum = mg_checksum m" and a: "applyAll exec faults applied ms db = Inr db'"
      using "2.prems"(1) by (auto split: if_splits)
    have m: "recorded db (mg_version m) = Some (mg_checksum m)" using "2.prems"(3) [of m] Some c by simp
    have "runScripts exec (map mg_sql (pending ms db)) (sd_schema db) = Inr (sd_schema db') \<and>
        (\<forall>m \<in> set ms. recorded db' (mg_version m) = Some (mg_checksum m)) \<and>
        (\<forall>v. v \<notin> mg_version ` set ms \<longrightarrow> recorded db' v = recorded db v)"
      using "2.IH"(2) [OF Some] c a "2.prems"(2,3) by simp
    then show ?thesis using m fresh by (simp add: pending_def)
  next
    case None
    obtain q db1 where q: "exec (mg_sql m) (sd_schema db) = Inr q"
      and r: "recordMigration faults m (db\<lparr>sd_schema := q\<rparr>) = Inr db1" and a: "applyAll exec faults applied ms db1 = Inr db'"
      using "2.prems"(1) None by (auto split: sum.splits)
    note R = recordMigration_Inr [OF r]
    have same: "recorded db1 (mg_version n) = recorded db (mg_version n)" if "n \<in> set ms" for n
      using R(1) [of "mg_version n"] fresh that by (auto simp: recorded_def image_iff split: if_splits)
    have "runScripts exec (map mg_sql (pending ms db1)) (sd_schema db1) = Inr (sd_schema db') \<and>
        (\<forall>m \<in> set ms. recorded db' (mg_version m) = Some (mg_checksum m)) \<and>
        (\<forall>v. v \<notin> mg_version ` set ms \<longrightarrow> recorded db' v = recorded db1 v)"
      by (rule "2.IH"(1) [OF None q r a]) (use "2.prems"(2,3) same in auto)
    moreover have "pending ms db1 = pending ms db" using same by (simp add: pending_def cong: filter_cong)
    moreover have "recorded db (mg_version m) = None" using "2.prems"(3) [of m] None by simp
    ultimately show ?thesis using q R(1,3) fresh by (auto simp: pending_def recorded_def split: if_splits)
  qed
qed

lemma applyAll_idle:
  "\<forall>m \<in> set ms. gget applied (mg_version m) = Some (mg_checksum m) \<Longrightarrow> applyAll exec faults applied ms db = Inr db"
  by (induction ms) simp_all

lemma applyAll_table:
  "applyAll exec faults applied ms db = Inr db' \<Longrightarrow> sd_applied db \<noteq> None \<Longrightarrow> sd_applied db' \<noteq> None"
proof (induction exec faults applied ms db rule: applyAll.induct)
  case (2 exec faults applied m ms db)
  show ?case
  proof (cases "gget applied (mg_version m)")
    case None
    then obtain q db1 where "exec (mg_sql m) (sd_schema db) = Inr q"
      "recordMigration faults m (db\<lparr>sd_schema := q\<rparr>) = Inr db1" "applyAll exec faults applied ms db1 = Inr db'"
      using "2.prems"(1) by (auto split: sum.splits)
    then show ?thesis using "2.IH"(1) [OF None] recordMigration_Inr(4) by blast
  next
    case (Some checksum)
    then show ?thesis using "2.IH"(2) [OF Some] "2.prems" by (simp split: if_splits)
  qed
qed simp

section \<open>The versions of the scripts\<close>

lemma Ext_sql: "Ext path = ''.sql'' \<Longrightarrow> suffix ''.sql'' path"
proof -
  assume e: "Ext path = ''.sql''"
  define tail where "tail = takeWhile (\<lambda>c. c \<noteq> CHR ''/'') (rev path)"
  let ?ext = "takeWhile (\<lambda>c. c \<noteq> CHR ''.'') tail"
  have ext: "?ext = ''lqs''" and ne: "?ext \<noteq> tail"
    using e by (auto simp: Ext_def Let_def tail_def [symmetric] rev_swap split: if_splits)
  have split: "?ext @ dropWhile (\<lambda>c. c \<noteq> CHR ''.'') tail = tail" by (rule takeWhile_dropWhile_id)
  then obtain c rest where d: "dropWhile (\<lambda>c. c \<noteq> CHR ''.'') tail = c # rest"
    using ne by (cases "dropWhile (\<lambda>c. c \<noteq> CHR ''.'') tail") simp_all
  then have "c = CHR ''.''" by (simp add: dropWhile_eq_Cons_conv)
  then have "tail = ''lqs.'' @ rest" using split d ext by simp
  then have "prefix (rev ''.sql'') tail" by simp
  moreover have "prefix tail (rev path)" by (simp add: tail_def takeWhile_is_prefix)
  ultimately have "prefix (rev ''.sql'') (rev path)" by (rule prefix_order.trans)
  then show ?thesis by (simp only: suffix_to_prefix)
qed

lemma TrimSuffix_suffix: "suffix p s \<Longrightarrow> TrimSuffix s p @ p = s"
  by (auto simp: TrimSuffix_def suffix_def)

lemma loaded_versions:
  assumes "distinct (map ee_name entries)"
  shows "distinct (map mg_version (loadMigrations sha256 entries))"
proof -
  let ?es = "filter (\<lambda>e. \<not> ee_isDir e \<and> Ext (ee_name e) = ''.sql'') entries"
  have whole: "TrimSuffix (ee_name e) ''.sql'' @ ''.sql'' = ee_name e" if "e \<in> set ?es" for e
    using that by (simp add: Ext_sql TrimSuffix_suffix)
  have names: "ee_name e = ee_name e'"
    if "TrimSuffix (ee_name e) ''.sql'' = TrimSuffix (ee_name e') ''.sql''" "e \<in> set ?es" "e' \<in> set ?es" for e e'
    by (rule trans [OF whole [OF that(2), symmetric] trans [OF arg_cong [OF that(1), of "\<lambda>p. p @ ''.sql''"] whole [OF that(3)]]])
  have inj: "inj_on ee_name (set entries)" using assms by (simp add: distinct_map)
  have "inj_on (\<lambda>e. TrimSuffix (ee_name e) ''.sql'') (set ?es)"
  proof (rule inj_onI)
    fix e e'
    assume e: "e \<in> set ?es" "e' \<in> set ?es" "TrimSuffix (ee_name e) ''.sql'' = TrimSuffix (ee_name e') ''.sql''"
    then have "e \<in> set entries" "e' \<in> set entries" by simp_all
    then show "e = e'" by (rule inj_onD [OF inj names [OF e(3,1,2)]])
  qed
  moreover have "distinct ?es" using assms by (simp add: distinct_map)
  moreover have v: "map mg_version (map (newMigration sha256) ?es) = map (\<lambda>e. TrimSuffix (ee_name e) ''.sql'') ?es"
    by (simp add: newMigration_def)
  ultimately have "distinct (map mg_version (map (newMigration sha256) ?es))"
    unfolding v distinct_map by blast
  moreover have "mset (map mg_version (loadMigrations sha256 entries)) = mset (map mg_version (map (newMigration sha256) ?es))"
    unfolding loadMigrations_def mset_map mset_sort ..
  ultimately show ?thesis using mset_eq_imp_distinct_iff by blast
qed

lemma Contains_set: "Contains s sub \<Longrightarrow> set sub \<subseteq> set s"
proof (induction s)
  case (Cons c s)
  then show ?case using set_mono_prefix [of sub "c # s"] by (auto split: if_splits)
qed simp

lemma find_Some: "find P xs = Some x \<Longrightarrow> x \<in> set xs \<and> P x"
  by (auto simp: find_Some_iff)

lemma latest_version:
  assumes "LatestMigrationVersion sha256 entries scope = Inr v"
  shows "\<exists>m \<in> set (loadMigrations sha256 entries). mg_version m = v" and "TrimSpace v \<noteq> []"
proof -
  obtain m where m: "m \<in> set (rev (loadMigrations sha256 entries))" "v = mg_version m"
      "Contains (mg_version m) (''_'' @ TrimSpace scope @ ''_'')"
    using assms by (auto simp: LatestMigrationVersion_def Let_def dest: find_Some split: if_splits option.splits)
  then show "\<exists>m \<in> set (loadMigrations sha256 entries). mg_version m = v" by auto
  have "CHR ''_'' \<in> set v" using Contains_set [OF m(3)] m(2) by simp
  moreover have "\<forall>t \<in> set space_seqs. CHR ''_'' \<notin> set t" by code_simp
  ultimately show "TrimSpace v \<noteq> []" using TrimSpace_keeps [of "CHR ''_''" v] by force
qed

section \<open>Properties\<close>

definition no_mig_faults :: mig_faults where
  "no_mig_faults = (\<lambda>_ _. None)"

lemma ApplyMigrations_done:
  assumes "ApplyMigrations sha256 entries exec faults db = (None, db')"
  shows "\<exists>t. sd_applied (ensureTable db) = Some t \<and>
    applyAll exec faults t (loadMigrations sha256 entries) (ensureTable db) = Inr db'"
  using assms
  by (auto simp: ApplyMigrations_def migrateTx_def loadAppliedMigrations_def ensureTable_def Let_def
      split: option.splits sum.splits)

lemma recorded_ensureTable [simp]: "recorded (ensureTable db) = recorded db" "sd_schema (ensureTable db) = sd_schema db"
  by (auto simp: recorded_def ensureTable_def fun_eq_iff split: option.split)

text \<open>
  C17: \<^verbatim>\<open>sdl-control migrate\<close> brings the schema up to date or leaves it alone. When it fails the database is as before.
  When it succeeds it has run exactly the scripts that were not recorded, in the order of their file names; every script is
  recorded with its checksum and nothing else has changed in the record; the check that the server makes at its start passes
  for the version it requires; and running it again changes nothing.
\<close>

theorem migrations_apply:
  assumes "distinct (map ee_name entries)" and "ApplyMigrations sha256 entries exec faults db = (err, db')"
  shows "if err \<noteq> None then db' = db
    else runScripts exec (map mg_sql (pending (loadMigrations sha256 entries) db)) (sd_schema db) = Inr (sd_schema db') \<and>
      (\<forall>m \<in> set (loadMigrations sha256 entries). recorded db' (mg_version m) = Some (mg_checksum m)) \<and>
      (\<forall>v. v \<notin> mg_version ` set (loadMigrations sha256 entries) \<longrightarrow> recorded db' v = recorded db v) \<and>
      (\<forall>scope v. LatestMigrationVersion sha256 entries scope = Inr v \<longrightarrow> RequireMigration no_mig_faults v db' = None) \<and>
      ApplyMigrations sha256 entries exec no_mig_faults db' = (None, db')"
proof (cases err)
  case (Some e)
  then show ?thesis using assms(2) by (simp add: ApplyMigrations_def split: option.splits sum.splits)
next
  case None
  let ?ms = "loadMigrations sha256 entries"
  obtain t where t: "sd_applied (ensureTable db) = Some t" and a: "applyAll exec faults t ?ms (ensureTable db) = Inr db'"
    using ApplyMigrations_done assms(2) None by blast
  have rec: "gget t v = recorded db v" for v using t recorded_ensureTable(1) [of db] by (metis option.simps(5) recorded_def)
  have pend: "pending ?ms (ensureTable db) = pending ?ms db" by (simp add: pending_def)
  note A = applyAll_Inr [OF a loaded_versions [OF assms(1)], unfolded recorded_ensureTable pend, OF rec]
  obtain t' where t': "sd_applied db' = Some t'" using applyAll_table [OF a] t by auto
  have kept: "ensureTable db' = db'" by (simp add: ensureTable_def t')
  have all: "\<forall>m \<in> set ?ms. gget t' (mg_version m) = Some (mg_checksum m)" using A t' by (simp add: recorded_def)
  have "ApplyMigrations sha256 entries exec no_mig_faults db' = (None, db')"
    by (simp add: ApplyMigrations_def migrateTx_def no_mig_faults_def loadAppliedMigrations_def kept t' applyAll_idle [OF all])
  moreover have "RequireMigration no_mig_faults v db' = None" if "LatestMigrationVersion sha256 entries scope = Inr v" for scope v
    using latest_version [OF that] all by (auto simp: RequireMigration_def no_mig_faults_def t')
  ultimately show ?thesis using A None by auto
qed

text \<open>The files of \<^verbatim>\<open>store/migrations\<close>, not in their order, on a database with the first two applied; a script adds its text.\<close>

definition sample_entries :: "embedEntry list" where
  "sample_entries = map (\<lambda>n. \<lparr>ee_name = n, ee_isDir = False, ee_content = take 4 n\<rparr>)
     [''0003_www_sdl_accounts_updated_at.sql'', ''0006_control_exit_node_approvals.sql'', ''0001_control_um_tables.sql'',
      ''0002_www_base_tables.sql'', ''0004_control_certified_devices_primary_key.sql'', ''0005_www_users_email_unique.sql'']"

definition sample_exec :: "string \<Rightarrow> string list \<Rightarrow> string list result" where
  "sample_exec sql schema = Inr (schema @ [sql])"

definition sample_sha :: "bytes \<Rightarrow> bytes" where
  "sample_sha bs = take 4 bs"

definition sample_schema :: "string list schemaDB" where
  "sample_schema = \<lparr>sd_applied = Some [(''0002_www_base_tables'', ''30303032''), (''0001_control_um_tables'', ''30303031'')],
     sd_schema = [''0001'', ''0002'']\<rparr>"

definition sample_migrated :: "string list schemaDB" where
  "sample_migrated = snd (ApplyMigrations sample_sha sample_entries sample_exec no_mig_faults sample_schema)"

lemma sample_migration:
  "fst (ApplyMigrations sample_sha sample_entries sample_exec no_mig_faults sample_schema) = None \<and>
   LatestMigrationVersion sample_sha sample_entries ''control'' = Inr ''0006_control_exit_node_approvals'' \<and>
   runScripts sample_exec (map mg_sql (pending (loadMigrations sample_sha sample_entries) sample_schema)) (sd_schema sample_schema) =
     Inr [''0001'', ''0002'', ''0003'', ''0004'', ''0005'', ''0006''] \<and>
   RequireMigration no_mig_faults ''0006_control_exit_node_approvals'' sample_migrated = None"
  by code_simp

theorem migrations_apply_witness:
  "\<exists>db'. ApplyMigrations sample_sha sample_entries sample_exec no_mig_faults sample_schema = (None, db') \<and>
     sd_schema db' = [''0001'', ''0002'', ''0003'', ''0004'', ''0005'', ''0006''] \<and>
     RequireMigration no_mig_faults ''0006_control_exit_node_approvals'' db' = None"
proof -
  have d: "distinct (map ee_name sample_entries)" by code_simp
  obtain db' where r: "ApplyMigrations sample_sha sample_entries sample_exec no_mig_faults sample_schema = (None, db')"
    using sample_migration by (metis prod.collapse)
  from migrations_apply [OF d r] r sample_migration show ?thesis by auto
qed

end
