(* ===== verification/Startup.thy ===== *)
theory Startup
  imports Admin_CLI Migrations Controller
begin

text \<open>
  The start of the server, \<^verbatim>\<open>main.go\<close>, as one function of the environment: the configuration (with \<^verbatim>\<open>LoadConfig\<close> of
  \<^verbatim>\<open>config/config.go\<close>), the database and its migrations, TLS, the controller, and which listeners are started with what.
  It ends in a fatal error, after a migration, or with the server serving. Then the listeners themselves as far as they
  decide anything: the routes of \<^verbatim>\<open>handlers/http3.go\<close>, the echo loop of \<^verbatim>\<open>handlers/ws.go\<close> and the page of
  \<^verbatim>\<open>handlers/status.go\<close>. Reading and decoding of files, certificates and sockets are parameters.
\<close>

section \<open>Configuration\<close>

text \<open>The fields of \<^verbatim>\<open>Config\<close> that only \<^verbatim>\<open>main\<close> reads.\<close>

record ListenerConfig =
  lc_ListenAddr :: string
  lc_AdminHTTPAddr :: string
  lc_AdminHTTPToken :: string
  lc_DatabaseURL :: string
  lc_AutoCertDomain :: string
  lc_AutoCertEmail :: string
  lc_CertCacheDir :: string
  lc_TLSCertPath :: string
  lc_TLSKeyPath :: string
  lc_ClientCAPath :: string
  lc_RequireClientCert :: bool

datatype load_error = ConfigUnreadable string | ConfigUndecodable string | ConfigRejected config_error

definition LoadConfig ::
    "(string \<Rightarrow> string result) \<Rightarrow> (string \<Rightarrow> (Config \<times> ListenerConfig) result) \<Rightarrow> string \<Rightarrow> load_error + Config \<times> ListenerConfig" where
  "LoadConfig readConfig decode path =
     (case readConfig path of
        Inl err \<Rightarrow> Inl (ConfigUnreadable err)
      | Inr data \<Rightarrow>
          (case decode data of
             Inl err \<Rightarrow> Inl (ConfigUndecodable err)
           | Inr (cfg, lcfg) \<Rightarrow>
               (case Validate cfg of (Some err, _) \<Rightarrow> Inl (ConfigRejected err) | (None, cfg') \<Rightarrow> Inr (cfg', lcfg))))"

definition firstNonEmpty :: "string list \<Rightarrow> string" where
  "firstNonEmpty values = (case find (\<lambda>v. TrimSpace v \<noteq> []) values of Some v \<Rightarrow> v | None \<Rightarrow> [])"

text \<open>The build information: the version of the module and the settings.\<close>

definition buildVersion :: "string \<Rightarrow> (string \<times> (string \<times> string) list) option \<Rightarrow> string" where
  "buildVersion Version info =
     (if TrimSpace Version \<noteq> [] \<and> Version \<noteq> ''dev'' then Version
      else case info of
        None \<Rightarrow> ''dev''
      | Some (mainVersion, settings) \<Rightarrow>
          (let v = TrimSpace mainVersion in
           if v \<noteq> [] \<and> v \<noteq> ''(devel)'' then v
           else case find (\<lambda>(key, val). key = ''vcs.revision'' \<and> TrimSpace val \<noteq> []) settings of
                  Some (_, val) \<Rightarrow> ''dev+'' @ take 12 (TrimSpace val)
                | None \<Rightarrow> ''dev''))"

section \<open>The database\<close>

text \<open>
  One attempt to open the database: the error of \<^verbatim>\<open>Open\<close>, or of \<^verbatim>\<open>Ping\<close>. The loop makes at most twenty; \<open>n\<close> are left and
  \<open>err\<close> is the error of the last one.
\<close>

datatype attempt = OpenFailed string | PingFailed string | Opened

fun openLoop :: "nat \<Rightarrow> (nat \<Rightarrow> attempt) \<Rightarrow> nat \<Rightarrow> string \<Rightarrow> unit result" where
  "openLoop 0 attempts i err = Inl err"
| "openLoop (Suc n) attempts i err =
     (case attempts i of
        Opened \<Rightarrow> Inr ()
      | OpenFailed e \<Rightarrow> openLoop n attempts (Suc i) e
      | PingFailed e \<Rightarrow> openLoop n attempts (Suc i) (''ping database: '' @ e))"

definition openPostgresStore :: "(nat \<Rightarrow> attempt) \<Rightarrow> unit result" where
  "openPostgresStore attempts = openLoop 20 attempts 0 []"

section \<open>TLS\<close>

datatype tls_source = KeyPair string string | AutoCert string string string

datatype client_auth = NoClientCert | VerifyClientCertIfGiven | RequireAndVerifyClientCert

record tls_config =
  tl_source :: tls_source
  tl_minVersion :: nat
  tl_clientCAs :: "string option"
  tl_clientAuth :: client_auth

datatype fatal =
  FatalConfig load_error | FatalSchemaVersion string | FatalDatabase string | FatalMigrateNeedsDatabase | FatalMigrate string
| FatalSchema string | FatalClientCertFlag string | FatalKeyPair string | FatalAutocertDomain | FatalClientCA string
| FatalClientCAPEM | FatalController startup_error | FatalAdminSocket string | FatalAdminToken | FatalAdminHTTP string
| FatalAutocertHTTP string

text \<open>What the process finds: environment variables, arguments, files and the outcome of calls that leave the program.\<close>

record 'q process_env =
  pn_getenv :: "string \<Rightarrow> string"
  pn_args :: "string list"
  pn_exists :: "string \<Rightarrow> bool"
  pn_readConfig :: "string \<Rightarrow> string result"
  pn_decodeConfig :: "string \<Rightarrow> (Config \<times> ListenerConfig) result"
  pn_entries :: "embedEntry list"
  pn_sha256 :: "bytes \<Rightarrow> bytes"
  pn_attempts :: "string \<Rightarrow> nat \<Rightarrow> attempt"
  pn_exec :: "string \<Rightarrow> 'q \<Rightarrow> 'q result"
  pn_faults :: mig_faults
  pn_keyPair :: "string \<Rightarrow> string \<Rightarrow> string option"
  pn_readCA :: "string \<Rightarrow> string result"
  pn_validPEM :: "string \<Rightarrow> bool"
  pn_sources :: "bool \<Rightarrow> um_source \<times> (string, string) gomap result \<times> (string \<times> string) list result option"
  pn_adminSocket :: "string \<Rightarrow> string option"
  pn_adminHTTP :: "string \<Rightarrow> string option"
  pn_autocertHTTP :: "string \<Rightarrow> string option"

definition certificateSource :: "'q process_env \<Rightarrow> Config \<Rightarrow> ListenerConfig \<Rightarrow> fatal + tls_source \<times> string option" where
  "certificateSource env cfg lcfg =
     (let tlsCertPath = firstNonEmpty [pn_getenv env ''TLS_CERT'', lc_TLSCertPath lcfg];
          tlsKeyPath = firstNonEmpty [pn_getenv env ''TLS_KEY'', lc_TLSKeyPath lcfg] in
      if tlsCertPath \<noteq> [] \<and> tlsKeyPath \<noteq> []
      then (case pn_keyPair env tlsCertPath tlsKeyPath of
              Some err \<Rightarrow> Inl (FatalKeyPair err)
            | None \<Rightarrow> Inr (KeyPair tlsCertPath tlsKeyPath, None))
      else
        (let domain = firstNonEmpty [pn_getenv env ''AUTOCERT_DOMAIN'', lc_AutoCertDomain lcfg, EffectiveDefaultDomain cfg] in
         if domain = [] then Inl FatalAutocertDomain
         else
           (let addr0 = firstNonEmpty [pn_getenv env ''AUTOCERT_HTTP_ADDR'', cf_AutoCertHTTPAddr cfg];
                addr = (if addr0 = [] then '':80'' else addr0);
                cacheDir0 = firstNonEmpty [pn_getenv env ''CERT_CACHE_DIR'', lc_CertCacheDir lcfg];
                cacheDir = (if cacheDir0 = [] then ''./cert-cache'' else cacheDir0)
            in Inr (AutoCert domain cacheDir (firstNonEmpty [pn_getenv env ''AUTOCERT_EMAIL'', lc_AutoCertEmail lcfg]), Some addr))))"

definition requireClientCert :: "'q process_env \<Rightarrow> ListenerConfig \<Rightarrow> fatal + bool" where
  "requireClientCert env lcfg =
     (let flag = pn_getenv env ''TLS_REQUIRE_CLIENT_CERT'' in
      if flag = [] then Inr (lc_RequireClientCert lcfg)
      else case ParseBool flag of None \<Rightarrow> Inl (FatalClientCertFlag flag) | Some b \<Rightarrow> Inr b)"

definition clientCertificates :: "'q process_env \<Rightarrow> ListenerConfig \<Rightarrow> bool \<Rightarrow> fatal + string option \<times> client_auth" where
  "clientCertificates env lcfg require =
     (let clientCAPath = firstNonEmpty [pn_getenv env ''TLS_CLIENT_CA'', lc_ClientCAPath lcfg] in
      if clientCAPath = [] then Inr (None, NoClientCert)
      else case pn_readCA env clientCAPath of
        Inl err \<Rightarrow> Inl (FatalClientCA err)
      | Inr pem \<Rightarrow>
          if \<not> pn_validPEM env pem then Inl FatalClientCAPEM
          else Inr (Some pem, if require then RequireAndVerifyClientCert else VerifyClientCertIfGiven))"

definition tlsSetup :: "'q process_env \<Rightarrow> Config \<Rightarrow> ListenerConfig \<Rightarrow> fatal + tls_config \<times> string option" where
  "tlsSetup env cfg lcfg =
     (case requireClientCert env lcfg of
        Inl e \<Rightarrow> Inl e
      | Inr require \<Rightarrow>
          (case certificateSource env cfg lcfg of
             Inl e \<Rightarrow> Inl e
           | Inr (source, autocertHTTPAddr) \<Rightarrow>
               (case clientCertificates env lcfg require of
                  Inl e \<Rightarrow> Inl e
                | Inr (cas, auth) \<Rightarrow>
                    Inr (\<lparr>tl_source = source, tl_minVersion = 0x0304, tl_clientCAs = cas, tl_clientAuth = auth\<rparr>, autocertHTTPAddr))))"

section \<open>The start\<close>

record serving =
  rn_config :: Config
  rn_store :: UMStore
  rn_controller :: Controller
  rn_database :: bool
  rn_listenAddr :: string
  rn_tls :: tls_config
  rn_adminSocket :: string
  rn_adminHTTP :: "(string \<times> string) option"
  rn_autocertHTTP :: "string option"

datatype run = Fatal fatal | Migrated | Serving serving

definition configPath :: "'q process_env \<Rightarrow> string" where
  "configPath env =
     (let path = (if pn_getenv env ''CONFIG_PATH'' = [] then ''config/config.json'' else pn_getenv env ''CONFIG_PATH'') in
      if pn_exists env path then path else ''config.json'')"

text \<open>The listeners: the admin socket, the admin HTTP server and the challenge server, and what is left to serve.\<close>

definition startListeners ::
    "'q process_env \<Rightarrow> ListenerConfig \<Rightarrow> tls_config \<times> string option \<Rightarrow> bool \<Rightarrow> Config \<times> UMStore \<times> Controller \<Rightarrow> run" where
  "startListeners env lcfg tls db made =
     (let adminSocket = firstNonEmpty [pn_getenv env ''ADMIN_SOCKET_PATH'', ''/tmp/sdl-control-admin.sock''];
          adminHTTPAddr = firstNonEmpty [pn_getenv env ''ADMIN_HTTP_ADDR'', lc_AdminHTTPAddr lcfg];
          adminHTTPToken = firstNonEmpty [pn_getenv env ''ADMIN_HTTP_TOKEN'', lc_AdminHTTPToken lcfg];
          listenAddr0 = firstNonEmpty [pn_getenv env ''LISTEN_ADDR'', lc_ListenAddr lcfg];
          admin = (if TrimSpace adminHTTPAddr \<noteq> [] then Some (adminHTTPAddr, adminHTTPToken) else None);
          serve = Serving \<lparr>rn_config = fst made, rn_store = fst (snd made), rn_controller = snd (snd made), rn_database = db,
                    rn_listenAddr = (if listenAddr0 = [] then '':443'' else listenAddr0), rn_tls = fst tls,
                    rn_adminSocket = adminSocket, rn_adminHTTP = admin, rn_autocertHTTP = snd tls\<rparr> in
      case pn_adminSocket env adminSocket of
        Some err \<Rightarrow> Fatal (FatalAdminSocket err)
      | None \<Rightarrow>
          if admin \<noteq> None \<and> TrimSpace adminHTTPToken = [] then Fatal FatalAdminToken
          else case (if admin \<noteq> None then pn_adminHTTP env adminHTTPAddr else None) of
            Some err \<Rightarrow> Fatal (FatalAdminHTTP err)
          | None \<Rightarrow>
              (case (case snd tls of Some addr \<Rightarrow> pn_autocertHTTP env addr | None \<Rightarrow> None) of
                 Some err \<Rightarrow> Fatal (FatalAutocertHTTP err)
               | None \<Rightarrow> serve))"

definition serveFrom :: "'q process_env \<Rightarrow> gtime \<Rightarrow> Config \<Rightarrow> ListenerConfig \<Rightarrow> bool \<Rightarrow> run" where
  "serveFrom env now cfg lcfg db =
     (case tlsSetup env cfg lcfg of
        Inl e \<Rightarrow> Fatal e
      | Inr tls \<Rightarrow>
          (case pn_sources env db of
             (src, gatewayFile, exitRows) \<Rightarrow>
               (case NewController now (Some cfg) src gatewayFile exitRows of
                  Inl e \<Rightarrow> Fatal (FatalController e)
                | Inr made \<Rightarrow> startListeners env lcfg tls db made)))"

text \<open>\<^verbatim>\<open>main\<close>, with the database before and after.\<close>

definition server_main :: "'q process_env \<Rightarrow> gtime \<Rightarrow> 'q schemaDB \<Rightarrow> run \<times> 'q schemaDB" where
  "server_main env now d =
     (case LoadConfig (pn_readConfig env) (pn_decodeConfig env) (configPath env) of
        Inl e \<Rightarrow> (Fatal (FatalConfig e), d)
      | Inr (cfg, lcfg) \<Rightarrow>
          (let databaseURL = firstNonEmpty [pn_getenv env ''DATABASE_URL'', lc_DatabaseURL lcfg];
               db = (TrimSpace databaseURL \<noteq> []) in
           case LatestMigrationVersion (pn_sha256 env) (pn_entries env) ''control'' of
             Inl e \<Rightarrow> (Fatal (FatalSchemaVersion e), d)
           | Inr required \<Rightarrow>
               (case (if db then openPostgresStore (pn_attempts env databaseURL) else Inr ()) of
                  Inl e \<Rightarrow> (Fatal (FatalDatabase e), d)
                | Inr _ \<Rightarrow>
                    if length (pn_args env) > 1 \<and> pn_args env ! 1 = ''migrate''
                    then (if \<not> db then (Fatal FatalMigrateNeedsDatabase, d)
                          else case ApplyMigrations (pn_sha256 env) (pn_entries env) (pn_exec env) (pn_faults env) d of
                                 (Some e, d') \<Rightarrow> (Fatal (FatalMigrate e), d')
                               | (None, d') \<Rightarrow> (Migrated, d'))
                    else case (if db then RequireMigration (pn_faults env) required d else None) of
                           Some e \<Rightarrow> (Fatal (FatalSchema e), d)
                         | None \<Rightarrow> (serveFrom env now cfg lcfg db, d))))"

section \<open>Listeners\<close>

text \<open>
  The HTTP/3 server: a session is served for a POST of \<^verbatim>\<open>/control\<close> over a stream that can be taken over, with the remote
  address of the request.
\<close>

datatype h3_answer = H3Error nat string | H3Ok string | H3Session string

text \<open>The address in the context of the request, else the resolved text of the request, else the text.\<close>

definition remoteAddrFromRequest :: "string option \<Rightarrow> (string \<Rightarrow> string option) \<Rightarrow> string \<Rightarrow> string" where
  "remoteAddrFromRequest fromContext resolve addr =
     (case fromContext of
        Some a \<Rightarrow> a
      | None \<Rightarrow> (case resolve addr of Some a \<Rightarrow> a | None \<Rightarrow> addr))"

definition handleHTTP3 :: "string \<Rightarrow> string \<Rightarrow> bool \<Rightarrow> string \<Rightarrow> h3_answer" where
  "handleHTTP3 path httpMethod streamer remoteAddr =
     (if path = ''/control''
      then (if httpMethod \<noteq> ''POST'' then H3Error 405 ''method not allowed''
            else if \<not> streamer then H3Error 500 ''http3 stream takeover not supported''
            else H3Session remoteAddr)
      else if path = ''/healthz'' then H3Ok ''ok''
      else H3Error 404 ''404 page not found'')"

text \<open>Closing a session over HTTP/3: both halves are closed, the error of the reader comes first.\<close>

definition closeHTTP3 :: "string option \<Rightarrow> string option \<Rightarrow> string option" where
  "closeHTTP3 readerErr streamErr = (if readerErr \<noteq> None then readerErr else streamErr)"

text \<open>
  The echo of the web socket: the messages that arrive until the read fails, and the replies until a write fails. \<open>prefix\<close> is
  the text in front of a reply.
\<close>

fun echoLoop :: "string \<Rightarrow> (string \<Rightarrow> bool) \<Rightarrow> (nat \<times> string) list \<Rightarrow> (nat \<times> string) list" where
  "echoLoop pre fails [] = []"
| "echoLoop pre fails ((mt, message) # msgs) =
     (let reply = pre @ message in if fails reply then [] else (mt, reply) # echoLoop pre fails msgs)"

definition StatusHandler :: "(string \<times> string) list" where
  "StatusHandler = [(''service'', ''sdl-control''), (''status'', ''ok'')]"

section \<open>Properties\<close>

lemma openLoop_first:
  "openLoop n attempts i err = Inr () \<longleftrightarrow> (\<exists>k < n. attempts (i + k) = Opened)"
proof (induction n attempts i err rule: openLoop.induct)
  case (2 n attempts i err)
  have shift: "(\<exists>k < Suc n. attempts (i + k) = Opened) \<longleftrightarrow> attempts i = Opened \<or> (\<exists>k < n. attempts (Suc i + k) = Opened)"
    by (subst Ex_less_Suc2) simp
  show ?case unfolding shift using 2 by (cases "attempts i") simp_all
qed simp

lemma LoadConfig_valid:
  "LoadConfig rd decode path = Inr (cfg, lcfg) \<Longrightarrow> \<exists>raw. Validate raw = (None, cfg)"
  by (auto simp: LoadConfig_def split: sum.splits prod.splits option.splits)

lemma RequireMigration_None: "RequireMigration faults v d = None \<Longrightarrow> recorded d v \<noteq> None"
  by (auto simp: RequireMigration_def recorded_def split: if_splits option.splits)

lemma serving_after [simp]:
  "(case x of Some err \<Rightarrow> Fatal (f err) | None \<Rightarrow> r) = Serving s \<longleftrightarrow> x = None \<and> r = Serving s"
  "(if b then Fatal e else r) = Serving s \<longleftrightarrow> \<not> b \<and> r = Serving s"
  by (simp_all split: option.split)

lemma startListeners_Serving:
  assumes "startListeners env lcfg tls db made = Serving s"
  shows "rn_tls s = fst tls" "rn_database s = db" "rn_config s = fst made" "rn_store s = fst (snd made)"
    "rn_controller s = snd (snd made)" "rn_adminHTTP s = Some (addr, token) \<Longrightarrow> TrimSpace token \<noteq> []"
  using assms by (auto simp: startListeners_def Let_def split: if_split_asm)

lemma tlsSetup_auth:
  assumes "tlsSetup env cfg lcfg = Inr (tls, addr)"
  shows "\<exists>require. requireClientCert env lcfg = Inr require \<and>
    (tl_clientAuth tls = RequireAndVerifyClientCert \<longleftrightarrow> require \<and> tl_clientCAs tls \<noteq> None) \<and>
    (tl_clientAuth tls = NoClientCert \<longleftrightarrow> tl_clientCAs tls = None)"
  using assms by (auto simp: tlsSetup_def clientCertificates_def Let_def split: sum.splits prod.splits if_splits)

lemma serveFrom_Serving:
  assumes "serveFrom env now cfg lcfg db = Serving s"
  obtains tls addr src gw rows where "tlsSetup env cfg lcfg = Inr (tls, addr)" and "pn_sources env db = (src, gw, rows)"
    and "NewController now (Some cfg) src gw rows = Inr (rn_config s, rn_store s, rn_controller s)"
    and "rn_tls s = tls" and "rn_database s = db" and "\<forall>a t. rn_adminHTTP s = Some (a, t) \<longrightarrow> TrimSpace t \<noteq> []"
proof -
  obtain tls addr src gw rows made where t: "tlsSetup env cfg lcfg = Inr (tls, addr)" and src: "pn_sources env db = (src, gw, rows)"
    and m: "NewController now (Some cfg) src gw rows = Inr made" and l: "startListeners env lcfg (tls, addr) db made = Serving s"
    using assms by (auto simp: serveFrom_def split: sum.splits prod.splits)
  note L = startListeners_Serving [OF l]
  show thesis
    by (rule that [OF t src]) (use m L in simp_all)
qed

lemma server_main_Serving:
  assumes "server_main env now d = (Serving s, d')"
  obtains cfg lcfg v where "LoadConfig (pn_readConfig env) (pn_decodeConfig env) (configPath env) = Inr (cfg, lcfg)"
    and "serveFrom env now cfg lcfg (rn_database s) = Serving s" and "d' = d"
    and "LatestMigrationVersion (pn_sha256 env) (pn_entries env) ''control'' = Inr v"
    and "rn_database s \<longrightarrow> RequireMigration (pn_faults env) v d = None"
    and "rn_database s \<longrightarrow> openPostgresStore (pn_attempts env (firstNonEmpty [pn_getenv env ''DATABASE_URL'', lc_DatabaseURL lcfg])) = Inr ()"
proof -
  obtain cfg lcfg where c: "LoadConfig (pn_readConfig env) (pn_decodeConfig env) (configPath env) = Inr (cfg, lcfg)"
    using assms by (auto simp: server_main_def split: sum.splits)
  let ?url = "firstNonEmpty [pn_getenv env ''DATABASE_URL'', lc_DatabaseURL lcfg]" and ?db = "TrimSpace (firstNonEmpty [pn_getenv env ''DATABASE_URL'', lc_DatabaseURL lcfg]) \<noteq> []"
  obtain v where v: "LatestMigrationVersion (pn_sha256 env) (pn_entries env) ''control'' = Inr v"
    and f: "serveFrom env now cfg lcfg ?db = Serving s" and d: "d' = d"
    and r: "?db \<longrightarrow> RequireMigration (pn_faults env) v d = None" and o: "?db \<longrightarrow> openPostgresStore (pn_attempts env ?url) = Inr ()"
    using assms c by (auto simp: server_main_def Let_def split: sum.splits option.splits if_splits prod.splits)
  have "rn_database s = ?db" using f by (rule serveFrom_Serving)
  then show thesis using that [OF c _ d v] f r o by simp
qed


text \<open>A start with a database that answers the third time, a key pair, a client authority and an admin HTTP server.\<close>

definition sample_listeners :: ListenerConfig where
  "sample_listeners = \<lparr>lc_ListenAddr = [], lc_AdminHTTPAddr = ''127.0.0.1:9090'', lc_AdminHTTPToken = ''secret'',
     lc_DatabaseURL = ''postgres://db'', lc_AutoCertDomain = [], lc_AutoCertEmail = [], lc_CertCacheDir = [],
     lc_TLSCertPath = ''cert.pem'', lc_TLSKeyPath = ''key.pem'', lc_ClientCAPath = ''ca.pem'', lc_RequireClientCert = False\<rparr>"

definition sample_process :: "string list process_env" where
  "sample_process = \<lparr>pn_getenv = (\<lambda>name. if name = ''TLS_REQUIRE_CLIENT_CERT'' then ''true'' else []), pn_args = [''sdl-control''],
     pn_exists = (\<lambda>_. False), pn_readConfig = (\<lambda>path. if path = ''config.json'' then Inr ''{}'' else Inl ''no file''),
     pn_decodeConfig = (\<lambda>_. Inr (sample_config, sample_listeners)), pn_entries = sample_entries, pn_sha256 = sample_sha,
     pn_attempts = (\<lambda>_ i. if i = 0 then OpenFailed ''refused'' else if i = 1 then PingFailed ''starting'' else Opened),
     pn_exec = sample_exec, pn_faults = no_mig_faults, pn_keyPair = (\<lambda>_ _. None), pn_readCA = Inr, pn_validPEM = (\<lambda>_. True),
     pn_sources = (\<lambda>_. (\<lparr>us_db = None, us_seed = None, us_json = Inl ''no file'', us_jsonSave = (\<lambda>_. None)\<rparr>, Inl ''no file'', Some (Inr []))),
     pn_adminSocket = (\<lambda>_. None), pn_adminHTTP = (\<lambda>_. None), pn_autocertHTTP = (\<lambda>_. None)\<rparr>"

lemma sample_load:
  "LoadConfig (pn_readConfig sample_process) (pn_decodeConfig sample_process) (configPath sample_process) =
     Inr (sample_validated, sample_listeners)"
  by (simp add: LoadConfig_def sample_process_def configPath_def sample_config_valid)

lemma sample_url: "firstNonEmpty [pn_getenv sample_process ''DATABASE_URL'', lc_DatabaseURL sample_listeners] = ''postgres://db''"
  by code_simp

lemma sample_opens: "openPostgresStore (pn_attempts sample_process url) = Inr ()"
  by (simp add: openPostgresStore_def sample_process_def numeral_nat)

lemma sample_tls:
  "tlsSetup sample_process sample_validated sample_listeners =
     Inr (\<lparr>tl_source = KeyPair ''cert.pem'' ''key.pem'', tl_minVersion = 0x0304, tl_clientCAs = Some ''ca.pem'',
       tl_clientAuth = RequireAndVerifyClientCert\<rparr>, None)"
  by code_simp

lemma sample_made: "\<exists>st ct. NewController 1 (Some sample_validated)
    \<lparr>us_db = None, us_seed = None, us_json = Inl ''no file'', us_jsonSave = (\<lambda>_. None)\<rparr> (Inl ''no file'') (Some (Inr [])) =
    Inr (sample_validated, st, ct)"
  by (simp add: NewController_def sample_validated_valid newUserManagerFromStore_def NewUserManagerWithStore_def
      newExitNodeApprovalStateFromStore_def loadExitNodeApprovalStateFromPostgres_def)

lemma sample_starts_serving:
  obtains s where "server_main sample_process 1 sample_migrated = (Serving s, sample_migrated)" "rn_database s"
    "rn_adminHTTP s = Some (''127.0.0.1:9090'', ''secret'')" "tl_clientAuth (rn_tls s) = RequireAndVerifyClientCert"
proof -
  have t: "TrimSpace ''secret'' \<noteq> []" "TrimSpace ''127.0.0.1:9090'' \<noteq> []" "TrimSpace ''postgres://db'' \<noteq> []" by code_simp+
  have f: "firstNonEmpty [pn_getenv sample_process ''ADMIN_HTTP_ADDR'', lc_AdminHTTPAddr sample_listeners] = ''127.0.0.1:9090''"
    "firstNonEmpty [pn_getenv sample_process ''ADMIN_HTTP_TOKEN'', lc_AdminHTTPToken sample_listeners] = ''secret''"
    by code_simp+
  obtain st ct where c: "NewController 1 (Some sample_validated)
    \<lparr>us_db = None, us_seed = None, us_json = Inl ''no file'', us_jsonSave = (\<lambda>_. None)\<rparr> (Inl ''no file'') (Some (Inr [])) =
    Inr (sample_validated, st, ct)" using sample_made by blast
  have p: "pn_sha256 sample_process = sample_sha" "pn_entries sample_process = sample_entries" "pn_args sample_process = [''sdl-control'']"
    "pn_faults sample_process = no_mig_faults" "pn_adminSocket sample_process x = None" "pn_adminHTTP sample_process x = None"
    "pn_sources sample_process db = (\<lparr>us_db = None, us_seed = None, us_json = Inl ''no file'', us_jsonSave = (\<lambda>_. None)\<rparr>,
      Inl ''no file'', Some (Inr []))" for x db
    by (simp_all add: sample_process_def)
  have "\<exists>s. server_main sample_process 1 sample_migrated = (Serving s, sample_migrated) \<and> rn_database s \<and>
    rn_adminHTTP s = Some (''127.0.0.1:9090'', ''secret'') \<and> tl_clientAuth (rn_tls s) = RequireAndVerifyClientCert"
    by (simp add: server_main_def sample_load sample_url sample_migration sample_opens p t c
        serveFrom_def sample_tls startListeners_def Let_def f)
  then show thesis using that by blast
qed


end
