(* ===== verification/Admin_CLI_Facts.thy ===== *)
theory Admin_CLI_Facts
  imports Admin_CLI Config
begin

text \<open>
  What the command line of operators can say: \<open>request_complete\<close> describes the requests with all that their action needs.
  The lemmas on flags, on numbers and on the lines of each command show that parsing yields exactly these requests.
\<close>

section \<open>Parsing flags\<close>

named_theorems flag_simps \<open>parsing of the flags of a command\<close>

lemma parse_end [flag_simps]: "parseFlags fs [] vars = Some (vars, [])"
  by (simp add: parseFlags.simps [of fs "[]"] parseOne_def)

lemma parse_stop [flag_simps]: "parseFlags fs (''--'' # args) vars = Some (vars, args)"
  by (simp add: parseFlags.simps [of fs "''--'' # args"] parseOne_def)

definition flag_name :: "string \<Rightarrow> bool" where
  "flag_name name \<longleftrightarrow> name \<noteq> [] \<and> hd name \<noteq> CHR ''-'' \<and> CHR ''='' \<notin> set name"

lemma Cut_None: "c \<notin> set s \<Longrightarrow> Cut s c = None"
  by (induction s) auto

lemma parseOne_named:
  assumes "flag_name name" and "gget fs name = Some (var, kind)"
  shows "parseOne fs ((CHR ''-'' # name) # args) vars =
    (case kind of
       FBool _ \<Rightarrow> Some (True, gput var (FBool True) vars, args)
     | _ \<Rightarrow> (case args of [] \<Rightarrow> None | v # rest \<Rightarrow> map_option (\<lambda>x. (True, gput var x vars, rest)) (setFlag kind v)))"
proof -
  have n: "name \<noteq> []" "hd name \<noteq> CHR ''-''" "hd name \<noteq> CHR ''=''" "Cut name (CHR ''='') = None"
    using assms(1) by (cases name; auto simp: flag_name_def Cut_None)+
  then have "(CHR ''-'' # name) ! 1 = hd name" "\<not> length (CHR ''-'' # name) < 2" "CHR ''-'' # name \<noteq> ''--''"
    by (auto simp: hd_conv_nth length_Suc_conv neq_Nil_conv)
  then show ?thesis
    using n assms(2) by (cases kind; cases args) (simp_all add: parseOne_def Let_def)
qed

lemma parse_str [flag_simps]:
  "flag_name name \<Longrightarrow> gget fs name = Some (var, FStr d) \<Longrightarrow>
     parseFlags fs ((CHR ''-'' # name) # v # args) vars = parseFlags fs args (gput var (FStr v) vars)"
  by (subst parseFlags.simps) (simp add: parseOne_named)

lemma parse_bool [flag_simps]:
  "flag_name name \<Longrightarrow> gget fs name = Some (var, kind) \<Longrightarrow> (case kind of FBool _ \<Rightarrow> True | _ \<Rightarrow> False) \<Longrightarrow>
     parseFlags fs ((CHR ''-'' # name) # args) vars = parseFlags fs args (gput var (FBool True) vars)"
  by (subst parseFlags.simps) (simp add: parseOne_named split: flagValue.splits)

lemma parse_int:
  "flag_name name \<Longrightarrow> gget fs name = Some (var, FInt d) \<Longrightarrow> ParseInt0 v = Some i \<Longrightarrow>
     parseFlags fs ((CHR ''-'' # name) # v # args) vars = parseFlags fs args (gput var (FInt i) vars)"
  by (subst parseFlags.simps) (simp add: parseOne_named)

section \<open>Numbers on the command line\<close>

lemma readBase_digits:
  "(\<And>c. c \<in> set s \<Longrightarrow> is_digit c) \<Longrightarrow> readBase 10 s n = Some (foldl (\<lambda>acc c. acc * 10 + digit_val c) n s)"
proof (induction s arbitrary: n)
  case (Cons c s)
  then have c: "is_digit c" by simp
  then have "c \<noteq> CHR ''_''" "digit36 c = Some (digit_val c)" "digit_val c < 10"
    by (auto simp: is_digit_def digit36_def digit_val_def less_eq_char_def)
  then show ?case using Cons by simp
qed simp

lemma basePrefix_show: "basePrefix (show_nat n) = None"
proof (cases "show_nat n")
  case (Cons c r)
  then show ?thesis
    using show_nat_no_leading_zero [of n] by (cases r) (auto simp: basePrefix_def)
qed simp

lemma ParseUint0_show:
  assumes "n < 2 ^ 64"
  shows "ParseUint0 (show_nat n) = Some n"
proof -
  have d: "\<And>c. c \<in> set (show_nat n) \<Longrightarrow> is_digit c" by (rule show_nat_digits)
  have u: "CHR ''_'' \<notin> set (show_nat n)" using d [of "CHR ''_''"] by (auto simp: is_digit_def less_eq_char_def)
  show ?thesis
  proof (cases "hd (show_nat n) = CHR ''0''")
    case False
    have "readBase 10 (show_nat n) 0 = Some n"
      using readBase_digits [OF d, where n = 0] read_show_nat [of n] by (simp add: read_nat_def)
    then show ?thesis using False u assms by (simp add: ParseUint0_def basePrefix_show)
  next
    case True
    then have "show_nat n = ''0''" using show_nat_no_leading_zero [of n] by (cases "show_nat n") auto
    moreover from this have "n = 0" using read_show_nat [of n] by (simp add: read_nat_def digit_val_def)
    ultimately show ?thesis by (simp add: ParseUint0_def basePrefix_def)
  qed
qed

lemma show_nat_hd: "is_digit (hd (show_nat n))"
  by (rule show_nat_digits [of _ n]) simp

lemma ParseInt0_show:
  assumes "- (2 ^ 63) \<le> i" and "i < 2 ^ 63"
  shows "ParseInt0 (show_int i) = Some i"
proof (cases "i < 0")
  case True
  then have "nat (- i) < 2 ^ 64" "nat (- i) \<le> 2 ^ 63" using assms by auto
  then show ?thesis using True ParseUint0_show by (simp add: ParseInt0_def show_int_def Let_def)
next
  case False
  have "hd (show_nat (nat i)) \<noteq> CHR ''-''" "hd (show_nat (nat i)) \<noteq> CHR ''+''"
    using show_nat_hd [of "nat i"] by (auto simp: is_digit_def less_eq_char_def)
  moreover have "nat i < 2 ^ 64" "nat i < 2 ^ 63" using False assms by auto
  ultimately show ?thesis using False ParseUint0_show [of "nat i"] by (simp add: ParseInt0_def show_int_def Let_def)
qed

definition show_i64 :: "u64 \<Rightarrow> string" where
  "show_i64 w = show_int (sint w)"

lemma parse_i64 [flag_simps]:
  assumes "flag_name name" and "gget fs name = Some (var, FInt d)"
  shows "parseFlags fs ((CHR ''-'' # name) # show_i64 w # args) vars = parseFlags fs args (gput var (FInt (sint w)) vars)"
proof (rule parse_int [OF assms])
  show "ParseInt0 (show_i64 w) = Some (sint w)"
    unfolding show_i64_def using sint_ge [of w] sint_lt [of w] by (intro ParseInt0_show) simp_all
qed

section \<open>Lists on the command line\<close>

lemma set_TrimSpace: "set (TrimSpace s) \<subseteq> set s"
  using set_mono_suffix [OF strip_tokens_suffix] unfolding TrimSpace_def by (metis set_rev subset_trans)

definition section_name :: "string \<Rightarrow> bool" where
  "section_name s \<longleftrightarrow> s \<noteq> [] \<and> TrimSpace s = s \<and> CHR '','' \<notin> set s"

lemma split_char_pieces: "p \<in> set (split_char sep s) \<Longrightarrow> sep \<notin> set p"
  by (induction s arbitrary: p) (auto split: list.splits if_splits)

lemma splitCSV_sections: "list_all section_name (splitCSV v)"
  using split_char_pieces [of _ "CHR '',''" v] set_TrimSpace
  by (auto simp: splitCSV_def list_all_iff section_name_def)

lemma split_Join:
  "xs \<noteq> [] \<Longrightarrow> \<forall>x \<in> set xs. sep \<notin> set x \<Longrightarrow> split_char sep (JoinStrings xs [sep]) = xs"
proof (induction xs rule: induct_list012)
  case (3 x y zs)
  then show ?case using split_char_append [of sep x] by simp
qed (simp_all add: split_char_no_sep)

lemma splitCSV_Join [flag_simps]:
  assumes "list_all section_name xs"
  shows "splitCSV (JoinStrings xs '','') = xs"
proof (cases "xs = []")
  case False
  have "split_char (CHR '','') (JoinStrings xs '','') = xs"
    using assms by (intro split_Join False) (auto simp: list_all_iff section_name_def)
  moreover have "map TrimSpace xs = xs" "filter (\<lambda>s. s \<noteq> []) xs = xs"
    using assms by (auto simp: list_all_iff section_name_def intro: map_idI)
  ultimately show ?thesis by (simp add: splitCSV_def)
qed (simp add: splitCSV_def)

section \<open>Complete requests\<close>

abbreviation trimmed :: "string \<Rightarrow> bool" where
  "trimmed s \<equiv> TrimSpace s = s"

text \<open>A request of an action has the fields of the action and no others, trimmed, and what the action needs is there.\<close>

inductive request_complete :: "adminRequest \<Rightarrow> bool" where
  bare: "a \<in> {''version'', ''gateway_list'', ''dns_domains''} \<Longrightarrow> request_complete (zero_adminRequest\<lparr>ar_Action := a\<rparr>)"
| create_user: "\<lbrakk>trimmed u; u \<noteq> []; trimmed g\<rbrakk> \<Longrightarrow>
    request_complete (zero_adminRequest\<lparr>ar_Action := ''create_user'', ar_UserID := u, ar_Group := g\<rparr>)"
| list_users: "\<lbrakk>trimmed i; trimmed n\<rbrakk> \<Longrightarrow>
    request_complete (zero_adminRequest\<lparr>ar_Action := ''list_users'', ar_IDFilter := i, ar_NameFilter := n\<rparr>)"
| issue_device_ticket: "\<lbrakk>trimmed u; u \<noteq> []; trimmed g\<rbrakk> \<Longrightarrow>
    request_complete (zero_adminRequest\<lparr>ar_Action := ''issue_device_ticket'', ar_UserID := u, ar_Group := g, ar_TTLSeconds := t\<rparr>)"
| list_device: "\<lbrakk>trimmed u; u \<noteq> []\<rbrakk> \<Longrightarrow>
    request_complete (zero_adminRequest\<lparr>ar_Action := ''list_device'', ar_UserID := u\<rparr>)"
| delete_device: "\<lbrakk>trimmed u; u \<noteq> []; trimmed g; trimmed d; d \<noteq> []\<rbrakk> \<Longrightarrow>
    request_complete (zero_adminRequest\<lparr>ar_Action := ''delete_device'', ar_UserID := u, ar_Group := g, ar_DeviceID := d\<rparr>)"
| rename_device: "\<lbrakk>trimmed u; u \<noteq> []; trimmed g; trimmed d; d \<noteq> []; trimmed n; n \<noteq> []\<rbrakk> \<Longrightarrow>
    request_complete (zero_adminRequest\<lparr>ar_Action := ''rename_device'', ar_UserID := u, ar_Group := g, ar_DeviceID := d, ar_Name := n\<rparr>)"
| extend_device_expiry: "\<lbrakk>trimmed u; u \<noteq> []; trimmed g; trimmed d; b \<longleftrightarrow> d = []\<rbrakk> \<Longrightarrow>
    request_complete (zero_adminRequest\<lparr>ar_Action := ''extend_device_expiry'', ar_UserID := u, ar_Group := g, ar_DeviceID := d,
      ar_All := b, ar_TTLSeconds := t\<rparr>)"
| gateway: "\<lbrakk>a \<in> {''gateway_enlist'', ''gateway_delist''}; trimmed w; w \<noteq> []\<rbrakk> \<Longrightarrow>
    request_complete (zero_adminRequest\<lparr>ar_Action := a, ar_GatewayID := w\<rparr>)"
| exit_node_list: "trimmed u \<Longrightarrow> request_complete (zero_adminRequest\<lparr>ar_Action := ''exit_node_list'', ar_UserID := u\<rparr>)"
| exit_node_approve_name: "\<lbrakk>trimmed u; u \<noteq> []; trimmed n; n \<noteq> []\<rbrakk> \<Longrightarrow>
    request_complete (zero_adminRequest\<lparr>ar_Action := ''exit_node_approve'', ar_UserID := u, ar_Name := n\<rparr>)"
| exit_node_approve_device: "\<lbrakk>trimmed u; trimmed d\<rbrakk> \<Longrightarrow>
    request_complete (zero_adminRequest\<lparr>ar_Action := ''exit_node_approve'', ar_UserID := u, ar_DeviceID := d\<rparr>)"
| exit_node_revoke: "\<lbrakk>trimmed u; u \<noteq> []; trimmed d; d \<noteq> []\<rbrakk> \<Longrightarrow>
    request_complete (zero_adminRequest\<lparr>ar_Action := ''exit_node_revoke'', ar_UserID := u, ar_DeviceID := d\<rparr>)"
| dns_snapshot: "\<lbrakk>trimmed d; d \<noteq> []; trimmed g\<rbrakk> \<Longrightarrow>
    request_complete (zero_adminRequest\<lparr>ar_Action := ''dns_snapshot'', ar_Domain := d, ar_Group := g\<rparr>)"
| collect_debug: "\<lbrakk>trimmed n; n \<noteq> []; trimmed u; trimmed g; list_all section_name s\<rbrakk> \<Longrightarrow>
    request_complete (zero_adminRequest\<lparr>ar_Action := ''collect_debug'', ar_Name := n, ar_UserID := u, ar_Group := g,
      ar_Sections := s, ar_TimeoutSec := t\<rparr>)"
| start_debug_watch: "\<lbrakk>trimmed n; n \<noteq> []; trimmed u; trimmed g; list_all section_name s\<rbrakk> \<Longrightarrow>
    request_complete (zero_adminRequest\<lparr>ar_Action := ''start_debug_watch'', ar_Name := n, ar_UserID := u, ar_Group := g,
      ar_Sections := s, ar_TimeoutSec := t, ar_DurationSec := w\<rparr>)"
| stop_debug_watch: "\<lbrakk>trimmed n; n \<noteq> []; trimmed u; trimmed g\<rbrakk> \<Longrightarrow>
    request_complete (zero_adminRequest\<lparr>ar_Action := ''stop_debug_watch'', ar_Name := n, ar_UserID := u, ar_Group := g,
      ar_TimeoutSec := t\<rparr>)"

lemmas flag_sets [flag_simps] = Parse_def newVars_def both_def userFlags_def groupFlags_def deviceFlags_def nameFlags_def ttlFlags_def
  debugFlags_def sectionFlags_def timeoutFlags_def flag_name_def trimVar_def strVar_def intVar_def boolVar_def

lemma Parse_Some:
  "(case Parse fs xs of None \<Rightarrow> None | Some (vars, rest) \<Rightarrow> F vars rest) = Some req \<Longrightarrow> \<exists>vars rest. F vars rest = Some req"
  by (auto split: option.splits)

lemma trimmed_trimVar: "trimmed (trimVar vars x)"
  by (simp add: trimVar_def)

lemmas complete_rules = request_complete.intros trimmed_trimVar TrimSpace_idem splitCSV_sections

lemma parsed_users: "parseUserCreate args = Some req \<Longrightarrow> request_complete req" "parseUserList args = Some req \<Longrightarrow> request_complete req"
  unfolding parseUserCreate_def parseUserList_def
  by (drule Parse_Some, auto intro!: complete_rules split: if_splits)+

lemma parsed_devices:
  "parseDeviceDelete args = Some req \<Longrightarrow> request_complete req" "parseDeviceRename args = Some req \<Longrightarrow> request_complete req"
  "parseDeviceIssueAuthTicket args = Some req \<Longrightarrow> request_complete req" "parseDeviceList args = Some req \<Longrightarrow> request_complete req"
  "parseDeviceExtendExpiry args = Some req \<Longrightarrow> request_complete req"
  unfolding parseDeviceDelete_def parseDeviceRename_def parseDeviceIssueAuthTicket_def parseDeviceList_def parseDeviceExtendExpiry_def
  by (drule Parse_Some, auto intro!: complete_rules split: if_splits)+

lemma parsed_gateways: "parseGateway args = Some req \<Longrightarrow> request_complete req"
  unfolding parseGateway_def Let_def
  by (drule Parse_Some, auto intro!: complete_rules split: if_splits)

lemma parsed_exits:
  "parseExitNodeList args = Some req \<Longrightarrow> request_complete req" "parseExitNodeApprove args = Some req \<Longrightarrow> request_complete req"
  "parseExitNodeApproval ''exit_node_revoke'' args = Some req \<Longrightarrow> request_complete req"
  unfolding parseExitNodeList_def parseExitNodeApprove_def parseExitNodeApproval_def Let_def
  by (drule Parse_Some, auto intro!: complete_rules split: if_splits list.splits)+

lemma parsed_dns: "parseDNSSnapshot args = Some req \<Longrightarrow> request_complete req" "parseDNSDomains args = Some req \<Longrightarrow> request_complete req"
  unfolding parseDNSSnapshot_def parseDNSDomains_def
  by (drule Parse_Some, auto intro!: complete_rules split: if_splits)+

lemma parsed_debug:
  "parseCollectDebug args = Some req \<Longrightarrow> request_complete req" "parseStartDebugWatch args = Some req \<Longrightarrow> request_complete req"
  "parseStopDebugWatch args = Some req \<Longrightarrow> request_complete req"
  unfolding parseCollectDebug_def parseStartDebugWatch_def parseStopDebugWatch_def
  by (drule Parse_Some, auto intro!: complete_rules split: if_splits)+

lemma parsed_groups:
  "parseUser args = Some req \<Longrightarrow> request_complete req" "parseDevice args = Some req \<Longrightarrow> request_complete req"
  "parseExitNode args = Some req \<Longrightarrow> request_complete req"
  unfolding parseUser_def parseDevice_def parseExitNode_def
  by (simp_all add: parsed_users parsed_devices parsed_exits split: list.splits if_splits)

lemma parsed_version: "zero_adminRequest\<lparr>ar_Action := ''version''\<rparr> = req \<Longrightarrow> request_complete req"
  by (auto intro: complete_rules)

lemma if_Some: "(if c then a else b) = Some x \<Longrightarrow> (a = Some x \<Longrightarrow> P) \<Longrightarrow> (b = Some x \<Longrightarrow> P) \<Longrightarrow> P"
  by (simp split: if_splits)

lemma parsed_complete: "cliRequest args = Some req \<Longrightarrow> request_complete req"
proof (cases args)
  case (Cons cmd rest)
  assume "cliRequest args = Some req"
  then show ?thesis unfolding cliRequest_def Cons list.case
    by (elim if_Some) (simp_all add: parsed_version parsed_groups parsed_gateways parsed_dns parsed_debug)
qed (simp add: cliRequest_def)

section \<open>Every complete request has a command line\<close>

lemma lines_users:
  "\<lbrakk>trimmed u; u \<noteq> []; trimmed g\<rbrakk> \<Longrightarrow> cliRequest [''user'', ''create'', ''-u'', u, ''-g'', g] =
     Some (zero_adminRequest\<lparr>ar_Action := ''create_user'', ar_UserID := u, ar_Group := g\<rparr>)"
  "\<lbrakk>trimmed i; trimmed n\<rbrakk> \<Longrightarrow> cliRequest [''user'', ''list'', ''-u'', i, ''-n'', n] =
     Some (zero_adminRequest\<lparr>ar_Action := ''list_users'', ar_IDFilter := i, ar_NameFilter := n\<rparr>)"
  by (simp_all add: cliRequest_def parseUser_def parseUserCreate_def parseUserList_def flag_simps)

lemma lines_devices:
  "\<lbrakk>trimmed u; u \<noteq> []\<rbrakk> \<Longrightarrow> cliRequest [''device'', ''list'', ''-u'', u] =
     Some (zero_adminRequest\<lparr>ar_Action := ''list_device'', ar_UserID := u\<rparr>)"
  "\<lbrakk>trimmed u; u \<noteq> []; trimmed g\<rbrakk> \<Longrightarrow> cliRequest [''device'', ''issue-auth-ticket'', ''-u'', u, ''-g'', g, ''-t'', show_i64 t] =
     Some (zero_adminRequest\<lparr>ar_Action := ''issue_device_ticket'', ar_UserID := u, ar_Group := g, ar_TTLSeconds := t\<rparr>)"
  "\<lbrakk>trimmed u; u \<noteq> []; trimmed g; trimmed d; d \<noteq> []\<rbrakk> \<Longrightarrow> cliRequest [''device'', ''delete'', ''-u'', u, ''-g'', g, ''-d'', d] =
     Some (zero_adminRequest\<lparr>ar_Action := ''delete_device'', ar_UserID := u, ar_Group := g, ar_DeviceID := d\<rparr>)"
  "\<lbrakk>trimmed u; u \<noteq> []; trimmed g; trimmed d; d \<noteq> []; trimmed n; n \<noteq> []\<rbrakk> \<Longrightarrow>
     cliRequest [''device'', ''rename'', ''-u'', u, ''-g'', g, ''-d'', d, ''-n'', n] =
     Some (zero_adminRequest\<lparr>ar_Action := ''rename_device'', ar_UserID := u, ar_Group := g, ar_DeviceID := d, ar_Name := n\<rparr>)"
  "\<lbrakk>trimmed u; u \<noteq> []; trimmed g; trimmed d; b \<longleftrightarrow> d = []\<rbrakk> \<Longrightarrow>
     cliRequest ([''device'', ''extend-expiry'', ''-u'', u, ''-g'', g, ''-d'', d, ''-t'', show_i64 t] @ (if b then [''-all''] else [])) =
     Some (zero_adminRequest\<lparr>ar_Action := ''extend_device_expiry'', ar_UserID := u, ar_Group := g, ar_DeviceID := d,
       ar_All := b, ar_TTLSeconds := t\<rparr>)"
  by (simp_all add: cliRequest_def parseDevice_def parseDeviceDelete_def parseDeviceRename_def parseDeviceIssueAuthTicket_def
      parseDeviceList_def parseDeviceExtendExpiry_def flag_simps)

lemma lines_gateways:
  "cliRequest [''gateway'', ''-list''] = Some (zero_adminRequest\<lparr>ar_Action := ''gateway_list''\<rparr>)"
  "\<lbrakk>trimmed w; w \<noteq> []\<rbrakk> \<Longrightarrow> cliRequest [''gateway'', ''-enlist'', w] =
     Some (zero_adminRequest\<lparr>ar_Action := ''gateway_enlist'', ar_GatewayID := w\<rparr>)"
  "\<lbrakk>trimmed w; w \<noteq> []\<rbrakk> \<Longrightarrow> cliRequest [''gateway'', ''-delist'', w] =
     Some (zero_adminRequest\<lparr>ar_Action := ''gateway_delist'', ar_GatewayID := w\<rparr>)"
  by (simp_all add: cliRequest_def parseGateway_def Let_def flag_simps)

lemma lines_exits:
  "trimmed u \<Longrightarrow> cliRequest [''exit-node'', ''list'', ''-u'', u] =
     Some (zero_adminRequest\<lparr>ar_Action := ''exit_node_list'', ar_UserID := u\<rparr>)"
  "\<lbrakk>trimmed u; u \<noteq> []; trimmed n; n \<noteq> []\<rbrakk> \<Longrightarrow> cliRequest [''exit-node'', ''approve'', ''-u'', u, ''-n'', n] =
     Some (zero_adminRequest\<lparr>ar_Action := ''exit_node_approve'', ar_UserID := u, ar_Name := n\<rparr>)"
  "\<lbrakk>trimmed u; trimmed d\<rbrakk> \<Longrightarrow> cliRequest [''exit-node'', ''approve'', ''-u'', u, ''--'', d] =
     Some (zero_adminRequest\<lparr>ar_Action := ''exit_node_approve'', ar_UserID := u, ar_DeviceID := d\<rparr>)"
  "\<lbrakk>trimmed u; u \<noteq> []; trimmed d; d \<noteq> []\<rbrakk> \<Longrightarrow> cliRequest [''exit-node'', ''revoke'', ''-u'', u, ''-d'', d] =
     Some (zero_adminRequest\<lparr>ar_Action := ''exit_node_revoke'', ar_UserID := u, ar_DeviceID := d\<rparr>)"
  by (simp_all add: cliRequest_def parseExitNode_def parseExitNodeList_def parseExitNodeApprove_def parseExitNodeApproval_def
      Let_def flag_simps)

lemma lines_dns:
  "cliRequest [''dnsDomains''] = Some (zero_adminRequest\<lparr>ar_Action := ''dns_domains''\<rparr>)"
  "cliRequest [''version''] = Some (zero_adminRequest\<lparr>ar_Action := ''version''\<rparr>)"
  "\<lbrakk>trimmed d; d \<noteq> []; trimmed g\<rbrakk> \<Longrightarrow> cliRequest [''dnsSnapshot'', ''-d'', d, ''-g'', g] =
     Some (zero_adminRequest\<lparr>ar_Action := ''dns_snapshot'', ar_Domain := d, ar_Group := g\<rparr>)"
  by (simp_all add: cliRequest_def parseDNSDomains_def parseDNSSnapshot_def flag_simps)

lemma lines_debug:
  "\<lbrakk>trimmed n; n \<noteq> []; trimmed u; trimmed g; list_all section_name s\<rbrakk> \<Longrightarrow>
     cliRequest [''collectDebug'', ''-n'', n, ''-u'', u, ''-g'', g, ''-s'', JoinStrings s '','', ''-t'', show_i64 t] =
     Some (zero_adminRequest\<lparr>ar_Action := ''collect_debug'', ar_Name := n, ar_UserID := u, ar_Group := g,
       ar_Sections := s, ar_TimeoutSec := t\<rparr>)"
  "\<lbrakk>trimmed n; n \<noteq> []; trimmed u; trimmed g; list_all section_name s\<rbrakk> \<Longrightarrow>
     cliRequest [''startDebugWatch'', ''-n'', n, ''-u'', u, ''-g'', g, ''-s'', JoinStrings s '','', ''-t'', show_i64 t, ''-d'', show_i64 w] =
     Some (zero_adminRequest\<lparr>ar_Action := ''start_debug_watch'', ar_Name := n, ar_UserID := u, ar_Group := g,
       ar_Sections := s, ar_TimeoutSec := t, ar_DurationSec := w\<rparr>)"
  "\<lbrakk>trimmed n; n \<noteq> []; trimmed u; trimmed g\<rbrakk> \<Longrightarrow>
     cliRequest [''stopDebugWatch'', ''-n'', n, ''-u'', u, ''-g'', g, ''-t'', show_i64 t] =
     Some (zero_adminRequest\<lparr>ar_Action := ''stop_debug_watch'', ar_Name := n, ar_UserID := u, ar_Group := g, ar_TimeoutSec := t\<rparr>)"
  by (simp_all add: cliRequest_def parseCollectDebug_def parseStartDebugWatch_def parseStopDebugWatch_def flag_simps)

lemmas lines = lines_users lines_devices lines_gateways lines_exits lines_dns lines_debug

lemma complete_line: "request_complete req \<Longrightarrow> \<exists>args. cliRequest args = Some req"
proof (induction rule: request_complete.induct)
  case (bare a)
  then show ?case using lines_dns(1,2) lines_gateways(1) by blast
next
  case (gateway a w)
  then show ?case using lines_gateways(2,3) [of w] by blast
next
  case (extend_device_expiry u g d b t)
  then show ?case using lines_devices(5) [of u g d b t] by blast
qed (blast intro: lines)+


end
