(* ===== verification/Admin_Print.thy ===== *)
theory Admin_Print
  imports Admin_CLI
begin

text \<open>
  What \<^verbatim>\<open>cmd/sdl-admin/main.go\<close> prints: tables and blocks of a response, and the program as a whole with its two streams and
  its exit code. The format of local time, JSON and whether a stream is a colour terminal are parameters.
\<close>

section \<open>Style\<close>

definition ansi :: "string \<Rightarrow> string" where
  "ansi code = CHR 0x1B # ''['' @ code @ ''m''"

definition wrap :: "bool \<Rightarrow> string \<Rightarrow> string \<Rightarrow> string" where
  "wrap enabled text code = (if \<not> enabled \<or> text = [] then text else code @ text @ ansi ''0'')"

definition title :: "bool \<Rightarrow> string \<Rightarrow> string" where
  "title enabled text = wrap enabled text (ansi ''1'' @ ansi ''36'')"

definition label :: "bool \<Rightarrow> string \<Rightarrow> string" where
  "label enabled text = wrap enabled text (ansi ''1'')"

definition accent :: "bool \<Rightarrow> string \<Rightarrow> string" where
  "accent enabled text = wrap enabled text (ansi ''36'')"

definition muted :: "bool \<Rightarrow> string \<Rightarrow> string" where
  "muted enabled text = wrap enabled text (ansi ''90'')"

definition tableHeader :: "bool \<Rightarrow> string \<Rightarrow> string" where
  "tableHeader enabled text = wrap enabled text (ansi ''1'' @ ansi ''34'')"

record tableCell =
  tc_raw :: string
  tc_rendered :: string

definition plainCell :: "string \<Rightarrow> tableCell" where
  "plainCell text = \<lparr>tc_raw = text, tc_rendered = text\<rparr>"

definition styledCell :: "string \<Rightarrow> string \<Rightarrow> tableCell" where
  "styledCell raw rendered = \<lparr>tc_raw = raw, tc_rendered = rendered\<rparr>"

definition boolCell :: "bool \<Rightarrow> bool \<Rightarrow> tableCell" where
  "boolCell enabled v =
     (if v then styledCell ''yes'' (wrap enabled ''yes'' (ansi ''32'')) else styledCell ''no'' (wrap enabled ''no'' (ansi ''31'')))"

definition authCell :: "bool \<Rightarrow> string \<Rightarrow> tableCell" where
  "authCell enabled v =
     (if v = ''valid'' then styledCell v (wrap enabled v (ansi ''32''))
      else if v = ''expired'' then styledCell v (wrap enabled v (ansi ''31''))
      else if v = ''-'' then styledCell v (wrap enabled v (ansi ''90''))
      else styledCell v (wrap enabled v (ansi ''33'')))"

definition timeCell :: "bool \<Rightarrow> string \<Rightarrow> tableCell" where
  "timeCell enabled v =
     (if v = ''-'' then styledCell v (wrap enabled v (ansi ''90'')) else styledCell v (wrap enabled v (ansi ''34'')))"

text \<open>The environment and the stream: \<open>device\<close> says that the stream is a file in character mode.\<close>

definition isColorTerminal :: "(string \<Rightarrow> string) \<Rightarrow> bool \<Rightarrow> bool" where
  "isColorTerminal getenv device =
     (if getenv ''NO_COLOR'' \<noteq> [] then False
      else if getenv ''CLICOLOR_FORCE'' \<noteq> [] \<and> getenv ''CLICOLOR_FORCE'' \<noteq> ''0'' then True
      else if getenv ''TERM'' = ''dumb'' then False
      else device)"

section \<open>Formats\<close>

definition valueOrDash :: "string \<Rightarrow> string" where
  "valueOrDash v = (if TrimSpace v = [] then ''-'' else v)"

definition formatAuthState :: "DeviceAdminView \<Rightarrow> string" where
  "formatAuthState device =
     (if dv_AuthExpired device then ''expired'' else if dv_AuthExpireAtUnix device > 0 then ''valid'' else ''-'')"

definition formatCSV :: "string list \<Rightarrow> string" where
  "formatCSV values = (if values = [] then ''-'' else JoinStrings values '','')"

definition formatUnix :: "(int \<Rightarrow> string) \<Rightarrow> int \<Rightarrow> string" where
  "formatUnix local v = (if v \<le> 0 then ''-'' else local v)"

definition formatInt64 :: "int \<Rightarrow> string" where
  "formatInt64 v = (if v = 0 then ''0'' else show_int v)"

definition formatUint64 :: "u64 \<Rightarrow> string" where
  "formatUint64 v = (if v = 0 then ''0'' else show_word v)"

definition nl :: string where "nl = [CHR 0x0A]"

definition RuneCount :: "string \<Rightarrow> nat" where
  "RuneCount s = length (runes s)"

section \<open>Tables and blocks\<close>

definition padCell :: "string \<Rightarrow> nat \<Rightarrow> bool \<Rightarrow> string" where
  "padCell text width isLast =
     text @ replicate (width - RuneCount text) (CHR '' '') @ (if isLast then [] else ''  '')"

definition padRenderedCell :: "tableCell \<Rightarrow> nat \<Rightarrow> bool \<Rightarrow> string" where
  "padRenderedCell cell width isLast =
     tc_rendered cell @ replicate (width - RuneCount (tc_raw cell)) (CHR '' '') @ (if isLast then [] else ''  '')"

text \<open>The loop that widens the columns by the cells of a row, up to the number of columns.\<close>

fun widen :: "nat list \<Rightarrow> tableCell list \<Rightarrow> nat list" where
  "widen (w # ws) (c # cs) = max w (RuneCount (tc_raw c)) # widen ws cs"
| "widen ws [] = ws"
| "widen [] cs = []"

definition columnWidths :: "string list \<Rightarrow> tableCell list list \<Rightarrow> nat list" where
  "columnWidths headers rows = fold (\<lambda>row ws. widen ws row) rows (map RuneCount headers)"

fun headerLine :: "bool \<Rightarrow> nat list \<Rightarrow> string list \<Rightarrow> string" where
  "headerLine enabled (w # ws) (h # hs) = tableHeader enabled (padCell h w (hs = [])) @ headerLine enabled ws hs"
| "headerLine enabled ws hs = []"

fun rowLine :: "nat list \<Rightarrow> tableCell list \<Rightarrow> string" where
  "rowLine (w # ws) (c # cs) = padRenderedCell c w (ws = []) @ rowLine ws cs"
| "rowLine ws cs = []"

definition renderTable :: "bool \<Rightarrow> string list \<Rightarrow> tableCell list list \<Rightarrow> string" where
  "renderTable enabled headers rows =
     (if headers = [] then []
      else let ws = columnWidths headers rows
           in headerLine enabled ws headers @ nl @ concat (map (\<lambda>row. rowLine ws row @ nl) rows))"

definition writeKeyValueBlock :: "bool \<Rightarrow> string \<Rightarrow> (string \<times> string) list \<Rightarrow> string" where
  "writeKeyValueBlock enabled heading pairs =
     title enabled heading @ nl @
     concat (map (\<lambda>(key, v). let l = label enabled (key @ '':'') in
                    ''  '' @ l @ replicate (12 - RuneCount l) (CHR '' '') @ '' '' @ v @ nl) pairs)"

definition tableOr :: "bool \<Rightarrow> string \<Rightarrow> string list \<Rightarrow> tableCell list list \<Rightarrow> string" where
  "tableOr enabled heading headers rows =
     title enabled heading @ nl @ (if rows = [] then muted enabled ''  (none)'' @ nl else renderTable enabled headers rows)"

definition counted_heading :: "string \<Rightarrow> 'a list \<Rightarrow> string" where
  "counted_heading name items = name @ '' ('' @ show_nat (length items) @ '')''"

definition writeGatewayTable :: "(int \<Rightarrow> string) \<Rightarrow> bool \<Rightarrow> GatewayAdminView list \<Rightarrow> string" where
  "writeGatewayTable local enabled gateways =
     tableOr enabled (counted_heading ''Gateways'' gateways)
       [''ID'', ''ENDPOINT'', ''DEFAULT'', ''APPROVED'', ''REPORTED'', ''ALIVE'', ''CAPABILITIES'', ''UPDATED AT'']
       (map (\<lambda>gw. [plainCell (valueOrDash (av_GatewayID gw)), plainCell (valueOrDash (av_Endpoint gw)),
          boolCell enabled (av_Default gw), boolCell enabled (av_Approved gw), boolCell enabled (av_Reported gw),
          boolCell enabled (av_Alive gw), plainCell (formatCSV (av_Capabilities gw)),
          timeCell enabled (formatUnix local (av_UpdatedAtUnix gw))]) gateways)"

definition writeUserTable :: "(int \<Rightarrow> string) \<Rightarrow> bool \<Rightarrow> UMUserAdminView list \<Rightarrow> string" where
  "writeUserTable local enabled users =
     tableOr enabled (counted_heading ''Users'' users) [''USER ID'', ''NAME'', ''EMAIL'', ''GROUP'', ''DOMAIN'', ''CREATED AT'']
       (map (\<lambda>user. [plainCell (valueOrDash (uv_UserID user)), plainCell (valueOrDash (uv_Name user)),
          plainCell (valueOrDash (uv_Email user)), plainCell (valueOrDash (uv_Group user)),
          plainCell (valueOrDash (uv_Domain user)), timeCell enabled (formatUnix local (uv_CreatedAtUnix user))]) users)"

definition writeDeviceTable :: "(int \<Rightarrow> string) \<Rightarrow> bool \<Rightarrow> string \<Rightarrow> DeviceAdminView list \<Rightarrow> string" where
  "writeDeviceTable local enabled heading devices =
     tableOr enabled heading
       [''USER ID'', ''GROUP'', ''NAME'', ''DEVICE ID'', ''VIRTUAL IP'', ''CONTROL'', ''DATA'', ''AUTH'', ''AUTH EXPIRES'', ''UPDATED AT'']
       (map (\<lambda>device. [plainCell (valueOrDash (dv_UserID device)), plainCell (valueOrDash (dv_Group device)),
          plainCell (valueOrDash (dv_Name device)), plainCell (valueOrDash (dv_DeviceID device)),
          plainCell (valueOrDash (dv_VirtualIP device)), boolCell enabled (dv_ControlOnline device),
          boolCell enabled (dv_DataPlaneReachable device), authCell enabled (formatAuthState device),
          timeCell enabled (formatUnix local (dv_AuthExpireAtUnix device)),
          timeCell enabled (formatUnix local (dv_UpdatedAtUnix device))]) devices)"

definition writeExitNodeTable :: "(int \<Rightarrow> string) \<Rightarrow> bool \<Rightarrow> ExitNodeAdminView list \<Rightarrow> string" where
  "writeExitNodeTable local enabled exitNodes =
     tableOr enabled (counted_heading ''Exit nodes'' exitNodes)
       [''USER ID'', ''NAME'', ''DEVICE ID'', ''VIRTUAL IP'', ''APPROVED'', ''READY'', ''USABLE'', ''UPDATED AT'']
       (map (\<lambda>node. [plainCell (valueOrDash (ev_UserID node)), plainCell (valueOrDash (ev_Name node)),
          plainCell (valueOrDash (ev_DeviceID node)), plainCell (valueOrDash (ev_VirtualIP node)),
          boolCell enabled (ev_Approved node), boolCell enabled (ev_Advertised node \<and> ev_LocalReady node),
          boolCell enabled (ev_Usable node), timeCell enabled (formatUnix local (ev_UpdatedAtUnix node))]) exitNodes)"

definition writeDomains :: "bool \<Rightarrow> string list \<Rightarrow> string" where
  "writeDomains enabled domains =
     title enabled (counted_heading ''DNS domains'' domains) @ nl @
     (if domains = [] then muted enabled ''  (none)'' @ nl
      else concat (map (\<lambda>domain. ''  '' @ accent enabled ''-'' @ '' '' @ domain @ nl) domains))"

section \<open>The response\<close>

datatype printed = WholeResponse adminResponse | Snapshot "DNSSnapshotView option" | RawResult string

record print_env =
  pe_local :: "int \<Rightarrow> string"
  pe_json :: "printed \<Rightarrow> string result"
  pe_stdoutColor :: bool
  pe_stderrColor :: bool

text \<open>Updated devices and the devices afterwards.\<close>

definition writeChanged :: "print_env \<Rightarrow> string \<Rightarrow> string \<Rightarrow> adminResponse \<Rightarrow> string" where
  "writeChanged env heading updatedHeading resp =
     (let c = pe_stdoutColor env in
      writeKeyValueBlock c heading [(''Updated Count'', show_nat (rs_UpdatedCount resp))] @
      (if rs_UpdatedDevices resp \<noteq> [] then nl @ writeDeviceTable (pe_local env) c updatedHeading (rs_UpdatedDevices resp) else []) @
      (if rs_Devices resp \<noteq> [] then nl @ writeDeviceTable (pe_local env) c ''Current devices'' (rs_Devices resp) else []))"

text \<open>\<^verbatim>\<open>writeResponse\<close>: the error, and what was written to the two streams.\<close>

definition writeResponse :: "print_env \<Rightarrow> string \<Rightarrow> adminResponse \<Rightarrow> string option \<times> string \<times> string" where
  "writeResponse env action resp =
     (let c = pe_stdoutColor env; local = pe_local env; out = (\<lambda>s. (None, s, []));
          json = (\<lambda>msg v err. case pe_json env v of Inl e \<Rightarrow> (Some (msg @ e), [], err) | Inr s \<Rightarrow> (None, s, err)) in
      if action = ''version'' then out (valueOrDash (rs_Version resp) @ nl)
      else if action = ''create_user''
      then out (writeKeyValueBlock c ''Created user'' [(''User ID'', valueOrDash (rs_UserID resp)),
                  (''Name'', valueOrDash (rs_Name resp)), (''Domain'', valueOrDash (rs_Domain resp))])
      else if action = ''list_users'' then out (writeUserTable local c (rs_Users resp))
      else if action = ''issue_device_ticket''
      then out (writeKeyValueBlock c ''Issued device ticket'' [(''Ticket'', valueOrDash (rs_Ticket resp)),
                  (''Expires At'', formatUnix local (rs_ExpireAtUnix resp)), (''Expire Unix'', formatInt64 (rs_ExpireAtUnix resp))])
      else if action = ''gateway_enlist'' then out (writeKeyValueBlock c ''Gateway enlisted'' [])
      else if action = ''gateway_delist'' then out (writeKeyValueBlock c ''Gateway delisted'' [])
      else if action = ''gateway_list'' then out (writeGatewayTable local c (rs_Gateways resp))
      else if action \<in> {''exit_node_list'', ''exit_node_approve'', ''exit_node_revoke''}
      then out (writeExitNodeTable local c (rs_ExitNodes resp))
      else if action = ''list_device'' then out (writeDeviceTable local c ''Devices'' (rs_Devices resp))
      else if action = ''extend_device_expiry'' then out (writeChanged env ''Extended device expiry'' ''Updated devices'' resp)
      else if action = ''delete_device'' then out (writeChanged env ''Deleted device'' ''Deleted devices'' resp)
      else if action = ''rename_device'' then out (writeChanged env ''Renamed device'' ''Renamed devices'' resp)
      else if action = ''dns_domains'' then out (writeDomains c (rs_Domains resp))
      else if action = ''dns_snapshot'' then json ''encode dns snapshot failed: '' (Snapshot (rs_DNSSnapshot resp)) []
      else if action = ''collect_debug''
      then json ''encode debug result failed: '' (RawResult (rs_DebugResult resp))
             (if TrimSpace (rs_DebugPath resp) \<noteq> []
              then writeKeyValueBlock (pe_stderrColor env) ''Saved debug snapshot'' [(''Path'', rs_DebugPath resp)] else [])
      else if action = ''start_debug_watch''
      then out (writeKeyValueBlock c ''Started debug watch'' [(''Watch ID'', formatUint64 (rs_DebugWatchID resp)),
                  (''Path'', valueOrDash (rs_DebugPath resp))])
      else if action = ''stop_debug_watch''
      then out (writeKeyValueBlock c ''Stopped debug watch'' [(''Watch ID'', formatUint64 (rs_DebugWatchID resp)),
                  (''Path'', valueOrDash (rs_DebugPath resp))])
      else out [])"

section \<open>The program\<close>

definition usageText :: string where
  "usageText = concat (map (\<lambda>line. line @ nl)
     [''usage:'',
      ''  sdl-admin [--socket /tmp/sdl-control-admin.sock] [--json] version'',
      ''  sdl-admin [--socket /tmp/sdl-control-admin.sock] [--json] user create --id/-u user1 [--group/-g sales.ms.net]'',
      ''  sdl-admin [--socket /tmp/sdl-control-admin.sock] [--json] user list [--id/-u 'user-*'] [--name/-n huang]'',
      ''  sdl-admin [--socket /tmp/sdl-control-admin.sock] [--json] device list --id/-u u-1'',
      ''  sdl-admin [--socket /tmp/sdl-control-admin.sock] [--json] device issue-auth-ticket --id/-u u-1 [--group/-g default.ms.net] [--ttl-seconds/-t 300]'',
      ''  sdl-admin [--socket /tmp/sdl-control-admin.sock] [--json] device extend-expiry --id/-u u-1 (--device-id/-d dev-1 | --all) [--group/-g sales.ms.net] [--ttl-seconds/-t 2592000]'',
      ''  sdl-admin [--socket /tmp/sdl-control-admin.sock] [--json] device rename --id/-u u-1 --device-id/-d dev-1 --name/-n node-1 [--group/-g sales.ms.net]'',
      ''  sdl-admin [--socket /tmp/sdl-control-admin.sock] [--json] device delete --id/-u u-1 --device-id/-d dev-1 [--group/-g sales.ms.net]'',
      ''  sdl-admin [--socket /tmp/sdl-control-admin.sock] [--json] gateway --list'',
      ''  sdl-admin [--socket /tmp/sdl-control-admin.sock] [--json] gateway --enlist gw-1'',
      ''  sdl-admin [--socket /tmp/sdl-control-admin.sock] [--json] gateway --delist gw-1'',
      ''  sdl-admin [--socket /tmp/sdl-control-admin.sock] [--json] exit-node list [--id/-u u-1]'',
      ''  sdl-admin [--socket /tmp/sdl-control-admin.sock] [--json] exit-node approve [--id/-u u-1] <device-id>'',
      ''  sdl-admin [--socket /tmp/sdl-control-admin.sock] [--json] exit-node approve --id/-u u-1 --name/-n node-1'',
      ''  sdl-admin [--socket /tmp/sdl-control-admin.sock] [--json] exit-node revoke --id/-u u-1 --device-id/-d dev-1'',
      ''  sdl-admin [--socket /tmp/sdl-control-admin.sock] [--json] dnsDomains'',
      ''  sdl-admin [--socket /tmp/sdl-control-admin.sock] [--json] dnsSnapshot --domain/-d ms.net [--group/-g default]'',
      ''  sdl-admin [--socket /tmp/sdl-control-admin.sock] [--json] collectDebug --name/-n win10-node [--group/-g default.ms.net] [--userId/-u u-1] [--sections/-s runtime,gateway,peers,routes,nat,traffic] [--timeoutSec/-t 10]'',
      ''  sdl-admin [--socket /tmp/sdl-control-admin.sock] [--json] startDebugWatch --name/-n win10-node [--group/-g default.ms.net] [--userId/-u u-1] [--sections/-s all,gateway,icmp,punch,route,runtime] [--durationSec/-d 300] [--timeoutSec/-t 10]'',
      ''  sdl-admin [--socket /tmp/sdl-control-admin.sock] [--json] stopDebugWatch --name/-n win10-node [--group/-g default.ms.net] [--userId/-u u-1] [--timeoutSec/-t 10]''])"

record cli_result =
  cx_code :: nat
  cx_stdout :: string
  cx_stderr :: string

definition fatalUsage :: cli_result where
  "fatalUsage = \<lparr>cx_code = 2, cx_stdout = [], cx_stderr = usageText\<rparr>"

definition failWith :: "string \<Rightarrow> cli_result" where
  "failWith msg = \<lparr>cx_code = 1, cx_stdout = [], cx_stderr = msg @ nl\<rparr>"

definition cliMain :: "cli_env \<Rightarrow> print_env \<Rightarrow> string list \<Rightarrow> cli_result" where
  "cliMain env penv argv =
     (case cliParse (ci_socket env) argv of
        None \<Rightarrow> fatalUsage
      | Some (socket, jsonOutput, req) \<Rightarrow>
          (case call env socket req of
             Inl msg \<Rightarrow> failWith msg
           | Inr resp \<Rightarrow>
               if jsonOutput
               then (case pe_json penv (WholeResponse resp) of
                       Inl err \<Rightarrow> failWith (''encode response failed: '' @ err)
                     | Inr s \<Rightarrow> \<lparr>cx_code = (if rs_OK resp then 0 else 1), cx_stdout = s, cx_stderr = []\<rparr>)
               else if \<not> rs_OK resp then failWith (''admin error: '' @ rs_Error resp)
               else (case writeResponse penv (ar_Action req) resp of
                       (Some err, out, diag) \<Rightarrow> \<lparr>cx_code = 1, cx_stdout = out, cx_stderr = diag @ err @ nl\<rparr>
                     | (None, out, diag) \<Rightarrow> \<lparr>cx_code = 0, cx_stdout = out, cx_stderr = diag\<rparr>)))"

end
