(* ===== verification/Spec2Isabelle.thy ===== *)
theory Spec2Isabelle
  imports User_Names Punch_Facts Gateway_Facts Control_Facts Dns Server_Facts Admin_Facts Postgres_Store Exit_Store Startup
    Admin_CLI_Facts Admin_Print
begin

text \<open>
  A verification library of sdl-control, the control plane of virtual networks. Devices open control sessions to the
  server, authenticate, register in the network of their group and receive an address; the server tells them about
  their peers, brings two peers together for hole punching and hands out signed grants for gateways. Operators work over a
  unix socket or HTTP, with the program \<^verbatim>\<open>sdl-admin\<close>. State is kept in memory and saved to files or to a Postgres database.

  \<^bold>\<open>Parts of the program and their theories\<close> (file names under \<^verbatim>\<open>src/\<close>)

  \<^item> \<open>SDL_Prelude\<close>, \<open>Std_Net\<close>: what the program uses of Go and its standard library: maps, strings, runes, integers and
    their texts, times, addresses and their parsers; the shared lemmas and the collections of simplification rules.
  \<^item> \<open>Net_Addr\<close> (\<^verbatim>\<open>util/utils.go\<close>), \<open>Packet\<close> (\<^verbatim>\<open>protocol\<close>, and the framing of \<^verbatim>\<open>handlers/quic.go\<close>): addresses as words, the
    header of packets bit by bit, payloads, and how frames are cut out of a byte stream.
  \<^item> \<open>Expire_Map\<close> (\<^verbatim>\<open>control/expire_map.go\<close>): the map with deadlines, its janitor, and the race of \<^verbatim>\<open>Get\<close>.
  \<^item> \<open>Control_Types\<close>, \<open>Network\<close>, \<open>Admission\<close> (\<^verbatim>\<open>control/ip.go\<close>, \<^verbatim>\<open>control/network.go\<close>): clients and networks, network
    identity, assignment of addresses, joining and leaving; the invariant of a network.
  \<^item> \<open>User_Manager\<close>, \<open>User_Facts\<close>, \<open>User_Names\<close> (\<^verbatim>\<open>control/user.go\<close>): users, enrollments, tickets, authenticated devices and
    their names, snapshots and restore.
  \<^item> \<open>Config\<close> (\<^verbatim>\<open>config/config.go\<close>): validation and the network of a group.
  \<^item> \<open>Punch\<close>, \<open>Punch_Facts\<close> (\<^verbatim>\<open>control/punch.go\<close>): the state machine of hole punching.
  \<^item> \<open>Gateway\<close>, \<open>Gateway_Facts\<close> (\<^verbatim>\<open>control/gateway.go\<close>): signed reports, approval, grants and their cache.
  \<^item> \<open>Controller\<close>, \<open>Device_Auth\<close>, \<open>Auth_Facts\<close>, \<open>Registration\<close>, \<open>Device_Views\<close>, \<open>Push\<close>, \<open>Control_Facts\<close>, \<open>Dns\<close>
    (\<^verbatim>\<open>control/controller.go\<close>, \<^verbatim>\<open>controller_user.go\<close>, \<^verbatim>\<open>registration.go\<close>, \<^verbatim>\<open>exit_node.go\<close>, \<^verbatim>\<open>device_list.go\<close>, \<^verbatim>\<open>dns.go\<close>,
    \<^verbatim>\<open>dns_proxy.go\<close>): the record \<open>Controller\<close> holds the state of all the components above; the handlers of the packets
    of clients are functions on it.
  \<^item> \<open>Debug\<close>, \<open>Debug_Store\<close>, \<open>Debug_Facts\<close> (\<^verbatim>\<open>control/debug_collect.go\<close>, \<^verbatim>\<open>debug_watch.go\<close>, \<^verbatim>\<open>debug_store.go\<close>): requests to a
    device on whose answer an operator waits, and the files of the answers.
  \<^item> \<open>Stream_Hub\<close>, \<open>Session\<close>, \<open>Session_Facts\<close>, \<open>Server_Facts\<close> (\<^verbatim>\<open>handlers/quic.go\<close>): the table of open sessions, the
    dispatch of one frame, and the running server as a step relation \<open>sys_step\<close> over sessions, operators and debug requests.
  \<^item> \<open>Admin\<close>, \<open>Admin_Facts\<close> (\<^verbatim>\<open>handlers/admin_*.go\<close>): every action of operators, the unix socket and HTTP.
  \<^item> \<open>Stores\<close>, \<open>Postgres_Store\<close>, \<open>Exit_Store\<close>, \<open>Migrations\<close> (\<^verbatim>\<open>control/user_store.go\<close>, \<^verbatim>\<open>gateway_store.go\<close>,
    \<^verbatim>\<open>user_store_postgres.go\<close>, \<^verbatim>\<open>control/store\<close>): the files and tables that outlive the process.
  \<^item> \<open>Admin_CLI\<close>, \<open>Admin_CLI_Facts\<close>, \<open>Admin_Print\<close> (\<^verbatim>\<open>cmd/sdl-admin/main.go\<close>): parsing of the command line, the exchange with
    the server, the printed tables and the exit code. This theory connects the program to the server.
  \<^item> \<open>Startup\<close> (\<^verbatim>\<open>main.go\<close>, \<^verbatim>\<open>handlers/http3.go\<close>, \<^verbatim>\<open>ws.go\<close>, \<^verbatim>\<open>status.go\<close>): what has to hold before the server serves.

  \<^bold>\<open>How code is written\<close>

  A struct is a record with its fields under a short prefix, an operation a function with its name, returning its results
  and the state after it; an error is the left side of a sum, with the text of the code. A handler that may panic or not
  return has an option type, and \<open>None\<close> is the panic or the loop that does not end. Machine integers keep their width. A Go
  map is an association list with one entry for each key, whose order stands for any order of iteration; no property assumes
  one. A handler runs at one instant \<open>now\<close> and, as in the code, under the locks of its component; where a handler takes a
  lock twice it is split, and the interleaving is modelled (\<^verbatim>\<open>Get\<close> of the expiring map, \<^verbatim>\<open>AuthDevice\<close>, the waits for debug
  answers). \<^verbatim>\<open>ToLower\<close> and \<^verbatim>\<open>EqualFold\<close> are those of ASCII.

  Parameters stand for what is not in the repository: the codec of protobuf messages and JSON, SHA-256, HMAC and Ed25519,
  random bytes, the transport, the exchange with the name server, the verb \<^verbatim>\<open>%q\<close>, reads of certificates and the clock. The file system and the database are
  explicit states, and every call to them takes its fault from a parameter, so the properties of stores hold for every
  pattern of failures. The precision with which the database keeps times is a parameter too.

  \<^bold>\<open>Interfaces\<close>

  \<^item> \<open>expiring_map\<close>, interpreted on the map of \<open>Expire_Map\<close>: a history of operations returns what a table of values with
    deadlines returns.
  \<^item> \<open>address_table\<close> and its extension \<open>guarded_table\<close>, interpreted on networks: one address for each device, and every
    entry fits the settings of the table. Registration, leaving and removal use them.
  \<^item> \<open>route_table\<close>, interpreted on the stream hub: its three maps implement one map from routes to sessions.
  \<^item> \<open>snapshot_store\<close>, interpreted on the JSON files of users and gateways, on the tables of Postgres, and on the user manager
    saved to them: after any saves, loading gives the last one that succeeded.

  \<^bold>\<open>What the lemmas show\<close>

  The invariants (\<open>um_wf\<close>, \<open>net_ok\<close>, \<open>nc_ok\<close>, \<open>gw_wf\<close>, \<open>hub_ok\<close>, \<open>sys_ok\<close>) hold in every reachable state, of each component
  and of the running server. From them: a registration succeeds only for an authenticated device and its key; networks are
  isolated, also for pushed packets, hole punching and debug requests; tickets, challenges and gateway reports are used once;
  grants are for approved gateways that are alive; device lists, deletions and time-outs touch exactly what they should.
  Round trips: packets, frames, signed payloads, snapshots, files and tables. Termination: the search for addresses, the
  loops of identifiers and debug answers return. Persistence: a restart resumes the last successful save; migrations are
  applied in order, once and as a whole. Operators: the token guards HTTP, command lines express exactly the complete
  requests, and the exit code tells the outcome. The lemmas that exhibit a defect of the code say so in their text.

  \<^bold>\<open>Bounds\<close>

  There is no fuel. Loops over data are structural recursions or have a measure (framing consumes its buffer, flags their
  arguments). The three loops that the code does not bound, the scan for a free address, for a free user identifier and for
  a free display name, are partial functions into an option, and that they return is proved: the scan runs over the addresses
  of a network, the identifiers are found while there are fewer than $2^{64}$ users, and the names of a network are finite.
  The database is tried twenty times, as in the code.

  \<^bold>\<open>Not modelled\<close>

  The QUIC, HTTP and TLS listeners and their shutdown (\<^verbatim>\<open>handlers/http.go\<close> and the rest of \<^verbatim>\<open>quic.go\<close> and \<^verbatim>\<open>http3.go\<close>), log
  output and formatting for it, the generated messages of \<^verbatim>\<open>protocol/pb\<close>, the SQL driver and the server of the database (tables
  are keyed by their primary keys, scripts of migrations are opaque), the query for the profiles of web users, and the
  messages that the Go package \<^verbatim>\<open>flag\<close> writes itself. These are input and output, or code outside the repository.
\<close>

section \<open>The command line and the server\<close>

text \<open>
  \<^verbatim>\<open>sdl-admin\<close> connected to \<^verbatim>\<open>handleAdminConn\<close> over the socket: what is read back is the answer to the line that was
  written, as \<open>respond\<close> encodes it. A request that waits for a device has no answer yet.
\<close>

definition connected ::
    "cli_env \<Rightarrow> admin_env \<Rightarrow> (string \<Rightarrow> adminRequest result) \<Rightarrow> (adminResponse \<Rightarrow> string) \<Rightarrow> gtime \<Rightarrow> server \<Rightarrow> cli_env" where
  "connected cli env parse respond now sv =
     cli\<lparr>ci_dial := (\<lambda>_. None), ci_write := (\<lambda>_. None),
       ci_read := (\<lambda>line. case handleAdminConn env parse now (Inr line) sv of
                     (Answered resp, _, _) \<Rightarrow> Inr (respond resp)
                   | _ \<Rightarrow> Inl ''EOF'')\<rparr>"

lemma handleAdminConn_line:
  "parse (text @ [c]) = Inr req \<Longrightarrow> handleAdminConn env parse now (Inr (text @ [c])) sv = executeAdminRequest env now req sv"
  by (simp add: handleAdminConn_def)

lemma call_connected:
  assumes "parse (ci_encode cli req @ [CHR 0x0A]) = Inr req"
    and "executeAdminRequest env now req sv = (Answered resp, delivered, sv')" and "ci_decode cli (respond resp) = Inr resp"
  shows "call (connected cli env parse respond now sv) socket req = Inr resp"
  using assms by (simp add: call_def connected_def handleAdminConn_line)

lemma writeResponse_prints:
  assumes "\<forall>v. \<exists>s. pe_json penv v = Inr s"
  shows "\<exists>out diag. writeResponse penv action resp = (None, out, diag)"
proof -
  obtain js where "pe_json penv = (\<lambda>v. Inr (js v))" using assms by metis
  then show ?thesis by (simp add: writeResponse_def Let_def)
qed

lemma cliParse_complete: "cliParse env argv = Some (socket, json, req) \<Longrightarrow> request_complete req"
  by (auto simp: cliParse_def parsed_complete split: option.splits)

text \<open>
  C10: an operator who runs \<^verbatim>\<open>sdl-admin\<close> against the server gets what the server did. When the arguments parse to a request
  and the encodings of this request and of its answer are read back as written, the request is a complete one, the server
  executes exactly it and moves by its own steps, and the exit code is 0 if and only if the server reports success; a
  refusal is shown with its reason, or as the whole answer with \<^verbatim>\<open>--json\<close>. Arguments that do not parse exit with 2.
\<close>

theorem operator_commands:
  assumes "parse (ci_encode cli req @ [CHR 0x0A]) = Inr req" and "ci_decode cli (respond resp) = Inr resp"
    and "\<forall>v. \<exists>s. pe_json penv v = Inr s"
    and "executeAdminRequest env now req (sy_server sy) = (Answered resp, delivered, sv')"
    and "cliMain (connected cli env parse respond now (sy_server sy)) penv argv = result"
  shows "case cliParse (ci_socket cli) argv of
     None \<Rightarrow> cx_code result = 2 \<and> cx_stdout result = []
   | Some (socket, json, sent) \<Rightarrow> request_complete sent \<and>
       (sent = req \<longrightarrow>
         (sys_step (ae_server env))\<^sup>*\<^sup>* sy (sy\<lparr>sy_server := sv'\<rparr>) \<and>
         (cx_code result = 0 \<longleftrightarrow> rs_OK resp) \<and>
         (json \<longrightarrow> pe_json penv (WholeResponse resp) = Inr (cx_stdout result)) \<and>
         (\<not> rs_OK resp \<and> \<not> json \<longrightarrow> result = failWith (''admin error: '' @ rs_Error resp)))"
proof (cases "cliParse (ci_socket cli) argv")
  case None
  then show ?thesis using assms(5) by (auto simp: cliMain_def connected_def fatalUsage_def)
next
  case (Some p)
  obtain socket json sent where p: "p = (socket, json, sent)" by (cases p)
  have "(sys_step (ae_server env))\<^sup>*\<^sup>* sy (sy\<lparr>sy_server := sv'\<rparr>)"
    using executeAdminRequest_ok [of env "sy_server sy" now req] assms(4) by (simp add: request_ok_def serves_def)
  moreover have "(cx_code result = 0 \<longleftrightarrow> rs_OK resp) \<and> (json \<longrightarrow> pe_json penv (WholeResponse resp) = Inr (cx_stdout result)) \<and>
      (\<not> rs_OK resp \<and> \<not> json \<longrightarrow> result = failWith (''admin error: '' @ rs_Error resp))" if eq: "sent = req"
  proof -
    have c: "call (connected cli env parse respond now (sy_server sy)) socket req = Inr resp"
      using assms(1,4,2) by (rule call_connected)
    have s: "cliParse (ci_socket (connected cli env parse respond now (sy_server sy))) argv = Some (socket, json, req)"
      using Some p eq by (simp add: connected_def)
    obtain out diag where w: "writeResponse penv (ar_Action req) resp = (None, out, diag)"
      using writeResponse_prints [OF assms(3)] by blast
    obtain js where j: "pe_json penv (WholeResponse resp) = Inr js" using assms(3) by blast
    show ?thesis unfolding assms(5) [symmetric] by (simp add: cliMain_def s c w j failWith_def)
  qed
  ultimately show ?thesis using Some p cliParse_complete by auto
qed

text \<open>A user is created; the encodings know this request and its answer only.\<close>

definition sample_answer :: adminResponse where
  "sample_answer = (case fst (executeAdminRequest sample_admin 5 sample_create sample_booted) of
     Answered resp \<Rightarrow> resp | _ \<Rightarrow> errorResponse [])"

definition sample_cli :: cli_env where
  "sample_cli = \<lparr>ci_socket = [], ci_dial = (\<lambda>_. Some ''refused''), ci_encode = (\<lambda>_. ''{}''), ci_write = (\<lambda>_. None),
     ci_read = (\<lambda>_. Inl ''EOF''), ci_decode = (\<lambda>_. Inr sample_answer)\<rparr>"

definition sample_print :: print_env where
  "sample_print = \<lparr>pe_local = (\<lambda>_. ''now''), pe_json = (\<lambda>_. Inr ''{}''), pe_stdoutColor = False, pe_stderrColor = False\<rparr>"

lemma sample_answered:
  "case fst (executeAdminRequest sample_admin 5 sample_create sample_booted) of Answered resp \<Rightarrow> rs_OK resp | _ \<Rightarrow> False"
  by code_simp

theorem operator_commands_witness:
  "cx_code (cliMain (connected sample_cli sample_admin (\<lambda>_. Inr sample_create) (\<lambda>_. ''{}'') 5 sample_booted) sample_print
     [''user'', ''create'', ''-u'', ''sdl-7'', ''-g'', ''dev.ms.net'']) = 0 \<and> request_complete sample_create"
proof -
  obtain resp delivered sv' where r: "executeAdminRequest sample_admin 5 sample_create sample_booted = (Answered resp, delivered, sv')"
      and ok: "rs_OK resp"
    using sample_answered by (cases "executeAdminRequest sample_admin 5 sample_create sample_booted") (auto split: outcome.splits)
  have e: "executeAdminRequest sample_admin 5 sample_create (sy_server (booted sample_start sample_fs)) = (Answered resp, delivered, sv')"
    using r by (simp add: sample_booted_def)
  have d: "ci_decode sample_cli ((\<lambda>_. ''{}'') resp) = Inr resp" by (simp add: sample_cli_def sample_answer_def r)
  have p: "\<forall>v. \<exists>s. pe_json sample_print v = Inr s" by (simp add: sample_print_def)
  have "cliParse (ci_socket sample_cli) [''user'', ''create'', ''-u'', ''sdl-7'', ''-g'', ''dev.ms.net''] =
      Some (''/tmp/sdl-control-admin.sock'', False, sample_create)" by code_simp
  with operator_commands [where parse = "\<lambda>_. Inr sample_create" and respond = "\<lambda>_. ''{}''" and
      argv = "[''user'', ''create'', ''-u'', ''sdl-7'', ''-g'', ''dev.ms.net'']", OF refl d p e refl] ok
  show ?thesis by (simp add: sample_booted_def)
qed

end
